(* ===== verification/Prelude.thy ===== *)
theory Prelude
  imports Main "HOL-Library.Word"
begin

text \<open>
  The prelude of the development: the types that stand for Go's machine data (bytes, byte
  slices, unsigned 64-bit integers), the outcome of a Go call (a value, an error value or a
  run-time panic), positional numerals, and the generic lemmas on lists, numerals and words
  that the component theories share.

  Conventions. A byte is an \<open>8 word\<close>; a \<open>[]byte\<close> is a list of them; a Go
  \<open>string\<close> is a \<open>string\<close> (a list of 8-bit characters). A \<open>uint64\<close> is a
  natural number below \<open>2^64\<close> and its arithmetic is written with the wrap-around of
  \<open>u64_add\<close>, \<open>u64_sub\<close> and \<open>u64_mul\<close>. A \<open>*big.Int\<close> is an \<open>int\<close>.
\<close>

named_theorems outcome_simps "elimination of the outcome combinators"
named_theorems numeral_laws "laws of positional numerals"
named_theorems slice_laws "laws of Go slices"

section \<open>Go data\<close>

type_synonym byte = "8 word"
type_synonym bytes = "8 word list"

datatype ('e, 'a) outcome = Ret 'a | Err 'e | Panic

text \<open>Sequencing: an error or a panic stops the computation.\<close>

fun obind :: "('e, 'a) outcome \<Rightarrow> ('a \<Rightarrow> ('e, 'b) outcome) \<Rightarrow> ('e, 'b) outcome" where
  "obind (Ret a) f = f a"
| "obind (Err e) f = Err e"
| "obind Panic f = Panic"

text \<open>A sequence of calls over the elements of a list, stopped by the first failure.\<close>

fun omap :: "('a \<Rightarrow> ('e, 'b) outcome) \<Rightarrow> 'a list \<Rightarrow> ('e, 'b list) outcome" where
  "omap f [] = Ret []"
| "omap f (x # xs) = obind (f x) (\<lambda>y. obind (omap f xs) (\<lambda>ys. Ret (y # ys)))"

lemma obind_Ret_iff [outcome_simps]:
  "obind m f = Ret b \<longleftrightarrow> (\<exists>a. m = Ret a \<and> f a = Ret b)"
  by (cases m) auto

lemma obind_Panic_iff [outcome_simps]:
  "obind m f = Panic \<longleftrightarrow> m = Panic \<or> (\<exists>a. m = Ret a \<and> f a = Panic)"
  by (cases m) auto

lemma obind_Err_iff [outcome_simps]:
  "obind m f = Err e \<longleftrightarrow> m = Err e \<or> (\<exists>a. m = Ret a \<and> f a = Err e)"
  by (cases m) auto

lemma obind_assoc [outcome_simps]: "obind (obind m f) g = obind m (\<lambda>a. obind (f a) g)"
  by (cases m) auto

lemma omap_Ret_cong:
  "(\<And>x. x \<in> set xs \<Longrightarrow> f x = Ret (g x)) \<Longrightarrow> omap f xs = Ret (map g xs)"
  by (induction xs) auto

lemma omap_Ret_length: "omap f xs = Ret ys \<Longrightarrow> length ys = length xs"
  by (induction xs arbitrary: ys) (auto simp: outcome_simps)

text \<open>
  Sequencing of calls that also write a state. The state is kept when a call fails: what was
  written before the failure stays written.
\<close>

type_synonym ('s, 'e, 'a) stateful = "'s \<Rightarrow> ('e, 'a) outcome \<times> 's"

definition sret :: "'a \<Rightarrow> ('s, 'e, 'a) stateful" where
  "sret a s = (Ret a, s)"

definition sbind :: "('s, 'e, 'a) stateful \<Rightarrow> ('a \<Rightarrow> ('s, 'e, 'b) stateful) \<Rightarrow> ('s, 'e, 'b) stateful" where
  "sbind m f s = (case m s of (Ret a, s') \<Rightarrow> f a s' | (Err e, s') \<Rightarrow> (Err e, s') | (Panic, s') \<Rightarrow> (Panic, s'))"

definition slift :: "('e, 'a) outcome \<Rightarrow> ('s, 'e, 'a) stateful" where
  "slift r s = (r, s)"

definition sguard :: "bool \<Rightarrow> 'e \<Rightarrow> ('s, 'e, unit) stateful" where
  "sguard b e s = (if b then Ret () else Err e, s)"

definition supd :: "('s \<Rightarrow> 's) \<Rightarrow> ('s, 'e, unit) stateful" where
  "supd f s = (Ret (), f s)"

definition sget :: "('s \<Rightarrow> ('s, 'e, 'a) stateful) \<Rightarrow> ('s, 'e, 'a) stateful" where
  "sget f s = f s s"

text \<open>A call whose error the caller looks at instead of returning it.\<close>

definition stry :: "('s, 'e, 'a) stateful \<Rightarrow> ('s, 'f, 'e + 'a) stateful" where
  "stry m s = (case m s of (Ret a, s') \<Rightarrow> (Ret (Inr a), s') | (Err e, s') \<Rightarrow> (Ret (Inl e), s') | (Panic, s') \<Rightarrow> (Panic, s'))"

lemma stry_iff [outcome_simps]:
  "stry m s = (Ret (Inr a), s') \<longleftrightarrow> m s = (Ret a, s')"
  "stry m s = (Ret (Inl e), s') \<longleftrightarrow> m s = (Err e, s')"
  "stry m s = (Panic, s') \<longleftrightarrow> m s = (Panic, s')"
  "stry m s \<noteq> (Err f, s')"
  by (auto simp: stry_def split: prod.splits outcome.splits)

lemma sbind_Ret_iff [outcome_simps]:
  "sbind m f s = (Ret b, s'') \<longleftrightarrow> (\<exists>a s'. m s = (Ret a, s') \<and> f a s' = (Ret b, s''))"
  by (auto simp: sbind_def split: prod.splits outcome.splits)

lemma sbind_Panic_iff [outcome_simps]:
  "sbind m f s = (Panic, s'') \<longleftrightarrow> m s = (Panic, s'') \<or> (\<exists>a s'. m s = (Ret a, s') \<and> f a s' = (Panic, s''))"
  by (auto simp: sbind_def split: prod.splits outcome.splits)

lemma sstep_iff [outcome_simps]:
  "sret a s = (Ret b, s') \<longleftrightarrow> b = a \<and> s' = s"
  "slift r s = (q, s') \<longleftrightarrow> r = q \<and> s' = s"
  "sguard c e s = (Ret u, s') \<longleftrightarrow> c \<and> s' = s"
  "supd g s = (Ret u, s') \<longleftrightarrow> s' = g s"
  "sget h s = h s s"
  by (auto simp: sret_def slift_def sguard_def supd_def sget_def)

text \<open>A stateful call leaves a part of the state as it is, whatever its outcome.\<close>

definition skeeps :: "('s \<Rightarrow> 'b) \<Rightarrow> ('s, 'e, 'a) stateful \<Rightarrow> bool" where
  "skeeps sel m \<longleftrightarrow> (\<forall>s. sel (snd (m s)) = sel s)"

lemma skeepsD: "skeeps sel m \<Longrightarrow> m s = (r, s') \<Longrightarrow> sel s' = sel s"
  by (metis skeeps_def snd_conv)

lemma skeeps_sbind:
  assumes "skeeps sel m" and "\<And>a. skeeps sel (f a)"
  shows "skeeps sel (sbind m f)"
  unfolding skeeps_def
proof
  fix s
  show "sel (snd (sbind m f s)) = sel s"
    using skeepsD [OF assms(1), of s] skeepsD [OF assms(2)]
    by (cases "m s"; cases "fst (m s)") (auto simp: sbind_def, metis prod.collapse)
qed

lemma skeeps_steps:
  "skeeps sel (sret a)" "skeeps sel (slift r)" "skeeps sel (sguard c e)"
  by (simp_all add: skeeps_def sret_def slift_def sguard_def)

lemma skeeps_stry: "skeeps sel m \<Longrightarrow> skeeps sel (stry m)"
  unfolding skeeps_def stry_def by (auto split: prod.splits outcome.splits) (metis snd_conv)+

lemma skeeps_supd: "(\<And>s. sel (g s) = sel s) \<Longrightarrow> skeeps sel (supd g)"
  by (simp add: skeeps_def supd_def)

lemma skeeps_sget: "(\<And>s. skeeps sel (f s)) \<Longrightarrow> skeeps sel (sget f)"
  by (simp add: skeeps_def sget_def)

lemmas skeeps_intros = skeeps_sbind skeeps_steps skeeps_stry skeeps_supd skeeps_sget

text \<open>
  How a stateful call changes the state, whatever its outcome: \<open>sfrom P R m\<close> says that from a
  state with \<open>P\<close> the state after \<open>m\<close> is related by \<open>R\<close>. When \<open>R\<close> is reflexive and
  transitive the calls of a sequence can be looked at one by one.
\<close>

definition sfrom :: "('s \<Rightarrow> bool) \<Rightarrow> ('s \<Rightarrow> 's \<Rightarrow> bool) \<Rightarrow> ('s, 'e, 'a) stateful \<Rightarrow> bool" where
  "sfrom P R m \<longleftrightarrow> (\<forall>s. P s \<longrightarrow> R s (snd (m s)))"

abbreviation srel :: "('s \<Rightarrow> 's \<Rightarrow> bool) \<Rightarrow> ('s, 'e, 'a) stateful \<Rightarrow> bool" where
  "srel \<equiv> sfrom (\<lambda>_. True)"

lemma sfromD: "sfrom P R m \<Longrightarrow> P s \<Longrightarrow> m s = (r, s') \<Longrightarrow> R s s'"
  by (metis sfrom_def snd_conv)

lemma sfrom_weaken: "sfrom Q R m \<Longrightarrow> (\<And>s. P s \<Longrightarrow> Q s) \<Longrightarrow> sfrom P R m"
  by (simp add: sfrom_def)

lemma sfrom_srel: "srel R m \<Longrightarrow> sfrom P R m"
  by (simp add: sfrom_def)

locale evolution =
  fixes R :: "'s \<Rightarrow> 's \<Rightarrow> bool"
  assumes R_refl: "R s s"
    and R_trans: "R s t \<Longrightarrow> R t u \<Longrightarrow> R s u"
begin

lemma sfrom_sbind:
  assumes "sfrom P R m" and "\<And>s a s'. P s \<Longrightarrow> m s = (Ret a, s') \<Longrightarrow> Q a s'" and "\<And>a. sfrom (Q a) R (f a)"
  shows "sfrom P R (sbind m f)"
  unfolding sfrom_def
proof (intro allI impI)
  fix s assume P: "P s"
  obtain r t where m: "m s = (r, t)" by fastforce
  have R: "R s t" using sfromD [OF assms(1) P m] .
  show "R s (snd (sbind m f s))"
  proof (cases r)
    case (Ret a)
    then have "R t (snd (f a t))" using assms(2) [OF P] assms(3) m by (auto simp: sfrom_def)
    with R Ret m show ?thesis by (simp add: sbind_def) (rule R_trans)
  qed (use R m in \<open>simp_all add: sbind_def\<close>)
qed

lemma srel_sbind: "srel R m \<Longrightarrow> (\<And>a. srel R (f a)) \<Longrightarrow> srel R (sbind m f)"
  by (rule sfrom_sbind [where Q = "\<lambda>_ _. True"]) auto

lemma sfrom_steps: "sfrom P R (sret a)" "sfrom P R (slift r)" "sfrom P R (sguard c e)"
  by (simp_all add: sfrom_def sret_def slift_def sguard_def R_refl)

lemma sfrom_stry: "sfrom P R m \<Longrightarrow> sfrom P R (stry m)"
  unfolding sfrom_def stry_def by (auto split: prod.splits outcome.splits)

lemma srel_sget: "(\<And>s. srel R (f s)) \<Longrightarrow> srel R (sget f)"
  by (simp add: sfrom_def sget_def)

lemma srel_if: "(b \<Longrightarrow> srel R m) \<Longrightarrow> (\<not> b \<Longrightarrow> srel R m') \<Longrightarrow> srel R (if b then m else m')"
  by simp

lemma srel_sum: "(\<And>x. srel R (f x)) \<Longrightarrow> (\<And>y. srel R (g y)) \<Longrightarrow> srel R (case z of Inl x \<Rightarrow> f x | Inr y \<Rightarrow> g y)"
  by (cases z) auto

lemma srel_option: "srel R m \<Longrightarrow> (\<And>x. srel R (f x)) \<Longrightarrow> srel R (case z of None \<Rightarrow> m | Some x \<Rightarrow> f x)"
  by (cases z) auto

lemma srel_prod: "(\<And>x y. srel R (f x y)) \<Longrightarrow> srel R (case z of (x, y) \<Rightarrow> f x y)"
  by (cases z) auto

lemmas srel_intros = srel_sbind sfrom_steps sfrom_stry srel_sget srel_if srel_sum srel_option srel_prod

end

text \<open>Keeping a part of the state, as above, is the evolution with equality of that part.\<close>

interpretation keeping: evolution "\<lambda>s s'. sel s' = sel s"
  by unfold_locales auto

lemma skeeps_iff_srel: "skeeps sel m \<longleftrightarrow> srel (\<lambda>s s'. sel s' = sel s) m"
  by (simp add: skeeps_def sfrom_def)

section \<open>Unsigned 64-bit arithmetic\<close>

definition W64 :: nat where
  "W64 = 18446744073709551616"

definition u64_add :: "nat \<Rightarrow> nat \<Rightarrow> nat" where
  "u64_add a b = (a + b) mod W64"

definition u64_sub :: "nat \<Rightarrow> nat \<Rightarrow> nat" where
  "u64_sub a b = (a + (W64 - b mod W64)) mod W64"

definition u64_mul :: "nat \<Rightarrow> nat \<Rightarrow> nat" where
  "u64_mul a b = (a * b) mod W64"

text \<open>The conversion \<open>int(x)\<close> of a \<open>uint64\<close>: two's complement.\<close>

definition int_of_u64 :: "nat \<Rightarrow> int" where
  "int_of_u64 n = (if n < 9223372036854775808 then int n else int n - int W64)"

text \<open>The wrap-around of a signed 64-bit result.\<close>

definition i64 :: "int \<Rightarrow> int" where
  "i64 x = (x + 9223372036854775808) mod 18446744073709551616 - 9223372036854775808"

lemma i64_exact [simp]: "- 9223372036854775808 \<le> x \<Longrightarrow> x < 9223372036854775808 \<Longrightarrow> i64 x = x"
  by (simp add: i64_def)

lemma W64_pos [simp]: "0 < W64"
  by (simp add: W64_def)

lemma W64_power: "W64 = 256 ^ 8"
  by (simp add: W64_def)

lemma u64_add_exact [simp]: "a + b < W64 \<Longrightarrow> u64_add a b = a + b"
  by (simp add: u64_add_def)

lemma u64_mul_exact [simp]: "a * b < W64 \<Longrightarrow> u64_mul a b = a * b"
  by (simp add: u64_mul_def)

lemma u64_sub_exact [simp]:
  assumes "b \<le> a" and "a < W64"
  shows "u64_sub a b = a - b"
proof -
  from assms have "b mod W64 = b" by simp
  with assms have "a + (W64 - b mod W64) = (a - b) + W64" by linarith
  moreover have "((a - b) + W64) mod W64 = a - b"
    using assms by (subst mod_add_self2) (rule mod_less, linarith)
  ultimately show ?thesis by (simp only: u64_sub_def)
qed

lemma u64_add_lt [simp]: "u64_add a b < W64"
  by (simp add: u64_add_def)

lemma u64_sub_lt [simp]: "u64_sub a b < W64"
  by (simp add: u64_sub_def)

lemma u64_mul_lt [simp]: "u64_mul a b < W64"
  by (simp add: u64_mul_def)

section \<open>Slices\<close>

text \<open>\<open>xs[s:e]\<close>: a panic unless \<open>s \<le> e \<le> len(xs)\<close>.\<close>

definition go_slice :: "'a list \<Rightarrow> nat \<Rightarrow> nat \<Rightarrow> ('e, 'a list) outcome" where
  "go_slice xs s e = (if s \<le> e \<and> e \<le> length xs then Ret (take (e - s) (drop s xs)) else Panic)"

text \<open>
  \<open>make([]T, n)\<close> for an element size \<open>es\<close>: the run time refuses (panics on) a slice that
  exceeds the address space it can allocate, \<open>2^48\<close> bytes on 64-bit platforms.
\<close>

definition go_make :: "nat \<Rightarrow> nat \<Rightarrow> ('e, unit) outcome" where
  "go_make es n = (if n * es \<le> 281474976710656 then Ret () else Panic)"

text \<open>\<open>copy(dst[at:], src)\<close>: overwrites as much as fits.\<close>

definition copy_at :: "'a list \<Rightarrow> nat \<Rightarrow> 'a list \<Rightarrow> 'a list" where
  "copy_at dst at src =
     take at dst @ take (length dst - at) src @ drop (at + length src) dst"

lemma length_copy_at [simp]: "at \<le> length dst \<Longrightarrow> length (copy_at dst at src) = length dst"
  by (simp add: copy_at_def)

lemma go_slice_Ret [slice_laws]:
  "s \<le> e \<Longrightarrow> e \<le> length xs \<Longrightarrow> go_slice xs s e = Ret (take (e - s) (drop s xs))"
  by (simp add: go_slice_def)

lemma go_slice_Panic [slice_laws]: "e < s \<Longrightarrow> go_slice xs s e = Panic"
  by (simp add: go_slice_def)

lemma copy_at_zero_all: "length src = length dst \<Longrightarrow> copy_at dst 0 src = src"
  by (simp add: copy_at_def)

lemma copy_at_suffix:
  "at + length src = length dst \<Longrightarrow> copy_at dst at src = take at dst @ src"
  by (simp add: copy_at_def)

lemma copy_at_append_right:
  "at + length src \<le> length xs \<Longrightarrow> copy_at (xs @ ys) at src = copy_at xs at src @ ys"
  by (simp add: copy_at_def)

lemma take_drop_copy_at:
  assumes "at + length src \<le> length dst"
  shows "take (length src) (drop at (copy_at dst at src)) = src"
  using assms by (simp add: copy_at_def min_def)

lemma drop_copy_at:
  assumes "at + length src \<le> k" and "k \<le> length dst"
  shows "drop k (copy_at dst at src) = drop k dst"
proof -
  have "length dst - at \<ge> length src" using assms by simp
  then have "copy_at dst at src = (take at dst @ src) @ drop (at + length src) dst"
    by (simp add: copy_at_def)
  moreover have "length (take at dst @ src) = at + length src" using assms by simp
  ultimately have "drop k (copy_at dst at src) = drop (k - (at + length src)) (drop (at + length src) dst)"
    using assms by (simp only: drop_append) simp
  then show ?thesis using assms by simp
qed

lemma take_copy_at: "k \<le> at \<Longrightarrow> at \<le> length dst \<Longrightarrow> take k (copy_at dst at src) = take k dst"
  by (simp add: copy_at_def min_def)

section \<open>Positional numerals\<close>

text \<open>
  The digits of a number in base \<open>b\<close>, most significant first and without leading zeros (none
  for zero), and the value of a list of digits. Byte encodings, hexadecimal and decimal
  texts are all instances.
\<close>

fun digits :: "nat \<Rightarrow> nat \<Rightarrow> nat list" where
  "digits b n = (if b < 2 \<or> n = 0 then [] else digits b (n div b) @ [n mod b])"

definition undigits :: "nat \<Rightarrow> nat list \<Rightarrow> nat" where
  "undigits b ds = foldl (\<lambda>a d. a * b + d) 0 ds"

declare digits.simps [simp del]

lemma digits_zero [simp]: "digits b 0 = []"
  by (simp add: digits.simps)

lemma digits_step: "2 \<le> b \<Longrightarrow> 0 < n \<Longrightarrow> digits b n = digits b (n div b) @ [n mod b]"
  by (subst digits.simps) simp

lemma digits_eq_Nil [simp]: "2 \<le> b \<Longrightarrow> digits b n = [] \<longleftrightarrow> n = 0"
  by (subst digits.simps) simp

lemma undigits_Nil [simp]: "undigits b [] = 0"
  by (simp add: undigits_def)

lemma undigits_snoc [numeral_laws]: "undigits b (ds @ [d]) = undigits b ds * b + d"
  by (simp add: undigits_def)

lemma undigits_single [simp]: "undigits b [d] = d"
  by (simp add: undigits_def)

lemma undigits_append [numeral_laws]:
  "undigits b (xs @ ys) = undigits b xs * b ^ length ys + undigits b ys"
proof (induction ys rule: rev_induct)
  case Nil
  show ?case by simp
next
  case (snoc y ys)
  have "undigits b (xs @ ys @ [y]) = undigits b (xs @ ys) * b + y"
    using undigits_snoc [of b "xs @ ys" y] by simp
  with snoc show ?case by (simp add: undigits_snoc algebra_simps)
qed

lemma undigits_Cons [numeral_laws]: "undigits b (d # ds) = d * b ^ length ds + undigits b ds"
  using undigits_append [of b "[d]" ds] by simp

lemma undigits_replicate_zero [simp]: "undigits b (replicate k 0) = 0"
  by (induction k) (simp_all add: undigits_Cons)

lemma undigits_digits [numeral_laws]: "2 \<le> b \<Longrightarrow> undigits b (digits b n) = n"
proof (induction b n rule: digits.induct)
  case (1 b n)
  then show ?case
    by (cases "n = 0") (simp_all add: digits_step undigits_snoc)
qed

lemma digits_less: "d \<in> set (digits b n) \<Longrightarrow> d < b"
proof (induction b n rule: digits.induct)
  case (1 b n)
  show ?case
  proof (cases "b < 2 \<or> n = 0")
    case True
    with "1.prems" show ?thesis by (simp add: digits.simps)
  next
    case False
    with "1.prems" have "d \<in> set (digits b (n div b)) \<or> d = n mod b"
      using digits_step [of b n] by auto
    with False "1.IH" show ?thesis by (auto simp: not_less)
  qed
qed

lemma hd_digits: "2 \<le> b \<Longrightarrow> 0 < n \<Longrightarrow> hd (digits b n) \<noteq> 0"
proof (induction b n rule: digits.induct)
  case (1 b n)
  show ?case
  proof (cases "n div b = 0")
    case True
    with "1.prems" have "n mod b = n" by (simp add: div_eq_0_iff)
    with True "1.prems" show ?thesis using digits_step [of b n] by simp
  next
    case False
    with "1.prems" "1.IH" have "hd (digits b (n div b)) \<noteq> 0" by simp
    moreover have "digits b (n div b) \<noteq> []" using False "1.prems" by simp
    ultimately show ?thesis using digits_step [of b n] "1.prems" by simp
  qed
qed

lemma undigits_less: "0 < b \<Longrightarrow> (\<And>d. d \<in> set ds \<Longrightarrow> d < b) \<Longrightarrow> undigits b ds < b ^ length ds"
proof (induction ds)
  case Nil
  show ?case by simp
next
  case (Cons d ds)
  have "undigits b ds < b ^ length ds" using Cons by simp
  moreover have "Suc d * b ^ length ds \<le> b * b ^ length ds"
    using Cons.prems(2) [of d] by (intro mult_right_mono) simp_all
  ultimately show ?case by (simp add: undigits_Cons)
qed

lemma digits_undigits [numeral_laws]:
  assumes "2 \<le> b" and "\<And>d. d \<in> set ds \<Longrightarrow> d < b" and "ds = [] \<or> hd ds \<noteq> 0"
  shows "digits b (undigits b ds) = ds"
  using assms(2,3)
proof (induction ds rule: rev_induct)
  case Nil
  show ?case by simp
next
  case (snoc d ds)
  have d: "d < b" using snoc.prems(1) by simp
  have IH: "digits b (undigits b ds) = ds"
  proof (rule snoc.IH)
    show "\<And>x. x \<in> set ds \<Longrightarrow> x < b" using snoc.prems(1) by simp
    show "ds = [] \<or> hd ds \<noteq> 0" using snoc.prems(2) by (cases ds) auto
  qed
  have "0 < undigits b ds * b + d"
  proof (cases "ds = []")
    case True
    with snoc.prems(2) show ?thesis by simp
  next
    case False
    then have "undigits b ds \<noteq> 0" using IH assms(1) by (metis digits_eq_Nil)
    with assms(1) show ?thesis by simp
  qed
  with d assms(1) IH show ?case
    by (simp add: undigits_snoc digits_step)
qed

lemma length_digits_le: "2 \<le> b \<Longrightarrow> n < b ^ k \<Longrightarrow> length (digits b n) \<le> k"
proof (induction k arbitrary: n)
  case 0
  then show ?case by simp
next
  case (Suc k)
  show ?case
  proof (cases "n = 0")
    case True
    then show ?thesis by simp
  next
    case False
    have "n div b < b ^ k"
      using Suc.prems by (simp add: less_mult_imp_div_less mult.commute)
    then have "length (digits b (n div b)) \<le> k" using Suc by simp
    with False Suc.prems show ?thesis by (simp add: digits_step)
  qed
qed

lemma length_digits_ge:
  assumes "2 \<le> b" and "b ^ k \<le> n"
  shows "k < length (digits b n)"
proof (rule ccontr)
  assume "\<not> ?thesis"
  then have "b ^ length (digits b n) \<le> b ^ k"
    using assms(1) by (intro power_increasing) simp_all
  moreover have "n < b ^ length (digits b n)"
    using undigits_less [of b "digits b n"] undigits_digits [of b n] digits_less assms(1) by fastforce
  ultimately show False using assms(2) by simp
qed

section \<open>Big-endian byte strings\<close>

text \<open>\<open>new(big.Int).SetBytes(bs)\<close> and \<open>x.Bytes()\<close> (of the absolute value).\<close>

definition be_val :: "bytes \<Rightarrow> nat" where
  "be_val bs = undigits 256 (map unat bs)"

definition be_bytes :: "nat \<Rightarrow> bytes" where
  "be_bytes n = map of_nat (digits 256 n)"

lemma unat_byte_less [simp]: "unat (b :: byte) < 256"
  using unsigned_less [of b] by simp

lemma unat_of_nat_byte [simp]: "unat (of_nat n :: byte) = n mod 256"
  by (simp add: unat_of_nat)

lemma map_unat_of_nat_digits [simp]:
  "map (unat \<circ> (of_nat :: nat \<Rightarrow> byte)) (digits 256 n) = digits 256 n"
  by (rule map_idI) (auto dest: digits_less)

lemma be_val_Nil [simp]: "be_val [] = 0"
  by (simp add: be_val_def)

lemma be_bytes_zero [simp]: "be_bytes 0 = []"
  by (simp add: be_bytes_def)

lemma be_val_be_bytes [simp, numeral_laws]: "be_val (be_bytes n) = n"
  by (simp add: be_val_def be_bytes_def undigits_digits)

lemma be_val_Cons: "be_val (b # bs) = unat b * 256 ^ length bs + be_val bs"
  by (simp add: be_val_def undigits_Cons)

lemma be_val_append: "be_val (xs @ ys) = be_val xs * 256 ^ length ys + be_val ys"
  by (simp add: be_val_def undigits_append)

lemma be_val_replicate_zero [simp]: "be_val (replicate k 0) = 0"
  by (simp add: be_val_def)

lemma be_val_less: "be_val bs < 256 ^ length bs"
  using undigits_less [of 256 "map unat bs"] by (fastforce simp: be_val_def)

lemma be_bytes_be_val [numeral_laws]:
  assumes "bs = [] \<or> hd bs \<noteq> 0"
  shows "be_bytes (be_val bs) = bs"
proof -
  have "digits 256 (undigits 256 (map unat bs)) = map unat bs"
    using assms by (intro digits_undigits) (cases bs; auto simp: unat_eq_zero)+
  then show ?thesis by (simp add: be_val_def be_bytes_def map_idI)
qed

lemma hd_be_bytes: "0 < n \<Longrightarrow> hd (be_bytes n) \<noteq> 0"
proof -
  assume n: "0 < n"
  have ne: "digits 256 n \<noteq> []" using n by simp
  have "hd (digits 256 n) < 256" using ne by (meson digits_less hd_in_set)
  moreover have "hd (digits 256 n) \<noteq> 0" using n by (simp add: hd_digits)
  ultimately have "unat (of_nat (hd (digits 256 n)) :: byte) \<noteq> 0" by simp
  then have "(of_nat (hd (digits 256 n)) :: byte) \<noteq> 0" by (simp only: unat_eq_zero not_False_eq_True)
  with ne show ?thesis by (simp add: be_bytes_def hd_map)
qed

lemma be_bytes_eq_Nil [simp]: "be_bytes n = [] \<longleftrightarrow> n = 0"
  by (simp add: be_bytes_def)

lemma length_be_bytes_le: "n < 256 ^ k \<Longrightarrow> length (be_bytes n) \<le> k"
  by (simp add: be_bytes_def length_digits_le)

lemma length_be_bytes_ge: "256 ^ k \<le> n \<Longrightarrow> k < length (be_bytes n)"
  by (simp add: be_bytes_def length_digits_ge)

end
