(* ===== verification/GoLib.thy ===== *)
theory GoLib
  imports Prelude
begin

text \<open>
  The parts of Go's standard library that the program's pure code calls: \<open>encoding/hex\<close>,
  \<open>strconv\<close> (unsigned integers), \<open>strings\<close> and the text and byte conversions of
  \<open>math/big\<close>. Case mapping (\<open>strings.ToLower\<close>, \<open>strings.EqualFold\<close>) is that of
  ASCII, the character set of the chain identifiers, hashes and addresses it is applied to.
\<close>

named_theorems golib_simps "evaluation rules of the library functions"

section \<open>Characters\<close>

definition cv :: "char \<Rightarrow> nat" where
  "cv c = of_char c"

definition lower :: "char \<Rightarrow> char" where
  "lower c = (if 65 \<le> cv c \<and> cv c \<le> 90 then char_of (cv c + 32) else c)"

definition ToLower :: "string \<Rightarrow> string" where
  "ToLower s = map lower s"

definition EqualFold :: "string \<Rightarrow> string \<Rightarrow> bool" where
  "EqualFold s t \<longleftrightarrow> ToLower s = ToLower t"

text \<open>The conversions \<open>[]byte(s)\<close> and \<open>string(b)\<close>.\<close>

definition str_bytes :: "string \<Rightarrow> bytes" where
  "str_bytes s = map (\<lambda>c. of_nat (cv c)) s"

definition bytes_str :: "bytes \<Rightarrow> string" where
  "bytes_str b = map (\<lambda>x. char_of (unat x)) b"

text \<open>\<open>strings.Split\<close> at a separator of one character.\<close>

fun Split1 :: "char \<Rightarrow> string \<Rightarrow> string list" where
  "Split1 sep [] = [[]]"
| "Split1 sep (c # cs) =
     (if c = sep then [] # Split1 sep cs
      else (case Split1 sep cs of [] \<Rightarrow> [[c]] | p # ps \<Rightarrow> (c # p) # ps))"

definition HasPrefix :: "string \<Rightarrow> string \<Rightarrow> bool" where
  "HasPrefix s p \<longleftrightarrow> take (length p) s = p"

section \<open>Digits\<close>

definition digit_char :: "nat \<Rightarrow> char" where
  "digit_char n = (if n < 10 then char_of (48 + n) else char_of (87 + n))"

definition digit_val :: "char \<Rightarrow> nat option" where
  "digit_val c =
     (if 48 \<le> cv c \<and> cv c \<le> 57 then Some (cv c - 48)
      else if 97 \<le> cv c \<and> cv c \<le> 122 then Some (cv c - 87)
      else if 65 \<le> cv c \<and> cv c \<le> 90 then Some (cv c - 55)
      else None)"

section \<open>encoding/hex\<close>

datatype hex_error = InvalidByteError char | ErrLength

definition fromHexChar :: "char \<Rightarrow> nat option" where
  "fromHexChar c =
     (if 48 \<le> cv c \<and> cv c \<le> 57 then Some (cv c - 48)
      else if 97 \<le> cv c \<and> cv c \<le> 102 then Some (cv c - 87)
      else if 65 \<le> cv c \<and> cv c \<le> 70 then Some (cv c - 55)
      else None)"

definition hex_EncodeToString :: "bytes \<Rightarrow> string" where
  "hex_EncodeToString b =
     concat (map (\<lambda>x. [digit_char (unat x div 16), digit_char (unat x mod 16)]) b)"

text \<open>The bytes decoded before the first error are returned together with the error.\<close>

fun hex_DecodeString :: "string \<Rightarrow> bytes \<times> hex_error option" where
  "hex_DecodeString [] = ([], None)"
| "hex_DecodeString [c] =
     ([], Some (if fromHexChar c = None then InvalidByteError c else ErrLength))"
| "hex_DecodeString (c # d # cs) =
     (case fromHexChar c of
        None \<Rightarrow> ([], Some (InvalidByteError c))
      | Some a \<Rightarrow>
         (case fromHexChar d of
            None \<Rightarrow> ([], Some (InvalidByteError d))
          | Some b \<Rightarrow>
             (case hex_DecodeString cs of (r, e) \<Rightarrow> (of_nat (a * 16 + b) # r, e))))"

section \<open>strconv\<close>

datatype num_error = NumSyntax | NumRange

fun ParseUint_loop :: "nat \<Rightarrow> nat \<Rightarrow> string \<Rightarrow> num_error + nat" where
  "ParseUint_loop base n [] = Inr n"
| "ParseUint_loop base n (c # cs) =
     (case digit_val c of
        None \<Rightarrow> Inl NumSyntax
      | Some d \<Rightarrow>
          if base \<le> d then Inl NumSyntax
          else if W64 \<le> n * base + d then Inl NumRange
          else ParseUint_loop base (n * base + d) cs)"

text \<open>\<open>strconv.ParseUint(s, base, 64)\<close> for an explicit base.\<close>

definition ParseUint :: "string \<Rightarrow> nat \<Rightarrow> num_error + nat" where
  "ParseUint s base = (if s = [] then Inl NumSyntax else ParseUint_loop base 0 s)"

text \<open>\<open>strconv.FormatUint(n, base)\<close>, also the digits of \<open>AppendUint\<close> and of \<open>fmt\<close>.\<close>

definition FormatUint :: "nat \<Rightarrow> nat \<Rightarrow> string" where
  "FormatUint n base = (if n = 0 then ''0'' else map digit_char (digits base n))"

section \<open>math/big\<close>

fun scan_digits :: "nat \<Rightarrow> nat \<Rightarrow> string \<Rightarrow> nat option" where
  "scan_digits base n [] = Some n"
| "scan_digits base n (c # cs) =
     (case digit_val c of
        None \<Rightarrow> None
      | Some d \<Rightarrow> if base \<le> d then None else scan_digits base (n * base + d) cs)"

text \<open>\<open>SetString(s, base)\<close> for an explicit base: an optional sign, then at least one digit.\<close>

definition big_SetString :: "string \<Rightarrow> nat \<Rightarrow> int option" where
  "big_SetString s base =
     (case s of
        [] \<Rightarrow> None
      | c # cs \<Rightarrow>
          if c = CHR ''-'' then
            (if cs = [] then None else map_option (\<lambda>n. - int n) (scan_digits base 0 cs))
          else if c = CHR ''+'' then
            (if cs = [] then None else map_option int (scan_digits base 0 cs))
          else map_option int (scan_digits base 0 s))"

text \<open>
  \<open>SetString(s, 0)\<close>: the base is read from the prefix, a leading 0 alone means octal, and
  an underscore may separate digits (and follow a prefix). The loop keeps the digit count and
  whether the previous character was a digit; \<open>None\<close> is a syntax error.
\<close>

fun scan_sep :: "nat \<Rightarrow> nat \<Rightarrow> nat \<Rightarrow> bool \<Rightarrow> string \<Rightarrow> (nat \<times> nat) option" where
  "scan_sep base n count prev [] = (if prev then Some (n, count) else None)"
| "scan_sep base n count prev (c # cs) =
     (if c = CHR ''_'' then (if prev \<and> cs \<noteq> [] then scan_sep base n count False cs else None)
      else case digit_val c of
             None \<Rightarrow> None
           | Some d \<Rightarrow> if base \<le> d then None else scan_sep base (n * base + d) (count + 1) True cs)"

definition scan_base0 :: "string \<Rightarrow> nat option" where
  "scan_base0 s =
     (case s of
        c # d # cs \<Rightarrow>
          (if c \<noteq> CHR ''0'' then
             (if c = CHR ''_'' then None else map_option fst (scan_sep 10 0 0 True s))
           else if d = CHR ''b'' \<or> d = CHR ''B'' then
             (case scan_sep 2 0 0 True cs of Some (n, count) \<Rightarrow> if count = 0 then None else Some n | None \<Rightarrow> None)
           else if d = CHR ''o'' \<or> d = CHR ''O'' then
             (case scan_sep 8 0 0 True cs of Some (n, count) \<Rightarrow> if count = 0 then None else Some n | None \<Rightarrow> None)
           else if d = CHR ''x'' \<or> d = CHR ''X'' then
             (case scan_sep 16 0 0 True cs of Some (n, count) \<Rightarrow> if count = 0 then None else Some n | None \<Rightarrow> None)
           else map_option fst (scan_sep 8 0 0 True (d # cs)))
      | [c] \<Rightarrow> (case digit_val c of None \<Rightarrow> None | Some d \<Rightarrow> if 10 \<le> d then None else Some d)
      | [] \<Rightarrow> None)"

definition big_SetString0 :: "string \<Rightarrow> int option" where
  "big_SetString0 s =
     (case s of
        [] \<Rightarrow> None
      | c # cs \<Rightarrow>
          if c = CHR ''-'' then map_option (\<lambda>n. - int n) (scan_base0 cs)
          else if c = CHR ''+'' then map_option int (scan_base0 cs)
          else map_option int (scan_base0 s))"

definition big_Bytes :: "int \<Rightarrow> bytes" where
  "big_Bytes x = be_bytes (nat \<bar>x\<bar>)"

definition big_SetBytes :: "bytes \<Rightarrow> int" where
  "big_SetBytes b = int (be_val b)"

definition big_String :: "int \<Rightarrow> string" where
  "big_String x = (if x < 0 then CHR ''-'' # FormatUint (nat \<bar>x\<bar>) 10 else FormatUint (nat x) 10)"

definition big_BitLen :: "int \<Rightarrow> nat" where
  "big_BitLen x = length (digits 2 (nat \<bar>x\<bar>))"

text \<open>\<open>x.Div(x, y)\<close> is Euclidean division; the divisors of the program are positive.\<close>

definition big_Div :: "int \<Rightarrow> int \<Rightarrow> int" where
  "big_Div x y = (if y < 0 then - (x div (- y)) else x div y)"

section \<open>Laws\<close>

lemma cv_char_of [golib_simps]: "n < 256 \<Longrightarrow> cv (char_of n) = n"
  by (simp add: cv_def)

lemma cv_less [simp]: "cv c < 256"
  by (simp add: cv_def)

lemma char_of_cv [simp]: "char_of (cv c) = c"
  by (simp add: cv_def)

lemma str_bytes_bytes_str [simp]: "str_bytes (bytes_str b) = b"
  by (simp add: str_bytes_def bytes_str_def comp_def golib_simps)

lemma bytes_str_str_bytes [simp]: "bytes_str (str_bytes s) = s"
  by (simp add: str_bytes_def bytes_str_def comp_def)

lemma length_str_bytes [simp]: "length (str_bytes s) = length s"
  by (simp add: str_bytes_def)

lemma length_bytes_str [simp]: "length (bytes_str b) = length b"
  by (simp add: bytes_str_def)

lemma lower_idem [simp]: "lower (lower c) = lower c"
  by (simp add: lower_def golib_simps)

lemma ToLower_idem [simp]: "ToLower (ToLower s) = ToLower s"
  by (simp add: ToLower_def comp_def)

lemma length_ToLower [simp]: "length (ToLower s) = length s"
  by (simp add: ToLower_def)

lemma EqualFold_refl [simp]: "EqualFold s s"
  by (simp add: EqualFold_def)

lemma digit_val_char [golib_simps]: "n < 36 \<Longrightarrow> digit_val (digit_char n) = Some n"
  by (simp add: digit_val_def digit_char_def cv_char_of)

lemma fromHexChar_digit_char [golib_simps]: "n < 16 \<Longrightarrow> fromHexChar (digit_char n) = Some n"
  by (simp add: fromHexChar_def digit_char_def cv_char_of)

lemma fromHexChar_less: "fromHexChar c = Some n \<Longrightarrow> n < 16"
  by (auto simp: fromHexChar_def split: if_splits)

lemma digit_char_eq_zero [golib_simps]: "n < 16 \<Longrightarrow> digit_char n = CHR ''0'' \<longleftrightarrow> n = 0"
proof
  assume n: "n < 16" and "digit_char n = CHR ''0''"
  then have "cv (digit_char n) = cv (CHR ''0'')" by simp
  with n show "n = 0" by (simp add: digit_char_def cv_char_of cv_def split: if_splits)
next
  have "digit_char 0 = CHR ''0''" by code_simp
  then show "n = 0 \<Longrightarrow> digit_char n = CHR ''0''" by simp
qed

lemma hex_encode_Nil [simp]: "hex_EncodeToString [] = []"
  by (simp add: hex_EncodeToString_def)

lemma hex_encode_Cons [simp]:
  "hex_EncodeToString (x # xs) =
     digit_char (unat x div 16) # digit_char (unat x mod 16) # hex_EncodeToString xs"
  by (simp add: hex_EncodeToString_def)

lemma length_hex_encode [simp]: "length (hex_EncodeToString b) = 2 * length b"
  by (induction b) simp_all

lemma hex_decode_encode [golib_simps]: "hex_DecodeString (hex_EncodeToString b) = (b, None)"
proof (induction b)
  case Nil
  show ?case by simp
next
  case (Cons x xs)
  have "unat x div 16 < 16"
    using unat_byte_less [of x] by (simp add: less_mult_imp_div_less del: unat_byte_less)
  with Cons show ?case by (simp add: golib_simps)
qed

lemma hex_decode_ok_even:
  "hex_DecodeString s = (b, None) \<Longrightarrow> length s = 2 * length b"
  by (induction s arbitrary: b rule: hex_DecodeString.induct)
     (auto split: option.splits prod.splits)

lemma foldl_base_mono: "0 < base \<Longrightarrow> (m::nat) \<le> foldl (\<lambda>a d. a * base + d) m ds"
proof (induction ds arbitrary: m)
  case Nil
  show ?case by simp
next
  case (Cons d ds)
  have "m \<le> m * base + d" using Cons.prems by (simp add: trans_le_add1)
  also have "\<dots> \<le> foldl (\<lambda>a d. a * base + d) (m * base + d) ds" using Cons by simp
  finally show ?case by simp
qed

lemma ParseUint_loop_digits:
  assumes "\<And>d. d \<in> set ds \<Longrightarrow> d < base" and "base \<le> 36" and "n < W64"
  shows "ParseUint_loop base n (map digit_char ds) =
    (let v = foldl (\<lambda>a d. a * base + d) n ds in if v < W64 then Inr v else Inl NumRange)"
  using assms
proof (induction ds arbitrary: n)
  case Nil
  then show ?case by simp
next
  case (Cons d ds)
  have d: "d < base" using Cons.prems(1) by simp
  then have dv: "digit_val (digit_char d) = Some d" using Cons.prems(2) by (simp add: digit_val_char)
  have mono: "m \<le> foldl (\<lambda>a d. a * base + d) m ds" for m
    using d by (intro foldl_base_mono) simp
  show ?case
  proof (cases "n * base + d < W64")
    case True
    have "ParseUint_loop base (n * base + d) (map digit_char ds) =
      (let v = foldl (\<lambda>a d. a * base + d) (n * base + d) ds
       in if v < W64 then Inr v else Inl NumRange)"
      using Cons.prems(1,2) True by (intro Cons.IH) simp_all
    with True d dv show ?thesis by simp
  next
    case False
    then have "\<not> foldl (\<lambda>a d. a * base + d) (n * base + d) ds < W64"
      using mono [of "n * base + d"] by linarith
    with False d dv show ?thesis by simp
  qed
qed

lemma scan_digits_digits:
  assumes "\<And>d. d \<in> set ds \<Longrightarrow> d < base" and "base \<le> 36"
  shows "scan_digits base n (map digit_char ds) = Some (foldl (\<lambda>a d. a * base + d) n ds)"
  using assms
proof (induction ds arbitrary: n)
  case Nil
  show ?case by simp
next
  case (Cons d ds)
  have d: "d < base" using Cons.prems(1) by simp
  then have "digit_val (digit_char d) = Some d" using Cons.prems(2) by (simp add: digit_val_char)
  with Cons d show ?case by (simp add: not_le)
qed

lemma ParseUint_FormatUint [golib_simps]:
  assumes "2 \<le> base" and "base \<le> 36" and "n < W64"
  shows "ParseUint (FormatUint n base) base = Inr n"
proof (cases "n = 0")
  case True
  have "digit_val (CHR ''0'') = Some 0" by (simp add: digit_val_def cv_def)
  with True assms show ?thesis by (simp add: ParseUint_def FormatUint_def)
next
  case False
  have "ParseUint_loop base 0 (map digit_char (digits base n)) = Inr n"
    using ParseUint_loop_digits [of "digits base n" base 0] digits_less [of _ base n]
      undigits_digits [of base n] assms
    by (simp add: undigits_def Let_def)
  with False assms show ?thesis by (simp add: ParseUint_def FormatUint_def)
qed

lemma ParseUint_less: "ParseUint s base = Inr n \<Longrightarrow> n < W64"
proof -
  have "ParseUint_loop base m s = Inr n \<Longrightarrow> m < W64 \<Longrightarrow> n < W64" for m
    by (induction s arbitrary: m) (auto split: option.splits if_splits)
  then show "ParseUint s base = Inr n \<Longrightarrow> n < W64"
    by (auto simp: ParseUint_def split: if_splits)
qed

lemma big_Div_pos: "0 < y \<Longrightarrow> big_Div x y = x div y"
  by (simp add: big_Div_def)

lemma big_BitLen_le_iff: "big_BitLen x \<le> k \<longleftrightarrow> \<bar>x\<bar> < 2 ^ k"
proof
  assume k: "big_BitLen x \<le> k"
  have "nat \<bar>x\<bar> < 2 ^ k"
  proof (rule ccontr)
    assume "\<not> ?thesis"
    then have "k < length (digits 2 (nat \<bar>x\<bar>))" by (intro length_digits_ge) simp_all
    with k show False by (simp add: big_BitLen_def)
  qed
  then show "\<bar>x\<bar> < 2 ^ k" by (simp add: zless_nat_eq_int_zless nat_less_iff)
next
  assume "\<bar>x\<bar> < 2 ^ k"
  then have "nat \<bar>x\<bar> < 2 ^ k" by (simp add: nat_less_iff)
  then show "big_BitLen x \<le> k" by (simp add: big_BitLen_def length_digits_le)
qed

text \<open>Decimal texts are read back.\<close>

lemma scan_digits_FormatUint: "scan_digits 10 0 (FormatUint n 10) = Some n"
proof (cases "n = 0")
  case True
  then show ?thesis by (simp add: FormatUint_def digit_val_def cv_def)
next
  case False
  then show ?thesis
    using scan_digits_digits [of "digits 10 n" 10 0] digits_less [of _ 10 n] undigits_digits [of 10 n]
    by (simp add: FormatUint_def undigits_def)
qed

lemma hd_FormatUint:
  obtains d cs where "FormatUint n 10 = digit_char d # cs" and "d < 10"
proof (cases "n = 0")
  case True
  have "CHR ''0'' = digit_char 0" by code_simp
  with True show ?thesis using that [of 0 "[]"] by (simp add: FormatUint_def)
next
  case False
  then obtain d ds where "digits 10 n = d # ds" by (cases "digits 10 n") auto
  with False show ?thesis using that [of d "map digit_char ds"] digits_less [of d 10 n] by (simp add: FormatUint_def)
qed

lemma digit_char_less10: "d < 10 \<Longrightarrow> cv (digit_char d) = 48 + d"
  by (simp add: digit_char_def cv_char_of)

lemma big_SetString_big_String [golib_simps]: "big_SetString (big_String v) 10 = Some v"
proof -
  obtain d cs where f: "FormatUint (nat \<bar>v\<bar>) 10 = digit_char d # cs" "d < 10" by (rule hd_FormatUint)
  have "digit_char d \<noteq> CHR ''-''" "digit_char d \<noteq> CHR ''+''"
    using digit_char_less10 [OF f(2)] by (auto simp: cv_def)
  moreover have "scan_digits 10 0 (digit_char d # cs) = Some (nat \<bar>v\<bar>)"
    using scan_digits_FormatUint [of "nat \<bar>v\<bar>"] f by simp
  ultimately show ?thesis using f by (auto simp: big_SetString_def big_String_def)
qed

lemma big_String_chars: "c \<in> set (big_String v) \<Longrightarrow> cv c < 58"
proof -
  have "cv c < 58" if "c \<in> set (FormatUint n 10)" for n
    using that digits_less [of _ 10 n] digit_char_less10
    by (auto simp: FormatUint_def cv_def split: if_splits)
  then show "c \<in> set (big_String v) \<Longrightarrow> cv c < 58"
    by (auto simp: big_String_def cv_def split: if_splits)
qed

lemma big_String_not_hex: "2 \<le> length (big_String v) \<Longrightarrow> \<not> EqualFold (take 2 (big_String v)) ''0x''"
proof
  assume l: "2 \<le> length (big_String v)" and e: "EqualFold (take 2 (big_String v)) ''0x''"
  obtain a c cs where s: "big_String v = a # c # cs" using l by (cases "big_String v"; cases "tl (big_String v)") auto
  with e have "lower c = lower (CHR ''x'')" by (simp add: EqualFold_def ToLower_def numeral_2_eq_2)
  moreover have "cv c < 58" using big_String_chars [of c v] s by simp
  ultimately show False by (auto simp: lower_def cv_def)
qed

lemma big_String_not_Nil [simp]: "big_String v \<noteq> []"
  by (rule hd_FormatUint [of "nat \<bar>v\<bar>"]) (auto simp: big_String_def)


end
