(* ===== verification/CMath.thy ===== *)
theory CMath
  imports GoLib
begin

unbundle bit_operations_syntax

text \<open>
  \<open>common/math\<close>: checked \<open>uint64\<close> arithmetic, the integer parsers and the 256-bit
  big-integer helpers. A \<open>big.Word\<close> is a 64-bit word; \<open>x.Bits()\<close> lists the words of
  the absolute value, least significant first. The lemmas relate the word loops (\<open>ReadBits\<close>,
  \<open>bigEndianByteAt\<close>, \<open>Exp\<close>) to plain arithmetic.
\<close>

section \<open>Parsers and checked arithmetic\<close>

definition ParseUint64 :: "string \<Rightarrow> nat \<times> bool" where
  "ParseUint64 s =
     (if s = [] then (0, True)
      else if 2 \<le> length s \<and> (take 2 s = ''0x'' \<or> take 2 s = ''0X'') then
        (case ParseUint (drop 2 s) 16 of Inr v \<Rightarrow> (v, True) | Inl NumRange \<Rightarrow> (W64 - 1, False)
         | Inl NumSyntax \<Rightarrow> (0, False))
      else
        (case ParseUint s 10 of Inr v \<Rightarrow> (v, True) | Inl NumRange \<Rightarrow> (W64 - 1, False)
         | Inl NumSyntax \<Rightarrow> (0, False)))"

definition SafeSub :: "nat \<Rightarrow> nat \<Rightarrow> nat \<times> bool" where
  "SafeSub x y = (u64_sub x y, x < y)"

definition SafeAdd :: "nat \<Rightarrow> nat \<Rightarrow> nat \<times> bool" where
  "SafeAdd x y = (u64_add x y, W64 - 1 - x < y)"

definition SafeMul :: "nat \<Rightarrow> nat \<Rightarrow> nat \<times> bool" where
  "SafeMul x y = (if x = 0 \<or> y = 0 then (0, False) else (u64_mul x y, (W64 - 1) div x < y))"

definition ParseBig256 :: "string \<Rightarrow> int option" where
  "ParseBig256 s =
     (if s = [] then Some 0
      else
        (case (if 2 \<le> length s \<and> EqualFold (take 2 s) ''0x'' then big_SetString (drop 2 s) 16
               else big_SetString s 10) of
           None \<Rightarrow> None
         | Some v \<Rightarrow> if 256 < big_BitLen v then None else Some v))"

definition BigPow :: "int \<Rightarrow> nat \<Rightarrow> int" where
  "BigPow a b = a ^ b"

definition BigMax :: "int \<Rightarrow> int \<Rightarrow> int" where
  "BigMax x y = (if x < y then y else x)"

definition BigMin :: "int \<Rightarrow> int \<Rightarrow> int" where
  "BigMin x y = (if x > y then y else x)"

section \<open>Words of a big integer\<close>

definition big_Bits :: "int \<Rightarrow> nat list" where
  "big_Bits x = rev (digits W64 (nat \<bar>x\<bar>))"

fun readWord :: "nat \<Rightarrow> nat \<Rightarrow> nat \<Rightarrow> bytes \<Rightarrow> nat \<times> bytes" where
  "readWord 0 d i buf = (i, buf)"
| "readWord (Suc j) d i buf =
     (if 0 < i then readWord j (d div 256) (i - 1) (buf[i - 1 := of_nat d]) else (i, buf))"

fun readWords :: "nat list \<Rightarrow> nat \<Rightarrow> bytes \<Rightarrow> nat \<times> bytes" where
  "readWords [] i buf = (i, buf)"
| "readWords (d # ds) i buf = (case readWord 8 d i buf of (i', buf') \<Rightarrow> readWords ds i' buf')"

definition ReadBits :: "int \<Rightarrow> bytes \<Rightarrow> bytes" where
  "ReadBits x buf = snd (readWords (big_Bits x) (length buf) buf)"

definition PaddedBigBytes :: "int \<Rightarrow> nat \<Rightarrow> bytes" where
  "PaddedBigBytes x n =
     (if n \<le> big_BitLen x div 8 then big_Bytes x else ReadBits x (replicate n 0))"

definition bigEndianByteAt :: "int \<Rightarrow> nat \<Rightarrow> byte" where
  "bigEndianByteAt x n =
     (let ws = big_Bits x; i = n div 8 in
      if length ws \<le> i then 0 else of_nat ((ws ! i) div 2 ^ (8 * (n mod 8))))"

definition Byte_at :: "int \<Rightarrow> nat \<Rightarrow> nat \<Rightarrow> byte" where
  "Byte_at x padlength n = (if padlength \<le> n then 0 else bigEndianByteAt x (padlength - 1 - n))"

definition tt255 :: int where
  "tt255 = BigPow 2 255"

definition tt256 :: int where
  "tt256 = BigPow 2 256"

definition tt256m1 :: int where
  "tt256m1 = tt256 - 1"

definition U256 :: "int \<Rightarrow> int" where
  "U256 x = x AND tt256m1"

definition S256 :: "int \<Rightarrow> int" where
  "S256 x = (if x < tt255 then x else x - tt256)"

text \<open>
  \<open>Exp\<close> overwrites its argument \<open>base\<close>: the second component is the value \<open>base\<close>
  holds afterwards.
\<close>

fun exp_word :: "nat \<Rightarrow> nat \<Rightarrow> int \<Rightarrow> int \<Rightarrow> int \<times> int" where
  "exp_word 0 w r b = (r, b)"
| "exp_word (Suc k) w r b =
     exp_word k (w div 2) (if odd w then U256 (r * b) else r) (U256 (b * b))"

fun exp_words :: "nat list \<Rightarrow> int \<Rightarrow> int \<Rightarrow> int \<times> int" where
  "exp_words [] r b = (r, b)"
| "exp_words (w # ws) r b = (case exp_word 64 w r b of (r', b') \<Rightarrow> exp_words ws r' b')"

definition Exp :: "int \<Rightarrow> int \<Rightarrow> int \<times> int" where
  "Exp b e = exp_words (big_Bits e) 1 b"

section \<open>Lemmas\<close>

text \<open>The \<open>k\<close> low-order bytes of a number, big-endian.\<close>

fun be_fixed :: "nat \<Rightarrow> nat \<Rightarrow> bytes" where
  "be_fixed 0 n = []"
| "be_fixed (Suc k) n = be_fixed k (n div 256) @ [of_nat n]"

lemma length_be_fixed [simp]: "length (be_fixed k n) = k"
  by (induction k arbitrary: n) simp_all

lemma be_fixed_zero [simp]: "be_fixed k 0 = replicate k 0"
  by (induction k) (simp_all add: replicate_append_same)

lemma be_fixed_add: "be_fixed (j + k) n = be_fixed j (n div 256 ^ k) @ be_fixed k n"
  by (induction k arbitrary: n) (simp_all add: div_mult2_eq)

lemma be_val_be_fixed: "be_val (be_fixed k n) = n mod 256 ^ k"
proof (induction k arbitrary: n)
  case 0
  show ?case by simp
next
  case (Suc k)
  have "be_val (be_fixed (Suc k) n) = (n div 256 mod 256 ^ k) * 256 + n mod 256"
    using Suc by (simp add: be_val_append be_val_Cons)
  also have "\<dots> = n mod 256 ^ Suc k"
    by (simp add: mod_mult2_eq mult.commute)
  finally show ?case .
qed

lemma be_fixed_cong:
  assumes "m mod 256 ^ k = n mod 256 ^ k"
  shows "be_fixed k m = be_fixed k n"
  using assms
proof (induction k arbitrary: m n)
  case 0
  show ?case by simp
next
  case (Suc k)
  have eq: "256 * (m div 256 mod 256 ^ k) + m mod 256 = 256 * (n div 256 mod 256 ^ k) + n mod 256"
    using Suc.prems by (simp add: mod_mult2_eq)
  then have "(256 * (m div 256 mod 256 ^ k) + m mod 256) mod 256 =
      (256 * (n div 256 mod 256 ^ k) + n mod 256) mod 256" by (simp only:)
  then have low: "m mod 256 = n mod 256" by simp
  with eq have "m div 256 mod 256 ^ k = n div 256 mod 256 ^ k" by simp
  then have "be_fixed k (m div 256) = be_fixed k (n div 256)" by (rule Suc.IH)
  moreover have "(of_nat m :: byte) = of_nat n"
    using low by (metis unat_of_nat_byte word_unat_eq_iff)
  ultimately show ?case by simp
qed

lemma be_fixed_be_val: "be_fixed (length bs) (be_val bs) = bs"
proof (induction bs rule: rev_induct)
  case Nil
  show ?case by simp
next
  case (snoc b bs)
  have "be_val (bs @ [b]) div 256 = be_val bs"
    by (simp add: be_val_append be_val_Cons)
  moreover have "(of_nat (be_val (bs @ [b])) :: byte) = b"
    by (simp add: be_val_append be_val_Cons word_unat_eq_iff del: of_nat_add of_nat_mult)
  ultimately show ?case using snoc by simp
qed

lemma be_fixed_be_bytes:
  assumes "n < 256 ^ k"
  shows "be_fixed k n = replicate (k - length (be_bytes n)) 0 @ be_bytes n"
proof -
  let ?L = "replicate (k - length (be_bytes n)) 0 @ be_bytes n"
  have "length ?L = k" using length_be_bytes_le [OF assms] by simp
  moreover have "be_val ?L = n" by (simp add: be_val_append)
  ultimately show ?thesis using be_fixed_be_val [of ?L] by simp
qed

lemma readWord_eq:
  "i \<le> length buf \<Longrightarrow>
   readWord j d i buf =
     (i - min j i, take (i - min j i) buf @ be_fixed (min j i) d @ drop i buf)"
proof (induction j arbitrary: d i buf)
  case 0
  then show ?case by simp
next
  case (Suc j)
  show ?case
  proof (cases i)
    case 0
    then show ?thesis by simp
  next
    case (Suc i')
    then have lt: "i' < length buf" using Suc.prems by simp
    then have "drop i' (buf[i' := of_nat d]) = of_nat d # drop (Suc i') buf"
      using Cons_nth_drop_Suc [of i' "buf[i' := of_nat d]"] by simp
    moreover have "take (i' - min j i') (buf[i' := of_nat d]) = take (i' - min j i') buf"
      by simp
    ultimately show ?thesis
      using Suc Suc.IH [of i' "buf[i' := of_nat d]" "d div 256"] lt by simp
  qed
qed

definition words_val :: "nat list \<Rightarrow> nat" where
  "words_val ws = undigits W64 (rev ws)"

lemma words_val_Nil [simp]: "words_val [] = 0"
  by (simp add: words_val_def)

lemma words_val_Cons [simp]: "words_val (w # ws) = w + W64 * words_val ws"
  by (simp add: words_val_def undigits_snoc)

lemma W64_ge_2: "2 \<le> W64"
  by (simp add: W64_def)

lemma words_val_big_Bits: "words_val (big_Bits x) = nat \<bar>x\<bar>"
  using undigits_digits [OF W64_ge_2] by (simp add: words_val_def big_Bits_def)

lemma big_Bits_less: "w \<in> set (big_Bits x) \<Longrightarrow> w < W64"
  by (simp add: big_Bits_def digits_less)

lemma words_val_less: "(\<And>w. w \<in> set ws \<Longrightarrow> w < W64) \<Longrightarrow> words_val ws < W64 ^ length ws"
  using undigits_less [of W64 "rev ws"] by (simp add: words_val_def)

lemma readWords_eq:
  "(\<And>w. w \<in> set ws \<Longrightarrow> w < W64) \<Longrightarrow> i \<le> length buf \<Longrightarrow>
   readWords ws i buf =
     (let m = min (8 * length ws) i
      in (i - m, take (i - m) buf @ be_fixed m (words_val ws) @ drop i buf))"
proof (induction ws arbitrary: i buf)
  case Nil
  then show ?case by simp
next
  case (Cons w ws)
  define k where "k = min 8 i"
  define m where "m = min (8 * length ws) (i - k)"
  let ?buf = "take (i - k) buf @ be_fixed k w @ drop i buf"
  let ?v = "w + W64 * words_val ws"
  have w: "w < 256 ^ 8" using Cons.prems(1) [of w] by (simp add: W64_power)
  have k: "k \<le> i" "k \<le> 8" by (simp_all add: k_def)
  have low: "be_fixed k ?v = be_fixed k w"
  proof (rule be_fixed_cong)
    have "256 ^ k dvd W64"
      unfolding W64_power using k(2) by (rule le_imp_power_dvd)
    then show "?v mod 256 ^ k = w mod 256 ^ k" by (simp add: mod_add_eq dvd_imp_mod_0 flip: mod_add_right_eq)
  qed
  have high: "be_fixed m (?v div 256 ^ k) = be_fixed m (words_val ws)"
  proof (cases "k = 8")
    case True
    then have "?v div 256 ^ k = words_val ws" using w by (simp add: W64_power)
    then show ?thesis by simp
  next
    case False
    then have "i - k = 0" by (simp add: k_def)
    then show ?thesis by (simp add: m_def)
  qed
  have "readWords ws (i - k) ?buf =
      (i - k - m, take (i - k - m) ?buf @ be_fixed m (words_val ws) @ drop (i - k) ?buf)"
    using Cons.prems by (subst Cons.IH) (simp_all add: m_def Let_def)
  moreover have "min (8 * length (w # ws)) i = m + k"
    unfolding m_def k_def by (cases "8 \<le> i") (auto simp: min_def)
  moreover have "be_fixed (m + k) ?v = be_fixed m (words_val ws) @ be_fixed k w"
    by (simp add: be_fixed_add low high)
  ultimately show ?case
    using Cons.prems k by (simp add: readWord_eq Let_def diff_add_eq_diff_diff_swap flip: k_def)
      (simp add: min_def add.commute)
qed

lemma ReadBits_eq: "ReadBits x (replicate n 0) = be_fixed n (nat \<bar>x\<bar>)"
proof -
  let ?m = "min (8 * length (big_Bits x)) n"
  let ?v = "nat \<bar>x\<bar>"
  have "ReadBits x (replicate n 0) = replicate (n - ?m) 0 @ be_fixed ?m ?v"
    using big_Bits_less [of _ x]
    by (simp add: ReadBits_def readWords_eq words_val_big_Bits Let_def)
  also have "\<dots> = be_fixed n ?v"
  proof (cases "8 * length (big_Bits x) \<le> n")
    case True
    have "?v < 256 ^ (8 * length (big_Bits x))"
      using words_val_less [of "big_Bits x"] big_Bits_less [of _ x] words_val_big_Bits [of x]
      by (simp add: W64_power power_mult)
    with True have "be_fixed (n - ?m) (?v div 256 ^ ?m) = replicate (n - ?m) 0" by simp
    then show ?thesis using True be_fixed_add [of "n - ?m" ?m ?v] by simp
  next
    case False
    then show ?thesis by simp
  qed
  finally show ?thesis .
qed

lemma U256_mod: "U256 x = x mod 2 ^ 256"
proof -
  have "tt256m1 = mask 256" by (simp add: tt256m1_def tt256_def BigPow_def mask_eq_exp_minus_1)
  then have "U256 x = take_bit 256 x" by (simp only: U256_def take_bit_eq_mask)
  then show ?thesis by (simp only: take_bit_eq_mod)
qed

text \<open>The loop invariant, modulo any \<open>M\<close> that the truncation respects.\<close>

lemma square_power: "(b * b) ^ n = b ^ (2 * n)" for b :: int
  by (simp add: power_mult power2_eq_square)

lemma exp_word_eq:
  assumes U: "\<And>x. U256 x mod M = x mod M"
  shows "w < 2 ^ k \<Longrightarrow> exp_word k w r b = (r', b') \<Longrightarrow>
     r' mod M = r * b ^ w mod M \<and> b' mod M = b ^ (2 ^ k) mod M"
proof (induction k arbitrary: w r b)
  case 0
  then show ?case by simp
next
  case (Suc k)
  let ?r = "if odd w then U256 (r * b) else r" and ?b = "U256 (b * b)"
  have w: "w div 2 < 2 ^ k" using Suc.prems(1) by simp
  have e: "exp_word k (w div 2) ?r ?b = (r', b')" using Suc.prems(2) by simp
  from Suc.IH [OF w e]
  have r': "r' mod M = ?r * ?b ^ (w div 2) mod M" and b': "b' mod M = ?b ^ (2 ^ k) mod M"
    by simp_all
  have sq: "?b ^ n mod M = b ^ (2 * n) mod M" for n
    by (metis U power_mod square_power)
  have rm: "?r mod M = (if odd w then r * b else r) mod M"
    by (simp add: U)
  have "r' mod M = (if odd w then r * b else r) * b ^ (2 * (w div 2)) mod M"
    unfolding r' by (rule mod_mult_cong [OF rm sq])
  also have "(if odd w then r * b else r) * b ^ (2 * (w div 2)) = r * b ^ w"
  proof (cases "odd w")
    case True
    then have "b ^ w = b * b ^ (2 * (w div 2))" by (metis odd_two_times_div_two_succ power_Suc Suc_eq_plus1)
    with True show ?thesis by (simp add: mult.assoc)
  next
    case False
    then show ?thesis by simp
  qed
  finally have "r' mod M = r * b ^ w mod M" .
  moreover have "b' mod M = b ^ (2 ^ Suc k) mod M"
    using b' sq [of "2 ^ k"] by simp
  ultimately show ?case by simp
qed

lemma exp_words_eq:
  assumes U: "\<And>x. U256 x mod M = x mod M"
  shows "(\<And>w. w \<in> set ws \<Longrightarrow> w < W64) \<Longrightarrow>
     fst (exp_words ws r b) mod M = r * b ^ words_val ws mod M"
proof (induction ws arbitrary: r b)
  case Nil
  then show ?case by simp
next
  case (Cons w ws)
  obtain r' b' where e: "exp_word 64 w r b = (r', b')" by (cases "exp_word 64 w r b")
  have "w < 2 ^ 64" using Cons.prems [of w] by (simp add: W64_def)
  from exp_word_eq [OF U this e]
  have r': "r' mod M = r * b ^ w mod M" and b': "b' mod M = b ^ W64 mod M"
    by (simp_all add: W64_def)
  have bp: "b' ^ n mod M = (b ^ W64) ^ n mod M" for n by (metis b' power_mod)
  have "fst (exp_words (w # ws) r b) mod M = r' * b' ^ words_val ws mod M"
    using Cons e by simp
  also have "\<dots> = (r * b ^ w) * (b ^ W64) ^ words_val ws mod M"
    by (rule mod_mult_cong [OF r' bp])
  also have "(r * b ^ w) * (b ^ W64) ^ words_val ws = r * b ^ words_val (w # ws)"
    by (simp add: power_add power_mult mult.assoc)
  finally show ?case .
qed

lemma exp_word_reduced: "r = r mod 2 ^ 256 \<Longrightarrow> fst (exp_word k w r b) = fst (exp_word k w r b) mod 2 ^ 256"
  by (induction k arbitrary: w r b) (simp_all add: U256_mod)

lemma exp_words_reduced: "r = r mod 2 ^ 256 \<Longrightarrow> fst (exp_words ws r b) = fst (exp_words ws r b) mod 2 ^ 256"
proof (induction ws arbitrary: r b)
  case Nil
  then show ?case by simp
next
  case (Cons w ws)
  obtain r' b' where e: "exp_word 64 w r b = (r', b')" by (cases "exp_word 64 w r b")
  then have "r' = r' mod 2 ^ 256" using exp_word_reduced [OF Cons.prems, of 64 w b] by simp
  from Cons.IH [OF this] show ?case by (simp add: e)
qed

lemma Exp_eq: "fst (Exp b e) = b ^ nat \<bar>e\<bar> mod 2 ^ 256"
proof -
  have "fst (Exp b e) = fst (Exp b e) mod 2 ^ 256"
    unfolding Exp_def by (rule exp_words_reduced) simp
  also have "\<dots> = b ^ nat \<bar>e\<bar> mod 2 ^ 256"
    unfolding Exp_def using exp_words_eq [of "2 ^ 256" "big_Bits e" 1 b] big_Bits_less [of _ e]
    by (simp add: words_val_big_Bits U256_mod)
  finally show ?thesis .
qed

section \<open>Properties\<close>

text \<open>
  the bit-by-bit loop of \<open>math.Exp\<close> computes the power of the base modulo 2^256, for
  every base and exponent.
\<close>

theorem Exp_is_power: "fst (Exp b e) = b ^ nat \<bar>e\<bar> mod 2 ^ 256"
  by (rule Exp_eq)

lemma ParseBig256_big_String:
  assumes "\<bar>v\<bar> < 2 ^ 256"
  shows "ParseBig256 (big_String v) = Some v"
proof -
  have "\<not> 256 < big_BitLen v" using assms big_BitLen_le_iff [of v 256] by (simp add: not_less)
  then show ?thesis using big_String_not_hex [of v] by (auto simp: ParseBig256_def golib_simps)
qed

end
