(* ===== verification/Common.thy ===== *)
theory Common
  imports CMath
begin

text \<open>
  Package \<open>common\<close>: hexadecimal text, padding, bounds-safe reads of big-endian words
  (\<open>GetData\<close>, \<open>GetBigInt\<close>, \<open>GetUint64\<close>), and the fixed-size types \<open>Address\<close>
  (20 bytes) and \<open>Hash\<close> (32 bytes). A fixed-size array is a byte list whose length is that
  of the array. The Keccak hash is code of \<open>golang.org/x/crypto\<close>: it is the parameter
  \<open>keccak\<close> of the definitions that use it.
\<close>

section \<open>bytes.go\<close>

definition ToHex :: "bytes \<Rightarrow> string" where
  "ToHex b = ''0x'' @ hex_EncodeToString b"

definition Hex2Bytes :: "string \<Rightarrow> bytes" where
  "Hex2Bytes str = fst (hex_DecodeString str)"

definition FromHex :: "string \<Rightarrow> bytes" where
  "FromHex s =
     (let s1 = (if 1 < length s \<and> (take 2 s = ''0x'' \<or> take 2 s = ''0X'') then drop 2 s else s);
          s2 = (if length s1 mod 2 = 1 then CHR ''0'' # s1 else s1)
      in Hex2Bytes s2)"

definition HasHexPrefix :: "string \<Rightarrow> bool" where
  "HasHexPrefix str \<longleftrightarrow>
     2 \<le> length str \<and> str ! 0 = CHR ''0'' \<and> (str ! 1 = CHR ''x'' \<or> str ! 1 = CHR ''X'')"

definition IsHexCharacter :: "char \<Rightarrow> bool" where
  "IsHexCharacter c \<longleftrightarrow>
     (48 \<le> cv c \<and> cv c \<le> 57) \<or> (97 \<le> cv c \<and> cv c \<le> 102) \<or> (65 \<le> cv c \<and> cv c \<le> 70)"

definition IsUpperHexCharacter :: "char \<Rightarrow> bool" where
  "IsUpperHexCharacter c \<longleftrightarrow> 65 \<le> cv c \<and> cv c \<le> 70"

definition IsHex :: "string \<Rightarrow> bool" where
  "IsHex str \<longleftrightarrow> length str mod 2 = 0 \<and> list_all IsHexCharacter str"

fun scan_upper :: "string \<Rightarrow> bool \<Rightarrow> bool \<times> bool" where
  "scan_upper [] up = (True, up)"
| "scan_upper (c # cs) up =
     (if \<not> IsHexCharacter c then (False, up)
      else scan_upper cs (if \<not> up \<and> IsUpperHexCharacter c then True else up))"

definition GetUnprefixedHex :: "string \<Rightarrow> string \<times> bool \<times> bool" where
  "GetUnprefixedHex str =
     (if length str mod 2 \<noteq> 0 then ([], False, False)
      else let s = (if HasHexPrefix str then drop 2 str else str)
           in case scan_upper s False of (ok, up) \<Rightarrow> if ok then (s, True, up) else ([], False, up))"

definition Bytes2Hex :: "bytes \<Rightarrow> string" where
  "Bytes2Hex d = hex_EncodeToString d"

definition Hex2BytesFixed :: "string \<Rightarrow> nat \<Rightarrow> bytes" where
  "Hex2BytesFixed str flen =
     (let h = fst (hex_DecodeString str) in
      if length h = flen then h
      else if flen < length h then drop (length h - flen) h
      else copy_at (replicate flen 0) (flen - length h) h)"

text \<open>The length is a Go \<open>int\<close>, and may be negative.\<close>

definition RightPadBytes :: "bytes \<Rightarrow> int \<Rightarrow> bytes" where
  "RightPadBytes sl l =
     (if l \<le> int (length sl) then sl else copy_at (replicate (nat l) 0) 0 sl)"

definition LeftPadBytes :: "bytes \<Rightarrow> int \<Rightarrow> bytes" where
  "LeftPadBytes sl l =
     (if l \<le> int (length sl) then sl
      else copy_at (replicate (nat l) 0) (nat l - length sl) sl)"

section \<open>utils.go\<close>

definition GetBigIntFromStr :: "string \<Rightarrow> (string, int) outcome" where
  "GetBigIntFromStr str =
     (case ParseBig256 str of None \<Rightarrow> Err (''invalid 256 bit integer: '' @ str) | Some v \<Rightarrow> Ret v)"

definition GetUint64FromStr :: "string \<Rightarrow> (string, nat) outcome" where
  "GetUint64FromStr str =
     (case ParseUint64 str of (v, ok) \<Rightarrow>
        if ok then Ret v else Err (''invalid unsigned 64 bit integer: '' @ str))"

definition MinUint64 :: "nat \<Rightarrow> nat \<Rightarrow> nat" where
  "MinUint64 x y = (if x \<le> y then x else y)"

definition MaxUint64 :: "nat \<Rightarrow> nat \<Rightarrow> nat" where
  "MaxUint64 x y = (if x < y then y else x)"

definition GetData :: "bytes \<Rightarrow> nat \<Rightarrow> nat \<Rightarrow> ('e, bytes) outcome" where
  "GetData data start sz =
     (let len = length data;
          start = (if len < start then len else start);
          end1 = u64_add start sz;
          end2 = (if len < end1 then len else end1)
      in obind (go_slice data start end2) (\<lambda>s. Ret (RightPadBytes s (int_of_u64 sz))))"

definition BigUint64 :: "int \<Rightarrow> nat \<times> bool" where
  "BigUint64 v = (nat (v mod int W64), \<not> (0 \<le> v \<and> v < int W64))"

definition GetBigInt :: "bytes \<Rightarrow> nat \<Rightarrow> nat \<Rightarrow> ('e, int) outcome" where
  "GetBigInt data start sz =
     (if length data \<le> start \<or> sz = 0 then Ret 0
      else let end1 = u64_add start sz;
               end2 = (if length data < end1 then length data else end1)
           in obind (go_slice data start end2) (\<lambda>s. Ret (big_SetBytes s)))"

definition GetUint64 :: "bytes \<Rightarrow> nat \<Rightarrow> nat \<Rightarrow> ('e, nat \<times> bool) outcome" where
  "GetUint64 data start sz = obind (GetBigInt data start sz) (\<lambda>v. Ret (BigUint64 v))"

section \<open>hash.go and ethaddress.go\<close>

definition AddressLength :: nat where
  "AddressLength = 20"

definition HashLength :: nat where
  "HashLength = 32"

type_synonym Address = bytes
type_synonym Hash = bytes

definition ZeroAddress :: Address where
  "ZeroAddress = replicate AddressLength 0"

definition Address_SetBytes :: "Address \<Rightarrow> bytes \<Rightarrow> Address" where
  "Address_SetBytes a b =
     (let b = (if length a < length b then drop (length b - AddressLength) b else b)
      in copy_at a (AddressLength - length b) b)"

definition BytesToAddress :: "bytes \<Rightarrow> Address" where
  "BytesToAddress b = Address_SetBytes ZeroAddress b"

definition Hash_SetBytes :: "Hash \<Rightarrow> bytes \<Rightarrow> Hash" where
  "Hash_SetBytes h b =
     (let b = (if length h < length b then drop (length b - HashLength) b else b)
      in copy_at h (HashLength - length b) b)"

definition BytesToHash :: "bytes \<Rightarrow> Hash" where
  "BytesToHash b = Hash_SetBytes (replicate HashLength 0) b"

definition BigToAddress :: "int \<Rightarrow> Address" where
  "BigToAddress b = BytesToAddress (big_Bytes b)"

definition BigToHash :: "int \<Rightarrow> Hash" where
  "BigToHash b = BytesToHash (big_Bytes b)"

definition HexToAddress :: "string \<Rightarrow> Address" where
  "HexToAddress s = BytesToAddress (FromHex s)"

definition HexToHash :: "string \<Rightarrow> Hash" where
  "HexToHash s = BytesToHash (FromHex s)"

definition IsHexAddress :: "string \<Rightarrow> bool" where
  "IsHexAddress s =
     (let s = (if HasHexPrefix s then drop 2 s else s)
      in length s = 2 * AddressLength \<and> IsHex s)"

definition IsHexHash :: "string \<Rightarrow> bool" where
  "IsHexHash s =
     (let s = (if HasHexPrefix s then drop 2 s else s)
      in length s = 2 * HashLength \<and> IsHex s)"

definition Address_Hash :: "Address \<Rightarrow> Hash" where
  "Address_Hash a = BytesToHash a"

definition Hash_Big :: "Hash \<Rightarrow> int" where
  "Hash_Big h = big_SetBytes h"

definition LowerHex :: "Address \<Rightarrow> string" where
  "LowerHex a = ''0x'' @ hex_EncodeToString a"

text \<open>The nibble of the hash that decides the case of character \<open>i\<close>.\<close>

definition checksum_nibble :: "bytes \<Rightarrow> nat \<Rightarrow> nat" where
  "checksum_nibble hash i =
     (let b = unat (hash ! (i div 2)) in if i mod 2 = 0 then b div 16 else b mod 16)"

definition checksum_char :: "bytes \<Rightarrow> nat \<Rightarrow> char \<Rightarrow> char" where
  "checksum_char hash i c =
     (if 57 < cv c \<and> 7 < checksum_nibble hash i then char_of (cv c - 32) else c)"

definition Address_Hex :: "(bytes \<Rightarrow> bytes) \<Rightarrow> Address \<Rightarrow> string" where
  "Address_Hex keccak a =
     (let unchecksummed = hex_EncodeToString a;
          hash = keccak (str_bytes unchecksummed)
      in ''0x'' @ map (\<lambda>(i, c). checksum_char hash i c)
                   (zip [0..<length unchecksummed] unchecksummed))"

record MixedcaseAddress =
  ma_addr :: Address
  ma_original :: string

definition NewMixedcaseAddressFromString :: "string \<Rightarrow> (string, MixedcaseAddress) outcome" where
  "NewMixedcaseAddressFromString hexaddr =
     (if \<not> IsHexAddress hexaddr then Err ''invalid address''
      else Ret \<lparr>ma_addr = BytesToAddress (FromHex hexaddr), ma_original = hexaddr\<rparr>)"

definition ValidChecksum :: "(bytes \<Rightarrow> bytes) \<Rightarrow> MixedcaseAddress \<Rightarrow> bool" where
  "ValidChecksum keccak ma \<longleftrightarrow> ma_original ma = Address_Hex keccak (ma_addr ma)"

section \<open>Lemmas\<close>

lemma length_ZeroAddress [simp]: "length ZeroAddress = AddressLength"
  by (simp add: ZeroAddress_def)

lemma RightPadBytes_eq:
  "0 \<le> l \<Longrightarrow> RightPadBytes b l = b @ replicate (nat l - length b) 0"
  by (simp add: RightPadBytes_def copy_at_def)

lemma LeftPadBytes_eq:
  "0 \<le> l \<Longrightarrow> LeftPadBytes b l = replicate (nat l - length b) 0 @ b"
  by (simp add: LeftPadBytes_def copy_at_def)

lemma be_val_LeftPadBytes: "be_val (LeftPadBytes b l) = be_val b"
  by (simp add: LeftPadBytes_def copy_at_def be_val_append)

lemma BytesToAddress_eq:
  "BytesToAddress b =
     replicate (AddressLength - length b) 0 @ drop (length b - AddressLength) b"
  by (auto simp: BytesToAddress_def Address_SetBytes_def copy_at_def Let_def ZeroAddress_def)

lemma BytesToHash_eq:
  "BytesToHash b = replicate (HashLength - length b) 0 @ drop (length b - HashLength) b"
  by (auto simp: BytesToHash_def Hash_SetBytes_def copy_at_def Let_def)

lemma length_BytesToAddress [simp]: "length (BytesToAddress b) = AddressLength"
  by (simp add: BytesToAddress_eq)

lemma length_BytesToHash [simp]: "length (BytesToHash b) = HashLength"
  by (simp add: BytesToHash_eq)

lemma BytesToAddress_id [simp]: "length a = AddressLength \<Longrightarrow> BytesToAddress a = a"
  by (simp add: BytesToAddress_eq)

text \<open>An address survives the left padding to a 32-byte word and the cropping back.\<close>

lemma BytesToAddress_Hash [simp]:
  "length a = AddressLength \<Longrightarrow> BytesToAddress (Address_Hash a) = a"
  by (simp add: BytesToAddress_eq Address_Hash_def BytesToHash_eq AddressLength_def HashLength_def)

lemma length_Address_Hash [simp]: "length (Address_Hash a) = HashLength"
  by (simp add: Address_Hash_def)

lemma FromHex_0x: "FromHex (''0x'' @ hex_EncodeToString b) = b"
  by (simp add: FromHex_def Let_def Hex2Bytes_def hex_decode_encode)

lemma HexToAddress_LowerHex [simp]: "length a = AddressLength \<Longrightarrow> HexToAddress (LowerHex a) = a"
  using FromHex_0x [of a] by (simp add: HexToAddress_def LowerHex_def)

text \<open>Reads inside the data.\<close>

lemma GetBigInt_inside:
  assumes "start + sz \<le> length data" and "length data < W64"
  shows "GetBigInt data start sz = Ret (int (be_val (take sz (drop start data))))"
  using assms by (auto simp: GetBigInt_def Let_def go_slice_Ret big_SetBytes_def not_less)

lemma GetData_inside:
  assumes "start + sz \<le> length data" and "length data < 2 ^ 63"
  shows "GetData data start sz = Ret (take sz (drop start data))"
proof -
  have "sz \<le> length data - start" and "start \<le> length data" using assms(1) by simp_all
  then show ?thesis using assms
    by (simp add: GetData_def Let_def go_slice_Ret RightPadBytes_def int_of_u64_def W64_def)
qed

lemma BigUint64_small [simp]: "n < W64 \<Longrightarrow> BigUint64 (int n) = (n, False)"
  by (simp add: BigUint64_def)

lemma BigUint64_bound: "fst (BigUint64 v) < W64"
proof -
  have "v mod int W64 < int W64" by (rule pos_mod_bound) simp
  then show ?thesis by (simp add: BigUint64_def nat_less_iff)
qed

lemma hex_digit_lower: "n < 16 \<Longrightarrow> lower (digit_char n) = digit_char n"
  by (simp add: lower_def digit_char_def cv_char_of)

lemma lower_checksum_char:
  assumes "n < 16"
  shows "lower (checksum_char hash i (digit_char n)) = digit_char n"
proof (cases "57 < cv (digit_char n) \<and> 7 < checksum_nibble hash i")
  case True
  then have "10 \<le> n" by (simp add: digit_char_def cv_char_of assms split: if_splits)
  with True assms show ?thesis
    by (simp add: checksum_char_def lower_def digit_char_def cv_char_of)
next
  case False
  then have "checksum_char hash i (digit_char n) = digit_char n" by (simp only: checksum_char_def if_False)
  then show ?thesis using assms by (simp add: hex_digit_lower)
qed

lemma hex_chars: "c \<in> set (hex_EncodeToString b) \<Longrightarrow> \<exists>n < 16. c = digit_char n"
proof (induction b)
  case Nil
  then show ?case by simp
next
  case (Cons x xs)
  have "unat x div 16 < 16"
    using unat_byte_less [of x] by (simp add: less_mult_imp_div_less del: unat_byte_less)
  then have "\<exists>n < 16. digit_char (unat x div 16) = digit_char n" by blast
  moreover have "\<exists>n < 16. digit_char (unat x mod 16) = digit_char n"
    by (rule exI [of _ "unat x mod 16"]) simp
  ultimately show ?case using Cons by auto
qed

lemma ToLower_Address_Hex: "ToLower (Address_Hex keccak a) = LowerHex a"
proof -
  let ?u = "hex_EncodeToString a"
  let ?h = "keccak (str_bytes ?u)"
  have "map lower (map (\<lambda>(i, c). checksum_char ?h i c) (zip [0..<length ?u] ?u)) = map snd (zip [0..<length ?u] ?u)"
    unfolding map_map
    by (rule map_cong [OF refl]) (auto dest!: set_zip_rightD hex_chars simp: lower_checksum_char)
  also have "\<dots> = ?u" by (simp add: map_snd_zip)
  finally have u: "map lower (map (\<lambda>(i, c). checksum_char ?h i c) (zip [0..<length ?u] ?u)) = ?u" .
  have x: "lower (CHR ''0'') = CHR ''0''" "lower (CHR ''x'') = CHR ''x''" by code_simp+
  show ?thesis
    unfolding Address_Hex_def Let_def ToLower_def LowerHex_def map_append u by (simp add: x)
qed

end
