(* ===== verification/Params.thy ===== *)
theory Params
  imports Common "HOL-Library.AList"
begin

text \<open>
  Package \<open>params\<close>: the router configuration and the process-wide tables derived from it:
  black lists, white lists, gas prices and chain switches, with the checks that a configuration
  passes before it is used, its reload, and the administrator's additions and removals.

  The package variables are the fields of \<open>params_state\<close>; every function that writes them
  takes the state and returns it. A call's result carries the new state also when it fails,
  since a failed check keeps what it wrote before the failure. \<open>log.Fatal\<close> ends the
  process and is a \<open>Panic\<close>, as is a nil dereference. A Go map that the code iterates is an
  association list in the order of the iteration, which Go leaves open; the map keys that an
  administrator call copies back into the configuration are listed by the argument
  \<open>keys\<close>, which stands for that order.
\<close>

named_theorems params_simps "reading the tables after an operation"

section \<open>Configuration (config.go)\<close>

record DynamicFeeTxConfig =
  PlusGasTipCapPercent :: nat
  PlusGasFeeCapPercent :: nat
  BlockCountFeeHistory :: int
  MaxGasTipCap :: string
  MaxGasFeeCap :: string
  maxGasTipCap :: "int option"
  maxGasFeeCap :: "int option"

record APIServerConfig =
  Port :: int
  AllowedOrigins :: "string list"
  MaxRequestsLimit :: int

record RouterServerConfig =
  Admins :: "string list"
  Assistants :: "string list"
  APIServer :: "APIServerConfig option"
  ChainIDBlackList :: "string list"
  TokenIDBlackList :: "string list"
  AccountBlackList :: "string list"
  AutoSwapNonceEnabledChains :: "string list"
  EnableReplaceSwap :: bool
  EnablePassBigValueSwap :: bool
  ReplacePlusGasPricePercent :: nat
  WaitTimeToReplace :: int
  MaxReplaceCount :: int
  PlusGasPricePercentage :: nat
  MaxPlusGasPricePercentage :: nat
  MaxGasPriceFluctPercent :: nat
  SwapDeadlineOffset :: int
  DefaultGasLimit :: "(string \<times> nat) list"
  FixedGasPrice :: "(string \<times> string) list"
  MaxGasPrice :: "(string \<times> string) list"
  NoncePassedConfirmInterval :: "(string \<times> int) list"
  CalcGasPriceMethod :: "(string \<times> string) list"
  RetrySendTxLoopCount :: "(string \<times> int) list"
  SendTxLoopCount :: "(string \<times> int) list"
  SendTxLoopInterval :: "(string \<times> int) list"
  DynamicFeeTx :: "(string \<times> DynamicFeeTxConfig) list"

record ExtraConfig =
  cfgDebugMode :: bool
  EnableSwapTrade :: bool
  EnableSwapWithPermit :: bool
  ForceAnySwapInAuto :: bool
  cfgIsNFTSwapWithData :: bool
  EnableParallelSwap :: bool
  UsePendingBalance :: bool
  MinReserveFee :: "(string \<times> nat) list"
  BaseFeePercent :: "(string \<times> int) list"
  MinReserveBudget :: "(string \<times> nat) list"
  cfgAcceptListInterval :: nat
  PendingInvalidAccept :: bool
  cfgAllowCallByConstructor :: bool
  cfgAllowCallByContract :: bool
  cfgCheckEIP1167Master :: bool
  CallByContractWhitelist :: "(string \<times> string list) list"
  CallByContractCodeHashWhitelist :: "(string \<times> string list) list"
  BigValueWhitelist :: "(string \<times> string list) list"
  DynamicFeeTxEnabledChains :: "string list"
  EnableCheckTxBlockHashChains :: "string list"
  EnableCheckTxBlockIndexChains :: "string list"
  DisableUseFromChainIDInReceiptChains :: "string list"
  DontCheckReceivedTokenIDs :: "string list"
  Customs :: "(string \<times> (string \<times> string) list) list"

record RouterConfig =
  Server :: "RouterServerConfig option"
  Identifier :: string
  cfgSwapType :: string
  SwapSubType :: string
  Gateways :: "(string \<times> string list) list"
  ChainNames :: "(string \<times> string list) list"
  Initiators :: "string list"
  Extra :: "ExtraConfig option"

type_synonym members = "string set"

record params_state =
  routerConfig :: RouterConfig
  ethClient :: "string \<rightharpoonup> string \<times> string"
  EthRpc :: "string \<rightharpoonup> string list"
  chainName :: "string \<rightharpoonup> string"
  chainIDBlacklistMap :: members
  tokenIDBlacklistMap :: members
  accountBlacklistMap :: members
  fixedGasPriceMap :: "string \<rightharpoonup> int"
  maxGasPriceMap :: "string \<rightharpoonup> int"
  callByContractWhitelist :: "string \<rightharpoonup> members"
  callByContractCodeHashWhitelist :: "string \<rightharpoonup> members"
  bigValueWhitelist :: "string \<rightharpoonup> members"
  autoSwapNonceEnabledChains :: members
  dynamicFeeTxEnabledChains :: members
  enableCheckTxBlockHashChains :: members
  enableCheckTxBlockIndexChains :: members
  disableUseFromChainIDInReceiptChains :: members
  dontCheckReceivedTokenIDs :: members
  isDebugMode :: "bool option"
  isNFTSwapWithData :: "bool option"
  isAllowCallByContract :: "bool option"
  isCheckEIP1167Master :: "bool option"
  GetBalanceBlockNumberOpt :: string

datatype params_error =
    WrongIdentifier | EmptySwapType | MissingServer | MissingAPIServer
  | WrongChainID string | DuplicateChainID string
  | EmptyTokenID | DuplicateTokenID string | EmptyAccount | DuplicateAccount string
  | WrongGasPrice string
  | WrongMaxGasTipCap | WrongMaxGasFeeCap
  | TooLargePlusGasTipCapPercent | TooLargePlusGasFeeCapPercent | TooLargeBlockCountFeeHistory
  | MissingMaxGasTipCap | MissingMaxGasFeeCap | TipCapAboveFeeCap | MissingDynamicFee string
  | TooLargePlusGasPricePercentage | TooLargeMaxGasPriceFluctPercent
  | BaseFeePercentRange

text \<open>A call that writes the package state.\<close>

type_synonym check = "params_state \<Rightarrow> (params_error, unit) outcome \<times> params_state"

fun and_then :: "check \<Rightarrow> check \<Rightarrow> check" where
  "and_then f g s = (case f s of (Ret _, s') \<Rightarrow> g s' | r \<Rightarrow> r)"

definition ok :: check where
  "ok s = (Ret (), s)"

text \<open>The loop \<open>for _, x := range xs\<close> over a state-writing body.\<close>

fun each :: "('a \<Rightarrow> check) \<Rightarrow> 'a list \<Rightarrow> check" where
  "each f [] = ok"
| "each f (x # xs) = and_then (f x) (each f xs)"

definition GetExtraConfig :: "params_state \<Rightarrow> ExtraConfig option" where
  "GetExtraConfig s = Extra (routerConfig s)"

definition GetRouterServerConfig :: "params_state \<Rightarrow> RouterServerConfig option" where
  "GetRouterServerConfig s = Server (routerConfig s)"

section \<open>Reading the configuration\<close>

definition IsSwapTradeEnabled :: "params_state \<Rightarrow> bool" where
  "IsSwapTradeEnabled s = (case GetExtraConfig s of None \<Rightarrow> False | Some c \<Rightarrow> EnableSwapTrade c)"

definition IsSwapWithPermitEnabled :: "params_state \<Rightarrow> bool" where
  "IsSwapWithPermitEnabled s = (case GetExtraConfig s of None \<Rightarrow> False | Some c \<Rightarrow> EnableSwapWithPermit c)"

definition IsFixedGasPrice :: "params_state \<Rightarrow> string \<Rightarrow> bool" where
  "IsFixedGasPrice s chainID \<longleftrightarrow> fixedGasPriceMap s chainID \<noteq> None"

definition GetFixedGasPrice :: "params_state \<Rightarrow> string \<Rightarrow> int option" where
  "GetFixedGasPrice s chainID = fixedGasPriceMap s chainID"

definition GetMaxGasPrice :: "params_state \<Rightarrow> string \<Rightarrow> int option" where
  "GetMaxGasPrice s chainID = maxGasPriceMap s chainID"

definition GetIdentifier :: "params_state \<Rightarrow> string" where
  "GetIdentifier s = Identifier (routerConfig s)"

definition GetSwapSubType :: "params_state \<Rightarrow> string" where
  "GetSwapSubType s = SwapSubType (routerConfig s)"

definition IsPendingInvalidAccept :: "params_state \<Rightarrow> bool" where
  "IsPendingInvalidAccept s = (case GetExtraConfig s of None \<Rightarrow> False | Some c \<Rightarrow> PendingInvalidAccept c)"

definition GetAcceptListInterval :: "params_state \<Rightarrow> nat" where
  "GetAcceptListInterval s = (case GetExtraConfig s of None \<Rightarrow> 0 | Some c \<Rightarrow> cfgAcceptListInterval c)"

definition IsForceAnySwapInAuto :: "params_state \<Rightarrow> bool" where
  "IsForceAnySwapInAuto s = (case GetExtraConfig s of None \<Rightarrow> False | Some c \<Rightarrow> ForceAnySwapInAuto c)"

definition IsParallelSwapEnabled :: "params_state \<Rightarrow> bool" where
  "IsParallelSwapEnabled s = (case GetExtraConfig s of None \<Rightarrow> False | Some c \<Rightarrow> EnableParallelSwap c)"

definition GetNoncePassedConfirmInterval :: "params_state \<Rightarrow> string \<Rightarrow> int" where
  "GetNoncePassedConfirmInterval s chainID =
     (case GetRouterServerConfig s of
        None \<Rightarrow> 0
      | Some c \<Rightarrow> (case map_of (NoncePassedConfirmInterval c) chainID of None \<Rightarrow> 0 | Some i \<Rightarrow> i))"

definition GetCalcGasPriceMethod :: "params_state \<Rightarrow> string \<Rightarrow> string" where
  "GetCalcGasPriceMethod s chainID =
     (case GetRouterServerConfig s of
        None \<Rightarrow> ''median''
      | Some c \<Rightarrow> (case map_of (CalcGasPriceMethod c) chainID of None \<Rightarrow> ''median'' | Some m \<Rightarrow> m))"

definition GetMinReserveFee :: "params_state \<Rightarrow> string \<Rightarrow> int option" where
  "GetMinReserveFee s chainID =
     (case GetExtraConfig s of None \<Rightarrow> None | Some c \<Rightarrow> map_option int (map_of (MinReserveFee c) chainID))"

definition HasMinReserveBudgetConfig :: "params_state \<Rightarrow> bool" where
  "HasMinReserveBudgetConfig s =
     (case GetExtraConfig s of None \<Rightarrow> False | Some c \<Rightarrow> 0 < length (MinReserveBudget c))"

definition GetMinReserveBudget :: "params_state \<Rightarrow> string \<Rightarrow> int option" where
  "GetMinReserveBudget s chainID =
     (case GetExtraConfig s of None \<Rightarrow> None | Some c \<Rightarrow> map_option int (map_of (MinReserveBudget c) chainID))"

definition GetBaseFeePercent :: "params_state \<Rightarrow> string \<Rightarrow> int" where
  "GetBaseFeePercent s chainID =
     (case GetExtraConfig s of
        None \<Rightarrow> 0
      | Some c \<Rightarrow> (case map_of (BaseFeePercent c) chainID of None \<Rightarrow> 0 | Some p \<Rightarrow> p))"

definition GetCustom :: "params_state \<Rightarrow> string \<Rightarrow> string \<Rightarrow> string" where
  "GetCustom s chainID key =
     (case GetExtraConfig s of
        None \<Rightarrow> ''''
      | Some c \<Rightarrow>
          (case map_of (Customs c) chainID of
             None \<Rightarrow> ''''
           | Some mapping \<Rightarrow>
               if length mapping = 0 then ''''
               else (case map_of mapping key of None \<Rightarrow> '''' | Some v \<Rightarrow> v)))"

definition AllowCallByConstructor :: "params_state \<Rightarrow> bool" where
  "AllowCallByConstructor s = (case GetExtraConfig s of None \<Rightarrow> False | Some c \<Rightarrow> cfgAllowCallByConstructor c)"

text \<open>The flag is read from the configuration at its first use and cached.\<close>

definition IsDebugMode :: "params_state \<Rightarrow> bool \<times> params_state" where
  "IsDebugMode s =
     (case isDebugMode s of
        Some b \<Rightarrow> (b, s)
      | None \<Rightarrow>
          let flag = (case GetExtraConfig s of None \<Rightarrow> False | Some c \<Rightarrow> cfgDebugMode c)
          in (flag, s\<lparr>isDebugMode := Some flag\<rparr>))"

definition SetDebugMode :: "bool \<Rightarrow> params_state \<Rightarrow> params_state" where
  "SetDebugMode flag s = s\<lparr>isDebugMode := Some flag\<rparr>"

definition IsNFTSwapWithData :: "params_state \<Rightarrow> bool \<times> params_state" where
  "IsNFTSwapWithData s =
     (case isNFTSwapWithData s of
        Some b \<Rightarrow> (b, s)
      | None \<Rightarrow>
          let flag = (case GetExtraConfig s of None \<Rightarrow> False | Some c \<Rightarrow> cfgIsNFTSwapWithData c)
          in (flag, s\<lparr>isNFTSwapWithData := Some flag\<rparr>))"

definition AllowCallByContract :: "params_state \<Rightarrow> bool \<times> params_state" where
  "AllowCallByContract s =
     (case isAllowCallByContract s of
        Some b \<Rightarrow> (b, s)
      | None \<Rightarrow>
          let flag = (case GetExtraConfig s of None \<Rightarrow> False | Some c \<Rightarrow> cfgAllowCallByContract c)
          in (flag, s\<lparr>isAllowCallByContract := Some flag\<rparr>))"

definition SetAllowCallByContract :: "bool \<Rightarrow> params_state \<Rightarrow> params_state" where
  "SetAllowCallByContract allow s = s\<lparr>isAllowCallByContract := Some allow\<rparr>"

definition CheckEIP1167Master :: "params_state \<Rightarrow> bool \<times> params_state" where
  "CheckEIP1167Master s =
     (case isCheckEIP1167Master s of
        Some b \<Rightarrow> (b, s)
      | None \<Rightarrow>
          let flag = (case GetExtraConfig s of None \<Rightarrow> False | Some c \<Rightarrow> cfgCheckEIP1167Master c)
          in (flag, s\<lparr>isCheckEIP1167Master := Some flag\<rparr>))"

definition IsMPCInitiator :: "params_state \<Rightarrow> string \<Rightarrow> bool" where
  "IsMPCInitiator s account = list_ex (EqualFold account) (Initiators (routerConfig s))"

definition HasRouterAdmin :: "params_state \<Rightarrow> (params_error, bool) outcome" where
  "HasRouterAdmin s = (case Server (routerConfig s) of None \<Rightarrow> Panic | Some c \<Rightarrow> Ret (length (Admins c) \<noteq> 0))"

definition IsRouterAdmin :: "params_state \<Rightarrow> string \<Rightarrow> (params_error, bool) outcome" where
  "IsRouterAdmin s account =
     (case Server (routerConfig s) of None \<Rightarrow> Panic | Some c \<Rightarrow> Ret (list_ex (EqualFold account) (Admins c)))"

definition IsRouterAssistant :: "params_state \<Rightarrow> string \<Rightarrow> (params_error, bool) outcome" where
  "IsRouterAssistant s account =
     (case Server (routerConfig s) of None \<Rightarrow> Panic | Some c \<Rightarrow> Ret (list_ex (EqualFold account) (Assistants c)))"

section \<open>White lists\<close>

text \<open>
  The three white lists have the same code for their tables. \<open>load_list\<close> is the loop over
  the addresses of one entry (\<open>norm\<close> is the key stored, \<open>good\<close> the check that is
  fatal when it fails).
\<close>

fun load_list :: "(string \<Rightarrow> bool) \<Rightarrow> (string \<Rightarrow> string) \<Rightarrow> string list \<Rightarrow> members \<Rightarrow> (params_error, members) outcome" where
  "load_list good norm [] acc = Ret acc"
| "load_list good norm (a # as) acc =
     (if \<not> good a then Panic else load_list good norm as (insert (norm a) acc))"

fun load_lists :: "(string \<Rightarrow> bool) \<Rightarrow> (string \<Rightarrow> bool) \<Rightarrow> (string \<Rightarrow> string) \<Rightarrow> (string \<times> string list) list \<Rightarrow>
    (string \<rightharpoonup> members) \<Rightarrow> (params_error, string \<rightharpoonup> members) outcome" where
  "load_lists goodKey good norm [] m = Ret m"
| "load_lists goodKey good norm ((k, as) # cfg) m =
     (if \<not> goodKey k then Panic
      else obind (load_list good norm as {}) (\<lambda>ms. load_lists goodKey good norm cfg (m(k \<mapsto> ms))))"

definition isBigInt :: "string \<Rightarrow> bool" where
  "isBigInt cid = (case GetBigIntFromStr cid of Ret _ \<Rightarrow> True | _ \<Rightarrow> False)"

definition initCallByContractWhitelist :: check where
  "initCallByContractWhitelist s =
     (let s = s\<lparr>callByContractWhitelist := Map.empty\<rparr> in
      case GetExtraConfig s of
        None \<Rightarrow> (Ret (), s)
      | Some c \<Rightarrow>
          (case load_lists isBigInt IsHexAddress ToLower (CallByContractWhitelist c) Map.empty of
             Ret m \<Rightarrow> (Ret (), s\<lparr>callByContractWhitelist := m\<rparr>)
           | _ \<Rightarrow> (Panic, s)))"

definition initCallByContractCodeHashWhitelist :: check where
  "initCallByContractCodeHashWhitelist s =
     (let s = s\<lparr>callByContractCodeHashWhitelist := Map.empty\<rparr> in
      case GetExtraConfig s of
        None \<Rightarrow> (Ret (), s)
      | Some c \<Rightarrow>
          (case load_lists isBigInt IsHexHash id (CallByContractCodeHashWhitelist c) Map.empty of
             Ret m \<Rightarrow> (Ret (), s\<lparr>callByContractCodeHashWhitelist := m\<rparr>)
           | _ \<Rightarrow> (Panic, s)))"

definition initBigValueWhitelist :: check where
  "initBigValueWhitelist s =
     (let s = s\<lparr>bigValueWhitelist := Map.empty\<rparr> in
      case GetExtraConfig s of
        None \<Rightarrow> (Ret (), s)
      | Some c \<Rightarrow>
          (case load_lists (\<lambda>_. True) IsHexAddress ToLower (BigValueWhitelist c) Map.empty of
             Ret m \<Rightarrow> (Ret (), s\<lparr>bigValueWhitelist := m\<rparr>)
           | _ \<Rightarrow> (Panic, s)))"

definition in_table :: "(string \<rightharpoonup> members) \<Rightarrow> string \<Rightarrow> string \<Rightarrow> bool" where
  "in_table m k a = (case m k of None \<Rightarrow> False | Some ms \<Rightarrow> a \<in> ms)"

definition IsInCallByContractWhitelist :: "params_state \<Rightarrow> string \<Rightarrow> string \<Rightarrow> bool" where
  "IsInCallByContractWhitelist s chainID caller = in_table (callByContractWhitelist s) chainID (ToLower caller)"

definition HasCallByContractCodeHashWhitelist :: "params_state \<Rightarrow> string \<Rightarrow> bool" where
  "HasCallByContractCodeHashWhitelist s chainID =
     (case callByContractCodeHashWhitelist s chainID of None \<Rightarrow> False | Some ms \<Rightarrow> ms \<noteq> {})"

definition IsInCallByContractCodeHashWhitelist :: "params_state \<Rightarrow> string \<Rightarrow> string \<Rightarrow> bool" where
  "IsInCallByContractCodeHashWhitelist s chainID codehash =
     in_table (callByContractCodeHashWhitelist s) chainID codehash"

definition IsInBigValueWhitelist :: "params_state \<Rightarrow> string \<Rightarrow> string \<Rightarrow> bool" where
  "IsInBigValueWhitelist s tokenID caller = in_table (bigValueWhitelist s) tokenID (ToLower caller)"

text \<open>The loop that adds or deletes the normalised keys.\<close>

fun add_or_remove :: "(string \<Rightarrow> string) \<Rightarrow> string list \<Rightarrow> bool \<Rightarrow> members \<Rightarrow> members" where
  "add_or_remove norm [] isAdd ms = ms"
| "add_or_remove norm (a # as) isAdd ms =
     add_or_remove norm as isAdd (if isAdd then insert (norm a) ms else ms - {norm a})"

text \<open>
  The table after an administrator call, and the members written back to the configuration;
  \<open>None\<close> when the call returns at once. A key that is not in the table gets a new outer map.
\<close>

definition edit_table :: "(string \<Rightarrow> string) \<Rightarrow> (string \<rightharpoonup> members) \<Rightarrow> string \<Rightarrow> string list \<Rightarrow> bool \<Rightarrow>
    ((string \<rightharpoonup> members) \<times> members) option" where
  "edit_table norm m k as isAdd =
     (case m k of
        None \<Rightarrow>
          if \<not> isAdd then None
          else let ms = add_or_remove norm as isAdd {} in Some (Map.empty(k \<mapsto> ms), ms)
      | Some ms0 \<Rightarrow> let ms = add_or_remove norm as isAdd ms0 in Some (m(k \<mapsto> ms), ms))"

definition upd_extra :: "(ExtraConfig \<Rightarrow> ExtraConfig) \<Rightarrow> params_state \<Rightarrow> params_state" where
  "upd_extra f s =
     (case GetExtraConfig s of
        None \<Rightarrow> s
      | Some c \<Rightarrow> s\<lparr>routerConfig := (routerConfig s)\<lparr>Extra := Some (f c)\<rparr>\<rparr>)"

definition AddOrRemoveCallByContractWhitelist :: "(members \<Rightarrow> string list) \<Rightarrow> string \<Rightarrow> string list \<Rightarrow> bool \<Rightarrow> params_state \<Rightarrow> params_state" where
  "AddOrRemoveCallByContractWhitelist keys chainID callers isAdd s =
     (case edit_table ToLower (callByContractWhitelist s) chainID callers isAdd of
        None \<Rightarrow> s
      | Some (m, ms) \<Rightarrow>
          upd_extra (\<lambda>c. c\<lparr>CallByContractWhitelist := AList.update chainID (keys ms) (CallByContractWhitelist c)\<rparr>)
            (s\<lparr>callByContractWhitelist := m\<rparr>))"

definition AddOrRemoveCallByContractCodeHashWhitelist :: "(members \<Rightarrow> string list) \<Rightarrow> string \<Rightarrow> string list \<Rightarrow> bool \<Rightarrow> params_state \<Rightarrow> params_state" where
  "AddOrRemoveCallByContractCodeHashWhitelist keys chainID codehashes isAdd s =
     (case edit_table id (callByContractCodeHashWhitelist s) chainID codehashes isAdd of
        None \<Rightarrow> s
      | Some (m, ms) \<Rightarrow>
          upd_extra (\<lambda>c. c\<lparr>CallByContractCodeHashWhitelist := AList.update chainID (keys ms) (CallByContractCodeHashWhitelist c)\<rparr>)
            (s\<lparr>callByContractCodeHashWhitelist := m\<rparr>))"

definition AddOrRemoveBigValueWhitelist :: "(members \<Rightarrow> string list) \<Rightarrow> string \<Rightarrow> string list \<Rightarrow> bool \<Rightarrow> params_state \<Rightarrow> params_state" where
  "AddOrRemoveBigValueWhitelist keys tokenID callers isAdd s =
     (case edit_table ToLower (bigValueWhitelist s) tokenID callers isAdd of
        None \<Rightarrow> s
      | Some (m, ms) \<Rightarrow>
          upd_extra (\<lambda>c. c\<lparr>BigValueWhitelist := AList.update tokenID (keys ms) (BigValueWhitelist c)\<rparr>)
            (s\<lparr>bigValueWhitelist := m\<rparr>))"

section \<open>Black lists\<close>

definition IsChainIDInBlackList :: "params_state \<Rightarrow> string \<Rightarrow> bool" where
  "IsChainIDInBlackList s chainID \<longleftrightarrow> chainID \<in> chainIDBlacklistMap s"

definition IsTokenIDInBlackList :: "params_state \<Rightarrow> string \<Rightarrow> bool" where
  "IsTokenIDInBlackList s tokenID \<longleftrightarrow> ToLower tokenID \<in> tokenIDBlacklistMap s"

definition IsAccountInBlackList :: "params_state \<Rightarrow> string \<Rightarrow> bool" where
  "IsAccountInBlackList s account \<longleftrightarrow> ToLower account \<in> accountBlacklistMap s"

definition upd_server :: "(RouterServerConfig \<Rightarrow> RouterServerConfig) \<Rightarrow> params_state \<Rightarrow> params_state" where
  "upd_server f s =
     (case GetRouterServerConfig s of
        None \<Rightarrow> s
      | Some c \<Rightarrow> s\<lparr>routerConfig := (routerConfig s)\<lparr>Server := Some (f c)\<rparr>\<rparr>)"

definition AddOrRemoveChainIDBlackList :: "(members \<Rightarrow> string list) \<Rightarrow> string list \<Rightarrow> bool \<Rightarrow> params_state \<Rightarrow> params_state" where
  "AddOrRemoveChainIDBlackList keys chainIDs isAdd s =
     (let ms = add_or_remove id chainIDs isAdd (chainIDBlacklistMap s)
      in upd_server (\<lambda>c. c\<lparr>ChainIDBlackList := keys ms\<rparr>) (s\<lparr>chainIDBlacklistMap := ms\<rparr>))"

definition AddOrRemoveTokenIDBlackList :: "(members \<Rightarrow> string list) \<Rightarrow> string list \<Rightarrow> bool \<Rightarrow> params_state \<Rightarrow> params_state" where
  "AddOrRemoveTokenIDBlackList keys tokenIDs isAdd s =
     (let ms = add_or_remove ToLower tokenIDs isAdd (tokenIDBlacklistMap s)
      in upd_server (\<lambda>c. c\<lparr>TokenIDBlackList := keys ms\<rparr>) (s\<lparr>tokenIDBlacklistMap := ms\<rparr>))"

definition AddOrRemoveAccountBlackList :: "(members \<Rightarrow> string list) \<Rightarrow> string list \<Rightarrow> bool \<Rightarrow> params_state \<Rightarrow> params_state" where
  "AddOrRemoveAccountBlackList keys accounts isAdd s =
     (let ms = add_or_remove ToLower accounts isAdd (accountBlacklistMap s)
      in upd_server (\<lambda>c. c\<lparr>AccountBlackList := keys ms\<rparr>) (s\<lparr>accountBlacklistMap := ms\<rparr>))"

section \<open>Chain switches\<close>

text \<open>The loop of the five chain lists: a chain identifier that is no number is fatal.\<close>

definition load_chains :: "string list \<Rightarrow> (params_error, members) outcome" where
  "load_chains cids = load_list isBigInt id cids {}"

definition initAutoSwapNonceEnabledChains :: check where
  "initAutoSwapNonceEnabledChains s =
     (let s = s\<lparr>autoSwapNonceEnabledChains := {}\<rparr> in
      case GetRouterServerConfig s of
        None \<Rightarrow> (Ret (), s)
      | Some c \<Rightarrow>
          (case load_chains (AutoSwapNonceEnabledChains c) of
             Ret m \<Rightarrow> (Ret (), s\<lparr>autoSwapNonceEnabledChains := m\<rparr>) | _ \<Rightarrow> (Panic, s)))"

definition initDynamicFeeTxEnabledChains :: check where
  "initDynamicFeeTxEnabledChains s =
     (let s = s\<lparr>dynamicFeeTxEnabledChains := {}\<rparr> in
      case GetExtraConfig s of
        None \<Rightarrow> (Ret (), s)
      | Some c \<Rightarrow>
          (case load_chains (DynamicFeeTxEnabledChains c) of
             Ret m \<Rightarrow> (Ret (), s\<lparr>dynamicFeeTxEnabledChains := m\<rparr>) | _ \<Rightarrow> (Panic, s)))"

definition initEnableCheckTxBlockHashChains :: check where
  "initEnableCheckTxBlockHashChains s =
     (let s = s\<lparr>enableCheckTxBlockHashChains := {}\<rparr> in
      case GetExtraConfig s of
        None \<Rightarrow> (Ret (), s)
      | Some c \<Rightarrow>
          (case load_chains (EnableCheckTxBlockHashChains c) of
             Ret m \<Rightarrow> (Ret (), s\<lparr>enableCheckTxBlockHashChains := m\<rparr>) | _ \<Rightarrow> (Panic, s)))"

definition initEnableCheckTxBlockIndexChains :: check where
  "initEnableCheckTxBlockIndexChains s =
     (let s = s\<lparr>enableCheckTxBlockIndexChains := {}\<rparr> in
      case GetExtraConfig s of
        None \<Rightarrow> (Ret (), s)
      | Some c \<Rightarrow>
          (case load_chains (EnableCheckTxBlockIndexChains c) of
             Ret m \<Rightarrow> (Ret (), s\<lparr>enableCheckTxBlockIndexChains := m\<rparr>) | _ \<Rightarrow> (Panic, s)))"

definition initDisableUseFromChainIDInReceiptChains :: check where
  "initDisableUseFromChainIDInReceiptChains s =
     (let s = s\<lparr>disableUseFromChainIDInReceiptChains := {}\<rparr> in
      case GetExtraConfig s of
        None \<Rightarrow> (Ret (), s)
      | Some c \<Rightarrow>
          (case load_chains (DisableUseFromChainIDInReceiptChains c) of
             Ret m \<Rightarrow> (Ret (), s\<lparr>disableUseFromChainIDInReceiptChains := m\<rparr>) | _ \<Rightarrow> (Panic, s)))"

definition initDontCheckReceivedTokenIDs :: check where
  "initDontCheckReceivedTokenIDs s =
     (let s = s\<lparr>dontCheckReceivedTokenIDs := {}\<rparr> in
      case GetExtraConfig s of
        None \<Rightarrow> (Ret (), s)
      | Some c \<Rightarrow> (Ret (), s\<lparr>dontCheckReceivedTokenIDs := set (map ToLower (DontCheckReceivedTokenIDs c))\<rparr>))"

definition IsAutoSwapNonceEnabled :: "params_state \<Rightarrow> string \<Rightarrow> bool" where
  "IsAutoSwapNonceEnabled s chainID \<longleftrightarrow> chainID \<in> autoSwapNonceEnabledChains s"

definition IsDynamicFeeTxEnabled :: "params_state \<Rightarrow> string \<Rightarrow> bool" where
  "IsDynamicFeeTxEnabled s chainID \<longleftrightarrow> chainID \<in> dynamicFeeTxEnabledChains s"

definition IsCheckTxBlockHashEnabled :: "params_state \<Rightarrow> string \<Rightarrow> bool" where
  "IsCheckTxBlockHashEnabled s chainID \<longleftrightarrow> chainID \<in> enableCheckTxBlockHashChains s"

definition IsCheckTxBlockIndexEnabled :: "params_state \<Rightarrow> string \<Rightarrow> bool" where
  "IsCheckTxBlockIndexEnabled s chainID \<longleftrightarrow> chainID \<in> enableCheckTxBlockIndexChains s"

definition IsUseFromChainIDInReceiptDisabled :: "params_state \<Rightarrow> string \<Rightarrow> bool" where
  "IsUseFromChainIDInReceiptDisabled s chainID \<longleftrightarrow> chainID \<in> disableUseFromChainIDInReceiptChains s"

definition DontCheckTokenReceived :: "params_state \<Rightarrow> string \<Rightarrow> bool" where
  "DontCheckTokenReceived s tokenID \<longleftrightarrow> ToLower tokenID \<in> dontCheckReceivedTokenIDs s"

definition GetDynamicFeeTxConfig :: "params_state \<Rightarrow> string \<Rightarrow> DynamicFeeTxConfig option" where
  "GetDynamicFeeTxConfig s chainID =
     (if \<not> IsDynamicFeeTxEnabled s chainID then None
      else case GetRouterServerConfig s of
             None \<Rightarrow> None
           | Some c \<Rightarrow> map_of (DynamicFeeTx c) chainID)"

section \<open>Checking a configuration (checkconfig.go)\<close>

definition blacklist_chain :: "string \<Rightarrow> check" where
  "blacklist_chain chainID s =
     (case big_SetString0 chainID of
        None \<Rightarrow> (Err (WrongChainID chainID), s)
      | Some n \<Rightarrow>
          let key = big_String n in
          if key \<in> chainIDBlacklistMap s then (Err (DuplicateChainID key), s)
          else (Ret (), s\<lparr>chainIDBlacklistMap := insert key (chainIDBlacklistMap s)\<rparr>))"

definition blacklist_token :: "string \<Rightarrow> check" where
  "blacklist_token tokenID s =
     (if tokenID = '''' then (Err EmptyTokenID, s)
      else let key = ToLower tokenID in
        if key \<in> tokenIDBlacklistMap s then (Err (DuplicateTokenID key), s)
        else (Ret (), s\<lparr>tokenIDBlacklistMap := insert key (tokenIDBlacklistMap s)\<rparr>))"

definition blacklist_account :: "string \<Rightarrow> check" where
  "blacklist_account account s =
     (if account = '''' then (Err EmptyAccount, s)
      else let key = ToLower account in
        if key \<in> accountBlacklistMap s then (Err (DuplicateAccount key), s)
        else (Ret (), s\<lparr>accountBlacklistMap := insert key (accountBlacklistMap s)\<rparr>))"

definition fixed_gas_price :: "string \<times> string \<Rightarrow> check" where
  "fixed_gas_price kv s =
     (case kv of (chainID, price) \<Rightarrow>
        case big_SetString0 chainID of
          None \<Rightarrow> (Err (WrongChainID chainID), s)
        | Some n \<Rightarrow>
            (case GetBigIntFromStr price of
               Ret p \<Rightarrow>
                 let key = big_String n in
                 if fixedGasPriceMap s key \<noteq> None then (Err (DuplicateChainID key), s)
                 else (Ret (), s\<lparr>fixedGasPriceMap := (fixedGasPriceMap s)(key \<mapsto> p)\<rparr>)
             | _ \<Rightarrow> (Err (WrongGasPrice price), s)))"

definition max_gas_price :: "string \<times> string \<Rightarrow> check" where
  "max_gas_price kv s =
     (case kv of (chainID, price) \<Rightarrow>
        case big_SetString0 chainID of
          None \<Rightarrow> (Err (WrongChainID chainID), s)
        | Some n \<Rightarrow>
            (case GetBigIntFromStr price of
               Ret p \<Rightarrow>
                 let key = big_String n in
                 if maxGasPriceMap s key \<noteq> None then (Err (DuplicateChainID key), s)
                 else (Ret (), s\<lparr>maxGasPriceMap := (maxGasPriceMap s)(key \<mapsto> p)\<rparr>)
             | _ \<Rightarrow> (Err (WrongGasPrice price), s)))"

text \<open>
  One dynamic fee entry: its check, and the entry with the cached numbers filled in (also when
  the check fails after that, since the entry is a pointer).
\<close>

definition check_dynamic_fee :: "DynamicFeeTxConfig \<Rightarrow> (params_error, unit) outcome \<times> DynamicFeeTxConfig" where
  "check_dynamic_fee c =
     (case (if MaxGasTipCap c = '''' then Ret c
            else case GetBigIntFromStr (MaxGasTipCap c) of
                   Ret bi \<Rightarrow> Ret (c\<lparr>maxGasTipCap := Some bi\<rparr>) | _ \<Rightarrow> Err ()) of
        Ret c \<Rightarrow>
          (case (if MaxGasFeeCap c = '''' then Ret c
                 else case GetBigIntFromStr (MaxGasFeeCap c) of
                        Ret bi \<Rightarrow> Ret (c\<lparr>maxGasFeeCap := Some bi\<rparr>) | _ \<Rightarrow> Err ()) of
             Ret c \<Rightarrow>
               (if 100 < PlusGasTipCapPercent c then Err TooLargePlusGasTipCapPercent
                else if 100 < PlusGasFeeCapPercent c then Err TooLargePlusGasFeeCapPercent
                else if 1024 < BlockCountFeeHistory c then Err TooLargeBlockCountFeeHistory
                else case (maxGasTipCap c, maxGasFeeCap c) of
                       (None, _) \<Rightarrow> Err MissingMaxGasTipCap
                     | (Some tip, None) \<Rightarrow> Err MissingMaxGasFeeCap
                     | (Some tip, Some fee) \<Rightarrow> if fee < tip then Err TipCapAboveFeeCap else Ret (),
                c)
           | _ \<Rightarrow> (Err WrongMaxGasFeeCap, c))
      | _ \<Rightarrow> (Err WrongMaxGasTipCap, c))"

fun dynamic_fee_loop :: "(string \<times> DynamicFeeTxConfig) list \<Rightarrow>
    (params_error, unit) outcome \<times> (string \<times> DynamicFeeTxConfig) list" where
  "dynamic_fee_loop [] = (Ret (), [])"
| "dynamic_fee_loop ((cid, c) # fees) =
     (case check_dynamic_fee c of
        (Ret _, c') \<Rightarrow> (case dynamic_fee_loop fees of (r, fees') \<Rightarrow> (r, (cid, c') # fees'))
      | (r, c') \<Rightarrow> (r, (cid, c') # fees))"

text \<open>The chains that have the switch set are visited in the order of \<open>enabled\<close>.\<close>

definition CheckDynamicFeeTxConfig :: "string list \<Rightarrow> RouterServerConfig \<Rightarrow>
    (params_error, unit) outcome \<times> RouterServerConfig" where
  "CheckDynamicFeeTxConfig enabled sc =
     (case dynamic_fee_loop (DynamicFeeTx sc) of
        (r, fees) \<Rightarrow>
          (obind r (\<lambda>_. case find (\<lambda>cid. map_of fees cid = None) enabled of
                          Some cid \<Rightarrow> Err (MissingDynamicFee cid)
                        | None \<Rightarrow> Ret ()),
           sc\<lparr>DynamicFeeTx := fees\<rparr>))"

definition CheckExtra :: "RouterServerConfig \<Rightarrow> (params_error, unit) outcome \<times> RouterServerConfig" where
  "CheckExtra sc =
     (let sc = (if MaxPlusGasPricePercentage sc = 0 then sc\<lparr>MaxPlusGasPricePercentage := 100\<rparr> else sc) in
      (if MaxPlusGasPricePercentage sc < PlusGasPricePercentage sc then Err TooLargePlusGasPricePercentage
       else if 100 < MaxGasPriceFluctPercent sc then Err TooLargeMaxGasPriceFluctPercent
       else Ret (),
       sc))"

definition server_tables :: "RouterServerConfig \<Rightarrow> check" where
  "server_tables sc =
     and_then initAutoSwapNonceEnabledChains
     (and_then (each blacklist_chain (ChainIDBlackList sc))
     (and_then (each blacklist_token (TokenIDBlackList sc))
     (and_then (each blacklist_account (AccountBlackList sc))
     (and_then (each fixed_gas_price (FixedGasPrice sc))
        (each max_gas_price (MaxGasPrice sc))))))"

definition Server_CheckConfig :: "(members \<Rightarrow> string list) \<Rightarrow> RouterServerConfig option \<Rightarrow> params_state \<Rightarrow>
    (params_error, unit) outcome \<times> RouterServerConfig option \<times> params_state" where
  "Server_CheckConfig keys srv s =
     (case srv of
        None \<Rightarrow> (Err MissingServer, srv, s)
      | Some sc \<Rightarrow>
          if APIServer sc = None then (Err MissingAPIServer, srv, s)
          else case server_tables sc s of
                 (Ret _, s) \<Rightarrow>
                   (case CheckDynamicFeeTxConfig (keys (dynamicFeeTxEnabledChains s)) sc of
                      (Ret _, sc) \<Rightarrow> (case CheckExtra sc of (r, sc) \<Rightarrow> (r, Some sc, s))
                    | (r, sc) \<Rightarrow> (r, Some sc, s))
               | (r, s) \<Rightarrow> (r, srv, s))"

definition base_fee_percent :: "string \<times> int \<Rightarrow> check" where
  "base_fee_percent kv s =
     (if big_SetString0 (fst kv) = None then (Err (WrongChainID (fst kv)), s)
      else if snd kv < -90 \<or> 500 < snd kv then (Err BaseFeePercentRange, s)
      else (Ret (), s))"

definition set_pending :: "bool \<Rightarrow> check" where
  "set_pending b s = (Ret (), if b then s\<lparr>GetBalanceBlockNumberOpt := ''pending''\<rparr> else s)"

definition Extra_CheckConfig :: "ExtraConfig \<Rightarrow> check" where
  "Extra_CheckConfig c =
     and_then initCallByContractWhitelist
     (and_then initCallByContractCodeHashWhitelist
     (and_then initBigValueWhitelist
     (and_then initDynamicFeeTxEnabledChains
     (and_then initEnableCheckTxBlockHashChains
     (and_then initEnableCheckTxBlockIndexChains
     (and_then initDisableUseFromChainIDInReceiptChains
     (and_then initDontCheckReceivedTokenIDs
     (and_then (set_pending (UsePendingBalance c))
        (each base_fee_percent (BaseFeePercent c))))))))))"

definition SetExtraConfig :: "ExtraConfig \<Rightarrow> check" where
  "SetExtraConfig extra s =
     (case Extra_CheckConfig extra s of
        (Ret _, s) \<Rightarrow> (Ret (), s\<lparr>routerConfig := (routerConfig s)\<lparr>Extra := Some extra\<rparr>\<rparr>)
      | r \<Rightarrow> r)"

definition RouterSwapPrefixID :: string where
  "RouterSwapPrefixID = ''routerswap''"

text \<open>The result carries the configuration with the cached values and defaults filled in.\<close>

definition RouterConfig_CheckConfig :: "(members \<Rightarrow> string list) \<Rightarrow> RouterConfig \<Rightarrow> params_state \<Rightarrow>
    (params_error, unit) outcome \<times> RouterConfig \<times> params_state" where
  "RouterConfig_CheckConfig keys config s =
     (if \<not> HasPrefix (Identifier config) RouterSwapPrefixID \<or> Identifier config = RouterSwapPrefixID
      then (Err WrongIdentifier, config, s)
      else if cfgSwapType config = '''' then (Err EmptySwapType, config, s)
      else case (case Extra config of None \<Rightarrow> (Ret (), s) | Some c \<Rightarrow> Extra_CheckConfig c s) of
             (Ret _, s) \<Rightarrow>
               (case Server_CheckConfig keys (Server config) s of
                  (r, srv, s) \<Rightarrow> (r, config\<lparr>Server := srv\<rparr>, s))
           | (r, s) \<Rightarrow> (r, config, s))"

fun initClient :: "(string \<times> string list) list \<Rightarrow> check" where
  "initClient [] s = (Ret (), s)"
| "initClient ((chainid, rpc) # urls) s =
     (case rpc of
        [] \<Rightarrow> (Panic, s)
      | url # _ \<Rightarrow>
          initClient urls (s\<lparr>EthRpc := (EthRpc s)(ToLower chainid \<mapsto> rpc),
                             ethClient := (ethClient s)(ToLower chainid \<mapsto> (chainid, url))\<rparr>))"

fun initChainName :: "(string \<times> string list) list \<Rightarrow> params_state \<Rightarrow> params_state" where
  "initChainName [] s = s"
| "initChainName ((chainid, names) # cfg) s =
     initChainName cfg (s\<lparr>chainName := fold (\<lambda>n m. m(ToLower n \<mapsto> chainid)) names (chainName s)\<rparr>)"

text \<open>
  \<open>decoded\<close> is what \<open>toml.DecodeFile\<close> yields for the file (\<open>None\<close>: it fails).
  Loading a file keeps the configuration when its check fails; a failed reload leaves the old
  one in place. In \<open>LoadRouterConfig\<close> the checked configuration already is the package's.
  The client of a chain is the pair of arguments \<open>client.InitClient\<close> was called with.
\<close>

definition LoadRouterConfig :: "(members \<Rightarrow> string list) \<Rightarrow> RouterConfig option \<Rightarrow> bool \<Rightarrow> check" where
  "LoadRouterConfig keys decoded chk s =
     (case decoded of
        None \<Rightarrow> (Panic, s)
      | Some config \<Rightarrow>
          let s = s\<lparr>routerConfig := config\<rparr> in
          case (if chk then RouterConfig_CheckConfig keys config s else (Ret (), config, s)) of
            (Panic, config, s) \<Rightarrow> (Panic, s)
          | (_, config, s) \<Rightarrow>
              (case initClient (Gateways config) (s\<lparr>routerConfig := config\<rparr>) of
                 (Ret _, s) \<Rightarrow> (Ret (), initChainName (ChainNames config) s)
               | r \<Rightarrow> r))"

definition ReloadRouterConfig :: "(members \<Rightarrow> string list) \<Rightarrow> RouterConfig option \<Rightarrow> check" where
  "ReloadRouterConfig keys decoded s =
     (case decoded of
        None \<Rightarrow> (Ret (), s)
      | Some config \<Rightarrow>
          (case RouterConfig_CheckConfig keys config s of
             (Ret _, config, s) \<Rightarrow> (Ret (), s\<lparr>routerConfig := config\<rparr>)
           | (Err _, config, s) \<Rightarrow> (Ret (), s)
           | (Panic, config, s) \<Rightarrow> (Panic, s)))"

definition GetEthClient :: "params_state \<Rightarrow> string \<Rightarrow> (string \<times> string) option" where
  "GetEthClient s chainid = ethClient s (ToLower chainid)"

definition GetChainID :: "params_state \<Rightarrow> string \<Rightarrow> string" where
  "GetChainID s chainname = (case chainName s (ToLower chainname) of None \<Rightarrow> '''' | Some c \<Rightarrow> c)"

definition GetGateway :: "params_state \<Rightarrow> string \<Rightarrow> string list" where
  "GetGateway s chainid = (case EthRpc s (ToLower chainid) of None \<Rightarrow> [] | Some r \<Rightarrow> r)"

definition IsSupportChainID :: "params_state \<Rightarrow> string \<Rightarrow> bool" where
  "IsSupportChainID s chainid \<longleftrightarrow> length (GetGateway s chainid) \<noteq> 0"

section \<open>Edits of a membership table\<close>

text \<open>
  What the six administrator operations promise: membership is up to the normalisation of the
  key, an addition adds exactly the named members and a removal removes exactly them.
\<close>

locale member_table =
  fixes edit :: "string list \<Rightarrow> bool \<Rightarrow> 's \<Rightarrow> 's"
    and mem :: "'s \<Rightarrow> string \<Rightarrow> bool"
    and nrm :: "string \<Rightarrow> string"
  assumes mem_add: "mem (edit as True s) a \<longleftrightarrow> mem s a \<or> nrm a \<in> nrm ` set as"
    and mem_remove: "mem (edit as False s) a \<longleftrightarrow> mem s a \<and> nrm a \<notin> nrm ` set as"
begin

lemma mem_edit: "mem (edit as isAdd s) a \<longleftrightarrow> (if nrm a \<in> nrm ` set as then isAdd else mem s a)"
  by (cases isAdd) (auto simp: mem_add mem_remove)

lemma mem_edit_twice: "mem (edit as isAdd (edit as isAdd s)) a = mem (edit as isAdd s) a"
  by (simp add: mem_edit)

lemma mem_edits:
  "mem (foldl (\<lambda>s (as, isAdd). edit as isAdd s) s es) a \<longleftrightarrow>
     (case filter (\<lambda>e. nrm a \<in> nrm ` set (fst e)) (rev es) of [] \<Rightarrow> mem s a | e # _ \<Rightarrow> snd e)"
  by (induction es rule: rev_induct) (auto simp: mem_edit split: list.splits)

end

lemma add_or_remove_iff:
  "x \<in> add_or_remove norm as isAdd ms \<longleftrightarrow> (if x \<in> norm ` set as then isAdd else x \<in> ms)"
  by (induction as arbitrary: ms) auto

lemma upd_server_tables [simp]:
  "chainIDBlacklistMap (upd_server f s) = chainIDBlacklistMap s"
  "tokenIDBlacklistMap (upd_server f s) = tokenIDBlacklistMap s"
  "accountBlacklistMap (upd_server f s) = accountBlacklistMap s"
  "bigValueWhitelist (upd_server f s) = bigValueWhitelist s"
  by (simp_all add: upd_server_def split: option.splits)

lemma upd_extra_tables [simp]:
  "bigValueWhitelist (upd_extra f s) = bigValueWhitelist s"
  "callByContractWhitelist (upd_extra f s) = callByContractWhitelist s"
  "callByContractCodeHashWhitelist (upd_extra f s) = callByContractCodeHashWhitelist s"
  "chainIDBlacklistMap (upd_extra f s) = chainIDBlacklistMap s"
  by (simp_all add: upd_extra_def split: option.splits)

interpretation chain_blacklist: member_table "AddOrRemoveChainIDBlackList keys" IsChainIDInBlackList id
  by unfold_locales
     (auto simp: AddOrRemoveChainIDBlackList_def IsChainIDInBlackList_def Let_def add_or_remove_iff)

interpretation token_blacklist: member_table "AddOrRemoveTokenIDBlackList keys" IsTokenIDInBlackList ToLower
  by unfold_locales
     (auto simp: AddOrRemoveTokenIDBlackList_def IsTokenIDInBlackList_def Let_def add_or_remove_iff)

interpretation account_blacklist: member_table "AddOrRemoveAccountBlackList keys" IsAccountInBlackList ToLower
  by unfold_locales
     (auto simp: AddOrRemoveAccountBlackList_def IsAccountInBlackList_def Let_def add_or_remove_iff)

lemma edit_table_same:
  "in_table (case edit_table norm m k as isAdd of None \<Rightarrow> m | Some (m', ms) \<Rightarrow> m') k x \<longleftrightarrow>
     (if x \<in> norm ` set as then isAdd else in_table m k x)"
  by (auto simp: edit_table_def in_table_def Let_def add_or_remove_iff split: option.splits)

lemma edit_table_other:
  assumes "k' \<noteq> k"
  shows "in_table (case edit_table norm m k as isAdd of None \<Rightarrow> m | Some (m', ms) \<Rightarrow> m') k' x \<longleftrightarrow>
     (if isAdd \<and> m k = None then False else in_table m k' x)"
  using assms by (auto simp: edit_table_def in_table_def Let_def split: option.splits)

lemma whitelist_tables:
  "bigValueWhitelist (AddOrRemoveBigValueWhitelist keys k as isAdd s) =
     (case edit_table ToLower (bigValueWhitelist s) k as isAdd of None \<Rightarrow> bigValueWhitelist s | Some (m, _) \<Rightarrow> m)"
  "callByContractWhitelist (AddOrRemoveCallByContractWhitelist keys k as isAdd s) =
     (case edit_table ToLower (callByContractWhitelist s) k as isAdd of None \<Rightarrow> callByContractWhitelist s | Some (m, _) \<Rightarrow> m)"
  "callByContractCodeHashWhitelist (AddOrRemoveCallByContractCodeHashWhitelist keys k as isAdd s) =
     (case edit_table id (callByContractCodeHashWhitelist s) k as isAdd of None \<Rightarrow> callByContractCodeHashWhitelist s | Some (m, _) \<Rightarrow> m)"
  by (simp_all add: AddOrRemoveBigValueWhitelist_def AddOrRemoveCallByContractWhitelist_def
      AddOrRemoveCallByContractCodeHashWhitelist_def split: option.splits prod.splits)

interpretation big_value_whitelist: member_table "AddOrRemoveBigValueWhitelist keys k" "\<lambda>s. IsInBigValueWhitelist s k" ToLower
  by unfold_locales (auto simp: IsInBigValueWhitelist_def whitelist_tables edit_table_same)

interpretation contract_whitelist: member_table "AddOrRemoveCallByContractWhitelist keys k" "\<lambda>s. IsInCallByContractWhitelist s k" ToLower
  by unfold_locales (auto simp: IsInCallByContractWhitelist_def whitelist_tables edit_table_same)

interpretation codehash_whitelist: member_table "AddOrRemoveCallByContractCodeHashWhitelist keys k" "\<lambda>s. IsInCallByContractCodeHashWhitelist s k" id
  by unfold_locales (auto simp: IsInCallByContractCodeHashWhitelist_def whitelist_tables edit_table_same)

section \<open>Checks only add to the black lists\<close>

definition grows :: "check \<Rightarrow> bool" where
  "grows f \<longleftrightarrow> (\<forall>s. chainIDBlacklistMap s \<subseteq> chainIDBlacklistMap (snd (f s)) \<and> routerConfig (snd (f s)) = routerConfig s)"

lemma growsD:
  assumes "grows f" and "f s = (r, s')"
  shows "chainIDBlacklistMap s \<subseteq> chainIDBlacklistMap s'" and "routerConfig s' = routerConfig s"
  using assms by (metis grows_def snd_conv)+

lemma grows_and_then: "grows f \<Longrightarrow> grows g \<Longrightarrow> grows (and_then f g)"
  unfolding grows_def
proof (intro allI)
  fix s
  assume f: "\<forall>s. chainIDBlacklistMap s \<subseteq> chainIDBlacklistMap (snd (f s)) \<and> routerConfig (snd (f s)) = routerConfig s"
    and g: "\<forall>s. chainIDBlacklistMap s \<subseteq> chainIDBlacklistMap (snd (g s)) \<and> routerConfig (snd (g s)) = routerConfig s"
  show "chainIDBlacklistMap s \<subseteq> chainIDBlacklistMap (snd (and_then f g s)) \<and> routerConfig (snd (and_then f g s)) = routerConfig s"
    using f [rule_format, of s] g [rule_format, of "snd (f s)"]
    by (auto split: prod.splits outcome.splits)
qed

lemma grows_each: "(\<And>x. grows (f x)) \<Longrightarrow> grows (each f xs)"
proof (induction xs)
  case Nil
  show ?case by (simp add: grows_def ok_def)
next
  case (Cons x xs)
  then show ?case by (simp add: grows_and_then del: and_then.simps)
qed

lemma init_grows [simp]:
  "grows initCallByContractWhitelist" "grows initCallByContractCodeHashWhitelist"
  "grows initBigValueWhitelist" "grows initDynamicFeeTxEnabledChains"
  "grows initEnableCheckTxBlockHashChains" "grows initEnableCheckTxBlockIndexChains"
  "grows initDisableUseFromChainIDInReceiptChains" "grows initDontCheckReceivedTokenIDs"
  "grows initAutoSwapNonceEnabledChains" "grows (set_pending b)" "grows (base_fee_percent kv)"
  by (auto simp: grows_def initCallByContractWhitelist_def initCallByContractCodeHashWhitelist_def
      initBigValueWhitelist_def initDynamicFeeTxEnabledChains_def initEnableCheckTxBlockHashChains_def
      initEnableCheckTxBlockIndexChains_def initDisableUseFromChainIDInReceiptChains_def
      initDontCheckReceivedTokenIDs_def initAutoSwapNonceEnabledChains_def set_pending_def
      base_fee_percent_def Let_def split: option.splits outcome.splits)

lemma Extra_CheckConfig_grows: "grows (Extra_CheckConfig c)"
  unfolding Extra_CheckConfig_def by (intro grows_and_then grows_each init_grows)

lemma blacklist_chain_grows [simp]: "grows (blacklist_chain chainID)"
  by (auto simp: grows_def blacklist_chain_def Let_def split: option.splits)

lemma each_blacklist_chain_duplicate:
  assumes "chainID \<in> set xs" and "big_SetString0 chainID = Some n" and "big_String n \<in> chainIDBlacklistMap s"
  shows "\<exists>e. fst (each blacklist_chain xs s) = Err e"
  using assms(1,3)
proof (induction xs arbitrary: s)
  case (Cons x xs)
  show ?case
  proof (cases "blacklist_chain x s")
    case (Pair r s')
    have sub: "chainIDBlacklistMap s \<subseteq> chainIDBlacklistMap s'"
      by (rule growsD [OF blacklist_chain_grows Pair])
    have "r \<noteq> Panic" using Pair by (auto simp: blacklist_chain_def Let_def split: option.splits if_splits)
    moreover have "x \<noteq> chainID" if "r = Ret u" for u
      using that Pair Cons.prems(2) assms(2) by (auto simp: blacklist_chain_def Let_def split: if_splits)
    ultimately show ?thesis using Cons sub Pair by (cases r) auto
  qed
qed simp

lemma server_tables_duplicate:
  assumes "chainID \<in> set (ChainIDBlackList sc)" and "big_SetString0 chainID = Some n"
    and "big_String n \<in> chainIDBlacklistMap s"
  shows "\<nexists>u. fst (server_tables sc s) = Ret u"
proof (cases "initAutoSwapNonceEnabledChains s")
  case (Pair r s')
  have "big_String n \<in> chainIDBlacklistMap s'"
    using assms(3) growsD(1) [OF init_grows(9) Pair] by blast
  then obtain e where "fst (each blacklist_chain (ChainIDBlackList sc) s') = Err e"
    using each_blacklist_chain_duplicate assms(1,2) by blast
  with Pair show ?thesis by (cases r) (auto simp: server_tables_def split: prod.splits outcome.splits)
qed

text \<open>
  The black list tables survive a reload, and the check refuses a chain that is already in its
  table: a file that names a chain blacklisted before never takes effect.
\<close>

lemma CheckConfig_blacklisted:
  assumes "Server config = Some sc" and "chainID \<in> set (ChainIDBlackList sc)"
    and "big_SetString0 chainID = Some n" and "IsChainIDInBlackList s (big_String n)"
  shows "fst (RouterConfig_CheckConfig keys config s) \<noteq> Ret ()"
proof -
  have fails: "fst (Server_CheckConfig keys (Some sc) s') \<noteq> Ret ()"
    if "chainIDBlacklistMap s \<subseteq> chainIDBlacklistMap s'" for s'
  proof -
    have "\<nexists>u. fst (server_tables sc s') = Ret u"
      using that assms by (intro server_tables_duplicate) (auto simp: IsChainIDInBlackList_def)
    then show ?thesis by (auto simp: Server_CheckConfig_def split: prod.splits outcome.splits)
  qed
  show ?thesis
  proof (cases "case Extra config of None \<Rightarrow> (Ret (), s) | Some c \<Rightarrow> Extra_CheckConfig c s")
    case (Pair r s')
    have "chainIDBlacklistMap s \<subseteq> chainIDBlacklistMap s'"
      using Pair growsD(1) [OF Extra_CheckConfig_grows] by (cases "Extra config") auto
    from fails [OF this] Pair assms(1) show ?thesis
      by (cases r) (auto simp: RouterConfig_CheckConfig_def split: prod.splits)
  qed
qed

lemma table_grows [simp]:
  "grows (blacklist_token t)" "grows (blacklist_account a)" "grows (fixed_gas_price kv)" "grows (max_gas_price kv)"
  by (auto simp: grows_def blacklist_token_def blacklist_account_def fixed_gas_price_def max_gas_price_def
      Let_def split: option.splits outcome.splits prod.splits)

lemma server_tables_grows: "grows (server_tables sc)"
  unfolding server_tables_def by (intro grows_and_then grows_each init_grows table_grows blacklist_chain_grows)

lemma CheckConfig_keeps_routerConfig:
  "routerConfig (snd (snd (RouterConfig_CheckConfig keys config s))) = routerConfig s"
proof -
  have srv: "routerConfig (snd (snd (Server_CheckConfig keys srv s'))) = routerConfig s'" for srv s'
    using growsD(2) [OF server_tables_grows]
    by (auto simp: Server_CheckConfig_def split: option.splits prod.splits outcome.splits)
  show ?thesis
  proof (cases "case Extra config of None \<Rightarrow> (Ret (), s) | Some c \<Rightarrow> Extra_CheckConfig c s")
    case (Pair r s')
    have "routerConfig s' = routerConfig s"
      using Pair growsD(2) [OF Extra_CheckConfig_grows] by (cases "Extra config") auto
    with Pair srv [of "Server config" s'] show ?thesis
      by (cases r) (auto simp: RouterConfig_CheckConfig_def split: prod.splits)
  qed
qed

lemma Reload_blacklisted_keeps_config:
  assumes "Server config = Some sc" and "chainID \<in> set (ChainIDBlackList sc)"
    and "big_SetString0 chainID = Some n" and "IsChainIDInBlackList s (big_String n)"
  shows "routerConfig (snd (ReloadRouterConfig keys (Some config) s)) = routerConfig s"
  using CheckConfig_blacklisted [OF assms, of keys] CheckConfig_keeps_routerConfig [of keys config s]
  by (auto simp: ReloadRouterConfig_def split: prod.splits outcome.splits)

section \<open>A reload derives the white list from the configuration it replaces\<close>

definition keeps :: "(params_state \<Rightarrow> 'a) \<Rightarrow> check \<Rightarrow> bool" where
  "keeps sel f \<longleftrightarrow> (\<forall>s. sel (snd (f s)) = sel s)"

lemma keepsD: "keeps sel f \<Longrightarrow> f s = (r, s') \<Longrightarrow> sel s' = sel s"
  by (metis keeps_def snd_conv)

lemma keeps_and_then: "keeps sel f \<Longrightarrow> keeps sel g \<Longrightarrow> keeps sel (and_then f g)"
  unfolding keeps_def
proof (intro allI)
  fix s
  assume f: "\<forall>s. sel (snd (f s)) = sel s" and g: "\<forall>s. sel (snd (g s)) = sel s"
  show "sel (snd (and_then f g s)) = sel s"
    using f [rule_format, of s] g [rule_format, of "snd (f s)"]
    by (auto split: prod.splits outcome.splits)
qed

lemma keeps_each: "(\<And>x. keeps sel (f x)) \<Longrightarrow> keeps sel (each f xs)"
proof (induction xs)
  case Nil
  show ?case by (simp add: keeps_def ok_def)
next
  case (Cons x xs)
  then show ?case by (simp add: keeps_and_then del: and_then.simps)
qed

lemma init_keeps_bigValueWhitelist:
  "keeps bigValueWhitelist initCallByContractWhitelist" "keeps bigValueWhitelist initCallByContractCodeHashWhitelist"
  "keeps bigValueWhitelist initDynamicFeeTxEnabledChains"
  "keeps bigValueWhitelist initEnableCheckTxBlockHashChains" "keeps bigValueWhitelist initEnableCheckTxBlockIndexChains"
  "keeps bigValueWhitelist initDisableUseFromChainIDInReceiptChains" "keeps bigValueWhitelist initDontCheckReceivedTokenIDs"
  "keeps bigValueWhitelist initAutoSwapNonceEnabledChains" "keeps bigValueWhitelist (set_pending b)"
  "keeps bigValueWhitelist (base_fee_percent kv)"
  by (auto simp: keeps_def initCallByContractWhitelist_def initCallByContractCodeHashWhitelist_def
      initDynamicFeeTxEnabledChains_def initEnableCheckTxBlockHashChains_def
      initEnableCheckTxBlockIndexChains_def initDisableUseFromChainIDInReceiptChains_def
      initDontCheckReceivedTokenIDs_def initAutoSwapNonceEnabledChains_def set_pending_def
      base_fee_percent_def Let_def split: option.splits outcome.splits)

lemma table_keeps_bigValueWhitelist:
  "keeps bigValueWhitelist (blacklist_chain c)" "keeps bigValueWhitelist (blacklist_token t)"
  "keeps bigValueWhitelist (blacklist_account a)"
  "keeps bigValueWhitelist (fixed_gas_price kv)" "keeps bigValueWhitelist (max_gas_price kv)"
  by (auto simp: keeps_def blacklist_chain_def blacklist_token_def blacklist_account_def fixed_gas_price_def
      max_gas_price_def Let_def split: option.splits outcome.splits prod.splits)

text \<open>The table that the white list of a configuration stands for.\<close>

definition big_value_table :: "ExtraConfig option \<Rightarrow> (params_error, string \<rightharpoonup> members) outcome" where
  "big_value_table ec =
     (case ec of None \<Rightarrow> Ret Map.empty
      | Some c \<Rightarrow> load_lists (\<lambda>_. True) IsHexAddress ToLower (BigValueWhitelist c) Map.empty)"

lemma initBigValueWhitelist_table:
  "fst (initBigValueWhitelist s) = Ret () \<Longrightarrow>
     big_value_table (GetExtraConfig s) = Ret (bigValueWhitelist (snd (initBigValueWhitelist s)))"
  by (auto simp: initBigValueWhitelist_def big_value_table_def GetExtraConfig_def Let_def
      split: option.splits outcome.splits)

lemma and_then_Ret:
  "and_then f g s = (Ret u, s') \<longleftrightarrow> (\<exists>v s''. f s = (Ret v, s'') \<and> g s'' = (Ret u, s'))"
  by (auto split: prod.splits outcome.splits)

lemma Extra_CheckConfig_table:
  assumes "Extra_CheckConfig c s = (Ret u, s')"
  shows "big_value_table (GetExtraConfig s) = Ret (bigValueWhitelist s')"
proof -
  obtain s1 s2 s3 where 1: "initCallByContractWhitelist s = (Ret (), s1)"
    and 2: "initCallByContractCodeHashWhitelist s1 = (Ret (), s2)"
    and 3: "initBigValueWhitelist s2 = (Ret (), s3)"
    and rest: "and_then initDynamicFeeTxEnabledChains
     (and_then initEnableCheckTxBlockHashChains
     (and_then initEnableCheckTxBlockIndexChains
     (and_then initDisableUseFromChainIDInReceiptChains
     (and_then initDontCheckReceivedTokenIDs
     (and_then (set_pending (UsePendingBalance c))
        (each base_fee_percent (BaseFeePercent c))))))) s3 = (Ret (), s')"
    using assms unfolding Extra_CheckConfig_def and_then_Ret [of initCallByContractWhitelist]
      and_then_Ret [of initCallByContractCodeHashWhitelist] and_then_Ret [of initBigValueWhitelist]
    by auto
  have "routerConfig s2 = routerConfig s"
    using growsD(2) [OF init_grows(1) 1] growsD(2) [OF init_grows(2) 2] by simp
  then have "GetExtraConfig s2 = GetExtraConfig s" by (simp add: GetExtraConfig_def)
  moreover have "bigValueWhitelist s' = bigValueWhitelist s3"
    using rest by (rule keepsD [rotated]) (intro keeps_and_then keeps_each init_keeps_bigValueWhitelist)
  ultimately show ?thesis using initBigValueWhitelist_table [of s2] 3 by simp
qed

lemma Reload_whitelist_from_old:
  assumes "Extra config = Some c" and "RouterConfig_CheckConfig keys config s = (Ret (), config', s1)"
  shows "ReloadRouterConfig keys (Some config) s = (Ret (), s1\<lparr>routerConfig := config'\<rparr>)"
    and "big_value_table (GetExtraConfig s) = Ret (bigValueWhitelist s1)"
proof -
  show "ReloadRouterConfig keys (Some config) s = (Ret (), s1\<lparr>routerConfig := config'\<rparr>)"
    using assms(2) by (simp add: ReloadRouterConfig_def)
  obtain s0 where s0: "Extra_CheckConfig c s = (Ret (), s0)"
    and srv: "Server_CheckConfig keys (Server config) s0 = (Ret (), Server config', s1)"
    using assms
    by (auto simp: RouterConfig_CheckConfig_def split: if_splits prod.splits outcome.splits)
  have "keeps bigValueWhitelist (server_tables sc)" for sc
    unfolding server_tables_def
    by (intro keeps_and_then keeps_each init_keeps_bigValueWhitelist table_keeps_bigValueWhitelist)
  then have "bigValueWhitelist s1 = bigValueWhitelist s0"
    using srv keepsD [of bigValueWhitelist "server_tables _" s0]
    by (auto simp: Server_CheckConfig_def split: option.splits if_splits prod.splits outcome.splits)
  with Extra_CheckConfig_table [OF s0]
  show "big_value_table (GetExtraConfig s) = Ret (bigValueWhitelist s1)" by simp
qed

section \<open>Initial values\<close>

text \<open>Go's zero values, and the package variables as they are initialised.\<close>

definition zero_server :: RouterServerConfig where
  "zero_server =
     \<lparr>Admins = [], Assistants = [], APIServer = None, ChainIDBlackList = [], TokenIDBlackList = [],
      AccountBlackList = [], AutoSwapNonceEnabledChains = [], EnableReplaceSwap = False, EnablePassBigValueSwap = False,
      ReplacePlusGasPricePercent = 0, WaitTimeToReplace = 0, MaxReplaceCount = 0, PlusGasPricePercentage = 0,
      MaxPlusGasPricePercentage = 0, MaxGasPriceFluctPercent = 0, SwapDeadlineOffset = 0, DefaultGasLimit = [], FixedGasPrice = [], MaxGasPrice = [],
      NoncePassedConfirmInterval = [], CalcGasPriceMethod = [], RetrySendTxLoopCount = [], SendTxLoopCount = [], SendTxLoopInterval = [], DynamicFeeTx = []\<rparr>"

definition zero_extra :: ExtraConfig where
  "zero_extra =
     \<lparr>cfgDebugMode = False, EnableSwapTrade = False, EnableSwapWithPermit = False, ForceAnySwapInAuto = False, cfgIsNFTSwapWithData = False, EnableParallelSwap = False, UsePendingBalance = False,
      MinReserveFee = [], BaseFeePercent = [], MinReserveBudget = [], cfgAcceptListInterval = 0, PendingInvalidAccept = False, cfgAllowCallByConstructor = False,
      cfgAllowCallByContract = False, cfgCheckEIP1167Master = False, CallByContractWhitelist = [], CallByContractCodeHashWhitelist = [],
      BigValueWhitelist = [], DynamicFeeTxEnabledChains = [], EnableCheckTxBlockHashChains = [],
      EnableCheckTxBlockIndexChains = [], DisableUseFromChainIDInReceiptChains = [],
      DontCheckReceivedTokenIDs = [], Customs = []\<rparr>"

definition zero_config :: RouterConfig where
  "zero_config =
     \<lparr>Server = None, Identifier = '''', cfgSwapType = '''', SwapSubType = '''', Gateways = [], ChainNames = [], Initiators = [],
      Extra = None\<rparr>"

definition init_params :: params_state where
  "init_params =
     \<lparr>routerConfig = zero_config\<lparr>Extra := Some zero_extra\<rparr>, ethClient = Map.empty, EthRpc = Map.empty,
      chainName = Map.empty, chainIDBlacklistMap = {}, tokenIDBlacklistMap = {}, accountBlacklistMap = {},
      fixedGasPriceMap = Map.empty, maxGasPriceMap = Map.empty, callByContractWhitelist = Map.empty,
      callByContractCodeHashWhitelist = Map.empty, bigValueWhitelist = Map.empty,
      autoSwapNonceEnabledChains = {}, dynamicFeeTxEnabledChains = {}, enableCheckTxBlockHashChains = {},
      enableCheckTxBlockIndexChains = {}, disableUseFromChainIDInReceiptChains = {},
      dontCheckReceivedTokenIDs = {}, isDebugMode = None, isNFTSwapWithData = None, isAllowCallByContract = None, isCheckEIP1167Master = None, GetBalanceBlockNumberOpt = ''latest''\<rparr>"

lemmas params_zeros = zero_server_def zero_extra_def zero_config_def init_params_def

section \<open>Properties\<close>

text \<open>
  after any sequence of administrator calls, an account is black-listed exactly if the last
  call that named it, in any letter case, added it, or if no call named it and it was
  black-listed before.
\<close>

theorem AccountBlackList_history:
  "IsAccountInBlackList (foldl (\<lambda>s (accounts, isAdd). AddOrRemoveAccountBlackList keys accounts isAdd s) s calls) account \<longleftrightarrow>
     (case filter (\<lambda>c. ToLower account \<in> ToLower ` set (fst c)) (rev calls) of
        [] \<Rightarrow> IsAccountInBlackList s account
      | c # _ \<Rightarrow> snd c)"
  by (rule account_blacklist.mem_edits)

text \<open>
  exactly which callers are on the big value white lists after an administrator call. The
  list of the named token is edited as asked; but an addition for a token that has no list yet
  empties the list of every other token.
\<close>

theorem AddOrRemoveBigValueWhitelist_members:
  "IsInBigValueWhitelist (AddOrRemoveBigValueWhitelist keys tokenID callers isAdd s) t caller \<longleftrightarrow>
     (if t = tokenID then
        (if ToLower caller \<in> ToLower ` set callers then isAdd else IsInBigValueWhitelist s tokenID caller)
      else if isAdd \<and> bigValueWhitelist s tokenID = None then False
      else IsInBigValueWhitelist s t caller)"
  by (simp add: IsInBigValueWhitelist_def whitelist_tables edit_table_same edit_table_other)

text \<open>
  reloading a configuration file that names a chain which is already black-listed never
  takes effect: the black list tables are not cleared before the check, so the entry is refused
  as a duplicate and the old configuration stays.
\<close>

theorem Reload_with_blacklisted_chain:
  assumes "Server config = Some sc" and "chainID \<in> set (ChainIDBlackList sc)"
    and "big_SetString0 chainID = Some n" and "IsChainIDInBlackList s (big_String n)"
  shows "routerConfig (snd (ReloadRouterConfig keys (Some config) s)) = routerConfig s"
  using assms by (rule Reload_blacklisted_keeps_config)

theorem Reload_with_blacklisted_chain_witness:
  "routerConfig (snd (ReloadRouterConfig (\<lambda>_. [])
       (Some (zero_config\<lparr>Server := Some (zero_server\<lparr>ChainIDBlackList := [''1'']\<rparr>)\<rparr>))
       (init_params\<lparr>chainIDBlacklistMap := {''1''}\<rparr>))) = zero_config\<lparr>Extra := Some zero_extra\<rparr>"
proof -
  have "big_SetString0 ''1'' = Some 1" by (simp add: big_SetString0_def scan_base0_def digit_val_def cv_def)
  moreover have "big_String 1 = ''1''" by code_simp
  ultimately show ?thesis
    using Reload_with_blacklisted_chain [of "zero_config\<lparr>Server := Some (zero_server\<lparr>ChainIDBlackList := [''1'']\<rparr>)\<rparr>"
        "zero_server\<lparr>ChainIDBlackList := [''1'']\<rparr>" "''1''" 1 "init_params\<lparr>chainIDBlacklistMap := {''1''}\<rparr>" "\<lambda>_. []"]
    by (simp add: IsChainIDInBlackList_def init_params_def)
qed

text \<open>
  a reload that is accepted builds the big value white list from the configuration that it
  replaces, not from the new one: the check of the new file reads the package's configuration.
\<close>

theorem Reload_uses_old_whitelist:
  assumes "Extra config = Some c" and "fst (RouterConfig_CheckConfig keys config s) = Ret ()"
  shows "big_value_table (GetExtraConfig s) = Ret (bigValueWhitelist (snd (ReloadRouterConfig keys (Some config) s)))"
proof -
  obtain config' s1 where r: "RouterConfig_CheckConfig keys config s = (Ret (), config', s1)"
    using assms(2) by (cases "RouterConfig_CheckConfig keys config s") auto
  show ?thesis
    using Reload_whitelist_from_old [OF assms(1) r] by simp
qed

theorem Reload_uses_old_whitelist_witness:
  "bigValueWhitelist (snd (ReloadRouterConfig (\<lambda>_. [])
       (Some (zero_config\<lparr>Identifier := ''routerswap1'', cfgSwapType := ''erc20swap'',
          Server := Some (zero_server\<lparr>APIServer := Some \<lparr>Port = 1, AllowedOrigins = [], MaxRequestsLimit = 1\<rparr>\<rparr>),
          Extra := Some (zero_extra\<lparr>BigValueWhitelist := [(''T'', [''0x01''])]\<rparr>)\<rparr>)) init_params)) = Map.empty"
proof -
  let ?c = "zero_config\<lparr>Identifier := ''routerswap1'', cfgSwapType := ''erc20swap'',
          Server := Some (zero_server\<lparr>APIServer := Some \<lparr>Port = 1, AllowedOrigins = [], MaxRequestsLimit = 1\<rparr>\<rparr>),
          Extra := Some (zero_extra\<lparr>BigValueWhitelist := [(''T'', [''0x01''])]\<rparr>)\<rparr>"
  have "fst (RouterConfig_CheckConfig (\<lambda>_. []) ?c init_params) = Ret ()"
    by (simp add: RouterConfig_CheckConfig_def params_zeros HasPrefix_def RouterSwapPrefixID_def Extra_CheckConfig_def
        initCallByContractWhitelist_def initCallByContractCodeHashWhitelist_def initBigValueWhitelist_def
        initDynamicFeeTxEnabledChains_def initEnableCheckTxBlockHashChains_def
        initEnableCheckTxBlockIndexChains_def initDisableUseFromChainIDInReceiptChains_def
        initDontCheckReceivedTokenIDs_def set_pending_def ok_def GetExtraConfig_def load_chains_def
        Server_CheckConfig_def server_tables_def initAutoSwapNonceEnabledChains_def GetRouterServerConfig_def
        CheckDynamicFeeTxConfig_def CheckExtra_def)
  from Reload_uses_old_whitelist [OF _ this, of "zero_extra\<lparr>BigValueWhitelist := [(''T'', [''0x01''])]\<rparr>"]
  show ?thesis by (simp add: big_value_table_def GetExtraConfig_def params_zeros)
qed

end
