(* ===== verification/Tokens.thy ===== *)
theory Tokens
  imports Params CMath
begin

text \<open>
  Package \<open>tokens\<close>: the swap types and records, the chain, token and swap configurations
  with their checks, the base bridge's token table, and the value arithmetic of a swap (the fee,
  the range check and the conversion between decimals). A \<open>*big.Int\<close> that may be nil is an
  \<open>int option\<close>; calling a method on nil is a \<open>Panic\<close>. The lemmas bound the fee, show
  that the check accepts only payable values and that a larger deposit never pays out less.
\<close>

named_theorems token_value_laws "arithmetic of token values"

section \<open>errors.go\<close>

datatype token_error =
    ErrNotImplemented | ErrSwapTypeNotSupported | ErrNoBridgeForChainID | ErrSwapTradeNotSupport
  | ErrNotFound | ErrTxNotFound | ErrTxNotStable | ErrLogIndexOutOfRange | ErrTxWithWrongReceipt
  | ErrTxWithWrongReceiver | ErrTxWithWrongContract | ErrTxWithWrongTopics | ErrSwapoutLogNotFound
  | ErrTxWithRemovedLog | ErrWrongBindAddress | ErrWrongRawTx | ErrUnsupportedFuncHash
  | ErrWrongCountOfMsgHashes | ErrMsgHashMismatch | ErrSwapInBlacklist | ErrTxBeforeInitialHeight
  | ErrEstimateGasFailed | ErrRPCQueryError | ErrMissDynamicFeeConfig | ErrFromChainIDMismatch
  | ErrMissMPCPublicKey | ErrMissRouterInfo | ErrSenderMismatch | ErrTxWithWrongSender
  | ErrToChainIDMismatch | ErrTxWithWrongStatus | ErrUnknownSwapoutType | ErrEmptyTokenID
  | ErrNoEnoughReserveBudget | ErrTxWithNoPayment | ErrTxIsNotValidated
  | ErrTxWithWrongValue | ErrTxWithWrongPath | ErrMissTokenConfig | ErrNoUnderlyingToken
  | OtherError string
  | Wrapped string token_error

text \<open>The texts of the errors; a wrapping error carries its whole text.\<close>

fun token_Error :: "token_error \<Rightarrow> string" where
  "token_Error ErrNotImplemented = ''not implemented''"
| "token_Error ErrSwapTypeNotSupported = ''swap type not supported''"
| "token_Error ErrNoBridgeForChainID = ''no bridge for chain id''"
| "token_Error ErrSwapTradeNotSupport = ''swap trade not support''"
| "token_Error ErrNotFound = ''not found''"
| "token_Error ErrTxNotFound = ''tx not found''"
| "token_Error ErrTxNotStable = ''tx not stable''"
| "token_Error ErrLogIndexOutOfRange = ''log index out of range''"
| "token_Error ErrTxWithWrongReceipt = ''tx with wrong receipt''"
| "token_Error ErrTxWithWrongReceiver = ''tx with wrong receiver''"
| "token_Error ErrTxWithWrongContract = ''tx with wrong contract''"
| "token_Error ErrTxWithWrongTopics = ''tx with wrong log topics''"
| "token_Error ErrSwapoutLogNotFound = ''swapout log not found or removed''"
| "token_Error ErrTxWithRemovedLog = ''tx with removed log''"
| "token_Error ErrWrongBindAddress = ''wrong bind address''"
| "token_Error ErrWrongRawTx = ''wrong raw tx''"
| "token_Error ErrUnsupportedFuncHash = ''unsupported method func hash''"
| "token_Error ErrWrongCountOfMsgHashes = ''wrong count of msg hashed''"
| "token_Error ErrMsgHashMismatch = ''message hash mismatch''"
| "token_Error ErrSwapInBlacklist = ''swap is in black list''"
| "token_Error ErrTxBeforeInitialHeight = ''transaction before initial block height''"
| "token_Error ErrEstimateGasFailed = ''estimate gas failed''"
| "token_Error ErrRPCQueryError = ''rpc query error''"
| "token_Error ErrMissDynamicFeeConfig = ''miss dynamic fee config''"
| "token_Error ErrFromChainIDMismatch = ''from chainID mismatch''"
| "token_Error ErrMissMPCPublicKey = ''miss mpc public key config''"
| "token_Error ErrMissRouterInfo = ''miss router info''"
| "token_Error ErrSenderMismatch = ''sender mismatch''"
| "token_Error ErrTxWithWrongSender = ''tx with wrong sender''"
| "token_Error ErrToChainIDMismatch = ''to chainID mismatch''"
| "token_Error ErrTxWithWrongStatus = ''tx with wrong status''"
| "token_Error ErrUnknownSwapoutType = ''unknown swapout type''"
| "token_Error ErrEmptyTokenID = ''empty tokenID''"
| "token_Error ErrNoEnoughReserveBudget = ''no enough reserve budget''"
| "token_Error ErrTxWithNoPayment = ''tx with no payment''"
| "token_Error ErrTxIsNotValidated = ''tx is not validated''"
| "token_Error ErrTxWithWrongValue = ''tx with wrong value''"
| "token_Error ErrTxWithWrongPath = ''swap trade tx with wrong path''"
| "token_Error ErrMissTokenConfig = ''miss token config''"
| "token_Error ErrNoUnderlyingToken = ''no underlying token''"
| "token_Error (OtherError m) = m"
| "token_Error (Wrapped m e) = m"

text \<open>\<open>errors.Is\<close> looks through the errors wrapped with \<open>%w\<close>.\<close>

fun errors_Is :: "token_error \<Rightarrow> token_error \<Rightarrow> bool" where
  "errors_Is (Wrapped msg e) target \<longleftrightarrow> Wrapped msg e = target \<or> errors_Is e target"
| "errors_Is e target \<longleftrightarrow> e = target"

definition ShouldRegisterRouterSwapForError :: "token_error option \<Rightarrow> bool" where
  "ShouldRegisterRouterSwapForError err =
     (case err of
        None \<Rightarrow> True
      | Some e \<Rightarrow>
          errors_Is e ErrTxWithWrongValue \<or> errors_Is e ErrTxWithWrongPath \<or>
          errors_Is e ErrMissTokenConfig \<or> errors_Is e ErrNoUnderlyingToken)"

definition IsRPCQueryOrNotFoundError :: "token_error \<Rightarrow> bool" where
  "IsRPCQueryOrNotFoundError e \<longleftrightarrow> errors_Is e ErrRPCQueryError \<or> errors_Is e ErrNotFound"

section \<open>types.go\<close>

type_synonym SwapType = nat

definition UnknownSwapType :: SwapType where "UnknownSwapType = 0"
definition ERC20SwapType :: SwapType where "ERC20SwapType = 1"
definition NFTSwapType :: SwapType where "NFTSwapType = 2"
definition AnyCallSwapType :: SwapType where "AnyCallSwapType = 3"
definition MaxValidSwapType :: SwapType where "MaxValidSwapType = 4"

lemmas swap_types = UnknownSwapType_def ERC20SwapType_def NFTSwapType_def AnyCallSwapType_def
  MaxValidSwapType_def

definition SwapType_String :: "SwapType \<Rightarrow> string" where
  "SwapType_String s =
     (if s = ERC20SwapType then ''erc20swap''
      else if s = NFTSwapType then ''nftswap''
      else if s = AnyCallSwapType then ''anycallswap''
      else ''unknownswap'')"

definition IsValidType :: "SwapType \<Rightarrow> bool" where
  "IsValidType s \<longleftrightarrow> UnknownSwapType < s \<and> s < MaxValidSwapType"

record ERC20SwapInfo =
  erc20_Token :: string
  erc20_TokenID :: string
  ForNative :: bool
  ForUnderlying :: bool
  Path :: "string list"
  AmountOutMin :: "int option"
  CallProxy :: string
  erc20_CallData :: "bytes option"

record NFTSwapInfo =
  nft_Token :: string
  nft_TokenID :: string
  IDs :: "int list"
  Amounts :: "int list"
  Batch :: bool
  nft_Data :: bytes

record AnyCallSwapInfo =
  any_CallFrom :: string
  any_CallTo :: "string list"
  any_CallData :: "bytes list"
  Callbacks :: "string list"
  CallNonces :: "int list"

record CurveAnyCallSwapInfo =
  curve_CallFrom :: string
  curve_CallTo :: string
  curve_CallData :: bytes
  curve_Fallback :: string

record SwapInfo =
  erc20Info :: "ERC20SwapInfo option"
  nftInfo :: "NFTSwapInfo option"
  anycallInfo :: "AnyCallSwapInfo option"
  curveInfo :: "CurveAnyCallSwapInfo option"

definition GetTokenID :: "('a) SwapInfo_scheme \<Rightarrow> string" where
  "GetTokenID s =
     (case erc20Info s of
        Some i \<Rightarrow> erc20_TokenID i
      | None \<Rightarrow> (case nftInfo s of Some i \<Rightarrow> nft_TokenID i | None \<Rightarrow> ''''))"

definition GetToken :: "('a) SwapInfo_scheme \<Rightarrow> string" where
  "GetToken s =
     (case erc20Info s of
        Some i \<Rightarrow> erc20_Token i
      | None \<Rightarrow> (case nftInfo s of Some i \<Rightarrow> nft_Token i | None \<Rightarrow> ''''))"

text \<open>The embedded struct \<open>SwapInfo\<close> is the parent record.\<close>

record SwapTxInfo = SwapInfo +
  tx_SwapType :: SwapType
  tx_Hash :: string
  tx_Height :: nat
  tx_Timestamp :: nat
  tx_From :: string
  tx_TxTo :: string
  tx_To :: string
  tx_Bind :: string
  tx_Value :: "int option"
  tx_LogIndex :: int
  tx_FromChainID :: "int option"
  tx_ToChainID :: "int option"

text \<open>A receipt is any value; what counts is its answer to \<open>IsStatusOk\<close>, if it has that method.\<close>

datatype receipt_value = WithStatus bool | WithoutStatus

record TxStatus =
  Sender :: string
  Receipt :: "receipt_value option"
  Confirmations :: nat
  BlockHeight :: nat
  BlockHash :: string
  BlockTime :: nat

definition IsSwapTxOnChainAndFailed :: "TxStatus option \<Rightarrow> bool" where
  "IsSwapTxOnChainAndFailed st =
     (case st of
        None \<Rightarrow> False
      | Some s \<Rightarrow> if BlockHeight s = 0 then False else Receipt s = Some (WithStatus False))"

record EthExtraArgs =
  Gas :: "nat option"
  GasPrice :: "int option"
  GasTipCap :: "int option"
  GasFeeCap :: "int option"
  Nonce :: "nat option"
  Deadline :: int

record AllExtras =
  EthExtra :: "EthExtraArgs option"
  ReplaceNum :: nat
  Sequence :: "nat option"
  Fee :: "string option"

record VerifyArgs =
  va_SwapType :: SwapType
  va_LogIndex :: int
  AllowUnstable :: bool

record RegisterArgs =
  ra_SwapType :: SwapType
  ra_LogIndex :: int

record SwapArgs = SwapInfo +
  args_Identifier :: string
  args_SwapID :: string
  args_SwapType :: SwapType
  args_Bind :: string
  args_LogIndex :: int
  args_FromChainID :: "int option"
  args_ToChainID :: "int option"
  Reswapping :: bool

record BuildTxArgs =
  swapArgs :: SwapArgs
  args_From :: string
  args_To :: string
  OriginFrom :: string
  OriginTxTo :: string
  OriginValue :: "int option"
  SwapValue :: "int option"
  args_Value :: "int option"
  Memo :: string
  Input :: "bytes option"
  args_Extra :: "AllExtras option"

definition GetReplaceNum :: "BuildTxArgs \<Rightarrow> nat" where
  "GetReplaceNum args = (case args_Extra args of None \<Rightarrow> 0 | Some e \<Rightarrow> ReplaceNum e)"

definition GetExtraArgs :: "BuildTxArgs \<Rightarrow> BuildTxArgs" where
  "GetExtraArgs args =
     \<lparr>swapArgs = swapArgs args, args_From = args_From args, args_To = '''', OriginFrom = '''',
      OriginTxTo = '''', OriginValue = None, SwapValue = None, args_Value = None, Memo = '''',
      Input = None, args_Extra = args_Extra args\<rparr>"

definition GetTxNonce :: "BuildTxArgs \<Rightarrow> nat" where
  "GetTxNonce args =
     (case args_Extra args of
        None \<Rightarrow> 0
      | Some e \<Rightarrow>
          (case EthExtra e of
             Some x \<Rightarrow> (case Nonce x of Some n \<Rightarrow> n | None \<Rightarrow> 0)
           | None \<Rightarrow> (case Sequence e of Some n \<Rightarrow> n | None \<Rightarrow> 0)))"

section \<open>config.go\<close>

record ChainConfig =
  cc_ChainID :: string
  BlockChain :: string
  cc_RouterContract :: string
  cc_Confirmations :: nat
  InitialHeight :: nat
  chainID_num :: "int option"

record TokenConfig =
  TokenID :: string
  Decimals :: nat
  ContractAddress :: string
  ContractVersion :: nat
  RouterContract :: string
  underlying :: string

record SwapConfig =
  MaximumSwap :: "int option"
  MinimumSwap :: "int option"
  BigValueThreshold :: "int option"
  SwapFeeRatePerMillion :: nat
  MaximumSwapFee :: "int option"
  MinimumSwapFee :: "int option"

record GatewayConfig =
  APIAddress :: "string list"
  APIAddressExt :: "string list"

definition ChainConfig_CheckConfig :: "ChainConfig \<Rightarrow> (token_error, ChainConfig) outcome" where
  "ChainConfig_CheckConfig c =
     (if BlockChain c = '''' then Err (OtherError ''chain must config BlockChain'')
      else if cc_ChainID c = '''' then Err (OtherError ''chain must config ChainID'')
      else case GetBigIntFromStr (cc_ChainID c) of
             Ret n \<Rightarrow>
               if cc_Confirmations c = 0 then Err (OtherError ''chain must config nonzero Confirmations'')
               else if cc_RouterContract c = '''' then Err (OtherError ''chain must config RouterContract'')
               else Ret (c\<lparr>chainID_num := Some n\<rparr>)
           | _ \<Rightarrow> Err (OtherError ''chain with wrong ChainID''))"

definition TokenConfig_CheckConfig :: "bool \<Rightarrow> TokenConfig \<Rightarrow> (token_error, unit) outcome" where
  "TokenConfig_CheckConfig isERC20Router c =
     (if TokenID c = '''' then Err (OtherError ''token must config TokenID'')
      else if ContractAddress c = '''' then Err (OtherError ''token must config ContractAddress'')
      else if \<not> isERC20Router \<and> Decimals c \<noteq> 0 then
        Err (OtherError ''non ERC20 token must config Decimals to 0'')
      else Ret ())"

definition IsStandardTokenVersion :: "TokenConfig \<Rightarrow> bool" where
  "IsStandardTokenVersion c \<longleftrightarrow> 0 < ContractVersion c \<and> ContractVersion c \<le> 10000"

text \<open>\<open>positive\<close> and \<open>non_negative\<close> fail on nil too.\<close>

definition sign_check :: "int option \<Rightarrow> (int \<Rightarrow> bool) \<Rightarrow> string \<Rightarrow> (token_error, int) outcome" where
  "sign_check x good msg =
     (case x of None \<Rightarrow> Err (OtherError msg) | Some v \<Rightarrow> if good v then Ret v else Err (OtherError msg))"

definition require :: "bool \<Rightarrow> string \<Rightarrow> (token_error, unit) outcome" where
  "require b msg = (if b then Ret () else Err (OtherError msg))"

definition SwapConfig_CheckConfig :: "SwapConfig \<Rightarrow> (token_error, unit) outcome" where
  "SwapConfig_CheckConfig c =
     obind (sign_check (MaximumSwap c) (\<lambda>v. 0 < v) ''token must config MaximumSwap (positive)'') (\<lambda>maxS.
     obind (sign_check (MinimumSwap c) (\<lambda>v. 0 < v) ''token must config MinimumSwap (positive)'') (\<lambda>minS.
     obind (require (minS \<le> maxS) ''wrong token config, MinimumSwap > MaximumSwap'') (\<lambda>_.
     obind (sign_check (BigValueThreshold c) (\<lambda>v. 0 < v) ''token must config BigValueThreshold (positive)'') (\<lambda>_.
     obind (require (SwapFeeRatePerMillion c < 1000000) ''token must config SwapFeeRatePerMillion (< 1000000)'') (\<lambda>_.
     obind (sign_check (MaximumSwapFee c) (\<lambda>v. 0 \<le> v) ''token must config MaximumSwapFee (non-negative)'') (\<lambda>maxF.
     obind (sign_check (MinimumSwapFee c) (\<lambda>v. 0 \<le> v) ''token must config MinimumSwapFee (non-negative)'') (\<lambda>minF.
     obind (require (minF \<le> maxF) ''wrong token config, MinimumSwapFee > MaximumSwapFee'') (\<lambda>_.
     obind (require (minF \<le> minS) ''wrong token config, MinimumSwap < MinimumSwapFee'') (\<lambda>_.
     require (\<not> (SwapFeeRatePerMillion c = 0 \<and> 0 < minF))
       ''wrong token config, MinimumSwapFee should be 0 if SwapFeeRatePerMillion is 0'')))))))))"

section \<open>base.go\<close>

record tokens_state =
  prm :: params_state
  routerSwapType :: SwapType
  swapConfigMap :: "string \<rightharpoonup> (string \<rightharpoonup> SwapConfig)"

definition IsNativeCoin :: "string \<Rightarrow> bool" where
  "IsNativeCoin name = EqualFold name ''native''"

text \<open>An unknown name ends the process.\<close>

definition InitRouterSwapType :: "string \<Rightarrow> tokens_state \<Rightarrow> (token_error, tokens_state) outcome" where
  "InitRouterSwapType swapTypeStr s =
     (let t = ToLower swapTypeStr in
      if t = ''erc20swap'' then Ret (s\<lparr>routerSwapType := ERC20SwapType\<rparr>)
      else if t = ''nftswap'' then Ret (s\<lparr>routerSwapType := NFTSwapType\<rparr>)
      else if t = ''anycallswap'' then Ret (s\<lparr>routerSwapType := AnyCallSwapType\<rparr>)
      else Panic)"

definition IsERC20Router :: "tokens_state \<Rightarrow> bool" where
  "IsERC20Router s \<longleftrightarrow> routerSwapType s = ERC20SwapType"

definition IsNFTRouter :: "tokens_state \<Rightarrow> bool" where
  "IsNFTRouter s \<longleftrightarrow> routerSwapType s = NFTSwapType"

definition IsAnyCallRouter :: "tokens_state \<Rightarrow> bool" where
  "IsAnyCallRouter s \<longleftrightarrow> routerSwapType s = AnyCallSwapType"

record CrossChainBridgeBase =
  bridgeChainConfig :: "ChainConfig option"
  bridgeGatewayConfig :: "GatewayConfig option"
  TokenConfigMap :: "string \<rightharpoonup> TokenConfig"

definition NewCrossChainBridgeBase :: CrossChainBridgeBase where
  "NewCrossChainBridgeBase =
     \<lparr>bridgeChainConfig = None, bridgeGatewayConfig = None, TokenConfigMap = Map.empty\<rparr>"

definition SetChainConfig :: "ChainConfig option \<Rightarrow> CrossChainBridgeBase \<Rightarrow> CrossChainBridgeBase" where
  "SetChainConfig chainCfg b = b\<lparr>bridgeChainConfig := chainCfg\<rparr>"

definition SetGatewayConfig :: "GatewayConfig \<Rightarrow> CrossChainBridgeBase \<Rightarrow> (token_error, CrossChainBridgeBase) outcome" where
  "SetGatewayConfig gatewayCfg b =
     (if length (APIAddress gatewayCfg) = 0 then Panic else Ret (b\<lparr>bridgeGatewayConfig := Some gatewayCfg\<rparr>))"

definition SetTokenConfig :: "string \<Rightarrow> TokenConfig option \<Rightarrow> CrossChainBridgeBase \<Rightarrow> CrossChainBridgeBase" where
  "SetTokenConfig token tokenCfg b =
     b\<lparr>TokenConfigMap := (TokenConfigMap b)(ToLower token := tokenCfg)\<rparr>"

definition GetTokenConfig :: "CrossChainBridgeBase \<Rightarrow> string \<Rightarrow> TokenConfig option" where
  "GetTokenConfig b token = TokenConfigMap b (ToLower token)"

definition GetRouterContract :: "CrossChainBridgeBase \<Rightarrow> string \<Rightarrow> (token_error, string) outcome" where
  "GetRouterContract b token =
     (let dflt = (case bridgeChainConfig b of None \<Rightarrow> Panic | Some c \<Rightarrow> Ret (cc_RouterContract c)) in
      if token \<noteq> '''' then
        (case GetTokenConfig b token of
           None \<Rightarrow> Ret ''''
         | Some c \<Rightarrow> if RouterContract c \<noteq> '''' then Ret (RouterContract c) else dflt)
      else dflt)"

definition SetSwapConfigs :: "(string \<rightharpoonup> (string \<rightharpoonup> SwapConfig)) \<Rightarrow> tokens_state \<Rightarrow> tokens_state" where
  "SetSwapConfigs m s = s\<lparr>swapConfigMap := m\<rparr>"

definition GetSwapConfig :: "tokens_state \<Rightarrow> string \<Rightarrow> string \<Rightarrow> SwapConfig option" where
  "GetSwapConfig s tokenID toChainID =
     (case swapConfigMap s tokenID of None \<Rightarrow> None | Some cfgs \<Rightarrow> cfgs toChainID)"

text \<open>The decimals are \<open>uint8\<close>; the guards keep the subtractions from wrapping.\<close>

definition ConvertTokenValue :: "int option \<Rightarrow> nat \<Rightarrow> nat \<Rightarrow> int option" where
  "ConvertTokenValue fromValue fromDecimals toDecimals =
     (case fromValue of
        None \<Rightarrow> None
      | Some v \<Rightarrow>
          if fromDecimals = toDecimals then Some v
          else if fromDecimals > toDecimals then Some (big_Div v (BigPow 10 (fromDecimals - toDecimals)))
          else Some (v * BigPow 10 (toDecimals - fromDecimals)))"

definition GetBigValueThreshold :: "tokens_state \<Rightarrow> string \<Rightarrow> string \<Rightarrow> nat \<Rightarrow> int option" where
  "GetBigValueThreshold s tokenID toChainID fromDecimals =
     (case GetSwapConfig s tokenID toChainID of
        None \<Rightarrow> Some 0
      | Some c \<Rightarrow> ConvertTokenValue (BigValueThreshold c) 18 fromDecimals)"

text \<open>A method call on a possibly nil number.\<close>

definition non_nil :: "'a option \<Rightarrow> ('e, 'a) outcome" where
  "non_nil x = (case x of None \<Rightarrow> Panic | Some v \<Rightarrow> Ret v)"

text \<open>The fee that is charged on \<open>value\<close>, the middle part of \<open>CalcSwapValue\<close>.\<close>

definition calc_swap_fee :: "params_state \<Rightarrow> SwapConfig \<Rightarrow> bool \<Rightarrow> string \<Rightarrow> int option \<Rightarrow> nat \<Rightarrow> (token_error, int) outcome" where
  "calc_swap_fee p cfg whitelisted toChainID value fromDecimals =
     (let minSwapFee = ConvertTokenValue (MinimumSwapFee cfg) 18 fromDecimals in
      if whitelisted then non_nil minSwapFee
      else
        obind (non_nil value) (\<lambda>v.
        let fee = big_Div (v * int (SwapFeeRatePerMillion cfg)) 1000000 in
        obind (non_nil minSwapFee) (\<lambda>minF.
        obind (if fee < minF then Ret minF
               else obind (non_nil (ConvertTokenValue (MaximumSwapFee cfg) 18 fromDecimals)) (\<lambda>maxF.
                      Ret (if fee > maxF then maxF else fee))) (\<lambda>fee.
        let baseFeePercent = GetBaseFeePercent p toChainID in
        if baseFeePercent \<noteq> 0 \<and> minF > 0 then
          let fee = fee + big_Div (minF * baseFeePercent) 100 in Ret (if fee < 0 then 0 else fee)
        else Ret fee))))"

definition CalcSwapValue :: "tokens_state \<Rightarrow> string \<Rightarrow> string \<Rightarrow> int option \<Rightarrow> nat \<Rightarrow> nat \<Rightarrow> string \<Rightarrow> string \<Rightarrow>
    (token_error, int option) outcome" where
  "CalcSwapValue s tokenID toChainID value fromDecimals toDecimals originFrom originTxTo =
     (if \<not> IsERC20Router s then Ret value
      else case GetSwapConfig s tokenID toChainID of
             None \<Rightarrow> Ret (Some 0)
           | Some cfg \<Rightarrow>
               if SwapFeeRatePerMillion cfg > 0 then
                 let wl = (IsInBigValueWhitelist (prm s) tokenID originFrom \<or>
                           IsInBigValueWhitelist (prm s) tokenID originTxTo)
                 in obind (calc_swap_fee (prm s) cfg wl toChainID value fromDecimals) (\<lambda>swapFee.
                    obind (non_nil value) (\<lambda>v.
                      if v \<le> swapFee then Ret (Some 0)
                      else Ret (ConvertTokenValue (Some (v - swapFee)) fromDecimals toDecimals)))
               else Ret (ConvertTokenValue value fromDecimals toDecimals))"

definition CheckTokenSwapValue :: "tokens_state \<Rightarrow> SwapTxInfo \<Rightarrow> nat \<Rightarrow> nat \<Rightarrow> (token_error, bool) outcome" where
  "CheckTokenSwapValue s swapInfo fromDecimals toDecimals =
     (if \<not> IsERC20Router s then Ret True
      else case tx_Value swapInfo of
        None \<Rightarrow> Ret False
      | Some value \<Rightarrow>
          if value \<le> 0 then Ret False
          else let tokenID = GetTokenID swapInfo;
                   toChainID = (case tx_ToChainID swapInfo of None \<Rightarrow> ''<nil>'' | Some c \<Rightarrow> big_String c)
               in case GetSwapConfig s tokenID toChainID of
                    None \<Rightarrow> Ret False
                  | Some cfg \<Rightarrow>
                      obind (non_nil (ConvertTokenValue (MinimumSwap cfg) 18 fromDecimals)) (\<lambda>minS.
                      if value < minS then Ret False
                      else obind (non_nil (ConvertTokenValue (MaximumSwap cfg) 18 fromDecimals)) (\<lambda>maxS.
                      if value > maxS \<and>
                         \<not> IsInBigValueWhitelist (prm s) tokenID (tx_From swapInfo) \<and>
                         \<not> IsInBigValueWhitelist (prm s) tokenID (tx_TxTo swapInfo)
                      then Ret False
                      else obind (CalcSwapValue s tokenID toChainID (Some value) fromDecimals toDecimals
                                    (tx_From swapInfo) (tx_TxTo swapInfo)) (\<lambda>r.
                           obind (non_nil r) (\<lambda>v. Ret (v > 0))))))"

definition ToBits :: "string \<Rightarrow> nat \<Rightarrow> int option" where
  "ToBits valueStr decimals =
     (let parts = Split1 (CHR ''.'') valueStr in
      if length parts > 2 then None
      else case big_SetString (parts ! 0) 10 of
             None \<Rightarrow> None
           | Some ipart \<Rightarrow>
               let oneToken = BigPow 10 decimals; result = ipart * oneToken in
               if length parts > 1 then
                 (case big_SetString (parts ! 1) 10 of
                    None \<Rightarrow> None
                  | Some dpart \<Rightarrow> Some (result + big_Div (dpart * oneToken) (BigPow 10 (length (parts ! 1)))))
               else Some result)"

text \<open>\<open>query i\<close> is the answer of the i-th call of the bridge's \<open>GetBalance\<close>.\<close>

definition CheckNativeBalance :: "(nat \<Rightarrow> token_error + int) \<Rightarrow> int \<Rightarrow> (token_error, unit) outcome" where
  "CheckNativeBalance query needValue =
     (case (case query 0 of Inr b \<Rightarrow> Inr b | Inl _ \<Rightarrow>
             (case query 1 of Inr b \<Rightarrow> Inr b | Inl _ \<Rightarrow> query 2)) of
        Inr balance \<Rightarrow> if balance < needValue then Err (OtherError ''not enough coin balance'') else Ret ()
      | Inl e \<Rightarrow> Err e)"

section \<open>Checked swap configurations\<close>

text \<open>What a configuration satisfies once it passed its check, and only then.\<close>

definition swap_config_ok :: "SwapConfig \<Rightarrow> bool" where
  "swap_config_ok c =
     (case (MaximumSwap c, MinimumSwap c, BigValueThreshold c, MaximumSwapFee c, MinimumSwapFee c) of
        (Some maxS, Some minS, Some big, Some maxF, Some minF) \<Rightarrow>
          0 < minS \<and> minS \<le> maxS \<and> 0 < big \<and> SwapFeeRatePerMillion c < 1000000 \<and>
          0 \<le> minF \<and> minF \<le> maxF \<and> minF \<le> minS \<and> (SwapFeeRatePerMillion c = 0 \<longrightarrow> minF = 0)
      | _ \<Rightarrow> False)"

lemma sign_check_Ret: "sign_check x good msg = Ret v \<longleftrightarrow> x = Some v \<and> good v"
  by (auto simp: sign_check_def split: option.splits)

lemma require_Ret: "require b msg = Ret () \<longleftrightarrow> b"
  by (simp add: require_def)

lemma SwapConfig_CheckConfig_iff: "SwapConfig_CheckConfig c = Ret () \<longleftrightarrow> swap_config_ok c"
  by (auto simp: SwapConfig_CheckConfig_def swap_config_ok_def obind_Ret_iff sign_check_Ret require_Ret
      split: option.splits)

section \<open>Conversion between decimals\<close>

lemma BigPow_10 [token_value_laws]: "BigPow 10 n = 10 ^ n"
  by (simp add: BigPow_def)

definition convert :: "nat \<Rightarrow> nat \<Rightarrow> int \<Rightarrow> int" where
  "convert d d' v = (if d' \<le> d then v div 10 ^ (d - d') else v * 10 ^ (d' - d))"

lemma ConvertTokenValue_Some [token_value_laws]:
  "ConvertTokenValue (Some v) d d' = Some (convert d d' v)"
  by (auto simp: ConvertTokenValue_def convert_def big_Div_pos BigPow_10)

lemma ConvertTokenValue_None [simp]: "ConvertTokenValue None d d' = None"
  by (simp add: ConvertTokenValue_def)

lemma convert_mono: "v \<le> w \<Longrightarrow> convert d d' v \<le> convert d d' w"
  by (simp add: convert_def zdiv_mono1 mult_right_mono)

lemma convert_nonneg: "0 \<le> v \<Longrightarrow> 0 \<le> convert d d' v"
  by (simp add: convert_def pos_imp_zdiv_nonneg_iff)

lemma convert_zero [simp]: "convert d d' 0 = 0"
  by (simp add: convert_def)

lemma convert_back:
  assumes "d \<le> d'"
  shows "convert d' d (convert d d' v) = v"
  using assms by (auto simp: convert_def)

lemma convert_loss:
  assumes "d' \<le> d"
  shows "convert d' d (convert d d' v) \<le> v" and "v < convert d' d (convert d d' v) + 10 ^ (d - d')"
proof -
  let ?k = "(10::int) ^ (d - d')"
  have e: "convert d' d (convert d d' v) = (v div ?k) * ?k" using assms by (auto simp: convert_def)
  have k: "0 < ?k" by simp
  have "v = (v div ?k) * ?k + v mod ?k" by (simp only: div_mult_mod_eq)
  moreover have "0 \<le> v mod ?k" "v mod ?k < ?k" using k by simp_all
  ultimately show "convert d' d (convert d d' v) \<le> v" and "v < convert d' d (convert d d' v) + ?k"
    unfolding e by linarith+
qed

section \<open>The fee\<close>

text \<open>The fee of a checked configuration as a function of the value.\<close>

definition fee_of :: "SwapConfig \<Rightarrow> bool \<Rightarrow> int \<Rightarrow> nat \<Rightarrow> int \<Rightarrow> int" where
  "fee_of cfg whitelisted percent d v =
     (let minF = convert 18 d (the (MinimumSwapFee cfg));
          maxF = convert 18 d (the (MaximumSwapFee cfg));
          fee = max minF (min maxF (v * int (SwapFeeRatePerMillion cfg) div 1000000))
      in if whitelisted then minF
         else if percent \<noteq> 0 \<and> 0 < minF then max 0 (fee + minF * percent div 100) else fee)"

lemma calc_swap_fee_eq:
  assumes "swap_config_ok cfg"
  shows "calc_swap_fee p cfg wl toChainID (Some v) d =
    Ret (fee_of cfg wl (GetBaseFeePercent p toChainID) d v)"
proof -
  from assms obtain maxF minF where f: "MaximumSwapFee cfg = Some maxF" "MinimumSwapFee cfg = Some minF"
    and le: "minF \<le> maxF" by (auto simp: swap_config_ok_def split: option.splits)
  have "convert 18 d minF \<le> convert 18 d maxF" using le by (rule convert_mono)
  then show ?thesis
    by (auto simp: calc_swap_fee_def fee_of_def f token_value_laws non_nil_def big_Div_pos Let_def max_def min_def)
qed

lemma fee_of_nonneg:
  assumes "swap_config_ok cfg"
  shows "0 \<le> fee_of cfg wl percent d v"
proof -
  from assms obtain minF where "MinimumSwapFee cfg = Some minF" "0 \<le> minF"
    by (auto simp: swap_config_ok_def split: option.splits)
  then show ?thesis
    using convert_nonneg [of minF 18 d] by (auto simp: fee_of_def Let_def le_max_iff_disj)
qed

lemma fee_of_range:
  assumes "swap_config_ok cfg"
  shows "convert 18 d (the (MinimumSwapFee cfg)) \<le> fee_of cfg wl 0 d v"
    and "fee_of cfg wl 0 d v \<le> convert 18 d (the (MaximumSwapFee cfg))"
proof -
  from assms obtain maxF minF where "MaximumSwapFee cfg = Some maxF" "MinimumSwapFee cfg = Some minF"
    and "minF \<le> maxF" by (auto simp: swap_config_ok_def split: option.splits)
  then have "convert 18 d (the (MinimumSwapFee cfg)) \<le> convert 18 d (the (MaximumSwapFee cfg))"
    by (simp add: convert_mono)
  then show "convert 18 d (the (MinimumSwapFee cfg)) \<le> fee_of cfg wl 0 d v"
    and "fee_of cfg wl 0 d v \<le> convert 18 d (the (MaximumSwapFee cfg))"
    by (auto simp: fee_of_def Let_def)
qed

text \<open>The rate is below one, so the fee grows more slowly than the value.\<close>

lemma rate_lipschitz:
  assumes "v \<le> w" and "r < 1000000"
  shows "w * int r div 1000000 - v * int r div 1000000 \<le> w - v"
proof -
  have "w * int r = v * int r + (w - v) * int r" by (simp add: algebra_simps)
  also have "\<dots> \<le> v * int r + (w - v) * 1000000" using assms by (intro add_left_mono mult_left_mono) auto
  finally have "w * int r div 1000000 \<le> (v * int r + (w - v) * 1000000) div 1000000"
    by (rule zdiv_mono1) simp
  then show ?thesis by simp
qed

lemma clamp_lipschitz:
  fixes x y k l :: int
  assumes "y - x \<le> k" and "0 \<le> k"
  shows "max l y - max l x \<le> k" and "min l y - min l x \<le> k"
  using assms by (simp_all add: max_def min_def)

lemma fee_of_lipschitz:
  assumes "swap_config_ok cfg" and "v \<le> w"
  shows "fee_of cfg wl percent d w - fee_of cfg wl percent d v \<le> w - v"
proof -
  have "SwapFeeRatePerMillion cfg < 1000000" using assms(1) by (auto simp: swap_config_ok_def split: option.splits)
  note rate = rate_lipschitz [OF assms(2) this]
  have k: "0 \<le> w - v" using assms(2) by simp
  note fee = clamp_lipschitz(1) [OF clamp_lipschitz(2) [OF rate k] k]
  have "max 0 (f + c) - max 0 (g + c) \<le> w - v" if "f - g \<le> w - v" for f g c
    using that k by (intro clamp_lipschitz(1)) simp_all
  from fee this [OF fee] k show ?thesis by (simp only: fee_of_def Let_def split: if_split) simp
qed

section \<open>The value paid out\<close>

definition whitelisted :: "tokens_state \<Rightarrow> string \<Rightarrow> string \<Rightarrow> string \<Rightarrow> bool" where
  "whitelisted s tokenID a b \<longleftrightarrow>
     IsInBigValueWhitelist (prm s) tokenID a \<or> IsInBigValueWhitelist (prm s) tokenID b"

definition fee_charged :: "tokens_state \<Rightarrow> SwapConfig \<Rightarrow> string \<Rightarrow> string \<Rightarrow> nat \<Rightarrow> string \<Rightarrow> string \<Rightarrow> int \<Rightarrow> int" where
  "fee_charged s cfg tokenID toChainID d a b v =
     (if SwapFeeRatePerMillion cfg = 0 then 0
      else fee_of cfg (whitelisted s tokenID a b) (GetBaseFeePercent (prm s) toChainID) d v)"

lemma fee_charged_nonneg: "swap_config_ok cfg \<Longrightarrow> 0 \<le> fee_charged s cfg tokenID toChainID d a b v"
  by (simp add: fee_charged_def fee_of_nonneg)

lemma CalcSwapValue_eq:
  assumes "IsERC20Router s" and "GetSwapConfig s tokenID toChainID = Some cfg" and "swap_config_ok cfg"
    and "0 \<le> v"
  shows "CalcSwapValue s tokenID toChainID (Some v) d d' a b =
    Ret (Some (convert d d' (max 0 (v - fee_charged s cfg tokenID toChainID d a b v))))"
  using assms calc_swap_fee_eq [OF assms(3)]
  by (auto simp: CalcSwapValue_def fee_charged_def whitelisted_def non_nil_def token_value_laws
      max_def Let_def)

lemma CalcSwapValue_le:
  assumes "IsERC20Router s" and "GetSwapConfig s tokenID toChainID = Some cfg" and "swap_config_ok cfg"
    and "0 \<le> v"
  shows "\<exists>r. CalcSwapValue s tokenID toChainID (Some v) d d' a b = Ret (Some r) \<and> 0 \<le> r \<and> r \<le> convert d d' v"
proof -
  let ?left = "max 0 (v - fee_charged s cfg tokenID toChainID d a b v)"
  have "0 \<le> ?left" "?left \<le> v" using fee_charged_nonneg [OF assms(3)] assms(4) by auto
  then show ?thesis
    using CalcSwapValue_eq [OF assms] convert_nonneg [of ?left d d'] convert_mono [of ?left v d d'] by simp
qed

lemma CalcSwapValue_monotone:
  assumes "IsERC20Router s" and "GetSwapConfig s tokenID toChainID = Some cfg" and "swap_config_ok cfg"
    and "0 \<le> v" and "v \<le> w"
    and "CalcSwapValue s tokenID toChainID (Some v) d d' a b = Ret (Some x)"
    and "CalcSwapValue s tokenID toChainID (Some w) d d' a b = Ret (Some y)"
  shows "x \<le> y"
proof -
  let ?fee = "fee_charged s cfg tokenID toChainID d a b"
  have "?fee w - ?fee v \<le> w - v"
    using fee_of_lipschitz [OF assms(3,5)] assms(5) by (auto simp: fee_charged_def)
  then have "max 0 (v - ?fee v) \<le> max 0 (w - ?fee w)" by linarith
  from convert_mono [OF this, of d d'] show ?thesis
    using assms CalcSwapValue_eq [OF assms(1-3), of v d d' a b] CalcSwapValue_eq [OF assms(1-3), of w d d' a b]
    by simp
qed

lemma CheckTokenSwapValue_accepts:
  assumes "CheckTokenSwapValue s info d d' = Ret True" and "IsERC20Router s"
  shows "\<exists>v cfg minS maxS toChain x.
    tx_Value info = Some v \<and> 0 < v \<and>
    toChain = (case tx_ToChainID info of None \<Rightarrow> ''<nil>'' | Some c \<Rightarrow> big_String c) \<and>
    GetSwapConfig s (GetTokenID info) toChain = Some cfg \<and>
    ConvertTokenValue (MinimumSwap cfg) 18 d = Some minS \<and> minS \<le> v \<and>
    ConvertTokenValue (MaximumSwap cfg) 18 d = Some maxS \<and>
    (v \<le> maxS \<or> whitelisted s (GetTokenID info) (tx_From info) (tx_TxTo info)) \<and>
    CalcSwapValue s (GetTokenID info) toChain (Some v) d d' (tx_From info) (tx_TxTo info) = Ret (Some x) \<and> 0 < x"
  using assms
  by (auto simp: CheckTokenSwapValue_def whitelisted_def non_nil_def outcome_simps not_less not_le Let_def
      split: option.splits if_splits)

lemma CheckTokenSwapValue_total:
  assumes "\<And>tokenID toChainID cfg. GetSwapConfig s tokenID toChainID = Some cfg \<Longrightarrow> swap_config_ok cfg"
  shows "\<exists>b. CheckTokenSwapValue s info d d' = Ret b"
proof -
  define tc where "tc = (case tx_ToChainID info of None \<Rightarrow> ''<nil>'' | Some c \<Rightarrow> big_String c)"
  consider "\<not> IsERC20Router s" | "tx_Value info = None"
    | v where "IsERC20Router s" "tx_Value info = Some v" "GetSwapConfig s (GetTokenID info) tc = None"
    | v cfg where "IsERC20Router s" "tx_Value info = Some v" "GetSwapConfig s (GetTokenID info) tc = Some cfg"
    by fastforce
  then show ?thesis
  proof cases
    case (4 v cfg)
    have ok: "swap_config_ok cfg" using assms 4(3) by blast
    then obtain maxS minS where m: "MaximumSwap cfg = Some maxS" "MinimumSwap cfg = Some minS"
      by (auto simp: swap_config_ok_def split: option.splits)
    show ?thesis
    proof (cases "0 < v")
      case True
      then show ?thesis using 4 m CalcSwapValue_eq [OF 4(1,3) ok, of v d d']
        by (auto simp: CheckTokenSwapValue_def tc_def [symmetric] token_value_laws non_nil_def Let_def)
    qed (use 4 in \<open>auto simp: CheckTokenSwapValue_def\<close>)
  qed (auto simp: CheckTokenSwapValue_def tc_def [symmetric] split: option.splits)
qed

section \<open>Decimal texts\<close>

definition is_digits :: "string \<Rightarrow> bool" where
  "is_digits s \<longleftrightarrow> s \<noteq> [] \<and> list_all (\<lambda>c. 48 \<le> cv c \<and> cv c \<le> 57) s"

definition dec_val :: "string \<Rightarrow> nat" where
  "dec_val s = undigits 10 (map (\<lambda>c. cv c - 48) s)"

lemma scan_digits_dec:
  "list_all (\<lambda>c. 48 \<le> cv c \<and> cv c \<le> 57) s \<Longrightarrow>
     scan_digits 10 n s = Some (n * 10 ^ length s + dec_val s)"
proof (induction s arbitrary: n)
  case Nil
  show ?case by (simp add: dec_val_def)
next
  case (Cons c s)
  define d where "d = cv c - 48"
  have "digit_val c = Some d" "d < 10" using Cons.prems by (auto simp: digit_val_def d_def)
  with Cons d_def [symmetric] show ?case by (simp add: dec_val_def undigits_Cons algebra_simps not_le)
qed

lemma big_SetString_digits: "is_digits s \<Longrightarrow> big_SetString s 10 = Some (int (dec_val s))"
proof -
  assume d: "is_digits s"
  then obtain c cs where s: "s = c # cs" and c: "48 \<le> cv c" by (cases s) (auto simp: is_digits_def)
  have "cv (CHR ''-'') = 45" "cv (CHR ''+'') = 43" by (simp_all add: cv_def)
  with c have "c \<noteq> CHR ''-''" "c \<noteq> CHR ''+''" by auto
  with s d scan_digits_dec [of s 0] show ?thesis by (simp add: big_SetString_def is_digits_def)
qed

lemma Split1_none: "sep \<notin> set s \<Longrightarrow> Split1 sep s = [s]"
  by (induction s) auto

lemma Split1_append: "sep \<notin> set s \<Longrightarrow> Split1 sep (s @ sep # t) = s # Split1 sep t"
  by (induction s) auto

lemma is_digits_no_dot: "is_digits s \<Longrightarrow> CHR ''.'' \<notin> set s"
proof
  assume "is_digits s" and "CHR ''.'' \<in> set s"
  then have "48 \<le> cv (CHR ''.'')" by (auto simp: is_digits_def list_all_iff)
  then show False by (simp add: cv_def)
qed

lemma dec_val_append: "dec_val (s @ t) = dec_val s * 10 ^ length t + dec_val t"
  by (simp add: dec_val_def undigits_append)

lemma ToBits_integer: "is_digits i \<Longrightarrow> ToBits i decimals = Some (int (dec_val i) * 10 ^ decimals)"
  by (simp add: ToBits_def Split1_none is_digits_no_dot big_SetString_digits BigPow_10)

lemma ToBits_decimal:
  assumes "is_digits i" and "is_digits f" and "length f \<le> decimals"
  shows "ToBits (i @ ''.'' @ f) decimals = Some (int (dec_val (i @ f)) * 10 ^ (decimals - length f))"
proof -
  have pow: "(10::int) ^ decimals = 10 ^ (decimals - length f) * 10 ^ length f"
    using assms(3) by (simp flip: power_add)
  have "Split1 (CHR ''.'') (i @ ''.'' @ f) = [i, f]"
    using assms by (simp add: Split1_append Split1_none is_digits_no_dot)
  then have "ToBits (i @ ''.'' @ f) decimals =
      Some (int (dec_val i) * 10 ^ decimals + int (dec_val f) * 10 ^ decimals div 10 ^ length f)"
    using assms by (simp add: ToBits_def big_SetString_digits BigPow_10 big_Div_pos Let_def)
  also have "int (dec_val f) * 10 ^ decimals div 10 ^ length f = int (dec_val f) * 10 ^ (decimals - length f)"
    by (simp add: pow flip: mult.assoc)
  finally show ?thesis by (simp add: pow dec_val_append algebra_simps)
qed

section \<open>Properties\<close>

text \<open>
  C5: with a swap configuration that passed its check, \<open>CalcSwapValue\<close> of an ERC20 router always returns
  a value: the deposit less a fee, converted to the decimals of the target chain. The fee is never
  negative, so a swap never pays out more than was deposited. Without a fee rate there is no fee;
  otherwise it lies between the configured minimum and maximum, and a base fee percentage of the
  target chain, if one is configured, moves it by that part of the minimum, but not below zero
  (white-listed callers pay the minimum).
\<close>

theorem CalcSwapValue_conserves:
  assumes "IsERC20Router s" and "GetSwapConfig s tokenID toChainID = Some cfg"
    and "SwapConfig_CheckConfig cfg = Ret ()" and "0 \<le> v"
  shows "\<exists>fee r. CalcSwapValue s tokenID toChainID (Some v) d d' a b = Ret (Some r) \<and>
    r = convert d d' (max 0 (v - fee)) \<and> 0 \<le> r \<and> r \<le> convert d d' v \<and> 0 \<le> fee \<and>
    (SwapFeeRatePerMillion cfg = 0 \<longrightarrow> fee = 0) \<and>
    (0 < SwapFeeRatePerMillion cfg \<longrightarrow>
      (let minF = convert 18 d (the (MinimumSwapFee cfg)); maxF = convert 18 d (the (MaximumSwapFee cfg)); p = GetBaseFeePercent (prm s) toChainID in
       \<exists>f. minF \<le> f \<and> f \<le> maxF \<and>
         fee = (if whitelisted s tokenID a b then minF else if p \<noteq> 0 \<and> 0 < minF then max 0 (f + minF * p div 100) else f)))"
proof -
  have ok: "swap_config_ok cfg" using assms(3) by (simp add: SwapConfig_CheckConfig_iff)
  let ?fee = "fee_charged s cfg tokenID toChainID d a b v" and ?f = "fee_of cfg (whitelisted s tokenID a b) 0 d v"
  let ?r = "convert d d' (max 0 (v - ?fee))"
  have calc: "CalcSwapValue s tokenID toChainID (Some v) d d' a b = Ret (Some ?r)"
    by (rule CalcSwapValue_eq [OF assms(1,2) ok assms(4)])
  have range: "convert 18 d (the (MinimumSwapFee cfg)) \<le> ?f" "?f \<le> convert 18 d (the (MaximumSwapFee cfg))"
    by (rule fee_of_range [OF ok])+
  have "0 \<le> ?fee" by (rule fee_charged_nonneg [OF ok])
  moreover have "0 \<le> ?r" "?r \<le> convert d d' v"
    using calc CalcSwapValue_le [OF assms(1,2) ok assms(4), of d d' a b] by simp_all
  moreover have "SwapFeeRatePerMillion cfg = 0 \<longrightarrow> ?fee = 0" by (simp add: fee_charged_def)
  moreover have "?fee = (let minF = convert 18 d (the (MinimumSwapFee cfg)); p = GetBaseFeePercent (prm s) toChainID in
      if whitelisted s tokenID a b then minF else if p \<noteq> 0 \<and> 0 < minF then max 0 (?f + minF * p div 100) else ?f)"
    if "0 < SwapFeeRatePerMillion cfg"
    using that unfolding fee_charged_def fee_of_def Let_def by (cases "whitelisted s tokenID a b") simp_all
  ultimately show ?thesis using calc range unfolding Let_def by (intro exI [of _ ?fee] exI [of _ ?r]) blast
qed

text \<open>A concrete router with one token, used by the witnesses.\<close>

definition sample_swap :: SwapConfig where
  "sample_swap =
     \<lparr>MaximumSwap = Some 1000000, MinimumSwap = Some 100, BigValueThreshold = Some 500000,
      SwapFeeRatePerMillion = 1000, MaximumSwapFee = Some 500, MinimumSwapFee = Some 10\<rparr>"

definition sample_tokens :: tokens_state where
  "sample_tokens =
     \<lparr>prm = init_params, routerSwapType = ERC20SwapType,
      swapConfigMap = [''T'' \<mapsto> [''56'' \<mapsto> sample_swap]]\<rparr>"

lemma sample_facts:
  "IsERC20Router sample_tokens" "GetSwapConfig sample_tokens ''T'' ''56'' = Some sample_swap"
  "SwapConfig_CheckConfig sample_swap = Ret ()" "GetBaseFeePercent (prm sample_tokens) ''56'' = 0"
  by (simp_all add: sample_tokens_def sample_swap_def IsERC20Router_def GetSwapConfig_def
      SwapConfig_CheckConfig_def sign_check_def require_def GetBaseFeePercent_def GetExtraConfig_def params_zeros)

theorem CalcSwapValue_conserves_witness:
  "\<exists>fee r. CalcSwapValue sample_tokens ''T'' ''56'' (Some 20000) 18 18 ''a'' ''b'' = Ret (Some r) \<and>
    r = convert 18 18 (max 0 (20000 - fee)) \<and> 10 \<le> fee \<and> fee \<le> 500"
  using CalcSwapValue_conserves [OF sample_facts(1,2,3), of 20000 18 18 "''a''" "''b''"]
  by (auto simp: sample_facts(4) convert_def) (auto simp: sample_swap_def split: if_splits)

text \<open>
  a larger deposit never pays out less: with a checked configuration \<open>CalcSwapValue\<close> is
  monotone in the value, across the fee's minimum, its rate and its maximum, for white-listed
  senders and with a base fee adjustment.
\<close>

theorem CalcSwapValue_mono:
  assumes "IsERC20Router s" and "GetSwapConfig s tokenID toChainID = Some cfg"
    and "SwapConfig_CheckConfig cfg = Ret ()" and "0 \<le> v" and "v \<le> w"
    and "CalcSwapValue s tokenID toChainID (Some v) d d' a b = Ret (Some x)"
    and "CalcSwapValue s tokenID toChainID (Some w) d d' a b = Ret (Some y)"
  shows "x \<le> y"
  using assms by (intro CalcSwapValue_monotone [OF assms(1,2) _ assms(4-7)]) (simp add: SwapConfig_CheckConfig_iff)

theorem CalcSwapValue_mono_witness:
  "CalcSwapValue sample_tokens ''T'' ''56'' (Some 20000) 18 18 ''a'' ''b'' = Ret (Some 19980) \<and>
   CalcSwapValue sample_tokens ''T'' ''56'' (Some 10) 18 18 ''a'' ''b'' = Ret (Some 0) \<and> (0::int) \<le> 19980"
proof -
  have calc: "CalcSwapValue sample_tokens ''T'' ''56'' (Some v) 18 18 ''a'' ''b'' =
      Ret (Some (max 0 (v - max 10 (min 500 (v * 1000 div 1000000)))))" if "0 \<le> v" for v
    using CalcSwapValue_eq [OF sample_facts(1,2), of v 18 18 "''a''" "''b''"] that sample_facts(3)
    by (simp add: SwapConfig_CheckConfig_iff fee_charged_def fee_of_def sample_facts(4) convert_def
        whitelisted_def IsInBigValueWhitelist_def in_table_def sample_tokens_def sample_swap_def params_zeros
        GetBaseFeePercent_def GetExtraConfig_def)
  have "CalcSwapValue sample_tokens ''T'' ''56'' (Some 10) 18 18 ''a'' ''b'' = Ret (Some 0)"
    "CalcSwapValue sample_tokens ''T'' ''56'' (Some 20000) 18 18 ''a'' ''b'' = Ret (Some 19980)"
    using calc [of 10] calc [of 20000] by simp_all
  then show ?thesis
    using CalcSwapValue_mono [OF sample_facts(1,2,3), of 10 20000 18 18 "''a''" "''b''" 0 19980] by simp
qed

text \<open>
  C6: \<open>CheckTokenSwapValue\<close> accepts a transfer of an ERC20 router only if its value is
  positive, at least the configured minimum, at most the maximum unless the sender or the called
  contract is white-listed, and if the value to be paid out is positive.
\<close>

theorem CheckTokenSwapValue_sound:
  assumes "CheckTokenSwapValue s info d d' = Ret True" and "IsERC20Router s"
  shows "\<exists>v cfg minS maxS toChain x.
    tx_Value info = Some v \<and> 0 < v \<and>
    toChain = (case tx_ToChainID info of None \<Rightarrow> ''<nil>'' | Some c \<Rightarrow> big_String c) \<and>
    GetSwapConfig s (GetTokenID info) toChain = Some cfg \<and>
    ConvertTokenValue (MinimumSwap cfg) 18 d = Some minS \<and> minS \<le> v \<and>
    ConvertTokenValue (MaximumSwap cfg) 18 d = Some maxS \<and>
    (v \<le> maxS \<or> whitelisted s (GetTokenID info) (tx_From info) (tx_TxTo info)) \<and>
    CalcSwapValue s (GetTokenID info) toChain (Some v) d d' (tx_From info) (tx_TxTo info) = Ret (Some x) \<and> 0 < x"
  using assms by (rule CheckTokenSwapValue_accepts)

definition sample_transfer :: SwapTxInfo where
  "sample_transfer =
     \<lparr>erc20Info = Some \<lparr>erc20_Token = ''0x1'', erc20_TokenID = ''T'', ForNative = False, ForUnderlying = False,
        Path = [], AmountOutMin = None, CallProxy = '''', erc20_CallData = None\<rparr>,
      nftInfo = None, anycallInfo = None, curveInfo = None, tx_SwapType = ERC20SwapType, tx_Hash = ''0xaa'',
      tx_Height = 1, tx_Timestamp = 0, tx_From = ''a'', tx_TxTo = ''b'', tx_To = ''c'', tx_Bind = ''d'',
      tx_Value = Some 20000, tx_LogIndex = 0, tx_FromChainID = Some 1, tx_ToChainID = Some 56\<rparr>"

theorem CheckTokenSwapValue_sound_witness:
  "\<exists>v x. tx_Value sample_transfer = Some v \<and> 100 \<le> v \<and> v \<le> 1000000 \<and>
     CalcSwapValue sample_tokens ''T'' ''56'' (Some v) 18 18 ''a'' ''b'' = Ret (Some x) \<and> 0 < x"
proof -
  have s56: "big_String 56 = ''56''" by code_simp
  have "CheckTokenSwapValue sample_tokens sample_transfer 18 18 = Ret True"
    by (simp add: CheckTokenSwapValue_def sample_facts s56 sample_transfer_def GetTokenID_def CalcSwapValue_def
        calc_swap_fee_def non_nil_def ConvertTokenValue_def sample_swap_def IsInBigValueWhitelist_def
        sample_tokens_def in_table_def params_zeros big_Div_def GetBaseFeePercent_def GetExtraConfig_def
        IsERC20Router_def GetSwapConfig_def)
  from CheckTokenSwapValue_sound [OF this sample_facts(1)] show ?thesis
    by (auto simp: sample_transfer_def s56 GetTokenID_def sample_facts(2) ConvertTokenValue_def whitelisted_def
        IsInBigValueWhitelist_def sample_tokens_def in_table_def params_zeros)
qed

text \<open>
  when every configured swap passed its check, \<open>CheckTokenSwapValue\<close> never panics: it
  decides every transfer, whatever its fields are.
\<close>

theorem CheckTokenSwapValue_decides:
  assumes "\<And>tokenID toChainID cfg. GetSwapConfig s tokenID toChainID = Some cfg \<Longrightarrow> SwapConfig_CheckConfig cfg = Ret ()"
  shows "\<exists>r. CheckTokenSwapValue s info d d' = Ret r"
  using assms by (intro CheckTokenSwapValue_total) (simp add: SwapConfig_CheckConfig_iff)

theorem CheckTokenSwapValue_decides_witness:
  "\<exists>r. CheckTokenSwapValue sample_tokens (sample_transfer\<lparr>tx_ToChainID := None\<rparr>) 6 255 = Ret r"
proof (rule CheckTokenSwapValue_decides)
  fix tokenID toChainID cfg
  assume "GetSwapConfig sample_tokens tokenID toChainID = Some cfg"
  then have "cfg = sample_swap"
    by (auto simp: GetSwapConfig_def sample_tokens_def split: option.splits if_splits)
  then show "SwapConfig_CheckConfig cfg = Ret ()" by (simp add: sample_facts)
qed

text \<open>
  \<open>ConvertTokenValue\<close> to at least as many decimals and back is the identity; to fewer
  decimals and back it loses less than one unit of the smaller precision and never gains.
\<close>

theorem ConvertTokenValue_roundtrip:
  "\<exists>x y. ConvertTokenValue (Some v) d d' = Some x \<and> ConvertTokenValue (Some x) d' d = Some y \<and>
     (if d \<le> d' then y = v else y \<le> v \<and> v < y + 10 ^ (d - d'))"
  by (simp add: token_value_laws convert_back convert_loss)

text \<open>
  \<open>ToBits\<close> of a decimal text with no more fraction digits than the token has decimals
  is the exact number of units: the digits without the point, scaled by the missing decimals.
\<close>

theorem ToBits_exact:
  assumes "is_digits i" and "is_digits f" and "length f \<le> decimals"
  shows "ToBits (i @ ''.'' @ f) decimals = Some (int (dec_val (i @ f)) * 10 ^ (decimals - length f))"
  using assms by (rule ToBits_decimal)

theorem ToBits_exact_witness: "ToBits ''12.05'' 3 = Some 12050"
proof -
  have "is_digits ''12''" "is_digits ''05''" by (simp_all add: is_digits_def cv_def)
  from ToBits_exact [OF this, of 3] show ?thesis by (simp add: dec_val_def cv_def undigits_def)
qed

end
