(* ===== verification/Router.thy ===== *)
theory Router
  imports Tokens
begin

text \<open>
  Package \<open>router\<close> (types.go): the process-wide tables of the router: the bridge of each
  chain, the address of each token on each chain, the information of each router contract, the
  public keys of the MPC accounts and the chains an administrator paused. The keys that hold
  addresses and token identifiers are stored in lower case. An \<open>IBridge\<close> is a record of its
  configuration (\<open>CrossChainBridgeBase\<close>) and of those of its methods that the modelled code
  calls on the bridge of another chain. A method that asks a node or the signing network takes
  the number of external calls made before as its first argument, since the answer may change
  from one call to the next. The values of type \<open>interface{}\<close> that the bridge's callers only
  hand on (a raw and a signed transaction) are the bytes \<open>opaque\<close>.
\<close>

named_theorems router_simps "reading the router's tables after an update"

type_synonym opaque = bytes

text \<open>An error of the signing network that is, or wraps, \<open>mpc.ErrGetSignStatusHasDisagree\<close>, or any other.\<close>

datatype sign_error = SignDisagree string | SignFailed token_error

record IBridge =
  base :: CrossChainBridgeBase
  isValidAddress :: "string \<Rightarrow> bool"
  getPairFor :: "(string \<Rightarrow> string \<Rightarrow> string \<Rightarrow> token_error + string) option"
  getTransactionStatus :: "nat \<Rightarrow> string \<Rightarrow> TxStatus option \<times> token_error option"
  verifyTransaction :: "nat \<Rightarrow> string \<Rightarrow> VerifyArgs \<Rightarrow> token_error + SwapTxInfo"
  mpcSignTransaction :: "nat \<Rightarrow> opaque \<Rightarrow> BuildTxArgs \<Rightarrow> sign_error + opaque \<times> string"
  sendTransaction :: "nat \<Rightarrow> opaque \<Rightarrow> string \<times> token_error option"
  getPoolNonce :: "(nat \<Rightarrow> string \<Rightarrow> string \<Rightarrow> token_error + nat) option"

record SwapRouterInfo =
  RouterMPC :: string
  RouterFactory :: string
  RouterWNative :: string

record router_state =
  toks :: tokens_state
  RouterBridges :: "string \<rightharpoonup> IBridge"
  MultichainTokens :: "string \<rightharpoonup> (string \<rightharpoonup> string)"
  pausedChainIDs :: "string set"
  MPCPublicKeys :: "string \<rightharpoonup> string"
  RouterInfos :: "string \<rightharpoonup> SwapRouterInfo"

text \<open>\<open>bi.String()\<close> of a possibly nil number.\<close>

definition bi_String :: "int option \<Rightarrow> string" where
  "bi_String n = (case n of None \<Rightarrow> ''<nil>'' | Some v \<Rightarrow> big_String v)"

definition SetBridge :: "string \<Rightarrow> IBridge option \<Rightarrow> router_state \<Rightarrow> router_state" where
  "SetBridge chainID bridge r = r\<lparr>RouterBridges := (RouterBridges r)(chainID := bridge)\<rparr>"

definition GetBridgeByChainID :: "router_state \<Rightarrow> string \<Rightarrow> IBridge option" where
  "GetBridgeByChainID r chainID = RouterBridges r chainID"

definition SetRouterInfo :: "string \<Rightarrow> SwapRouterInfo \<Rightarrow> router_state \<Rightarrow> router_state" where
  "SetRouterInfo rt info r = r\<lparr>RouterInfos := (RouterInfos r)(ToLower rt \<mapsto> info)\<rparr>"

definition GetRouterInfo :: "router_state \<Rightarrow> string \<Rightarrow> SwapRouterInfo option" where
  "GetRouterInfo r rt = RouterInfos r (ToLower rt)"

definition SetMPCPublicKey :: "string \<Rightarrow> string \<Rightarrow> router_state \<Rightarrow> router_state" where
  "SetMPCPublicKey mpc pubkey r = r\<lparr>MPCPublicKeys := (MPCPublicKeys r)(ToLower mpc \<mapsto> pubkey)\<rparr>"

definition GetMPCPublicKey :: "router_state \<Rightarrow> string \<Rightarrow> string" where
  "GetMPCPublicKey r mpc = (case MPCPublicKeys r (ToLower mpc) of None \<Rightarrow> '''' | Some k \<Rightarrow> k)"

definition SetMultichainTokens :: "string \<Rightarrow> (string \<rightharpoonup> string) option \<Rightarrow> router_state \<Rightarrow> router_state" where
  "SetMultichainTokens tokenID tokensMap r =
     r\<lparr>MultichainTokens := (MultichainTokens r)(ToLower tokenID := tokensMap)\<rparr>"

definition SetMultichainToken :: "string \<Rightarrow> string \<Rightarrow> string \<Rightarrow> router_state \<Rightarrow> router_state" where
  "SetMultichainToken tokenID chainID tokenAddr r =
     r\<lparr>MultichainTokens := (MultichainTokens r)(ToLower tokenID \<mapsto>
        (case MultichainTokens r (ToLower tokenID) of
           Some m \<Rightarrow> m(chainID \<mapsto> tokenAddr)
         | None \<Rightarrow> [chainID \<mapsto> tokenAddr]))\<rparr>"

definition GetCachedMultichainTokens :: "router_state \<Rightarrow> string \<Rightarrow> (string \<rightharpoonup> string) option" where
  "GetCachedMultichainTokens r tokenID = MultichainTokens r (ToLower tokenID)"

definition GetCachedMultichainToken :: "router_state \<Rightarrow> string \<Rightarrow> string \<Rightarrow> string" where
  "GetCachedMultichainToken r tokenID chainID =
     (case GetCachedMultichainTokens r tokenID of
        None \<Rightarrow> ''''
      | Some m \<Rightarrow> (case m chainID of None \<Rightarrow> '''' | Some a \<Rightarrow> a))"

definition GetTokenRouterContract :: "router_state \<Rightarrow> string \<Rightarrow> string \<Rightarrow> (token_error, string) outcome" where
  "GetTokenRouterContract r tokenID chainID =
     (case GetBridgeByChainID r chainID of
        None \<Rightarrow> Err ErrNoBridgeForChainID
      | Some bridge \<Rightarrow>
          let multichainToken = (if IsAnyCallRouter (toks r) then '''' else GetCachedMultichainToken r tokenID chainID) in
          if \<not> IsAnyCallRouter (toks r) \<and> multichainToken = '''' then Err ErrMissTokenConfig
          else obind (GetRouterContract (base bridge) multichainToken) (\<lambda>routerContract.
                 if routerContract = '''' then Err ErrMissRouterInfo else Ret routerContract))"

definition GetTokenRouterInfo :: "router_state \<Rightarrow> string \<Rightarrow> string \<Rightarrow> (token_error, SwapRouterInfo) outcome" where
  "GetTokenRouterInfo r tokenID chainID =
     obind (GetTokenRouterContract r tokenID chainID) (\<lambda>routerContract.
       case GetRouterInfo r routerContract of None \<Rightarrow> Err ErrMissRouterInfo | Some i \<Rightarrow> Ret i)"

definition GetRouterMPC :: "router_state \<Rightarrow> string \<Rightarrow> string \<Rightarrow> (token_error, string) outcome" where
  "GetRouterMPC r tokenID chainID = obind (GetTokenRouterInfo r tokenID chainID) (\<lambda>i. Ret (RouterMPC i))"

definition IsBigValueSwap :: "router_state \<Rightarrow> SwapTxInfo \<Rightarrow> (token_error, bool) outcome" where
  "IsBigValueSwap r swapInfo =
     (let p = prm (toks r); tokenID = GetTokenID swapInfo in
      if tx_SwapType swapInfo \<noteq> ERC20SwapType then Ret False
      else if IsInBigValueWhitelist p tokenID (tx_From swapInfo) \<or> IsInBigValueWhitelist p tokenID (tx_TxTo swapInfo)
      then Ret False
      else case GetBridgeByChainID r (bi_String (tx_FromChainID swapInfo)) of
             None \<Rightarrow> Ret False
           | Some bridge \<Rightarrow>
               obind (non_nil (erc20Info swapInfo)) (\<lambda>i.
               case GetTokenConfig (base bridge) (erc20_Token i) of
                 None \<Rightarrow> Ret False
               | Some tokenCfg \<Rightarrow>
                   obind (non_nil (tx_Value swapInfo)) (\<lambda>v.
                   obind (non_nil (GetBigValueThreshold (toks r) tokenID (bi_String (tx_ToChainID swapInfo)) (Decimals tokenCfg))) (\<lambda>t.
                     Ret (v > t)))))"

definition IsBlacklistSwap :: "router_state \<Rightarrow> SwapTxInfo \<Rightarrow> bool" where
  "IsBlacklistSwap r swapInfo =
     (let p = prm (toks r) in
      IsChainIDInBlackList p (bi_String (tx_FromChainID swapInfo)) \<or>
      IsChainIDInBlackList p (bi_String (tx_ToChainID swapInfo)) \<or>
      IsTokenIDInBlackList p (GetTokenID swapInfo) \<or>
      IsAccountInBlackList p (tx_From swapInfo) \<or>
      IsAccountInBlackList p (tx_Bind swapInfo) \<or>
      IsAccountInBlackList p (tx_TxTo swapInfo))"

fun AddPausedChainIDs :: "string list \<Rightarrow> router_state \<Rightarrow> router_state" where
  "AddPausedChainIDs [] r = r"
| "AddPausedChainIDs (c # cs) r =
     AddPausedChainIDs cs (if \<not> isBigInt c \<or> c = '''' then r else r\<lparr>pausedChainIDs := insert c (pausedChainIDs r)\<rparr>)"

fun RemovePausedChainIDs :: "string list \<Rightarrow> router_state \<Rightarrow> router_state" where
  "RemovePausedChainIDs [] r = r"
| "RemovePausedChainIDs (c # cs) r =
     RemovePausedChainIDs cs (if \<not> isBigInt c \<or> c = '''' then r else r\<lparr>pausedChainIDs := pausedChainIDs r - {c}\<rparr>)"

text \<open>The members in the set's own order (\<open>keys\<close>), as numbers, then sorted.\<close>

definition GetPausedChainIDs :: "(string set \<Rightarrow> string list) \<Rightarrow> router_state \<Rightarrow> int list" where
  "GetPausedChainIDs keys r =
     sort (concat (map (\<lambda>c. case GetBigIntFromStr c of Ret n \<Rightarrow> [n] | _ \<Rightarrow> []) (keys (pausedChainIDs r))))"

definition IsChainIDPaused :: "router_state \<Rightarrow> string \<Rightarrow> bool" where
  "IsChainIDPaused r chainID \<longleftrightarrow> chainID \<in> pausedChainIDs r"

section \<open>Laws\<close>

lemma GetCachedMultichainToken_Set [router_simps]:
  "GetCachedMultichainToken (SetMultichainToken tokenID chainID addr r) tokenID' chainID' =
     (if EqualFold tokenID tokenID' \<and> chainID = chainID' then addr else GetCachedMultichainToken r tokenID' chainID')"
  by (auto simp: GetCachedMultichainToken_def GetCachedMultichainTokens_def SetMultichainToken_def EqualFold_def
      split: option.splits)

lemma GetRouterInfo_Set [router_simps]:
  "GetRouterInfo (SetRouterInfo rt info r) rt' = (if EqualFold rt rt' then Some info else GetRouterInfo r rt')"
  by (auto simp: GetRouterInfo_def SetRouterInfo_def EqualFold_def)

lemma pausedChainIDs_Add [router_simps]:
  "pausedChainIDs (AddPausedChainIDs cs r) = pausedChainIDs r \<union> {c \<in> set cs. isBigInt c \<and> c \<noteq> ''''}"
  by (induction cs arbitrary: r) auto

lemma pausedChainIDs_Remove [router_simps]:
  "pausedChainIDs (RemovePausedChainIDs cs r) = pausedChainIDs r - {c \<in> set cs. isBigInt c \<and> c \<noteq> ''''}"
  by (induction cs arbitrary: r) auto

end
