(* ===== verification/Codec.thy ===== *)
theory Codec
  imports Prelude
begin

text \<open>
  The contract that the encoders and decoders of the program share. A \<open>codec\<close> decodes what it
  encoded, for the values it can represent; a \<open>canonical_codec\<close> moreover accepts only texts
  that are, after normalisation (letter case), the encoding of the decoded value. The clients'
  facts (encodings are distinct, a value has one text) are proved here once and used through the
  interpretations on the program's own encoders.
\<close>

locale codec =
  fixes enc :: "'a \<Rightarrow> 'b"
    and dec :: "'b \<Rightarrow> ('e, 'a) outcome"
    and valid :: "'a \<Rightarrow> bool"
  assumes dec_enc: "valid x \<Longrightarrow> dec (enc x) = Ret x"
begin

lemma enc_inject: "valid x \<Longrightarrow> valid y \<Longrightarrow> enc x = enc y \<Longrightarrow> x = y"
  by (metis dec_enc outcome.inject(1))

lemma enc_inj_on: "inj_on enc {x. valid x}"
  by (auto intro!: inj_onI enc_inject)

lemma enc_decodable: "valid x \<Longrightarrow> \<exists>y. dec (enc x) = Ret y \<and> enc y = enc x"
  by (simp add: dec_enc)

end

locale canonical_codec = codec +
  fixes norm :: "'b \<Rightarrow> 'b"
  assumes dec_valid: "dec s = Ret x \<Longrightarrow> valid x"
    and enc_dec: "dec s = Ret x \<Longrightarrow> enc x = norm s"
    and dec_up_to_norm: "dec (norm s) = dec s"
begin

lemma dec_iff: "dec s = Ret x \<longleftrightarrow> valid x \<and> norm s = enc x"
  by (metis dec_enc dec_up_to_norm dec_valid enc_dec)

lemma dec_unique: "dec s = Ret x \<Longrightarrow> dec t = Ret x \<Longrightarrow> norm s = norm t"
  using enc_dec by metis

lemma dec_distinct: "dec s = Ret x \<Longrightarrow> dec t = Ret y \<Longrightarrow> norm s = norm t \<Longrightarrow> x = y"
  by (simp add: dec_iff) (metis enc_inject)

end

end
