(* ===== verification/HexUtil.thy ===== *)
theory HexUtil
  imports Common Codec
begin

text \<open>
  Package \<open>common/hexutil\<close>: the 0x-prefixed hexadecimal texts of the JSON RPC API, for byte
  strings and for quantities (\<open>uint64\<close> and 256-bit integers), with the text and JSON
  unmarshallers of \<open>Bytes\<close>, \<open>Uint64\<close>, \<open>Uint\<close> and \<open>Big\<close>. Inputs given as
  \<open>[]byte\<close> text are strings here. Words are 64-bit (16 nibbles). The lemmas show that the
  decoders invert the encoders and that every accepted quantity has one text up to letter case.
\<close>

datatype dec_error =
    ErrEmptyString | ErrSyntax | ErrMissingPrefix | ErrOddLength | ErrEmptyNumber
  | ErrLeadingZero | ErrUint64Range | ErrUintRange | ErrBig256Range

section \<open>hexutil.go\<close>

definition has0xPrefix :: "string \<Rightarrow> bool" where
  "has0xPrefix input \<longleftrightarrow>
     2 \<le> length input \<and> input ! 0 = CHR ''0'' \<and> (input ! 1 = CHR ''x'' \<or> input ! 1 = CHR ''X'')"

fun mapHexError :: "hex_error \<Rightarrow> dec_error" where
  "mapHexError (InvalidByteError _) = ErrSyntax"
| "mapHexError ErrLength = ErrOddLength"

fun mapNumError :: "num_error \<Rightarrow> dec_error" where
  "mapNumError NumRange = ErrUint64Range"
| "mapNumError NumSyntax = ErrSyntax"

definition Decode :: "string \<Rightarrow> (dec_error, bytes) outcome" where
  "Decode input =
     (if input = [] then Err ErrEmptyString
      else if \<not> has0xPrefix input then Err ErrMissingPrefix
      else case hex_DecodeString (drop 2 input) of
             (b, None) \<Rightarrow> Ret b
           | (b, Some e) \<Rightarrow> Err (mapHexError e))"

definition Encode :: "bytes \<Rightarrow> string" where
  "Encode b = ''0x'' @ hex_EncodeToString b"

definition must :: "('e, 'a) outcome \<Rightarrow> ('e, 'a) outcome" where
  "must r = (case r of Ret v \<Rightarrow> Ret v | _ \<Rightarrow> Panic)"

definition MustDecode :: "string \<Rightarrow> (dec_error, bytes) outcome" where
  "MustDecode input = must (Decode input)"

definition checkNumber :: "string \<Rightarrow> (dec_error, string) outcome" where
  "checkNumber input =
     (if input = [] then Err ErrEmptyString
      else if \<not> has0xPrefix input then Err ErrMissingPrefix
      else let input = drop 2 input in
        if input = [] then Err ErrEmptyNumber
        else if 1 < length input \<and> input ! 0 = CHR ''0'' then Err ErrLeadingZero
        else Ret input)"

definition DecodeUint64 :: "string \<Rightarrow> (dec_error, nat) outcome" where
  "DecodeUint64 input =
     obind (checkNumber input) (\<lambda>raw.
       case ParseUint raw 16 of Inr v \<Rightarrow> Ret v | Inl e \<Rightarrow> Err (mapNumError e))"

definition MustDecodeUint64 :: "string \<Rightarrow> (dec_error, nat) outcome" where
  "MustDecodeUint64 input = must (DecodeUint64 input)"

definition EncodeUint64 :: "nat \<Rightarrow> string" where
  "EncodeUint64 i = ''0x'' @ FormatUint i 16"

definition badNibble :: nat where
  "badNibble = W64 - 1"

definition decodeNibble :: "char \<Rightarrow> nat" where
  "decodeNibble c =
     (if 48 \<le> cv c \<and> cv c \<le> 57 then cv c - 48
      else if 65 \<le> cv c \<and> cv c \<le> 70 then cv c - 65 + 10
      else if 97 \<le> cv c \<and> cv c \<le> 102 then cv c - 97 + 10
      else badNibble)"

text \<open>The inner loop over the nibbles of one word, and the loop over the words.\<close>

fun nibble_loop :: "nat \<Rightarrow> string \<Rightarrow> (dec_error, nat) outcome" where
  "nibble_loop w [] = Ret w"
| "nibble_loop w (c # cs) =
     (let nib = decodeNibble c in
      if nib = badNibble then Err ErrSyntax
      else nibble_loop (u64_add (u64_mul w 16) nib) cs)"

fun word_loop :: "nat \<Rightarrow> string \<Rightarrow> nat \<Rightarrow> (dec_error, nat list) outcome" where
  "word_loop 0 raw end = Ret []"
| "word_loop (Suc n) raw end =
     (let start = end - 16 in
      obind (nibble_loop 0 (take (end - start) (drop start raw))) (\<lambda>w.
        obind (word_loop n raw start) (\<lambda>ws. Ret (w # ws))))"

definition SetBits :: "nat list \<Rightarrow> int" where
  "SetBits ws = int (words_val ws)"

definition DecodeBig :: "string \<Rightarrow> (dec_error, int) outcome" where
  "DecodeBig input =
     obind (checkNumber input) (\<lambda>raw.
       if 64 < length raw then Err ErrBig256Range
       else obind (word_loop (length raw div 16 + 1) raw (length raw)) (\<lambda>ws. Ret (SetBits ws)))"

definition MustDecodeBig :: "string \<Rightarrow> (dec_error, int) outcome" where
  "MustDecodeBig input = must (DecodeBig input)"

text \<open>\<open>fmt\<close> writes the sign of a negative number before the 0x.\<close>

definition EncodeBig :: "int \<Rightarrow> string" where
  "EncodeBig bigint =
     (if big_BitLen bigint = 0 then ''0x0''
      else (if bigint < 0 then ''-'' else []) @ ''0x'' @ FormatUint (nat \<bar>bigint\<bar>) 16)"

section \<open>json.go\<close>

text \<open>
  \<open>TypeError\<close> is \<open>json.UnmarshalTypeError\<close> with its value text; \<open>LengthError\<close> the
  formatted length mismatch of the fixed-size unmarshallers.
\<close>

datatype json_error =
    DecErr dec_error
  | TypeErrorDec dec_error string
  | TypeErrorNonString string
  | LengthError nat nat string
  | HexErr hex_error

definition isString :: "string \<Rightarrow> bool" where
  "isString input \<longleftrightarrow> 2 \<le> length input \<and> input ! 0 = CHR 0x22 \<and> last input = CHR 0x22"

definition unquote :: "string \<Rightarrow> string" where
  "unquote input = take (length input - 2) (drop 1 input)"

definition checkText :: "string \<Rightarrow> bool \<Rightarrow> (json_error, string) outcome" where
  "checkText input wantPrefix =
     (if input = [] then Ret []
      else if \<not> has0xPrefix input \<and> wantPrefix then Err (DecErr ErrMissingPrefix)
      else let input = (if has0xPrefix input then drop 2 input else input)
           in if length input mod 2 \<noteq> 0 then Err (DecErr ErrOddLength) else Ret input)"

definition checkNumberText :: "string \<Rightarrow> (json_error, string) outcome" where
  "checkNumberText input =
     (if input = [] then Ret []
      else if \<not> has0xPrefix input then Err (DecErr ErrMissingPrefix)
      else let input = drop 2 input in
        if input = [] then Err (DecErr ErrEmptyNumber)
        else if 1 < length input \<and> input ! 0 = CHR ''0'' then Err (DecErr ErrLeadingZero)
        else Ret input)"

fun wrapTypeError :: "(json_error, 'a) outcome \<Rightarrow> string \<Rightarrow> (json_error, 'a) outcome" where
  "wrapTypeError (Err (DecErr e)) typ = Err (TypeErrorDec e typ)"
| "wrapTypeError r typ = r"

definition UnmarshalJSON :: "string \<Rightarrow> (string \<Rightarrow> (json_error, 'a) outcome) \<Rightarrow> string \<Rightarrow> (json_error, 'a) outcome" where
  "UnmarshalJSON typ unmarshalText input =
     (if \<not> isString input then Err (TypeErrorNonString typ)
      else wrapTypeError (unmarshalText (unquote input)) typ)"

definition Bytes_MarshalText :: "bytes \<Rightarrow> string" where
  "Bytes_MarshalText b = ''0x'' @ hex_EncodeToString b"

definition Bytes_UnmarshalText :: "string \<Rightarrow> (json_error, bytes) outcome" where
  "Bytes_UnmarshalText input =
     obind (checkText input True) (\<lambda>raw.
       case hex_DecodeString raw of (b, None) \<Rightarrow> Ret b | (b, Some e) \<Rightarrow> Err (DecErr (mapHexError e)))"

definition Bytes_UnmarshalJSON :: "string \<Rightarrow> (json_error, bytes) outcome" where
  "Bytes_UnmarshalJSON = UnmarshalJSON ''hexutil.Bytes'' Bytes_UnmarshalText"

text \<open>The result is the new content of \<open>out\<close>, whose length \<open>n\<close> is given.\<close>

definition UnmarshalFixed :: "bool \<Rightarrow> string \<Rightarrow> string \<Rightarrow> nat \<Rightarrow> (json_error, bytes) outcome" where
  "UnmarshalFixed wantPrefix typname input n =
     obind (checkText input wantPrefix) (\<lambda>raw.
       if length raw div 2 \<noteq> n then Err (LengthError (length raw) (n * 2) typname)
       else if \<not> list_all (\<lambda>c. decodeNibble c \<noteq> badNibble) raw then Err (DecErr ErrSyntax)
       else case hex_DecodeString raw of (b, None) \<Rightarrow> Ret b | (b, Some e) \<Rightarrow> Err (HexErr e))"

definition UnmarshalFixedText :: "string \<Rightarrow> string \<Rightarrow> nat \<Rightarrow> (json_error, bytes) outcome" where
  "UnmarshalFixedText = UnmarshalFixed True"

definition UnmarshalFixedUnprefixedText :: "string \<Rightarrow> string \<Rightarrow> nat \<Rightarrow> (json_error, bytes) outcome" where
  "UnmarshalFixedUnprefixedText = UnmarshalFixed False"

definition UnmarshalFixedJSON :: "string \<Rightarrow> string \<Rightarrow> nat \<Rightarrow> (json_error, bytes) outcome" where
  "UnmarshalFixedJSON typ input n = UnmarshalJSON typ (\<lambda>t. UnmarshalFixedText typ t n) input"

definition lift_dec :: "(dec_error, 'a) outcome \<Rightarrow> (json_error, 'a) outcome" where
  "lift_dec r = (case r of Ret v \<Rightarrow> Ret v | Err e \<Rightarrow> Err (DecErr e) | Panic \<Rightarrow> Panic)"

definition Big_MarshalText :: "int \<Rightarrow> string" where
  "Big_MarshalText b = EncodeBig b"

definition Big_UnmarshalText :: "string \<Rightarrow> (json_error, int) outcome" where
  "Big_UnmarshalText input =
     obind (checkNumberText input) (\<lambda>raw.
       if 64 < length raw then Err (DecErr ErrBig256Range)
       else lift_dec (obind (word_loop (length raw div 16 + 1) raw (length raw)) (\<lambda>ws. Ret (SetBits ws))))"

definition Big_UnmarshalJSON :: "string \<Rightarrow> (json_error, int) outcome" where
  "Big_UnmarshalJSON = UnmarshalJSON ''*hexutil.Big'' Big_UnmarshalText"

definition Uint64_MarshalText :: "nat \<Rightarrow> string" where
  "Uint64_MarshalText b = ''0x'' @ FormatUint b 16"

definition Uint64_UnmarshalText :: "string \<Rightarrow> (json_error, nat) outcome" where
  "Uint64_UnmarshalText input =
     obind (checkNumberText input) (\<lambda>raw.
       if 16 < length raw then Err (DecErr ErrUint64Range) else lift_dec (nibble_loop 0 raw))"

definition Uint64_UnmarshalJSON :: "string \<Rightarrow> (json_error, nat) outcome" where
  "Uint64_UnmarshalJSON = UnmarshalJSON ''hexutil.Uint64'' Uint64_UnmarshalText"

text \<open>A \<open>uint\<close> is 64 bits wide: \<open>^uint(0)\<close> is the largest \<open>uint64\<close>.\<close>

definition Uint_UnmarshalText :: "string \<Rightarrow> (json_error, nat) outcome" where
  "Uint_UnmarshalText input =
     (case Uint64_UnmarshalText input of
        Ret u64 \<Rightarrow> if W64 - 1 < u64 then Err (DecErr ErrUintRange) else Ret u64
      | Err (DecErr ErrUint64Range) \<Rightarrow> Err (DecErr ErrUintRange)
      | Err e \<Rightarrow> Err e
      | Panic \<Rightarrow> Panic)"

definition Uint_UnmarshalJSON :: "string \<Rightarrow> (json_error, nat) outcome" where
  "Uint_UnmarshalJSON = UnmarshalJSON ''hexutil.Uint'' Uint_UnmarshalText"

section \<open>Hexadecimal digits\<close>

text \<open>The nibbles of a text, when every character is a hexadecimal digit.\<close>

definition nibbles :: "string \<Rightarrow> nat list option" where
  "nibbles s = those (map fromHexChar s)"

lemma nibbles_Nil [simp]: "nibbles [] = Some []"
  by (simp add: nibbles_def)

lemma nibbles_Cons [simp]:
  "nibbles (c # s) = (case fromHexChar c of None \<Rightarrow> None | Some d \<Rightarrow> map_option ((#) d) (nibbles s))"
  by (simp add: nibbles_def split: option.splits)

lemma nibbles_append:
  "nibbles (s @ t) =
     (case nibbles s of None \<Rightarrow> None | Some ds \<Rightarrow> map_option ((@) ds) (nibbles t))"
  by (induction s; cases "nibbles t") (auto split: option.splits)

lemma nibbles_length: "nibbles s = Some ds \<Longrightarrow> length ds = length s"
  by (induction s arbitrary: ds) (auto split: option.splits)

lemma nibbles_less: "nibbles s = Some ds \<Longrightarrow> d \<in> set ds \<Longrightarrow> d < 16"
  by (induction s arbitrary: ds) (auto split: option.splits dest: fromHexChar_less)

lemma nibbles_digit_chars: "(\<And>d. d \<in> set ds \<Longrightarrow> d < 16) \<Longrightarrow> nibbles (map digit_char ds) = Some ds"
  by (induction ds) (simp_all add: fromHexChar_digit_char)

lemma digit_char_fromHexChar: "fromHexChar c = Some a \<Longrightarrow> digit_char a = lower c"
  by (auto simp: fromHexChar_def digit_char_def lower_def split: if_splits)

lemma digit_chars_nibbles: "nibbles s = Some ds \<Longrightarrow> map digit_char ds = ToLower s"
  by (induction s arbitrary: ds)
     (auto simp: ToLower_def digit_char_fromHexChar split: option.splits)

lemma fromHexChar_zero: "fromHexChar c = Some 0 \<longleftrightarrow> c = CHR ''0''"
proof
  assume "fromHexChar c = Some 0"
  then have "cv c = 48" by (auto simp: fromHexChar_def split: if_splits)
  then have "cv c = cv (CHR ''0'')" by (simp add: cv_def)
  then show "c = CHR ''0''" by (simp only: cv_def of_char_eq_iff)
qed (simp add: fromHexChar_def cv_def)

lemma digit_val_16: "(case digit_val c of None \<Rightarrow> None | Some d \<Rightarrow> if 16 \<le> d then None else Some d) = fromHexChar c"
  by (auto simp: digit_val_def fromHexChar_def)

lemma decodeNibble_eq: "decodeNibble c = (case fromHexChar c of None \<Rightarrow> badNibble | Some d \<Rightarrow> d)"
  by (auto simp: decodeNibble_def fromHexChar_def)

lemma decodeNibble_bad: "decodeNibble c = badNibble \<longleftrightarrow> fromHexChar c = None"
  by (auto simp: decodeNibble_eq badNibble_def W64_def split: option.splits dest: fromHexChar_less)

lemma hex_encode_decode: "hex_DecodeString s = (b, None) \<Longrightarrow> hex_EncodeToString b = ToLower s"
proof (induction s arbitrary: b rule: hex_DecodeString.induct)
  case (3 c d cs)
  then obtain x y r where xy: "fromHexChar c = Some x" "fromHexChar d = Some y"
    and r: "hex_DecodeString cs = (r, None)" and b: "b = of_nat (x * 16 + y) # r"
    by (auto split: option.splits prod.splits)
  have "x < 16" "y < 16" using xy by (auto dest: fromHexChar_less)
  then have "(x * 16 + y) mod 256 = x * 16 + y" by simp
  with 3 xy r b \<open>y < 16\<close> show ?case
    by (simp add: ToLower_def digit_char_fromHexChar del: of_nat_add of_nat_mult)
qed (auto simp: ToLower_def)

lemma cv_lower: "cv (lower c) = (if 65 \<le> cv c \<and> cv c \<le> 90 then cv c + 32 else cv c)"
  by (simp add: lower_def cv_char_of)

lemma fromHexChar_lower [simp]: "fromHexChar (lower c) = fromHexChar c"
  by (auto simp: fromHexChar_def cv_lower)

lemma nibbles_ToLower [simp]: "nibbles (ToLower s) = nibbles s"
  by (simp add: nibbles_def ToLower_def comp_def)

lemma hex_decode_ToLower:
  "hex_DecodeString (ToLower s) =
     (fst (hex_DecodeString s), map_option (\<lambda>e. case e of InvalidByteError c \<Rightarrow> InvalidByteError (lower c) | ErrLength \<Rightarrow> ErrLength)
        (snd (hex_DecodeString s)))"
  by (induction s rule: hex_DecodeString.induct) (auto simp: ToLower_def split: option.splits prod.splits)

lemma lower_eq_char: "cv d < 65 \<or> 122 < cv d \<Longrightarrow> lower c = d \<longleftrightarrow> c = d"
proof
  assume d: "cv d < 65 \<or> 122 < cv d" and e: "lower c = d"
  then have "cv (lower c) = cv d" by simp
  with d have "\<not> (65 \<le> cv c \<and> cv c \<le> 90)" by (auto simp: cv_lower split: if_splits)
  with e show "c = d" by (simp add: lower_def)
qed (auto simp: lower_def)

lemma ParseUint_loop_16:
  "n < W64 \<Longrightarrow> ParseUint_loop 16 n s = Inr v \<longleftrightarrow>
     (\<exists>ds. nibbles s = Some ds \<and> v = foldl (\<lambda>a d. a * 16 + d) n ds \<and> v < W64)"
proof (induction s arbitrary: n)
  case Nil
  then show ?case by auto
next
  case (Cons c s)
  show ?case
  proof (cases "fromHexChar c")
    case None
    then have "digit_val c = None \<or> (\<exists>d. digit_val c = Some d \<and> 16 \<le> d)"
      using digit_val_16 [of c] by (auto split: option.splits if_splits)
    with None show ?thesis by auto
  next
    case (Some d)
    then have d: "digit_val c = Some d" "d < 16"
      using digit_val_16 [of c] by (auto split: option.splits if_splits)
    show ?thesis
    proof (cases "n * 16 + d < W64")
      case True
      then have "ParseUint_loop 16 n (c # s) = ParseUint_loop 16 (n * 16 + d) s"
        using d by simp
      moreover have "(\<exists>ds. nibbles (c # s) = Some ds \<and> v = foldl (\<lambda>a d. a * 16 + d) n ds \<and> v < W64) \<longleftrightarrow>
          (\<exists>ds. nibbles s = Some ds \<and> v = foldl (\<lambda>a d. a * 16 + d) (n * 16 + d) ds \<and> v < W64)"
        using Some by (cases "nibbles s") simp_all
      ultimately show ?thesis by (simp only: Cons.IH [OF True])
    next
      case False
      have "W64 \<le> foldl (\<lambda>a d. a * 16 + d) (n * 16 + d) ds" for ds
        using False foldl_base_mono [of 16 "n * 16 + d" ds] by linarith
      then have "\<not> foldl (\<lambda>a d. a * 16 + d) (n * 16 + d) ds < W64" for ds
        by (simp add: not_less)
      moreover have "ParseUint_loop 16 n (c # s) = Inl NumRange" using False d by simp
      ultimately show ?thesis using Some by (cases "nibbles s") auto
    qed
  qed
qed

lemma ParseUint_16:
  "ParseUint s 16 = Inr v \<longleftrightarrow>
     s \<noteq> [] \<and> (\<exists>ds. nibbles s = Some ds \<and> v = undigits 16 ds \<and> v < W64)"
  using ParseUint_loop_16 [of 0 s v] by (auto simp: ParseUint_def undigits_def)

lemma FormatUint_nibbles:
  assumes "nibbles s = Some ds" and "s \<noteq> []" and "\<not> (1 < length s \<and> s ! 0 = CHR ''0'')"
  shows "FormatUint (undigits 16 ds) 16 = ToLower s"
proof (cases "hd ds = 0")
  case True
  obtain c t where s: "s = c # t" using assms(2) by (cases s) auto
  with True assms(1) have "c = CHR ''0''"
    by (auto simp: fromHexChar_zero [symmetric] split: option.splits)
  with s assms have "s = ''0''" by simp
  with assms(1) have "ds = [0]" by (auto simp: fromHexChar_zero [THEN iffD2])
  with \<open>s = ''0''\<close> show ?thesis by (simp add: FormatUint_def ToLower_def lower_def cv_def)
next
  case False
  have ne: "ds \<noteq> []" using assms(1,2) nibbles_length by fastforce
  have "digits 16 (undigits 16 ds) = ds"
    using False nibbles_less [OF assms(1)] by (intro digits_undigits) simp_all
  moreover from this ne have "undigits 16 ds \<noteq> 0" by (metis digits_zero)
  ultimately show ?thesis using assms(1) by (simp add: FormatUint_def digit_chars_nibbles)
qed

lemma nibbles_FormatUint:
  "nibbles (FormatUint n 16) = Some (if n = 0 then [0] else digits 16 n)"
  using nibbles_digit_chars [of "digits 16 n"] digits_less [of _ 16 n]
  by (auto simp: FormatUint_def fromHexChar_zero [THEN iffD2])

lemma FormatUint_no_leading_zero:
  "FormatUint n 16 \<noteq> [] \<and> \<not> (1 < length (FormatUint n 16) \<and> FormatUint n 16 ! 0 = CHR ''0'')"
proof (cases "n = 0")
  case False
  then obtain d ds where ds: "digits 16 n = d # ds" by (cases "digits 16 n") auto
  then have "d \<noteq> 0" "d < 16" using hd_digits [of 16 n] digits_less [of d 16 n] False by auto
  with ds False show ?thesis by (simp add: FormatUint_def digit_char_eq_zero)
qed (simp add: FormatUint_def)

section \<open>Byte strings\<close>

lemma ToLower_append [simp]: "ToLower (s @ t) = ToLower s @ ToLower t"
  by (simp add: ToLower_def)

lemma has0xPrefix_0x [simp]: "has0xPrefix (CHR ''0'' # CHR ''x'' # s)"
  by (simp add: has0xPrefix_def)

lemma has0xPrefix_ToLower: "has0xPrefix s \<Longrightarrow> ToLower s = ''0x'' @ ToLower (drop 2 s)"
proof -
  assume "has0xPrefix s"
  then obtain t where "s = CHR ''0'' # CHR ''x'' # t \<or> s = CHR ''0'' # CHR ''X'' # t"
    by (cases s; cases "tl s") (auto simp: has0xPrefix_def)
  moreover have "lower (CHR ''0'') = CHR ''0''" "lower (CHR ''x'') = CHR ''x''" "lower (CHR ''X'') = CHR ''x''"
    by code_simp+
  ultimately show ?thesis by (auto simp: ToLower_def)
qed

lemma lower_x: "lower c = CHR ''x'' \<longleftrightarrow> c = CHR ''x'' \<or> c = CHR ''X''"
proof
  assume "lower c = CHR ''x''"
  then have "cv (lower c) = 120" by (simp add: cv_def)
  moreover have "cv (CHR ''x'') = 120" "cv (CHR ''X'') = 88" by (simp_all add: cv_def)
  ultimately have "cv c = cv (CHR ''x'') \<or> cv c = cv (CHR ''X'')" by (auto simp: cv_lower split: if_splits)
  then show "c = CHR ''x'' \<or> c = CHR ''X''" by (simp only: cv_def of_char_eq_iff)
next
  have "lower (CHR ''x'') = CHR ''x''" "lower (CHR ''X'') = CHR ''x''" by code_simp+
  then show "c = CHR ''x'' \<or> c = CHR ''X'' \<Longrightarrow> lower c = CHR ''x''" by auto
qed

lemma lower_eq_0: "lower c = CHR ''0'' \<longleftrightarrow> c = CHR ''0''"
  by (rule lower_eq_char) (simp add: cv_def)

lemma has0xPrefix_ToLower_iff [simp]: "has0xPrefix (ToLower s) \<longleftrightarrow> has0xPrefix s"
proof -
  have "s ! 0 = CHR ''0'' \<longleftrightarrow> lower (s ! 0) = CHR ''0''" by (simp only: lower_eq_0)
  moreover have "lower (s ! 1) = CHR ''X'' \<longleftrightarrow> False"
  proof -
    have "cv (CHR ''X'') = 88" by (simp add: cv_def)
    then have "cv (lower (s ! 1)) \<noteq> cv (CHR ''X'')" by (auto simp: cv_lower)
    then show ?thesis by auto
  qed
  moreover have "2 \<le> length s \<Longrightarrow> map lower s ! 0 = lower (s ! 0)" by (cases s) auto
  ultimately show ?thesis by (auto simp: has0xPrefix_def ToLower_def lower_x)
qed

lemma drop_ToLower: "drop n (ToLower s) = ToLower (drop n s)"
  by (simp add: ToLower_def drop_map)

lemma ToLower_eq_Nil [simp]: "ToLower s = [] \<longleftrightarrow> s = []"
  by (simp add: ToLower_def)

lemma checkNumber_ToLower:
  "checkNumber (ToLower s) = (case checkNumber s of Ret raw \<Rightarrow> Ret (ToLower raw) | r \<Rightarrow> r)"
proof -
  have "ToLower t ! 0 = CHR ''0'' \<longleftrightarrow> t ! 0 = CHR ''0''" if "1 < length t" for t
  proof -
    have "ToLower t ! 0 = lower (t ! 0)" using that by (cases t) (auto simp: ToLower_def)
    then show ?thesis by (simp only: lower_eq_0)
  qed
  then show ?thesis by (auto simp: checkNumber_def Let_def drop_ToLower)
qed

lemma Decode_Encode: "Decode (Encode b) = Ret b"
  by (simp add: Decode_def Encode_def golib_simps)

lemma Encode_Decode: "Decode s = Ret b \<Longrightarrow> Encode b = ToLower s"
  by (auto simp: Decode_def Encode_def has0xPrefix_ToLower hex_encode_decode
           split: if_splits prod.splits option.splits)

lemma Decode_ToLower: "Decode (ToLower s) = Decode s"
  by (auto simp: Decode_def drop_ToLower hex_decode_ToLower split: prod.splits option.splits hex_error.splits)

interpretation hex_bytes: canonical_codec Encode Decode "\<lambda>_. True" ToLower
  by unfold_locales (simp_all add: Decode_Encode Encode_Decode Decode_ToLower)

lemma Bytes_UnmarshalText_Decode:
  "s \<noteq> [] \<Longrightarrow> Bytes_UnmarshalText s = Ret b \<longleftrightarrow> Decode s = Ret b"
  by (auto simp: Bytes_UnmarshalText_def Decode_def checkText_def Let_def
           split: if_splits prod.splits option.splits dest!: hex_decode_ok_even)

interpretation hex_Bytes_text: codec Bytes_MarshalText Bytes_UnmarshalText "\<lambda>_. True"
proof
  fix b
  show "Bytes_UnmarshalText (Bytes_MarshalText b) = Ret b"
    using Bytes_UnmarshalText_Decode [of "Encode b" b] Decode_Encode [of b]
    by (simp add: Bytes_MarshalText_def Encode_def)
qed

section \<open>Quantities\<close>

lemma checkNumber_Ret:
  "checkNumber s = Ret raw \<longleftrightarrow>
     has0xPrefix s \<and> raw = drop 2 s \<and> raw \<noteq> [] \<and> \<not> (1 < length raw \<and> raw ! 0 = CHR ''0'')"
  by (auto simp: checkNumber_def Let_def has0xPrefix_def)

lemma checkNumber_FormatUint: "checkNumber (''0x'' @ FormatUint n 16) = Ret (FormatUint n 16)"
  using FormatUint_no_leading_zero [of n] by (auto simp: checkNumber_Ret)

lemma checkNumberText_checkNumber:
  "s \<noteq> [] \<Longrightarrow> checkNumberText s = lift_dec (checkNumber s)"
  by (auto simp: checkNumberText_def checkNumber_def lift_dec_def Let_def)

lemma DecodeUint64_EncodeUint64: "n < W64 \<Longrightarrow> DecodeUint64 (EncodeUint64 n) = Ret n"
  using checkNumber_FormatUint [of n]
  by (simp add: DecodeUint64_def EncodeUint64_def ParseUint_FormatUint)

lemma DecodeUint64_iff:
  "DecodeUint64 s = Ret n \<longleftrightarrow>
     (\<exists>raw ds. checkNumber s = Ret raw \<and> nibbles raw = Some ds \<and> n = undigits 16 ds \<and> n < W64)"
proof -
  have "DecodeUint64 s = Ret n \<longleftrightarrow> (\<exists>raw. checkNumber s = Ret raw \<and> ParseUint raw 16 = Inr n)"
    unfolding DecodeUint64_def obind_Ret_iff
    by (intro ex_cong1 conj_cong refl) (auto split: sum.splits)
  then show ?thesis by (auto simp: ParseUint_16 checkNumber_Ret)
qed

lemma encode_checkNumber:
  assumes "checkNumber s = Ret raw" and "nibbles raw = Some ds"
  shows "''0x'' @ FormatUint (undigits 16 ds) 16 = ToLower s"
  using assms FormatUint_nibbles [of raw ds] by (auto simp: checkNumber_Ret has0xPrefix_ToLower)

lemma EncodeUint64_DecodeUint64: "DecodeUint64 s = Ret n \<Longrightarrow> n < W64 \<and> EncodeUint64 n = ToLower s"
  using encode_checkNumber [of s] by (fastforce simp: DecodeUint64_iff EncodeUint64_def)

lemma ParseUint_loop_ToLower: "ParseUint_loop 16 n (ToLower s) = ParseUint_loop 16 n s"
proof (induction s arbitrary: n)
  case Nil
  show ?case by (simp add: ToLower_def)
next
  case (Cons c s)
  have "digit_val (lower c) = digit_val c" by (auto simp: digit_val_def cv_lower)
  with Cons show ?case by (auto simp: ToLower_def split: option.splits)
qed

lemma DecodeUint64_ToLower: "DecodeUint64 (ToLower s) = DecodeUint64 s"
  by (auto simp: DecodeUint64_def checkNumber_ToLower ParseUint_def ParseUint_loop_ToLower split: outcome.splits)

interpretation hex_u64: canonical_codec EncodeUint64 DecodeUint64 "\<lambda>n. n < W64" ToLower
  by unfold_locales (simp_all add: DecodeUint64_EncodeUint64 EncodeUint64_DecodeUint64 DecodeUint64_ToLower)

lemma nibble_loop_eq:
  assumes "w * 16 ^ length s + 16 ^ length s \<le> W64"
  shows "nibble_loop w s =
    (case nibbles s of None \<Rightarrow> Err ErrSyntax | Some ds \<Rightarrow> Ret (w * 16 ^ length s + undigits 16 ds))"
  using assms
proof (induction s arbitrary: w)
  case Nil
  show ?case by simp
next
  case (Cons c s)
  show ?case
  proof (cases "fromHexChar c")
    case None
    then show ?thesis by (simp add: decodeNibble_bad)
  next
    case (Some d)
    then have d: "decodeNibble c = d" "d \<noteq> badNibble" "d < 16"
      using decodeNibble_bad [of c] by (auto simp: decodeNibble_eq dest: fromHexChar_less)
    have "(w * 16 + d + 1) * 16 ^ length s \<le> (w * 16 + 16) * 16 ^ length s"
      using d by (intro mult_right_mono) simp_all
    also have "\<dots> \<le> W64" using Cons.prems by (simp add: algebra_simps)
    finally have W: "(w * 16 + d + 1) * 16 ^ length s \<le> W64" .
    then have le: "(w * 16 + d) * 16 ^ length s + 16 ^ length s \<le> W64" by (simp add: algebra_simps)
    have "(w * 16 + d + 1) * 1 \<le> (w * 16 + d + 1) * 16 ^ length s" by (intro mult_le_mono2) simp
    from order_trans [OF this W] have "w * 16 + d < W64" by simp
    then have "nibble_loop w (c # s) = nibble_loop (w * 16 + d) s" using d by (simp add: Let_def)
    with Cons.IH [OF le] Some d nibbles_length [of s] show ?thesis
      by (auto simp: undigits_Cons algebra_simps split: option.splits)
  qed
qed

lemma nibble_loop_word: "length s \<le> 16 \<Longrightarrow>
  nibble_loop 0 s = (case nibbles s of None \<Rightarrow> Err ErrSyntax | Some ds \<Rightarrow> Ret (undigits 16 ds))"
  using nibble_loop_eq [of 0 s] power_increasing [of "length s" 16 "16::nat"]
  by (auto simp: W64_def split: option.splits)

lemma word_loop_eq:
  assumes "e \<le> length raw" and "e \<le> 16 * n"
  shows "case nibbles (take e raw) of
      None \<Rightarrow> word_loop n raw e = Err ErrSyntax
    | Some ds \<Rightarrow> \<exists>ws. word_loop n raw e = Ret ws \<and> words_val ws = undigits 16 ds"
  using assms
proof (induction n arbitrary: e)
  case 0
  then show ?case by simp
next
  case (Suc n)
  define st where "st = e - 16"
  define lo where "lo = take (e - st) (drop st raw)"
  have st: "st \<le> length raw" "st \<le> 16 * n" "e - st \<le> 16" "st \<le> e"
    using Suc.prems by (auto simp: st_def)
  have len: "length lo = e - st" using Suc.prems(1) by (simp add: lo_def)
  then have nl: "nibble_loop 0 lo = (case nibbles lo of None \<Rightarrow> Err ErrSyntax | Some ds \<Rightarrow> Ret (undigits 16 ds))"
    using st(3) by (intro nibble_loop_word) simp
  have split: "take e raw = take st raw @ lo"
    using st(4) by (metis lo_def le_add_diff_inverse take_add)
  have wl: "word_loop (Suc n) raw e = obind (nibble_loop 0 lo) (\<lambda>w. obind (word_loop n raw st) (\<lambda>ws. Ret (w # ws)))"
    by (simp add: Let_def st_def lo_def)
  have IH: "case nibbles (take st raw) of
      None \<Rightarrow> word_loop n raw st = Err ErrSyntax
    | Some ds \<Rightarrow> \<exists>ws. word_loop n raw st = Ret ws \<and> words_val ws = undigits 16 ds"
    using Suc.IH st by blast
  show ?case
  proof (cases "nibbles lo")
    case None
    then show ?thesis using nl
      by (auto simp: split nibbles_append wl simp del: word_loop.simps split: option.splits)
  next
    case (Some ds)
    have "undigits 16 (hs @ ds) = W64 * undigits 16 hs + undigits 16 ds" if "nibbles (take st raw) = Some hs" for hs
    proof (cases "16 \<le> e")
      case True
      then have "length ds = 16" using nibbles_length [OF Some] len by (simp add: st_def)
      then show ?thesis by (simp add: undigits_append W64_def)
    next
      case False
      with that show ?thesis by (simp add: st_def)
    qed
    with Some IH nl show ?thesis
      by (auto simp: split nibbles_append wl simp del: word_loop.simps split: option.splits)
  qed
qed

lemma word_loop_Ret:
  "(obind (word_loop (length raw div 16 + 1) raw (length raw)) (\<lambda>ws. Ret (SetBits ws)) = Ret x) \<longleftrightarrow>
     (\<exists>ds. nibbles raw = Some ds \<and> x = int (undigits 16 ds))"
proof -
  have "length raw \<le> 16 * (length raw div 16 + 1)"
    by presburger
  from word_loop_eq [OF order_refl this] show ?thesis
    by (auto simp: SetBits_def split: option.splits)
qed

lemma DecodeBig_iff:
  "DecodeBig s = Ret x \<longleftrightarrow>
     (\<exists>raw ds. checkNumber s = Ret raw \<and> length raw \<le> 64 \<and> nibbles raw = Some ds \<and> x = int (undigits 16 ds))"
proof -
  have "DecodeBig s = Ret x \<longleftrightarrow> (\<exists>raw. checkNumber s = Ret raw \<and> length raw \<le> 64 \<and>
      obind (word_loop (length raw div 16 + 1) raw (length raw)) (\<lambda>ws. Ret (SetBits ws)) = Ret x)"
    unfolding DecodeBig_def obind_Ret_iff [of "checkNumber s"]
    by (intro ex_cong1 conj_cong refl) auto
  then show ?thesis by (simp only: word_loop_Ret) blast
qed

lemma EncodeBig_nonneg: "0 \<le> x \<Longrightarrow> EncodeBig x = ''0x'' @ FormatUint (nat x) 16"
  by (auto simp: EncodeBig_def big_BitLen_def FormatUint_def)

lemma DecodeBig_EncodeBig:
  assumes "0 \<le> x" and "x < 2 ^ 256"
  shows "DecodeBig (EncodeBig x) = Ret x"
proof -
  let ?n = "nat x"
  have "length (digits 16 ?n) \<le> 64"
    using assms by (intro length_digits_le) (auto simp: nat_less_iff)
  then have "length (FormatUint ?n 16) \<le> 64" by (simp add: FormatUint_def)
  moreover have "x = int (undigits 16 (if ?n = 0 then [0] else digits 16 ?n))"
    using assms by (auto simp: undigits_digits)
  ultimately show ?thesis
    using assms checkNumber_FormatUint [of ?n] nibbles_FormatUint [of ?n]
    by (auto simp: DecodeBig_iff EncodeBig_nonneg)
qed

lemma EncodeBig_DecodeBig:
  assumes "DecodeBig s = Ret x"
  shows "0 \<le> x \<and> x < 2 ^ 256 \<and> EncodeBig x = ToLower s"
proof -
  from assms obtain raw ds where raw: "checkNumber s = Ret raw" "length raw \<le> 64"
    and ds: "nibbles raw = Some ds" and x: "x = int (undigits 16 ds)"
    by (auto simp: DecodeBig_iff)
  have "undigits 16 ds < 16 ^ length ds" using nibbles_less [OF ds] by (intro undigits_less) auto
  also have "\<dots> \<le> 16 ^ 64" using raw(2) nibbles_length [OF ds] by (intro power_increasing) auto
  finally have "undigits 16 ds < 2 ^ 256" by simp
  with x have "x < 2 ^ 256" by (metis of_nat_less_iff of_nat_numeral of_nat_power)
  with x encode_checkNumber [OF raw(1) ds] show ?thesis by (simp add: EncodeBig_nonneg)
qed

lemma nibble_loop_ToLower: "nibble_loop w (ToLower s) = nibble_loop w s"
  by (induction s arbitrary: w) (simp_all add: ToLower_def decodeNibble_eq Let_def)

lemma word_loop_ToLower: "word_loop n (ToLower raw) e = word_loop n raw e"
proof (induction n arbitrary: e)
  case (Suc n)
  have "take k (drop j (ToLower raw)) = ToLower (take k (drop j raw))" for k j
    by (simp add: ToLower_def drop_map take_map)
  with Suc show ?case by (simp add: nibble_loop_ToLower Let_def)
qed simp

lemma DecodeBig_ToLower: "DecodeBig (ToLower s) = DecodeBig s"
  by (auto simp: DecodeBig_def checkNumber_ToLower word_loop_ToLower split: outcome.splits)

interpretation hex_big: canonical_codec EncodeBig DecodeBig "\<lambda>x. 0 \<le> x \<and> x < 2 ^ 256" ToLower
  by unfold_locales (use DecodeBig_EncodeBig EncodeBig_DecodeBig DecodeBig_ToLower in blast)+

text \<open>The JSON unmarshaller of \<open>Uint64\<close> has its own digit loop; it accepts the same texts.\<close>

lemma Uint64_UnmarshalText_DecodeUint64:
  assumes "s \<noteq> []"
  shows "Uint64_UnmarshalText s = Ret n \<longleftrightarrow> DecodeUint64 s = Ret n"
proof -
  have *: "(length raw \<le> 16 \<and> (\<exists>ds. nibbles raw = Some ds \<and> n = undigits 16 ds)) \<longleftrightarrow>
      (\<exists>ds. nibbles raw = Some ds \<and> n = undigits 16 ds \<and> n < W64)"
    if raw: "checkNumber s = Ret raw" for raw
  proof (cases "nibbles raw")
    case (Some ds)
    have "undigits 16 ds < W64 \<longleftrightarrow> length raw \<le> 16"
    proof
      assume "undigits 16 ds < W64"
      then have "length (digits 16 (undigits 16 ds)) \<le> 16"
        by (intro length_digits_le) (simp_all add: W64_def)
      moreover have "FormatUint (undigits 16 ds) 16 = ToLower raw"
        using raw Some by (intro FormatUint_nibbles) (auto simp: checkNumber_Ret)
      ultimately show "length raw \<le> 16"
        by (metis FormatUint_def length_ToLower length_map le_numeral_extra(4) list.size(3)
            length_Cons numeral_le_iff one_le_numeral One_nat_def)
    next
      assume "length raw \<le> 16"
      then have "(16::nat) ^ length ds \<le> 16 ^ 16"
        using nibbles_length [OF Some] by (intro power_increasing) auto
      moreover have "undigits 16 ds < 16 ^ length ds"
        using nibbles_less [OF Some] by (intro undigits_less) auto
      ultimately show "undigits 16 ds < W64" by (simp add: W64_def)
    qed
    with Some show ?thesis by auto
  qed simp
  show ?thesis
  proof (cases "checkNumber s")
    case (Ret raw)
    have "Uint64_UnmarshalText s = Ret n \<longleftrightarrow>
        length raw \<le> 16 \<and> (\<exists>ds. nibbles raw = Some ds \<and> n = undigits 16 ds)"
      using Ret assms
      by (auto simp: Uint64_UnmarshalText_def checkNumberText_checkNumber lift_dec_def nibble_loop_word
               split: option.splits)
    then show ?thesis using * [OF Ret] Ret by (auto simp: DecodeUint64_iff)
  qed (use assms in \<open>simp_all add: Uint64_UnmarshalText_def checkNumberText_checkNumber lift_dec_def
         DecodeUint64_def\<close>)
qed

section \<open>Addresses as texts\<close>

lemma FromHex_ToLower: "FromHex (ToLower s) = FromHex s"
proof -
  have pre: "take 2 (ToLower s) = ''0x'' \<or> take 2 (ToLower s) = ''0X'' \<longleftrightarrow> take 2 s = ''0x'' \<or> take 2 s = ''0X''"
    if "1 < length s"
  proof -
    have "t = ''0x'' \<or> t = ''0X'' \<longleftrightarrow> has0xPrefix t" if "length t = 2" for t
      using that by (cases t; cases "tl t") (auto simp: has0xPrefix_def)
    moreover have "length (take 2 s) = 2" using that by simp
    moreover have "take 2 (ToLower s) = ToLower (take 2 s)" by (simp add: ToLower_def take_map)
    ultimately show ?thesis by (metis has0xPrefix_ToLower_iff length_ToLower)
  qed
  have h2b: "Hex2Bytes (ToLower t) = Hex2Bytes t" for t by (simp add: Hex2Bytes_def hex_decode_ToLower)
  have odd: "Hex2Bytes (CHR ''0'' # ToLower t) = Hex2Bytes (CHR ''0'' # t)" for t
    using h2b [of "CHR ''0'' # t"] lower_eq_0 [of "CHR ''0''"] by (simp add: ToLower_def)
  show ?thesis
    using pre by (cases "1 < length s") (auto simp: FromHex_def Let_def drop_ToLower h2b odd)
qed

lemma HexToAddress_Address_Hex: "length a = AddressLength \<Longrightarrow> HexToAddress (Address_Hex keccak a) = a"
  using FromHex_ToLower [of "Address_Hex keccak a"] HexToAddress_LowerHex [of a]
  by (simp add: HexToAddress_def ToLower_Address_Hex)

text \<open>Both texts of an address are codecs with the same reader.\<close>

interpretation address_lower: codec LowerHex "\<lambda>s. Ret (HexToAddress s)" "\<lambda>a. length a = AddressLength"
  by unfold_locales simp

interpretation address_mixed: codec "Address_Hex keccak" "\<lambda>s. Ret (HexToAddress s)" "\<lambda>a. length a = AddressLength"
  by unfold_locales (simp add: HexToAddress_Address_Hex)

section \<open>Properties\<close>

text \<open>
  \<open>hexutil.Decode\<close> accepts exactly the texts that are, up to letter case, the encoding
  of a byte string, and returns that byte string.
\<close>

theorem Decode_spec: "Decode s = Ret b \<longleftrightarrow> ToLower s = Encode b"
  using hex_bytes.dec_iff [of s b] by simp

text \<open>
  \<open>hexutil.DecodeUint64\<close> accepts exactly the canonical quantities (no leading zero, no
  overflow), up to letter case, and inverts \<open>EncodeUint64\<close>.
\<close>

theorem DecodeUint64_spec: "DecodeUint64 s = Ret n \<longleftrightarrow> n < W64 \<and> ToLower s = EncodeUint64 n"
  by (rule hex_u64.dec_iff)

text \<open>
  \<open>hexutil.DecodeBig\<close>, which assembles the number word by word from the end of the
  text, accepts exactly the canonical quantities of at most 256 bits and inverts
  \<open>EncodeBig\<close>.
\<close>

theorem DecodeBig_spec: "DecodeBig s = Ret x \<longleftrightarrow> (0 \<le> x \<and> x < 2 ^ 256) \<and> ToLower s = EncodeBig x"
  by (rule hex_big.dec_iff)

text \<open>
  the digit loop of \<open>Uint64.UnmarshalText\<close> returns the same values as
  \<open>DecodeUint64\<close> on every non-empty text.
\<close>

theorem Uint64_UnmarshalText_agrees:
  assumes "s \<noteq> []"
  shows "Uint64_UnmarshalText s = Ret n \<longleftrightarrow> DecodeUint64 s = Ret n"
  using assms by (rule Uint64_UnmarshalText_DecodeUint64)

theorem Uint64_UnmarshalText_agrees_witness:
  "Uint64_UnmarshalText ''0xfF'' = Ret 255 \<and> (Uint64_UnmarshalText ''0xfF'' = Ret 255 \<longleftrightarrow> DecodeUint64 ''0xfF'' = Ret 255)"
proof -
  have "Uint64_UnmarshalText ''0xfF'' = Ret 255"
    by (simp add: Uint64_UnmarshalText_def checkNumberText_def lift_dec_def decodeNibble_def badNibble_def
        cv_def has0xPrefix_def W64_def)
  then show ?thesis using Uint64_UnmarshalText_agrees [of "''0xfF''" 255] by simp
qed

text \<open>
  reading back the EIP-55 text of an address (mixed case by a hash of its lower-case text,
  whatever the hash function) yields the address, and two addresses with the same text are
  equal, so the letter case never changes which account is meant.
\<close>

theorem Address_Hex_roundtrip:
  assumes "length a = AddressLength" and "length b = AddressLength"
  shows "HexToAddress (Address_Hex keccak a) = a \<and>
    (ToLower (Address_Hex keccak a) = ToLower (Address_Hex keccak b) \<longleftrightarrow> a = b)"
  using assms HexToAddress_Address_Hex [of a keccak] address_lower.enc_inject [of a b]
  by (auto simp: ToLower_Address_Hex)

theorem Address_Hex_roundtrip_witness:
  "HexToAddress (Address_Hex (\<lambda>_. replicate 32 255) (replicate 20 171)) = replicate 20 171"
  using Address_Hex_roundtrip [of "replicate 20 171" "replicate 20 171" "\<lambda>_. replicate 32 255"]
  by (simp add: AddressLength_def)

end
