(* ===== verification/SwapStore.thy ===== *)
theory SwapStore
  imports Router HexUtil
begin

text \<open>
  Package \<open>mongodb\<close>: the swap status values (status.go), the errors (errors.go), the documents
  (tables.go), their conversion from and to the token packages' types (converts.go) and the
  operations on the collections of registered swaps, of swap results and of used r values
  (api.go).

  The MongoDB driver is a parameter: a \<open>coll_api\<close> holds the calls of one collection, each with the
  number of external calls made before (a server may fail at any moment), and \<open>mgo_env\<close> holds
  the three collections and the clock. A collection's content maps an \<open>_id\<close> to a document. A
  \<open>$set\<close> update is the function it applies to a document. \<open>documented\<close> states the documented
  behaviour of the driver that the theorems rely on.

  Every operation is a function on the store (a \<open>stateful\<close> computation); the mutexes of api.go
  serialise the operations that read before they write, so that each is one step.
\<close>

section \<open>status.go\<close>

type_synonym SwapStatus = nat

definition TxNotStable :: SwapStatus where "TxNotStable = 0"
definition TxVerifyFailed :: SwapStatus where "TxVerifyFailed = 1"
definition TxWithWrongValue :: SwapStatus where "TxWithWrongValue = 3"
definition TxNotSwapped :: SwapStatus where "TxNotSwapped = 5"
definition TxProcessed :: SwapStatus where "TxProcessed = 7"
definition MatchTxEmpty :: SwapStatus where "MatchTxEmpty = 8"
definition MatchTxNotStable :: SwapStatus where "MatchTxNotStable = 9"
definition MatchTxStable :: SwapStatus where "MatchTxStable = 10"
definition TxWithBigValue :: SwapStatus where "TxWithBigValue = 12"
definition MatchTxFailed :: SwapStatus where "MatchTxFailed = 14"
definition SwapInBlacklist :: SwapStatus where "SwapInBlacklist = 15"
definition ManualMakeFail :: SwapStatus where "ManualMakeFail = 16"
definition BindAddrIsContract :: SwapStatus where "BindAddrIsContract = 17"
definition TxWithWrongPath :: SwapStatus where "TxWithWrongPath = 19"
definition MissTokenConfig :: SwapStatus where "MissTokenConfig = 20"
definition NoUnderlyingToken :: SwapStatus where "NoUnderlyingToken = 21"
definition KeepStatus :: SwapStatus where "KeepStatus = 255"
definition StReswapping :: SwapStatus where "StReswapping = 256"

lemmas swap_statuses = TxNotStable_def TxVerifyFailed_def TxWithWrongValue_def TxNotSwapped_def
  TxProcessed_def MatchTxEmpty_def MatchTxNotStable_def MatchTxStable_def TxWithBigValue_def
  MatchTxFailed_def SwapInBlacklist_def ManualMakeFail_def BindAddrIsContract_def
  TxWithWrongPath_def MissTokenConfig_def NoUnderlyingToken_def KeepStatus_def StReswapping_def

definition IsResultStatus :: "SwapStatus \<Rightarrow> bool" where
  "IsResultStatus st \<longleftrightarrow>
     st \<in> {MatchTxEmpty, MatchTxNotStable, MatchTxStable, MatchTxFailed, StReswapping}"

definition IsRegisteredOk :: "SwapStatus \<Rightarrow> bool" where
  "IsRegisteredOk st \<longleftrightarrow> st \<in> {TxNotStable, TxNotSwapped, TxProcessed, ManualMakeFail}"

definition SwapStatus_String :: "SwapStatus \<Rightarrow> string" where
  "SwapStatus_String st =
     (if st = TxNotStable then ''TxNotStable''
      else if st = TxVerifyFailed then ''TxVerifyFailed''
      else if st = TxWithWrongValue then ''TxWithWrongValue''
      else if st = TxNotSwapped then ''TxNotSwapped''
      else if st = TxProcessed then ''TxProcessed''
      else if st = MatchTxEmpty then ''MatchTxEmpty''
      else if st = MatchTxNotStable then ''MatchTxNotStable''
      else if st = MatchTxStable then ''MatchTxStable''
      else if st = TxWithBigValue then ''TxWithBigValue''
      else if st = MatchTxFailed then ''MatchTxFailed''
      else if st = SwapInBlacklist then ''SwapInBlacklist''
      else if st = ManualMakeFail then ''ManualMakeFail''
      else if st = TxWithWrongPath then ''TxWithWrongPath''
      else if st = MissTokenConfig then ''MissTokenConfig''
      else if st = NoUnderlyingToken then ''NoUnderlyingToken''
      else if st = KeepStatus then ''KeepStatus''
      else if st = StReswapping then ''Reswapping''
      else ''unknown swap status '' @ big_String (int st))"

definition GetRouterSwapStatusByVerifyError :: "token_error option \<Rightarrow> SwapStatus" where
  "GetRouterSwapStatusByVerifyError err =
     (if \<not> ShouldRegisterRouterSwapForError err then TxVerifyFailed
      else case err of
             None \<Rightarrow> TxNotStable
           | Some e \<Rightarrow>
               if errors_Is e ErrTxWithWrongValue then TxWithWrongValue
               else if errors_Is e ErrTxWithWrongPath then TxWithWrongPath
               else if errors_Is e ErrMissTokenConfig then MissTokenConfig
               else if errors_Is e ErrNoUnderlyingToken then NoUnderlyingToken
               else TxVerifyFailed)"

section \<open>errors.go\<close>

text \<open>What the driver reports: \<open>mongo.ErrNoDocuments\<close>, a duplicate key, or any other failure.\<close>

datatype mongo_error = ErrNoDocuments | DuplicateKey | MongoFailure string

datatype store_error =
    ErrItemNotFound | ErrItemIsDup | ErrSwapNotFound | ErrWrongKey
  | ErrForbidUpdateNonce | ErrForbidUpdateSwapTx
  | MgoFailure string
  | StoreOther string
  | StoreToken token_error

definition mgoError :: "mongo_error option \<Rightarrow> store_error option" where
  "mgoError err =
     (case err of
        None \<Rightarrow> None
      | Some ErrNoDocuments \<Rightarrow> Some ErrItemNotFound
      | Some DuplicateKey \<Rightarrow> Some ErrItemIsDup
      | Some (MongoFailure m) \<Rightarrow> Some (MgoFailure (''mgoError: '' @ m)))"

section \<open>tables.go\<close>

record MgoERC20SwapInfo =
  me_Token :: string
  me_TokenID :: string
  me_ForNative :: bool
  me_ForUnderlying :: bool
  me_Path :: "string list"
  me_AmountOutMin :: string
  me_CallProxy :: string
  me_CallData :: string

record MgoNFTSwapInfo =
  mn_Token :: string
  mn_TokenID :: string
  mn_IDs :: "string list"
  mn_Amounts :: "string list"
  mn_Batch :: bool
  mn_Data :: string

record MgoAnyCallSwapInfo =
  ma_CallFrom :: string
  ma_CallTo :: "string list"
  ma_CallData :: "string list"
  ma_Callbacks :: "string list"
  ma_CallNonces :: "string list"

record MgoCurveAnyCallSwapInfo =
  mc_CallFrom :: string
  mc_CallTo :: string
  mc_CallData :: string
  mc_Fallback :: string

record MgoSwapInfo =
  mgo_erc20 :: "MgoERC20SwapInfo option"
  mgo_nft :: "MgoNFTSwapInfo option"
  mgo_anycall :: "MgoAnyCallSwapInfo option"
  mgo_curve :: "MgoCurveAnyCallSwapInfo option"

record MgoSwap =
  sw_Key :: string
  sw_SwapType :: nat
  sw_TxID :: string
  sw_TxTo :: string
  sw_From :: string
  sw_Bind :: string
  sw_Value :: string
  sw_LogIndex :: int
  sw_FromChainID :: string
  sw_ToChainID :: string
  sw_SwapInfo :: MgoSwapInfo
  sw_Status :: SwapStatus
  sw_InitTime :: int
  sw_Timestamp :: int
  sw_Memo :: string

record MgoSwapResult =
  rs_Key :: string
  rs_SwapType :: nat
  rs_TxID :: string
  rs_TxTo :: string
  rs_TxHeight :: nat
  rs_TxTime :: nat
  rs_From :: string
  rs_To :: string
  rs_Bind :: string
  rs_Value :: string
  rs_LogIndex :: int
  rs_FromChainID :: string
  rs_ToChainID :: string
  rs_SwapInfo :: MgoSwapInfo
  rs_SwapTx :: string
  rs_OldSwapTxs :: "string list"
  rs_SwapHeight :: nat
  rs_SwapTime :: nat
  rs_SwapValue :: string
  rs_SwapNonce :: nat
  rs_Status :: SwapStatus
  rs_InitTime :: int
  rs_Timestamp :: int
  rs_Memo :: string
  rs_MPC :: string

record MgoUsedRValue =
  ur_Key :: string
  ur_Timestamp :: int

record SwapResultUpdateItems =
  it_MPC :: string
  it_SwapTx :: string
  it_SwapHeight :: nat
  it_SwapTime :: nat
  it_SwapValue :: string
  it_SwapNonce :: nat
  it_Status :: SwapStatus
  it_Timestamp :: int
  it_Memo :: string

definition ToSwapResult :: "MgoSwap \<Rightarrow> MgoSwapResult" where
  "ToSwapResult swap =
     \<lparr>rs_Key = sw_Key swap, rs_SwapType = sw_SwapType swap, rs_TxID = sw_TxID swap, rs_TxTo = sw_TxTo swap,
      rs_TxHeight = 0, rs_TxTime = 0, rs_From = sw_From swap, rs_To = '''', rs_Bind = sw_Bind swap,
      rs_Value = sw_Value swap, rs_LogIndex = sw_LogIndex swap, rs_FromChainID = sw_FromChainID swap,
      rs_ToChainID = sw_ToChainID swap, rs_SwapInfo = sw_SwapInfo swap, rs_SwapTx = '''', rs_OldSwapTxs = [],
      rs_SwapHeight = 0, rs_SwapTime = 0, rs_SwapValue = '''', rs_SwapNonce = 0, rs_Status = sw_Status swap,
      rs_InitTime = sw_InitTime swap, rs_Timestamp = sw_Timestamp swap, rs_Memo = sw_Memo swap, rs_MPC = ''''\<rparr>"

definition Mgo_GetToken :: "MgoSwapInfo \<Rightarrow> string" where
  "Mgo_GetToken s =
     (case mgo_erc20 s of
        Some i \<Rightarrow> me_Token i
      | None \<Rightarrow> (case mgo_nft s of Some i \<Rightarrow> mn_Token i | None \<Rightarrow> ''''))"

definition Mgo_GetTokenID :: "MgoSwapInfo \<Rightarrow> string" where
  "Mgo_GetTokenID s =
     (case mgo_erc20 s of
        Some i \<Rightarrow> me_TokenID i
      | None \<Rightarrow> (case mgo_nft s of Some i \<Rightarrow> mn_TokenID i | None \<Rightarrow> ''''))"

section \<open>converts.go\<close>

definition convertToSwapResults :: "MgoSwap list \<Rightarrow> MgoSwapResult list" where
  "convertToSwapResults swaps = map ToSwapResult swaps"

definition fromHexBytesSlice :: "bytes list \<Rightarrow> string list" where
  "fromHexBytesSlice xs = map Encode xs"

definition fromBigIntSlice :: "int list \<Rightarrow> string list" where
  "fromBigIntSlice xs = map big_String xs"

definition toHexBytesSlice :: "string list \<Rightarrow> bytes list" where
  "toHexBytesSlice xs = map FromHex xs"

definition toBigIntSlice :: "string list \<Rightarrow> (string, int list) outcome" where
  "toBigIntSlice xs = omap GetBigIntFromStr xs"

definition ConvertToSwapInfo :: "'a SwapInfo_scheme \<Rightarrow> MgoSwapInfo" where
  "ConvertToSwapInfo info =
     (let none = \<lparr>mgo_erc20 = None, mgo_nft = None, mgo_anycall = None, mgo_curve = None\<rparr>;
          plain = (\<lambda>i. \<lparr>me_Token = erc20_Token i, me_TokenID = erc20_TokenID i, me_ForNative = False,
             me_ForUnderlying = False, me_Path = [], me_AmountOutMin = '''', me_CallProxy = '''', me_CallData = ''''\<rparr>)
      in case erc20Info info of
           Some i \<Rightarrow>
             none\<lparr>mgo_erc20 := Some
               (if Path i \<noteq> [] then
                  (plain i)\<lparr>me_ForNative := ForNative i, me_ForUnderlying := ForUnderlying i, me_Path := Path i,
                    me_AmountOutMin := (case AmountOutMin i of None \<Rightarrow> '''' | Some a \<Rightarrow> big_String a)\<rparr>
                else if CallProxy i \<noteq> '''' then
                  (plain i)\<lparr>me_CallProxy := CallProxy i,
                    me_CallData := (case erc20_CallData i of None \<Rightarrow> '''' | Some d \<Rightarrow> Encode d)\<rparr>
                else plain i)\<rparr>
         | None \<Rightarrow>
       (case nftInfo info of
           Some i \<Rightarrow>
             none\<lparr>mgo_nft := Some
               \<lparr>mn_Token = nft_Token i, mn_TokenID = nft_TokenID i, mn_IDs = fromBigIntSlice (IDs i),
                mn_Amounts = fromBigIntSlice (Amounts i), mn_Batch = Batch i, mn_Data = Encode (nft_Data i)\<rparr>\<rparr>
         | None \<Rightarrow>
       (case anycallInfo info of
           Some i \<Rightarrow>
             none\<lparr>mgo_anycall := Some
               \<lparr>ma_CallFrom = any_CallFrom i, ma_CallTo = any_CallTo i, ma_CallData = fromHexBytesSlice (any_CallData i),
                ma_Callbacks = Callbacks i, ma_CallNonces = fromBigIntSlice (CallNonces i)\<rparr>\<rparr>
         | None \<Rightarrow>
       (case curveInfo info of
           Some i \<Rightarrow>
             none\<lparr>mgo_curve := Some
               \<lparr>mc_CallFrom = curve_CallFrom i, mc_CallTo = curve_CallTo i, mc_CallData = ToHex (curve_CallData i),
                mc_Fallback = curve_Fallback i\<rparr>\<rparr>
         | None \<Rightarrow> none))))"

definition no_swap_info :: SwapInfo where
  "no_swap_info = \<lparr>erc20Info = None, nftInfo = None, anycallInfo = None, curveInfo = None\<rparr>"

text \<open>
  \<open>hexutil.Bytes(nftSwapInfo.Data)\<close> converts the text itself to bytes, it does not decode it. The
  error texts name the offending value, here given by its field.
\<close>

definition ConvertFromSwapInfo :: "MgoSwapInfo \<Rightarrow> (string, SwapInfo) outcome" where
  "ConvertFromSwapInfo swapinfo =
     (let plain = (\<lambda>i. \<lparr>erc20_Token = me_Token i, erc20_TokenID = me_TokenID i, ForNative = False,
             ForUnderlying = False, Path = [], AmountOutMin = None, CallProxy = '''', erc20_CallData = None\<rparr>)
      in case mgo_erc20 swapinfo of
           Some i \<Rightarrow>
             (if me_Path i \<noteq> [] then
                (case GetBigIntFromStr (me_AmountOutMin i) of
                   Ret a \<Rightarrow> Ret (no_swap_info\<lparr>erc20Info := Some ((plain i)\<lparr>ForNative := me_ForNative i,
                     ForUnderlying := me_ForUnderlying i, Path := me_Path i, AmountOutMin := Some a\<rparr>)\<rparr>)
                 | Err _ \<Rightarrow> Err ''wrong amountOutMin''
                 | Panic \<Rightarrow> Panic)
              else if me_CallProxy i \<noteq> '''' then
                Ret (no_swap_info\<lparr>erc20Info := Some ((plain i)\<lparr>CallProxy := me_CallProxy i,
                     erc20_CallData := Some (FromHex (me_CallData i))\<rparr>)\<rparr>)
              else Ret (no_swap_info\<lparr>erc20Info := Some (plain i)\<rparr>))
         | None \<Rightarrow>
       (case mgo_nft swapinfo of
           Some i \<Rightarrow>
             (case toBigIntSlice (mn_IDs i) of
                Ret ids \<Rightarrow>
                  (case toBigIntSlice (mn_Amounts i) of
                     Ret amounts \<Rightarrow> Ret (no_swap_info\<lparr>nftInfo := Some
                       \<lparr>nft_Token = mn_Token i, nft_TokenID = mn_TokenID i, IDs = ids, Amounts = amounts,
                        Batch = mn_Batch i, nft_Data = str_bytes (mn_Data i)\<rparr>\<rparr>)
                   | Err _ \<Rightarrow> Err ''wrong amounts''
                   | Panic \<Rightarrow> Panic)
              | Err _ \<Rightarrow> Err ''wrong ids''
              | Panic \<Rightarrow> Panic)
         | None \<Rightarrow>
       (case mgo_anycall swapinfo of
           Some i \<Rightarrow>
             (case toBigIntSlice (ma_CallNonces i) of
                Ret nonces \<Rightarrow> Ret (no_swap_info\<lparr>anycallInfo := Some
                  \<lparr>any_CallFrom = ma_CallFrom i, any_CallTo = ma_CallTo i, any_CallData = toHexBytesSlice (ma_CallData i),
                   Callbacks = ma_Callbacks i, CallNonces = nonces\<rparr>\<rparr>)
              | Err _ \<Rightarrow> Err ''wrong nonces''
              | Panic \<Rightarrow> Panic)
         | None \<Rightarrow>
       (case mgo_curve swapinfo of
           Some i \<Rightarrow> Ret (no_swap_info\<lparr>curveInfo := Some
             \<lparr>curve_CallFrom = mc_CallFrom i, curve_CallTo = mc_CallTo i, curve_CallData = FromHex (mc_CallData i),
              curve_Fallback = mc_Fallback i\<rparr>\<rparr>)
         | None \<Rightarrow> Ret no_swap_info))))"

section \<open>The driver\<close>

type_synonym 'd coll = "string \<rightharpoonup> 'd"

text \<open>
  The calls of one collection: \<open>InsertOne\<close>, \<open>UpdateByID\<close> with a \<open>$set\<close> (and \<open>$push\<close>) update,
  \<open>FindOne\<close> by \<open>_id\<close>, \<open>FindOne\<close> by a case-insensitive regular expression on \<open>_id\<close>, and
  \<open>Find\<close> with a query, an ascending sort key and a limit.
\<close>

record 'd coll_api =
  InsertOne :: "nat \<Rightarrow> 'd \<Rightarrow> 'd coll \<Rightarrow> mongo_error option \<times> 'd coll"
  UpdateByID :: "nat \<Rightarrow> string \<Rightarrow> ('d \<Rightarrow> 'd) \<Rightarrow> 'd coll \<Rightarrow> mongo_error option \<times> 'd coll"
  FindID :: "nat \<Rightarrow> string \<Rightarrow> 'd coll \<Rightarrow> mongo_error + 'd"
  FindRegex :: "nat \<Rightarrow> string \<Rightarrow> 'd coll \<Rightarrow> mongo_error + 'd"
  FindSorted :: "nat \<Rightarrow> ('d \<Rightarrow> bool) \<Rightarrow> ('d \<Rightarrow> int) \<Rightarrow> int \<Rightarrow> 'd coll \<Rightarrow> mongo_error + 'd list"

record mgo_env =
  swapColl :: "MgoSwap coll_api"
  resultColl :: "MgoSwapResult coll_api"
  rvalueColl :: "MgoUsedRValue coll_api"
  unixNano :: "nat \<Rightarrow> int"

record store =
  tick :: nat
  collRouterSwap :: "MgoSwap coll"
  collRouterSwapResult :: "MgoSwapResult coll"
  collUsedRValue :: "MgoUsedRValue coll"

type_synonym ('x, 'a) storing = "('x store_scheme, store_error, 'a) stateful"

text \<open>A question to the outside world: the answer may depend on how many were asked before.\<close>

definition extern :: "(nat \<Rightarrow> 'a) \<Rightarrow> ('x store_scheme, 'e, 'a) stateful" where
  "extern f s = (Ret (f (tick s)), s\<lparr>tick := Suc (tick s)\<rparr>)"

definition coll_write ::
    "('d coll \<Rightarrow> 'x store_scheme \<Rightarrow> 'x store_scheme) \<Rightarrow> (nat \<Rightarrow> 'x store_scheme \<Rightarrow> mongo_error option \<times> 'd coll)
     \<Rightarrow> ('x store_scheme, 'e, mongo_error option) stateful" where
  "coll_write put f s = (case f (tick s) s of (err, c) \<Rightarrow> (Ret err, put c (s\<lparr>tick := Suc (tick s)\<rparr>)))"

definition insertSwap :: "mgo_env \<Rightarrow> MgoSwap \<Rightarrow> ('x store_scheme, 'e, mongo_error option) stateful" where
  "insertSwap E d = coll_write (\<lambda>c s. s\<lparr>collRouterSwap := c\<rparr>) (\<lambda>t s. InsertOne (swapColl E) t d (collRouterSwap s))"

definition updateSwap :: "mgo_env \<Rightarrow> string \<Rightarrow> (MgoSwap \<Rightarrow> MgoSwap) \<Rightarrow> ('x store_scheme, 'e, mongo_error option) stateful" where
  "updateSwap E k f = coll_write (\<lambda>c s. s\<lparr>collRouterSwap := c\<rparr>) (\<lambda>t s. UpdateByID (swapColl E) t k f (collRouterSwap s))"

definition insertResult :: "mgo_env \<Rightarrow> MgoSwapResult \<Rightarrow> ('x store_scheme, 'e, mongo_error option) stateful" where
  "insertResult E d =
     coll_write (\<lambda>c s. s\<lparr>collRouterSwapResult := c\<rparr>) (\<lambda>t s. InsertOne (resultColl E) t d (collRouterSwapResult s))"

definition updateResult :: "mgo_env \<Rightarrow> string \<Rightarrow> (MgoSwapResult \<Rightarrow> MgoSwapResult) \<Rightarrow> ('x store_scheme, 'e, mongo_error option) stateful" where
  "updateResult E k f =
     coll_write (\<lambda>c s. s\<lparr>collRouterSwapResult := c\<rparr>) (\<lambda>t s. UpdateByID (resultColl E) t k f (collRouterSwapResult s))"

definition insertRValue :: "mgo_env \<Rightarrow> MgoUsedRValue \<Rightarrow> ('x store_scheme, 'e, mongo_error option) stateful" where
  "insertRValue E d =
     coll_write (\<lambda>c s. s\<lparr>collUsedRValue := c\<rparr>) (\<lambda>t s. InsertOne (rvalueColl E) t d (collUsedRValue s))"

text \<open>\<open>time.Now().Unix()\<close> and \<open>common.NowMilli\<close> (a division that truncates).\<close>

definition Unix_now :: "mgo_env \<Rightarrow> ('x store_scheme, 'e, int) stateful" where
  "Unix_now E = extern (\<lambda>t. unixNano E t div 1000000000)"

definition NowMilli :: "mgo_env \<Rightarrow> ('x store_scheme, 'e, int) stateful" where
  "NowMilli E = extern (\<lambda>t. sgn (unixNano E t) * (\<bar>unixNano E t\<bar> div 1000000))"

text \<open>The result of a write, as the functions of api.go return it.\<close>

definition mgo_return :: "mongo_error option \<Rightarrow> ('x, unit) storing" where
  "mgo_return err = slift (case mgoError err of None \<Rightarrow> Ret () | Some e \<Rightarrow> Err e)"

definition mgo_found :: "mongo_error + 'a \<Rightarrow> ('x, 'a) storing" where
  "mgo_found r =
     slift (case r of Inr d \<Rightarrow> Ret d | Inl e \<Rightarrow> (case mgoError (Some e) of None \<Rightarrow> Panic | Some e' \<Rightarrow> Err e'))"

section \<open>api.go: registered swaps\<close>

definition GetRouterSwapKey :: "string \<Rightarrow> string \<Rightarrow> int \<Rightarrow> string" where
  "GetRouterSwapKey fromChainID txid logindex =
     ToLower (fromChainID @ '':'' @ txid @ '':'' @ big_String logindex)"

definition FindRouterSwap :: "mgo_env \<Rightarrow> string \<Rightarrow> string \<Rightarrow> int \<Rightarrow> ('x, MgoSwap) storing" where
  "FindRouterSwap E fromChainID txid logindex =
     sget (\<lambda>s. sbind (extern (\<lambda>t. FindRegex (swapColl E) t (GetRouterSwapKey fromChainID txid logindex) (collRouterSwap s)))
       mgo_found)"

definition FindRouterSwapResult :: "mgo_env \<Rightarrow> string \<Rightarrow> string \<Rightarrow> int \<Rightarrow> ('x, MgoSwapResult) storing" where
  "FindRouterSwapResult E fromChainID txid logindex =
     sget (\<lambda>s. sbind (extern (\<lambda>t. FindRegex (resultColl E) t (GetRouterSwapKey fromChainID txid logindex) (collRouterSwapResult s)))
       mgo_found)"

definition AddRouterSwap :: "mgo_env \<Rightarrow> MgoSwap \<Rightarrow> ('x, unit) storing" where
  "AddRouterSwap E ms0 =
     sbind (NowMilli E) (\<lambda>initTime.
     let key = GetRouterSwapKey (sw_FromChainID ms0) (sw_TxID ms0) (sw_LogIndex ms0);
         ms = ms0\<lparr>sw_Key := key, sw_InitTime := initTime\<rparr> in
     sbind (insertSwap E ms) (\<lambda>err.
     sbind (if err = Some DuplicateKey then
              sget (\<lambda>s. sbind (extern (\<lambda>t. FindID (swapColl E) t key (collRouterSwap s))) (\<lambda>found.
              case found of
                Inr swap \<Rightarrow>
                  if sw_Status swap = TxNotSwapped then
                    sbind (Unix_now E) (\<lambda>nw.
                    if i64 (sw_Timestamp swap + 3 * 24 * 3600) < nw
                    then sbind (updateSwap E key (\<lambda>d. d\<lparr>sw_Timestamp := nw\<rparr>)) (\<lambda>_. sret ())
                    else sret ())
                  else sret ()
              | Inl _ \<Rightarrow> sret ()))
            else sret ()) (\<lambda>_.
     mgo_return err)))"

definition PassRouterSwapVerify :: "mgo_env \<Rightarrow> string \<Rightarrow> string \<Rightarrow> int \<Rightarrow> int \<Rightarrow> ('x, unit) storing" where
  "PassRouterSwapVerify E fromChainID txid logindex ts =
     sbind (stry (FindRouterSwap E fromChainID txid logindex)) (\<lambda>found.
     case found of
       Inl _ \<Rightarrow> slift (Err (StoreOther ''forbid pass verify as swap is not exist''))
     | Inr swap \<Rightarrow>
         sbind (sguard (sw_Status swap = TxNotStable)
                  (StoreOther (''forbid pass verify as swap status is '' @ SwapStatus_String (sw_Status swap)))) (\<lambda>_.
         sbind (updateSwap E (GetRouterSwapKey fromChainID txid logindex)
                  (\<lambda>d. d\<lparr>sw_Status := TxNotSwapped, sw_Timestamp := ts\<rparr>)) mgo_return))"

definition UpdateRouterSwapStatus ::
    "mgo_env \<Rightarrow> string \<Rightarrow> string \<Rightarrow> int \<Rightarrow> SwapStatus \<Rightarrow> int \<Rightarrow> string \<Rightarrow> ('x, unit) storing" where
  "UpdateRouterSwapStatus E fromChainID txid logindex st ts memo =
     sbind (sguard (st \<noteq> TxNotStable) (StoreOther ''forbid update swap status to TxNotStable'')) (\<lambda>_.
     sbind (updateSwap E (GetRouterSwapKey fromChainID txid logindex)
              (\<lambda>d. (if memo \<noteq> '''' then (\<lambda>d. d\<lparr>sw_Memo := memo\<rparr>)
                    else if st = TxNotSwapped then (\<lambda>d. d\<lparr>sw_Memo := ''''\<rparr>) else id)
                   (d\<lparr>sw_Status := st, sw_Timestamp := ts\<rparr>))) mgo_return)"

definition UpdateRouterSwapInfoAndStatus ::
    "mgo_env \<Rightarrow> string \<Rightarrow> string \<Rightarrow> int \<Rightarrow> MgoSwapInfo \<Rightarrow> SwapStatus \<Rightarrow> int \<Rightarrow> string \<Rightarrow> ('x, unit) storing" where
  "UpdateRouterSwapInfoAndStatus E fromChainID txid logindex swapInfo st ts memo =
     (let key = GetRouterSwapKey fromChainID txid logindex in
     sbind (stry (FindRouterSwap E fromChainID txid logindex)) (\<lambda>found.
     case found of
       Inl _ \<Rightarrow> slift (Err (StoreOther ''forbid update swap info if swap is not exist''))
     | Inr swap \<Rightarrow>
         sbind (sguard (\<not> IsRegisteredOk (sw_Status swap))
                  (StoreOther (''forbid update swap info from registered status '' @ SwapStatus_String (sw_Status swap)))) (\<lambda>_.
         sget (\<lambda>s. sbind (extern (\<lambda>t. FindID (resultColl E) t key (collRouterSwapResult s))) (\<lambda>res.
         case res of
           Inr _ \<Rightarrow> slift (Err (StoreOther ''forbid update swap info if swap result exists''))
         | Inl _ \<Rightarrow>
             sbind (updateSwap E key
                      (\<lambda>d. d\<lparr>sw_SwapInfo := swapInfo, sw_Status := st, sw_Timestamp := ts,
                             sw_InitTime := i64 (ts * 1000), sw_Memo := memo\<rparr>)) mgo_return)))))"

text \<open>The queries of the jobs, as predicates on a document's timestamp, status and chain.\<close>

definition getStatusQuery :: "SwapStatus \<Rightarrow> int \<Rightarrow> SwapStatus \<Rightarrow> int \<Rightarrow> bool" where
  "getStatusQuery st septime dstatus dtime \<longleftrightarrow> septime \<le> dtime \<and> dstatus = st"

definition getStatusQueryWithChainID :: "string \<Rightarrow> SwapStatus \<Rightarrow> int \<Rightarrow> string \<Rightarrow> SwapStatus \<Rightarrow> int \<Rightarrow> bool" where
  "getStatusQueryWithChainID fromChainID st septime dchain dstatus dtime \<longleftrightarrow>
     septime \<le> dtime \<and> dstatus = st \<and> dchain = fromChainID"

definition maxCountOfResults :: int where
  "maxCountOfResults = 1000"

definition FindRouterSwapsWithStatus :: "mgo_env \<Rightarrow> SwapStatus \<Rightarrow> int \<Rightarrow> ('x, MgoSwap list) storing" where
  "FindRouterSwapsWithStatus E st septime =
     sget (\<lambda>s. sbind (extern (\<lambda>t. FindSorted (swapColl E) t
        (\<lambda>d. getStatusQuery st septime (sw_Status d) (sw_Timestamp d)) sw_InitTime maxCountOfResults (collRouterSwap s)))
       mgo_found)"

definition FindRouterSwapsWithChainIDAndStatus :: "mgo_env \<Rightarrow> string \<Rightarrow> SwapStatus \<Rightarrow> int \<Rightarrow> ('x, MgoSwap list) storing" where
  "FindRouterSwapsWithChainIDAndStatus E fromChainID st septime =
     sget (\<lambda>s. sbind (extern (\<lambda>t. FindSorted (swapColl E) t
        (\<lambda>d. getStatusQueryWithChainID fromChainID st septime (sw_FromChainID d) (sw_Status d) (sw_Timestamp d))
        sw_InitTime maxCountOfResults (collRouterSwap s)))
       mgo_found)"

section \<open>api.go: swap results\<close>

definition AddRouterSwapResult :: "mgo_env \<Rightarrow> MgoSwapResult \<Rightarrow> ('x, unit) storing" where
  "AddRouterSwapResult E mr =
     sbind (NowMilli E) (\<lambda>initTime.
     sbind (insertResult E
              (mr\<lparr>rs_Key := GetRouterSwapKey (rs_FromChainID mr) (rs_TxID mr) (rs_LogIndex mr), rs_InitTime := initTime\<rparr>))
       mgo_return)"

definition checkRouterSwapResultUpdate :: "mgo_env \<Rightarrow> string \<Rightarrow> string \<Rightarrow> int \<Rightarrow> ('x, unit) storing" where
  "checkRouterSwapResultUpdate E fromChainID txid logindex =
     sbind (FindRouterSwapResult E fromChainID txid logindex) (\<lambda>swapRes.
     sbind (sguard (rs_SwapNonce swapRes = 0) ErrForbidUpdateNonce) (\<lambda>_.
     sguard (rs_SwapTx swapRes = '''') ErrForbidUpdateSwapTx))"

text \<open>
  \<open>nonceptr\<close> points to the caller's counter; the operation returns the allocated nonce and the
  counter's new value.
\<close>

definition AllocateRouterSwapNonce ::
    "mgo_env \<Rightarrow> BuildTxArgs \<Rightarrow> nat \<Rightarrow> bool \<Rightarrow> ('x, nat \<times> nat) storing" where
  "AllocateRouterSwapNonce E args nonceptr isRecycleNonce =
     (let fromChainID = bi_String (args_FromChainID (swapArgs args));
          txid = args_SwapID (swapArgs args);
          logindex = args_LogIndex (swapArgs args);
          swapnonce = nonceptr;
          key = GetRouterSwapKey fromChainID txid logindex in
     sbind (sguard (\<not> (isRecycleNonce \<and> swapnonce = 0)) (StoreOther ''swap nonce is alreay recycled'')) (\<lambda>_.
     sbind (checkRouterSwapResultUpdate E fromChainID txid logindex) (\<lambda>_.
     sbind (Unix_now E) (\<lambda>nowTime.
     sbind (updateResult E key
              (\<lambda>d. (case SwapValue args of None \<Rightarrow> id | Some v \<Rightarrow> (\<lambda>d. d\<lparr>rs_SwapValue := big_String v\<rparr>))
                   (d\<lparr>rs_MPC := args_From args, rs_Status := MatchTxNotStable, rs_SwapNonce := swapnonce,
                      rs_Timestamp := nowTime\<rparr>))) (\<lambda>err.
     sbind (mgo_return err) (\<lambda>_.
     sbind (updateSwap E key (\<lambda>d. d\<lparr>sw_Status := TxProcessed, sw_Timestamp := nowTime\<rparr>)) (\<lambda>_.
     sret (swapnonce, if isRecycleNonce then 0 else u64_add nonceptr 1))))))))"

definition UpdateRouterSwapResultStatus ::
    "mgo_env \<Rightarrow> string \<Rightarrow> string \<Rightarrow> int \<Rightarrow> SwapStatus \<Rightarrow> int \<Rightarrow> string \<Rightarrow> ('x, unit) storing" where
  "UpdateRouterSwapResultStatus E fromChainID txid logindex st ts memo =
     sbind (updateResult E (GetRouterSwapKey fromChainID txid logindex)
              (\<lambda>d. (if st = StReswapping then
                      (\<lambda>d. d\<lparr>rs_Memo := '''', rs_SwapTx := '''', rs_OldSwapTxs := [], rs_SwapHeight := 0,
                             rs_SwapTime := 0, rs_SwapNonce := 0\<rparr>)
                    else id)
                   ((if memo \<noteq> '''' then (\<lambda>d. d\<lparr>rs_Memo := memo\<rparr>) else id)
                    (d\<lparr>rs_Status := st, rs_Timestamp := ts\<rparr>)))) mgo_return"

definition UpdateRouterOldSwapTxs :: "mgo_env \<Rightarrow> string \<Rightarrow> string \<Rightarrow> int \<Rightarrow> string \<Rightarrow> ('x, unit) storing" where
  "UpdateRouterOldSwapTxs E fromChainID txid logindex swapTx =
     (if swapTx = '''' then sret ()
      else sbind (FindRouterSwapResult E fromChainID txid logindex) (\<lambda>swapRes.
      if EqualFold swapTx (rs_SwapTx swapRes) then sret ()
      else if list_ex (EqualFold swapTx) (rs_OldSwapTxs swapRes) then sret ()
      else sbind (Unix_now E) (\<lambda>nw.
           sbind (updateResult E (GetRouterSwapKey fromChainID txid logindex)
              (if rs_OldSwapTxs swapRes = []
               then (\<lambda>d. d\<lparr>rs_SwapTx := swapTx, rs_OldSwapTxs := [rs_SwapTx swapRes, swapTx], rs_Timestamp := nw\<rparr>)
               else (\<lambda>d. d\<lparr>rs_SwapTx := swapTx, rs_Timestamp := nw, rs_OldSwapTxs := rs_OldSwapTxs d @ [swapTx]\<rparr>)))
            mgo_return)))"

definition FindRouterSwapResultsWithStatus :: "mgo_env \<Rightarrow> SwapStatus \<Rightarrow> int \<Rightarrow> ('x, MgoSwapResult list) storing" where
  "FindRouterSwapResultsWithStatus E st septime =
     sget (\<lambda>s. sbind (extern (\<lambda>t. FindSorted (resultColl E) t
        (\<lambda>d. getStatusQuery st septime (rs_Status d) (rs_Timestamp d)) rs_InitTime maxCountOfResults (collRouterSwapResult s)))
       mgo_found)"

definition FindRouterSwapResultsWithChainIDAndStatus ::
    "mgo_env \<Rightarrow> string \<Rightarrow> SwapStatus \<Rightarrow> int \<Rightarrow> ('x, MgoSwapResult list) storing" where
  "FindRouterSwapResultsWithChainIDAndStatus E fromChainID st septime =
     sget (\<lambda>s. sbind (extern (\<lambda>t. FindSorted (resultColl E) t
        (\<lambda>d. getStatusQueryWithChainID fromChainID st septime (rs_FromChainID d) (rs_Status d) (rs_Timestamp d))
        rs_InitTime maxCountOfResults (collRouterSwapResult s)))
       mgo_found)"

text \<open>\<open>FindOne\<close> with a descending sort on the nonce: the first document of the sorted query.\<close>

definition FindNextSwapNonce :: "mgo_env \<Rightarrow> string \<Rightarrow> string \<Rightarrow> ('x, nat) storing" where
  "FindNextSwapNonce E chainID mpc =
     sget (\<lambda>s. sbind (extern (\<lambda>t. FindSorted (resultColl E) t
        (\<lambda>d. rs_ToChainID d = chainID \<and> rs_MPC d = ToLower mpc) (\<lambda>d. - int (rs_SwapNonce d)) 1 (collRouterSwapResult s)))
       (\<lambda>found. sbind (mgo_found (case found of Inl e \<Rightarrow> Inl e | Inr [] \<Rightarrow> Inl ErrNoDocuments | Inr (d # _) \<Rightarrow> Inr d))
       (\<lambda>d. sret (u64_add (rs_SwapNonce d) 1))))"

definition FindRouterSwapResultsToStable :: "mgo_env \<Rightarrow> string \<Rightarrow> int \<Rightarrow> ('x, MgoSwapResult list) storing" where
  "FindRouterSwapResultsToStable E chainID septime =
     sget (\<lambda>s. sbind (extern (\<lambda>t. FindSorted (resultColl E) t
        (\<lambda>d. septime \<le> rs_InitTime d \<and> rs_Status d = MatchTxNotStable \<and> rs_ToChainID d = chainID)
        (\<lambda>d. int (rs_SwapNonce d)) 100 (collRouterSwapResult s)))
       mgo_found)"

definition FindRouterSwapResultsToReplace :: "mgo_env \<Rightarrow> string \<Rightarrow> int \<Rightarrow> ('x, MgoSwapResult list) storing" where
  "FindRouterSwapResultsToReplace E chainID septime =
     sget (\<lambda>s. sbind (extern (\<lambda>t. FindSorted (resultColl E) t
        (\<lambda>d. septime \<le> rs_InitTime d \<and> rs_Status d = MatchTxNotStable \<and> rs_ToChainID d = chainID \<and> rs_SwapHeight d = 0)
        (\<lambda>d. int (rs_SwapNonce d)) 20 (collRouterSwapResult s)))
       mgo_found)"

text \<open>The loop over the parts of a comma-separated list; a status is a 16-bit number.\<close>

fun statuses_loop :: "string list \<Rightarrow> SwapStatus list \<times> SwapStatus list" where
  "statuses_loop [] = ([], [])"
| "statuses_loop (part # parts) =
     (case statuses_loop parts of (registers, results) \<Rightarrow>
        if part = '''' then (registers, results)
        else case GetUint64FromStr part of
               Ret num \<Rightarrow>
                 (let st = num mod 65536 in
                  if IsResultStatus st then (registers, st # results) else (st # registers, results))
             | _ \<Rightarrow> (registers, results))"

definition getStatusesFromStr :: "string \<Rightarrow> SwapStatus list \<times> SwapStatus list" where
  "getStatusesFromStr st = statuses_loop (Split1 (CHR '','') st)"

definition result_updates :: "SwapResultUpdateItems \<Rightarrow> MgoSwapResult \<Rightarrow> MgoSwapResult" where
  "result_updates items d =
     (let d = d\<lparr>rs_Timestamp := it_Timestamp items\<rparr>;
          d = (if it_Status items \<noteq> KeepStatus then d\<lparr>rs_Status := it_Status items\<rparr> else d);
          d = (if it_MPC items \<noteq> '''' then d\<lparr>rs_MPC := it_MPC items\<rparr> else d);
          d = (if it_SwapTx items \<noteq> '''' then d\<lparr>rs_SwapTx := it_SwapTx items\<rparr> else d);
          d = (if it_SwapHeight items \<noteq> 0 then d\<lparr>rs_SwapHeight := it_SwapHeight items\<rparr> else d);
          d = (if it_SwapTime items \<noteq> 0 then d\<lparr>rs_SwapTime := it_SwapTime items\<rparr> else d);
          d = (if it_SwapValue items \<noteq> '''' then d\<lparr>rs_SwapValue := it_SwapValue items\<rparr> else d);
          d = (if it_Memo items \<noteq> '''' then d\<lparr>rs_Memo := it_Memo items\<rparr>
               else if it_Status items = MatchTxNotStable then d\<lparr>rs_Memo := ''''\<rparr> else d)
      in if it_SwapNonce items \<noteq> 0 then d\<lparr>rs_SwapNonce := it_SwapNonce items\<rparr> else d)"

definition UpdateRouterSwapResult :: "mgo_env \<Rightarrow> string \<Rightarrow> string \<Rightarrow> int \<Rightarrow> SwapResultUpdateItems \<Rightarrow> ('x, unit) storing" where
  "UpdateRouterSwapResult E fromChainID txid logindex items =
     sbind (if it_SwapNonce items \<noteq> 0 \<or> it_Status items = MatchTxNotStable
            then checkRouterSwapResultUpdate E fromChainID txid logindex else sret ()) (\<lambda>_.
     sbind (updateResult E (GetRouterSwapKey fromChainID txid logindex) (result_updates items)) mgo_return)"

section \<open>api.go: used r values\<close>

definition AddUsedRValue :: "mgo_env \<Rightarrow> string \<Rightarrow> string \<Rightarrow> ('x, unit) storing" where
  "AddUsedRValue E pubkey r =
     (let key = ToLower (r @ '':'' @ pubkey) in
     sbind (NowMilli E) (\<lambda>ts.
     let mr = \<lparr>ur_Key = key, ur_Timestamp = ts\<rparr> in
     sbind (insertRValue E mr) (\<lambda>err.
     case err of
       None \<Rightarrow> sret ()
     | Some DuplicateKey \<Rightarrow> slift (Err ErrItemIsDup)
     | Some _ \<Rightarrow>
         sget (\<lambda>s. sbind (extern (\<lambda>t. FindID (rvalueColl E) t key (collUsedRValue s))) (\<lambda>found.
         case found of
           Inr _ \<Rightarrow> slift (Err ErrItemIsDup)
         | Inl _ \<Rightarrow> sbind (insertRValue E mr) mgo_return)))))"

section \<open>api.go: administration\<close>

definition RouterAdminPassBigValue :: "mgo_env \<Rightarrow> string \<Rightarrow> string \<Rightarrow> int \<Rightarrow> ('x, unit) storing" where
  "RouterAdminPassBigValue E fromChainID txid logIndex =
     sbind (FindRouterSwap E fromChainID txid logIndex) (\<lambda>swap.
     sbind (sguard (sw_Status swap = TxWithBigValue)
              (StoreOther (''swap status is '' @ SwapStatus_String (sw_Status swap) @ '', not big value status '' @
                 SwapStatus_String TxWithBigValue))) (\<lambda>_.
     sbind (stry (FindRouterSwapResult E fromChainID txid logIndex)) (\<lambda>res.
     case res of
       Inr _ \<Rightarrow> slift (Err (StoreOther ''can not pass big value swap with result exist''))
     | Inl _ \<Rightarrow>
         sbind (Unix_now E) (\<lambda>nw.
         UpdateRouterSwapStatus E fromChainID txid logIndex TxNotSwapped nw ''''))))"

fun old_txs_status :: "IBridge \<Rightarrow> string list \<Rightarrow> ('x, TxStatus option \<times> string) storing" where
  "old_txs_status br [] = sret (None, '''')"
| "old_txs_status br (tx # txs) =
     sbind (extern (\<lambda>t. getTransactionStatus br t tx)) (\<lambda>(st, err).
     if err = None then sret (st, tx) else old_txs_status br txs)"

definition getSwapResultsTxStatus :: "IBridge \<Rightarrow> MgoSwapResult \<Rightarrow> ('x, TxStatus option \<times> string) storing" where
  "getSwapResultsTxStatus br res = old_txs_status br (rs_SwapTx res # rs_OldSwapTxs res)"

text \<open>\<open>RouterAdminReswap\<close> in three parts: the check of the account's nonce, the reset, and the whole.\<close>

definition checkReswapNonce :: "IBridge \<Rightarrow> MgoSwapResult \<Rightarrow> ('x, unit) storing" where
  "checkReswapNonce resBridge res =
     (case getPoolNonce resBridge of
        None \<Rightarrow> sret ()
      | Some poolNonce \<Rightarrow>
          sbind (extern (\<lambda>t. poolNonce t (rs_MPC res) ''latest'')) (\<lambda>n.
          case n of
            Inl e \<Rightarrow> slift (Err (StoreToken e))
          | Inr nonce \<Rightarrow> sguard (rs_SwapNonce res < nonce) (StoreOther ''can not retry swap with lower nonce'')))"

definition resetSwap :: "mgo_env \<Rightarrow> string \<Rightarrow> string \<Rightarrow> int \<Rightarrow> ('x, unit) storing" where
  "resetSwap E fromChainID txid logIndex =
     sbind (Unix_now E) (\<lambda>nw.
     sbind (UpdateRouterSwapResultStatus E fromChainID txid logIndex StReswapping nw '''') (\<lambda>_.
     sbind (Unix_now E) (\<lambda>nw2.
     UpdateRouterSwapStatus E fromChainID txid logIndex TxNotSwapped nw2 '''')))"

definition RouterAdminReswap :: "mgo_env \<Rightarrow> router_state \<Rightarrow> string \<Rightarrow> string \<Rightarrow> int \<Rightarrow> ('x, unit) storing" where
  "RouterAdminReswap E r fromChainID txid logIndex =
     sbind (FindRouterSwap E fromChainID txid logIndex) (\<lambda>swap.
     sbind (sguard (sw_Status swap = TxProcessed)
              (StoreOther (''swap status is '' @ SwapStatus_String (sw_Status swap) @ '', can not reswap''))) (\<lambda>_.
     sbind (FindRouterSwapResult E fromChainID txid logIndex) (\<lambda>res.
     sbind (sguard (rs_Status res = MatchTxFailed)
              (StoreOther (''swap result status is '' @ SwapStatus_String (rs_Status res) @ '', can not reswap''))) (\<lambda>_.
     sbind (sguard (rs_SwapTx res \<noteq> '''') (StoreOther ''swap without swaptx'')) (\<lambda>_.
     sbind (slift (case GetBridgeByChainID r (sw_ToChainID swap) of
                     None \<Rightarrow> Err (StoreToken ErrNoBridgeForChainID) | Some br \<Rightarrow> Ret br)) (\<lambda>resBridge.
     sbind (getSwapResultsTxStatus resBridge res) (\<lambda>(txStatus, txHash).
     if (case txStatus of None \<Rightarrow> False | Some st \<Rightarrow> 0 < BlockHeight st \<and> \<not> IsSwapTxOnChainAndFailed (Some st)) then
       sbind (Unix_now E) (\<lambda>nw.
       sbind (stry (UpdateRouterSwapResultStatus E fromChainID txid logIndex MatchTxNotStable nw '''')) (\<lambda>_.
       slift (Err (StoreOther (''swap succeed with swaptx '' @ txHash)))))
     else
       sbind (checkReswapNonce resBridge res) (\<lambda>_.
       resetSwap E fromChainID txid logIndex))))))))"

definition GetRegisteredRouterSwap :: "mgo_env \<Rightarrow> string \<Rightarrow> string \<Rightarrow> int \<Rightarrow> ('x, MgoSwap option \<times> bool) storing" where
  "GetRegisteredRouterSwap E fromChainID txid logIndex =
     sbind (stry (FindRouterSwap E fromChainID txid logIndex)) (\<lambda>found.
     case found of
       Inl _ \<Rightarrow> sret (None, False)
     | Inr oldSwap \<Rightarrow>
         if IsRegisteredOk (sw_Status oldSwap) then sret (Some oldSwap, True)
         else sbind (stry (FindRouterSwapResult E fromChainID txid logIndex)) (\<lambda>res.
              case res of
                Inr _ \<Rightarrow> sret (Some oldSwap, True)
              | Inl _ \<Rightarrow> sret (Some oldSwap, False)))"


end
