(* ===== verification/SwapStoreLaws.thy ===== *)
theory SwapStoreLaws
  imports SwapStore "HOL-Library.Sublist"
begin

text \<open>
  What the operations of package \<open>mongodb\<close> guarantee, for every driver that behaves as
  documented and every sequence of operations: registered swaps and results are never removed
  and never change identity, every document stays under the key built from its fields, a swap
  nonce is written once, an r value is used once. The searches by regular expression are a
  documented hypothesis as well; the last section shows what they do to an administrator's call.
\<close>

section \<open>The documented behaviour of the driver\<close>

definition insert_law :: "('d \<Rightarrow> string) \<Rightarrow> 'd coll_api \<Rightarrow> bool" where
  "insert_law key api \<longleftrightarrow>
     (\<forall>t d c err c'. InsertOne api t d c = (err, c') \<longrightarrow>
        (err = None \<longrightarrow> c (key d) = None \<and> c' = c(key d \<mapsto> d)) \<and>
        (err = Some DuplicateKey \<longrightarrow> c (key d) \<noteq> None \<and> c' = c) \<and>
        (c' = c \<or> c (key d) = None \<and> c' = c(key d \<mapsto> d)))"

text \<open>A failed update may or may not have been applied; an update of a missing \<open>_id\<close> is no error.\<close>

definition update_law :: "'d coll_api \<Rightarrow> bool" where
  "update_law api \<longleftrightarrow>
     (\<forall>t k f c err c'. UpdateByID api t k f c = (err, c') \<longrightarrow>
        (err = None \<longrightarrow> c' = c(k := map_option f (c k))) \<and>
        (c' = c \<or> c' = c(k := map_option f (c k))))"

definition find_law :: "'d coll_api \<Rightarrow> bool" where
  "find_law api \<longleftrightarrow>
     (\<forall>t k c.
        (\<forall>d. FindID api t k c = Inr d \<longrightarrow> c k = Some d) \<and>
        (FindID api t k c = Inl ErrNoDocuments \<longrightarrow> c k = None))"

text \<open>\<open>matches p k\<close>: the text \<open>k\<close> has a match of the pattern \<open>p\<close>.\<close>

definition regex_law :: "(string \<Rightarrow> string \<Rightarrow> bool) \<Rightarrow> 'd coll_api \<Rightarrow> bool" where
  "regex_law matches api \<longleftrightarrow>
     (\<forall>t p c.
        (\<forall>d. FindRegex api t p c = Inr d \<longrightarrow> (\<exists>k. matches p k \<and> c k = Some d)) \<and>
        (FindRegex api t p c = Inl ErrNoDocuments \<longrightarrow> (\<forall>k. matches p k \<longrightarrow> c k = None)))"

definition coll_law :: "(string \<Rightarrow> string \<Rightarrow> bool) \<Rightarrow> ('d \<Rightarrow> string) \<Rightarrow> 'd coll_api \<Rightarrow> bool" where
  "coll_law matches key api \<longleftrightarrow> insert_law key api \<and> update_law api \<and> find_law api \<and> regex_law matches api"

definition documented :: "(string \<Rightarrow> string \<Rightarrow> bool) \<Rightarrow> mgo_env \<Rightarrow> bool" where
  "documented matches E \<longleftrightarrow>
     coll_law matches sw_Key (swapColl E) \<and> coll_law matches rs_Key (resultColl E) \<and> coll_law matches ur_Key (rvalueColl E)"

lemma insert_lawD:
  assumes "insert_law key api" and "InsertOne api t d c = (err, c')"
  shows "c' = c \<or> c (key d) = None \<and> c' = c(key d \<mapsto> d)"
    and "err = None \<Longrightarrow> c (key d) = None \<and> c' = c(key d \<mapsto> d)"
    and "err = Some DuplicateKey \<Longrightarrow> c (key d) \<noteq> None \<and> c' = c"
  using assms by (simp_all add: insert_law_def)

lemma update_lawD:
  assumes "update_law api" and "UpdateByID api t k f c = (err, c')"
  shows "c' = c \<or> c' = c(k := map_option f (c k))"
    and "err = None \<Longrightarrow> c' = c(k := map_option f (c k))"
  using assms by (simp_all add: update_law_def)

lemma find_lawD: "find_law api \<Longrightarrow> FindID api t k c = Inr d \<Longrightarrow> c k = Some d"
  by (simp add: find_law_def)

lemma regex_lawD: "regex_law matches api \<Longrightarrow> FindRegex api t p c = Inr d \<Longrightarrow> \<exists>k. matches p k \<and> c k = Some d"
  by (simp add: regex_law_def)

lemma documentedD:
  assumes "documented matches E"
  shows "insert_law sw_Key (swapColl E)" "update_law (swapColl E)" "find_law (swapColl E)" "regex_law matches (swapColl E)"
    and "insert_law rs_Key (resultColl E)" "update_law (resultColl E)" "find_law (resultColl E)"
      "regex_law matches (resultColl E)"
    and "insert_law ur_Key (rvalueColl E)" "find_law (rvalueColl E)"
  using assms by (simp_all add: documented_def coll_law_def)

section \<open>Sequences of operations\<close>

datatype store_op =
    OpAddRouterSwap MgoSwap
  | OpPassRouterSwapVerify string string int int
  | OpUpdateRouterSwapStatus string string int SwapStatus int string
  | OpUpdateRouterSwapInfoAndStatus string string int MgoSwapInfo SwapStatus int string
  | OpAddRouterSwapResult MgoSwapResult
  | OpAllocateRouterSwapNonce BuildTxArgs nat bool
  | OpUpdateRouterSwapResultStatus string string int SwapStatus int string
  | OpUpdateRouterOldSwapTxs string string int string
  | OpUpdateRouterSwapResult string string int SwapResultUpdateItems
  | OpAddUsedRValue string string
  | OpRouterAdminPassBigValue string string int
  | OpRouterAdminReswap router_state string string int

fun exec :: "mgo_env \<Rightarrow> store_op \<Rightarrow> 'x store_scheme \<Rightarrow> 'x store_scheme" where
  "exec E (OpAddRouterSwap ms) s = snd (AddRouterSwap E ms s)"
| "exec E (OpPassRouterSwapVerify c t l ts) s = snd (PassRouterSwapVerify E c t l ts s)"
| "exec E (OpUpdateRouterSwapStatus c t l st ts memo) s = snd (UpdateRouterSwapStatus E c t l st ts memo s)"
| "exec E (OpUpdateRouterSwapInfoAndStatus c t l i st ts memo) s = snd (UpdateRouterSwapInfoAndStatus E c t l i st ts memo s)"
| "exec E (OpAddRouterSwapResult mr) s = snd (AddRouterSwapResult E mr s)"
| "exec E (OpAllocateRouterSwapNonce args n rec) s = snd (AllocateRouterSwapNonce E args n rec s)"
| "exec E (OpUpdateRouterSwapResultStatus c t l st ts memo) s = snd (UpdateRouterSwapResultStatus E c t l st ts memo s)"
| "exec E (OpUpdateRouterOldSwapTxs c t l tx) s = snd (UpdateRouterOldSwapTxs E c t l tx s)"
| "exec E (OpUpdateRouterSwapResult c t l items) s = snd (UpdateRouterSwapResult E c t l items s)"
| "exec E (OpAddUsedRValue pubkey r) s = snd (AddUsedRValue E pubkey r s)"
| "exec E (OpRouterAdminPassBigValue c t l) s = snd (RouterAdminPassBigValue E c t l s)"
| "exec E (OpRouterAdminReswap r c t l) s = snd (RouterAdminReswap E r c t l s)"

definition exec_all :: "mgo_env \<Rightarrow> store_op list \<Rightarrow> 'x store_scheme \<Rightarrow> 'x store_scheme" where
  "exec_all E ops s = fold (exec E) ops s"

text \<open>The results that an operation may reset for another swap.\<close>

fun resets :: "store_op \<Rightarrow> string set" where
  "resets (OpUpdateRouterSwapResultStatus c t l st ts memo) = (if st = StReswapping then {GetRouterSwapKey c t l} else {})"
| "resets (OpRouterAdminReswap r c t l) = {GetRouterSwapKey c t l}"
| "resets _ = {}"

section \<open>One proof for every relation between stores\<close>

definition swap_id :: "MgoSwap \<Rightarrow> string \<times> nat \<times> string \<times> string \<times> string \<times> string \<times> string \<times> int \<times> string \<times> string" where
  "swap_id d = (sw_Key d, sw_SwapType d, sw_TxID d, sw_TxTo d, sw_From d, sw_Bind d, sw_Value d, sw_LogIndex d,
     sw_FromChainID d, sw_ToChainID d)"

definition result_id ::
    "MgoSwapResult \<Rightarrow> string \<times> nat \<times> string \<times> string \<times> nat \<times> nat \<times> string \<times> string \<times> string \<times> string \<times> int \<times>
       string \<times> string \<times> MgoSwapInfo" where
  "result_id d = (rs_Key d, rs_SwapType d, rs_TxID d, rs_TxTo d, rs_TxHeight d, rs_TxTime d, rs_From d, rs_To d, rs_Bind d,
     rs_Value d, rs_LogIndex d, rs_FromChainID d, rs_ToChainID d, rs_SwapInfo d)"

text \<open>No other result's key has a match of the key \<open>k\<close>.\<close>

definition exact :: "(string \<Rightarrow> string \<Rightarrow> bool) \<Rightarrow> 'd coll \<Rightarrow> string \<Rightarrow> bool" where
  "exact matches c k \<longleftrightarrow> (\<forall>k'. c k' \<noteq> None \<longrightarrow> matches k k' \<longrightarrow> k' = k)"

lemma exact_antimono: "exact matches c' k \<Longrightarrow> dom c \<subseteq> dom c' \<Longrightarrow> exact matches c k"
  by (auto simp: exact_def dom_def subset_iff)

text \<open>The updates of a result that the operations make: \<open>K\<close> are the keys that may be reset.\<close>

definition allowed_update ::
    "(string \<Rightarrow> string \<Rightarrow> bool) \<Rightarrow> string set \<Rightarrow> string \<Rightarrow> (MgoSwapResult \<Rightarrow> MgoSwapResult) \<Rightarrow> MgoSwapResult coll \<Rightarrow> bool" where
  "allowed_update matches K k f c \<longleftrightarrow>
     (\<forall>d. result_id (f d) = result_id d) \<and>
     (\<forall>d. c k = Some d \<longrightarrow> k \<notin> K \<longrightarrow>
        (exact matches c k \<longrightarrow> rs_SwapNonce (f d) = rs_SwapNonce d \<or> rs_SwapNonce d = 0) \<and>
        (rs_SwapTx d \<noteq> '''' \<longrightarrow> rs_SwapTx (f d) \<noteq> ''''))"

text \<open>The result at the key, if a search for it is exact, has no nonce yet.\<close>

definition unallocated :: "(string \<Rightarrow> string \<Rightarrow> bool) \<Rightarrow> string \<Rightarrow> 'x store_scheme \<Rightarrow> bool" where
  "unallocated matches k s \<longleftrightarrow>
     (\<forall>d. collRouterSwapResult s k = Some d \<longrightarrow> exact matches (collRouterSwapResult s) k \<longrightarrow> rs_SwapNonce d = 0)"

locale store_evolution = evolution R for R :: "'x store_scheme \<Rightarrow> 'x store_scheme \<Rightarrow> bool" +
  fixes matches :: "string \<Rightarrow> string \<Rightarrow> bool" and E :: mgo_env and K :: "string set"
  assumes driver: "documented matches E"
    and ticks: "R s (s\<lparr>tick := n\<rparr>)"
    and insert_swap: "sw_Key d = GetRouterSwapKey (sw_FromChainID d) (sw_TxID d) (sw_LogIndex d) \<Longrightarrow>
      collRouterSwap s (sw_Key d) = None \<Longrightarrow> R s (s\<lparr>collRouterSwap := (collRouterSwap s)(sw_Key d \<mapsto> d)\<rparr>)"
    and update_swap: "(\<And>d. swap_id (f d) = swap_id d) \<Longrightarrow>
      R s (s\<lparr>collRouterSwap := (collRouterSwap s)(k := map_option f (collRouterSwap s k))\<rparr>)"
    and insert_result: "rs_Key e = GetRouterSwapKey (rs_FromChainID e) (rs_TxID e) (rs_LogIndex e) \<Longrightarrow>
      collRouterSwapResult s (rs_Key e) = None \<Longrightarrow> R s (s\<lparr>collRouterSwapResult := (collRouterSwapResult s)(rs_Key e \<mapsto> e)\<rparr>)"
    and update_result: "allowed_update matches K k g (collRouterSwapResult s) \<Longrightarrow>
      R s (s\<lparr>collRouterSwapResult := (collRouterSwapResult s)(k := map_option g (collRouterSwapResult s k))\<rparr>)"
    and insert_rvalue: "collUsedRValue s (ur_Key v) = None \<Longrightarrow> R s (s\<lparr>collUsedRValue := (collUsedRValue s)(ur_Key v \<mapsto> v)\<rparr>)"
begin

lemma srel_extern: "srel R (extern f)"
  by (simp add: sfrom_def extern_def ticks)

lemma srel_clock: "srel R (Unix_now E')" "srel R (NowMilli E')"
  by (simp_all add: Unix_now_def NowMilli_def srel_extern)

lemma srel_mgo: "srel R (mgo_return err)" "srel R (mgo_found r)"
  by (simp_all add: mgo_return_def mgo_found_def sfrom_steps)

lemma srel_find:
  "srel R (FindRouterSwap E c t l)" "srel R (FindRouterSwapResult E c t l)" "srel R (checkRouterSwapResultUpdate E c t l)"
  unfolding FindRouterSwap_def FindRouterSwapResult_def checkRouterSwapResultUpdate_def
  by (intro srel_intros srel_extern srel_mgo)+

lemma srel_coll_write:
  assumes "\<And>s err c. P s \<Longrightarrow> f (tick s) s = (err, c) \<Longrightarrow>
      put c (s\<lparr>tick := Suc (tick s)\<rparr>) = s\<lparr>tick := Suc (tick s)\<rparr> \<or>
      R (s\<lparr>tick := Suc (tick s)\<rparr>) (put c (s\<lparr>tick := Suc (tick s)\<rparr>))"
  shows "sfrom P R (coll_write put f)"
  unfolding sfrom_def coll_write_def
proof (intro allI impI)
  fix s assume "P s"
  obtain err c where "f (tick s) s = (err, c)" by fastforce
  with assms [OF \<open>P s\<close> this] show "R s (snd (case f (tick s) s of (err, c) \<Rightarrow> (Ret err, put c (s\<lparr>tick := Suc (tick s)\<rparr>))))"
    using ticks [of s "Suc (tick s)"] by (auto intro: R_trans)
qed

lemma srel_insertSwap:
  assumes "sw_Key d = GetRouterSwapKey (sw_FromChainID d) (sw_TxID d) (sw_LogIndex d)"
  shows "srel R (insertSwap E d)"
  unfolding insertSwap_def
  using insert_swap [OF assms, of "s\<lparr>tick := Suc (tick s)\<rparr>" for s]
  by (intro srel_coll_write) (auto dest: insert_lawD(1) [OF documentedD(1) [OF driver]])

lemma srel_updateSwap:
  assumes "\<And>d. swap_id (f d) = swap_id d"
  shows "srel R (updateSwap E k f)"
  unfolding updateSwap_def
  using update_swap [OF assms, of "s\<lparr>tick := Suc (tick s)\<rparr>" for s]
  by (intro srel_coll_write) (auto dest: update_lawD(1) [OF documentedD(2) [OF driver]])

lemma srel_insertResult:
  assumes "rs_Key d = GetRouterSwapKey (rs_FromChainID d) (rs_TxID d) (rs_LogIndex d)"
  shows "srel R (insertResult E d)"
  unfolding insertResult_def
  using insert_result [OF assms, of "s\<lparr>tick := Suc (tick s)\<rparr>" for s]
  by (intro srel_coll_write) (auto dest: insert_lawD(1) [OF documentedD(5) [OF driver]])

lemma sfrom_updateResult: "sfrom (\<lambda>s. allowed_update matches K k f (collRouterSwapResult s)) R (updateResult E k f)"
  unfolding updateResult_def
  using update_result [of k f "s\<lparr>tick := Suc (tick s)\<rparr>" for s]
  by (intro srel_coll_write) (auto dest: update_lawD(1) [OF documentedD(6) [OF driver]])

lemma srel_insertRValue: "srel R (insertRValue E v)"
  unfolding insertRValue_def
  using insert_rvalue [of "s\<lparr>tick := Suc (tick s)\<rparr>" v for s]
  by (intro srel_coll_write) (auto dest: insert_lawD(1) [OF documentedD(9) [OF driver]])

lemma srel_updateResult:
  assumes "\<And>d. result_id (f d) = result_id d"
    and "k \<in> K \<or> (\<forall>d. rs_SwapNonce (f d) = rs_SwapNonce d \<and> (rs_SwapTx d \<noteq> '''' \<longrightarrow> rs_SwapTx (f d) \<noteq> ''''))"
  shows "srel R (updateResult E k f)"
  using assms by (intro sfrom_weaken [OF sfrom_updateResult]) (auto simp: allowed_update_def)

lemma unallocated_check:
  assumes "checkRouterSwapResultUpdate E c t l s = (Ret u, s')"
  shows "unallocated matches (GetRouterSwapKey c t l) s'"
proof -
  let ?k = "GetRouterSwapKey c t l"
  from assms obtain d where d: "FindRegex (resultColl E) (tick s) ?k (collRouterSwapResult s) = Inr d" "rs_SwapNonce d = 0"
    and s': "collRouterSwapResult s' = collRouterSwapResult s"
    unfolding checkRouterSwapResultUpdate_def FindRouterSwapResult_def mgo_found_def
    by (auto simp: outcome_simps extern_def mgoError_def split: sum.splits mongo_error.splits)
  from regex_lawD [OF documentedD(8) [OF driver] d(1)]
  obtain k where "matches ?k k" "collRouterSwapResult s k = Some d" by blast
  then show ?thesis using d(2) unfolding unallocated_def exact_def s' by (metis option.distinct(1) option.inject)
qed

lemma unallocated_clock: "unallocated matches k s \<Longrightarrow> Unix_now E' s = (Ret a, s') \<Longrightarrow> unallocated matches k s'"
  by (auto simp: Unix_now_def extern_def unallocated_def)

lemma sfrom_first_nonce:
  assumes "\<And>d. result_id (f d) = result_id d" and "\<And>d. rs_SwapTx d \<noteq> '''' \<Longrightarrow> rs_SwapTx (f d) \<noteq> ''''"
  shows "sfrom (unallocated matches k) R (updateResult E k f)"
  using assms by (intro sfrom_weaken [OF sfrom_updateResult]) (auto simp: allowed_update_def unallocated_def)

lemmas srel_ops = srel_intros srel_extern srel_clock srel_mgo srel_find srel_insertSwap srel_updateSwap srel_insertResult
  srel_updateResult srel_insertRValue

lemma srel_AddRouterSwap: "srel R (AddRouterSwap E ms)"
  unfolding AddRouterSwap_def Let_def by (intro srel_ops) (simp_all add: swap_id_def)

lemma srel_PassRouterSwapVerify: "srel R (PassRouterSwapVerify E c t l ts)"
  unfolding PassRouterSwapVerify_def by (intro srel_ops) (simp add: swap_id_def)

lemma srel_UpdateRouterSwapStatus: "srel R (UpdateRouterSwapStatus E c t l st ts memo)"
  unfolding UpdateRouterSwapStatus_def by (intro srel_ops) (simp add: swap_id_def)

lemma srel_UpdateRouterSwapInfoAndStatus: "srel R (UpdateRouterSwapInfoAndStatus E c t l i st ts memo)"
  unfolding UpdateRouterSwapInfoAndStatus_def Let_def by (intro srel_ops) (simp add: swap_id_def)

lemma srel_AddRouterSwapResult: "srel R (AddRouterSwapResult E mr)"
  unfolding AddRouterSwapResult_def by (intro srel_ops) simp

lemma srel_UpdateRouterSwapResultStatus:
  "st = StReswapping \<Longrightarrow> GetRouterSwapKey c t l \<in> K \<Longrightarrow> srel R (UpdateRouterSwapResultStatus E c t l st ts memo)"
  "st \<noteq> StReswapping \<Longrightarrow> srel R (UpdateRouterSwapResultStatus E c t l st ts memo)"
  unfolding UpdateRouterSwapResultStatus_def by (intro srel_ops; simp add: result_id_def)+

lemma srel_UpdateRouterOldSwapTxs: "srel R (UpdateRouterOldSwapTxs E c t l tx)"
  unfolding UpdateRouterOldSwapTxs_def by (intro srel_ops) (simp_all add: result_id_def)

lemma srel_AddUsedRValue: "srel R (AddUsedRValue E pubkey r)"
  unfolding AddUsedRValue_def Let_def
  by (intro srel_ops) (auto split: mongo_error.split intro!: srel_ops)

lemma srel_RouterAdminPassBigValue: "srel R (RouterAdminPassBigValue E c t l)"
  unfolding RouterAdminPassBigValue_def by (intro srel_ops srel_UpdateRouterSwapStatus)

lemma srel_old_txs_status: "srel R (old_txs_status br txs)"
  by (induction txs) (auto intro!: srel_ops)

lemma srel_RouterAdminReswap: "GetRouterSwapKey c t l \<in> K \<Longrightarrow> srel R (RouterAdminReswap E r c t l)"
  unfolding RouterAdminReswap_def getSwapResultsTxStatus_def checkReswapNonce_def resetSwap_def
  by (intro srel_ops srel_old_txs_status srel_UpdateRouterSwapStatus srel_UpdateRouterSwapResultStatus)
     (simp_all add: swap_statuses)

lemma result_id_updates: "result_id (result_updates items d) = result_id d"
  "rs_SwapTx d \<noteq> '''' \<Longrightarrow> rs_SwapTx (result_updates items d) \<noteq> ''''"
  by (simp_all add: result_updates_def result_id_def Let_def)

lemma srel_UpdateRouterSwapResult: "srel R (UpdateRouterSwapResult E c t l items)"
proof (cases "it_SwapNonce items \<noteq> 0 \<or> it_Status items = MatchTxNotStable")
  case True
  have "srel R (sbind (checkRouterSwapResultUpdate E c t l)
      (\<lambda>_. sbind (updateResult E (GetRouterSwapKey c t l) (result_updates items)) mgo_return))"
  proof (rule sfrom_sbind [where Q = "\<lambda>_. unallocated matches (GetRouterSwapKey c t l)"])
    show "sfrom (unallocated matches (GetRouterSwapKey c t l)) R
        (sbind (updateResult E (GetRouterSwapKey c t l) (result_updates items)) mgo_return)"
      by (rule sfrom_sbind [where Q = "\<lambda>_ _. True"], rule sfrom_first_nonce [OF result_id_updates])
         (auto intro: srel_mgo)
  qed (auto intro: srel_find unallocated_check)
  with True show ?thesis by (simp add: UpdateRouterSwapResult_def)
next
  case False
  then have "rs_SwapNonce (result_updates items d) = rs_SwapNonce d" for d
    by (simp add: result_updates_def Let_def)
  then have "srel R (updateResult E (GetRouterSwapKey c t l) (result_updates items))"
    using result_id_updates by (intro srel_updateResult) auto
  with False show ?thesis
    by (auto simp: UpdateRouterSwapResult_def intro!: srel_sbind sfrom_steps srel_mgo)
qed

lemma srel_AllocateRouterSwapNonce: "srel R (AllocateRouterSwapNonce E args n rec)"
  unfolding AllocateRouterSwapNonce_def Let_def
  apply (rule srel_sbind, intro srel_ops)
  apply (rule sfrom_sbind [where Q = "\<lambda>_. unallocated matches (GetRouterSwapKey (bi_String (args_FromChainID (swapArgs args)))
      (args_SwapID (swapArgs args)) (args_LogIndex (swapArgs args)))"])
    apply (intro srel_ops)
   apply (erule unallocated_check)
  apply (rule sfrom_sbind [where Q = "\<lambda>_. unallocated matches (GetRouterSwapKey (bi_String (args_FromChainID (swapArgs args)))
      (args_SwapID (swapArgs args)) (args_LogIndex (swapArgs args)))"])
    apply (rule sfrom_srel, intro srel_ops)
   apply (erule (1) unallocated_clock)
  apply (rule sfrom_sbind [where Q = "\<lambda>_ _. True"])
    apply (rule sfrom_first_nonce)
     apply (simp add: result_id_def split: option.split)
    apply (simp split: option.split)
   apply simp
  apply (intro srel_ops)
  apply (simp add: swap_id_def)
  done

theorem exec_related: "resets op \<subseteq> K \<Longrightarrow> R s (exec E op s)"
  using srel_AddRouterSwap srel_PassRouterSwapVerify srel_UpdateRouterSwapStatus srel_UpdateRouterSwapInfoAndStatus
    srel_AddRouterSwapResult srel_AllocateRouterSwapNonce srel_UpdateRouterSwapResultStatus srel_UpdateRouterOldSwapTxs
    srel_UpdateRouterSwapResult srel_AddUsedRValue srel_RouterAdminPassBigValue srel_RouterAdminReswap
  by (cases op) (auto simp: sfrom_def split: if_splits)

theorem exec_all_related: "\<Union> (resets ` set ops) \<subseteq> K \<Longrightarrow> R s (exec_all E ops s)"
  by (induction ops arbitrary: s) (auto simp: exec_all_def R_refl intro: R_trans [OF exec_related])

end

section \<open>Three relations\<close>

text \<open>Documents are never removed; who sent what from where to where never changes.\<close>

definition coll_keeps :: "('d \<Rightarrow> 'i) \<Rightarrow> 'd coll \<Rightarrow> 'd coll \<Rightarrow> bool" where
  "coll_keeps ident c c' \<longleftrightarrow> (\<forall>k d. c k = Some d \<longrightarrow> (\<exists>d'. c' k = Some d' \<and> ident d' = ident d))"

definition same_identity :: "'x store_scheme \<Rightarrow> 'x store_scheme \<Rightarrow> bool" where
  "same_identity s s' \<longleftrightarrow>
     coll_keeps swap_id (collRouterSwap s) (collRouterSwap s') \<and>
     coll_keeps result_id (collRouterSwapResult s) (collRouterSwapResult s') \<and>
     coll_keeps id (collUsedRValue s) (collUsedRValue s')"

lemma coll_keeps_laws:
  "coll_keeps ident c c"
  "c k = None \<Longrightarrow> coll_keeps ident c (c(k \<mapsto> d))"
  "(\<And>d. ident (f d) = ident d) \<Longrightarrow> coll_keeps ident c (c(k := map_option f (c k)))"
  by (auto simp: coll_keeps_def)

lemma coll_keeps_trans: "coll_keeps ident a b \<Longrightarrow> coll_keeps ident b c \<Longrightarrow> coll_keeps ident a c"
  unfolding coll_keeps_def by metis

text \<open>Every document lies under the key that its fields give.\<close>

definition keys_ok :: "'x store_scheme \<Rightarrow> bool" where
  "keys_ok s \<longleftrightarrow>
     (\<forall>k d. collRouterSwap s k = Some d \<longrightarrow>
        sw_Key d = k \<and> k = GetRouterSwapKey (sw_FromChainID d) (sw_TxID d) (sw_LogIndex d)) \<and>
     (\<forall>k d. collRouterSwapResult s k = Some d \<longrightarrow>
        rs_Key d = k \<and> k = GetRouterSwapKey (rs_FromChainID d) (rs_TxID d) (rs_LogIndex d))"

text \<open>
  A result keeps a nonce once it has one, unless it is reset (\<open>K\<close>) or its key is ambiguous, and
  never loses its swap transaction unless it is reset.
\<close>

definition nonces_kept :: "(string \<Rightarrow> string \<Rightarrow> bool) \<Rightarrow> string set \<Rightarrow> 'x store_scheme \<Rightarrow> 'x store_scheme \<Rightarrow> bool" where
  "nonces_kept matches K s s' \<longleftrightarrow>
     dom (collRouterSwapResult s) \<subseteq> dom (collRouterSwapResult s') \<and>
     (\<forall>k d. k \<notin> K \<longrightarrow> exact matches (collRouterSwapResult s') k \<longrightarrow> collRouterSwapResult s k = Some d \<longrightarrow> rs_SwapNonce d \<noteq> 0 \<longrightarrow>
        (\<exists>d'. collRouterSwapResult s' k = Some d' \<and> rs_SwapNonce d' = rs_SwapNonce d)) \<and>
     (\<forall>k d. k \<notin> K \<longrightarrow> collRouterSwapResult s k = Some d \<longrightarrow> rs_SwapTx d \<noteq> '''' \<longrightarrow>
        (\<exists>d'. collRouterSwapResult s' k = Some d' \<and> rs_SwapTx d' \<noteq> ''''))"

lemma keys_ok_frame:
  "keys_ok (s\<lparr>tick := n\<rparr>) = keys_ok s"
  "keys_ok (s\<lparr>collUsedRValue := c\<rparr>) = keys_ok s"
  by (simp_all add: keys_ok_def)

lemma exact_upd [simp]: "c k \<noteq> None \<Longrightarrow> exact matches (c(k \<mapsto> d)) k' \<longleftrightarrow> exact matches c k'"
  by (auto simp: exact_def)

locale documented_store =
  fixes matches :: "string \<Rightarrow> string \<Rightarrow> bool" and E :: mgo_env
  assumes documented: "documented matches E"

sublocale documented_store \<subseteq> identity: store_evolution same_identity matches E UNIV
  by unfold_locales
    (auto simp: documented same_identity_def allowed_update_def coll_keeps_laws intro: coll_keeps_trans)

sublocale documented_store \<subseteq> keys: store_evolution "\<lambda>s s'. keys_ok s \<longrightarrow> keys_ok s'" matches E UNIV
proof
  show "keys_ok s \<longrightarrow> keys_ok (s\<lparr>collRouterSwap := (collRouterSwap s)(sw_Key d \<mapsto> d)\<rparr>)"
    if "sw_Key d = GetRouterSwapKey (sw_FromChainID d) (sw_TxID d) (sw_LogIndex d)" for d and s :: "'a store_scheme"
    using that unfolding keys_ok_def by (simp add: fun_upd_apply)
  show "keys_ok s \<longrightarrow> keys_ok (s\<lparr>collRouterSwapResult := (collRouterSwapResult s)(rs_Key d \<mapsto> d)\<rparr>)"
    if "rs_Key d = GetRouterSwapKey (rs_FromChainID d) (rs_TxID d) (rs_LogIndex d)" for d and s :: "'a store_scheme"
    using that unfolding keys_ok_def by (simp add: fun_upd_apply)
  show "keys_ok s \<longrightarrow> keys_ok (s\<lparr>collRouterSwap := (collRouterSwap s)(k := map_option f (collRouterSwap s k))\<rparr>)"
    if "\<And>d. swap_id (f d) = swap_id d" for f k and s :: "'a store_scheme"
    using that by (auto simp: keys_ok_def swap_id_def)
  show "keys_ok s \<longrightarrow> keys_ok (s\<lparr>collRouterSwapResult := (collRouterSwapResult s)(k := map_option g (collRouterSwapResult s k))\<rparr>)"
    if "allowed_update matches UNIV k g (collRouterSwapResult s)" for k g and s :: "'a store_scheme"
    using that by (auto simp: keys_ok_def allowed_update_def result_id_def)
qed (simp_all add: documented keys_ok_frame)

sublocale documented_store \<subseteq> nonces: store_evolution "nonces_kept matches K" matches E K for K
proof
  show "nonces_kept matches K s u" if "nonces_kept matches K s t" "nonces_kept matches K t u" for s t u :: "'a store_scheme"
  proof -
    have "dom (collRouterSwapResult s) \<subseteq> dom (collRouterSwapResult u)"
      using that unfolding nonces_kept_def by blast
    moreover have "exact matches (collRouterSwapResult t) k" if "exact matches (collRouterSwapResult u) k" for k
      using that \<open>nonces_kept matches K t u\<close> by (auto simp: nonces_kept_def intro: exact_antimono)
    ultimately show ?thesis using that unfolding nonces_kept_def by metis
  qed
  show "nonces_kept matches K s (s\<lparr>collRouterSwapResult := (collRouterSwapResult s)(k := map_option g (collRouterSwapResult s k))\<rparr>)"
    if "allowed_update matches K k g (collRouterSwapResult s)" for k g and s :: "'a store_scheme"
    using that by (cases "collRouterSwapResult s k") (auto simp: nonces_kept_def allowed_update_def)
qed (auto simp: documented nonces_kept_def)

section \<open>A driver in memory\<close>

text \<open>
  Collections that never fail, with a search that returns the first match among the keys of a
  list, to evaluate the operations on examples. A pattern without special characters matches
  wherever it occurs, in any case of letters.
\<close>

definition occurs :: "string \<Rightarrow> string \<Rightarrow> bool" where
  "occurs p k \<longleftrightarrow> list_ex (\<lambda>i. take (length p) (drop i (ToLower k)) = ToLower p) [0..<Suc (length k)]"

definition memory_coll :: "string list \<Rightarrow> ('d \<Rightarrow> string) \<Rightarrow> 'd coll_api" where
  "memory_coll ks key =
     \<lparr>InsertOne = (\<lambda>t d c. if c (key d) = None then (None, c(key d \<mapsto> d)) else (Some DuplicateKey, c)),
      UpdateByID = (\<lambda>t k f c. (None, c(k := map_option f (c k)))),
      FindID = (\<lambda>t k c. case c k of None \<Rightarrow> Inl ErrNoDocuments | Some d \<Rightarrow> Inr d),
      FindRegex = (\<lambda>t p c. case filter (\<lambda>k. occurs p k \<and> c k \<noteq> None) ks of
         [] \<Rightarrow> Inl (MongoFailure ''no match among the known keys'') | k # _ \<Rightarrow> Inr (the (c k))),
      FindSorted = (\<lambda>t q sk limit c. Inr (take (nat limit) (sort_key sk (filter q (map (the \<circ> c) (filter (\<lambda>k. c k \<noteq> None) ks))))))\<rparr>"

definition memory_env :: "string list \<Rightarrow> mgo_env" where
  "memory_env ks =
     \<lparr>swapColl = memory_coll ks sw_Key, resultColl = memory_coll ks rs_Key, rvalueColl = memory_coll ks ur_Key,
      unixNano = (\<lambda>t. int t * 1000000000)\<rparr>"

lemma filter_hd_in: "filter P xs = k # ys \<Longrightarrow> k \<in> set xs \<and> P k"
  by (drule Cons_eq_filterD [OF sym]) auto

lemma memory_coll_law: "coll_law occurs key (memory_coll ks key)"
  unfolding coll_law_def
proof (intro conjI)
  show "regex_law occurs (memory_coll ks key)"
    by (auto simp: memory_coll_def regex_law_def split: list.splits dest!: filter_hd_in)
qed (auto simp: memory_coll_def insert_law_def update_law_def find_law_def split: if_splits option.splits)

lemma documented_memory: "documented occurs (memory_env ks)"
  by (simp add: documented_def memory_env_def memory_coll_law)

interpretation memory: documented_store occurs "memory_env ks" for ks
  by unfold_locales (rule documented_memory)


section \<open>Sample documents\<close>

text \<open>Swaps 1 and 10 of one transaction: both were processed, 1 succeeded and 10 failed.\<close>

definition swap_doc :: "int \<Rightarrow> SwapStatus \<Rightarrow> MgoSwap" where
  "swap_doc i st =
     \<lparr>sw_Key = GetRouterSwapKey ''1'' ''0xab'' i, sw_SwapType = 1, sw_TxID = ''0xab'', sw_TxTo = '''', sw_From = '''', sw_Bind = '''',
      sw_Value = ''5'', sw_LogIndex = i, sw_FromChainID = ''1'', sw_ToChainID = ''56'',
      sw_SwapInfo = \<lparr>mgo_erc20 = None, mgo_nft = None, mgo_anycall = None, mgo_curve = None\<rparr>,
      sw_Status = st, sw_InitTime = 0, sw_Timestamp = 0, sw_Memo = ''''\<rparr>"

definition result_doc :: "int \<Rightarrow> SwapStatus \<Rightarrow> nat \<Rightarrow> string \<Rightarrow> MgoSwapResult" where
  "result_doc i st nonce tx = (ToSwapResult (swap_doc i st))\<lparr>rs_SwapNonce := nonce, rs_SwapTx := tx, rs_MPC := ''0xmpc''\<rparr>"

definition two_swaps :: store where
  "two_swaps =
     \<lparr>tick = 0,
      collRouterSwap = [''1:0xab:1'' \<mapsto> swap_doc 1 TxProcessed, ''1:0xab:10'' \<mapsto> swap_doc 10 TxProcessed],
      collRouterSwapResult = [''1:0xab:1'' \<mapsto> result_doc 1 MatchTxStable 3 ''0xaa'', ''1:0xab:10'' \<mapsto> result_doc 10 MatchTxFailed 4 ''0xbb''],
      collUsedRValue = Map.empty\<rparr>"

definition two_keys :: "string list" where
  "two_keys = [''1:0xab:10'', ''1:0xab:1'']"

lemma sample_keys: "GetRouterSwapKey ''1'' ''0xab'' 1 = ''1:0xab:1''" "GetRouterSwapKey ''1'' ''0xab'' 10 = ''1:0xab:10''"
  by code_simp+

lemma keys_ok_two_swaps: "keys_ok two_swaps"
  by (simp add: keys_ok_def two_swaps_def swap_doc_def result_doc_def ToSwapResult_def sample_keys)

text \<open>The key of log 10 is found nowhere else, that of log 1 occurs in it.\<close>

lemma exact_ten: "dom c \<subseteq> set two_keys \<Longrightarrow> exact occurs c ''1:0xab:10''"
proof -
  have "\<not> occurs ''1:0xab:10'' ''1:0xab:1''" by code_simp
  then show "dom c \<subseteq> set two_keys \<Longrightarrow> ?thesis" by (auto simp: exact_def two_keys_def dom_def)
qed

section \<open>Properties of every sequence of operations\<close>

context documented_store
begin

lemma ops_keep_identity: "same_identity s (exec_all E ops s)"
  by (rule identity.exec_all_related) simp

lemma ops_keep_keys: "keys_ok s \<longrightarrow> keys_ok (exec_all E ops s)"
  by (rule keys.exec_all_related) simp

lemma ops_keep_nonces: "nonces_kept matches (\<Union> (resets ` set ops)) s (exec_all E ops s)"
  by (rule nonces.exec_all_related) simp

end

lemmas ops_keep_identity = documented_store.ops_keep_identity [OF documented_store.intro]
lemmas ops_keep_keys = documented_store.ops_keep_keys [OF documented_store.intro]
lemmas ops_keep_nonces = documented_store.ops_keep_nonces [OF documented_store.intro]

text \<open>
  C23: a swap nonce is written once. Whatever sequence of operations runs, a result that has a
  nonce keeps it, unless one of the operations resets that very result for another swap; the
  hypothesis is that the key is not found in the key of another result (see
  \<open>RouterAdminReswap_wrong_swap\<close> for what happens otherwise).
\<close>

theorem swap_nonce_written_once:
  assumes "documented matches E"
    and "k \<notin> \<Union> (resets ` set ops)"
    and "exact matches (collRouterSwapResult (exec_all E ops s)) k"
    and "collRouterSwapResult s k = Some d" and "rs_SwapNonce d \<noteq> 0"
  shows "\<exists>d'. collRouterSwapResult (exec_all E ops s) k = Some d' \<and> rs_SwapNonce d' = rs_SwapNonce d"
  using ops_keep_nonces [OF assms(1), of ops s] assms(2-5) by (simp add: nonces_kept_def)

theorem swap_nonce_written_once_witness:
  "\<exists>d. collRouterSwapResult (exec_all (memory_env two_keys)
       [OpUpdateRouterSwapResultStatus ''1'' ''0xab'' 10 MatchTxNotStable 3 ''again''] two_swaps) ''1:0xab:10'' = Some d \<and>
     rs_SwapNonce d = 4"
proof -
  let ?op = "OpUpdateRouterSwapResultStatus ''1'' ''0xab'' 10 MatchTxNotStable 3 ''again''"
  have "dom (collRouterSwapResult (exec_all (memory_env two_keys) [?op] two_swaps)) \<subseteq> set two_keys"
    by (auto simp: exec_all_def UpdateRouterSwapResultStatus_def updateResult_def coll_write_def sbind_def memory_env_def
        memory_coll_def two_swaps_def sample_keys mgo_return_def slift_def two_keys_def)
  from exact_ten [OF this]
  have "\<exists>d'. collRouterSwapResult (exec_all (memory_env two_keys) [?op] two_swaps) ''1:0xab:10'' = Some d' \<and>
      rs_SwapNonce d' = rs_SwapNonce (result_doc 10 MatchTxFailed 4 ''0xbb'')"
    by (intro swap_nonce_written_once [OF documented_memory])
      (simp_all add: two_swaps_def result_doc_def MatchTxNotStable_def StReswapping_def)
  then show ?thesis by (simp add: result_doc_def)
qed

section \<open>Used r values\<close>

lemma insertRValue_present:
  assumes "documented matches E" and "collUsedRValue s (ur_Key v) \<noteq> None" and "insertRValue E v s = (Ret err, s')"
  shows "err \<noteq> None \<and> collUsedRValue s' = collUsedRValue s"
  using assms(2,3) insert_lawD [OF documentedD(9) [OF assms(1)], of "tick s" v "collUsedRValue s"]
  by (auto simp: insertRValue_def coll_write_def split: prod.splits)

text \<open>A call that returns without an error has inserted the key, at the first or at the second attempt.\<close>

lemma AddUsedRValue_Ret:
  fixes s s' :: "'x store_scheme"
  assumes "AddUsedRValue E pubkey r s = (Ret (), s')"
  obtains ts t where "collUsedRValue t = collUsedRValue s"
      and "insertRValue E \<lparr>ur_Key = ToLower (r @ '':'' @ pubkey), ur_Timestamp = ts\<rparr> t = (Ret None :: (store_error, _) outcome, s')"
  | ts err and t t' t'' :: "'x store_scheme" where "collUsedRValue t = collUsedRValue s"
      and "insertRValue E \<lparr>ur_Key = ToLower (r @ '':'' @ pubkey), ur_Timestamp = ts\<rparr> t = (Ret err :: (store_error, _) outcome, t')"
      and "collUsedRValue t'' = collUsedRValue t'"
      and "insertRValue E \<lparr>ur_Key = ToLower (r @ '':'' @ pubkey), ur_Timestamp = ts\<rparr> t'' = (Ret None :: (store_error, _) outcome, s')"
proof -
  let ?mr = "\<lambda>ts. \<lparr>ur_Key = ToLower (r @ '':'' @ pubkey), ur_Timestamp = ts\<rparr>"
  from assms obtain ts t err t' where n: "NowMilli E s = (Ret ts :: (store_error, _) outcome, t)" and i: "insertRValue E (?mr ts) t = (Ret err :: (store_error, _) outcome, t')"
    and rest: "(case err of None \<Rightarrow> sret () | Some DuplicateKey \<Rightarrow> slift (Err ErrItemIsDup)
       | Some _ \<Rightarrow> sget (\<lambda>s. sbind (extern (\<lambda>t. FindID (rvalueColl E) t (ToLower (r @ '':'' @ pubkey)) (collUsedRValue s)))
            (\<lambda>found. case found of Inr _ \<Rightarrow> slift (Err ErrItemIsDup) | Inl _ \<Rightarrow> sbind (insertRValue E (?mr ts)) mgo_return)))
       t' = (Ret (), s')"
    unfolding AddUsedRValue_def Let_def by (simp only: sbind_Ret_iff) blast
  have t: "collUsedRValue t = collUsedRValue s" using n by (auto simp: NowMilli_def extern_def)
  show ?thesis
  proof (cases err)
    case None
    with rest have "s' = t'" by (simp add: outcome_simps)
    with None i t that(1) show ?thesis by blast
  next
    case (Some e)
    then have "\<exists>err'. insertRValue E (?mr ts) (t'\<lparr>tick := Suc (tick t')\<rparr>) = (Ret err' :: (store_error, _) outcome, s') \<and> mgoError err' = None"
      using rest by (cases e) (auto simp: outcome_simps extern_def mgo_return_def split: sum.splits option.splits)
    moreover have "mgoError err' = None \<longleftrightarrow> err' = None" for err'
      by (simp add: mgoError_def split: option.split mongo_error.split)
    ultimately show ?thesis using that(2) [OF t i, of "t'\<lparr>tick := Suc (tick t')\<rparr>"] by auto
  qed
qed

lemma AddUsedRValue_fresh:
  assumes "documented matches E" and "AddUsedRValue E pubkey r s = (Ret (), s')"
  shows "collUsedRValue s (ToLower (r @ '':'' @ pubkey)) = None \<and> collUsedRValue s' (ToLower (r @ '':'' @ pubkey)) \<noteq> None"
proof -
  have new: "collUsedRValue s' (ur_Key v) \<noteq> None" if "insertRValue E v t = (Ret None, s')" for v t
    using that insert_lawD(2) [OF documentedD(9) [OF assms(1)], of "tick t" v "collUsedRValue t"]
    by (auto simp: insertRValue_def coll_write_def split: prod.splits)
  have old: "collUsedRValue t (ur_Key v) = None" if "insertRValue E v t = (Ret None, s')" for v t
    using insertRValue_present [OF assms(1) _ that] by blast
  show ?thesis
    using assms(2)
  proof (cases rule: AddUsedRValue_Ret)
    case (1 ts t)
    then show ?thesis using new old by fastforce
  next
    case (2 ts err t t' t'')
    then have "collUsedRValue t' (ToLower (r @ '':'' @ pubkey)) = None" using old by fastforce
    then have "collUsedRValue s (ToLower (r @ '':'' @ pubkey)) = None"
      using insertRValue_present [OF assms(1) _ 2(2)] 2(1) by fastforce
    then show ?thesis using new [OF 2(4)] by simp
  qed
qed

text \<open>
  an r value of a signature is used once per public key. After a call of \<open>AddUsedRValue\<close>
  that returned without an error, and after whatever operations, a second call for the same
  key (up to the case of letters) reports an error, even when the database fails in between
  and the insertion is retried.
\<close>

theorem AddUsedRValue_once:
  assumes "documented matches E"
    and "AddUsedRValue E pubkey r s = (Ret (), s')"
    and "ToLower (r' @ '':'' @ pubkey') = ToLower (r @ '':'' @ pubkey)"
  shows "fst (AddUsedRValue E pubkey' r' (exec_all E ops s')) \<noteq> Ret ()"
proof
  assume "fst (AddUsedRValue E pubkey' r' (exec_all E ops s')) = Ret ()"
  then obtain t where "AddUsedRValue E pubkey' r' (exec_all E ops s') = (Ret (), t)" by (metis prod.collapse)
  from AddUsedRValue_fresh [OF assms(1) this]
  have "collUsedRValue (exec_all E ops s') (ToLower (r @ '':'' @ pubkey)) = None"
    unfolding assms(3) by blast
  moreover have "coll_keeps id (collUsedRValue s') (collUsedRValue (exec_all E ops s'))"
    using ops_keep_identity [OF assms(1), of s' ops] by (simp add: same_identity_def)
  ultimately show False
    using AddUsedRValue_fresh [OF assms(1,2)] by (auto simp: coll_keeps_def)
qed


theorem AddUsedRValue_once_witness:
  "fst (AddUsedRValue (memory_env two_keys) ''PK'' ''R''
     (exec_all (memory_env two_keys) [] (snd (AddUsedRValue (memory_env two_keys) ''pk'' ''r'' two_swaps)))) \<noteq> Ret ()"
proof -
  have "fst (AddUsedRValue (memory_env two_keys) ''pk'' ''r'' two_swaps) = Ret ()" by code_simp
  then have "AddUsedRValue (memory_env two_keys) ''pk'' ''r'' two_swaps =
      (Ret (), snd (AddUsedRValue (memory_env two_keys) ''pk'' ''r'' two_swaps))"
    by (metis prod.collapse)
  moreover have "ToLower (''R'' @ '':'' @ ''PK'') = ToLower (''r'' @ '':'' @ ''pk'')" by code_simp
  ultimately show ?thesis by (rule AddUsedRValue_once [OF documented_memory])
qed

end
