(* ===== verification/SwapStoreOps.thy ===== *)
theory SwapStoreOps
  imports SwapStoreLaws
begin

text \<open>
  The functional behaviour of single operations of package \<open>mongodb\<close>: inserting and finding a
  registered swap, allocating a swap nonce, resetting a failed swap, and the round trip of the
  swap information through its stored form. Named sample documents serve the witnesses.
\<close>

section \<open>Inversion of the searches and updates\<close>

lemma mgo_found_Ret [outcome_simps]: "mgo_found r s = (Ret d, s') \<longleftrightarrow> r = Inr d \<and> s' = s"
  by (auto simp: mgo_found_def slift_def mgoError_def split: sum.splits mongo_error.splits)

lemma mgo_return_Ret [outcome_simps]: "mgo_return err s = (Ret u, s') \<longleftrightarrow> err = None \<and> s' = s"
  by (auto simp: mgo_return_def slift_def mgoError_def split: option.splits mongo_error.splits)

lemma extern_iff [outcome_simps]: "extern f s = (Ret a, s') \<longleftrightarrow> a = f (tick s) \<and> s' = s\<lparr>tick := Suc (tick s)\<rparr>"
  by (auto simp: extern_def)

lemma FindRouterSwap_Ret:
  "FindRouterSwap E c t l s = (Ret d, s') \<longleftrightarrow>
     FindRegex (swapColl E) (tick s) (GetRouterSwapKey c t l) (collRouterSwap s) = Inr d \<and> s' = s\<lparr>tick := Suc (tick s)\<rparr>"
  by (auto simp: FindRouterSwap_def outcome_simps)

lemma FindRouterSwapResult_Ret:
  "FindRouterSwapResult E c t l s = (Ret d, s') \<longleftrightarrow>
     FindRegex (resultColl E) (tick s) (GetRouterSwapKey c t l) (collRouterSwapResult s) = Inr d \<and> s' = s\<lparr>tick := Suc (tick s)\<rparr>"
  by (auto simp: FindRouterSwapResult_def outcome_simps)

lemma regex_exact:
  assumes "regex_law matches api" and "exact matches c k" and "FindRegex api t k c = Inr d"
  shows "c k = Some d"
  using regex_lawD [OF assms(1,3)] assms(2) by (auto simp: exact_def)

lemma updateSwap_Ret:
  assumes "documented matches E" and "updateSwap E k f s = (Ret None, s')"
  shows "s' = s\<lparr>tick := Suc (tick s), collRouterSwap := (collRouterSwap s)(k := map_option f (collRouterSwap s k))\<rparr>"
  using assms(2) update_lawD(2) [OF documentedD(2) [OF assms(1)], of "tick s" k f "collRouterSwap s"]
  by (auto simp: updateSwap_def coll_write_def split: prod.splits)

lemma updateSwap_keeps_results:
  "updateSwap E k f s = (r, s') \<Longrightarrow> collRouterSwapResult s' = collRouterSwapResult s"
  by (auto simp: updateSwap_def coll_write_def split: prod.splits)

lemma updateResult_Ret:
  assumes "documented matches E" and "updateResult E k f s = (Ret None, s')"
  shows "s' = s\<lparr>tick := Suc (tick s), collRouterSwapResult := (collRouterSwapResult s)(k := map_option f (collRouterSwapResult s k))\<rparr>"
  using assms(2) update_lawD(2) [OF documentedD(6) [OF assms(1)], of "tick s" k f "collRouterSwapResult s"]
  by (auto simp: updateResult_def coll_write_def split: prod.splits)

section \<open>Allocation of a nonce\<close>

text \<open>The key of the swap that a build request is for.\<close>

definition swap_args_key :: "BuildTxArgs \<Rightarrow> string" where
  "swap_args_key args =
     GetRouterSwapKey (bi_String (args_FromChainID (swapArgs args))) (args_SwapID (swapArgs args)) (args_LogIndex (swapArgs args))"

text \<open>
  an allocated nonce is the caller's counter; it is recorded, with the sender, under a result
  that had neither a nonce nor a swap transaction before, no other result changes, and the
  counter moves on by one (with the wrap-around of 64 bits), or back to 0 for a recycled nonce.
\<close>

theorem AllocateRouterSwapNonce_spec:
  fixes s s' :: "'x store_scheme"
  assumes "documented matches E" and "exact matches (collRouterSwapResult s) (swap_args_key args)"
    and "AllocateRouterSwapNonce E args n rec s = (Ret (m, n'), s')"
  shows "m = n \<and> n' = (if rec then 0 else u64_add n 1) \<and> (rec \<longrightarrow> n \<noteq> 0) \<and>
    (\<exists>d d'. collRouterSwapResult s (swap_args_key args) = Some d \<and> rs_SwapNonce d = 0 \<and> rs_SwapTx d = '''' \<and>
       collRouterSwapResult s' = (collRouterSwapResult s)(swap_args_key args \<mapsto> d') \<and>
       rs_SwapNonce d' = n \<and> rs_MPC d' = args_From args \<and> rs_Status d' = MatchTxNotStable \<and> result_id d' = result_id d)"
proof -
  let ?key = "swap_args_key args"
  from assms(3) obtain s1 nw s2 s3 s4 err where
    g: "rec \<longrightarrow> n \<noteq> 0"
    and c: "checkRouterSwapResultUpdate E (bi_String (args_FromChainID (swapArgs args))) (args_SwapID (swapArgs args))
        (args_LogIndex (swapArgs args)) s = (Ret (), s1)"
    and w: "(Unix_now E :: ('x, int) storing) s1 = (Ret nw, s2)"
    and u: "(updateResult E ?key (\<lambda>d. (case SwapValue args of None \<Rightarrow> id | Some v \<Rightarrow> (\<lambda>d. d\<lparr>rs_SwapValue := big_String v\<rparr>))
                   (d\<lparr>rs_MPC := args_From args, rs_Status := MatchTxNotStable, rs_SwapNonce := n, rs_Timestamp := nw\<rparr>))
        :: ('x, mongo_error option) storing) s2 = (Ret None, s3)"
    and v: "(updateSwap E ?key (\<lambda>d. d\<lparr>sw_Status := TxProcessed, sw_Timestamp := nw\<rparr>) :: ('x, mongo_error option) storing) s3 = (Ret err, s')"
    and r: "m = n" "n' = (if rec then 0 else u64_add n 1)"
    unfolding AllocateRouterSwapNonce_def Let_def swap_args_key_def by (auto simp: outcome_simps)
  from c obtain d where d: "FindRegex (resultColl E) (tick s) ?key (collRouterSwapResult s) = Inr d" "rs_SwapNonce d = 0" "rs_SwapTx d = ''''"
    and s1: "collRouterSwapResult s1 = collRouterSwapResult s"
    unfolding checkRouterSwapResultUpdate_def swap_args_key_def by (auto simp: outcome_simps FindRouterSwapResult_Ret)
  have key: "collRouterSwapResult s ?key = Some d"
    using regex_exact [OF documentedD(8) [OF assms(1)] assms(2) d(1)] .
  have s2: "collRouterSwapResult s2 = collRouterSwapResult s" using w s1 by (auto simp: Unix_now_def outcome_simps)
  show ?thesis
    using updateResult_Ret [OF assms(1) u] updateSwap_keeps_results [OF v] key d g r s2
    by (auto simp: result_id_def split: option.splits)
qed

definition sample_build :: BuildTxArgs where
  "sample_build =
     \<lparr>swapArgs = \<lparr>erc20Info = None, nftInfo = None, anycallInfo = None, curveInfo = None, args_Identifier = '''',
        args_SwapID = ''0xab'', args_SwapType = 1, args_Bind = '''', args_LogIndex = 10, args_FromChainID = Some 1,
        args_ToChainID = Some 56, Reswapping = False\<rparr>,
      args_From = ''0xmpc'', args_To = '''', OriginFrom = '''', OriginTxTo = '''', OriginValue = None, SwapValue = Some 5,
      args_Value = None, Memo = '''', Input = None, args_Extra = None\<rparr>"

text \<open>Swap 10 verified and waiting.\<close>

definition waiting_swap :: store where
  "waiting_swap =
     \<lparr>tick = 0, collRouterSwap = [''1:0xab:10'' \<mapsto> swap_doc 10 TxNotSwapped],
      collRouterSwapResult = [''1:0xab:10'' \<mapsto> result_doc 10 MatchTxEmpty 0 ''''], collUsedRValue = Map.empty\<rparr>"

lemma sample_build_key: "swap_args_key sample_build = ''1:0xab:10''"
  by code_simp

theorem AllocateRouterSwapNonce_spec_witness:
  "\<exists>d d'. collRouterSwapResult waiting_swap ''1:0xab:10'' = Some d \<and> rs_SwapNonce d = 0 \<and>
     collRouterSwapResult (snd (AllocateRouterSwapNonce (memory_env two_keys) sample_build 6 True waiting_swap)) =
       (collRouterSwapResult waiting_swap)(''1:0xab:10'' \<mapsto> d') \<and> rs_SwapNonce d' = 6"
proof -
  have "fst (AllocateRouterSwapNonce (memory_env two_keys) sample_build 6 True waiting_swap) = Ret (6, 0)"
    by code_simp
  then have a: "AllocateRouterSwapNonce (memory_env two_keys) sample_build 6 True waiting_swap =
      (Ret (6, 0), snd (AllocateRouterSwapNonce (memory_env two_keys) sample_build 6 True waiting_swap))"
    by (metis prod.collapse)
  have "exact occurs (collRouterSwapResult waiting_swap) (swap_args_key sample_build)"
    unfolding sample_build_key by (rule exact_ten) (simp add: waiting_swap_def two_keys_def)
  from AllocateRouterSwapNonce_spec [OF documented_memory this a] show ?thesis
    unfolding sample_build_key by blast
qed

section \<open>Resetting a failed swap\<close>

text \<open>The bridge knows no transaction of the result that succeeded on chain.\<close>

definition no_success :: "TxStatus option \<Rightarrow> bool" where
  "no_success st \<longleftrightarrow> (case st of None \<Rightarrow> True | Some x \<Rightarrow> BlockHeight x = 0 \<or> IsSwapTxOnChainAndFailed (Some x))"

definition pool_nonce_passed :: "IBridge \<Rightarrow> MgoSwapResult \<Rightarrow> bool" where
  "pool_nonce_passed br res \<longleftrightarrow>
     (\<forall>poolNonce. getPoolNonce br = Some poolNonce \<longrightarrow> (\<exists>t n. poolNonce t (rs_MPC res) ''latest'' = Inr n \<and> rs_SwapNonce res < n))"

lemma UpdateRouterSwapStatus_Ret:
  assumes "documented matches E" and "UpdateRouterSwapStatus E c t l st ts memo s = (Ret (), s')"
  shows "st \<noteq> TxNotStable" and "collRouterSwapResult s' = collRouterSwapResult s"
    and "collRouterSwap s (GetRouterSwapKey c t l) = Some d \<Longrightarrow>
      \<exists>d'. collRouterSwap s' (GetRouterSwapKey c t l) = Some d' \<and> sw_Status d' = st \<and> sw_Timestamp d' = ts"
  using assms(2) updateSwap_Ret [OF assms(1)] updateSwap_keeps_results
  by (fastforce simp: UpdateRouterSwapStatus_def outcome_simps)+

lemma UpdateRouterSwapResultStatus_Ret:
  assumes "documented matches E" and "UpdateRouterSwapResultStatus E c t l st ts memo s = (Ret (), s')"
  shows "collRouterSwap s' = collRouterSwap s"
    and "collRouterSwapResult s (GetRouterSwapKey c t l) = Some d \<Longrightarrow>
      \<exists>d'. collRouterSwapResult s' (GetRouterSwapKey c t l) = Some d' \<and> rs_Status d' = st \<and>
        (st = StReswapping \<longrightarrow> rs_SwapNonce d' = 0 \<and> rs_SwapTx d' = '''' \<and> rs_OldSwapTxs d' = [] \<and> rs_SwapHeight d' = 0)"
  using assms(2) updateResult_Ret [OF assms(1)]
  by (fastforce simp: UpdateRouterSwapResultStatus_def outcome_simps)+

lemma old_txs_status_keeps:
  "old_txs_status br txs s = (r, s') \<Longrightarrow> collRouterSwap s' = collRouterSwap s \<and> collRouterSwapResult s' = collRouterSwapResult s"
proof (induction txs arbitrary: s)
  case Nil
  then show ?case by (simp add: sret_def)
next
  case (Cons tx txs)
  then show ?case by (fastforce simp: sbind_def extern_def sret_def split: prod.splits if_splits)
qed

lemma checkReswapNonce_Ret:
  "checkReswapNonce br res s = (Ret u, s') \<Longrightarrow>
     pool_nonce_passed br res \<and> collRouterSwap s' = collRouterSwap s \<and> collRouterSwapResult s' = collRouterSwapResult s"
  by (auto simp: checkReswapNonce_def pool_nonce_passed_def outcome_simps split: option.splits sum.splits)

lemma resetSwap_Ret:
  assumes "documented matches E" and "resetSwap E c t l s = (Ret u, s')"
    and "collRouterSwap s (GetRouterSwapKey c t l) = Some swap" and "collRouterSwapResult s (GetRouterSwapKey c t l) = Some res"
  shows "\<exists>swap' res'. collRouterSwap s' (GetRouterSwapKey c t l) = Some swap' \<and> sw_Status swap' = TxNotSwapped \<and>
    collRouterSwapResult s' (GetRouterSwapKey c t l) = Some res' \<and> rs_Status res' = StReswapping \<and>
    rs_SwapNonce res' = 0 \<and> rs_SwapTx res' = ''''"
proof -
  let ?k = "GetRouterSwapKey c t l"
  from assms(2) obtain nw s1 s2 nw2 s3 where
    a: "UpdateRouterSwapResultStatus E c t l StReswapping nw '''' s1 = (Ret (), s2)"
    and b: "UpdateRouterSwapStatus E c t l TxNotSwapped nw2 '''' s3 = (Ret (), s')"
    and s1: "s1 = s\<lparr>tick := Suc (tick s)\<rparr>" and s3: "s3 = s2\<lparr>tick := Suc (tick s2)\<rparr>"
    by (auto simp: resetSwap_def Unix_now_def outcome_simps)
  obtain res' where r: "collRouterSwapResult s2 ?k = Some res'" "rs_Status res' = StReswapping" "rs_SwapNonce res' = 0" "rs_SwapTx res' = ''''"
    using UpdateRouterSwapResultStatus_Ret(2) [OF assms(1) a, of res] assms(4) s1 by auto
  have "collRouterSwap s3 ?k = Some swap"
    using UpdateRouterSwapResultStatus_Ret(1) [OF assms(1) a] assms(3) s1 s3 by simp
  then obtain swap' where "collRouterSwap s' ?k = Some swap'" "sw_Status swap' = TxNotSwapped"
    using UpdateRouterSwapStatus_Ret(3) [OF assms(1) b] by blast
  then show ?thesis using UpdateRouterSwapStatus_Ret(2) [OF assms(1) b] r s3 by auto
qed

lemma RouterAdminReswap_Ret:
  fixes s s' :: "'x store_scheme"
  assumes "RouterAdminReswap E r c t l s = (Ret (), s')"
  obtains swap res br st h and s2 s3 :: "'x store_scheme"
  where "FindRegex (swapColl E) (tick s) (GetRouterSwapKey c t l) (collRouterSwap s) = Inr swap" "sw_Status swap = TxProcessed"
    and "FindRegex (resultColl E) (Suc (tick s)) (GetRouterSwapKey c t l) (collRouterSwapResult s) = Inr res"
      "rs_Status res = MatchTxFailed" "rs_SwapTx res \<noteq> ''''"
    and "RouterBridges r (sw_ToChainID swap) = Some br"
    and "getSwapResultsTxStatus br res (s\<lparr>tick := Suc (Suc (tick s))\<rparr>) = (Ret (st, h), s2)" "no_success st"
    and "checkReswapNonce br res s2 = (Ret (), s3)" "resetSwap E c t l s3 = (Ret (), s')"
  using assms that unfolding RouterAdminReswap_def GetBridgeByChainID_def no_success_def
  by (fastforce simp: outcome_simps FindRouterSwap_Ret FindRouterSwapResult_Ret split: option.splits if_splits)



section \<open>The wrong swap\<close>

definition target_bridge :: IBridge where
  "target_bridge =
     \<lparr>base = \<lparr>bridgeChainConfig = None, bridgeGatewayConfig = None, TokenConfigMap = Map.empty\<rparr>,
      isValidAddress = (\<lambda>_. True), getPairFor = None,
      getTransactionStatus = (\<lambda>_ tx. (Some \<lparr>Sender = '''', Receipt = Some (WithStatus (tx = ''0xaa'')), Confirmations = 5,
         BlockHeight = 9, BlockHash = '''', BlockTime = 0\<rparr>, None)),
      verifyTransaction = (\<lambda>_ _ _. Inl ErrNotFound),
      mpcSignTransaction = (\<lambda>_ _ _. Inl (SignFailed ErrNotFound)),
      sendTransaction = (\<lambda>_ _. ('''', Some ErrNotFound)), getPoolNonce = Some (\<lambda>_ _ _. Inr 7)\<rparr>"

definition reswap_router :: router_state where
  "reswap_router =
     \<lparr>toks = sample_tokens, RouterBridges = (\<lambda>_. Some target_bridge), MultichainTokens = Map.empty, pausedChainIDs = {},
      MPCPublicKeys = Map.empty, RouterInfos = Map.empty\<rparr>"


text \<open>
  the searches of api.go take a key as an unanchored pattern, so that the key of log 1 also
  matches the key of log 10. An administrator's request to redo swap 1, which has succeeded, is
  checked against the documents of swap 10, which has failed, and resets swap 1: it will be
  paid out a second time.
\<close>

theorem RouterAdminReswap_wrong_swap:
  "case RouterAdminReswap (memory_env two_keys) reswap_router ''1'' ''0xab'' 1 two_swaps of
     (outcome, s) \<Rightarrow>
       outcome = Ret () \<and>
       map_option rs_Status (collRouterSwapResult two_swaps ''1:0xab:1'') = Some MatchTxStable \<and>
       map_option sw_Status (collRouterSwap s ''1:0xab:1'') = Some TxNotSwapped \<and>
       map_option (\<lambda>d. (rs_Status d, rs_SwapNonce d, rs_SwapTx d)) (collRouterSwapResult s ''1:0xab:1'') = Some (StReswapping, 0, '''')"
  by code_simp


section \<open>Registering a swap\<close>

definition swap_key :: "MgoSwap \<Rightarrow> string" where
  "swap_key d = GetRouterSwapKey (sw_FromChainID d) (sw_TxID d) (sw_LogIndex d)"

lemma insertSwap_Ret:
  assumes "documented matches E" and "insertSwap E d s = (Ret None, s')"
  shows "collRouterSwap s (sw_Key d) = None \<and>
    s' = s\<lparr>tick := Suc (tick s), collRouterSwap := (collRouterSwap s)(sw_Key d \<mapsto> d)\<rparr>"
  using assms(2) insert_lawD(2) [OF documentedD(1) [OF assms(1)], of "tick s" d "collRouterSwap s"]
  by (auto simp: insertSwap_def coll_write_def split: prod.splits)

text \<open>
  registering a swap succeeds only for a key that is not registered yet; it then adds this
  one document and changes no other, and as long as the key is unambiguous a search for the
  swap gives it back or reports a failure of the database, never that there is no such swap.
\<close>

theorem AddRouterSwap_then_found:
  fixes s s' :: "'x store_scheme"
  assumes "documented matches E"
    and "matches (swap_key ms) (swap_key ms)" and "exact matches (collRouterSwap s') (swap_key ms)"
    and "AddRouterSwap E ms s = (Ret (), s')"
  shows "collRouterSwap s (swap_key ms) = None \<and>
    (\<exists>initTime. let d = ms\<lparr>sw_Key := swap_key ms, sw_InitTime := initTime\<rparr> in
       collRouterSwap s' = (collRouterSwap s)(swap_key ms \<mapsto> d) \<and> collRouterSwapResult s' = collRouterSwapResult s \<and>
       (\<forall>r u. FindRouterSwap E (sw_FromChainID ms) (sw_TxID ms) (sw_LogIndex ms) s' = (r, u) \<longrightarrow>
          r = Ret d \<or> (\<exists>e. r = Err e \<and> e \<noteq> ErrItemNotFound)))"
proof -
  from assms(4) obtain initTime s1 err s2 where n: "(NowMilli E :: ('x, int) storing) s = (Ret initTime, s1)"
    and i: "(insertSwap E (ms\<lparr>sw_Key := swap_key ms, sw_InitTime := initTime\<rparr>) :: ('x, mongo_error option) storing) s1 = (Ret None, s')"
    unfolding AddRouterSwap_def Let_def swap_key_def by (auto simp: outcome_simps split: if_splits)
  let ?d = "ms\<lparr>sw_Key := swap_key ms, sw_InitTime := initTime\<rparr>"
  have s1: "s1 = s\<lparr>tick := Suc (tick s)\<rparr>" using n by (auto simp: NowMilli_def outcome_simps)
  have c: "collRouterSwap s (swap_key ms) = None" "collRouterSwap s' = (collRouterSwap s)(swap_key ms \<mapsto> ?d)"
    "collRouterSwapResult s' = collRouterSwapResult s"
    using insertSwap_Ret [OF assms(1) i] s1 by auto
  have "r = Ret ?d \<or> (\<exists>e. r = Err e \<and> e \<noteq> ErrItemNotFound)"
    if "FindRouterSwap E (sw_FromChainID ms) (sw_TxID ms) (sw_LogIndex ms) s' = (r, u)" for r u
  proof (cases "FindRegex (swapColl E) (tick s') (swap_key ms) (collRouterSwap s')")
    case (Inr x)
    then have "x = ?d" using regex_exact [OF documentedD(4) [OF assms(1)] assms(3) Inr] c(2) by simp
    with Inr that show ?thesis
      by (simp add: FindRouterSwap_def sget_def sbind_def extern_def mgo_found_def slift_def swap_key_def)
  next
    case (Inl e)
    have "e \<noteq> ErrNoDocuments"
    proof
      assume "e = ErrNoDocuments"
      with Inl documentedD(4) [OF assms(1)] assms(2) have "collRouterSwap s' (swap_key ms) = None"
        unfolding regex_law_def by blast
      with c(2) show False by simp
    qed
    with Inl that show ?thesis
      by (cases e) (auto simp: FindRouterSwap_def sget_def sbind_def extern_def mgo_found_def slift_def swap_key_def mgoError_def)
  qed
  then show ?thesis using c by (auto simp: Let_def)
qed

theorem AddRouterSwap_then_found_witness:
  "collRouterSwap two_swaps (swap_key (swap_doc 2 TxNotStable)) = None \<and>
   (\<exists>d. collRouterSwap (snd (AddRouterSwap (memory_env two_keys) (swap_doc 2 TxNotStable) two_swaps)) =
      (collRouterSwap two_swaps)(swap_key (swap_doc 2 TxNotStable) \<mapsto> d))"
proof -
  let ?r = "AddRouterSwap (memory_env two_keys) (swap_doc 2 TxNotStable) two_swaps"
  have k: "swap_key (swap_doc 2 TxNotStable) = ''1:0xab:2''" by code_simp
  have "fst ?r = Ret ()" by code_simp
  then have a: "?r = (Ret (), snd ?r)" by (metis prod.collapse)
  have m: "occurs ''1:0xab:2'' ''1:0xab:2''" "\<not> occurs ''1:0xab:2'' ''1:0xab:1''" "\<not> occurs ''1:0xab:2'' ''1:0xab:10''"
    by code_simp+
  have "dom (collRouterSwap (snd ?r)) \<subseteq> {''1:0xab:1'', ''1:0xab:10'', ''1:0xab:2''}"
    using k by (auto simp: AddRouterSwap_def NowMilli_def extern_def sbind_def insertSwap_def coll_write_def memory_env_def
        memory_coll_def Let_def swap_key_def two_swaps_def mgo_return_def mgoError_def slift_def sret_def split: if_splits)
  with m have "exact occurs (collRouterSwap (snd ?r)) (swap_key (swap_doc 2 TxNotStable))"
    unfolding k by (auto simp: exact_def dom_def)
  from AddRouterSwap_then_found [OF documented_memory _ this a] m k show ?thesis
    by (auto simp: Let_def)
qed

section \<open>The stored form of the swap information\<close>

text \<open>
  What a swap's information becomes when it is stored and read back: the call data of an
  \<open>ERC20\<close> swap is kept only with a proxy and without a path, the path's options only with a path,
  and the data of an \<open>NFT\<close> swap comes back as the characters of its hexadecimal text.
\<close>

definition stored_erc20 :: "ERC20SwapInfo \<Rightarrow> ERC20SwapInfo" where
  "stored_erc20 i =
     \<lparr>erc20_Token = erc20_Token i, erc20_TokenID = erc20_TokenID i,
      ForNative = (Path i \<noteq> [] \<and> ForNative i), ForUnderlying = (Path i \<noteq> [] \<and> ForUnderlying i), Path = Path i,
      AmountOutMin = (if Path i = [] then None else case AmountOutMin i of None \<Rightarrow> Some 0 | Some a \<Rightarrow> Some a),
      CallProxy = (if Path i = [] then CallProxy i else ''''),
      erc20_CallData = (if Path i = [] \<and> CallProxy i \<noteq> '''' then (case erc20_CallData i of None \<Rightarrow> Some [] | Some d \<Rightarrow> Some d) else None)\<rparr>"

definition stored :: "SwapInfo \<Rightarrow> SwapInfo" where
  "stored info =
     (case erc20Info info of
        Some i \<Rightarrow> no_swap_info\<lparr>erc20Info := Some (stored_erc20 i)\<rparr>
      | None \<Rightarrow>
     (case nftInfo info of
        Some i \<Rightarrow> no_swap_info\<lparr>nftInfo := Some (i\<lparr>nft_Data := str_bytes (Encode (nft_Data i))\<rparr>)\<rparr>
      | None \<Rightarrow>
     (case anycallInfo info of
        Some i \<Rightarrow> no_swap_info\<lparr>anycallInfo := Some i\<rparr>
      | None \<Rightarrow> no_swap_info\<lparr>curveInfo := curveInfo info\<rparr>)))"

definition small :: "int \<Rightarrow> bool" where
  "small v \<longleftrightarrow> \<bar>v\<bar> < 2 ^ 256"

definition info_ok :: "SwapInfo \<Rightarrow> bool" where
  "info_ok info \<longleftrightarrow>
     (case erc20Info info of Some i \<Rightarrow> (case AmountOutMin i of None \<Rightarrow> True | Some a \<Rightarrow> small a) | None \<Rightarrow> True) \<and>
     (case nftInfo info of Some i \<Rightarrow> list_all small (IDs i) \<and> list_all small (Amounts i) | None \<Rightarrow> True) \<and>
     (case anycallInfo info of Some i \<Rightarrow> list_all small (CallNonces i) | None \<Rightarrow> True)"

lemma GetBigIntFromStr_big_String: "small v \<Longrightarrow> GetBigIntFromStr (big_String v) = Ret v"
  by (simp add: GetBigIntFromStr_def ParseBig256_big_String small_def)

lemma toBigIntSlice_from: "list_all small xs \<Longrightarrow> toBigIntSlice (fromBigIntSlice xs) = Ret xs"
  unfolding toBigIntSlice_def fromBigIntSlice_def
  by (induction xs) (auto simp: GetBigIntFromStr_big_String)

lemma FromHex_Encode: "FromHex (Encode b) = b"
  unfolding Encode_def by (rule FromHex_0x)

lemma toHexBytesSlice_from: "toHexBytesSlice (fromHexBytesSlice xs) = xs"
  by (induction xs) (auto simp: toHexBytesSlice_def fromHexBytesSlice_def FromHex_Encode)

lemma str_bytes_Encode_neq: "str_bytes (Encode b) \<noteq> b"
proof
  assume "str_bytes (Encode b) = b"
  then have "length (str_bytes (Encode b)) = length b" by simp
  then show False by (simp add: Encode_def)
qed

text \<open>
  swap information that is stored and read back is the same up to the fields that its kind
  of swap does not use, except for the data of an \<open>NFT\<close> swap: reading it back converts the
  hexadecimal text itself to bytes, so that it is never the data that was stored.
\<close>

theorem SwapInfo_roundtrip:
  assumes "info_ok info"
  shows "ConvertFromSwapInfo (ConvertToSwapInfo info) = Ret (stored info) \<and>
    (\<forall>i i'. erc20Info info = None \<longrightarrow> nftInfo info = Some i \<longrightarrow> nftInfo (stored info) = Some i' \<longrightarrow> nft_Data i' \<noteq> nft_Data i)"
proof (cases "erc20Info info")
  case (Some i)
  have e: "(case AmountOutMin i of None \<Rightarrow> True | Some a \<Rightarrow> small a)" using assms Some by (simp add: info_ok_def)
  have z: "GetBigIntFromStr '''' = Ret 0" "FromHex '''' = []" by code_simp+
  show ?thesis
  proof (cases "Path i = []")
    case True
    with Some show ?thesis
      using z FromHex_Encode
      by (auto simp: ConvertToSwapInfo_def ConvertFromSwapInfo_def stored_def stored_erc20_def no_swap_info_def Let_def
          split: option.splits)
  next
    case False
    with Some e show ?thesis
      using z GetBigIntFromStr_big_String
      by (auto simp: ConvertToSwapInfo_def ConvertFromSwapInfo_def stored_def stored_erc20_def no_swap_info_def Let_def
          split: option.splits)
  qed
next
  case none: None
  show ?thesis
  proof (cases "nftInfo info")
    case (Some i)
    then have "toBigIntSlice (fromBigIntSlice (IDs i)) = Ret (IDs i)" "toBigIntSlice (fromBigIntSlice (Amounts i)) = Ret (Amounts i)"
      using assms by (auto simp: info_ok_def toBigIntSlice_from)
    with none Some show ?thesis
      by (auto simp: ConvertToSwapInfo_def ConvertFromSwapInfo_def stored_def no_swap_info_def Let_def str_bytes_Encode_neq)
  next
    case None
    then show ?thesis
      using none assms FromHex_0x
      by (auto simp: ConvertToSwapInfo_def ConvertFromSwapInfo_def stored_def no_swap_info_def Let_def info_ok_def
          toBigIntSlice_from toHexBytesSlice_from ToHex_def split: option.splits)
  qed
qed

theorem SwapInfo_roundtrip_witness:
  "ConvertFromSwapInfo (ConvertToSwapInfo (no_swap_info\<lparr>nftInfo := Some \<lparr>nft_Token = ''0x1'', nft_TokenID = ''N'',
       IDs = [7], Amounts = [1], Batch = False, nft_Data = [255]\<rparr>\<rparr>)) =
   Ret (no_swap_info\<lparr>nftInfo := Some \<lparr>nft_Token = ''0x1'', nft_TokenID = ''N'',
       IDs = [7], Amounts = [1], Batch = False, nft_Data = str_bytes ''0xff''\<rparr>\<rparr>)"
proof -
  let ?i = "no_swap_info\<lparr>nftInfo := Some \<lparr>nft_Token = ''0x1'', nft_TokenID = ''N'',
       IDs = [7], Amounts = [1], Batch = False, nft_Data = [255]\<rparr>\<rparr>"
  have "info_ok ?i" by (simp add: info_ok_def no_swap_info_def small_def)
  moreover have "Encode [255] = ''0xff''" by code_simp
  ultimately show ?thesis
    using SwapInfo_roundtrip [of ?i] by (simp add: stored_def no_swap_info_def)
qed


section \<open>What extends the store is not touched\<close>

lemma more_extern: "srel (\<lambda>s s'. store.more s' = store.more s) (extern f)"
  by (simp add: sfrom_def extern_def)

lemma more_coll_write:
  "srel (\<lambda>s s'. store.more s' = store.more s) (insertSwap E d)" "srel (\<lambda>s s'. store.more s' = store.more s) (updateSwap E k f)"
  "srel (\<lambda>s s'. store.more s' = store.more s) (insertResult E e)" "srel (\<lambda>s s'. store.more s' = store.more s) (updateResult E k g)"
  "srel (\<lambda>s s'. store.more s' = store.more s) (insertRValue E v)"
  by (simp_all add: sfrom_def insertSwap_def updateSwap_def insertResult_def updateResult_def insertRValue_def coll_write_def
      split: prod.split)

lemma more_basic:
  "srel (\<lambda>s s'. store.more s' = store.more s) (Unix_now E)" "srel (\<lambda>s s'. store.more s' = store.more s) (NowMilli E)"
  "srel (\<lambda>s s'. store.more s' = store.more s) (mgo_return err)" "srel (\<lambda>s s'. store.more s' = store.more s) (mgo_found r)"
  by (simp_all add: Unix_now_def NowMilli_def more_extern mgo_return_def mgo_found_def keeping.sfrom_steps)

lemmas more_intros = keeping.srel_intros more_extern more_coll_write more_basic

lemma more_find:
  "srel (\<lambda>s s'. store.more s' = store.more s) (FindRouterSwap E c t l)"
  "srel (\<lambda>s s'. store.more s' = store.more s) (FindRouterSwapResult E c t l)"
  "srel (\<lambda>s s'. store.more s' = store.more s) (checkRouterSwapResultUpdate E c t l)"
  unfolding FindRouterSwap_def FindRouterSwapResult_def checkRouterSwapResultUpdate_def
  by (intro more_intros)+

lemma more_updates:
  "srel (\<lambda>s s'. store.more s' = store.more s) (PassRouterSwapVerify E c t l ts)"
  "srel (\<lambda>s s'. store.more s' = store.more s) (UpdateRouterSwapStatus E c t l st ts memo)"
  "srel (\<lambda>s s'. store.more s' = store.more s) (AddRouterSwapResult E mr)"
  "srel (\<lambda>s s'. store.more s' = store.more s) (AllocateRouterSwapNonce E args n rec)"
  "srel (\<lambda>s s'. store.more s' = store.more s) (UpdateRouterSwapResultStatus E c t l st ts memo)"
  "srel (\<lambda>s s'. store.more s' = store.more s) (UpdateRouterOldSwapTxs E c t l tx)"
  "srel (\<lambda>s s'. store.more s' = store.more s) (UpdateRouterSwapResult E c t l items)"
  unfolding PassRouterSwapVerify_def UpdateRouterSwapStatus_def AddRouterSwapResult_def AllocateRouterSwapNonce_def Let_def
    UpdateRouterSwapResultStatus_def UpdateRouterOldSwapTxs_def UpdateRouterSwapResult_def
  by (intro more_intros more_find)+

lemma more_admin: "srel (\<lambda>s s'. store.more s' = store.more s) (RouterAdminPassBigValue E c t l)"
  unfolding RouterAdminPassBigValue_def by (intro more_intros more_find more_updates)


end
