(* ===== verification/NonceSetter.thy ===== *)
theory NonceSetter
  imports SwapStoreOps
begin

text \<open>
  Package \<open>tokens/base\<close> (noncesetter.go): the next nonce of each sending account, and a nonce
  given back for reuse. The two maps of \<open>NonceSetterBase\<close> are the record \<open>setter\<close>; the map's
  pointers are updated in place, which the model writes as an update of the map. \<open>nonce_store\<close>
  adds a setter to the store, since allocating a nonce records it in the database. The keys are
  addresses in lower case.
\<close>

record recycleNonceRecord =
  rec_nonce :: nat
  rec_timestamp :: int

record setter =
  swapNonce :: "string \<rightharpoonup> nat"
  recycleNonce :: "string \<rightharpoonup> recycleNonceRecord"

record nonce_store = store +
  setter :: setter

definition NewNonceSetterBase :: setter where
  "NewNonceSetterBase = \<lparr>swapNonce = Map.empty, recycleNonce = Map.empty\<rparr>"

definition recycleAckInterval :: int where
  "recycleAckInterval = 300"

definition errRecycleNotAcked :: store_error where
  "errRecycleNotAcked = StoreOther ''recycle timestamp does not pass ack interval''"

definition GetSwapNonce :: "setter \<Rightarrow> string \<Rightarrow> nat" where
  "GetSwapNonce b address = (case swapNonce b (ToLower address) of Some n \<Rightarrow> n | None \<Rightarrow> 0)"

definition AdjustNonce :: "setter \<Rightarrow> string \<Rightarrow> nat \<Rightarrow> nat" where
  "AdjustNonce b address v =
     (case swapNonce b (ToLower address) of Some n \<Rightarrow> if n > v then n else v | None \<Rightarrow> v)"

text \<open>The loop of \<open>InitSwapNonce\<close> asks for the pending nonce until it gets an answer, at most \<open>n\<close> times.\<close>

fun pending_loop :: "nat \<Rightarrow> (nat \<Rightarrow> string \<Rightarrow> string \<Rightarrow> token_error + nat) \<Rightarrow> string \<Rightarrow> nat \<Rightarrow>
    ('x nonce_store_scheme, 'e, nat) stateful" where
  "pending_loop 0 poolNonce account nonce = sret nonce"
| "pending_loop (Suc n) poolNonce account nonce =
     sbind (extern (\<lambda>t. poolNonce t account ''pending'')) (\<lambda>r.
     case r of
       Inr pendingNonce \<Rightarrow> sret (if pendingNonce > nonce then pendingNonce else nonce)
     | Inl _ \<Rightarrow> pending_loop n poolNonce account nonce)"

definition retryRPCCount :: nat where
  "retryRPCCount = 3"

definition InitSwapNonce :: "(nat \<Rightarrow> string \<Rightarrow> string \<Rightarrow> token_error + nat) \<Rightarrow> string \<Rightarrow> nat \<Rightarrow>
    ('x nonce_store_scheme, 'e, unit) stateful" where
  "InitSwapNonce poolNonce address nonce =
     (let account = ToLower address in
      sbind (pending_loop retryRPCCount poolNonce account nonce) (\<lambda>n.
      supd (\<lambda>s. s\<lparr>setter := (setter s)\<lparr>swapNonce := (swapNonce (setter s))(account \<mapsto> n)\<rparr>\<rparr>)))"

definition SetNonce :: "string \<Rightarrow> nat \<Rightarrow> setter \<Rightarrow> setter" where
  "SetNonce address v b =
     (let account = ToLower address in
      case swapNonce b account of
        Some n \<Rightarrow> if n < v then b\<lparr>swapNonce := (swapNonce b)(account \<mapsto> v)\<rparr> else b
      | None \<Rightarrow> b\<lparr>swapNonce := (swapNonce b)(account \<mapsto> v)\<rparr>)"

definition TryAllocateRecycleNonce :: "mgo_env \<Rightarrow> BuildTxArgs \<Rightarrow> int \<Rightarrow> ('x nonce_store_scheme, store_error, nat) stateful" where
  "TryAllocateRecycleNonce E args lifetime =
     (let account = ToLower (args_From args) in
      sget (\<lambda>s.
      case recycleNonce (setter s) account of
        None \<Rightarrow> slift (Err errRecycleNotAcked)
      | Some rec \<Rightarrow>
          sbind (Unix_now E) (\<lambda>nw.
          sbind (sguard (\<not> i64 (nw - rec_timestamp rec) < lifetime) errRecycleNotAcked) (\<lambda>_.
          sbind (AllocateRouterSwapNonce E args (rec_nonce rec) True) (\<lambda>(nonce, ptr).
          sbind (supd (\<lambda>s. s\<lparr>setter := (setter s)\<lparr>recycleNonce :=
             (recycleNonce (setter s))(account \<mapsto> rec\<lparr>rec_nonce := ptr\<rparr>)\<rparr>\<rparr>)) (\<lambda>_.
          sret nonce))))))"

text \<open>The counter of an account that has none starts at 0.\<close>

definition init_counter :: "string \<Rightarrow> 'x nonce_store_scheme \<Rightarrow> 'x nonce_store_scheme" where
  "init_counter account s =
     (case swapNonce (setter s) account of
        None \<Rightarrow> s\<lparr>setter := (setter s)\<lparr>swapNonce := (swapNonce (setter s))(account \<mapsto> 0)\<rparr>\<rparr>
      | Some _ \<Rightarrow> s)"

definition AllocateNonce :: "mgo_env \<Rightarrow> BuildTxArgs \<Rightarrow> ('x nonce_store_scheme, store_error, nat) stateful" where
  "AllocateNonce E args =
     sbind (stry (TryAllocateRecycleNonce E args recycleAckInterval)) (\<lambda>r.
     case r of
       Inr nonce \<Rightarrow> sret nonce
     | Inl _ \<Rightarrow>
         let account = ToLower (args_From args) in
         sbind (supd (init_counter account)) (\<lambda>_.
         sget (\<lambda>s.
         sbind (AllocateRouterSwapNonce E args (GetSwapNonce (setter s) account) False) (\<lambda>(nonce, ptr).
         sbind (supd (\<lambda>s. s\<lparr>setter := (setter s)\<lparr>swapNonce := (swapNonce (setter s))(account \<mapsto> ptr)\<rparr>\<rparr>)) (\<lambda>_.
         sret nonce)))))"

definition RecycleSwapNonce :: "int \<Rightarrow> string \<Rightarrow> nat \<Rightarrow> setter \<Rightarrow> setter" where
  "RecycleSwapNonce nw sender nonce b =
     (let account = ToLower sender in
      case recycleNonce b account of
        None \<Rightarrow> b\<lparr>recycleNonce := (recycleNonce b)(account \<mapsto> \<lparr>rec_nonce = nonce, rec_timestamp = nw\<rparr>)\<rparr>
      | Some rec \<Rightarrow>
          if rec_nonce rec = 0 \<or> nonce < rec_nonce rec
          then b\<lparr>recycleNonce := (recycleNonce b)(account \<mapsto> rec\<lparr>rec_nonce := nonce, rec_timestamp := nw\<rparr>)\<rparr>
          else b)"

section \<open>Sequences of nonce operations\<close>

datatype nonce_op =
    NAllocate BuildTxArgs
  | NSet string nat
  | NRecycle int string nat

text \<open>The allocations that succeed, with their account, and the state at the end.\<close>

fun run_nonces :: "mgo_env \<Rightarrow> nonce_op list \<Rightarrow> nonce_store \<Rightarrow> (string \<times> nat) list \<times> nonce_store" where
  "run_nonces E [] s = ([], s)"
| "run_nonces E (NAllocate args # ops) s =
     (case AllocateNonce E args s of
        (Ret n, s') \<Rightarrow> (case run_nonces E ops s' of (xs, t) \<Rightarrow> ((ToLower (args_From args), n) # xs, t))
      | (_, s') \<Rightarrow> run_nonces E ops s')"
| "run_nonces E (NSet a v # ops) s = run_nonces E ops (s\<lparr>setter := SetNonce a v (setter s)\<rparr>)"
| "run_nonces E (NRecycle nw a v # ops) s = run_nonces E ops (s\<lparr>setter := RecycleSwapNonce nw a v (setter s)\<rparr>)"

lemma AllocateRouterSwapNonce_result:
  "AllocateRouterSwapNonce E args n rec s = (Ret (m, n'), s') \<Longrightarrow> m = n \<and> n' = (if rec then 0 else u64_add n 1) \<and> (rec \<longrightarrow> n \<noteq> 0)"
  unfolding AllocateRouterSwapNonce_def Let_def by (auto simp: outcome_simps)

lemma setter_more: "store.more s' = store.more s \<Longrightarrow> setter s' = setter s"
  by (cases s; cases s') auto

lemma AllocateRouterSwapNonce_setter: "AllocateRouterSwapNonce E args n rec s = (r, s') \<Longrightarrow> setter s' = setter s"
  by (rule setter_more) (rule sfromD [OF more_updates(4)], simp_all)

text \<open>A nonce given back and not yet handed out again.\<close>

definition pending :: "setter \<Rightarrow> string \<Rightarrow> nat \<Rightarrow> nat" where
  "pending b a n = (case recycleNonce b a of None \<Rightarrow> 0 | Some rec \<Rightarrow> if rec_nonce rec = n \<and> n \<noteq> 0 then 1 else 0)"

definition ahead :: "setter \<Rightarrow> string \<Rightarrow> nat \<Rightarrow> nat" where
  "ahead b a n = (if GetSwapNonce b a \<le> n then 1 else 0)"

text \<open>How often the nonce \<open>n\<close> may still be handed out to the account \<open>a\<close>.\<close>

definition remaining :: "setter \<Rightarrow> string \<Rightarrow> nat \<Rightarrow> nat" where
  "remaining b a n = ahead b a n + pending b a n"

lemmas remaining_defs = remaining_def ahead_def pending_def GetSwapNonce_def

lemma TryAllocateRecycleNonce_cases:
  assumes "TryAllocateRecycleNonce E args lifetime s = (r, s')"
  shows "(\<forall>n. r \<noteq> Ret n) \<and> setter s' = setter s \<or>
    (\<exists>n rec. r = Ret n \<and> recycleNonce (setter s) (ToLower (args_From args)) = Some rec \<and> rec_nonce rec = n \<and> n \<noteq> 0 \<and>
       setter s' = (setter s)\<lparr>recycleNonce := (recycleNonce (setter s))(ToLower (args_From args) \<mapsto> rec\<lparr>rec_nonce := 0\<rparr>)\<rparr>)"
proof (cases "recycleNonce (setter s) (ToLower (args_From args))")
  case None
  with assms show ?thesis by (auto simp: TryAllocateRecycleNonce_def Let_def sget_def slift_def)
next
  case (Some rec)
  let ?s = "s\<lparr>tick := Suc (tick s)\<rparr>"
  obtain q t where a: "AllocateRouterSwapNonce E args (rec_nonce rec) True ?s = (q, t)" by fastforce
  from AllocateRouterSwapNonce_setter [OF a] have t: "setter t = setter s" by simp
  from assms Some a t show ?thesis
    using AllocateRouterSwapNonce_result [of E args "rec_nonce rec" True ?s _ _ t]
    by (auto simp: TryAllocateRecycleNonce_def Let_def sget_def sbind_def Unix_now_def extern_def sguard_def supd_def sret_def
        split: prod.splits outcome.splits if_splits)
qed

lemma AllocateNonce_cases:
  fixes s s' :: "'x nonce_store_scheme"
  assumes "AllocateNonce E args s = (r, s')"
  defines "a \<equiv> ToLower (args_From args)"
  obtains (fail) "\<forall>n. r \<noteq> Ret n" "recycleNonce (setter s') = recycleNonce (setter s)"
      "\<And>b. GetSwapNonce (setter s') b = GetSwapNonce (setter s) b"
    | (recycled) n rec where "r = Ret n" "recycleNonce (setter s) a = Some rec" "rec_nonce rec = n" "n \<noteq> 0"
        "setter s' = (setter s)\<lparr>recycleNonce := (recycleNonce (setter s))(a \<mapsto> rec\<lparr>rec_nonce := 0\<rparr>)\<rparr>"
    | (counter) "r = Ret (GetSwapNonce (setter s) a)" "recycleNonce (setter s') = recycleNonce (setter s)"
        "swapNonce (setter s') = (swapNonce (setter s))(a \<mapsto> u64_add (GetSwapNonce (setter s) a) 1)"
proof -
  obtain q t where tr: "TryAllocateRecycleNonce E args recycleAckInterval s = (q, t)" by fastforce
  show thesis
  proof (cases "\<exists>n. q = Ret n")
    case True
    then show ?thesis
      using TryAllocateRecycleNonce_cases [OF tr] tr assms(1) recycled
      by (auto simp: AllocateNonce_def stry_def sbind_def sret_def a_def)
  next
    case False
    then have t: "setter t = setter s" using TryAllocateRecycleNonce_cases [OF tr] by blast
    let ?u = "init_counter a t"
    have aa: "ToLower a = a" by (simp add: a_def)
    have u: "GetSwapNonce (setter ?u) b = GetSwapNonce (setter s) b" "recycleNonce (setter ?u) = recycleNonce (setter s)"
      "swapNonce (setter ?u) = (swapNonce (setter s))(a := Some (GetSwapNonce (setter s) a))" for b
      using t aa by (auto simp: GetSwapNonce_def init_counter_def split: option.splits)
    obtain p v where al: "AllocateRouterSwapNonce E args (GetSwapNonce (setter s) a) False ?u = (p, v)" by fastforce
    then have v: "setter v = setter ?u" by (rule AllocateRouterSwapNonce_setter)
    have eq: "(r, s') = (case p of Ret (nonce, ptr) \<Rightarrow> (Ret nonce, v\<lparr>setter := (setter v)\<lparr>swapNonce := (swapNonce (setter v))(a \<mapsto> ptr)\<rparr>\<rparr>)
        | Err e \<Rightarrow> (Err e, v) | Panic \<Rightarrow> (Panic, v)) \<or> (q = Panic \<and> r = Panic \<and> s' = t)"
      using assms(1) False tr al u(1) [of a]
      by (cases q) (auto simp: AllocateNonce_def stry_def sbind_def supd_def sget_def sret_def Let_def a_def
          split: prod.splits outcome.splits)
    show ?thesis
    proof (cases "q = Panic \<and> r = Panic \<and> s' = t")
      case True
      then show ?thesis using fail t by auto
    next
      case False
      with eq show ?thesis
        using AllocateRouterSwapNonce_result [of E args _ False ?u _ _ v] al v u counter fail
        by (cases p) (auto split: prod.splits)
    qed
  qed
qed

section \<open>How often a nonce is handed out\<close>

definition recycles :: "nonce_op list \<Rightarrow> string \<Rightarrow> nat \<Rightarrow> nat" where
  "recycles ops a n = length (filter (\<lambda>op. case op of NRecycle _ b m \<Rightarrow> ToLower b = a \<and> m = n | _ \<Rightarrow> False) ops)"

lemma remaining_allocate:
  assumes "AllocateNonce E args s = (Ret m, s')" and "m < W64 - 1" and "ToLower a = a"
  shows "(if (ToLower (args_From args), m) = (a, n) then 1 else 0) + remaining (setter s') a n \<le> remaining (setter s) a n"
  using assms(1)
proof (cases rule: AllocateNonce_cases)
  case (recycled k rec)
  then show ?thesis by (auto simp: remaining_defs split: option.splits)
next
  case counter
  then have "u64_add m 1 = Suc m" "m = GetSwapNonce (setter s) (ToLower (args_From args))"
    using assms(2) by (simp_all add: u64_add_exact)
  with counter assms(3) show ?thesis by (auto simp: remaining_defs split: option.splits)
qed simp

lemma remaining_fail:
  assumes "AllocateNonce E args s = (r, s')" and "\<forall>n. r \<noteq> Ret n"
  shows "remaining (setter s') a n = remaining (setter s) a n"
  using assms(1)
proof (cases rule: AllocateNonce_cases)
  case fail
  then show ?thesis by (simp add: remaining_def ahead_def pending_def)
qed (use assms(2) in auto)

lemma remaining_SetNonce: "remaining (SetNonce b v st) a n \<le> remaining st a n"
  by (auto simp: remaining_defs SetNonce_def Let_def split: option.splits)

lemma remaining_Recycle:
  "remaining (RecycleSwapNonce nw b v st) a n \<le> remaining st a n + (if ToLower b = a \<and> v = n then 1 else 0)"
  by (auto simp: remaining_defs RecycleSwapNonce_def Let_def split: option.splits)

text \<open>
  C24: over any sequence of allocations, counter adjustments and returned nonces, with whatever
  failures in between, a nonce is handed out for an account at most once by the counter, if the
  counter has not passed it yet (not at all otherwise), and once more for every time it was given
  back. So a nonce that is never given back is handed out at most once. The nonces handed out are
  taken to stay below \<open>2^64 - 1\<close>.
\<close>

theorem nonce_handed_out_once:
  assumes "run_nonces E ops s = (xs, t)" and "\<forall>x \<in> set xs. snd x < W64 - 1" and "ToLower a = a"
  shows "count_list xs (a, n) \<le> remaining (setter s) a n + recycles ops a n"
  using assms(1,2)
proof (induction ops arbitrary: s xs)
  case Nil
  then show ?case by simp
next
  case (Cons op ops)
  show ?case
  proof (cases op)
    case (NAllocate args)
    obtain r s' where r: "AllocateNonce E args s = (r, s')" by fastforce
    have rc: "recycles (op # ops) a n = recycles ops a n" by (simp add: recycles_def NAllocate)
    show ?thesis
    proof (cases "\<exists>m. r = Ret m")
      case True
      then obtain m ys where m: "r = Ret m" "run_nonces E ops s' = (ys, t)" "xs = (ToLower (args_From args), m) # ys"
        using Cons.prems(1) r NAllocate by (auto split: prod.splits)
      then have "count_list ys (a, n) \<le> remaining (setter s') a n + recycles ops a n"
        using Cons.IH Cons.prems(2) by simp
      with remaining_allocate [of E args s m s' a n] m r Cons.prems(2) assms(3) rc show ?thesis by auto
    next
      case False
      then have "run_nonces E ops s' = (xs, t)" using Cons.prems(1) r NAllocate by (cases r) auto
      from Cons.IH [OF this Cons.prems(2)] remaining_fail [OF r] False rc show ?thesis by simp
    qed
  next
    case (NSet b v)
    then have "count_list xs (a, n) \<le> remaining (SetNonce b v (setter s)) a n + recycles ops a n"
      using Cons.IH [of "s\<lparr>setter := SetNonce b v (setter s)\<rparr>"] Cons.prems by simp
    with remaining_SetNonce [of b v "setter s" a n] NSet show ?thesis by (simp add: recycles_def)
  next
    case (NRecycle nw b v)
    then have "count_list xs (a, n) \<le> remaining (RecycleSwapNonce nw b v (setter s)) a n + recycles ops a n"
      using Cons.IH [of "s\<lparr>setter := RecycleSwapNonce nw b v (setter s)\<rparr>"] Cons.prems by simp
    with remaining_Recycle [of nw b v "setter s" a n] NRecycle show ?thesis by (auto simp: recycles_def split: if_splits)
  qed
qed

definition sample_nonce_store :: nonce_store where
  "sample_nonce_store = store.extend waiting_swap \<lparr>setter = NewNonceSetterBase\<lparr>swapNonce := [''0xmpc'' \<mapsto> 6]\<rparr>\<rparr>"

definition sample_nonce_ops :: "nonce_op list" where
  "sample_nonce_ops = [NRecycle (- 1000) ''0xMPC'' 4, NAllocate sample_build]"

lemma AllocateNonce_recycled:
  "TryAllocateRecycleNonce E args recycleAckInterval s = (Ret n, s') \<Longrightarrow> AllocateNonce E args s = (Ret n, s')"
  by (simp add: AllocateNonce_def sbind_def stry_def sret_def)

lemma sample_nonce_run: "fst (run_nonces (memory_env two_keys) sample_nonce_ops sample_nonce_store) = [(''0xmpc'', 4)]"
proof -
  let ?s = "sample_nonce_store\<lparr>setter := RecycleSwapNonce (- 1000) ''0xMPC'' 4 (setter sample_nonce_store)\<rparr>"
  let ?r = "TryAllocateRecycleNonce (memory_env two_keys) sample_build recycleAckInterval ?s"
  have "fst ?r = Ret 4" by code_simp
  then have "AllocateNonce (memory_env two_keys) sample_build ?s = (Ret 4, snd ?r)"
    by (intro AllocateNonce_recycled) (metis prod.collapse)
  moreover have "ToLower (args_From sample_build) = ''0xmpc''" by code_simp
  ultimately show ?thesis by (simp add: sample_nonce_ops_def)
qed

theorem nonce_handed_out_once_witness:
  "count_list [(''0xmpc'', 4 :: nat)] (''0xmpc'', 4) \<le>
     remaining (setter sample_nonce_store) ''0xmpc'' 4 + recycles sample_nonce_ops ''0xmpc'' 4"
proof (rule nonce_handed_out_once)
  show "run_nonces (memory_env two_keys) sample_nonce_ops sample_nonce_store =
      ([(''0xmpc'', 4)], snd (run_nonces (memory_env two_keys) sample_nonce_ops sample_nonce_store))"
    using sample_nonce_run by (metis prod.collapse)
  show "\<forall>x \<in> set [(''0xmpc'', 4 :: nat)]. snd x < W64 - 1" by (simp add: W64_def)
  show "ToLower ''0xmpc'' = ''0xmpc''" by code_simp
qed


end
