(* ===== verification/Worker.thy ===== *)
theory Worker
  imports NonceSetter
begin

text \<open>
  Package \<open>worker\<close>: the handlers of the router's jobs, which carry a registered swap through
  verification (verify.go), swapping (swap.go), waiting for the swap transaction to be stable
  (stable.go), its replacement (replace.go), the recheck of failed swaps (checkfailedswap.go) and
  the release of swaps of a big value (passbigvalue.go), with their helpers (common.go, utils.go).

  The package's variables (the two caches, the history ring, the task channels) extend the store
  in the record \<open>world\<close>. What a handler starts with \<open>go\<close> is appended to \<open>tasks\<close> and is a handler
  of its own; the transactions handed to a node are appended to \<open>sent\<close>. The router's tables, the
  database driver, the arbitrary choice of \<open>mapset.Pop\<close> and \<open>BuildRawTransaction\<close> of the target
  bridge (which writes to its argument and, when nonces are allocated by the database, to the
  store) are parameters. The endless loops of the jobs call these handlers on the documents that
  the queries of package \<open>mongodb\<close> return; logging and sleeping are left out.
\<close>

section \<open>State and errors\<close>

datatype worker_error =
    WToken token_error
  | WStore store_error
  | WSign sign_error
  | ErrAlreadySwapped
  | ErrSwapChannelIsFull
  | ErrStableChannelIsFull
  | WOther string

record swap_history =
  hist_chainID :: string
  hist_txid :: string
  hist_logIndex :: int
  hist_matchTx :: string

text \<open>The handlers that run in goroutines of their own.\<close>

datatype task =
    SignAndSendTx opaque BuildTxArgs
  | SendTxLoopUntilSuccess string opaque BuildTxArgs
  | SignAndSendReplaceTx opaque BuildTxArgs MgoSwapResult

record world = store +
  cachedVerifyingSwaps :: "string set"
  cachedSwapTasks :: "string set"
  swapRing :: "swap_history list"
  routerSwapTaskChanMap :: "string \<rightharpoonup> BuildTxArgs list"
  routerStableTaskChanMap :: "string \<rightharpoonup> MgoSwapResult list"
  setters :: "string \<rightharpoonup> setter"
  tasks :: "task list"
  sent :: "opaque list"

type_synonym 'a working = "(world, worker_error, 'a) stateful"

record worker_env =
  mgo :: mgo_env
  rtr :: router_state
  popped :: "nat \<Rightarrow> string set \<Rightarrow> string"
  buildRaw :: "IBridge \<Rightarrow> BuildTxArgs \<Rightarrow> (opaque \<times> BuildTxArgs) working"

text \<open>A call of package \<open>mongodb\<close>, with its error as one of the worker's.\<close>

definition db :: "(world, store_error, 'a) stateful \<Rightarrow> 'a working" where
  "db m s = (case m s of (Ret a, s') \<Rightarrow> (Ret a, s') | (Err e, s') \<Rightarrow> (Err (WStore e), s') | (Panic, s') \<Rightarrow> (Panic, s'))"

definition tok :: "(token_error, 'a) outcome \<Rightarrow> 'a working" where
  "tok r = slift (case r of Ret a \<Rightarrow> Ret a | Err e \<Rightarrow> Err (WToken e) | Panic \<Rightarrow> Panic)"

text \<open>An error that the code drops: \<open>_ = f()\<close>.\<close>

definition dropped :: "'a working \<Rightarrow> unit working" where
  "dropped m = sbind (stry m) (\<lambda>_. sret ())"

definition bridge_of :: "worker_env \<Rightarrow> string \<Rightarrow> IBridge working" where
  "bridge_of E chainID =
     slift (case GetBridgeByChainID (rtr E) chainID of None \<Rightarrow> Err (WToken ErrNoBridgeForChainID) | Some b \<Rightarrow> Ret b)"

section \<open>utils.go\<close>

definition now :: "worker_env \<Rightarrow> int working" where
  "now E = Unix_now (mgo E)"

definition getSepTimeInFind :: "worker_env \<Rightarrow> int \<Rightarrow> int working" where
  "getSepTimeInFind E dist = sbind (now E) (\<lambda>nowTime. sret (if nowTime > dist then i64 (nowTime - dist) else 0))"

definition maxTxNotFoundTime :: int where "maxTxNotFoundTime = 2 * 24 * 3600"
definition maxVerifyLifetime :: int where "maxVerifyLifetime = 7 * 24 * 3600"
definition maxDoSwapLifetime :: int where "maxDoSwapLifetime = 7 * 24 * 3600"
definition maxStableLifetime :: int where "maxStableLifetime = 7 * 24 * 3600"
definition maxReplaceSwapLifetime :: int where "maxReplaceSwapLifetime = 7 * 24 * 3600"
definition maxPassBigValueLifetime :: int where "maxPassBigValueLifetime = 7 * 24 * 3600"
definition passBigValueTimeRequired :: int where "passBigValueTimeRequired = 12 * 3600"
definition maxCheckFailedSwapLifetime :: int where "maxCheckFailedSwapLifetime = 2 * 24 * 3600"

section \<open>common.go\<close>

record MatchTx =
  mt_MPC :: string
  mt_SwapTx :: string
  mt_SwapHeight :: nat
  mt_SwapTime :: nat
  mt_SwapValue :: string
  mt_SwapNonce :: nat

definition no_match :: MatchTx where
  "no_match = \<lparr>mt_MPC = '''', mt_SwapTx = '''', mt_SwapHeight = 0, mt_SwapTime = 0, mt_SwapValue = '''', mt_SwapNonce = 0\<rparr>"

definition AddInitialSwapResult :: "worker_env \<Rightarrow> SwapTxInfo \<Rightarrow> SwapStatus \<Rightarrow> unit working" where
  "AddInitialSwapResult E swapInfo st =
     sbind (now E) (\<lambda>nw.
     db (AddRouterSwapResult (mgo E)
       \<lparr>rs_Key = '''', rs_SwapType = tx_SwapType swapInfo, rs_TxID = tx_Hash swapInfo, rs_TxTo = tx_TxTo swapInfo,
        rs_TxHeight = tx_Height swapInfo, rs_TxTime = tx_Timestamp swapInfo, rs_From = tx_From swapInfo, rs_To = tx_To swapInfo,
        rs_Bind = tx_Bind swapInfo, rs_Value = (case tx_Value swapInfo of None \<Rightarrow> ''0'' | Some v \<Rightarrow> big_String v),
        rs_LogIndex = tx_LogIndex swapInfo, rs_FromChainID = bi_String (tx_FromChainID swapInfo),
        rs_ToChainID = bi_String (tx_ToChainID swapInfo), rs_SwapInfo = ConvertToSwapInfo swapInfo, rs_SwapTx = '''',
        rs_OldSwapTxs = [], rs_SwapHeight = 0, rs_SwapTime = 0, rs_SwapValue = ''0'', rs_SwapNonce = 0, rs_Status = st,
        rs_InitTime = 0, rs_Timestamp = nw, rs_Memo = '''', rs_MPC = ''''\<rparr>))"

definition keep_items :: "int \<Rightarrow> SwapResultUpdateItems" where
  "keep_items nw = \<lparr>it_MPC = '''', it_SwapTx = '''', it_SwapHeight = 0, it_SwapTime = 0, it_SwapValue = '''', it_SwapNonce = 0,
     it_Status = KeepStatus, it_Timestamp = nw, it_Memo = ''''\<rparr>"

definition match_items :: "MatchTx \<Rightarrow> int \<Rightarrow> SwapResultUpdateItems" where
  "match_items mtx nw =
     (let updates = keep_items nw in
      if mt_SwapHeight mtx = 0 then
        (let updates = updates\<lparr>it_SwapValue := mt_SwapValue mtx, it_SwapNonce := mt_SwapNonce mtx, it_SwapHeight := 0, it_SwapTime := 0\<rparr>
         in if mt_SwapTx mtx \<noteq> ''''
            then updates\<lparr>it_MPC := mt_MPC mtx, it_SwapTx := mt_SwapTx mtx, it_Status := MatchTxNotStable\<rparr> else updates)
      else
        (let updates = updates\<lparr>it_SwapNonce := mt_SwapNonce mtx, it_SwapHeight := mt_SwapHeight mtx, it_SwapTime := mt_SwapTime mtx\<rparr>
         in if mt_SwapTx mtx \<noteq> '''' then updates\<lparr>it_SwapTx := mt_SwapTx mtx\<rparr> else updates))"

definition updateRouterSwapResult :: "worker_env \<Rightarrow> string \<Rightarrow> string \<Rightarrow> int \<Rightarrow> MatchTx \<Rightarrow> unit working" where
  "updateRouterSwapResult E fromChainID txid logIndex mtx =
     sbind (now E) (\<lambda>nw. db (UpdateRouterSwapResult (mgo E) fromChainID txid logIndex (match_items mtx nw)))"

definition updateSwapTimestamp :: "worker_env \<Rightarrow> string \<Rightarrow> string \<Rightarrow> int \<Rightarrow> unit working" where
  "updateSwapTimestamp E fromChainID txid logIndex =
     sbind (now E) (\<lambda>nw. db (UpdateRouterSwapResult (mgo E) fromChainID txid logIndex (keep_items nw)))"

definition updateSwapTx :: "worker_env \<Rightarrow> string \<Rightarrow> string \<Rightarrow> int \<Rightarrow> string \<Rightarrow> unit working" where
  "updateSwapTx E fromChainID txid logIndex swapTx =
     sbind (now E) (\<lambda>nw. db (UpdateRouterSwapResult (mgo E) fromChainID txid logIndex ((keep_items nw)\<lparr>it_SwapTx := swapTx\<rparr>)))"

definition markSwapResultUnstable :: "worker_env \<Rightarrow> string \<Rightarrow> string \<Rightarrow> int \<Rightarrow> unit working" where
  "markSwapResultUnstable E fromChainID txid logIndex =
     sbind (now E) (\<lambda>nw. db (UpdateRouterSwapResultStatus (mgo E) fromChainID txid logIndex MatchTxNotStable nw ''''))"

definition markSwapResultStable :: "worker_env \<Rightarrow> string \<Rightarrow> string \<Rightarrow> int \<Rightarrow> unit working" where
  "markSwapResultStable E fromChainID txid logIndex =
     sbind (now E) (\<lambda>nw. db (UpdateRouterSwapResultStatus (mgo E) fromChainID txid logIndex MatchTxStable nw ''''))"

definition markSwapResultFailed :: "worker_env \<Rightarrow> string \<Rightarrow> string \<Rightarrow> int \<Rightarrow> unit working" where
  "markSwapResultFailed E fromChainID txid logIndex =
     sbind (now E) (\<lambda>nw. db (UpdateRouterSwapResultStatus (mgo E) fromChainID txid logIndex MatchTxFailed nw ''''))"

definition strings_Contains :: "string \<Rightarrow> string \<Rightarrow> bool" where
  "strings_Contains s sub \<longleftrightarrow> list_ex (\<lambda>i. take (length sub) (drop i s) = sub) [0..<Suc (length s)]"

definition needRetrySendTx :: "token_error \<Rightarrow> bool" where
  "needRetrySendTx err =
     (let errMsg = token_Error err in
      strings_Contains errMsg ''Client.Timeout exceeded while awaiting headers'' \<or>
      strings_Contains errMsg ''json-rpc error -32000, internal'' \<or>
      EqualFold errMsg ''json-rpc error -32000, '')"

text \<open>A transaction handed to the node of a chain.\<close>

definition send :: "IBridge \<Rightarrow> opaque \<Rightarrow> (string \<times> token_error option) working" where
  "send br signedTx =
     sbind (supd (\<lambda>s. s\<lparr>sent := sent s @ [signedTx]\<rparr>)) (\<lambda>_. extern (\<lambda>t. sendTransaction br t signedTx))"

text \<open>The inner loop (three attempts) and the outer loop of \<open>sendSignedTransaction\<close>.\<close>

fun send_attempts :: "nat \<Rightarrow> IBridge \<Rightarrow> opaque \<Rightarrow> string \<times> token_error option \<Rightarrow> (string \<times> token_error option) working" where
  "send_attempts 0 br signedTx prev = sret prev"
| "send_attempts (Suc n) br signedTx prev =
     sbind (send br signedTx) (\<lambda>(txHash, err). if err = None then sret (txHash, None) else send_attempts n br signedTx (txHash, err))"

fun send_loops :: "nat \<Rightarrow> IBridge \<Rightarrow> opaque \<Rightarrow> (string \<times> token_error option) working" where
  "send_loops 0 br signedTx = sret ('''', None)"
| "send_loops (Suc n) br signedTx =
     sbind (send_attempts 3 br signedTx ('''', None)) (\<lambda>(txHash, err).
     case err of
       None \<Rightarrow> sret (txHash, None)
     | Some e \<Rightarrow> if \<not> needRetrySendTx e \<or> n = 0 then sret (txHash, Some e) else send_loops n br signedTx)"

definition toChain :: "BuildTxArgs \<Rightarrow> string" where
  "toChain args = bi_String (args_ToChainID (swapArgs args))"

definition fromChain :: "BuildTxArgs \<Rightarrow> string" where
  "fromChain args = bi_String (args_FromChainID (swapArgs args))"

definition int_entry :: "(string \<times> int) list \<Rightarrow> string \<Rightarrow> int" where
  "int_entry m k = (case map_of m k of None \<Rightarrow> 0 | Some n \<Rightarrow> n)"

definition server_config :: "worker_env \<Rightarrow> RouterServerConfig working" where
  "server_config E = slift (non_nil (GetRouterServerConfig (prm (toks (rtr E)))))"

definition sendSignedTransaction :: "worker_env \<Rightarrow> IBridge \<Rightarrow> opaque \<Rightarrow> BuildTxArgs \<Rightarrow> (string \<times> token_error option) working" where
  "sendSignedTransaction E br signedTx args =
     sbind (server_config E) (\<lambda>cfg.
     let n = int_entry (RetrySendTxLoopCount cfg) (toChain args); loops = (if n = 0 then 2 else n) in
     sbind (send_loops (nat loops) br signedTx) (\<lambda>(txHash, err).
     case err of
       Some e \<Rightarrow> sret (txHash, Some e)
     | None \<Rightarrow>
         sbind (if 0 \<le> int_entry (SendTxLoopCount cfg) (toChain args)
                then supd (\<lambda>s. s\<lparr>tasks := tasks s @ [SendTxLoopUntilSuccess txHash signedTx args]\<rparr>) else sret ()) (\<lambda>_.
         sret (txHash, None))))"

text \<open>The loop of \<open>sendTxLoopUntilSuccess\<close>, for the remaining number of rounds.\<close>

fun resend_loop :: "nat \<Rightarrow> worker_env \<Rightarrow> IBridge \<Rightarrow> string \<Rightarrow> opaque \<Rightarrow> BuildTxArgs \<Rightarrow> unit working" where
  "resend_loop 0 E br txHash signedTx args = sret ()"
| "resend_loop (Suc n) E br txHash signedTx args =
     sbind (extern (\<lambda>t. getTransactionStatus br t txHash)) (\<lambda>(txStatus, err).
     if err = None \<and> txStatus = None then slift Panic
     else if err = None \<and> 0 < BlockHeight (the txStatus) then
       dropped (updateRouterSwapResult E (fromChain args) (args_SwapID (swapArgs args)) (args_LogIndex (swapArgs args))
         (no_match\<lparr>mt_SwapTx := txHash, mt_SwapHeight := BlockHeight (the txStatus), mt_SwapTime := BlockTime (the txStatus)\<rparr>))
     else sbind (send br signedTx) (\<lambda>(txHash', _). resend_loop n E br txHash' signedTx args))"

definition sendTxLoopUntilSuccess :: "worker_env \<Rightarrow> IBridge \<Rightarrow> string \<Rightarrow> opaque \<Rightarrow> BuildTxArgs \<Rightarrow> unit working" where
  "sendTxLoopUntilSuccess E br txHash signedTx args =
     sbind (server_config E) (\<lambda>cfg.
     let n = int_entry (SendTxLoopCount cfg) (toChain args) in
     resend_loop (nat (if n = 0 then 30 else n)) E br txHash signedTx args)"

section \<open>verify.go\<close>

definition isBlacked :: "worker_env \<Rightarrow> MgoSwap \<Rightarrow> bool" where
  "isBlacked E swap =
     (let p = prm (toks (rtr E)) in
      IsChainIDInBlackList p (sw_FromChainID swap) \<or>
      IsChainIDInBlackList p (sw_ToChainID swap) \<or>
      IsTokenIDInBlackList p (Mgo_GetTokenID (sw_SwapInfo swap)) \<or>
      IsAccountInBlackList p (sw_From swap) \<or>
      IsAccountInBlackList p (sw_Bind swap) \<or>
      IsAccountInBlackList p (sw_TxTo swap))"

definition maxCachedVerifyingSwaps :: nat where "maxCachedVerifyingSwaps = 100"

definition cacheVerifying :: "worker_env \<Rightarrow> string \<Rightarrow> unit working" where
  "cacheVerifying E key =
     sbind (sget (\<lambda>s.
       if maxCachedVerifyingSwaps \<le> card (cachedVerifyingSwaps s)
       then sbind (extern (\<lambda>t. popped E t (cachedVerifyingSwaps s))) (\<lambda>x.
            supd (\<lambda>s. s\<lparr>cachedVerifyingSwaps := cachedVerifyingSwaps s - {x}\<rparr>))
       else sret ())) (\<lambda>_.
     supd (\<lambda>s. s\<lparr>cachedVerifyingSwaps := insert key (cachedVerifyingSwaps s)\<rparr>))"

definition DeleteCachedVerifyingSwap :: "string \<Rightarrow> unit working" where
  "DeleteCachedVerifyingSwap key = supd (\<lambda>s. s\<lparr>cachedVerifyingSwaps := cachedVerifyingSwaps s - {key}\<rparr>)"

text \<open>What \<open>processRouterSwapVerify\<close> records for an error of the verification.\<close>

definition verifyErrorStatus :: "token_error \<Rightarrow> SwapStatus" where
  "verifyErrorStatus err =
     (if errors_Is err ErrTxWithWrongValue then TxWithWrongValue
      else if errors_Is err ErrTxWithWrongPath then TxWithWrongPath
      else if errors_Is err ErrMissTokenConfig then MissTokenConfig
      else if errors_Is err ErrNoUnderlyingToken then NoUnderlyingToken
      else TxVerifyFailed)"

definition setSwapStatus :: "worker_env \<Rightarrow> MgoSwap \<Rightarrow> SwapStatus \<Rightarrow> string \<Rightarrow> unit working" where
  "setSwapStatus E swap st memo =
     sbind (now E) (\<lambda>nw. db (UpdateRouterSwapStatus (mgo E) (sw_FromChainID swap) (sw_TxID swap) (sw_LogIndex swap) st nw memo))"

text \<open>The case of a verified transaction.\<close>

definition verifyPassed :: "worker_env \<Rightarrow> MgoSwap \<Rightarrow> SwapTxInfo \<Rightarrow> unit working" where
  "verifyPassed E swap swapInfo =
     sbind (tok (IsBigValueSwap (rtr E) swapInfo)) (\<lambda>big.
     if big then setSwapStatus E swap TxWithBigValue ''big swap value''
     else sbind (now E) (\<lambda>nw.
          sbind (db (PassRouterSwapVerify (mgo E) (sw_FromChainID swap) (sw_TxID swap) (sw_LogIndex swap) nw)) (\<lambda>_.
          AddInitialSwapResult E swapInfo MatchTxEmpty)))"

text \<open>The cases of an error, with the error as the outcome; two of them leave the cache.\<close>

definition verifyFailed :: "worker_env \<Rightarrow> MgoSwap \<Rightarrow> token_error \<Rightarrow> unit working" where
  "verifyFailed E swap err =
     (if errors_Is err ErrTxNotStable \<or> errors_Is err ErrRPCQueryError then
        sbind (DeleteCachedVerifyingSwap (sw_Key swap)) (\<lambda>_. slift (Err (WToken err)))
      else if errors_Is err ErrTxNotFound \<or> errors_Is err ErrNotFound then
        sbind (NowMilli (mgo E)) (\<lambda>nowMilli.
        if i64 (sw_InitTime swap + 1000 * maxTxNotFoundTime) < nowMilli then
          sbind (dropped (setSwapStatus E swap TxVerifyFailed (token_Error err))) (\<lambda>_.
          sbind (now E) (\<lambda>nw.
          sbind (dropped (db (UpdateRouterSwapResultStatus (mgo E) (sw_FromChainID swap) (sw_TxID swap) (sw_LogIndex swap)
                   TxVerifyFailed nw (token_Error err)))) (\<lambda>_.
          slift (Err (WToken err)))))
        else sbind (DeleteCachedVerifyingSwap (sw_Key swap)) (\<lambda>_. slift (Err (WToken err))))
      else sbind (dropped (setSwapStatus E swap (verifyErrorStatus err) (token_Error err))) (\<lambda>_. slift (Err (WToken err))))"

definition processRouterSwapVerify :: "worker_env \<Rightarrow> MgoSwap \<Rightarrow> unit working" where
  "processRouterSwapVerify E swap =
     (if IsChainIDPaused (rtr E) (sw_FromChainID swap) \<or> IsChainIDPaused (rtr E) (sw_ToChainID swap) then sret ()
      else sget (\<lambda>s.
      if sw_Key swap \<in> cachedVerifyingSwaps s then sret ()
      else sbind (cacheVerifying E (sw_Key swap)) (\<lambda>_.
      if isBlacked E swap then
        sbind (dropped (setSwapStatus E swap SwapInBlacklist (token_Error ErrSwapInBlacklist))) (\<lambda>_.
        slift (Err (WToken ErrSwapInBlacklist)))
      else
        sbind (bridge_of E (sw_FromChainID swap)) (\<lambda>bridge.
        sbind (extern (\<lambda>t. verifyTransaction bridge t (sw_TxID swap)
                 \<lparr>va_SwapType = sw_SwapType swap, va_LogIndex = sw_LogIndex swap, AllowUnstable = False\<rparr>)) (\<lambda>verified.
        case verified of
          Inr swapInfo \<Rightarrow> dropped (verifyPassed E swap swapInfo)
        | Inl err \<Rightarrow> verifyFailed E swap err)))))"

section \<open>swap.go: the history ring\<close>

text \<open>
  \<open>container/ring\<close>: a ring is the list of its elements from the one that the pointer refers to.
  \<open>Move\<close> turns it, \<open>Link\<close> inserts the elements of another ring after the first, \<open>Unlink\<close> removes
  elements after the first.
\<close>

definition ring_Move :: "int \<Rightarrow> 'a list \<Rightarrow> 'a list" where
  "ring_Move n r = rotate (nat (n mod int (length r))) r"

definition ring_Link :: "'a list \<Rightarrow> 'a list \<Rightarrow> 'a list" where
  "ring_Link r s = hd r # s @ tl r"

definition ring_Unlink :: "nat \<Rightarrow> 'a list \<Rightarrow> 'a list" where
  "ring_Unlink n r = hd r # drop n (tl r)"

definition swapRingMaxSize :: nat where "swapRingMaxSize = 1000"

text \<open>Linking after \<open>swapRing.Move(-1)\<close> leaves \<open>swapRing\<close> where it was, two places behind.\<close>

definition ring_push :: "swap_history \<Rightarrow> swap_history list \<Rightarrow> swap_history list" where
  "ring_push item ring =
     (if ring = [] then [item]
      else let ring1 = (if length ring = swapRingMaxSize then ring_Move 1 (ring_Unlink 1 (ring_Move (- 1) ring)) else ring)
           in ring_Move 2 (ring_Link (ring_Move (- 1) ring1) [item]))"

definition addSwapHistory :: "string \<Rightarrow> string \<Rightarrow> int \<Rightarrow> string \<Rightarrow> unit working" where
  "addSwapHistory chainID txid logIndex matchTx =
     supd (\<lambda>s. s\<lparr>swapRing := ring_push \<lparr>hist_chainID = chainID, hist_txid = txid, hist_logIndex = logIndex, hist_matchTx = matchTx\<rparr>
       (swapRing s)\<rparr>)"

definition ring_find :: "string \<Rightarrow> string \<Rightarrow> int \<Rightarrow> swap_history list \<Rightarrow> swap_history option" where
  "ring_find chainID txid logIndex ring =
     find (\<lambda>h. hist_txid h = txid \<and> hist_chainID h = chainID \<and> hist_logIndex h = logIndex)
       (map (\<lambda>i. hd (ring_Move (- int i) ring)) [0..<length ring])"

definition getSwapHistory :: "string \<Rightarrow> string \<Rightarrow> int \<Rightarrow> (swap_history option) working" where
  "getSwapHistory chainID txid logIndex = sget (\<lambda>s. sret (ring_find chainID txid logIndex (swapRing s)))"

section \<open>swap.go\<close>

definition setStatusOf :: "worker_env \<Rightarrow> MgoSwapResult \<Rightarrow> SwapStatus \<Rightarrow> unit working" where
  "setStatusOf E res st =
     sbind (now E) (\<lambda>nw. db (UpdateRouterSwapStatus (mgo E) (rs_FromChainID res) (rs_TxID res) (rs_LogIndex res) st nw ''''))"

definition untouched :: "MgoSwapResult \<Rightarrow> bool" where
  "untouched res \<longleftrightarrow>
     \<not> (0 < rs_SwapNonce res \<or> \<not> (rs_Status res = MatchTxEmpty \<or> rs_Status res = StReswapping) \<or>
        rs_SwapTx res \<noteq> '''' \<or> rs_SwapHeight res \<noteq> 0 \<or> rs_OldSwapTxs res \<noteq> [])"

definition processNonEmptySwapResult :: "worker_env \<Rightarrow> MgoSwapResult \<Rightarrow> unit working" where
  "processNonEmptySwapResult E res =
     (if \<not> untouched res
      then sbind (dropped (setStatusOf E res TxProcessed)) (\<lambda>_. slift (Err ErrAlreadySwapped))
      else sret ())"

definition processHistory :: "worker_env \<Rightarrow> MgoSwapResult \<Rightarrow> unit working" where
  "processHistory E res =
     (if (rs_Status res = MatchTxEmpty \<or> rs_Status res = StReswapping) \<and> rs_SwapNonce res = 0 then sret ()
      else sbind (getSwapHistory (rs_FromChainID res) (rs_TxID res) (rs_LogIndex res)) (\<lambda>history.
           case history of
             None \<Rightarrow> sret ()
           | Some _ \<Rightarrow> sbind (dropped (setStatusOf E res TxProcessed)) (\<lambda>_. slift (Err ErrAlreadySwapped))))"

definition preventReswap :: "worker_env \<Rightarrow> MgoSwapResult \<Rightarrow> unit working" where
  "preventReswap E res = sbind (processNonEmptySwapResult E res) (\<lambda>_. processHistory E res)"

definition bigIntOr :: "string \<Rightarrow> string \<Rightarrow> int working" where
  "bigIntOr v msg =
     slift (case GetBigIntFromStr v of Ret n \<Rightarrow> Ret n | Err _ \<Rightarrow> Err (WOther (msg @ v)) | Panic \<Rightarrow> Panic)"

definition getFromToChainIDAndValue :: "string \<Rightarrow> string \<Rightarrow> string \<Rightarrow> (int \<times> int \<times> int) working" where
  "getFromToChainIDAndValue fromChainID toChainID v =
     sbind (bigIntOr fromChainID ''wrong fromChainID '') (\<lambda>f.
     sbind (bigIntOr toChainID ''wrong toChainID '') (\<lambda>t.
     sbind (bigIntOr v ''wrong value '') (\<lambda>x.
     sret (f, t, x))))"

definition swapChanSize :: nat where "swapChanSize = 50"

definition dispatchSwapTask :: "BuildTxArgs \<Rightarrow> unit working" where
  "dispatchSwapTask args =
     (if \<not> IsValidType (args_SwapType (swapArgs args)) then slift (Err (WOther ''unknown router swap type''))
      else sget (\<lambda>s.
      case routerSwapTaskChanMap s (toChain args) of
        None \<Rightarrow> slift (Err (WOther ''no swapout task channel for chainID''))
      | Some ch \<Rightarrow>
          if length ch < swapChanSize
          then supd (\<lambda>s. s\<lparr>routerSwapTaskChanMap := (routerSwapTaskChanMap s)(toChain args \<mapsto> ch @ [args])\<rparr>)
          else slift (Err ErrSwapChannelIsFull)))"

definition with_info :: "SwapArgs \<Rightarrow> SwapInfo \<Rightarrow> SwapArgs" where
  "with_info args info =
     args\<lparr>erc20Info := erc20Info info, nftInfo := nftInfo info, anycallInfo := anycallInfo info, curveInfo := curveInfo info\<rparr>"

definition swapInfo_of :: "MgoSwapInfo \<Rightarrow> SwapInfo working" where
  "swapInfo_of info = slift (case ConvertFromSwapInfo info of Ret i \<Rightarrow> Ret i | Err m \<Rightarrow> Err (WOther m) | Panic \<Rightarrow> Panic)"

definition processRouterSwap :: "worker_env \<Rightarrow> MgoSwap \<Rightarrow> unit working" where
  "processRouterSwap E swap =
     (if IsChainIDPaused (rtr E) (sw_FromChainID swap) \<or> IsChainIDPaused (rtr E) (sw_ToChainID swap) then sret ()
      else sget (\<lambda>s.
      if GetRouterSwapKey (sw_FromChainID swap) (sw_TxID swap) (sw_LogIndex swap) \<in> cachedSwapTasks s
      then slift (Err ErrAlreadySwapped)
      else if isBlacked E swap then dropped (setSwapStatus E swap SwapInBlacklist (token_Error ErrSwapInBlacklist))
      else
        sbind (db (FindRouterSwapResult (mgo E) (sw_FromChainID swap) (sw_TxID swap) (sw_LogIndex swap))) (\<lambda>res.
        sbind (bridge_of E (sw_ToChainID swap)) (\<lambda>dstBridge.
        sbind (preventReswap E res) (\<lambda>_.
        sbind (getFromToChainIDAndValue (sw_FromChainID swap) (sw_ToChainID swap) (rs_Value res)) (\<lambda>(biFrom, biTo, biValue).
        sbind (tok (GetRouterMPC (rtr E) (Mgo_GetTokenID (sw_SwapInfo swap)) (sw_ToChainID swap))) (\<lambda>routerMPC.
        sbind (swapInfo_of (sw_SwapInfo swap)) (\<lambda>info.
        dispatchSwapTask
          \<lparr>swapArgs = with_info
             \<lparr>erc20Info = None, nftInfo = None, anycallInfo = None, curveInfo = None,
              args_Identifier = GetIdentifier (prm (toks (rtr E))), args_SwapID = sw_TxID swap, args_SwapType = sw_SwapType swap,
              args_Bind = sw_Bind swap, args_LogIndex = sw_LogIndex swap, args_FromChainID = Some biFrom, args_ToChainID = Some biTo,
              Reswapping = (rs_Status res = StReswapping)\<rparr> info,
           args_From = routerMPC, args_To = '''', OriginFrom = sw_From swap, OriginTxTo = sw_TxTo swap,
           OriginValue = Some biValue, SwapValue = None, args_Value = None, Memo = '''', Input = None, args_Extra = None\<rparr>))))))))"

definition maxCachedSwapTasks :: nat where "maxCachedSwapTasks = 1000"

definition checkAndUpdateProcessSwapTaskCache :: "worker_env \<Rightarrow> string \<Rightarrow> unit working" where
  "checkAndUpdateProcessSwapTaskCache E key =
     sget (\<lambda>s.
     if key \<in> cachedSwapTasks s then slift (Err ErrAlreadySwapped)
     else sbind (if maxCachedSwapTasks \<le> card (cachedSwapTasks s)
                 then sbind (extern (\<lambda>t. popped E t (cachedSwapTasks s))) (\<lambda>x.
                      supd (\<lambda>s. s\<lparr>cachedSwapTasks := cachedSwapTasks s - {x}\<rparr>))
                 else sret ()) (\<lambda>_.
          supd (\<lambda>s. s\<lparr>cachedSwapTasks := insert key (cachedSwapTasks s)\<rparr>)))"

text \<open>\<open>defer\<close> with the cache entry: it is removed when the part before it was marked as processed fails.\<close>

definition uncache_on_failure :: "string \<Rightarrow> 'a working \<Rightarrow> 'a working" where
  "uncache_on_failure key m s =
     (case m s of
        (Ret a, s') \<Rightarrow> (Ret a, s')
      | (r, s') \<Rightarrow> (r, s'\<lparr>cachedSwapTasks := cachedSwapTasks s' - {key}\<rparr>))"

definition reverifySwap :: "worker_env \<Rightarrow> BuildTxArgs \<Rightarrow> unit working" where
  "reverifySwap E args =
     (case GetBridgeByChainID (rtr E) (fromChain args) of
        None \<Rightarrow> sret ()
      | Some srcBridge \<Rightarrow>
          sbind (extern (\<lambda>t. verifyTransaction srcBridge t (args_SwapID (swapArgs args))
                   \<lparr>va_SwapType = args_SwapType (swapArgs args), va_LogIndex = args_LogIndex (swapArgs args), AllowUnstable = False\<rparr>)) (\<lambda>verified.
          case verified of
            Inr _ \<Rightarrow> sret ()
          | Inl err \<Rightarrow>
              if errors_Is err ErrTxNotStable \<or> errors_Is err ErrRPCQueryError then sret ()
              else sbind (now E) (\<lambda>nw.
                   sbind (dropped (db (UpdateRouterSwapStatus (mgo E) (fromChain args) (args_SwapID (swapArgs args))
                            (args_LogIndex (swapArgs args)) TxNotStable nw ''''))) (\<lambda>_.
                   sbind (now E) (\<lambda>nw2.
                   dropped (db (UpdateRouterSwapResultStatus (mgo E) (fromChain args) (args_SwapID (swapArgs args))
                            (args_LogIndex (swapArgs args)) TxNotStable nw2 (token_Error err))))))))"

definition mpcSign :: "worker_env \<Rightarrow> IBridge \<Rightarrow> opaque \<Rightarrow> BuildTxArgs \<Rightarrow> (opaque \<times> string) working" where
  "mpcSign E resBridge rawTx args =
     sbind (extern (\<lambda>t. mpcSignTransaction resBridge t rawTx args)) (\<lambda>signed.
     case signed of
       Inr p \<Rightarrow> sret p
     | Inl (SignDisagree m) \<Rightarrow> sbind (reverifySwap E args) (\<lambda>_. slift (Err (WSign (SignDisagree m))))
     | Inl err \<Rightarrow> slift (Err (WSign err)))"

text \<open>A transaction that was sent under another hash than it was signed with.\<close>

definition sendAndCheckHash :: "worker_env \<Rightarrow> IBridge \<Rightarrow> opaque \<Rightarrow> string \<Rightarrow> BuildTxArgs \<Rightarrow> string \<Rightarrow> string \<Rightarrow> int \<Rightarrow> unit working" where
  "sendAndCheckHash E resBridge signedTx txHash args fromChainID txid logIndex =
     sbind (sendSignedTransaction E resBridge signedTx args) (\<lambda>(sentTxHash, err).
     case err of
       Some e \<Rightarrow> slift (Err (WToken e))
     | None \<Rightarrow>
         if txHash \<noteq> sentTxHash
         then dropped (db (UpdateRouterOldSwapTxs (mgo E) fromChainID txid logIndex sentTxHash))
         else sret ())"

text \<open>
  \<open>doSwap\<close> up to the point where the swap counts as processed: build, sign, check again that
  nothing was swapped meanwhile, and record the transaction before it is sent.
\<close>

definition buildSignRecord :: "worker_env \<Rightarrow> BuildTxArgs \<Rightarrow> (IBridge \<times> opaque \<times> string \<times> BuildTxArgs) working" where
  "buildSignRecord E args0 =
     (let fromChainID = fromChain args0; txid = args_SwapID (swapArgs args0); logIndex = args_LogIndex (swapArgs args0) in
     sbind (bridge_of E (toChain args0)) (\<lambda>resBridge.
     sbind (buildRaw E resBridge args0) (\<lambda>(rawTx, args).
     sbind (mpcSign E resBridge rawTx args) (\<lambda>(signedTx, txHash).
     sbind (db (FindRouterSwapResult (mgo E) fromChainID txid logIndex)) (\<lambda>res.
     sbind (preventReswap E res) (\<lambda>_.
     sbind (addSwapHistory fromChainID txid logIndex txHash) (\<lambda>_.
     sbind (updateRouterSwapResult E fromChainID txid logIndex
        (no_match\<lparr>mt_SwapTx := txHash, mt_SwapNonce := GetTxNonce args, mt_MPC := args_From args,
          mt_SwapValue := (case SwapValue args of None \<Rightarrow> '''' | Some v \<Rightarrow> big_String v)\<rparr>)) (\<lambda>_.
     sret (resBridge, signedTx, txHash, args)))))))))"

definition doSwapParallel :: "worker_env \<Rightarrow> BuildTxArgs \<Rightarrow> unit working" where
  "doSwapParallel E args0 =
     (let key = GetRouterSwapKey (fromChain args0) (args_SwapID (swapArgs args0)) (args_LogIndex (swapArgs args0)) in
     sbind (checkAndUpdateProcessSwapTaskCache E key) (\<lambda>_.
     uncache_on_failure key (
       sbind (bridge_of E (toChain args0)) (\<lambda>resBridge.
       sbind (buildRaw E resBridge args0) (\<lambda>(rawTx, args).
       supd (\<lambda>s. s\<lparr>tasks := tasks s @ [SignAndSendTx rawTx args]\<rparr>))))))"

definition doSwap :: "worker_env \<Rightarrow> BuildTxArgs \<Rightarrow> unit working" where
  "doSwap E args0 =
     (if IsParallelSwapEnabled (prm (toks (rtr E))) then doSwapParallel E args0
      else
        let fromChainID = fromChain args0; txid = args_SwapID (swapArgs args0); logIndex = args_LogIndex (swapArgs args0);
            key = GetRouterSwapKey fromChainID txid logIndex in
        sbind (checkAndUpdateProcessSwapTaskCache E key) (\<lambda>_.
        sbind (uncache_on_failure key (buildSignRecord E args0)) (\<lambda>(resBridge, signedTx, txHash, args).
        sbind (now E) (\<lambda>nw.
        sbind (db (UpdateRouterSwapStatus (mgo E) fromChainID txid logIndex TxProcessed nw '''')) (\<lambda>_.
        sendAndCheckHash E resBridge signedTx txHash args fromChainID txid logIndex)))))"

definition signAndSendTx :: "worker_env \<Rightarrow> opaque \<Rightarrow> BuildTxArgs \<Rightarrow> unit working" where
  "signAndSendTx E rawTx args =
     (let fromChainID = fromChain args; txid = args_SwapID (swapArgs args); logIndex = args_LogIndex (swapArgs args) in
     sbind (slift (non_nil (GetBridgeByChainID (rtr E) (toChain args)))) (\<lambda>resBridge.
     sbind (mpcSign E resBridge rawTx args) (\<lambda>(signedTx, txHash).
     sbind (addSwapHistory fromChainID txid logIndex txHash) (\<lambda>_.
     sbind (dropped (updateSwapTx E fromChainID txid logIndex txHash)) (\<lambda>_.
     sendAndCheckHash E resBridge signedTx txHash args fromChainID txid logIndex)))))"

definition DeleteCachedSwap :: "string \<Rightarrow> string \<Rightarrow> int \<Rightarrow> unit working" where
  "DeleteCachedSwap fromChainID txid logIndex =
     supd (\<lambda>s. s\<lparr>cachedSwapTasks := cachedSwapTasks s - {GetRouterSwapKey fromChainID txid logIndex}\<rparr>)"

text \<open>One round of the loop of \<open>processSwapTask\<close>: the next task of the chain's channel, if any.\<close>

definition processSwapTask :: "worker_env \<Rightarrow> string \<Rightarrow> unit working" where
  "processSwapTask E chainID =
     sget (\<lambda>s.
     case routerSwapTaskChanMap s chainID of
       Some (args # ch) \<Rightarrow>
         sbind (supd (\<lambda>s. s\<lparr>routerSwapTaskChanMap := (routerSwapTaskChanMap s)(chainID \<mapsto> ch)\<rparr>)) (\<lambda>_.
         if toChain args \<noteq> chainID then sret () else dropped (doSwap E args))
     | _ \<Rightarrow> sret ())"


end
