(* ===== verification/WorkerJobs.thy ===== *)
theory WorkerJobs
  imports Worker
begin

text \<open>
  Package \<open>worker\<close>, continued: waiting for the swap transaction (stable.go), its replacement
  (replace.go), the recheck of failed swaps (checkfailedswap.go), the release of swaps of a big
  value (passbigvalue.go), and the queries by which each job finds its documents. A pointer
  argument that a function writes to is returned with its new value; \<open>serverCfg\<close>, which a job
  reads when it starts, is an argument.
\<close>

section \<open>stable.go\<close>

definition findRouterSwapResultsToStable :: "worker_env \<Rightarrow> string \<Rightarrow> (MgoSwapResult list) working" where
  "findRouterSwapResultsToStable E chainID =
     sbind (getSepTimeInFind E maxStableLifetime) (\<lambda>septime. db (FindRouterSwapResultsToStable (mgo E) chainID septime))"

definition isTxOnChain :: "TxStatus option \<Rightarrow> bool" where
  "isTxOnChain txStatus = (case txStatus of None \<Rightarrow> False | Some st \<Rightarrow> if BlockHeight st = 0 then False else Receipt st \<noteq> None)"

text \<open>The loop over the replaced transactions: the first that is on chain, with its status.\<close>

fun old_swap_txs :: "IBridge \<Rightarrow> string \<Rightarrow> string list \<Rightarrow> ((TxStatus option \<times> string) option) working" where
  "old_swap_txs br swapTx [] = sret None"
| "old_swap_txs br swapTx (oldSwapTx # txs) =
     (if swapTx = oldSwapTx then old_swap_txs br swapTx txs
      else sbind (extern (\<lambda>t. getTransactionStatus br t oldSwapTx)) (\<lambda>(txStatus2, err2).
           if err2 = None \<and> isTxOnChain txStatus2 then sret (Some (txStatus2, oldSwapTx)) else old_swap_txs br swapTx txs))"

definition getSwapTxStatus :: "IBridge \<Rightarrow> MgoSwapResult \<Rightarrow> (TxStatus option \<times> MgoSwapResult) working" where
  "getSwapTxStatus resBridge swap =
     sbind (extern (\<lambda>t. getTransactionStatus resBridge t (rs_SwapTx swap))) (\<lambda>(txStatus, err).
     if err = None \<and> isTxOnChain txStatus then sret (txStatus, swap)
     else sbind (old_swap_txs resBridge (rs_SwapTx swap) (rs_OldSwapTxs swap)) (\<lambda>found.
          case found of
            Some (txStatus2, oldSwapTx) \<Rightarrow> sret (txStatus2, swap\<lparr>rs_SwapTx := oldSwapTx\<rparr>)
          | None \<Rightarrow> sret (txStatus, swap)))"

definition stableChanSize :: nat where "stableChanSize = 50"

definition dispatchSwapResultToStable :: "MgoSwapResult \<Rightarrow> unit working" where
  "dispatchSwapResultToStable swap =
     sget (\<lambda>s.
     case routerStableTaskChanMap s (rs_ToChainID swap) of
       None \<Rightarrow> slift (Err (WOther ''no stable channel for chainID''))
     | Some ch \<Rightarrow>
         if length ch < stableChanSize
         then supd (\<lambda>s. s\<lparr>routerStableTaskChanMap := (routerStableTaskChanMap s)(rs_ToChainID swap \<mapsto> ch @ [swap])\<rparr>)
         else slift (Err ErrStableChannelIsFull))"

section \<open>replace.go: has the nonce passed?\<close>

definition treatAsNoncePassedInterval :: int where "treatAsNoncePassedInterval = 600"
definition defWaitTimeToReplace :: int where "defWaitTimeToReplace = 300"
definition defMaxReplaceCount :: int where "defMaxReplaceCount = 20"

definition onChain :: "TxStatus option \<Rightarrow> bool" where
  "onChain txStat = (case txStat of None \<Rightarrow> False | Some st \<Rightarrow> BlockHeight st > 0)"

text \<open>A transaction that is on chain after all: an error for a replacement.\<close>

definition existsInChain :: "bool \<Rightarrow> unit working" where
  "existsInChain isReplace = (if isReplace then slift (Err (WOther ''swaptx exist in chain'')) else sret ())"

definition lowerNonce :: "bool \<Rightarrow> unit working" where
  "lowerNonce isReplace = (if isReplace then slift (Err (WOther ''swap nonce is lower than latest nonce'')) else sret ())"

text \<open>The result is marked as failed, unless it is being swapped again.\<close>

definition markNoncePassed :: "worker_env \<Rightarrow> MgoSwapResult \<Rightarrow> unit working" where
  "markNoncePassed E res =
     sbind (db (FindRouterSwapResult (mgo E) (rs_FromChainID res) (rs_TxID res) (rs_LogIndex res))) (\<lambda>oldRes.
     if rs_Status oldRes = StReswapping then slift (Err (WOther ''forbid mark reswaping result to failed status''))
     else dropped (markSwapResultFailed E (rs_FromChainID res) (rs_TxID res) (rs_LogIndex res)))"

text \<open>The case of a nonce below the account's: after an interval the transaction counts as lost.\<close>

definition noncePassed :: "worker_env \<Rightarrow> IBridge \<Rightarrow> TxStatus option \<Rightarrow> MgoSwapResult \<Rightarrow> bool \<Rightarrow> MgoSwapResult working" where
  "noncePassed E bridge txStat res isReplace =
     (let n = GetNoncePassedConfirmInterval (prm (toks (rtr E))) (rs_FromChainID res);
          noncePassedInterval = (if n = 0 then treatAsNoncePassedInterval else n) in
     sbind (getSepTimeInFind E noncePassedInterval) (\<lambda>sep.
     if rs_Timestamp res < sep then
       sbind (if txStat = None then getSwapTxStatus bridge res else sret (txStat, res)) (\<lambda>(txStat, res).
       if onChain txStat then sbind (existsInChain isReplace) (\<lambda>_. sret res)
       else sbind (markNoncePassed E res) (\<lambda>_. sbind (lowerNonce isReplace) (\<lambda>_. sret res)))
     else sbind (lowerNonce isReplace) (\<lambda>_. sret res)))"

definition checkIfSwapNonceHasPassed :: "worker_env \<Rightarrow> IBridge \<Rightarrow> MgoSwapResult \<Rightarrow> bool \<Rightarrow> MgoSwapResult working" where
  "checkIfSwapNonceHasPassed E bridge res isReplace =
     (case getPoolNonce bridge of
        None \<Rightarrow> sret res
      | Some poolNonce \<Rightarrow>
          sbind (extern (\<lambda>t. poolNonce t (rs_MPC res) ''latest'')) (\<lambda>answer.
          case answer of
            Inl err \<Rightarrow> slift (Err (WToken err))
          | Inr nonce \<Rightarrow>
              sbind (getSwapTxStatus bridge res) (\<lambda>(txStat, res).
              if onChain txStat then sbind (existsInChain isReplace) (\<lambda>_. sret res)
              else if nonce > rs_SwapNonce res \<and> rs_SwapNonce res > 0 then noncePassed E bridge txStat res isReplace
              else sret res)))"

section \<open>stable.go: the handler\<close>

text \<open>A transaction whose height is recorded already.\<close>

definition settleSwapResult :: "worker_env \<Rightarrow> IBridge \<Rightarrow> TxStatus \<Rightarrow> string \<Rightarrow> MgoSwapResult \<Rightarrow> unit working" where
  "settleSwapResult E resBridge txStatus oldSwapTx swap =
     sbind (slift (non_nil (bridgeChainConfig (base resBridge)))) (\<lambda>cfg.
     if Confirmations txStatus < cc_Confirmations cfg then sret ()
     else
       sbind (if rs_SwapTx swap \<noteq> oldSwapTx
              then dropped (updateSwapTx E (rs_FromChainID swap) (rs_TxID swap) (rs_LogIndex swap) (rs_SwapTx swap)) else sret ()) (\<lambda>_.
       if IsSwapTxOnChainAndFailed (Some txStatus)
       then markSwapResultFailed E (rs_FromChainID swap) (rs_TxID swap) (rs_LogIndex swap)
       else markSwapResultStable E (rs_FromChainID swap) (rs_TxID swap) (rs_LogIndex swap)))"

definition processRouterSwapStable :: "worker_env \<Rightarrow> MgoSwapResult \<Rightarrow> unit working" where
  "processRouterSwapStable E swap0 =
     sbind (bridge_of E (rs_ToChainID swap0)) (\<lambda>resBridge.
     sbind (getSwapTxStatus resBridge swap0) (\<lambda>(txStatus, swap).
     case txStatus of
       None \<Rightarrow> if rs_SwapHeight swap \<noteq> 0 then sret () else sbind (checkIfSwapNonceHasPassed E resBridge swap False) (\<lambda>_. sret ())
     | Some st \<Rightarrow>
         if BlockHeight st = 0 then
           (if rs_SwapHeight swap \<noteq> 0 then sret () else sbind (checkIfSwapNonceHasPassed E resBridge swap False) (\<lambda>_. sret ()))
         else if rs_SwapHeight swap \<noteq> 0 then settleSwapResult E resBridge st (rs_SwapTx swap0) swap
         else
           updateRouterSwapResult E (rs_FromChainID swap) (rs_TxID swap) (rs_LogIndex swap)
             (no_match\<lparr>mt_SwapHeight := BlockHeight st, mt_SwapTime := BlockTime st,
               mt_SwapTx := (if rs_SwapTx swap \<noteq> rs_SwapTx swap0 then rs_SwapTx swap else '''')\<rparr>)))"

text \<open>One round of the loop of \<open>processStableTask\<close>.\<close>

definition processStableTask :: "worker_env \<Rightarrow> string \<Rightarrow> unit working" where
  "processStableTask E chainID =
     sget (\<lambda>s.
     case routerStableTaskChanMap s chainID of
       Some (swap # ch) \<Rightarrow>
         sbind (supd (\<lambda>s. s\<lparr>routerStableTaskChanMap := (routerStableTaskChanMap s)(chainID \<mapsto> ch)\<rparr>)) (\<lambda>_.
         if rs_ToChainID swap \<noteq> chainID then sret () else dropped (processRouterSwapStable E swap))
     | _ \<Rightarrow> sret ())"

section \<open>replace.go: the handler\<close>

definition findRouterSwapResultToReplace :: "worker_env \<Rightarrow> string \<Rightarrow> (MgoSwapResult list) working" where
  "findRouterSwapResultToReplace E toChainID =
     sbind (getSepTimeInFind E maxReplaceSwapLifetime) (\<lambda>septime. db (FindRouterSwapResultsToReplace (mgo E) toChainID septime))"

definition verifyReplaceSwap :: "worker_env \<Rightarrow> MgoSwapResult \<Rightarrow> bool \<Rightarrow> (MgoSwap \<times> MgoSwapResult) working" where
  "verifyReplaceSwap E res isManual =
     sbind (db (FindRouterSwap (mgo E) (rs_FromChainID res) (rs_TxID res) (rs_LogIndex res))) (\<lambda>swap.
     sbind (sguard (\<not> (rs_SwapTx res = '''' \<and> \<not> IsParallelSwapEnabled (prm (toks (rtr E))))) (WOther ''swap without swaptx'')) (\<lambda>_.
     sbind (sguard (\<not> (rs_SwapNonce res = 0 \<and> \<not> isManual)) (WOther ''swap nonce is zero'')) (\<lambda>_.
     sbind (sguard (rs_Status res = MatchTxNotStable) (WOther ''swap result status is not MatchTxNotStable'')) (\<lambda>_.
     sbind (sguard (\<not> (rs_SwapHeight res \<noteq> 0 \<and> \<not> isManual)) (WOther ''swaptx with block height'')) (\<lambda>_.
     sbind (bridge_of E (rs_ToChainID res)) (\<lambda>resBridge.
     sbind (checkIfSwapNonceHasPassed E resBridge res True) (\<lambda>res'.
     sret (swap, res'))))))))"

text \<open>The request of a replacement: the same swap, the same sender and the same nonce.\<close>

definition replaceArgs ::
    "worker_env \<Rightarrow> MgoSwap \<Rightarrow> MgoSwapResult \<Rightarrow> int option \<Rightarrow> int \<times> int \<times> int \<Rightarrow> SwapInfo \<Rightarrow> BuildTxArgs" where
  "replaceArgs E swap res gasPrice nums info =
     (case nums of (biFrom, biTo, biValue) \<Rightarrow>
      \<lparr>swapArgs = with_info
         \<lparr>erc20Info = None, nftInfo = None, anycallInfo = None, curveInfo = None,
          args_Identifier = GetIdentifier (prm (toks (rtr E))), args_SwapID = rs_TxID res, args_SwapType = rs_SwapType res,
          args_Bind = rs_Bind res, args_LogIndex = rs_LogIndex res, args_FromChainID = Some biFrom, args_ToChainID = Some biTo,
          Reswapping = False\<rparr> info,
       args_From = rs_MPC res, args_To = '''', OriginFrom = sw_From swap, OriginTxTo = sw_TxTo swap,
       OriginValue = Some biValue, SwapValue = None, args_Value = None, Memo = '''', Input = None,
       args_Extra = Some
         \<lparr>EthExtra = Some \<lparr>Gas = None, GasPrice = gasPrice, GasTipCap = None, GasFeeCap = None,
            Nonce = Some (rs_SwapNonce res), Deadline = 0\<rparr>,
          ReplaceNum = (if length (rs_OldSwapTxs res) = 0 then 1 else length (rs_OldSwapTxs res)),
          Sequence = Some (rs_SwapNonce res), Fee = None\<rparr>\<rparr>)"

definition ReplaceRouterSwap :: "worker_env \<Rightarrow> MgoSwapResult \<Rightarrow> int option \<Rightarrow> bool \<Rightarrow> unit working" where
  "ReplaceRouterSwap E res0 gasPrice isManual =
     sbind (verifyReplaceSwap E res0 isManual) (\<lambda>(swap, res).
     sbind (bridge_of E (rs_ToChainID res)) (\<lambda>resBridge.
     sbind (tok (GetRouterMPC (rtr E) (Mgo_GetTokenID (sw_SwapInfo swap)) (rs_ToChainID res))) (\<lambda>routerMPC.
     sbind (sguard (EqualFold (rs_MPC res) routerMPC) (WToken ErrSenderMismatch)) (\<lambda>_.
     sbind (getFromToChainIDAndValue (rs_FromChainID res) (rs_ToChainID res) (rs_Value res)) (\<lambda>nums.
     sbind (dropped (updateSwapTimestamp E (rs_FromChainID res) (rs_TxID res) (rs_LogIndex res))) (\<lambda>_.
     sbind (swapInfo_of (sw_SwapInfo swap)) (\<lambda>info.
     sbind (buildRaw E resBridge (replaceArgs E swap res gasPrice nums info)) (\<lambda>(rawTx, args).
     supd (\<lambda>s. s\<lparr>tasks := tasks s @ [SignAndSendReplaceTx rawTx args res]\<rparr>)))))))))"

definition signAndSendReplaceTx :: "worker_env \<Rightarrow> IBridge \<Rightarrow> opaque \<Rightarrow> BuildTxArgs \<Rightarrow> MgoSwapResult \<Rightarrow> unit working" where
  "signAndSendReplaceTx E resBridge rawTx args res =
     sbind (mpcSign E resBridge rawTx args) (\<lambda>(signedTx, txHash).
     sbind (db (UpdateRouterOldSwapTxs (mgo E) (rs_FromChainID res) (rs_TxID res) (rs_LogIndex res) txHash)) (\<lambda>_.
     sendAndCheckHash E resBridge signedTx txHash args (rs_FromChainID res) (rs_TxID res) (rs_LogIndex res)))"

definition checkAndRecycleSwapNonce :: "worker_env \<Rightarrow> MgoSwapResult \<Rightarrow> unit working" where
  "checkAndRecycleSwapNonce E res0 =
     (if \<not> IsParallelSwapEnabled (prm (toks (rtr E))) then sret ()
      else sbind (stry (verifyReplaceSwap E res0 False)) (\<lambda>verified.
      case verified of
        Inl _ \<Rightarrow> sret ()
      | Inr (_, res) \<Rightarrow>
          (case GetBridgeByChainID (rtr E) (rs_ToChainID res) of
             None \<Rightarrow> sret ()
           | Some resBridge \<Rightarrow>
               if getPoolNonce resBridge = None \<or> rs_SwapNonce res = 0 \<or> rs_MPC res = '''' then sret ()
               else sbind (now E) (\<lambda>nw.
                    supd (\<lambda>s. s\<lparr>setters := (setters s)(rs_ToChainID res :=
                      map_option (RecycleSwapNonce nw (rs_MPC res) (rs_SwapNonce res)) (setters s (rs_ToChainID res)))\<rparr>)))))"

definition processRouterSwapReplace :: "worker_env \<Rightarrow> RouterServerConfig \<Rightarrow> MgoSwapResult \<Rightarrow> unit working" where
  "processRouterSwapReplace E serverCfg res =
     (let waitTimeToReplace = (if WaitTimeToReplace serverCfg = 0 then defWaitTimeToReplace else WaitTimeToReplace serverCfg);
          maxReplaceCount = (if MaxReplaceCount serverCfg = 0 then defMaxReplaceCount else MaxReplaceCount serverCfg) in
      if int (length (rs_OldSwapTxs res)) > maxReplaceCount then checkAndRecycleSwapNonce E res
      else if rs_SwapTx res \<noteq> '''' then
        sbind (getSepTimeInFind E waitTimeToReplace) (\<lambda>sep.
        if sep < rs_Timestamp res then sret () else ReplaceRouterSwap E res None False)
      else ReplaceRouterSwap E res None False)"

section \<open>checkfailedswap.go\<close>

text \<open>Without a transaction on chain: it may still get there while its nonce is not used up.\<close>

definition recheckNonce :: "worker_env \<Rightarrow> (nat \<Rightarrow> string \<Rightarrow> string \<Rightarrow> token_error + nat) \<Rightarrow> MgoSwapResult \<Rightarrow> unit working" where
  "recheckNonce E poolNonce swap =
     sbind (extern (\<lambda>t. poolNonce t (rs_MPC swap) ''latest'')) (\<lambda>answer.
     case answer of
       Inl err \<Rightarrow> slift (Err (WToken err))
     | Inr nonce \<Rightarrow>
         if nonce \<le> rs_SwapNonce swap
         then markSwapResultUnstable E (rs_FromChainID swap) (rs_TxID swap) (rs_LogIndex swap)
         else sret ())"

text \<open>What the node knows of the transaction of a failed swap.\<close>

definition recheckFailed :: "worker_env \<Rightarrow> IBridge \<Rightarrow> (nat \<Rightarrow> string \<Rightarrow> string \<Rightarrow> token_error + nat) \<Rightarrow> MgoSwapResult \<Rightarrow> unit working" where
  "recheckFailed E resBridge poolNonce swap0 =
     sbind (getSwapTxStatus resBridge swap0) (\<lambda>(txStatus, swap).
     if IsSwapTxOnChainAndFailed txStatus then sret ()
     else case txStatus of
       Some st \<Rightarrow>
         if BlockHeight st > 0 then
           sbind (slift (non_nil (bridgeChainConfig (base resBridge)))) (\<lambda>cfg.
           if Confirmations st < cc_Confirmations cfg
           then markSwapResultUnstable E (rs_FromChainID swap) (rs_TxID swap) (rs_LogIndex swap)
           else markSwapResultStable E (rs_FromChainID swap) (rs_TxID swap) (rs_LogIndex swap))
         else recheckNonce E poolNonce swap
     | None \<Rightarrow> recheckNonce E poolNonce swap)"

definition checkFailedRouterSwap :: "worker_env \<Rightarrow> MgoSwapResult \<Rightarrow> unit working" where
  "checkFailedRouterSwap E swap =
     (if rs_SwapNonce swap = 0 \<and> rs_SwapHeight swap = 0 \<or> rs_SwapTx swap = '''' then sret ()
      else case GetBridgeByChainID (rtr E) (rs_ToChainID swap) of
        None \<Rightarrow> sret ()
      | Some resBridge \<Rightarrow>
          (case getPoolNonce resBridge of
             None \<Rightarrow> sret ()
           | Some poolNonce \<Rightarrow>
               (case GetRouterMPC (rtr E) (Mgo_GetTokenID (rs_SwapInfo swap)) (rs_ToChainID swap) of
                  Err _ \<Rightarrow> sret ()
                | Panic \<Rightarrow> slift Panic
                | Ret routerMPC \<Rightarrow>
                    if \<not> EqualFold (rs_MPC swap) routerMPC then slift (Err (WToken ErrSenderMismatch))
                    else recheckFailed E resBridge poolNonce swap)))"

section \<open>passbigvalue.go\<close>

definition minTimeIntervalToPassBigValue :: int where "minTimeIntervalToPassBigValue = 300"

definition findBigValRouterSwaps :: "worker_env \<Rightarrow> (MgoSwap list) working" where
  "findBigValRouterSwaps E =
     sbind (getSepTimeInFind E maxPassBigValueLifetime) (\<lambda>septime. db (FindRouterSwapsWithStatus (mgo E) TxWithBigValue septime))"

text \<open>After the waiting times: verify again, and let the swap pass.\<close>

definition passBigValue :: "worker_env \<Rightarrow> MgoSwap \<Rightarrow> unit working" where
  "passBigValue E swap =
     sbind (stry (db (FindRouterSwapResult (mgo E) (sw_FromChainID swap) (sw_TxID swap) (sw_LogIndex swap)))) (\<lambda>found.
     case found of
       Inr _ \<Rightarrow> sret ()
     | Inl _ \<Rightarrow>
         sbind (bridge_of E (sw_FromChainID swap)) (\<lambda>bridge.
         sbind (extern (\<lambda>t. verifyTransaction bridge t (sw_TxID swap)
                  \<lparr>va_SwapType = sw_SwapType swap, va_LogIndex = sw_LogIndex swap, AllowUnstable = False\<rparr>)) (\<lambda>verified.
         case verified of
           Inl err \<Rightarrow> slift (Err (WToken err))
         | Inr swapInfo \<Rightarrow>
             sbind (db (RouterAdminPassBigValue (mgo E) (sw_FromChainID swap) (sw_TxID swap) (sw_LogIndex swap))) (\<lambda>_.
             dropped (AddInitialSwapResult E swapInfo MatchTxEmpty)))))"

definition processPassBigValRouterSwap :: "worker_env \<Rightarrow> MgoSwap \<Rightarrow> unit working" where
  "processPassBigValRouterSwap E swap =
     (if sw_Status swap \<noteq> TxWithBigValue then sret ()
      else sbind (getSepTimeInFind E passBigValueTimeRequired) (\<lambda>required.
      if sw_InitTime swap > i64 (required * 1000) then sret ()
      else sbind (getSepTimeInFind E minTimeIntervalToPassBigValue) (\<lambda>sep.
      if sep < sw_Timestamp swap then sret () else passBigValue E swap)))"

section \<open>verify.go and swap.go: the queries of the jobs\<close>

definition findRouterSwapToSwap :: "worker_env \<Rightarrow> string \<Rightarrow> (MgoSwap list) working" where
  "findRouterSwapToSwap E chainID =
     sbind (getSepTimeInFind E maxDoSwapLifetime) (\<lambda>septime.
     db (FindRouterSwapsWithChainIDAndStatus (mgo E) chainID TxNotSwapped septime))"

end
