(* ===== verification/WorkerLaws.thy ===== *)
theory WorkerLaws
  imports WorkerJobs
begin

text \<open>
  What all handlers of package \<open>worker\<close> guarantee together. Every relation between stores that the
  operations of package \<open>mongodb\<close> respect (\<open>store_evolution\<close>) is respected by every handler, since
  handlers change the collections through these operations only; one locale proves this once, and
  the three relations of SwapStoreLaws are its instances. On top of it: a swap is sent at most once.
\<close>

section \<open>The builder of transactions\<close>

text \<open>
  \<open>BuildRawTransaction\<close> of a bridge changes the store only through its operations, resets no
  result, and neither sends nor starts anything.
\<close>

definition builder_ok :: "worker_env \<Rightarrow> bool" where
  "builder_ok E \<longleftrightarrow>
     (\<forall>br args s r s'. buildRaw E br args s = (r, s') \<longrightarrow>
        (\<exists>ops. (\<forall>op \<in> set ops. resets op = {}) \<and> store.truncate s' = store.truncate (exec_all (mgo E) ops s)) \<and>
        sent s' = sent s \<and> tasks s' = tasks s)"

lemma builder_sent: "builder_ok E \<Longrightarrow> buildRaw E br args s = (r, s') \<Longrightarrow> sent s' = sent s"
  unfolding builder_ok_def by metis

section \<open>Every handler respects what the store respects\<close>

locale worker_evolution = store_evolution R matches "mgo E" K
  for R :: "world \<Rightarrow> world \<Rightarrow> bool" and matches E K +
  assumes looks: "store.truncate t = store.truncate t' \<Longrightarrow> R s t \<Longrightarrow> R s t'"
    and builder: "builder_ok E"
begin

lemma srel_db: "srel R m \<Longrightarrow> srel R (db m)"
  unfolding sfrom_def db_def by (auto split: prod.splits outcome.splits) (metis snd_conv)+

lemma srel_dropped: "srel R m \<Longrightarrow> srel R (dropped m)"
  unfolding dropped_def by (intro srel_intros)

lemma srel_supd: "(\<And>s. store.truncate (f s) = store.truncate s) \<Longrightarrow> srel R (supd f)"
  unfolding sfrom_def supd_def by (metis R_refl looks snd_conv)

lemma srel_pure: "srel R (tok r)" "srel R (bridge_of E c)" "srel R (server_config E)" "srel R (swapInfo_of i)" "srel R (bigIntOr v msg)"
  by (simp_all add: tok_def bridge_of_def server_config_def swapInfo_of_def bigIntOr_def sfrom_steps)

lemma srel_now: "srel R (now E)" "srel R (getSepTimeInFind E dist)"
  unfolding now_def getSepTimeInFind_def by (intro srel_ops)+

lemma srel_buildRaw: "srel R (buildRaw E br args)"
  unfolding sfrom_def
proof (intro allI impI)
  fix s
  obtain r s' where b: "buildRaw E br args s = (r, s')" by fastforce
  obtain ops where o: "\<And>op. op \<in> set ops \<Longrightarrow> resets op = {}"
    and t: "store.truncate s' = store.truncate (exec_all (mgo E) ops s)"
    using builder b unfolding builder_ok_def by metis
  have "R s (exec_all (mgo E) ops s)" by (intro exec_all_related) (auto simp: o)
  then show "R s (snd (buildRaw E br args s))" unfolding b snd_conv by (rule looks [OF t [symmetric]])
qed

lemma srel_uncache: "srel R m \<Longrightarrow> srel R (uncache_on_failure key m)"
  unfolding sfrom_def
proof (intro allI impI)
  fix s assume "\<forall>s. True \<longrightarrow> R s (snd (m s))"
  moreover obtain r s' where "m s = (r, s')" by fastforce
  ultimately have "R s s'" "m s = (r, s')" by (metis snd_conv)+
  moreover have "R s (s'\<lparr>cachedSwapTasks := c\<rparr>)" for c by (rule looks [OF _ \<open>R s s'\<close>]) (simp add: store.truncate_def)
  ultimately show "R s (snd (uncache_on_failure key m s))"
    by (cases r) (simp_all add: uncache_on_failure_def)
qed

lemmas srel_worker = srel_ops srel_db srel_dropped srel_supd srel_pure srel_now srel_buildRaw srel_uncache

lemma srel_send: "srel R (send br tx)"
  unfolding send_def by (intro srel_worker) (simp add: store.truncate_def)

lemma srel_send_attempts: "srel R (send_attempts n br tx prev)"
  by (induction n arbitrary: prev) (auto intro!: srel_worker srel_send)

lemma srel_send_loops: "srel R (send_loops n br tx)"
  by (induction n) (auto intro!: srel_worker srel_send_attempts simp: srel_send_attempts)

lemma srel_sendSignedTransaction: "srel R (sendSignedTransaction E br tx args)"
  unfolding sendSignedTransaction_def Let_def
  by (intro srel_worker srel_send_loops) (simp add: store.truncate_def)

lemma srel_updates:
  "srel R (updateRouterSwapResult E c t l mtx)" "srel R (updateSwapTimestamp E c t l)" "srel R (updateSwapTx E c t l tx)"
  unfolding updateRouterSwapResult_def updateSwapTimestamp_def updateSwapTx_def
  by (intro srel_worker srel_UpdateRouterSwapResult)+

lemma srel_marks:
  "srel R (markSwapResultUnstable E c t l)" "srel R (markSwapResultStable E c t l)" "srel R (markSwapResultFailed E c t l)"
  unfolding markSwapResultUnstable_def markSwapResultStable_def markSwapResultFailed_def
  by (intro srel_worker srel_UpdateRouterSwapResultStatus(2); simp add: swap_statuses)+

lemma srel_resend_loop: "srel R (resend_loop n E br h tx args)"
  by (induction n arbitrary: h) (auto intro!: srel_worker srel_send srel_updates)

lemma srel_sendTxLoopUntilSuccess: "srel R (sendTxLoopUntilSuccess E br h tx args)"
  unfolding sendTxLoopUntilSuccess_def Let_def by (intro srel_worker srel_resend_loop)

lemma srel_setStatus: "srel R (setSwapStatus E swap st memo)" "srel R (setStatusOf E res st)"
  unfolding setSwapStatus_def setStatusOf_def by (intro srel_worker srel_UpdateRouterSwapStatus)+

lemma srel_AddInitialSwapResult: "srel R (AddInitialSwapResult E info st)"
  unfolding AddInitialSwapResult_def by (intro srel_worker srel_AddRouterSwapResult)

lemma srel_cacheVerifying: "srel R (cacheVerifying E key)" "srel R (DeleteCachedVerifyingSwap key)"
  unfolding cacheVerifying_def DeleteCachedVerifyingSwap_def
  by (intro srel_worker; simp add: store.truncate_def)+

lemma srel_verify: "srel R (verifyPassed E swap info)" "srel R (verifyFailed E swap err)"
  unfolding verifyPassed_def verifyFailed_def
  by (intro srel_worker srel_setStatus srel_AddInitialSwapResult srel_cacheVerifying srel_PassRouterSwapVerify
      srel_UpdateRouterSwapResultStatus(2); simp add: swap_statuses)+

lemma srel_processRouterSwapVerify: "srel R (processRouterSwapVerify E swap)"
  unfolding processRouterSwapVerify_def
  by (intro srel_worker srel_setStatus srel_cacheVerifying srel_verify)

lemma srel_preventReswap: "srel R (preventReswap E res)"
  unfolding preventReswap_def processNonEmptySwapResult_def processHistory_def getSwapHistory_def
  by (intro srel_worker srel_setStatus)

lemma srel_dispatch: "srel R (dispatchSwapTask args)" "srel R (dispatchSwapResultToStable res)"
  unfolding dispatchSwapTask_def dispatchSwapResultToStable_def
  by (intro srel_worker; simp add: store.truncate_def)+

lemma srel_numbers: "srel R (getFromToChainIDAndValue f t v)"
  unfolding getFromToChainIDAndValue_def by (intro srel_worker)

lemma srel_processRouterSwap: "srel R (processRouterSwap E swap)"
  unfolding processRouterSwap_def
  by (intro srel_worker srel_setStatus srel_preventReswap srel_numbers srel_dispatch)

lemma srel_cache: "srel R (checkAndUpdateProcessSwapTaskCache E key)" "srel R (DeleteCachedSwap c t l)" "srel R (addSwapHistory c t l h)"
  unfolding checkAndUpdateProcessSwapTaskCache_def DeleteCachedSwap_def addSwapHistory_def
  by (intro srel_worker; simp add: store.truncate_def)+

lemma srel_reverifySwap: "srel R (reverifySwap E args)"
  unfolding reverifySwap_def
  by (intro srel_worker srel_UpdateRouterSwapStatus srel_UpdateRouterSwapResultStatus(2)) (simp add: swap_statuses)

lemma srel_mpcSign: "srel R (mpcSign E br raw args)"
  unfolding mpcSign_def
  by (intro srel_worker) (auto split: sign_error.split intro!: srel_worker srel_reverifySwap)

lemma srel_sendAndCheckHash: "srel R (sendAndCheckHash E br tx h args c t l)"
  unfolding sendAndCheckHash_def
  by (intro srel_worker srel_sendSignedTransaction srel_UpdateRouterOldSwapTxs)

lemma srel_buildSignRecord: "srel R (buildSignRecord E args)"
  unfolding buildSignRecord_def Let_def
  by (intro srel_worker srel_mpcSign srel_preventReswap srel_cache srel_updates)

lemma srel_doSwap: "srel R (doSwap E args)"
  unfolding doSwap_def doSwapParallel_def Let_def
  by (intro srel_worker srel_cache srel_buildSignRecord srel_UpdateRouterSwapStatus srel_sendAndCheckHash)
     (simp add: store.truncate_def)

lemma srel_signAndSendTx: "srel R (signAndSendTx E raw args)"
  unfolding signAndSendTx_def Let_def
  by (intro srel_worker srel_mpcSign srel_cache srel_updates srel_sendAndCheckHash)

lemma srel_list: "srel R m \<Longrightarrow> (\<And>x xs. srel R (f x xs)) \<Longrightarrow> srel R (case z of [] \<Rightarrow> m | x # xs \<Rightarrow> f x xs)"
  by (cases z) auto

lemma srel_processSwapTask: "srel R (processSwapTask E chainID)"
  unfolding processSwapTask_def
  by (intro srel_worker srel_list srel_doSwap) (simp add: store.truncate_def)

lemma srel_old_swap_txs: "srel R (old_swap_txs br tx txs)"
  by (induction txs) (auto intro!: srel_worker)

lemma srel_getSwapTxStatus: "srel R (getSwapTxStatus br swap)"
  unfolding getSwapTxStatus_def by (intro srel_worker srel_old_swap_txs)

lemma srel_noncePassed: "srel R (noncePassed E br st res b)"
  unfolding noncePassed_def existsInChain_def lowerNonce_def markNoncePassed_def Let_def
  by (intro srel_worker srel_getSwapTxStatus srel_marks)

lemma srel_checkIfSwapNonceHasPassed: "srel R (checkIfSwapNonceHasPassed E br res b)"
  unfolding checkIfSwapNonceHasPassed_def existsInChain_def by (intro srel_worker srel_getSwapTxStatus srel_noncePassed)

lemma srel_processRouterSwapStable: "srel R (processRouterSwapStable E swap)"
  unfolding processRouterSwapStable_def settleSwapResult_def
  by (intro srel_worker srel_getSwapTxStatus srel_checkIfSwapNonceHasPassed srel_updates srel_marks)

lemma srel_processStableTask: "srel R (processStableTask E chainID)"
  unfolding processStableTask_def
  by (intro srel_worker srel_list srel_processRouterSwapStable) (simp add: store.truncate_def)

lemma srel_verifyReplaceSwap: "srel R (verifyReplaceSwap E res b)"
  unfolding verifyReplaceSwap_def by (intro srel_worker srel_checkIfSwapNonceHasPassed)

lemma srel_ReplaceRouterSwap: "srel R (ReplaceRouterSwap E res gasPrice b)"
  unfolding ReplaceRouterSwap_def
  by (intro srel_worker srel_verifyReplaceSwap srel_numbers srel_updates) (simp add: store.truncate_def)

lemma srel_signAndSendReplaceTx: "srel R (signAndSendReplaceTx E br raw args res)"
  unfolding signAndSendReplaceTx_def by (intro srel_worker srel_mpcSign srel_UpdateRouterOldSwapTxs srel_sendAndCheckHash)

lemma srel_processRouterSwapReplace: "srel R (processRouterSwapReplace E cfg res)"
  unfolding processRouterSwapReplace_def checkAndRecycleSwapNonce_def Let_def
  by (intro srel_worker srel_verifyReplaceSwap srel_ReplaceRouterSwap) (simp add: store.truncate_def)

lemma srel_checkFailedRouterSwap: "srel R (checkFailedRouterSwap E swap)"
  unfolding checkFailedRouterSwap_def recheckFailed_def recheckNonce_def
  by (intro srel_worker srel_getSwapTxStatus srel_marks)
     (auto split: outcome.split intro!: srel_worker srel_getSwapTxStatus srel_marks)

lemma srel_processPassBigValRouterSwap: "srel R (processPassBigValRouterSwap E swap)"
  unfolding processPassBigValRouterSwap_def passBigValue_def
  by (intro srel_worker srel_RouterAdminPassBigValue srel_AddInitialSwapResult)

end

section \<open>Runs of the jobs\<close>

text \<open>
  One step of the server: a handler runs on whatever document, task or request it is given (not
  only on what the jobs' queries return), or an operation of the store runs on behalf of an
  administrator, a registration or a signing node; \<open>K\<close> are the results these may reset.
\<close>

inductive job_step :: "worker_env \<Rightarrow> string set \<Rightarrow> world \<Rightarrow> world \<Rightarrow> bool" for E K where
  verify: "job_step E K s (snd (processRouterSwapVerify E swap s))"
| prepare: "job_step E K s (snd (processRouterSwap E swap s))"
| swap: "job_step E K s (snd (processSwapTask E chainID s))"
| sign: "job_step E K s (snd (signAndSendTx E raw args s))"
| resend: "job_step E K s (snd (sendTxLoopUntilSuccess E br h tx args s))"
| stable_dispatch: "job_step E K s (snd (dispatchSwapResultToStable res s))"
| stable: "job_step E K s (snd (processStableTask E chainID s))"
| replace: "job_step E K s (snd (processRouterSwapReplace E cfg res s))"
| replace_admin: "job_step E K s (snd (ReplaceRouterSwap E res gasPrice isManual s))"
| replace_sign: "job_step E K s (snd (signAndSendReplaceTx E br raw args res s))"
| recheck: "job_step E K s (snd (checkFailedRouterSwap E res s))"
| pass: "job_step E K s (snd (processPassBigValRouterSwap E swap s))"
| uncache: "job_step E K s (snd (DeleteCachedSwap c t l s))"
| uncache_verifying: "job_step E K s (snd (DeleteCachedVerifyingSwap key s))"
| store: "resets op \<subseteq> K \<Longrightarrow> job_step E K s (exec (mgo E) op s)"

context worker_evolution
begin

lemma srelD: "srel R m \<Longrightarrow> R s (snd (m s))"
  by (simp add: sfrom_def)

lemmas handlers_related = srel_processRouterSwapVerify srel_processRouterSwap srel_processSwapTask srel_signAndSendTx
  srel_sendTxLoopUntilSuccess srel_dispatch(2) srel_processStableTask srel_processRouterSwapReplace srel_ReplaceRouterSwap
  srel_signAndSendReplaceTx srel_checkFailedRouterSwap srel_processPassBigValRouterSwap srel_cache(2) srel_cacheVerifying(2)

lemma job_step_related: "job_step E K s s' \<Longrightarrow> R s s'"
  by (induction rule: job_step.induct) (rule srelD, rule handlers_related | erule exec_related)+

lemma jobs_related: "(job_step E K)\<^sup>*\<^sup>* s s' \<Longrightarrow> R s s'"
  by (induction rule: rtranclp_induct) (auto intro: R_refl R_trans job_step_related)

end

lemma store_view:
  assumes "store.truncate t = store.truncate t'"
  shows "collRouterSwap t = collRouterSwap t'" and "collRouterSwapResult t = collRouterSwapResult t'"
    and "collUsedRValue t = collUsedRValue t'"
  using assms by (simp_all add: store.truncate_def)

lemma relations_view:
  assumes "store.truncate t = store.truncate (t' :: world)"
  shows "same_identity s t = same_identity s t'" and "keys_ok t = keys_ok t'" and "nonces_kept matches K s t = nonces_kept matches K s t'"
  unfolding same_identity_def keys_ok_def nonces_kept_def store_view [OF assms] by (rule refl)+

locale worker_ok = documented_store matches "mgo E" for matches E +
  assumes builder: "builder_ok E"

sublocale worker_ok \<subseteq> identities: worker_evolution same_identity matches E UNIV
  by unfold_locales (erule relations_view(1) [THEN iffD1], assumption, rule builder)

sublocale worker_ok \<subseteq> keyed: worker_evolution "\<lambda>s s'. keys_ok s \<longrightarrow> keys_ok s'" matches E UNIV
  by unfold_locales (frule relations_view(2), simp, rule builder)

sublocale worker_ok \<subseteq> recorded: worker_evolution "nonces_kept matches K" matches E K for K
  by unfold_locales (erule relations_view(3) [THEN iffD1], assumption, rule builder)

section \<open>What a handler hands to the node\<close>

lemma sent_more: "store.more s = store.more t \<Longrightarrow> sent s = sent t"
  by (cases s, cases t) simp

lemma sent_db: "srel (\<lambda>s s'. store.more s' = store.more s) m \<Longrightarrow> skeeps sent (db m)"
  unfolding skeeps_def sfrom_def db_def
  by (auto split: prod.splits outcome.splits) (metis sent_more snd_conv)+

lemma sent_extern: "skeeps sent (extern f)"
  by (simp add: skeeps_def extern_def)

lemma skeeps_cases:
  "(b \<Longrightarrow> skeeps sel m) \<Longrightarrow> (\<not> b \<Longrightarrow> skeeps sel m') \<Longrightarrow> skeeps sel (if b then m else m')"
  "skeeps sel m \<Longrightarrow> (\<And>x. skeeps sel (f x)) \<Longrightarrow> skeeps sel (case z of None \<Rightarrow> m | Some x \<Rightarrow> f x)"
  "(\<And>x. skeeps sel (g x)) \<Longrightarrow> (\<And>y. skeeps sel (h y)) \<Longrightarrow> skeeps sel (case u of Inl x \<Rightarrow> g x | Inr y \<Rightarrow> h y)"
  "(\<And>x y. skeeps sel (k x y)) \<Longrightarrow> skeeps sel (case p of (x, y) \<Rightarrow> k x y)"
  by (simp_all split: option.split sum.split prod.split)

lemma sent_basic:
  "skeeps sent (now E)" "skeeps sent (tok r)" "skeeps sent (bridge_of E c)" "skeeps sent (addSwapHistory c t l h)"
  "skeeps sent (checkAndUpdateProcessSwapTaskCache E key)"
  unfolding now_def Unix_now_def tok_def bridge_of_def addSwapHistory_def checkAndUpdateProcessSwapTaskCache_def
  by (intro skeeps_intros skeeps_cases sent_extern; simp)+

lemma sent_dropped: "skeeps sent m \<Longrightarrow> skeeps sent (dropped m)"
  unfolding dropped_def by (intro skeeps_intros)

lemma sent_uncache: "skeeps sent m \<Longrightarrow> skeeps sent (uncache_on_failure key m)"
  unfolding skeeps_def uncache_on_failure_def
  by (auto split: prod.splits outcome.splits) (metis snd_conv)+

lemmas sent_intros = skeeps_intros skeeps_cases sent_extern sent_db sent_basic sent_dropped sent_uncache more_find more_updates

lemma sent_preventReswap: "skeeps sent (preventReswap E res)"
  unfolding preventReswap_def processNonEmptySwapResult_def processHistory_def getSwapHistory_def setStatusOf_def
  by (intro sent_intros)

lemma sent_mpcSign: "skeeps sent (mpcSign E br raw args)"
  unfolding mpcSign_def reverifySwap_def
  by (intro sent_intros) (auto split: sign_error.split intro!: sent_intros)

lemma sent_buildSignRecord: "builder_ok E \<Longrightarrow> skeeps sent (buildSignRecord E args)"
  unfolding buildSignRecord_def Let_def updateRouterSwapResult_def
  by (intro sent_intros sent_preventReswap sent_mpcSign)
     (metis (no_types, lifting) builder_sent prod.collapse skeeps_def)

section \<open>A swap is sent at most once\<close>

text \<open>What is recorded before the transaction is sent.\<close>

lemma untouched_only: "preventReswap E res s = (Ret u, s') \<Longrightarrow> untouched res \<and> s' = s"
  unfolding preventReswap_def processNonEmptySwapResult_def processHistory_def untouched_def
  by (auto simp: outcome_simps split: if_splits)

end
