(* ===== verification/WorkerRuns.thy ===== *)
theory WorkerRuns
  imports WorkerLaws
begin

text \<open>
  Runs of the server's jobs. The main result is that a swap is sent at most once: before a
  transaction is handed to the node its hash is recorded in the swap's result, no step of a run
  removes a recorded transaction unless it resets the result, and \<open>doSwap\<close> sends only for a result
  that has none. A small server (a database in memory, one bridge that signs and sends)
  instantiates the hypotheses.
\<close>

section \<open>Inversion of the handlers\<close>

lemma srel_run: "srel R m \<Longrightarrow> m s = (r, s') \<Longrightarrow> R s s'"
  by (erule sfromD) simp_all

lemma db_Ret [outcome_simps]: "db m s = (Ret a, s') \<longleftrightarrow> m s = (Ret a, s')"
  by (auto simp: db_def split: prod.splits outcome.splits)

lemma mpcSign_Ret: "mpcSign E br raw args s = (Ret p, s') \<Longrightarrow> \<exists>t. mpcSignTransaction br t raw args = Inr p"
  by (auto simp: mpcSign_def outcome_simps split: sum.splits sign_error.splits)

text \<open>Signed transactions have a hash.\<close>

definition hashes_ok :: "worker_env \<Rightarrow> bool" where
  "hashes_ok E \<longleftrightarrow>
     (\<forall>c br t raw args tx h. RouterBridges (rtr E) c = Some br \<longrightarrow> mpcSignTransaction br t raw args = Inr (tx, h) \<longrightarrow> h \<noteq> '''')"

lemma result_updates_SwapTx: "it_SwapTx items \<noteq> '''' \<Longrightarrow> rs_SwapTx (result_updates items d) = it_SwapTx items"
  by (simp add: result_updates_def Let_def)

lemma updateRouterSwapResult_records:
  assumes "documented matches (mgo E)" and "updateRouterSwapResult E c t l m s = (Ret u, s')" and "mt_SwapTx m \<noteq> ''''"
  shows "collRouterSwapResult s (GetRouterSwapKey c t l) \<noteq> None \<Longrightarrow>
      \<exists>d. collRouterSwapResult s' (GetRouterSwapKey c t l) = Some d \<and> rs_SwapTx d = mt_SwapTx m"
    and "dom (collRouterSwapResult s') = dom (collRouterSwapResult s)"
proof -
  have "\<exists>nw n. (updateResult (mgo E) (GetRouterSwapKey c t l) (result_updates (match_items m nw)) :: (world, store_error, _) stateful)
      (s\<lparr>tick := n\<rparr>) = (Ret None, s')"
    using assms(2)
    by (auto simp: updateRouterSwapResult_def UpdateRouterSwapResult_def now_def Unix_now_def outcome_simps
        checkRouterSwapResultUpdate_def FindRouterSwapResult_Ret split: if_splits)
  then obtain nw n where u: "(updateResult (mgo E) (GetRouterSwapKey c t l) (result_updates (match_items m nw)) :: (world, store_error, _) stateful)
      (s\<lparr>tick := n\<rparr>) = (Ret None, s')" by blast
  from assms(3) have "it_SwapTx (match_items m nw) = mt_SwapTx m"
    by (simp add: match_items_def Let_def)
  with updateResult_Ret [OF assms(1) u] assms(3)
  show "collRouterSwapResult s (GetRouterSwapKey c t l) \<noteq> None \<Longrightarrow>
      \<exists>d. collRouterSwapResult s' (GetRouterSwapKey c t l) = Some d \<and> rs_SwapTx d = mt_SwapTx m"
    and "dom (collRouterSwapResult s') = dom (collRouterSwapResult s)"
    by (auto simp: result_updates_SwapTx)
qed

lemma bridge_of_Ret [outcome_simps]: "bridge_of E c s = (Ret b, s') \<longleftrightarrow> RouterBridges (rtr E) c = Some b \<and> s' = s"
  by (auto simp: bridge_of_def GetBridgeByChainID_def slift_def split: option.splits)

lemma buildSignRecord_steps:
  assumes "buildSignRecord E args s = (Ret (br, tx, h, args'), s')"
  obtains b raw a s1 t res s4 m where
    "RouterBridges (rtr E) (toChain args) = Some b"
    and "buildRaw E b args s = (Ret (raw, a), s1)"
    and "mpcSign E b raw a s1 = (Ret (tx, h), t)"
    and "FindRegex (resultColl (mgo E)) (tick t) (swap_args_key args) (collRouterSwapResult t) = Inr res" and "untouched res"
    and "collRouterSwapResult s4 = collRouterSwapResult t"
    and "updateRouterSwapResult E (fromChain args) (args_SwapID (swapArgs args)) (args_LogIndex (swapArgs args)) m s4 = (Ret (), s')"
    and "mt_SwapTx m = h"
  using assms unfolding buildSignRecord_def Let_def
  apply (clarsimp simp: outcome_simps addSwapHistory_def FindRouterSwapResult_Ret)
  apply (frule untouched_only)
  apply clarsimp
  apply (rule that, assumption+)
     apply (simp_all add: swap_args_key_def fromChain_def)
  apply (simp add: no_match_def)
  done

lemma job_step_all: "(job_step E K)\<^sup>*\<^sup>* s s' \<Longrightarrow> (job_step E UNIV)\<^sup>*\<^sup>* s s'"
proof (erule rtranclp_mono [THEN predicate2D, rotated], rule predicate2I)
  show "job_step E K s s' \<Longrightarrow> job_step E UNIV s s'" for s s'
    by (induction rule: job_step.induct) (auto intro: job_step.intros)
qed

context worker_ok
begin

lemma buildSignRecord_Ret:
  assumes "hashes_ok E" and "buildSignRecord E args s = (Ret (br, tx, h, args'), s')"
    and "exact matches (collRouterSwapResult s') (swap_args_key args)"
  obtains t res d where "nonces_kept matches {} s t" and "collRouterSwapResult t (swap_args_key args) = Some res" and "untouched res"
    and "collRouterSwapResult s' (swap_args_key args) = Some d" and "rs_SwapTx d \<noteq> ''''"
  using assms(2)
proof (cases rule: buildSignRecord_steps)
  case (1 b raw a s1 t res s4 m)
  let ?k = "swap_args_key args"
  have k: "GetRouterSwapKey (fromChain args) (args_SwapID (swapArgs args)) (args_LogIndex (swapArgs args)) = ?k"
    by (simp add: swap_args_key_def fromChain_def)
  have h: "mt_SwapTx m \<noteq> ''''"
    using mpcSign_Ret [OF 1(3)] 1(1,8) assms(1) unfolding hashes_ok_def by metis
  note rec = updateRouterSwapResult_records [OF documented 1(7) h]
  have "exact matches (collRouterSwapResult t) ?k"
    using rec(2) 1(6) by (intro exact_antimono [OF assms(3)]) simp
  then have res: "collRouterSwapResult t ?k = Some res" by (rule regex_exact [OF documentedD(8) [OF documented] _ 1(4)])
  with rec(1) 1(6) h obtain d where "collRouterSwapResult s' ?k = Some d" "rs_SwapTx d \<noteq> ''''" unfolding k by auto
  moreover have "nonces_kept matches {} s s1" by (rule srel_run [OF recorded.srel_buildRaw 1(2)])
  moreover have "nonces_kept matches {} s1 t" by (rule srel_run [OF recorded.srel_mpcSign 1(3)])
  ultimately show thesis using that res 1(5) nonces.R_trans by blast
qed

lemma doSwap_sends:
  assumes "hashes_ok E" and "\<not> IsParallelSwapEnabled (prm (toks (rtr E)))" and "doSwap E args s = (r, s')" and "sent s' \<noteq> sent s"
    and "exact matches (collRouterSwapResult s') (swap_args_key args)"
  obtains t res d where "nonces_kept matches {} s t" and "collRouterSwapResult t (swap_args_key args) = Some res" and "untouched res"
    and "collRouterSwapResult s' (swap_args_key args) = Some d" and "rs_SwapTx d \<noteq> ''''"
proof -
  let ?c = "fromChain args" and ?t = "args_SwapID (swapArgs args)" and ?l = "args_LogIndex (swapArgs args)"
  let ?key = "GetRouterSwapKey ?c ?t ?l"
  let ?rest = "\<lambda>(br, tx, h, a). sbind (now E) (\<lambda>nw. sbind (db (UpdateRouterSwapStatus (mgo E) ?c ?t ?l TxProcessed nw '''')) (\<lambda>_.
      sendAndCheckHash E br tx h a ?c ?t ?l))"
  obtain c s1 where 1: "checkAndUpdateProcessSwapTaskCache E ?key s = (c, s1)" by fastforce
  obtain b s2 where 2: "uncache_on_failure ?key (buildSignRecord E args) s1 = (b, s2)" by fastforce
  have sent: "sent s1 = sent s" "sent s2 = sent s1"
    using skeepsD [OF sent_basic(5) 1] skeepsD [OF sent_uncache [OF sent_buildSignRecord [OF builder]] 2] .
  have d: "doSwap E args s = (case c of Ret _ \<Rightarrow> (case b of Ret x \<Rightarrow> ?rest x s2 | Err e \<Rightarrow> (Err e, s2) | Panic \<Rightarrow> (Panic, s2))
      | Err e \<Rightarrow> (Err e, s1) | Panic \<Rightarrow> (Panic, s1))"
    using assms(2) 1 2 by (simp add: doSwap_def Let_def sbind_def split: outcome.split)
  with assms(3,4) sent obtain br tx h a where b: "b = Ret (br, tx, h, a)" and rest: "?rest (br, tx, h, a) s2 = (r, s')"
    by (auto split: outcome.splits)
  with 2 have 3: "buildSignRecord E args s1 = (Ret (br, tx, h, a), s2)"
    by (auto simp: uncache_on_failure_def split: prod.splits outcome.splits)
  have "srel (nonces_kept matches {}) (?rest (br, tx, h, a))"
    unfolding prod.case by (intro recorded.srel_worker nonces.srel_UpdateRouterSwapStatus recorded.srel_sendAndCheckHash)
  then have late: "nonces_kept matches {} s2 s'" using rest by (rule srel_run)
  have early: "nonces_kept matches {} s s1" by (rule srel_run [OF recorded.srel_cache(1) 1])
  have "exact matches (collRouterSwapResult s2) (swap_args_key args)"
    using late by (intro exact_antimono [OF assms(5)]) (simp add: nonces_kept_def)
  from buildSignRecord_Ret [OF assms(1) 3 this] obtain t res d where
    t: "nonces_kept matches {} s1 t" "collRouterSwapResult t (swap_args_key args) = Some res" "untouched res"
    and d: "collRouterSwapResult s2 (swap_args_key args) = Some d" "rs_SwapTx d \<noteq> ''''" .
  from late d obtain d' where "collRouterSwapResult s' (swap_args_key args) = Some d'" "rs_SwapTx d' \<noteq> ''''"
    unfolding nonces_kept_def by blast
  with nonces.R_trans [OF early t(1)] t(2,3) that show thesis by blast
qed

lemma sent_once:
  assumes "hashes_ok E" and "\<not> IsParallelSwapEnabled (prm (toks (rtr E)))"
    and "doSwap E args s = (r, s1)" and "sent s1 \<noteq> sent s"
    and "(job_step E K)\<^sup>*\<^sup>* s1 s2" and "swap_args_key args \<notin> K"
    and "doSwap E args' s2 = (r', s3)" and "swap_args_key args' = swap_args_key args"
    and "exact matches (collRouterSwapResult s3) (swap_args_key args)"
  shows "sent s3 = sent s2"
proof (rule ccontr)
  assume sends: "sent s3 \<noteq> sent s2"
  have jobs: "nonces_kept matches K s1 s2" by (rule recorded.jobs_related [OF assms(5)])
  have again: "nonces_kept matches {} s2 s3" by (rule srel_run [OF recorded.srel_doSwap assms(7)])
  have "exact matches (collRouterSwapResult s1) (swap_args_key args)"
    using jobs again by (intro exact_antimono [OF assms(9)]) (auto simp: nonces_kept_def)
  then obtain d where "collRouterSwapResult s1 (swap_args_key args) = Some d" "rs_SwapTx d \<noteq> ''''"
    using doSwap_sends [OF assms(1-4)] by blast
  then obtain d2 where d2: "collRouterSwapResult s2 (swap_args_key args) = Some d2" "rs_SwapTx d2 \<noteq> ''''"
    using jobs assms(6) unfolding nonces_kept_def by blast
  obtain t res where t: "nonces_kept matches {} s2 t" "collRouterSwapResult t (swap_args_key args) = Some res" "untouched res"
    using doSwap_sends [OF assms(1,2,7) sends, unfolded assms(8), OF assms(9)] by blast
  then have "rs_SwapTx res \<noteq> ''''" using d2 unfolding nonces_kept_def by fastforce
  with t(3) show False by (simp add: untouched_def)
qed

lemma jobs_keep: "(job_step E K)\<^sup>*\<^sup>* s s' \<Longrightarrow> same_identity s s' \<and> (keys_ok s \<longrightarrow> keys_ok s')"
  using job_step_all [THEN identities.jobs_related] job_step_all [THEN keyed.jobs_related] by blast

end

lemma worker_okI: "documented matches (mgo E) \<Longrightarrow> builder_ok E \<Longrightarrow> worker_ok matches E"
  by unfold_locales

section \<open>A server with one bridge\<close>

definition sample_params :: params_state where
  "sample_params = init_params\<lparr>routerConfig := zero_config\<lparr>Server := Some zero_server, Extra := Some zero_extra\<rparr>\<rparr>"

definition signing_bridge :: IBridge where
  "signing_bridge = target_bridge
     \<lparr>mpcSignTransaction := (\<lambda>_ raw _. Inr (raw, ''0xcc'')), sendTransaction := (\<lambda>_ _. (''0xcc'', None))\<rparr>"

definition sample_worker :: worker_env where
  "sample_worker =
     \<lparr>mgo = memory_env two_keys,
      rtr = reswap_router\<lparr>toks := sample_tokens\<lparr>prm := sample_params\<rparr>, RouterBridges := (\<lambda>_. Some signing_bridge)\<rparr>,
      popped = (\<lambda>_ _. ''''), buildRaw = (\<lambda>_ args. sret ([7], args))\<rparr>"

definition waiting_world :: world where
  "waiting_world = store.extend waiting_swap
     (world.fields {} {} [] Map.empty Map.empty Map.empty [] [])"

text \<open>The search in memory only knows the keys of its list.\<close>

definition known :: "string list \<Rightarrow> string \<Rightarrow> string \<Rightarrow> bool" where
  "known ks p k \<longleftrightarrow> k \<in> set ks \<and> occurs p k"

lemma regex_law_known: "regex_law (known ks) (memory_coll ks key)"
  by (auto simp: memory_coll_def regex_law_def known_def split: list.splits dest!: filter_hd_in)

lemma documented_known: "documented (known ks) (memory_env ks)"
  using documented_memory [of ks] by (simp add: documented_def coll_law_def memory_env_def regex_law_known)

lemma exact_known: "exact (known two_keys) c ''1:0xab:10''"
proof -
  have "\<not> occurs ''1:0xab:10'' ''1:0xab:1''" by code_simp
  then show ?thesis by (auto simp: exact_def known_def two_keys_def)
qed

lemma sample_worker_ok: "documented (known two_keys) (mgo sample_worker)" "builder_ok sample_worker" "hashes_ok sample_worker"
proof -
  show "documented (known two_keys) (mgo sample_worker)" by (simp add: sample_worker_def documented_known)
  show "builder_ok sample_worker"
    unfolding builder_ok_def by (auto simp: sample_worker_def sret_def exec_all_def intro!: exI [of _ "[]"])
  show "hashes_ok sample_worker"
    by (simp add: hashes_ok_def sample_worker_def signing_bridge_def)
qed

interpretation one_bridge: worker_ok "known two_keys" sample_worker
  by (rule worker_okI [OF sample_worker_ok(1,2)])

section \<open>Properties of all runs\<close>

text \<open>
  C26: whatever handlers run, in whatever order and on whatever documents, and whatever the
  database, the nodes and the signing network answer: no registered swap, swap result or used
  r value disappears, nobody's swap changes what it says of sender, receiver, value and chains,
  and every document stays under the key that its fields give.
\<close>

theorem jobs_keep_identity:
  assumes "documented matches (mgo E)" and "builder_ok E" and "(job_step E K)\<^sup>*\<^sup>* s s'"
  shows "same_identity s s' \<and> (keys_ok s \<longrightarrow> keys_ok s')"
  by (rule worker_ok.jobs_keep [OF worker_okI [OF assms(1,2)] assms(3)])

theorem jobs_keep_identity_witness:
  "same_identity waiting_world (snd (processSwapTask sample_worker ''56'' waiting_world))"
proof -
  have "(job_step sample_worker {})\<^sup>*\<^sup>* waiting_world (snd (processSwapTask sample_worker ''56'' waiting_world))"
    by (rule r_into_rtranclp) (rule job_step.swap)
  from jobs_keep_identity [OF sample_worker_ok(1,2) this] show ?thesis by blast
qed

text \<open>
  C7: a swap is sent at most once. When \<open>doSwap\<close> handed a transaction for a swap to the node
  (with swaps processed one after the other), no later \<open>doSwap\<close> for the same swap hands
  anything to the node, whatever handlers and store operations ran in between and whatever the
  database, the nodes and the signing network answered, unless an operation in between reset
  the swap's result. The hypotheses are that the driver behaves as documented, that building a
  transaction touches the store only through its operations, that signed transactions have a
  hash, and that no other result's key has a match of this swap's key.
\<close>

theorem swap_sent_once:
  assumes "documented matches (mgo E)" and "builder_ok E" and "hashes_ok E" and "\<not> IsParallelSwapEnabled (prm (toks (rtr E)))"
    and "doSwap E args s = (r, s1)" and "sent s1 \<noteq> sent s"
    and "(job_step E K)\<^sup>*\<^sup>* s1 s2" and "swap_args_key args \<notin> K"
    and "doSwap E args' s2 = (r', s3)" and "swap_args_key args' = swap_args_key args"
    and "exact matches (collRouterSwapResult s3) (swap_args_key args)"
  shows "sent s3 = sent s2"
  by (rule worker_ok.sent_once [OF worker_okI [OF assms(1,2)] assms(3-11)])

theorem swap_sent_once_witness:
  "let s1 = snd (doSwap sample_worker sample_build waiting_world);
       s2 = snd (DeleteCachedSwap ''1'' ''0xab'' 10 s1);
       s3 = snd (doSwap sample_worker sample_build s2)
   in sent s1 = [[7]] \<and> sent s3 = sent s2"
proof -
  define s1 where "s1 = snd (doSwap sample_worker sample_build waiting_world)"
  define s2 where "s2 = snd (DeleteCachedSwap ''1'' ''0xab'' 10 s1)"
  define s3 where "s3 = snd (doSwap sample_worker sample_build s2)"
  have 1: "sent s1 = [[7]]" unfolding s1_def by code_simp
  have 3: "exact (known two_keys) (collRouterSwapResult s3) (swap_args_key sample_build)"
    unfolding sample_build_key by (rule exact_known)
  have ne: "sent s1 \<noteq> sent waiting_world" unfolding 1 by code_simp
  have steps: "(job_step sample_worker {})\<^sup>*\<^sup>* s1 s2" unfolding s2_def by (rule r_into_rtranclp) (rule job_step.uncache)
  have serial: "\<not> IsParallelSwapEnabled (prm (toks (rtr sample_worker)))" by code_simp
  have runs: "doSwap sample_worker sample_build waiting_world = (fst (doSwap sample_worker sample_build waiting_world), s1)"
    "doSwap sample_worker sample_build s2 = (fst (doSwap sample_worker sample_build s2), s3)"
    by (simp_all add: s1_def s3_def)
  have "sent s3 = sent s2"
    by (rule swap_sent_once [OF sample_worker_ok serial runs(1) ne steps _ runs(2) refl 3]) simp
  with 1 show ?thesis unfolding s1_def s2_def s3_def Let_def by blast
qed

end
