(* ===== verification/StatusMachine.thy ===== *)
theory StatusMachine
  imports WorkerRuns
begin

text \<open>
  The states of a swap. status.go draws how the status of a registered swap and of a swap result
  may change; here the graph is a step relation between statuses, the statuses of all documents
  are an abstraction of the store, and the handlers are shown to follow the graph: they move the
  document they were given along one of its edges, or leave all statuses as they are. The
  conditions under which a handler takes an edge are part of the statements.
\<close>

section \<open>The abstraction\<close>

definition registered :: "world \<Rightarrow> string \<rightharpoonup> SwapStatus" where
  "registered s k = map_option sw_Status (collRouterSwap s k)"

definition results :: "world \<Rightarrow> string \<rightharpoonup> SwapStatus" where
  "results s k = map_option rs_Status (collRouterSwapResult s k)"

text \<open>Only the status at \<open>k\<close> changes, if any, and the new one is in \<open>A\<close>.\<close>

definition moves :: "(world \<Rightarrow> string \<rightharpoonup> SwapStatus) \<Rightarrow> string \<Rightarrow> SwapStatus set \<Rightarrow> world \<Rightarrow> world \<Rightarrow> bool" where
  "moves f k A s s' \<longleftrightarrow> f s' = f s \<or> (\<exists>st \<in> A. f s' = (f s)(k := map_option (\<lambda>_. st) (f s k)))"

interpretation moving: evolution "moves f k A"
  by unfold_locales (auto simp: moves_def option.map_comp comp_def)

lemma moves_same: "f s' = f s \<Longrightarrow> moves f k A s s'"
  by (simp add: moves_def)

lemma moving_quiet: "(\<And>s. f (snd (m s)) = f s) \<Longrightarrow> srel (moves f k A) m"
  by (simp add: sfrom_def moves_same)

lemma moving_db: "srel (moves f k A) m \<Longrightarrow> srel (moves f k A) (db m)"
  unfolding sfrom_def db_def by (auto split: prod.splits outcome.splits) (metis snd_conv)+

lemma moving_dropped: "srel (moves f k A) m \<Longrightarrow> srel (moves f k A) (dropped m)"
  unfolding dropped_def by (intro moving.srel_intros)

lemma statuses_frame [simp]:
  "registered (s\<lparr>tick := n\<rparr>) = registered s" "results (s\<lparr>tick := n\<rparr>) = results s"
  "registered (s\<lparr>collRouterSwapResult := c\<rparr>) = registered s" "results (s\<lparr>collRouterSwap := b\<rparr>) = results s"
  "registered (s\<lparr>collUsedRValue := u\<rparr>) = registered s" "results (s\<lparr>collUsedRValue := u\<rparr>) = results s"
  by (simp_all add: registered_def [abs_def] results_def [abs_def])

lemma moving_extern: "srel (moves registered k A) (extern f)" "srel (moves results k A) (extern f)"
  by (rule moving_quiet; simp add: extern_def)+

lemma moving_other:
  "srel (moves registered k A) (insertResult E e)" "srel (moves registered k A) (updateResult E k' g)"
  "srel (moves results k A) (insertSwap E d)" "srel (moves results k A) (updateSwap E k' f)"
  by (rule moving_quiet; simp add: insertResult_def updateResult_def insertSwap_def updateSwap_def coll_write_def split: prod.split)+

lemma moving_updateSwap:
  assumes "documented matches E" and "\<And>d. sw_Status (f d) = st" and "st \<in> A"
  shows "srel (moves registered k A) (updateSwap E k f)"
  unfolding sfrom_def
proof (intro allI impI)
  fix s :: world
  obtain err c where u: "UpdateByID (swapColl E) (tick s) k f (collRouterSwap s) = (err, c)" by fastforce
  have "c = collRouterSwap s \<or> c = (collRouterSwap s)(k := map_option f (collRouterSwap s k))"
    by (rule update_lawD(1) [OF documentedD(2) [OF assms(1)] u])
  moreover have "registered (s\<lparr>tick := n, collRouterSwap := (collRouterSwap s)(k := map_option f (collRouterSwap s k))\<rparr>) =
      (registered s)(k := map_option (\<lambda>_. st) (registered s k))" for n
    by (rule ext) (auto simp: registered_def assms(2) option.map_comp comp_def)
  ultimately show "moves registered k A s (snd (updateSwap E k f s))"
    using u assms(3) by (auto simp: updateSwap_def coll_write_def moves_def registered_def [abs_def])
qed

lemma moving_updateResult:
  assumes "documented matches E" and "\<And>d. rs_Status (f d) = st" and "st \<in> A"
  shows "srel (moves results k A) (updateResult E k f)"
  unfolding sfrom_def
proof (intro allI impI)
  fix s :: world
  obtain err c where u: "UpdateByID (resultColl E) (tick s) k f (collRouterSwapResult s) = (err, c)" by fastforce
  have "c = collRouterSwapResult s \<or> c = (collRouterSwapResult s)(k := map_option f (collRouterSwapResult s k))"
    by (rule update_lawD(1) [OF documentedD(6) [OF assms(1)] u])
  moreover have "results (s\<lparr>tick := n, collRouterSwapResult := (collRouterSwapResult s)(k := map_option f (collRouterSwapResult s k))\<rparr>) =
      (results s)(k := map_option (\<lambda>_. st) (results s k))" for n
    by (rule ext) (auto simp: results_def assms(2) option.map_comp comp_def)
  ultimately show "moves results k A s (snd (updateResult E k f s))"
    using u assms(3) by (auto simp: updateResult_def coll_write_def moves_def results_def [abs_def])
qed

lemma moving_basic:
  "srel (moves registered k A) (Unix_now E)" "srel (moves registered k A) (NowMilli E)"
  "srel (moves registered k A) (mgo_return err)" "srel (moves registered k A) (mgo_found r)"
  "srel (moves results k A) (Unix_now E)" "srel (moves results k A) (NowMilli E)"
  "srel (moves results k A) (mgo_return err)" "srel (moves results k A) (mgo_found r)"
  by (simp_all add: Unix_now_def NowMilli_def moving_extern mgo_return_def mgo_found_def moving.sfrom_steps)

lemmas moving_intros = moving.srel_intros moving_db moving_dropped moving_extern moving_other moving_basic

lemma moving_finds:
  "srel (moves registered k A) (FindRouterSwap E c t l)" "srel (moves registered k A) (FindRouterSwapResult E c t l)"
  "srel (moves results k A) (FindRouterSwap E c t l)" "srel (moves results k A) (FindRouterSwapResult E c t l)"
  unfolding FindRouterSwap_def FindRouterSwapResult_def by (intro moving_intros)+

lemma moving_registered_ops:
  "srel (moves registered k A) (AddRouterSwapResult E mr)" "srel (moves registered k A) (UpdateRouterSwapResultStatus E c t l st ts memo)"
  unfolding AddRouterSwapResult_def UpdateRouterSwapResultStatus_def by (intro moving_intros)+

lemma moving_UpdateRouterSwapStatus:
  assumes "documented matches E" and "GetRouterSwapKey c t l = k" and "st \<in> A"
  shows "srel (moves registered k A) (UpdateRouterSwapStatus E c t l st ts memo)"
  unfolding UpdateRouterSwapStatus_def assms(2)
  by (intro moving_intros moving_updateSwap [OF assms(1) _ assms(3)]) auto

lemma moving_UpdateRouterSwapResultStatus:
  assumes "documented matches E" and "GetRouterSwapKey c t l = k" and "st \<in> A"
  shows "srel (moves results k A) (UpdateRouterSwapResultStatus E c t l st ts memo)"
  unfolding UpdateRouterSwapResultStatus_def assms(2)
  by (intro moving_intros moving_updateResult [OF assms(1) _ assms(3)]) auto

section \<open>The graph of the registered swaps\<close>

inductive status_step :: "SwapStatus \<Rightarrow> SwapStatus \<Rightarrow> bool" where
  failed: "status_step TxNotStable TxVerifyFailed"
| wrong_value: "status_step TxNotStable TxWithWrongValue"
| wrong_path: "status_step TxNotStable TxWithWrongPath"
| no_config: "status_step TxNotStable MissTokenConfig"
| no_underlying: "status_step TxNotStable NoUnderlyingToken"
| black: "status_step TxNotStable SwapInBlacklist"
| big: "status_step TxNotStable TxWithBigValue"
| verified: "status_step TxNotStable TxNotSwapped"
| released: "status_step TxWithBigValue TxNotSwapped"
| processed: "status_step TxNotSwapped TxProcessed"
| black_later: "status_step TxNotSwapped SwapInBlacklist"
| black_stale: "status_step TxProcessed SwapInBlacklist"
| black_processed: "status_step SwapInBlacklist TxProcessed"
| reswapped: "status_step TxProcessed TxNotSwapped"
| reregistered: "\<not> IsRegisteredOk st \<Longrightarrow> status_step st TxNotStable"

inductive_simps status_step_iff: "status_step a b"

section \<open>Calls whose answer matters\<close>

lemma moving_extern_bind:
  assumes "f = registered \<or> f = results" and "\<And>t. srel (moves f k A) (g (ask t))"
  shows "srel (moves f k A) (sbind (extern ask) g)"
proof -
  have f: "f (s\<lparr>tick := n\<rparr>) = f s" for s n using assms(1) by auto
  have "moves f k A (s\<lparr>tick := Suc (tick s)\<rparr>) (snd (g (ask (tick s)) (s\<lparr>tick := Suc (tick s)\<rparr>)))" for s
    using assms(2) by (simp add: sfrom_def)
  then show ?thesis by (simp add: sfrom_def sbind_def extern_def moves_def f)
qed

lemma moving_slift_bind: "(\<And>a. r = Ret a \<Longrightarrow> srel (moves f k A) (g a)) \<Longrightarrow> srel (moves f k A) (sbind (slift r) g)"
  by (cases r) (simp_all add: sfrom_def sbind_def slift_def moving.R_refl)

lemma moving_bridge_bind:
  "(\<And>b. RouterBridges (rtr E) c = Some b \<Longrightarrow> srel (moves f k A) (g b)) \<Longrightarrow> srel (moves f k A) (sbind (bridge_of E c) g)"
  unfolding bridge_of_def GetBridgeByChainID_def by (rule moving_slift_bind) (auto split: option.splits)

lemma moving_tok_bind: "(\<And>a. r = Ret a \<Longrightarrow> srel (moves f k A) (g a)) \<Longrightarrow> srel (moves f k A) (sbind (tok r) g)"
  unfolding tok_def by (rule moving_slift_bind) (auto split: outcome.splits)

lemma moving_now: "srel (moves registered k A) (now E)" "srel (moves results k A) (now E)"
  "srel (moves registered k A) (getSepTimeInFind E dist)" "srel (moves results k A) (getSepTimeInFind E dist)"
  unfolding now_def getSepTimeInFind_def by (intro moving_intros)+

lemma statuses_world [simp]:
  "registered (s\<lparr>cachedVerifyingSwaps := x\<rparr>) = registered s" "results (s\<lparr>cachedVerifyingSwaps := x\<rparr>) = results s"
  "registered (s\<lparr>cachedSwapTasks := x\<rparr>) = registered s" "results (s\<lparr>cachedSwapTasks := x\<rparr>) = results s"
  by (simp_all add: registered_def [abs_def] results_def [abs_def])

lemma moving_supd: "(\<And>s. f (u s) = f s) \<Longrightarrow> srel (moves f k A) (supd u)"
  by (rule moving_quiet) (simp add: supd_def)

lemma moving_caches:
  "srel (moves registered k A) (cacheVerifying E key)" "srel (moves registered k A) (DeleteCachedVerifyingSwap key)"
  unfolding cacheVerifying_def DeleteCachedVerifyingSwap_def
  by (intro moving_intros moving_supd; simp)+

section \<open>Verification\<close>

definition from_key :: "MgoSwap \<Rightarrow> string" where
  "from_key swap = GetRouterSwapKey (sw_FromChainID swap) (sw_TxID swap) (sw_LogIndex swap)"

text \<open>The statuses that the answers to the verification of a swap call for.\<close>

definition verify_edges :: "worker_env \<Rightarrow> MgoSwap \<Rightarrow> SwapStatus set" where
  "verify_edges E swap =
     {st. \<not> IsChainIDPaused (rtr E) (sw_FromChainID swap) \<and> \<not> IsChainIDPaused (rtr E) (sw_ToChainID swap) \<and>
        (if isBlacked E swap then st = SwapInBlacklist
         else \<exists>br t. RouterBridges (rtr E) (sw_FromChainID swap) = Some br \<and>
           (case verifyTransaction br t (sw_TxID swap) \<lparr>va_SwapType = sw_SwapType swap, va_LogIndex = sw_LogIndex swap, AllowUnstable = False\<rparr> of
              Inr info \<Rightarrow> st = TxWithBigValue \<and> IsBigValueSwap (rtr E) info = Ret True \<or>
                          st = TxNotSwapped \<and> IsBigValueSwap (rtr E) info = Ret False
            | Inl err \<Rightarrow> \<not> errors_Is err ErrTxNotStable \<and> \<not> errors_Is err ErrRPCQueryError \<and>
                (if errors_Is err ErrTxNotFound \<or> errors_Is err ErrNotFound then st = TxVerifyFailed else st = verifyErrorStatus err)))}"

lemma verify_edgesI:
  assumes "\<not> IsChainIDPaused (rtr E) (sw_FromChainID swap)" "\<not> IsChainIDPaused (rtr E) (sw_ToChainID swap)"
    "\<not> isBlacked E swap" "RouterBridges (rtr E) (sw_FromChainID swap) = Some br"
  shows "verifyTransaction br t (sw_TxID swap) \<lparr>va_SwapType = sw_SwapType swap, va_LogIndex = sw_LogIndex swap, AllowUnstable = False\<rparr> = Inr info \<Longrightarrow> IsBigValueSwap (rtr E) info = Ret True \<Longrightarrow> TxWithBigValue \<in> verify_edges E swap"
    and "verifyTransaction br t (sw_TxID swap) \<lparr>va_SwapType = sw_SwapType swap, va_LogIndex = sw_LogIndex swap, AllowUnstable = False\<rparr> = Inr info \<Longrightarrow> IsBigValueSwap (rtr E) info = Ret False \<Longrightarrow> TxNotSwapped \<in> verify_edges E swap"
    and "verifyTransaction br t (sw_TxID swap) \<lparr>va_SwapType = sw_SwapType swap, va_LogIndex = sw_LogIndex swap, AllowUnstable = False\<rparr> = Inl err \<Longrightarrow> \<not> errors_Is err ErrTxNotStable \<Longrightarrow> \<not> errors_Is err ErrRPCQueryError \<Longrightarrow>
      (if errors_Is err ErrTxNotFound \<or> errors_Is err ErrNotFound then TxVerifyFailed else verifyErrorStatus err) \<in> verify_edges E swap"
  using assms unfolding verify_edges_def by (auto intro!: exI [of _ t])

lemma moving_setSwapStatus:
  "documented matches (mgo E) \<Longrightarrow> st \<in> A \<Longrightarrow> srel (moves registered (from_key swap) A) (setSwapStatus E swap st memo)"
  unfolding setSwapStatus_def by (intro moving_intros moving_now moving_UpdateRouterSwapStatus) (simp_all add: from_key_def)

lemma moving_PassRouterSwapVerify:
  assumes "documented matches E" and "GetRouterSwapKey c t l = k" and "TxNotSwapped \<in> A"
  shows "srel (moves registered k A) (PassRouterSwapVerify E c t l ts)"
  unfolding PassRouterSwapVerify_def assms(2)
  by (intro moving_intros moving_finds moving_updateSwap [OF assms(1) _ assms(3)]) simp

lemma moving_verifyPassed:
  assumes "documented matches (mgo E)"
    and "IsBigValueSwap (rtr E) info = Ret True \<Longrightarrow> TxWithBigValue \<in> A"
    and "IsBigValueSwap (rtr E) info = Ret False \<Longrightarrow> TxNotSwapped \<in> A"
  shows "srel (moves registered (from_key swap) A) (verifyPassed E swap info)"
  unfolding verifyPassed_def AddInitialSwapResult_def
  by (intro moving_tok_bind moving.srel_if moving_setSwapStatus [OF assms(1)] moving.srel_sbind moving_now moving_db
      moving_registered_ops moving_PassRouterSwapVerify [OF assms(1)]) (auto simp: from_key_def assms(2,3))

lemma moving_verifyFailed:
  assumes "documented matches (mgo E)"
    and "\<not> errors_Is err ErrTxNotStable \<Longrightarrow> \<not> errors_Is err ErrRPCQueryError \<Longrightarrow>
      (if errors_Is err ErrTxNotFound \<or> errors_Is err ErrNotFound then TxVerifyFailed else verifyErrorStatus err) \<in> A"
  shows "srel (moves registered (from_key swap) A) (verifyFailed E swap err)"
  unfolding verifyFailed_def
  using assms(2)
  by (intro moving.srel_if moving_dropped moving_setSwapStatus [OF assms(1)] moving.srel_sbind moving_now moving_basic moving_db
      moving_registered_ops moving_caches moving.sfrom_steps) auto

lemma moving_processRouterSwapVerify:
  assumes "documented matches (mgo E)"
  shows "srel (moves registered (from_key swap) (verify_edges E swap)) (processRouterSwapVerify E swap)"
  unfolding processRouterSwapVerify_def
  apply (intro moving.srel_if moving.sfrom_steps moving.srel_sget)
  apply (rule moving.srel_sbind, rule moving_caches)
  apply (intro moving.srel_if)
   apply (intro moving.srel_sbind moving_dropped moving_setSwapStatus [OF assms] moving.sfrom_steps)
   apply (simp add: verify_edges_def)
  apply (rule moving_bridge_bind, rule moving_extern_bind, simp)
  apply (split sum.split, intro conjI allI impI)
   apply (rule moving_verifyFailed [OF assms], rule verify_edgesI(3), simp_all)
  apply (rule moving_dropped, rule moving_verifyPassed [OF assms])
   apply (rule verify_edgesI(1), simp_all)
  apply (rule verify_edgesI(2), simp_all)
  done

lemma verifyErrorStatus_graph: "status_step TxNotStable (verifyErrorStatus err)"
  by (simp add: verifyErrorStatus_def status_step.intros)

lemma verify_edges_graph: "st \<in> verify_edges E swap \<Longrightarrow> status_step TxNotStable st"
  unfolding verify_edges_def mem_Collect_eq
  by (elim conjE) (simp split: if_splits sum.splits, auto intro: status_step.intros verifyErrorStatus_graph)

section \<open>Handlers that look up the result of a swap\<close>

text \<open>
  Documents lie under their keys, and a search for the result at \<open>k\<close> finds no other. When this
  holds after a handler, it held before it.
\<close>

definition clear :: "(string \<Rightarrow> string \<Rightarrow> bool) \<Rightarrow> string \<Rightarrow> world \<Rightarrow> bool" where
  "clear matches k s \<longleftrightarrow> keys_ok s \<and> exact matches (collRouterSwapResult s) k"

definition follows :: "(string \<Rightarrow> string \<Rightarrow> bool) \<Rightarrow> string \<Rightarrow> SwapStatus set \<Rightarrow> world \<Rightarrow> world \<Rightarrow> bool" where
  "follows matches k A s s' \<longleftrightarrow> same_identity s s' \<and> (clear matches k s' \<longrightarrow> moves registered k A s s')"

lemma keys_ok_back: "same_identity s s' \<Longrightarrow> keys_ok s' \<Longrightarrow> keys_ok s"
  unfolding keys_ok_def same_identity_def coll_keeps_def swap_id_def result_id_def by fastforce

lemma clear_back:
  assumes "same_identity s s'" and "clear matches k s'"
  shows "clear matches k s"
proof -
  have "dom (collRouterSwapResult s) \<subseteq> dom (collRouterSwapResult s')"
    using assms(1) unfolding same_identity_def coll_keeps_def dom_def by blast
  then show ?thesis using assms(2) exact_antimono keys_ok_back [OF assms(1)] unfolding clear_def by blast
qed

context worker_ok
begin

lemma follows_trans: "follows matches k A s t \<Longrightarrow> follows matches k A t u \<Longrightarrow> follows matches k A s u"
  unfolding follows_def using clear_back moving.R_trans identity.R_trans by metis

end

sublocale worker_ok \<subseteq> following: evolution "follows matches k A" for k A
  by unfold_locales (simp add: follows_def moving.R_refl identity.R_refl, erule (1) follows_trans)

context worker_ok
begin

lemma following_both: "srel same_identity m \<Longrightarrow> srel (moves registered k A) m \<Longrightarrow> srel (follows matches k A) m"
  by (simp add: sfrom_def follows_def)

lemma following_found:
  assumes "\<And>res. srel same_identity (g res)"
    and "\<And>res. GetRouterSwapKey (rs_FromChainID res) (rs_TxID res) (rs_LogIndex res) = k \<Longrightarrow> srel (follows matches k A) (g res)"
    and "GetRouterSwapKey c t l = k"
  shows "srel (follows matches k A) (sbind (db (FindRouterSwapResult (mgo E) c t l)) g)"
  unfolding sfrom_def
proof (intro allI impI)
  fix s :: world
  let ?m = "db (FindRouterSwapResult (mgo E) c t l) :: MgoSwapResult working"
  have find: "srel (follows matches k A) ?m" by (intro following_both identities.srel_worker moving_db moving_finds)
  show "follows matches k A s (snd (sbind ?m g s))"
  proof (cases "?m s")
    case (Pair r s1)
    note fs = srel_run [OF find Pair]
    show ?thesis
    proof (cases r)
      case (Ret res)
      with Pair have f: "FindRegex (resultColl (mgo E)) (tick s) k (collRouterSwapResult s) = Inr res"
        by (simp add: outcome_simps FindRouterSwapResult_Ret assms(3))
      have "follows matches k A s1 (snd (g res s1))"
      proof (cases "clear matches k (snd (g res s1))")
        case True
        have i: "same_identity s1 (snd (g res s1))" using assms(1) by (simp add: sfrom_def)
        with True have "clear matches k s" using clear_back fs unfolding follows_def by blast
        then have "collRouterSwapResult s k = Some res" "keys_ok s"
          using regex_exact [OF documentedD(8) [OF documented] _ f] by (simp_all add: clear_def)
        then have "GetRouterSwapKey (rs_FromChainID res) (rs_TxID res) (rs_LogIndex res) = k" by (auto simp: keys_ok_def)
        from assms(2) [OF this] show ?thesis by (simp add: sfrom_def)
      qed (use assms(1) in \<open>simp add: follows_def sfrom_def\<close>)
      with fs show ?thesis using Pair Ret by (simp add: sbind_def follows_trans)
    qed (use fs Pair in \<open>simp_all add: sbind_def\<close>)
  qed
qed

end

section \<open>Handlers that leave the registered swaps alone\<close>

lemma statuses_world2 [simp]:
  "registered (s\<lparr>swapRing := x1\<rparr>) = registered s" "registered (s\<lparr>tasks := x2\<rparr>) = registered s" "registered (s\<lparr>sent := x3\<rparr>) = registered s"
  "registered (s\<lparr>routerSwapTaskChanMap := x4\<rparr>) = registered s"
  by (simp_all add: registered_def [abs_def])

lemmas quiet_intros = moving_intros moving_now moving_supd moving_finds moving_registered_ops

lemma quiet_steps:
  "srel (moves registered k A) (tok r)" "srel (moves registered k A) (bridge_of E c)" "srel (moves registered k A) (server_config E)"
  "srel (moves registered k A) (swapInfo_of i)" "srel (moves registered k A) (bigIntOr v msg)"
  "srel (moves registered k A) (addSwapHistory c' t l h)" "srel (moves registered k A) (dispatchSwapTask args)"
  "srel (moves registered k A) (checkAndUpdateProcessSwapTaskCache E key)" "srel (moves registered k A) (send br tx)"
  unfolding tok_def bridge_of_def server_config_def swapInfo_of_def bigIntOr_def addSwapHistory_def dispatchSwapTask_def
    checkAndUpdateProcessSwapTaskCache_def send_def
  by (intro quiet_intros; simp)+

lemma quiet_numbers: "srel (moves registered k A) (getFromToChainIDAndValue f t v)"
  unfolding getFromToChainIDAndValue_def by (intro quiet_intros quiet_steps)

lemma quiet_results:
  "srel (moves registered k A) (UpdateRouterSwapResult E c t l items)" "srel (moves registered k A) (UpdateRouterOldSwapTxs E c t l tx)"
  unfolding UpdateRouterSwapResult_def UpdateRouterOldSwapTxs_def checkRouterSwapResultUpdate_def by (intro quiet_intros)+

text \<open>A registered swap is never put back to \<open>TxNotStable\<close>, so that \<open>reverifySwap\<close> has no effect on it.\<close>

lemma quiet_TxNotStable: "srel (moves registered k A) (UpdateRouterSwapStatus E c t l TxNotStable ts memo)"
  by (rule moving_quiet) (simp add: UpdateRouterSwapStatus_def sbind_def sguard_def)

lemma quiet_mpcSign: "srel (moves registered k A) (mpcSign E br raw args)"
  unfolding mpcSign_def reverifySwap_def
  by (intro quiet_intros quiet_TxNotStable) (auto split: sign_error.split intro!: quiet_intros quiet_TxNotStable)

lemma quiet_send_attempts: "srel (moves registered k A) (send_attempts n br tx prev)"
  by (induction n arbitrary: prev) (auto intro!: quiet_intros quiet_steps)

lemma quiet_send_loops: "srel (moves registered k A) (send_loops n br tx)"
  by (induction n) (auto intro!: quiet_intros quiet_send_attempts simp: quiet_send_attempts)

lemma quiet_sendAndCheckHash: "srel (moves registered k A) (sendAndCheckHash E br tx h args c t l)"
  unfolding sendAndCheckHash_def sendSignedTransaction_def Let_def
  by (intro quiet_intros quiet_steps quiet_send_loops quiet_results; simp)

lemma moving_preventReswap:
  assumes "documented matches (mgo E)" and "GetRouterSwapKey (rs_FromChainID res) (rs_TxID res) (rs_LogIndex res) = k" and "TxProcessed \<in> A"
  shows "srel (moves registered k A) (preventReswap E res)"
  unfolding preventReswap_def processNonEmptySwapResult_def processHistory_def getSwapHistory_def setStatusOf_def
  by (intro quiet_intros moving_UpdateRouterSwapStatus [OF assms])

section \<open>Swapping and releasing\<close>

text \<open>
  Building a transaction marks the swap as processed, if it does anything to registered swaps; with
  a nonce in its arguments it allocates none and leaves them alone.
\<close>

definition nonce_given :: "BuildTxArgs \<Rightarrow> bool" where
  "nonce_given args \<longleftrightarrow>
     (case args_Extra args of None \<Rightarrow> False | Some x \<Rightarrow> (case EthExtra x of None \<Rightarrow> False | Some e \<Rightarrow> Nonce e \<noteq> None))"

definition builder_marks :: "worker_env \<Rightarrow> bool" where
  "builder_marks E \<longleftrightarrow>
     (\<forall>br args s. moves registered (swap_args_key args) (if nonce_given args then {} else {TxProcessed}) s (snd (buildRaw E br args s)))"

lemma builder_marks_moves: "builder_marks E \<Longrightarrow> moves registered (swap_args_key args) {TxProcessed} s (snd (buildRaw E br args s))"
  unfolding builder_marks_def moves_def by (metis empty_iff)

context worker_ok
begin

lemma following_preventReswap:
  "GetRouterSwapKey (rs_FromChainID res) (rs_TxID res) (rs_LogIndex res) = k \<Longrightarrow> TxProcessed \<in> A \<Longrightarrow>
     srel (follows matches k A) (preventReswap E res)"
  by (intro following_both identities.srel_preventReswap moving_preventReswap [OF documented])

lemma following_steps:
  "srel (follows matches k A) (bridge_of E c)" "srel (follows matches k A) (getFromToChainIDAndValue f t v)"
  "srel (follows matches k A) (tok r)" "srel (follows matches k A) (swapInfo_of i)" "srel (follows matches k A) (dispatchSwapTask args)"
  "srel (follows matches k A) (now E)" "srel (follows matches k A) (addSwapHistory c' t' l h)"
  "srel (follows matches k A) (checkAndUpdateProcessSwapTaskCache E key)" "srel (follows matches k A) (mpcSign E br raw args)"
  "srel (follows matches k A) (sendAndCheckHash E br tx h args c' t' l)"
  by (intro following_both identities.srel_pure identities.srel_numbers identities.srel_dispatch identities.srel_now identities.srel_cache
      identities.srel_mpcSign identities.srel_sendAndCheckHash quiet_steps quiet_numbers moving_now quiet_mpcSign quiet_sendAndCheckHash)+

lemma following_processRouterSwap:
  assumes "TxProcessed \<in> A" and "isBlacked E swap \<Longrightarrow> SwapInBlacklist \<in> A"
  shows "srel (follows matches (from_key swap) A) (processRouterSwap E swap)"
  unfolding processRouterSwap_def
  apply (intro following.srel_if following.sfrom_steps following.srel_sget)
   apply (rule following_both, intro identities.srel_worker identities.srel_setStatus,
      intro moving_dropped moving_setSwapStatus [OF documented] assms(2), assumption)
  apply (rule following_found)
    apply (intro identities.srel_worker identities.srel_preventReswap identities.srel_numbers identities.srel_dispatch)
   apply (intro following.srel_intros following_steps following_preventReswap assms(1), assumption)
  apply (simp add: from_key_def)
  done

lemma following_uncache: "srel (follows matches k A) m \<Longrightarrow> srel (follows matches k A) (uncache_on_failure key m)"
proof -
  have "follows matches k A s s' \<Longrightarrow> follows matches k A s (s'\<lparr>cachedSwapTasks := c\<rparr>)" for s s' c
    by (simp add: follows_def same_identity_def clear_def keys_ok_def moves_def)
  then show "srel (follows matches k A) m \<Longrightarrow> ?thesis"
    unfolding sfrom_def uncache_on_failure_def by (auto split: prod.splits outcome.splits) (metis snd_conv)+
qed

lemma following_doSwap:
  assumes "builder_marks E"
  shows "srel (follows matches (swap_args_key args) {TxProcessed}) (doSwap E args)"
proof -
  let ?R = "follows matches (swap_args_key args) {TxProcessed}"
  have key: "GetRouterSwapKey (fromChain args) (args_SwapID (swapArgs args)) (args_LogIndex (swapArgs args)) = swap_args_key args"
    by (simp add: swap_args_key_def fromChain_def)
  have build: "srel ?R (buildRaw E br args)" for br
    using builder_marks_moves [OF assms] by (intro following_both identities.srel_buildRaw) (simp add: sfrom_def)
  have upd: "srel ?R (updateRouterSwapResult E c t l m)" for c t l m
    unfolding updateRouterSwapResult_def
    by (intro following.srel_sbind following_steps following_both identity.srel_UpdateRouterSwapResult identities.srel_worker moving_db quiet_results)
  have processed: "srel ?R (db (UpdateRouterSwapStatus (mgo E) (fromChain args) (args_SwapID (swapArgs args)) (args_LogIndex (swapArgs args))
      TxProcessed ts memo))" for ts memo
    by (intro following_both identities.srel_worker identity.srel_UpdateRouterSwapStatus moving_db
        moving_UpdateRouterSwapStatus [OF documented key]) simp
  have rec: "srel ?R (buildSignRecord E args)"
    unfolding buildSignRecord_def Let_def
    apply (rule following.srel_sbind, rule following_steps(1))
    apply (rule following.srel_sbind, rule build, rule following.srel_prod)
    apply (rule following.srel_sbind, rule following_steps(9), rule following.srel_prod)
    apply (rule following_found [OF _ _ key])
     apply (intro identities.srel_worker identities.srel_preventReswap identities.srel_cache identities.srel_updates)
    apply (intro following.srel_intros following_steps following_preventReswap upd, assumption, simp)
    done
  show ?thesis
    unfolding doSwap_def doSwapParallel_def Let_def
    by (intro following.srel_intros following_steps following_uncache build rec processed following_both
        identities.srel_supd moving_supd; simp add: store.truncate_def)
qed

end

section \<open>Handlers and operations that touch no status of a registered swap\<close>

abbreviation quiet :: "world \<Rightarrow> world \<Rightarrow> bool" where
  "quiet \<equiv> moves registered '''' {}"

lemma quiet_iff: "quiet s s' \<longleftrightarrow> registered s' = registered s"
  by (simp add: moves_def)

lemma quiet_updates:
  "srel quiet (updateSwapTx E c t l tx)" "srel quiet (updateSwapTimestamp E c t l)" "srel quiet (updateRouterSwapResult E c t l m)"
  "srel quiet (markSwapResultUnstable E c t l)" "srel quiet (markSwapResultStable E c t l)" "srel quiet (markSwapResultFailed E c t l)"
  unfolding updateSwapTx_def updateSwapTimestamp_def updateRouterSwapResult_def markSwapResultUnstable_def markSwapResultStable_def
    markSwapResultFailed_def
  by (intro quiet_intros quiet_results)+

lemma statuses_world3 [simp]:
  "registered (s\<lparr>routerStableTaskChanMap := x\<rparr>) = registered s" "registered (s\<lparr>setters := y\<rparr>) = registered s"
  by (simp_all add: registered_def [abs_def])

lemma quiet_old_swap_txs': "srel quiet (old_swap_txs br tx txs)"
  by (induction txs) (auto intro!: quiet_intros)

lemma quiet_tx_status: "srel quiet (getSwapTxStatus br swap)"
  unfolding getSwapTxStatus_def by (intro quiet_intros quiet_old_swap_txs')

lemma quiet_nonce_check: "srel quiet (checkIfSwapNonceHasPassed E br res b)"
  unfolding checkIfSwapNonceHasPassed_def noncePassed_def existsInChain_def lowerNonce_def markNoncePassed_def Let_def
  by (intro quiet_intros quiet_tx_status quiet_updates)

lemma quiet_stable: "srel quiet (processRouterSwapStable E swap)"
  unfolding processRouterSwapStable_def settleSwapResult_def
  by (intro quiet_intros quiet_steps quiet_tx_status quiet_nonce_check quiet_updates)

lemma quiet_list: "srel quiet m \<Longrightarrow> (\<And>x xs. srel quiet (f x xs)) \<Longrightarrow> srel quiet (case z of [] \<Rightarrow> m | x # xs \<Rightarrow> f x xs)"
  by (cases z) auto

lemma quiet_stable_task: "srel quiet (processStableTask E chainID)" "srel quiet (dispatchSwapResultToStable res)"
  unfolding processStableTask_def dispatchSwapResultToStable_def
  by (intro quiet_intros quiet_list quiet_stable; simp)+

lemma quiet_resend_loop: "srel quiet (resend_loop n E br h tx args)"
  by (induction n arbitrary: h) (auto intro!: quiet_intros quiet_steps quiet_updates)

lemma quiet_resend: "srel quiet (sendTxLoopUntilSuccess E br h tx args)"
  unfolding sendTxLoopUntilSuccess_def Let_def by (intro quiet_intros quiet_steps quiet_resend_loop)

lemma quiet_signAndSendTx: "srel quiet (signAndSendTx E raw args)"
  unfolding signAndSendTx_def Let_def
  by (intro quiet_intros quiet_mpcSign quiet_steps quiet_updates quiet_sendAndCheckHash)

lemma quiet_signAndSendReplaceTx: "srel quiet (signAndSendReplaceTx E br raw args res)"
  unfolding signAndSendReplaceTx_def by (intro quiet_intros quiet_mpcSign quiet_results quiet_sendAndCheckHash)

lemma quiet_verifyReplaceSwap: "srel quiet (verifyReplaceSwap E res b)"
  unfolding verifyReplaceSwap_def by (intro quiet_intros quiet_steps quiet_nonce_check)

lemma quiet_recheck: "srel quiet (checkFailedRouterSwap E swap)"
  unfolding checkFailedRouterSwap_def recheckFailed_def recheckNonce_def
  by (intro quiet_intros quiet_tx_status quiet_updates)
     (auto split: outcome.split intro!: quiet_intros quiet_tx_status quiet_updates)

lemma quiet_uncached: "srel quiet (DeleteCachedSwap c t l)" "srel quiet (DeleteCachedVerifyingSwap key)"
  unfolding DeleteCachedSwap_def DeleteCachedVerifyingSwap_def by (intro moving_supd; simp)+

lemma quiet_updateSwap:
  assumes "documented matches E" and "\<And>d. sw_Status (f d) = sw_Status d"
  shows "srel quiet (updateSwap E k f)"
  unfolding sfrom_def
proof (intro allI impI)
  fix s :: world
  obtain err c where u: "UpdateByID (swapColl E) (tick s) k f (collRouterSwap s) = (err, c)" by fastforce
  have "c = collRouterSwap s \<or> c = (collRouterSwap s)(k := map_option f (collRouterSwap s k))"
    by (rule update_lawD(1) [OF documentedD(2) [OF assms(1)] u])
  then show "quiet s (snd (updateSwap E k f s))"
    unfolding quiet_iff using u by (auto simp: updateSwap_def coll_write_def registered_def fun_eq_iff option.map_comp comp_def assms(2))
qed

lemma quiet_AddUsedRValue: "srel quiet (AddUsedRValue E pubkey r)"
proof -
  have ins: "srel quiet (insertRValue E v)" for v
    unfolding sfrom_def quiet_iff by (simp add: insertRValue_def coll_write_def registered_def [abs_def] split: prod.split)
  show ?thesis
    unfolding AddUsedRValue_def Let_def
    by (intro quiet_intros ins) (auto split: mongo_error.split intro!: quiet_intros ins)
qed

text \<open>A replacement hands the builder a nonce, and the builder then asks the store for none.\<close>

lemma replaceArgs_nonce: "nonce_given (replaceArgs E swap res gasPrice nums info)"
  by (simp add: replaceArgs_def nonce_given_def split: prod.split)

lemma quiet_replace:
  assumes "builder_marks E"
  shows "srel quiet (ReplaceRouterSwap E res gasPrice b)" and "srel quiet (processRouterSwapReplace E cfg res)"
proof -
  have build: "srel quiet (buildRaw E br (replaceArgs E swap r g nums info))" for br swap r g nums info
    using assms [unfolded builder_marks_def, rule_format, of "replaceArgs E swap r g nums info"]
    by (simp add: replaceArgs_nonce sfrom_def moves_def)
  show r: "srel quiet (ReplaceRouterSwap E res gasPrice b)" for gasPrice b
    unfolding ReplaceRouterSwap_def
    by (intro quiet_intros quiet_steps quiet_verifyReplaceSwap quiet_numbers quiet_updates build; simp)
  show "srel quiet (processRouterSwapReplace E cfg res)"
    unfolding processRouterSwapReplace_def checkAndRecycleSwapNonce_def Let_def
    by (intro quiet_intros quiet_steps quiet_verifyReplaceSwap r; simp)
qed

section \<open>The server refines the graph\<close>

text \<open>
  The abstract machine: one swap at a time moves along an edge, or a new swap enters with a
  status that the registration gives (\<open>GetRouterSwapStatusByVerifyError\<close>).
\<close>

definition first_status :: "SwapStatus \<Rightarrow> bool" where
  "first_status st \<longleftrightarrow>
     st \<in> {TxNotStable, TxVerifyFailed, TxWithWrongValue, TxWithWrongPath, MissTokenConfig, NoUnderlyingToken}"

lemma first_status_registers: "first_status (GetRouterSwapStatusByVerifyError err)"
  by (simp add: first_status_def GetRouterSwapStatusByVerifyError_def split: option.split)

definition graph_step :: "(string \<rightharpoonup> SwapStatus) \<Rightarrow> (string \<rightharpoonup> SwapStatus) \<Rightarrow> bool" where
  "graph_step a b \<longleftrightarrow>
     (\<exists>k st st'. a k = Some st \<and> status_step st st' \<and> b = a(k \<mapsto> st')) \<or>
     (\<exists>k st. a k = None \<and> first_status st \<and> b = a(k \<mapsto> st))"

text \<open>The statuses of a swap that has been verified.\<close>

definition passed :: "SwapStatus option \<Rightarrow> bool" where
  "passed st \<longleftrightarrow> st \<in> {Some TxNotSwapped, Some TxProcessed, Some SwapInBlacklist}"

text \<open>
  The operations of the store that the registration (\<open>RegisterRouterSwap\<close>), the administrator and
  the signing client call on their own; a bare write of a status happens only inside handlers.
\<close>

fun own_op :: "store_op \<Rightarrow> bool" where
  "own_op (OpAddRouterSwap ms) = first_status (sw_Status ms)"
| "own_op (OpUpdateRouterSwapInfoAndStatus c t l i st ts memo) = (st = TxNotStable)"
| "own_op (OpUpdateRouterSwapStatus c t l st ts memo) = False"
| "own_op (OpAllocateRouterSwapNonce args n rec) = False"
| "own_op _ = True"

text \<open>
  A step of the server. A verification runs on a swap that is stored as not stable; preparing and
  swapping run on a swap that passed verification, whatever became of it since its job selected
  or queued it; all else runs on whatever it is given.
\<close>

inductive current_step :: "worker_env \<Rightarrow> world \<Rightarrow> world \<Rightarrow> bool" for E where
  verify: "registered s (from_key swap) = Some TxNotStable \<Longrightarrow> current_step E s (snd (processRouterSwapVerify E swap s))"
| prepare: "passed (registered s (from_key swap)) \<Longrightarrow> current_step E s (snd (processRouterSwap E swap s))"
| swap: "passed (registered s (swap_args_key args)) \<Longrightarrow> current_step E s (snd (doSwap E args s))"
| sign: "current_step E s (snd (signAndSendTx E raw args s))"
| resend: "current_step E s (snd (sendTxLoopUntilSuccess E br h tx args s))"
| stable_dispatch: "current_step E s (snd (dispatchSwapResultToStable res s))"
| stable: "current_step E s (snd (processStableTask E chainID s))"
| replace: "current_step E s (snd (processRouterSwapReplace E cfg res s))"
| replace_admin: "current_step E s (snd (ReplaceRouterSwap E res gasPrice isManual s))"
| replace_sign: "current_step E s (snd (signAndSendReplaceTx E br raw args res s))"
| recheck: "current_step E s (snd (checkFailedRouterSwap E res s))"
| release: "current_step E s (snd (processPassBigValRouterSwap E swap s))"
| uncache: "current_step E s (snd (DeleteCachedSwap c t l s))"
| uncache_verifying: "current_step E s (snd (DeleteCachedVerifyingSwap key s))"
| store: "own_op op \<Longrightarrow> current_step E s (exec (mgo E) op s)"

text \<open>No key of a registered swap is found in the key of another swap or result.\<close>

definition unambiguous :: "(string \<Rightarrow> string \<Rightarrow> bool) \<Rightarrow> world \<Rightarrow> bool" where
  "unambiguous matches s \<longleftrightarrow> keys_ok s \<and>
     (\<forall>k. registered s k \<noteq> None \<longrightarrow> exact matches (collRouterSwapResult s) k \<and> exact matches (collRouterSwap s) k)"

definition along :: "(string \<Rightarrow> string \<Rightarrow> bool) \<Rightarrow> world \<Rightarrow> world \<Rightarrow> bool" where
  "along matches s s' \<longleftrightarrow>
     same_identity s s' \<and> (unambiguous matches s' \<longrightarrow> graph_step\<^sup>*\<^sup>* (registered s) (registered s'))"

lemma moves_graph:
  assumes "moves registered k A s s'" and "registered s k = Some st" and "\<And>st'. st' \<in> A \<Longrightarrow> st' = st \<or> status_step st st'"
  shows "graph_step\<^sup>*\<^sup>* (registered s) (registered s')"
proof (cases "registered s' = registered s")
  case False
  with assms(1,2) obtain st' where "st' \<in> A" "registered s' = (registered s)(k \<mapsto> st')" by (auto simp: moves_def)
  with assms(2,3) False have "graph_step (registered s) (registered s')" unfolding graph_step_def by (metis fun_upd_triv)
  then show ?thesis by (rule r_into_rtranclp [of graph_step])
qed simp

lemma registered_kept: "same_identity s s' \<Longrightarrow> registered s k \<noteq> None \<Longrightarrow> registered s' k \<noteq> None"
  unfolding same_identity_def coll_keeps_def registered_def by (cases "collRouterSwap s k") (simp, fastforce)

lemma unambiguous_back: "same_identity s s' \<Longrightarrow> unambiguous matches s' \<Longrightarrow> unambiguous matches s"
proof -
  assume i: "same_identity s s'" and u: "unambiguous matches s'"
  have dom: "dom (collRouterSwap s) \<subseteq> dom (collRouterSwap s')" "dom (collRouterSwapResult s) \<subseteq> dom (collRouterSwapResult s')"
    using i unfolding same_identity_def coll_keeps_def dom_def by blast+
  have "exact matches (collRouterSwapResult s) k \<and> exact matches (collRouterSwap s) k" if "registered s k \<noteq> None" for k
  proof -
    have "exact matches (collRouterSwapResult s') k" "exact matches (collRouterSwap s') k"
      using u registered_kept [OF i that] by (simp_all add: unambiguous_def)
    with dom show ?thesis by (blast intro: exact_antimono)
  qed
  then show "unambiguous matches s" using keys_ok_back [OF i] u by (simp add: unambiguous_def)
qed

context worker_ok
begin

lemma along_trans: "along matches s t \<Longrightarrow> along matches t u \<Longrightarrow> along matches s u"
  unfolding along_def using unambiguous_back identity.R_trans rtranclp_trans [of graph_step] by metis

end

sublocale worker_ok \<subseteq> along: evolution "along matches"
  by unfold_locales (simp add: along_def identity.R_refl, erule (1) along_trans)

context worker_ok
begin

lemma along_quiet: "srel same_identity m \<Longrightarrow> srel quiet m \<Longrightarrow> srel (along matches) m"
  by (simp add: sfrom_def along_def quiet_iff)

text \<open>What follows a search for the registered swap may rely on the status that was found.\<close>

lemma along_found:
  assumes "\<And>d. srel same_identity (g d)" and "\<And>d. \<not> good (sw_Status d) \<Longrightarrow> srel quiet (g d)"
    and "\<And>d. good (sw_Status d) \<Longrightarrow> srel (moves registered (GetRouterSwapKey c t l) {st'}) (g d)"
    and "\<And>st. good st \<Longrightarrow> st' = st \<or> status_step st st'"
  shows "srel (along matches) (sbind (FindRouterSwap (mgo E) c t l) g)"
  unfolding sfrom_def
proof (intro allI impI)
  fix s :: world
  let ?k = "GetRouterSwapKey c t l" and ?f = "FindRouterSwap (mgo E) c t l :: (world, store_error, MgoSwap) stateful"
  obtain r s1 where f: "?f s = (r, s1)" by fastforce
  have q: "registered s1 = registered s" using srel_run [OF moving_finds(1) [of "''''" "{}"] f] by (simp add: quiet_iff)
  have i: "same_identity s s1" by (rule srel_run [OF identity.srel_find(1) f])
  show "along matches s (snd (sbind ?f g s))"
  proof (cases r)
    case (Ret d)
    let ?s' = "snd (g d s1)"
    have id: "same_identity s1 ?s'" using assms(1) by (simp add: sfrom_def)
    have "graph_step\<^sup>*\<^sup>* (registered s) (registered ?s')" if u: "unambiguous matches ?s'"
    proof (cases "good (sw_Status d)")
      case False
      then show ?thesis using assms(2) q by (simp add: sfrom_def quiet_iff)
    next
      case True
      then have m: "moves registered ?k {st'} s1 ?s'" using assms(3) by (simp add: sfrom_def)
      show ?thesis
      proof (cases "registered s ?k")
        case None
        then show ?thesis using m q by (auto simp: moves_def fun_upd_idem)
      next
        case (Some st)
        have "unambiguous matches s" by (rule unambiguous_back [OF identity.R_trans [OF i id] u])
        with Some have e: "exact matches (collRouterSwap s) ?k" by (simp add: unambiguous_def)
        have "FindRegex (swapColl (mgo E)) (tick s) ?k (collRouterSwap s) = Inr d"
          using f Ret by (simp add: FindRouterSwap_Ret)
        then have "collRouterSwap s ?k = Some d" by (rule regex_exact [OF documentedD(4) [OF documented] e])
        with Some True have "good st" by (simp add: registered_def)
        from moves_graph [OF m, of st] assms(4) [OF this] Some q show ?thesis by simp
      qed
    qed
    with f Ret identity.R_trans [OF i id] show ?thesis by (simp add: sbind_def along_def)
  qed (use f i q in \<open>simp_all add: sbind_def along_def\<close>)
qed

lemma db_state: "snd (db m s) = snd (m s)"
  by (auto simp: db_def split: prod.split outcome.split)

lemma along_db: "srel (along matches) m \<Longrightarrow> srel (along matches) (db m)"
  by (simp add: sfrom_def db_state)

lemma tried_state: "snd (sbind (stry m) (\<lambda>r. case r of Inl _ \<Rightarrow> slift (Err e) | Inr d \<Rightarrow> g d) s) = snd (sbind m g s)"
  by (auto simp: sbind_def stry_def slift_def split: prod.split outcome.split)

lemma along_tried:
  "srel (along matches) (sbind m g) \<Longrightarrow> srel (along matches) (sbind (stry m) (\<lambda>r. case r of Inl _ \<Rightarrow> slift (Err e) | Inr d \<Rightarrow> g d))"
  by (simp add: sfrom_def tried_state)

text \<open>A guard on the status that was found decides whether anything is written.\<close>

lemma quiet_guarded: "\<not> P \<Longrightarrow> srel quiet (sbind (sguard P e) g)"
  by (simp add: sfrom_def sbind_def sguard_def moves_same)

lemma along_PassRouterSwapVerify: "srel (along matches) (PassRouterSwapVerify (mgo E) c t l ts)"
  unfolding PassRouterSwapVerify_def
  apply (rule along_tried, rule along_found [where good = "\<lambda>st. st = TxNotStable" and st' = TxNotSwapped])
     apply (intro identity.srel_ops, simp add: swap_id_def)
    apply (erule quiet_guarded)
   apply (intro quiet_intros moving_updateSwap [OF documented, where st = TxNotSwapped]; simp)
  apply (simp add: status_step.verified)
  done

lemma along_reregistration: "srel (along matches) (UpdateRouterSwapInfoAndStatus (mgo E) c t l i TxNotStable ts memo)"
  unfolding UpdateRouterSwapInfoAndStatus_def Let_def
  apply (rule along_tried, rule along_found [where good = "\<lambda>st. \<not> IsRegisteredOk st" and st' = TxNotStable])
     apply (intro identity.srel_ops, simp add: swap_id_def)
    apply (rule quiet_guarded, simp)
   apply (intro quiet_intros moving_updateSwap [OF documented, where st = TxNotStable]; simp)
  apply (simp add: status_step.reregistered)
  done

lemma along_RouterAdminPassBigValue: "srel (along matches) (RouterAdminPassBigValue (mgo E) c t l)"
  unfolding RouterAdminPassBigValue_def
  apply (rule along_found [where good = "\<lambda>st. st = TxWithBigValue" and st' = TxNotSwapped])
     apply (intro identity.srel_ops identity.srel_UpdateRouterSwapStatus)
    apply (erule quiet_guarded)
   apply (intro quiet_intros moving_UpdateRouterSwapStatus [OF documented]; simp)
  apply (simp add: status_step.released)
  done

lemma quiet_old_txs_status: "srel quiet (old_txs_status br txs)"
  by (induction txs) (auto intro!: quiet_intros)

lemma identity_result_status: "srel same_identity (UpdateRouterSwapResultStatus (mgo E) c t l st ts memo)"
  using identity.srel_UpdateRouterSwapResultStatus by (cases "st = StReswapping") auto

lemma along_RouterAdminReswap: "srel (along matches) (RouterAdminReswap (mgo E) r c t l)"
proof -
  have old: "srel (moves registered k A) (old_txs_status br txs)" for k A br txs
    by (rule moving_quiet) (use quiet_old_txs_status in \<open>simp add: sfrom_def quiet_iff\<close>)
  show ?thesis
    unfolding RouterAdminReswap_def getSwapResultsTxStatus_def checkReswapNonce_def resetSwap_def
    apply (rule along_found [where good = "\<lambda>st. st = TxProcessed" and st' = TxNotSwapped])
       apply (intro identity.srel_ops identity.srel_old_txs_status identity.srel_UpdateRouterSwapStatus identity_result_status)
      apply (erule quiet_guarded)
     apply (intro quiet_intros old moving_UpdateRouterSwapStatus [OF documented]; simp)
    apply (simp add: status_step.reswapped)
    done
qed

lemma along_AddRouterSwap:
  assumes "first_status (sw_Status ms)"
  shows "srel (along matches) (AddRouterSwap (mgo E) ms)"
proof -
  have ins: "srel (along matches) (insertSwap (mgo E) d :: (world, store_error, mongo_error option) stateful)"
    if "sw_Status d = sw_Status ms" and k: "sw_Key d = GetRouterSwapKey (sw_FromChainID d) (sw_TxID d) (sw_LogIndex d)" for d
    unfolding sfrom_def
  proof (intro allI impI)
    fix s :: world
    let ?m = "insertSwap (mgo E) d :: (world, store_error, mongo_error option) stateful"
    obtain err c where i: "InsertOne (swapColl (mgo E)) (tick s) d (collRouterSwap s) = (err, c)" by fastforce
    have "c = collRouterSwap s \<or> collRouterSwap s (sw_Key d) = None \<and> c = (collRouterSwap s)(sw_Key d \<mapsto> d)"
      by (rule insert_lawD(1) [OF documentedD(1) [OF documented] i])
    then have "registered (snd (?m s)) = registered s \<or>
        registered s (sw_Key d) = None \<and> registered (snd (?m s)) = (registered s)(sw_Key d \<mapsto> sw_Status ms)"
      using i that(1) by (auto simp: insertSwap_def coll_write_def registered_def [abs_def])
    then have "registered (snd (?m s)) = registered s \<or> graph_step (registered s) (registered (snd (?m s)))"
      using assms unfolding graph_step_def by blast
    then have "graph_step\<^sup>*\<^sup>* (registered s) (registered (snd (?m s)))" by (auto intro: r_into_rtranclp [of graph_step])
    moreover have "srel same_identity ?m" by (rule identity.srel_insertSwap [OF k])
    then have "same_identity s (snd (?m s))" by (simp add: sfrom_def)
    ultimately show "along matches s (snd (?m s))" by (simp add: along_def)
  qed
  have touch: "srel quiet (updateSwap (mgo E) k (\<lambda>d. d\<lparr>sw_Timestamp := nw\<rparr>))" for k nw
    by (rule quiet_updateSwap [OF documented]) simp
  show ?thesis
    unfolding AddRouterSwap_def Let_def
    apply (rule along.srel_sbind, rule along_quiet, intro identity.srel_ops, intro quiet_intros)
    apply (rule along.srel_sbind, rule ins, simp, simp)
    apply (rule along_quiet)
     apply (intro identity.srel_ops, simp add: swap_id_def)
    apply (intro quiet_intros touch)
    done
qed

lemma along_dropped: "srel (along matches) m \<Longrightarrow> srel (along matches) (dropped m)"
  unfolding dropped_def by (intro along.srel_intros)

lemma quiet_added: "srel quiet (AddInitialSwapResult E info st)"
  unfolding AddInitialSwapResult_def by (intro quiet_intros)

lemma alongD: "srel (along matches) m \<Longrightarrow> along matches s (snd (m s))"
  by (simp add: sfrom_def)

lemma along_own_op: "own_op op \<Longrightarrow> along matches s (exec (mgo E) op s)"
proof (cases op)
  case (OpAddUsedRValue pubkey r)
  show ?thesis
    unfolding OpAddUsedRValue exec.simps by (intro alongD along_quiet identity.srel_AddUsedRValue quiet_AddUsedRValue)
next
  case (OpUpdateRouterSwapResultStatus c t l st ts memo)
  show ?thesis
    unfolding OpUpdateRouterSwapResultStatus exec.simps
    by (intro alongD along_quiet moving_registered_ops identity_result_status)
next
  case (OpAddRouterSwapResult mr)
  show ?thesis
    unfolding OpAddRouterSwapResult exec.simps by (intro alongD along_quiet identity.srel_AddRouterSwapResult moving_registered_ops)
next
  case (OpUpdateRouterOldSwapTxs c t l tx)
  show ?thesis
    unfolding OpUpdateRouterOldSwapTxs exec.simps by (intro alongD along_quiet identity.srel_UpdateRouterOldSwapTxs quiet_results)
next
  case (OpUpdateRouterSwapResult c t l items)
  show ?thesis
    unfolding OpUpdateRouterSwapResult exec.simps by (intro alongD along_quiet identity.srel_UpdateRouterSwapResult quiet_results)
qed (auto intro: alongD along_PassRouterSwapVerify along_reregistration along_RouterAdminPassBigValue along_RouterAdminReswap
     along_AddRouterSwap)

lemma along_passBigValue: "srel (along matches) (passBigValue E swap)"
proof -
  have found: "srel (along matches) (db (FindRouterSwapResult (mgo E) c t l))" for c t l
    by (rule along_quiet) (intro identities.srel_worker, intro quiet_intros)
  have ask: "srel (along matches) (bridge_of E c)" "srel (along matches) (extern q)" for c q
    by (rule along_quiet, intro identities.srel_worker, intro quiet_intros quiet_steps)+
  have added: "srel (along matches) (dropped (AddInitialSwapResult E info st))" for info st
    by (intro along_dropped along_quiet identities.srel_AddInitialSwapResult quiet_added)
  show ?thesis
    unfolding passBigValue_def by (intro along.srel_intros found ask added along_db [OF along_RouterAdminPassBigValue])
qed

lemma along_release: "srel (along matches) (processPassBigValRouterSwap E swap)"
proof -
  have time: "srel (along matches) (getSepTimeInFind E d)" for d
    by (rule along_quiet, rule identities.srel_now, rule moving_now)
  show ?thesis
    unfolding processPassBigValRouterSwap_def by (intro along.srel_intros time along_passBigValue)
qed

text \<open>Every step follows the graph.\<close>

lemma current_step_identity: "current_step E s s' \<Longrightarrow> same_identity s s'"
  by (induction rule: current_step.induct)
    (rule identities.srelD, rule identities.handlers_related identities.srel_doSwap identities.srel_processRouterSwapVerify
       identities.srel_processRouterSwap | rule identity.exec_related, simp)+

lemma current_step_along:
  assumes "builder_marks E" and "current_step E s s'"
  shows "along matches s s'"
proof -
  have i: "same_identity s s'" by (rule current_step_identity [OF assms(2)])
  have clear: "clear matches k s'" if "unambiguous matches s'" and "registered s k \<noteq> None" for k
    using that registered_kept [OF i] by (auto simp: unambiguous_def clear_def)
  show ?thesis
    using assms(2)
  proof cases
    case (verify swap)
    have "moves registered (from_key swap) (verify_edges E swap) s s'"
      using moving_processRouterSwapVerify [OF documented] verify(1) by (simp add: sfrom_def)
    then have "graph_step\<^sup>*\<^sup>* (registered s) (registered s')" using verify(2) verify_edges_graph by (blast intro: moves_graph)
    with i show ?thesis by (simp add: along_def)
  next
    case (prepare swap)
    then obtain st where st: "registered s (from_key swap) = Some st" "st \<in> {TxNotSwapped, TxProcessed, SwapInBlacklist}"
      by (auto simp: passed_def)
    have "graph_step\<^sup>*\<^sup>* (registered s) (registered s')" if "unambiguous matches s'"
    proof -
      have "moves registered (from_key swap) {TxProcessed, SwapInBlacklist} s s'"
        using following_processRouterSwap [of "{TxProcessed, SwapInBlacklist}" swap] prepare(1) clear [OF that] st(1)
        by (simp add: sfrom_def follows_def)
      from moves_graph [OF this st(1)] st(2) show ?thesis by (auto intro: status_step.intros)
    qed
    with i show ?thesis by (simp add: along_def)
  next
    case (swap args)
    then obtain st where st: "registered s (swap_args_key args) = Some st" "st \<in> {TxNotSwapped, TxProcessed, SwapInBlacklist}"
      by (auto simp: passed_def)
    have "graph_step\<^sup>*\<^sup>* (registered s) (registered s')" if "unambiguous matches s'"
    proof -
      have "moves registered (swap_args_key args) {TxProcessed} s s'"
        using following_doSwap [OF assms(1)] swap(1) clear [OF that] st(1) by (simp add: sfrom_def follows_def)
      from moves_graph [OF this st(1)] st(2) show ?thesis by (auto intro: status_step.intros)
    qed
    with i show ?thesis by (simp add: along_def)
  qed (auto intro!: along_own_op alongD along_release along_quiet identities.handlers_related quiet_signAndSendTx quiet_resend quiet_stable_task
       quiet_replace [OF assms(1)] quiet_signAndSendReplaceTx quiet_recheck quiet_uncached)
qed

lemma run_graph:
  assumes "builder_marks E" and "(current_step E)\<^sup>*\<^sup>* s s'"
  shows "along matches s s'"
  using assms(2) by (induction rule: rtranclp_induct) (auto intro: along.R_refl along.R_trans current_step_along [OF assms(1)])

end

section \<open>Properties\<close>

text \<open>
  C18: the server refines the graph of status.go. In every run of handlers and of the operations
  that the registration, the administrator and the signing client call, the statuses of the
  registered swaps change along the edges of \<open>status_step\<close> and in no other way, whatever the
  database, the nodes and the signing network answer; new swaps enter with a status of the
  registration. The edges are those of the graph drawn in status.go and those the code adds: the
  errors of a verification that are not drawn, a swap black-listed after its verification, a queued
  swap that is processed though black-listed meanwhile or black-listed by a stale preparation
  though processed, the administrator's reset of a processed swap, and registering a failed swap
  again. Verification runs on swaps stored as not stable, preparing and swapping on swaps that
  passed verification (not swapped, processed or black-listed); the other steps run on anything.
  Hypotheses: the driver is as documented, building a transaction writes to the store through its
  operations only, marks at most its own swap, as processed, and marks none when it is given a
  nonce, and no registered swap's key is found in the key of another swap or result.
\<close>

theorem server_refines_graph:
  assumes "documented matches (mgo E)" and "builder_ok E" and "builder_marks E"
    and "(current_step E)\<^sup>*\<^sup>* s s'" and "unambiguous matches s'"
  shows "graph_step\<^sup>*\<^sup>* (registered s) (registered s')"
  using worker_ok.run_graph [OF worker_okI [OF assms(1,2)] assms(3,4)] assms(5) by (simp add: along_def)

lemma waiting_world_ok: "keys_ok waiting_world" "registered waiting_world = [''1:0xab:10'' \<mapsto> TxNotSwapped]"
  by (auto simp: waiting_world_def waiting_swap_def keys_ok_def registered_def swap_doc_def result_doc_def ToSwapResult_def sample_keys
      store.extend_def fun_eq_iff)

lemma sample_builder_marks: "builder_marks sample_worker"
  by (simp add: builder_marks_def sample_worker_def sret_def moving.R_refl)

theorem server_refines_graph_witness:
  "graph_step\<^sup>*\<^sup>* (registered waiting_world) (registered (snd (doSwap sample_worker sample_build waiting_world))) \<and>
   registered (snd (doSwap sample_worker sample_build waiting_world)) ''1:0xab:10'' = Some TxProcessed"
proof -
  define s' where "s' = snd (doSwap sample_worker sample_build waiting_world)"
  have "keys_ok s'"
    using one_bridge.keyed.srel_doSwap waiting_world_ok(1) unfolding s'_def sfrom_def by blast
  then have "clear (known two_keys) ''1:0xab:10'' s'" by (simp add: clear_def exact_known)
  then have "moves registered ''1:0xab:10'' {TxProcessed} waiting_world s'"
    using one_bridge.following_doSwap [OF sample_builder_marks, of sample_build]
    unfolding sample_build_key s'_def by (simp add: sfrom_def follows_def)
  then have "registered s' k \<noteq> None \<Longrightarrow> k = ''1:0xab:10''" for k
    by (auto simp: moves_def waiting_world_ok(2) split: if_splits)
  then have u: "unambiguous (known two_keys) s'" using \<open>keys_ok s'\<close> exact_known unfolding unambiguous_def by metis
  have "current_step sample_worker waiting_world s'"
    unfolding s'_def by (rule current_step.swap) (simp add: sample_build_key waiting_world_ok(2) passed_def)
  then have "(current_step sample_worker)\<^sup>*\<^sup>* waiting_world s'" by (rule r_into_rtranclp)
  from server_refines_graph [OF sample_worker_ok(1,2) sample_builder_marks this u]
  have "graph_step\<^sup>*\<^sup>* (registered waiting_world) (registered s')" .
  moreover have "registered s' ''1:0xab:10'' = Some TxProcessed" unfolding s'_def by code_simp
  ultimately show ?thesis unfolding s'_def by blast
qed

text \<open>
  C19: a swap passes verification only for a reason. When the handler changes the status of any
  registered swap, it is the swap it was given, neither of whose chains is paused; a black-listed
  swap can only be marked as such, and otherwise the bridge of the source chain answered the
  verification, with AllowUnstable off, by a result that calls for the new status: verified and
  not of a big value for \<open>TxNotSwapped\<close>, verified and of a big value for \<open>TxWithBigValue\<close>, the
  error's status otherwise; an unstable transaction and a failed query change nothing.
\<close>

theorem processRouterSwapVerify_justified:
  assumes "documented matches (mgo E)" and "processRouterSwapVerify E swap s = (r, s')" and "registered s' \<noteq> registered s"
  shows "\<exists>st \<in> verify_edges E swap. registered s' = (registered s)(from_key swap := map_option (\<lambda>_. st) (registered s (from_key swap)))"
  using srel_run [OF moving_processRouterSwapVerify [OF assms(1)] assms(2)] assms(3) by (simp add: moves_def)

definition verifying_worker :: worker_env where
  "verifying_worker = sample_worker\<lparr>rtr := (rtr sample_worker)\<lparr>RouterBridges :=
     (\<lambda>_. Some (signing_bridge\<lparr>verifyTransaction := (\<lambda>_ _ _. Inr (sample_transfer\<lparr>tx_SwapType := NFTSwapType, tx_Value := Some 5\<rparr>))\<rparr>))\<rparr>\<rparr>"

definition new_world :: world where
  "new_world = waiting_world\<lparr>collRouterSwap := [''1:0xab:10'' \<mapsto> swap_doc 10 TxNotStable], collRouterSwapResult := Map.empty\<rparr>"

theorem processRouterSwapVerify_justified_witness:
  "TxNotSwapped \<in> verify_edges verifying_worker (swap_doc 10 TxNotStable)"
proof -
  let ?run = "processRouterSwapVerify verifying_worker (swap_doc 10 TxNotStable) new_world"
  have d: "documented (known two_keys) (mgo verifying_worker)"
    using sample_worker_ok(1) by (simp add: verifying_worker_def)
  have k: "from_key (swap_doc 10 TxNotStable) = ''1:0xab:10''" by code_simp
  have old: "registered new_world ''1:0xab:10'' = Some TxNotStable" and new: "registered (snd ?run) ''1:0xab:10'' = Some TxNotSwapped"
    by code_simp+
  then have ne: "registered (snd ?run) \<noteq> registered new_world" by (auto simp: swap_statuses)
  have run: "?run = (fst ?run, snd ?run)" by simp
  from processRouterSwapVerify_justified [OF d run ne] obtain st where
    "st \<in> verify_edges verifying_worker (swap_doc 10 TxNotStable)"
    "registered (snd ?run) = (registered new_world)(''1:0xab:10'' := map_option (\<lambda>_. st) (registered new_world ''1:0xab:10''))"
    unfolding k by blast
  with old new show ?thesis by auto
qed

end
