(* ===== verification/ResultMachine.thy ===== *)
theory ResultMachine
  imports StatusMachine
begin

text \<open>
  The states of a swap result, and what the handlers that watch a sent transaction may conclude:
  a result becomes stable or failed only for what a node said of one of its transactions or of
  the account's nonce (stable.go, checkfailedswap.go), and a replacement (replace.go) is built for
  the same nonce and sender, only while no transaction of the result is on chain.
\<close>

section \<open>Calls whose answer matters\<close>

lemma moving_bind_if:
  assumes "srel (moves f k A) m" and "\<And>s a s'. m s = (Ret a, s') \<Longrightarrow> P a" and "\<And>a. P a \<Longrightarrow> srel (moves f k A) (g a)"
  shows "srel (moves f k A) (sbind m g)"
  by (rule moving.sfrom_sbind [where Q = "\<lambda>a _. P a"]) (use assms in \<open>auto simp: sfrom_def\<close>)

lemma quiet_updateResult:
  assumes "documented matches E" and "\<And>d. rs_Status (f d) = rs_Status d"
  shows "srel (moves results k A) (updateResult E k' f)"
proof (rule moving_quiet)
  fix s :: world
  obtain err c where u: "UpdateByID (resultColl E) (tick s) k' f (collRouterSwapResult s) = (err, c)" by fastforce
  have "c = collRouterSwapResult s \<or> c = (collRouterSwapResult s)(k' := map_option f (collRouterSwapResult s k'))"
    by (rule update_lawD(1) [OF documentedD(6) [OF assms(1)] u])
  then show "results (snd (updateResult E k' f s)) = results s"
    using u by (auto simp: updateResult_def coll_write_def results_def fun_eq_iff option.map_comp comp_def assms(2))
qed

definition result_key :: "MgoSwapResult \<Rightarrow> string" where
  "result_key d = GetRouterSwapKey (rs_FromChainID d) (rs_TxID d) (rs_LogIndex d)"

lemma moving_marks:
  assumes "documented matches (mgo E)"
  shows "MatchTxNotStable \<in> A \<Longrightarrow> srel (moves results (GetRouterSwapKey c t l) A) (markSwapResultUnstable E c t l)"
    and "MatchTxStable \<in> A \<Longrightarrow> srel (moves results (GetRouterSwapKey c t l) A) (markSwapResultStable E c t l)"
    and "MatchTxFailed \<in> A \<Longrightarrow> srel (moves results (GetRouterSwapKey c t l) A) (markSwapResultFailed E c t l)"
  unfolding markSwapResultUnstable_def markSwapResultStable_def markSwapResultFailed_def
  by (intro moving_intros moving_now moving_UpdateRouterSwapResultStatus [OF assms]; simp)+

lemma quiet_keep_status:
  assumes "documented matches E" and "it_Status items = KeepStatus" and "it_SwapNonce items = 0"
  shows "srel (moves results k A) (UpdateRouterSwapResult E c t l items)"
proof -
  have "KeepStatus \<noteq> MatchTxNotStable" by (simp add: swap_statuses)
  moreover have "rs_Status (result_updates items d) = rs_Status d" for d
    using assms(2) \<open>KeepStatus \<noteq> MatchTxNotStable\<close> by (simp add: result_updates_def Let_def)
  ultimately show ?thesis
    unfolding UpdateRouterSwapResult_def
    using assms(2,3) by (intro moving_intros quiet_updateResult [OF assms(1)]) auto
qed

lemma quiet_worker_updates:
  assumes "documented matches (mgo E)"
  shows "srel (moves results k A) (updateSwapTx E c t l tx)" and "srel (moves results k A) (updateSwapTimestamp E c t l)"
    and "mt_SwapHeight m \<noteq> 0 \<Longrightarrow> mt_SwapNonce m = 0 \<Longrightarrow> srel (moves results k A) (updateRouterSwapResult E c t l m)"
  unfolding updateSwapTx_def updateSwapTimestamp_def updateRouterSwapResult_def
  by (intro moving_intros moving_now quiet_keep_status [OF assms]; simp add: keep_items_def match_items_def Let_def)+

section \<open>What a node said of a result's transactions\<close>

definition seen :: "IBridge \<Rightarrow> MgoSwapResult \<Rightarrow> TxStatus option \<Rightarrow> bool" where
  "seen br swap st \<longleftrightarrow> (\<exists>t. \<exists>tx \<in> set (rs_SwapTx swap # rs_OldSwapTxs swap). fst (getTransactionStatus br t tx) = st)"

lemma old_swap_txs_seen:
  "old_swap_txs br tx txs s = (Ret (Some (st, old)), s') \<Longrightarrow> old \<in> set txs \<and> (\<exists>t. fst (getTransactionStatus br t old) = st)"
proof (induction txs arbitrary: s)
  case (Cons x txs)
  show ?case
  proof (cases "tx = x")
    case False
    obtain st2 err where q: "getTransactionStatus br (tick s) x = (st2, err)" by fastforce
    with Cons.prems False have step:
      "(if err = None \<and> isTxOnChain st2 then sret (Some (st2, x)) else old_swap_txs br tx txs) (s\<lparr>tick := Suc (tick s)\<rparr>) =
        (Ret (Some (st, old)), s')"
      by (simp add: sbind_def extern_def)
    show ?thesis
    proof (cases "err = None \<and> isTxOnChain st2")
      case True
      with step have "st = st2" "old = x" by (simp_all add: sret_def)
      with q show ?thesis by (metis fst_conv list.set_intros(1))
    next
      case False
      with step have "old_swap_txs br tx txs (s\<lparr>tick := Suc (tick s)\<rparr>) = (Ret (Some (st, old)), s')" by (simp split: if_splits)
      from Cons.IH [OF this] show ?thesis by simp
    qed
  qed (use Cons in auto)
qed (simp add: sret_def)

text \<open>The status that is returned was seen; of the result only the transaction may change, to one of its older ones.\<close>

lemma getSwapTxStatus_seen:
  assumes "getSwapTxStatus br swap s = (Ret (st, swap'), s')"
  shows "seen br swap st \<and> (\<exists>tx \<in> set (rs_SwapTx swap # rs_OldSwapTxs swap). swap' = swap\<lparr>rs_SwapTx := tx\<rparr>)"
proof -
  obtain st1 err where q: "getTransactionStatus br (tick s) (rs_SwapTx swap) = (st1, err)" by fastforce
  then have first: "seen br swap st1" unfolding seen_def by (metis fst_conv list.set_intros(1))
  show ?thesis
  proof (cases "err = None \<and> isTxOnChain st1")
    case True
    with assms q first show ?thesis by (auto simp: getSwapTxStatus_def sbind_def extern_def sret_def)
  next
    case False
    with assms q obtain found s2 where f: "old_swap_txs br (rs_SwapTx swap) (rs_OldSwapTxs swap) (s\<lparr>tick := Suc (tick s)\<rparr>) = (Ret found, s2)"
      and r: "(st, swap') = (case found of Some (st2, tx) \<Rightarrow> (st2, swap\<lparr>rs_SwapTx := tx\<rparr>) | None \<Rightarrow> (st1, swap))"
      by (auto simp: getSwapTxStatus_def sbind_Ret_iff sstep_iff sbind_def [of "extern f" for f] extern_def split: option.splits prod.splits)
    show ?thesis
    proof (cases found)
      case (Some p)
      obtain st2 old where "p = (st2, old)" by fastforce
      with old_swap_txs_seen f Some r show ?thesis unfolding seen_def by fastforce
    qed (use r first in auto)
  qed
qed

lemma quiet_old_swap_txs: "srel (moves results k A) (old_swap_txs br tx txs)"
  by (induction txs) (auto intro!: moving_intros)

lemma quiet_getSwapTxStatus: "srel (moves results k A) (getSwapTxStatus br swap)"
  unfolding getSwapTxStatus_def by (intro moving_intros quiet_old_swap_txs)

lemma seen_other_tx: "seen br (swap\<lparr>rs_SwapTx := tx\<rparr>) st \<Longrightarrow> tx \<in> set (rs_SwapTx swap # rs_OldSwapTxs swap) \<Longrightarrow> seen br swap st"
  unfolding seen_def by auto

lemma moving_getSwapTxStatus_bind:
  assumes "\<And>st tx. seen br swap st \<Longrightarrow> tx \<in> set (rs_SwapTx swap # rs_OldSwapTxs swap) \<Longrightarrow>
      srel (moves results k A) (g (st, swap\<lparr>rs_SwapTx := tx\<rparr>))"
  shows "srel (moves results k A) (sbind (getSwapTxStatus br swap) g)"
proof (rule moving_bind_if [OF quiet_getSwapTxStatus])
  fix s a s' assume "getSwapTxStatus br swap s = (Ret a, s')"
  then show "seen br swap (fst a) \<and> (\<exists>tx \<in> set (rs_SwapTx swap # rs_OldSwapTxs swap). snd a = swap\<lparr>rs_SwapTx := tx\<rparr>)"
    using getSwapTxStatus_seen [of br swap s "fst a" "snd a" s'] by simp
next
  fix a assume "seen br swap (fst a) \<and> (\<exists>tx \<in> set (rs_SwapTx swap # rs_OldSwapTxs swap). snd a = swap\<lparr>rs_SwapTx := tx\<rparr>)"
  then show "srel (moves results k A) (g a)" using assms by (metis prod.collapse)
qed

section \<open>The nonce of the account\<close>

definition nonce_used :: "IBridge \<Rightarrow> MgoSwapResult \<Rightarrow> bool" where
  "nonce_used br swap \<longleftrightarrow>
     (\<exists>poolNonce t n. getPoolNonce br = Some poolNonce \<and> poolNonce t (rs_MPC swap) ''latest'' = Inr n \<and>
        rs_SwapNonce swap < n \<and> 0 < rs_SwapNonce swap)"

lemma result_key_tx [simp]: "result_key (swap\<lparr>rs_SwapTx := tx\<rparr>) = result_key swap"
  "nonce_used br (swap\<lparr>rs_SwapTx := tx\<rparr>) = nonce_used br swap"
  by (simp_all add: result_key_def nonce_used_def)

lemma sbind_sret: "sbind (sret a) f = f a"
  by (rule ext) (simp add: sbind_def sret_def)

lemma quiet_answers: "srel (moves results k A) (existsInChain b)" "srel (moves results k A) (lowerNonce b)"
  by (simp_all add: existsInChain_def lowerNonce_def moving.sfrom_steps)

lemma moving_markNoncePassed:
  assumes "documented matches (mgo E)" and "MatchTxFailed \<in> A"
  shows "srel (moves results (result_key res) A) (markNoncePassed E res)"
  unfolding markNoncePassed_def result_key_def by (intro moving_intros moving_finds moving_marks(3) [OF assms])

lemma moving_noncePassed:
  assumes "documented matches (mgo E)" and "\<not> onChain st \<Longrightarrow> MatchTxFailed \<in> A" and "\<not> onChain st"
  shows "srel (moves results (result_key res) A) (noncePassed E br st res b)"
proof -
  have mark: "srel (moves results (result_key res) A) (markNoncePassed E (res\<lparr>rs_SwapTx := tx\<rparr>))" for tx
    using moving_markNoncePassed [OF assms(1) assms(2) [OF assms(3)], of "res\<lparr>rs_SwapTx := tx\<rparr>"] by simp
  have rest: "srel (moves results (result_key res) A) ((\<lambda>(txStat, res).
       if onChain txStat then sbind (existsInChain b) (\<lambda>_. sret res)
       else sbind (markNoncePassed E res) (\<lambda>_. sbind (lowerNonce b) (\<lambda>_. sret res))) (st', res\<lparr>rs_SwapTx := tx\<rparr>))" for st' tx
    unfolding prod.case by (intro moving_intros quiet_answers mark)
  have inner: "srel (moves results (result_key res) A) (sbind (if st = None then getSwapTxStatus br res else sret (st, res)) (\<lambda>(txStat, res).
       if onChain txStat then sbind (existsInChain b) (\<lambda>_. sret res)
       else sbind (markNoncePassed E res) (\<lambda>_. sbind (lowerNonce b) (\<lambda>_. sret res))))"
  proof (cases "st = None")
    case True
    then show ?thesis using rest by (simp only: simp_thms if_True) (rule moving_getSwapTxStatus_bind)
  next
    case False
    have "res\<lparr>rs_SwapTx := rs_SwapTx res\<rparr> = res" by simp
    with rest [of st "rs_SwapTx res"] show ?thesis unfolding if_not_P [OF False] sbind_sret by simp
  qed
  show ?thesis
    unfolding noncePassed_def Let_def
    by (rule moving.srel_sbind, rule moving_now, rule moving.srel_if, rule inner) (intro moving_intros quiet_answers)
qed

lemma moving_checkIfSwapNonceHasPassed:
  assumes "documented matches (mgo E)" and "\<And>st. seen br res st \<Longrightarrow> \<not> onChain st \<Longrightarrow> nonce_used br res \<Longrightarrow> MatchTxFailed \<in> A"
  shows "srel (moves results (result_key res) A) (checkIfSwapNonceHasPassed E br res b)"
proof (cases "getPoolNonce br")
  case None
  then show ?thesis by (simp add: checkIfSwapNonceHasPassed_def moving.sfrom_steps)
next
  case (Some poolNonce)
  note pn = Some
  have "srel (moves results (result_key res) A)
      (case poolNonce t (rs_MPC res) ''latest'' of
         Inl err \<Rightarrow> slift (Err (WToken err))
       | Inr nonce \<Rightarrow> sbind (getSwapTxStatus br res) (\<lambda>(txStat, res).
           if onChain txStat then sbind (existsInChain b) (\<lambda>_. sret res)
           else if rs_SwapNonce res < nonce \<and> 0 < rs_SwapNonce res then noncePassed E br txStat res b else sret res))" for t
  proof (cases "poolNonce t (rs_MPC res) ''latest''")
    case (Inr n)
    have passed: "srel (moves results (result_key res) A) (noncePassed E br st (res\<lparr>rs_SwapTx := tx\<rparr>) b)"
      if "seen br res st" "\<not> onChain st" "rs_SwapNonce res < n" "0 < rs_SwapNonce res" for st tx
    proof -
      have "nonce_used br res" unfolding nonce_used_def using pn Inr that(3,4) by blast
      then have "MatchTxFailed \<in> A" using assms(2) that(1,2) by blast
      from moving_noncePassed [OF assms(1) this that(2), of "res\<lparr>rs_SwapTx := tx\<rparr>"] show ?thesis by simp
    qed
    show ?thesis
      unfolding Inr sum.case
      by (rule moving_getSwapTxStatus_bind, unfold prod.case) (intro moving_intros quiet_answers, simp add: passed)
  qed (simp add: moving.sfrom_steps)
  then show ?thesis
    unfolding checkIfSwapNonceHasPassed_def pn option.case by (intro moving_extern_bind) simp_all
qed

section \<open>Waiting for the transaction and checking it again\<close>

text \<open>What a bridge may have said for the handler of stable.go to call a result stable or failed.\<close>

definition settled_edges :: "worker_env \<Rightarrow> MgoSwapResult \<Rightarrow> SwapStatus set" where
  "settled_edges E swap =
     {st. \<exists>br. RouterBridges (rtr E) (rs_ToChainID swap) = Some br \<and>
        ((\<exists>tx cfg. rs_SwapHeight swap \<noteq> 0 \<and> seen br swap (Some tx) \<and> BlockHeight tx \<noteq> 0 \<and>
            bridgeChainConfig (base br) = Some cfg \<and> cc_Confirmations cfg \<le> Confirmations tx \<and>
            st = (if IsSwapTxOnChainAndFailed (Some tx) then MatchTxFailed else MatchTxStable)) \<or>
         (\<exists>tx. rs_SwapHeight swap = 0 \<and> seen br swap tx \<and> \<not> onChain tx \<and> nonce_used br swap \<and> st = MatchTxFailed))}"

text \<open>The same for the handler of checkfailedswap.go, which puts a failed result back.\<close>

definition recheck_edges :: "worker_env \<Rightarrow> MgoSwapResult \<Rightarrow> SwapStatus set" where
  "recheck_edges E swap =
     {st. rs_SwapTx swap \<noteq> '''' \<and> (\<exists>br. RouterBridges (rtr E) (rs_ToChainID swap) = Some br \<and>
        ((\<exists>tx cfg. seen br swap (Some tx) \<and> BlockHeight tx \<noteq> 0 \<and> \<not> IsSwapTxOnChainAndFailed (Some tx) \<and>
            bridgeChainConfig (base br) = Some cfg \<and>
            st = (if Confirmations tx < cc_Confirmations cfg then MatchTxNotStable else MatchTxStable)) \<or>
         (\<exists>tx poolNonce t n. seen br swap tx \<and> \<not> onChain tx \<and> getPoolNonce br = Some poolNonce \<and>
            poolNonce t (rs_MPC swap) ''latest'' = Inr n \<and> n \<le> rs_SwapNonce swap \<and> st = MatchTxNotStable)))}"

lemma moving_settleSwapResult:
  assumes "documented matches (mgo E)"
    and "\<And>cfg. bridgeChainConfig (base br) = Some cfg \<Longrightarrow> cc_Confirmations cfg \<le> Confirmations st \<Longrightarrow>
      (if IsSwapTxOnChainAndFailed (Some st) then MatchTxFailed else MatchTxStable) \<in> A"
  shows "srel (moves results (result_key swap) A) (settleSwapResult E br st old swap)"
  unfolding settleSwapResult_def
proof (rule moving_slift_bind)
  fix cfg assume "non_nil (bridgeChainConfig (base br)) = Ret cfg"
  then have cfg: "bridgeChainConfig (base br) = Some cfg" by (simp add: non_nil_def split: option.splits)
  show "srel (moves results (result_key swap) A) (if Confirmations st < cc_Confirmations cfg then sret ()
     else
       sbind (if rs_SwapTx swap \<noteq> old
              then dropped (updateSwapTx E (rs_FromChainID swap) (rs_TxID swap) (rs_LogIndex swap) (rs_SwapTx swap)) else sret ()) (\<lambda>_.
       if IsSwapTxOnChainAndFailed (Some st)
       then markSwapResultFailed E (rs_FromChainID swap) (rs_TxID swap) (rs_LogIndex swap)
       else markSwapResultStable E (rs_FromChainID swap) (rs_TxID swap) (rs_LogIndex swap)))"
    unfolding result_key_def using assms(2) [OF cfg]
    by (intro moving_intros quiet_worker_updates [OF assms(1)] moving_marks [OF assms(1)]) simp_all
qed

lemma moving_processRouterSwapStable:
  assumes "documented matches (mgo E)"
  shows "srel (moves results (result_key swap) (settled_edges E swap)) (processRouterSwapStable E swap)"
  unfolding processRouterSwapStable_def
proof (rule moving_bridge_bind, rule moving_getSwapTxStatus_bind, unfold prod.case)
  fix br st tx
  assume br: "RouterBridges (rtr E) (rs_ToChainID swap) = Some br" and st: "seen br swap st"
    and tx: "tx \<in> set (rs_SwapTx swap # rs_OldSwapTxs swap)"
  let ?swap = "swap\<lparr>rs_SwapTx := tx\<rparr>" and ?R = "moves results (result_key swap) (settled_edges E swap)"
  have wait: "srel ?R (if rs_SwapHeight ?swap \<noteq> 0 then sret () else sbind (checkIfSwapNonceHasPassed E br ?swap False) (\<lambda>_. sret ()))"
  proof (cases "rs_SwapHeight swap = 0")
    case True
    have "srel (moves results (result_key ?swap) (settled_edges E swap)) (checkIfSwapNonceHasPassed E br ?swap False)"
    proof (rule moving_checkIfSwapNonceHasPassed [OF assms])
      fix st' assume "seen br ?swap st'" "\<not> onChain st'" "nonce_used br ?swap"
      with br True seen_other_tx [OF _ tx] show "MatchTxFailed \<in> settled_edges E swap"
        by (auto simp: settled_edges_def)
    qed
    then show ?thesis using True by (intro moving_intros) simp
  qed (simp add: moving.sfrom_steps)
  show "srel ?R (case st of
       None \<Rightarrow> if rs_SwapHeight ?swap \<noteq> 0 then sret () else sbind (checkIfSwapNonceHasPassed E br ?swap False) (\<lambda>_. sret ())
     | Some st \<Rightarrow>
         if BlockHeight st = 0 then
           (if rs_SwapHeight ?swap \<noteq> 0 then sret () else sbind (checkIfSwapNonceHasPassed E br ?swap False) (\<lambda>_. sret ()))
         else if rs_SwapHeight ?swap \<noteq> 0 then settleSwapResult E br st (rs_SwapTx swap) ?swap
         else
           updateRouterSwapResult E (rs_FromChainID ?swap) (rs_TxID ?swap) (rs_LogIndex ?swap)
             (no_match\<lparr>mt_SwapHeight := BlockHeight st, mt_SwapTime := BlockTime st,
               mt_SwapTx := (if rs_SwapTx ?swap \<noteq> rs_SwapTx swap then rs_SwapTx ?swap else '''')\<rparr>))"
  proof (cases st)
    case (Some x)
    have "srel ?R (settleSwapResult E br x (rs_SwapTx swap) ?swap)" if "BlockHeight x \<noteq> 0" "rs_SwapHeight swap \<noteq> 0"
    proof -
      have "srel (moves results (result_key ?swap) (settled_edges E swap)) (settleSwapResult E br x (rs_SwapTx swap) ?swap)"
        by (rule moving_settleSwapResult [OF assms]) (use br st Some that in \<open>auto simp: settled_edges_def\<close>)
      then show ?thesis by simp
    qed
    moreover have "srel ?R (updateRouterSwapResult E (rs_FromChainID ?swap) (rs_TxID ?swap) (rs_LogIndex ?swap)
             (no_match\<lparr>mt_SwapHeight := BlockHeight x, mt_SwapTime := BlockTime x,
               mt_SwapTx := (if rs_SwapTx ?swap \<noteq> rs_SwapTx swap then rs_SwapTx ?swap else '''')\<rparr>))" if "BlockHeight x \<noteq> 0"
      using that by (intro quiet_worker_updates(3) [OF assms]) (simp_all add: no_match_def)
    ultimately show ?thesis using wait by (simp add: Some)
  qed (use wait in simp)
qed

lemma moving_recheckNonce:
  assumes "documented matches (mgo E)"
    and "\<And>t n. poolNonce t (rs_MPC swap) ''latest'' = Inr n \<Longrightarrow> n \<le> rs_SwapNonce swap \<Longrightarrow> MatchTxNotStable \<in> A"
  shows "srel (moves results (result_key swap) A) (recheckNonce E poolNonce swap)"
  unfolding recheckNonce_def result_key_def
proof (rule moving_extern_bind, simp, split sum.split, intro conjI allI impI moving.sfrom_steps moving.srel_if moving_marks(1) [OF assms(1)])
  fix t n assume "poolNonce t (rs_MPC swap) ''latest'' = Inr n" and "n \<le> rs_SwapNonce swap"
  then show "MatchTxNotStable \<in> A" by (rule assms(2))
qed

lemma moving_recheckFailed:
  assumes "documented matches (mgo E)" and "RouterBridges (rtr E) (rs_ToChainID swap) = Some br" and "rs_SwapTx swap \<noteq> ''''"
    and "getPoolNonce br = Some poolNonce"
  shows "srel (moves results (result_key swap) (recheck_edges E swap)) (recheckFailed E br poolNonce swap)"
  unfolding recheckFailed_def
proof (rule moving_getSwapTxStatus_bind, unfold prod.case)
  fix st tx assume st: "seen br swap st" and tx: "tx \<in> set (rs_SwapTx swap # rs_OldSwapTxs swap)"
  let ?swap = "swap\<lparr>rs_SwapTx := tx\<rparr>" and ?R = "moves results (result_key swap) (recheck_edges E swap)"
  have nonce: "srel ?R (recheckNonce E poolNonce ?swap)" if "\<not> onChain st"
  proof -
    have "srel (moves results (result_key ?swap) (recheck_edges E swap)) (recheckNonce E poolNonce ?swap)"
    proof (rule moving_recheckNonce [OF assms(1)])
      fix t n assume "poolNonce t (rs_MPC ?swap) ''latest'' = Inr n" and "n \<le> rs_SwapNonce ?swap"
      then have "poolNonce t (rs_MPC swap) ''latest'' = Inr n" "n \<le> rs_SwapNonce swap" by simp_all
      then show "MatchTxNotStable \<in> recheck_edges E swap"
        unfolding recheck_edges_def mem_Collect_eq using assms(2-4) st that by blast
    qed
    then show ?thesis by simp
  qed
  have chain: "srel ?R (sbind (slift (non_nil (bridgeChainConfig (base br)))) (\<lambda>cfg.
           if Confirmations x < cc_Confirmations cfg
           then markSwapResultUnstable E (rs_FromChainID ?swap) (rs_TxID ?swap) (rs_LogIndex ?swap)
           else markSwapResultStable E (rs_FromChainID ?swap) (rs_TxID ?swap) (rs_LogIndex ?swap)))"
    if x: "st = Some x" "BlockHeight x > 0" "\<not> IsSwapTxOnChainAndFailed st" for x
  proof (rule moving_slift_bind)
    fix cfg assume "non_nil (bridgeChainConfig (base br)) = Ret cfg"
    then have "bridgeChainConfig (base br) = Some cfg" by (simp add: non_nil_def split: option.splits)
    then have "(if Confirmations x < cc_Confirmations cfg then MatchTxNotStable else MatchTxStable) \<in> recheck_edges E swap"
      unfolding recheck_edges_def using assms(2,3) st x by blast
    then show "srel ?R (if Confirmations x < cc_Confirmations cfg
           then markSwapResultUnstable E (rs_FromChainID ?swap) (rs_TxID ?swap) (rs_LogIndex ?swap)
           else markSwapResultStable E (rs_FromChainID ?swap) (rs_TxID ?swap) (rs_LogIndex ?swap))"
      unfolding result_key_def by (simp split: if_splits add: moving_marks [OF assms(1)])
  qed
  show "srel ?R (if IsSwapTxOnChainAndFailed st then sret ()
     else case st of
       Some x \<Rightarrow>
         if BlockHeight x > 0 then
           sbind (slift (non_nil (bridgeChainConfig (base br)))) (\<lambda>cfg.
           if Confirmations x < cc_Confirmations cfg
           then markSwapResultUnstable E (rs_FromChainID ?swap) (rs_TxID ?swap) (rs_LogIndex ?swap)
           else markSwapResultStable E (rs_FromChainID ?swap) (rs_TxID ?swap) (rs_LogIndex ?swap))
         else recheckNonce E poolNonce ?swap
     | None \<Rightarrow> recheckNonce E poolNonce ?swap)"
  proof (cases st)
    case None
    then show ?thesis using nonce by (simp add: moving.sfrom_steps onChain_def)
  next
    case (Some x)
    then show ?thesis using nonce chain [OF Some] by (simp add: moving.sfrom_steps onChain_def)
  qed
qed

lemma moving_checkFailedRouterSwap:
  assumes "documented matches (mgo E)"
  shows "srel (moves results (result_key swap) (recheck_edges E swap)) (checkFailedRouterSwap E swap)"
  unfolding checkFailedRouterSwap_def GetBridgeByChainID_def
  using moving_recheckFailed [OF assms, of swap]
  by (auto simp: moving.sfrom_steps split: option.split outcome.split)

section \<open>Properties\<close>

text \<open>
  C20: a result becomes stable or failed only for what a node said. When the handler of stable.go
  changes the status of any result, it is the result it was given, and the target chain's bridge
  reported one of the result's transactions on chain with the configured number of confirmations
  (failed if it said that the transaction failed, stable otherwise), after the height of the
  transaction had been recorded before; or the transaction has no recorded height, the bridge
  reported it not on chain and the account's nonce has passed the result's (failed).
\<close>

theorem processRouterSwapStable_justified:
  assumes "documented matches (mgo E)" and "processRouterSwapStable E swap s = (r, s')" and "results s' \<noteq> results s"
  shows "\<exists>st \<in> settled_edges E swap. results s' = (results s)(result_key swap := map_option (\<lambda>_. st) (results s (result_key swap)))"
  using srel_run [OF moving_processRouterSwapStable [OF assms(1)] assms(2)] assms(3) by (simp add: moves_def)

text \<open>
  C22: a failed result is put back only for what a node said. When the handler of
  checkfailedswap.go changes a status, the bridge reported one of the result's transactions on
  chain and not failed (stable if it has the configured confirmations, not stable otherwise), or
  reported it not on chain while the account's nonce has not passed the result's (not stable).
\<close>

theorem checkFailedRouterSwap_justified:
  assumes "documented matches (mgo E)" and "checkFailedRouterSwap E swap s = (r, s')" and "results s' \<noteq> results s"
  shows "\<exists>st \<in> recheck_edges E swap. results s' = (results s)(result_key swap := map_option (\<lambda>_. st) (results s (result_key swap)))"
  using srel_run [OF moving_checkFailedRouterSwap [OF assms(1)] assms(2)] assms(3) by (simp add: moves_def)

section \<open>Replacing a transaction\<close>

lemma tok_Ret [outcome_simps]: "tok r s = (Ret a, s') \<longleftrightarrow> r = Ret a \<and> s' = s"
  by (auto simp: tok_def slift_def split: outcome.splits)

lemma bigIntOr_Ret [outcome_simps]: "bigIntOr v msg s = (Ret n, s') \<longleftrightarrow> GetBigIntFromStr v = Ret n \<and> s' = s"
  by (auto simp: bigIntOr_def slift_def split: outcome.splits)

lemma noncePassed_replace: "noncePassed E br st res True s \<noteq> (Ret res', s')"
  unfolding noncePassed_def existsInChain_def lowerNonce_def Let_def
  by (auto simp: outcome_simps split: if_splits)

lemma checkIfSwapNonceHasPassed_replace:
  assumes "checkIfSwapNonceHasPassed E br res True s = (Ret res', s')" and "getPoolNonce br = Some poolNonce"
  shows "\<exists>st t n. seen br res st \<and> \<not> onChain st \<and> poolNonce t (rs_MPC res) ''latest'' = Inr n \<and>
      (n \<le> rs_SwapNonce res \<or> rs_SwapNonce res = 0)"
proof -
  from assms obtain n st res1 s1 where n: "poolNonce (tick s) (rs_MPC res) ''latest'' = Inr n"
    and g: "getSwapTxStatus br res (s\<lparr>tick := Suc (tick s)\<rparr>) = (Ret (st, res1), s1)"
    and r: "(if onChain st then sbind (existsInChain True) (\<lambda>_. sret res1)
       else if n > rs_SwapNonce res1 \<and> rs_SwapNonce res1 > 0 then noncePassed E br st res1 True else sret res1) s1 = (Ret res', s')"
    by (auto simp: checkIfSwapNonceHasPassed_def outcome_simps extern_iff split: sum.splits)
  from getSwapTxStatus_seen [OF g] have "seen br res st" "rs_SwapNonce res1 = rs_SwapNonce res" by auto
  moreover from r have "\<not> onChain st" "\<not> (n > rs_SwapNonce res1 \<and> rs_SwapNonce res1 > 0)"
    using noncePassed_replace by (auto simp: existsInChain_def outcome_simps split: if_splits)
  ultimately show ?thesis using n by (metis gr0I linorder_not_le)
qed

lemma checkIfSwapNonceHasPassed_result:
  "checkIfSwapNonceHasPassed E br res True s = (Ret res', s') \<Longrightarrow> \<exists>tx. res' = res\<lparr>rs_SwapTx := tx\<rparr>"
  using noncePassed_replace [of E br]
  by (auto simp: checkIfSwapNonceHasPassed_def outcome_simps existsInChain_def extern_iff split: sum.splits option.splits if_splits
      dest!: getSwapTxStatus_seen intro: exI [of _ "rs_SwapTx res"])

text \<open>What a replacement is built from, and when.\<close>

definition replaceable :: "worker_env \<Rightarrow> MgoSwapResult \<Rightarrow> bool \<Rightarrow> IBridge \<Rightarrow> bool" where
  "replaceable E res isManual br \<longleftrightarrow>
     rs_Status res = MatchTxNotStable \<and> (isManual \<or> rs_SwapNonce res \<noteq> 0 \<and> rs_SwapHeight res = 0) \<and>
     (rs_SwapTx res \<noteq> '''' \<or> IsParallelSwapEnabled (prm (toks (rtr E)))) \<and>
     (\<forall>poolNonce. getPoolNonce br = Some poolNonce \<longrightarrow>
        (\<exists>st t n. seen br res st \<and> \<not> onChain st \<and> poolNonce t (rs_MPC res) ''latest'' = Inr n \<and>
           (n \<le> rs_SwapNonce res \<or> rs_SwapNonce res = 0)))"

lemma verifyReplaceSwap_Ret:
  assumes "verifyReplaceSwap E res isManual s = (Ret (swap, res'), s')"
  shows "\<exists>br tx. RouterBridges (rtr E) (rs_ToChainID res) = Some br \<and> replaceable E res isManual br \<and> res' = res\<lparr>rs_SwapTx := tx\<rparr>"
proof -
  from assms obtain br s1 where br: "RouterBridges (rtr E) (rs_ToChainID res) = Some br"
    and c: "checkIfSwapNonceHasPassed E br res True s1 = (Ret res', s')"
    and g: "rs_Status res = MatchTxNotStable" "isManual \<or> rs_SwapNonce res \<noteq> 0 \<and> rs_SwapHeight res = 0"
      "rs_SwapTx res \<noteq> '''' \<or> IsParallelSwapEnabled (prm (toks (rtr E)))"
    by (auto simp: verifyReplaceSwap_def outcome_simps)
  show ?thesis
    using br g checkIfSwapNonceHasPassed_replace [OF c] checkIfSwapNonceHasPassed_result [OF c] unfolding replaceable_def by blast
qed

lemma ReplaceRouterSwap_Ret:
  assumes "ReplaceRouterSwap E res gasPrice isManual s = (Ret (), s')"
  obtains swap res1 s1 br mpc nums s2 info s3 sb raw args sb' where
    "verifyReplaceSwap E res isManual s = (Ret (swap, res1), s1)"
    and "RouterBridges (rtr E) (rs_ToChainID res1) = Some br"
    and "GetRouterMPC (rtr E) (Mgo_GetTokenID (sw_SwapInfo swap)) (rs_ToChainID res1) = Ret mpc" and "EqualFold (rs_MPC res1) mpc"
    and "getFromToChainIDAndValue (rs_FromChainID res1) (rs_ToChainID res1) (rs_Value res1) s2 = (Ret nums, s3)"
    and "buildRaw E br (replaceArgs E swap res1 gasPrice nums info) sb = (Ret (raw, args), sb')"
    and "s' = sb'\<lparr>tasks := tasks sb' @ [SignAndSendReplaceTx raw args res1]\<rparr>"
  using assms unfolding ReplaceRouterSwap_def
  by (clarsimp simp: outcome_simps supd_def)

text \<open>
  C21: a replacement competes for the nonce of the transaction it replaces. When a replacement of
  a result's transaction is started, the request it was built from names the result's swap, its
  sender and its nonce, so that at most one of the two can be mined; the result is waiting
  (\<open>MatchTxNotStable\<close>) and, unless an administrator asked, has a nonce and no recorded height; the
  sender is the router's account for the swap's token; and, where the bridge counts nonces, one
  of the result's transactions was looked up and is not on chain and the account's nonce has
  not passed the result's.
\<close>

theorem ReplaceRouterSwap_same_nonce:
  assumes "ReplaceRouterSwap E res gasPrice isManual s = (Ret (), s')"
  shows "\<exists>br (swap :: MgoSwap) mpc a sb raw args res' biFrom.
    RouterBridges (rtr E) (rs_ToChainID res) = Some br \<and> replaceable E res isManual br \<and>
    GetRouterMPC (rtr E) (Mgo_GetTokenID (sw_SwapInfo swap)) (rs_ToChainID res) = Ret mpc \<and> EqualFold (rs_MPC res) mpc \<and>
    fst (buildRaw E br a sb) = Ret (raw, args) \<and> GetTxNonce a = rs_SwapNonce res \<and> args_From a = rs_MPC res \<and>
    args_SwapID (swapArgs a) = rs_TxID res \<and> args_LogIndex (swapArgs a) = rs_LogIndex res \<and>
    GetBigIntFromStr (rs_FromChainID res) = Ret biFrom \<and> args_FromChainID (swapArgs a) = Some biFrom \<and>
    tasks s' = tasks (snd (buildRaw E br a sb)) @ [SignAndSendReplaceTx raw args res'] \<and> result_key res' = result_key res"
proof -
  from assms obtain swap res1 s1 br mpc nums s2 info s3 sb raw args sb' where
    v: "verifyReplaceSwap E res isManual s = (Ret (swap, res1), s1)"
    and br: "RouterBridges (rtr E) (rs_ToChainID res1) = Some br"
    and m: "GetRouterMPC (rtr E) (Mgo_GetTokenID (sw_SwapInfo swap)) (rs_ToChainID res1) = Ret mpc" "EqualFold (rs_MPC res1) mpc"
    and n: "getFromToChainIDAndValue (rs_FromChainID res1) (rs_ToChainID res1) (rs_Value res1) s2 = (Ret nums, s3)"
    and b: "buildRaw E br (replaceArgs E swap res1 gasPrice nums info) sb = (Ret (raw, args), sb')"
    and s': "s' = sb'\<lparr>tasks := tasks sb' @ [SignAndSendReplaceTx raw args res1]\<rparr>"
    by (rule ReplaceRouterSwap_Ret)
  from verifyReplaceSwap_Ret [OF v] obtain br2 tx where
    r2: "RouterBridges (rtr E) (rs_ToChainID res) = Some br2" "replaceable E res isManual br2" and r1: "res1 = res\<lparr>rs_SwapTx := tx\<rparr>"
    by blast
  from br r2(1) have "br2 = br" unfolding r1 by simp
  with r2 have br': "RouterBridges (rtr E) (rs_ToChainID res) = Some br" and r: "replaceable E res isManual br" by simp_all
  from n obtain f t x where nums: "nums = (f, t, x)" and f: "GetBigIntFromStr (rs_FromChainID res) = Ret f"
    unfolding r1 by (auto simp: getFromToChainIDAndValue_def outcome_simps)
  let ?a = "replaceArgs E swap res1 gasPrice nums info"
  have "GetTxNonce ?a = rs_SwapNonce res" "args_From ?a = rs_MPC res" "args_SwapID (swapArgs ?a) = rs_TxID res"
    "args_LogIndex (swapArgs ?a) = rs_LogIndex res" "args_FromChainID (swapArgs ?a) = Some f" "result_key res1 = result_key res"
    by (simp_all add: nums r1 replaceArgs_def GetTxNonce_def with_info_def)
  moreover have "GetRouterMPC (rtr E) (Mgo_GetTokenID (sw_SwapInfo swap)) (rs_ToChainID res) = Ret mpc" "EqualFold (rs_MPC res) mpc"
    using m by (simp_all add: r1)
  moreover have "fst (buildRaw E br ?a sb) = Ret (raw, args)" "tasks s' = tasks (snd (buildRaw E br ?a sb)) @ [SignAndSendReplaceTx raw args res1]"
    using b s' by simp_all
  ultimately show ?thesis using br' r f by - (intro exI conjI, assumption+)
qed

section \<open>A server that watches a transaction\<close>

definition watch_bridge :: IBridge where
  "watch_bridge = target_bridge\<lparr>base :=
     \<lparr>bridgeChainConfig = Some \<lparr>cc_ChainID = ''56'', BlockChain = '''', cc_RouterContract = ''0x7'', cc_Confirmations = 3,
        InitialHeight = 1, chainID_num = None\<rparr>,
      bridgeGatewayConfig = None,
      TokenConfigMap = (\<lambda>_. Some \<lparr>TokenID = ''T'', Decimals = 18, ContractAddress = '''', ContractVersion = 1,
        RouterContract = '''', underlying = ''''\<rparr>)\<rparr>\<rparr>"

definition watch_worker :: worker_env where
  "watch_worker = sample_worker\<lparr>rtr := (rtr sample_worker)\<lparr>RouterBridges := (\<lambda>_. Some watch_bridge),
     MultichainTokens := (\<lambda>_. Some (\<lambda>_. Some ''0x5'')),
     RouterInfos := (\<lambda>_. Some \<lparr>RouterMPC = ''0xmpc'', RouterFactory = '''', RouterWNative = ''''\<rparr>)\<rparr>\<rparr>"

definition watch_doc :: "SwapStatus \<Rightarrow> string \<Rightarrow> MgoSwapResult" where
  "watch_doc st tx = (result_doc 10 st 4 tx)\<lparr>rs_SwapHeight := 9\<rparr>"

definition watch_world :: "MgoSwapResult \<Rightarrow> world" where
  "watch_world res = waiting_world\<lparr>collRouterSwapResult := [''1:0xab:10'' \<mapsto> res]\<rparr>"

lemma watch_documented: "documented (known two_keys) (mgo watch_worker)"
  using sample_worker_ok(1) by (simp add: watch_worker_def)

lemma watch_key: "result_key (watch_doc st tx) = ''1:0xab:10''"
  by (simp add: result_key_def watch_doc_def result_doc_def ToSwapResult_def swap_doc_def sample_keys)

theorem processRouterSwapStable_justified_witness:
  "MatchTxFailed \<in> settled_edges watch_worker (watch_doc MatchTxNotStable ''0xbb'')"
proof -
  let ?d = "watch_doc MatchTxNotStable ''0xbb''"
  let ?run = "processRouterSwapStable watch_worker ?d (watch_world ?d)"
  have old: "results (watch_world ?d) ''1:0xab:10'' = Some MatchTxNotStable" and new: "results (snd ?run) ''1:0xab:10'' = Some MatchTxFailed"
    by code_simp+
  then have ne: "results (snd ?run) \<noteq> results (watch_world ?d)" by (auto simp: swap_statuses)
  have run: "?run = (fst ?run, snd ?run)" by simp
  from processRouterSwapStable_justified [OF watch_documented run ne] obtain st where
    "st \<in> settled_edges watch_worker ?d"
    "results (snd ?run) = (results (watch_world ?d))(''1:0xab:10'' := map_option (\<lambda>_. st) (results (watch_world ?d) ''1:0xab:10''))"
    unfolding watch_key by blast
  with old new show ?thesis by auto
qed

theorem checkFailedRouterSwap_justified_witness:
  "MatchTxStable \<in> recheck_edges watch_worker (watch_doc MatchTxFailed ''0xaa'')"
proof -
  let ?d = "watch_doc MatchTxFailed ''0xaa''"
  let ?run = "checkFailedRouterSwap watch_worker ?d (watch_world ?d)"
  have old: "results (watch_world ?d) ''1:0xab:10'' = Some MatchTxFailed" and new: "results (snd ?run) ''1:0xab:10'' = Some MatchTxStable"
    by code_simp+
  then have ne: "results (snd ?run) \<noteq> results (watch_world ?d)" by (auto simp: swap_statuses)
  have run: "?run = (fst ?run, snd ?run)" by simp
  from checkFailedRouterSwap_justified [OF watch_documented run ne] obtain st where
    "st \<in> recheck_edges watch_worker ?d"
    "results (snd ?run) = (results (watch_world ?d))(''1:0xab:10'' := map_option (\<lambda>_. st) (results (watch_world ?d) ''1:0xab:10''))"
    unfolding watch_key by blast
  with old new show ?thesis by auto
qed

text \<open>A transaction that is not mined yet, replaced on request of an administrator.\<close>

definition pending_worker :: worker_env where
  "pending_worker = watch_worker\<lparr>rtr := (rtr watch_worker)\<lparr>RouterBridges :=
     (\<lambda>_. Some (watch_bridge\<lparr>getTransactionStatus := (\<lambda>_ _. (None, Some ErrNotFound)), getPoolNonce := Some (\<lambda>_ _ _. Inr 4)\<rparr>))\<rparr>\<rparr>"

theorem ReplaceRouterSwap_same_nonce_witness:
  "let d = (watch_doc MatchTxNotStable ''0xbb'')\<lparr>rs_SwapHeight := 0\<rparr>;
       s = snd (ReplaceRouterSwap pending_worker d None False (watch_world d))
   in \<exists>raw args res'. tasks s = [SignAndSendReplaceTx raw args res'] \<and> GetTxNonce args = 4"
proof -
  let ?d = "(watch_doc MatchTxNotStable ''0xbb'')\<lparr>rs_SwapHeight := 0\<rparr>"
  define s where "s = snd (ReplaceRouterSwap pending_worker ?d None False (watch_world ?d))"
  have "fst (ReplaceRouterSwap pending_worker ?d None False (watch_world ?d)) = Ret ()" by code_simp
  then have "ReplaceRouterSwap pending_worker ?d None False (watch_world ?d) = (Ret (), s)" by (metis s_def prod.collapse)
  from ReplaceRouterSwap_same_nonce [OF this] obtain br a sb raw args res' where
    b: "fst (buildRaw pending_worker br a sb) = Ret (raw, args)" "GetTxNonce a = rs_SwapNonce ?d"
    and t: "tasks s = tasks (snd (buildRaw pending_worker br a sb)) @ [SignAndSendReplaceTx raw args res']" by blast
  have "length (tasks s) = 1" unfolding s_def by code_simp
  with t have "tasks s = [SignAndSendReplaceTx raw args res']" by simp
  moreover have "args = a" using b(1) by (simp add: pending_worker_def watch_worker_def sample_worker_def sret_def)
  moreover have "rs_SwapNonce ?d = 4" by code_simp
  ultimately show ?thesis using b(2) unfolding s_def Let_def by metis
qed

end
