(* ===== verification/Delivery.thy ===== *)
theory Delivery
  imports WorkerRuns
begin

text \<open>
  Two more sides of the swap job. The history of swaps (swap.go) is kept in a ring of
  \<open>container/ring\<close>; its code with \<open>Move\<close>, \<open>Link\<close> and \<open>Unlink\<close> refines a queue that forgets its oldest
  entries. And a swap is not only sent at most once: while database, signing network and node
  work, \<open>doSwap\<close> does send it.
\<close>

section \<open>The history ring\<close>

lemma ring_Move_back: "xs \<noteq> [] \<Longrightarrow> ring_Move (- 1) xs = last xs # butlast xs"
proof -
  assume ne: "xs \<noteq> []"
  then have n: "nat (- 1 mod int (length xs)) = length xs - 1"
    by (cases xs) (simp_all add: zmod_minus1 nat_diff_distrib)
  have "drop (length xs - 1) xs = [last xs]"
    using ne by (metis append_butlast_last_id append_eq_conv_conj length_butlast)
  then show ?thesis
    using ne n by (simp add: ring_Move_def rotate_drop_take butlast_conv_take)
qed

lemma ring_Move_one: "ring_Move 1 (x # xs) = xs @ [x]"
proof (cases xs)
  case (Cons y ys)
  then have "nat (1 mod int (length (x # xs))) = 1" by simp
  then show ?thesis by (simp only: ring_Move_def) simp
qed (simp add: ring_Move_def)

lemma ring_Move_two: "ring_Move 2 (x # y # xs) = xs @ [x, y]"
proof (cases xs)
  case (Cons z zs)
  then have "nat (2 mod int (length (x # y # xs))) = 2" by simp
  then show ?thesis by (simp only: ring_Move_def) (simp add: numeral_2_eq_2)
qed (simp add: ring_Move_def)

text \<open>Linking before the element that the pointer refers to appends at the end.\<close>

lemma ring_append: "xs \<noteq> [] \<Longrightarrow> ring_Move 2 (ring_Link (ring_Move (- 1) xs) [y]) = xs @ [y]"
  by (simp add: ring_Move_back ring_Link_def ring_Move_two append_butlast_last_id flip: append_assoc)

lemma ring_forget: "2 \<le> length xs \<Longrightarrow> ring_Move 1 (ring_Unlink 1 (ring_Move (- 1) xs)) = tl xs"
  apply (cases xs, simp)
  apply (simp add: ring_Move_back ring_Unlink_def ring_Move_one)
  apply (rename_tac y ys, case_tac "ys = []", simp)
  apply (simp add: drop_Suc butlast_tl)
  done

text \<open>The queue: the newest \<open>swapRingMaxSize\<close> entries, oldest first.\<close>

definition queue_push :: "'a \<Rightarrow> 'a list \<Rightarrow> 'a list" where
  "queue_push x q = drop (Suc (length q) - swapRingMaxSize) (q @ [x])"

lemma ring_push_queue:
  assumes "length r \<le> swapRingMaxSize"
  shows "ring_push x r = queue_push x r"
proof (cases "r = []")
  case False
  show ?thesis
  proof (cases "length r = swapRingMaxSize")
    case True
    then have "2 \<le> length r" "tl r \<noteq> []" by (cases r; auto simp: swapRingMaxSize_def)+
    then have "ring_push x r = tl r @ [x]"
      using False True ring_append [of "tl r" x] unfolding ring_push_def Let_def by (simp only: if_True if_False simp_thms ring_forget)
    also have "\<dots> = queue_push x r" using True False by (cases r) (simp_all add: queue_push_def)
    finally show ?thesis .
  next
    case no: False
    with assms show ?thesis using False by (simp add: ring_push_def queue_push_def ring_append)
  qed
qed (simp add: ring_push_def queue_push_def swapRingMaxSize_def)

definition newest :: "'a list \<Rightarrow> 'a list" where
  "newest items = drop (length items - swapRingMaxSize) items"

lemma newest_snoc: "queue_push x (newest items) = newest (items @ [x])"
proof (cases "length items < swapRingMaxSize")
  case False
  then have "length items - (length items - 1000 + 999) + (length items - 1000) = length items - 999"
    by (simp add: swapRingMaxSize_def)
  then show ?thesis by (simp add: queue_push_def newest_def swapRingMaxSize_def)
qed (simp add: queue_push_def newest_def swapRingMaxSize_def)

lemma ring_of_items: "fold ring_push items [] = newest items"
proof (induction items rule: rev_induct)
  case (snoc x items)
  have "length (newest items) \<le> swapRingMaxSize" by (simp add: newest_def)
  with snoc show ?case by (simp add: ring_push_queue newest_snoc)
qed (simp add: newest_def)

lemma ring_visits: "set (map (\<lambda>i. hd (ring_Move (- int i) r)) [0..<length r]) = set r"
proof (cases "r = []")
  case False
  let ?n = "length r"
  have nth: "hd (ring_Move (- int i) r) = r ! ((?n - i) mod ?n)" if "i < ?n" for i
  proof -
    have "(- int i) mod int ?n = (int ?n - int i) mod int ?n" by (metis mod_add_self1 uminus_add_conv_diff add.commute)
    also have "\<dots> = int ((?n - i) mod ?n)" using that by (simp add: of_nat_diff zmod_int)
    finally show ?thesis using False by (simp add: ring_Move_def hd_rotate_conv_nth)
  qed
  show ?thesis
  proof
    show "set (map (\<lambda>i. hd (ring_Move (- int i) r)) [0..<?n]) \<subseteq> set r"
      using False by (auto simp: nth)
    show "set r \<subseteq> set (map (\<lambda>i. hd (ring_Move (- int i) r)) [0..<?n])"
    proof
      fix x assume "x \<in> set r"
      then obtain j where j: "j < ?n" "x = r ! j" by (metis in_set_conv_nth)
      define i where "i = (?n - j) mod ?n"
      have "i < ?n" using False unfolding i_def by (intro mod_less_divisor) simp
      moreover have "(?n - i) mod ?n = j" using j by (cases "j = 0") (simp_all add: i_def)
      ultimately show "x \<in> set (map (\<lambda>i. hd (ring_Move (- int i) r)) [0..<?n])"
        using nth j(2) by (auto intro!: image_eqI [of _ _ i])
    qed
  qed
qed simp

text \<open>
  C28: the history ring refines a queue. After any number of calls of \<open>addSwapHistory\<close> the ring,
  read from where \<open>swapRing\<close> points, holds the newest 1000 entries, oldest first, and
  \<open>getSwapHistory\<close> finds a swap exactly if one of these entries is for it.
\<close>

theorem history_is_queue:
  "fold ring_push items [] = newest items \<and>
   (ring_find c t l (fold ring_push items []) = None \<longleftrightarrow>
      \<not> (\<exists>h \<in> set (newest items). hist_txid h = t \<and> hist_chainID h = c \<and> hist_logIndex h = l))"
  unfolding ring_of_items ring_find_def find_None_iff ring_visits by blast

text \<open>The history is written but never asked: \<open>preventReswap\<close> reaches it only when it answers at once.\<close>

lemma preventReswap_without_history: "preventReswap E res = processNonEmptySwapResult E res"
proof (rule ext)
  fix s
  show "preventReswap E res s = processNonEmptySwapResult E res s"
  proof (cases "untouched res")
    case True
    then have "(rs_Status res = MatchTxEmpty \<or> rs_Status res = StReswapping) \<and> rs_SwapNonce res = 0"
      by (auto simp: untouched_def)
    with True show ?thesis by (simp add: preventReswap_def processNonEmptySwapResult_def processHistory_def sbind_def sret_def)
  next
    case False
    then show ?thesis
      by (auto simp: preventReswap_def processNonEmptySwapResult_def sbind_def slift_def split: prod.splits outcome.splits)
  qed
qed

section \<open>Calls that succeed\<close>

text \<open>The call returns, and its value and the state after it satisfy \<open>P\<close>.\<close>

definition succeeds :: "('s, 'e, 'a) stateful \<Rightarrow> ('a \<Rightarrow> 's \<Rightarrow> bool) \<Rightarrow> 's \<Rightarrow> bool" where
  "succeeds m P s \<longleftrightarrow> (\<exists>a s'. m s = (Ret a, s') \<and> P a s')"

lemma succeeds_sbind: "succeeds m (\<lambda>a. succeeds (f a) Q) s \<Longrightarrow> succeeds (sbind m f) Q s"
  by (auto simp: succeeds_def sbind_def)

lemma succeeds_sret [simp]: "succeeds (sret a) P s \<longleftrightarrow> P a s"
  by (simp add: succeeds_def sret_def)

lemma succeeds_slift [simp]: "succeeds (slift r) P s \<longleftrightarrow> (\<exists>a. r = Ret a \<and> P a s)"
  by (auto simp: succeeds_def slift_def)

lemma succeeds_sguard [simp]: "succeeds (sguard c e) P s \<longleftrightarrow> c \<and> P () s"
  by (simp add: succeeds_def sguard_def)

lemma succeeds_supd [simp]: "succeeds (supd f) P s \<longleftrightarrow> P () (f s)"
  by (simp add: succeeds_def supd_def)

lemma succeeds_sget [simp]: "succeeds (sget g) P s \<longleftrightarrow> succeeds (g s) P s"
  by (simp add: succeeds_def sget_def)

lemma succeeds_db [simp]: "succeeds (db m) P s \<longleftrightarrow> succeeds m P s"
  by (auto simp: succeeds_def outcome_simps)

lemma succeeds_extern [simp]: "succeeds (extern q) P s \<longleftrightarrow> P (q (tick s)) (s\<lparr>tick := Suc (tick s)\<rparr>)"
  by (simp add: succeeds_def extern_def)

lemma succeeds_mono: "succeeds m P s \<Longrightarrow> (\<And>a s'. P a s' \<Longrightarrow> Q a s') \<Longrightarrow> succeeds m Q s"
  by (auto simp: succeeds_def)

lemma succeeds_uncache: "succeeds m P s \<Longrightarrow> succeeds (uncache_on_failure key m) P s"
  by (auto simp: succeeds_def uncache_on_failure_def)

lemma succeeds_dropped: "succeeds m (\<lambda>_. P ()) s \<Longrightarrow> succeeds (dropped m) P s"
  unfolding dropped_def by (auto simp: succeeds_def sbind_def stry_def sret_def)

text \<open>A database that answers every update, and every request for the result of a given key.\<close>

definition working :: "(string \<Rightarrow> string \<Rightarrow> bool) \<Rightarrow> string \<Rightarrow> mgo_env \<Rightarrow> bool" where
  "working matches k E \<longleftrightarrow>
     (\<forall>t i f c. fst (UpdateByID (swapColl E) t i f c) = None) \<and>
     (\<forall>t i f c. fst (UpdateByID (resultColl E) t i f c) = None) \<and>
     (\<forall>t c d. c k = Some d \<longrightarrow> exact matches c k \<longrightarrow> FindRegex (resultColl E) t k c = Inr d)"

lemma succeeds_updateSwap:
  assumes "working matches key E" and "\<And>n c. P None (s\<lparr>tick := n, collRouterSwap := c\<rparr>)"
  shows "succeeds (updateSwap E k f) P s"
  using assms unfolding working_def succeeds_def updateSwap_def coll_write_def
  by (cases "UpdateByID (swapColl E) (tick s) k f (collRouterSwap s)") (auto, metis fst_conv)

lemma succeeds_updateResult:
  assumes "working matches key E" and "\<And>n c. P None (s\<lparr>tick := n, collRouterSwapResult := c\<rparr>)"
  shows "succeeds (updateResult E k f) P s"
  using assms unfolding working_def succeeds_def updateResult_def coll_write_def
  by (cases "UpdateByID (resultColl E) (tick s) k f (collRouterSwapResult s)") (auto, metis fst_conv)

lemma succeeds_now: "(\<And>nw. P nw (s\<lparr>tick := Suc (tick s)\<rparr>)) \<Longrightarrow> succeeds (now E) P s"
  by (simp add: now_def Unix_now_def)

lemma succeeds_find:
  assumes "working matches (GetRouterSwapKey c t l) E" and "collRouterSwapResult s (GetRouterSwapKey c t l) = Some d"
    and "exact matches (collRouterSwapResult s) (GetRouterSwapKey c t l)" and "P d (s\<lparr>tick := Suc (tick s)\<rparr>)"
  shows "succeeds (FindRouterSwapResult E c t l) P s"
  using assms unfolding working_def by (auto simp: succeeds_def FindRouterSwapResult_Ret)

lemma succeeds_preventReswap: "untouched res \<Longrightarrow> P () s \<Longrightarrow> succeeds (preventReswap E res) P s"
  by (simp add: preventReswap_without_history processNonEmptySwapResult_def)

text \<open>A result that nothing was sent for can be given its first transaction.\<close>

lemma succeeds_first_update:
  assumes "working matches (GetRouterSwapKey c t l) (mgo E)" and "collRouterSwapResult s (GetRouterSwapKey c t l) = Some d"
    and "exact matches (collRouterSwapResult s) (GetRouterSwapKey c t l)" and "untouched d"
    and "\<And>n c. P () (s\<lparr>tick := n, collRouterSwapResult := c\<rparr>)"
  shows "succeeds (updateRouterSwapResult E c t l m) P s"
proof -
  from assms(4) have d: "rs_SwapNonce d = 0" "rs_SwapTx d = ''''" by (auto simp: untouched_def)
  have check: "succeeds (checkRouterSwapResultUpdate (mgo E) c t l) Q u"
    if "Q () (u\<lparr>tick := Suc (tick u)\<rparr>)" "collRouterSwapResult u = collRouterSwapResult s" for u :: world and Q
    unfolding checkRouterSwapResultUpdate_def
    by (intro succeeds_sbind succeeds_find [OF assms(1), where d = d]) (simp_all add: that assms(2,3) d)
  have upd: "succeeds (sbind (updateResult (mgo E) k f) mgo_return) P (s\<lparr>tick := n\<rparr>)" for k f n
    by (intro succeeds_sbind succeeds_updateResult [OF assms(1)]) (simp add: mgo_return_def mgoError_def assms(5))
  have "succeeds (UpdateRouterSwapResult (mgo E) c t l items) P (s\<lparr>tick := n\<rparr>)" for items n
    unfolding UpdateRouterSwapResult_def by (rule succeeds_sbind) (auto intro!: check upd)
  then show ?thesis
    unfolding updateRouterSwapResult_def by (intro succeeds_sbind succeeds_now) simp
qed

section \<open>A swap is sent\<close>

text \<open>
  The target chain's bridge builds (without touching results or sending), signs and accepts
  transactions, and the configuration allows at least one attempt.
\<close>

definition serving :: "worker_env \<Rightarrow> IBridge \<Rightarrow> BuildTxArgs \<Rightarrow> bool" where
  "serving E br args \<longleftrightarrow>
     (\<forall>u. \<exists>raw a u'. buildRaw E br args u = (Ret (raw, a), u') \<and> collRouterSwapResult u' = collRouterSwapResult u \<and> sent u' = sent u) \<and>
     (\<forall>t raw a. \<exists>p. mpcSignTransaction br t raw a = Inr p) \<and>
     (\<forall>t raw a tx h. mpcSignTransaction br t raw a = Inr (tx, h) \<longrightarrow> (\<forall>t'. sendTransaction br t' tx = (h, None))) \<and>
     (\<exists>cfg. GetRouterServerConfig (prm (toks (rtr E))) = Some cfg \<and> (\<forall>c. 0 \<le> int_entry (RetrySendTxLoopCount cfg) c))"

definition signed_by :: "IBridge \<Rightarrow> opaque \<Rightarrow> string \<Rightarrow> bool" where
  "signed_by br tx h \<longleftrightarrow> (\<exists>t raw a. mpcSignTransaction br t raw a = Inr (tx, h))"

lemma succeeds_buildSignRecord:
  assumes "working matches (swap_args_key args) (mgo E)" and "RouterBridges (rtr E) (toChain args) = Some br" and "serving E br args"
    and "collRouterSwapResult s (swap_args_key args) = Some d" and "exact matches (collRouterSwapResult s) (swap_args_key args)"
    and "untouched d"
  shows "succeeds (buildSignRecord E args) (\<lambda>(b, tx, h, a) s'. b = br \<and> signed_by br tx h \<and> sent s' = sent s) s"
proof -
  obtain raw a u where b: "buildRaw E br args s = (Ret (raw, a), u)" "collRouterSwapResult u = collRouterSwapResult s" "sent u = sent s"
    using assms(3) unfolding serving_def by metis
  obtain tx h where p: "mpcSignTransaction br (tick u) raw a = Inr (tx, h)"
    using assms(3) unfolding serving_def by (metis prod.collapse)
  have key: "GetRouterSwapKey (fromChain args) (args_SwapID (swapArgs args)) (args_LogIndex (swapArgs args)) = swap_args_key args"
    by (simp add: swap_args_key_def fromChain_def)
  let ?u = "u\<lparr>tick := Suc (tick u)\<rparr>"
  let ?c = "fromChain args" and ?t = "args_SwapID (swapArgs args)" and ?l = "args_LogIndex (swapArgs args)"
  have upd: "succeeds (updateRouterSwapResult E ?c ?t ?l m) (\<lambda>_ s'. sent s' = sent s) (?u\<lparr>tick := n, swapRing := r\<rparr>)" for m n r
    using assms(4-6) b(2,3) by (intro succeeds_first_update [OF assms(1) [folded key], where d = d]) (simp_all add: key)
  have rec: "succeeds (sbind (db (FindRouterSwapResult (mgo E) ?c ?t ?l)) (\<lambda>res. sbind (preventReswap E res) (\<lambda>_.
      sbind (addSwapHistory ?c ?t ?l h) (\<lambda>_. sbind (updateRouterSwapResult E ?c ?t ?l m) (\<lambda>_. sret (br, tx, h, a))))))
      (\<lambda>(b, tx', h', a') s'. b = br \<and> signed_by br tx' h' \<and> sent s' = sent s) ?u" for m
  proof (rule succeeds_sbind, unfold succeeds_db, rule succeeds_find [OF assms(1) [folded key], where d = d])
    show "collRouterSwapResult ?u (GetRouterSwapKey ?c ?t ?l) = Some d"
      and "exact matches (collRouterSwapResult ?u) (GetRouterSwapKey ?c ?t ?l)"
      using assms(4,5) b(2) by (simp_all add: key)
    have "signed_by br tx h" unfolding signed_by_def using p by blast
    then have "succeeds (sbind (updateRouterSwapResult E ?c ?t ?l m) (\<lambda>_. sret (br, tx, h, a)))
        (\<lambda>(b, tx', h', a') s'. b = br \<and> signed_by br tx' h' \<and> sent s' = sent s) (?u\<lparr>tick := n, swapRing := r\<rparr>)" for n r
      by (intro succeeds_sbind succeeds_mono [OF upd]) simp
    then show "succeeds (sbind (preventReswap E d) (\<lambda>_. sbind (addSwapHistory ?c ?t ?l h) (\<lambda>_.
        sbind (updateRouterSwapResult E ?c ?t ?l m) (\<lambda>_. sret (br, tx, h, a)))))
        (\<lambda>(b, tx', h', a') s'. b = br \<and> signed_by br tx' h' \<and> sent s' = sent s) (?u\<lparr>tick := Suc (tick ?u)\<rparr>)"
      by (intro succeeds_sbind succeeds_preventReswap [OF assms(6)]) (simp add: addSwapHistory_def)
  qed
  have sign: "mpcSign E br raw a u = (Ret (tx, h), ?u)" using p by (simp add: mpcSign_def sbind_def extern_def sret_def)
  have bridge: "bridge_of E (toChain args) s = (Ret br, s)" by (simp add: outcome_simps assms(2))
  show ?thesis
    using rec unfolding succeeds_def buildSignRecord_def Let_def
    by (simp add: sbind_def [of "bridge_of E (toChain args)"] sbind_def [of "buildRaw E br args"] sbind_def [of "mpcSign E br raw a"] bridge b(1) sign)
qed

lemma succeeds_sendAndCheckHash:
  assumes "serving E br args" and "signed_by br tx h"
  shows "succeeds (sendAndCheckHash E br tx h a c t l) (\<lambda>_ s'. sent s' = sent s @ [tx]) s"
proof -
  from assms(1) obtain cfg where cfg: "GetRouterServerConfig (prm (toks (rtr E))) = Some cfg"
    and n: "0 \<le> int_entry (RetrySendTxLoopCount cfg) (toChain a)" unfolding serving_def by blast
  have tx: "sendTransaction br t' tx = (h, None)" for t' using assms unfolding serving_def signed_by_def by blast
  have send: "send br tx s = (Ret (h, None), s\<lparr>sent := sent s @ [tx], tick := Suc (tick s)\<rparr>)"
    by (simp add: send_def sbind_def supd_def extern_def tx)
  have loops: "send_loops (Suc k) br tx s = (Ret (h, None), s\<lparr>sent := sent s @ [tx], tick := Suc (tick s)\<rparr>)" for k
    by (simp add: sbind_def send sret_def numeral_3_eq_3)
  let ?n = "int_entry (RetrySendTxLoopCount cfg) (toChain a)"
  obtain k where k: "nat (if ?n = 0 then 2 else ?n) = Suc k" using n by (cases "nat (if ?n = 0 then 2 else ?n)") (auto split: if_splits)
  have "succeeds (sendSignedTransaction E br tx a) (\<lambda>(h', err) s'. h' = h \<and> err = None \<and> sent s' = sent s @ [tx]) s"
    unfolding sendSignedTransaction_def server_config_def Let_def cfg non_nil_def option.case
    by (simp add: succeeds_def sbind_def slift_def k loops del: send_loops.simps) (simp add: supd_def sret_def)
  then show ?thesis
    unfolding sendAndCheckHash_def by (intro succeeds_sbind) (erule succeeds_mono, auto)
qed

text \<open>
  C8: a swap is sent while everything works. With swaps processed one after the other, a database
  that answers, a target bridge that builds, signs and accepts transactions, a result that
  nothing was sent for and that only its own key finds, and no attempt in progress, \<open>doSwap\<close>
  returns without an error after it handed exactly one transaction, signed by the network, to
  the node.
\<close>

theorem doSwap_delivers:
  assumes "working matches (swap_args_key args) (mgo E)" and "RouterBridges (rtr E) (toChain args) = Some br" and "serving E br args"
    and "\<not> IsParallelSwapEnabled (prm (toks (rtr E)))" and "swap_args_key args \<notin> cachedSwapTasks s"
    and "collRouterSwapResult s (swap_args_key args) = Some d" and "exact matches (collRouterSwapResult s) (swap_args_key args)"
    and "untouched d"
  shows "\<exists>tx h. signed_by br tx h \<and> fst (doSwap E args s) = Ret () \<and> sent (snd (doSwap E args s)) = sent s @ [tx]"
proof -
  let ?P = "\<lambda>_ s'. \<exists>tx h. signed_by br tx h \<and> sent s' = sent s @ [tx]"
  have key: "GetRouterSwapKey (fromChain args) (args_SwapID (swapArgs args)) (args_LogIndex (swapArgs args)) = swap_args_key args"
    by (simp add: swap_args_key_def fromChain_def)
  have rest: "succeeds (sbind (now E) (\<lambda>nw. sbind (db (UpdateRouterSwapStatus (mgo E) c t l TxProcessed nw '''')) (\<lambda>_.
      sendAndCheckHash E br tx h a c t l))) ?P u" if u: "sent u = sent s" and h: "signed_by br tx h" for tx h a c t l u
  proof (intro succeeds_sbind succeeds_now, unfold succeeds_db UpdateRouterSwapStatus_def,
      intro succeeds_sbind, unfold succeeds_sguard, intro conjI succeeds_sbind succeeds_updateSwap [OF assms(1)])
    show "TxProcessed \<noteq> TxNotStable" by (simp add: swap_statuses)
    have "succeeds (sendAndCheckHash E br tx h a c t l) ?P u'" if "sent u' = sent s" for u'
      by (rule succeeds_mono [OF succeeds_sendAndCheckHash [OF assms(3) h]]) (use h that in auto)
    then show "succeeds (mgo_return None) (\<lambda>_. succeeds (sendAndCheckHash E br tx h a c t l) ?P)
        (u\<lparr>tick := Suc (tick u), tick := n, collRouterSwap := x\<rparr>)" for n x
      by (simp add: mgo_return_def mgoError_def u)
  qed
  have swap: "succeeds (sbind (uncache_on_failure (swap_args_key args) (buildSignRecord E args)) (\<lambda>(b, tx, h, a). sbind (now E) (\<lambda>nw.
      sbind (db (UpdateRouterSwapStatus (mgo E) (fromChain args) (args_SwapID (swapArgs args)) (args_LogIndex (swapArgs args)) TxProcessed nw ''''))
      (\<lambda>_. sendAndCheckHash E b tx h a (fromChain args) (args_SwapID (swapArgs args)) (args_LogIndex (swapArgs args)))))) ?P
      (s\<lparr>tick := n, cachedSwapTasks := c\<rparr>)" for n c
    using assms(6,7)
    by (intro succeeds_sbind succeeds_uncache succeeds_mono [OF succeeds_buildSignRecord [OF assms(1-3) _ _ assms(8)]])
       (auto simp: rest simp del: ex_simps)
  have cache: "\<exists>n c. checkAndUpdateProcessSwapTaskCache E (swap_args_key args) s = (Ret (), s\<lparr>tick := n, cachedSwapTasks := c\<rparr>)"
  proof (cases "maxCachedSwapTasks \<le> card (cachedSwapTasks s)")
    case True
    with assms(5) show ?thesis
      by (auto simp: checkAndUpdateProcessSwapTaskCache_def sget_def sbind_def extern_def supd_def)
  next
    case False
    have "s\<lparr>cachedSwapTasks := c\<rparr> = s\<lparr>tick := tick s, cachedSwapTasks := c\<rparr>" for c by simp
    with False assms(5) show ?thesis
      unfolding checkAndUpdateProcessSwapTaskCache_def
      by (intro exI [of _ "tick s"] exI) (simp add: sget_def sbind_def supd_def sret_def)
  qed
  have "succeeds (doSwap E args) ?P s"
    unfolding doSwap_def Let_def key if_not_P [OF assms(4)]
    using cache by (intro succeeds_sbind) (auto simp: succeeds_def [of "checkAndUpdateProcessSwapTaskCache E k" for k] swap simp del: ex_simps)
  then show ?thesis by (auto simp: succeeds_def)
qed

theorem doSwap_delivers_witness:
  "\<exists>tx h. signed_by signing_bridge tx h \<and> sent (snd (doSwap sample_worker sample_build waiting_world)) = sent waiting_world @ [tx]"
proof -
  have w: "working (known two_keys) (swap_args_key sample_build) (mgo sample_worker)"
  proof -
    have o: "occurs ''1:0xab:10'' ''1:0xab:10''" by code_simp
    show ?thesis unfolding working_def sample_build_key
      by (simp add: sample_worker_def memory_env_def memory_coll_def two_keys_def o split: option.split)
  qed
  have s: "serving sample_worker signing_bridge sample_build"
    by (auto simp: serving_def sample_worker_def signing_bridge_def sret_def reswap_router_def sample_params_def GetRouterServerConfig_def
        zero_server_def int_entry_def)
  have b: "RouterBridges (rtr sample_worker) (toChain sample_build) = Some signing_bridge" by (simp add: sample_worker_def)
  have p: "\<not> IsParallelSwapEnabled (prm (toks (rtr sample_worker)))" by code_simp
  have c: "swap_args_key sample_build \<notin> cachedSwapTasks waiting_world" by code_simp
  have r: "collRouterSwapResult waiting_world (swap_args_key sample_build) = Some (result_doc 10 MatchTxEmpty 0 '''')"
    by (simp add: sample_build_key waiting_world_def waiting_swap_def store.extend_def)
  have u: "untouched (result_doc 10 MatchTxEmpty 0 '''')" by code_simp
  have e: "exact (known two_keys) (collRouterSwapResult waiting_world) (swap_args_key sample_build)"
    unfolding sample_build_key by (rule exact_known)
  from doSwap_delivers [OF w b s p c r e u] show ?thesis by blast
qed

end
