(* ===== verification/AbiCoder.thy ===== *)
theory AbiCoder
  imports Common
begin

text \<open>
  Package \<open>tokens/eth/abicoder\<close>: packing of call arguments in the layout of the Solidity ABI
  (\<open>PackData\<close>: one 32-byte head word per argument, dynamic arguments appended as a tail whose
  offset is in the head word) and the parsers the log verifiers use on untrusted log data.
  Offsets and lengths are \<open>uint64\<close>; the bounds checks of the parsers wrap around, as in the
  code. The lemmas show the round trip of every argument kind and exactly when a parser panics.
\<close>

datatype abi_error = ErrParseDataError | FatalUnsupported

section \<open>decode.go\<close>

definition parseSliceInData :: "bytes \<Rightarrow> nat \<Rightarrow> (abi_error, nat \<times> nat) outcome" where
  "parseSliceInData data pos =
     obind (GetUint64 data pos 32) (\<lambda>(offset, overflow).
       if overflow then Err ErrParseDataError
       else obind (GetUint64 data offset 32) (\<lambda>(len, overflow).
         if overflow then Err ErrParseDataError
         else let offset = u64_add offset 32 in
           if length data < u64_add offset (u64_mul len 32) then Err ErrParseDataError
           else Ret (offset, len)))"

text \<open>The element loop: \<open>n\<close> iterations, the offset advancing by 32.\<close>

fun elem_loop :: "(nat \<Rightarrow> (abi_error, 'b) outcome) \<Rightarrow> nat \<Rightarrow> nat \<Rightarrow> (abi_error, 'b list) outcome" where
  "elem_loop f offset 0 = Ret []"
| "elem_loop f offset (Suc n) =
     obind (f offset) (\<lambda>x. obind (elem_loop f (u64_add offset 32) n) (\<lambda>xs. Ret (x # xs)))"

definition ParseAddressSliceInData :: "bytes \<Rightarrow> nat \<Rightarrow> (abi_error, string list) outcome" where
  "ParseAddressSliceInData data pos =
     obind (parseSliceInData data pos) (\<lambda>(offset, len).
       obind (go_make 16 len) (\<lambda>_.
         elem_loop (\<lambda>off. obind (GetData data off 32) (\<lambda>d. Ret (LowerHex (BytesToAddress d))))
           offset len))"

definition ParseAddressSliceAsAddressesInData :: "bytes \<Rightarrow> nat \<Rightarrow> (abi_error, Address list) outcome" where
  "ParseAddressSliceAsAddressesInData data pos =
     obind (parseSliceInData data pos) (\<lambda>(offset, len).
       obind (go_make 20 len) (\<lambda>_.
         elem_loop (\<lambda>off. obind (GetData data off 32) (\<lambda>d. Ret (BytesToAddress d))) offset len))"

definition ParseNumberSliceInData :: "bytes \<Rightarrow> nat \<Rightarrow> (abi_error, string list) outcome" where
  "ParseNumberSliceInData data pos =
     obind (parseSliceInData data pos) (\<lambda>(offset, len).
       obind (go_make 16 len) (\<lambda>_.
         elem_loop (\<lambda>off. obind (GetBigInt data off 32) (\<lambda>v. Ret (big_String v))) offset len))"

definition ParseNumberSliceAsBigIntsInData :: "bytes \<Rightarrow> nat \<Rightarrow> (abi_error, int list) outcome" where
  "ParseNumberSliceAsBigIntsInData data pos =
     obind (parseSliceInData data pos) (\<lambda>(offset, len).
       obind (go_make 8 len) (\<lambda>_. elem_loop (\<lambda>off. GetBigInt data off 32) offset len))"

definition ParseBytesInData :: "bytes \<Rightarrow> nat \<Rightarrow> (abi_error, bytes) outcome" where
  "ParseBytesInData data pos =
     obind (GetUint64 data pos 32) (\<lambda>(offset, overflow).
       if overflow then Err ErrParseDataError
       else obind (GetUint64 data offset 32) (\<lambda>(len, overflow).
         if overflow then Err ErrParseDataError
         else if length data < u64_add (u64_add offset 32) len then Err ErrParseDataError
         else GetData data (u64_add offset 32) len))"

definition ParseStringInData :: "bytes \<Rightarrow> nat \<Rightarrow> (abi_error, string) outcome" where
  "ParseStringInData data pos =
     obind (GetUint64 data pos 32) (\<lambda>(offset, overflow).
       if overflow then Err ErrParseDataError
       else obind (GetUint64 data offset 32) (\<lambda>(len, overflow).
         if overflow then Err ErrParseDataError
         else if length data < u64_add (u64_add offset 32) len then Err ErrParseDataError
         else obind (GetData data (u64_add offset 32) len) (\<lambda>d. Ret (bytes_str d))))"

definition ParseStringSliceInData :: "bytes \<Rightarrow> nat \<Rightarrow> (abi_error, string list) outcome" where
  "ParseStringSliceInData data pos =
     obind (parseSliceInData data pos) (\<lambda>(offset, len).
       obind (go_slice data offset (length data)) (\<lambda>data.
         obind (go_make 16 len) (\<lambda>_. elem_loop (ParseStringInData data) 0 len)))"

definition ParseBytesSliceInData :: "bytes \<Rightarrow> nat \<Rightarrow> (abi_error, bytes list) outcome" where
  "ParseBytesSliceInData data pos =
     obind (parseSliceInData data pos) (\<lambda>(offset, len).
       obind (go_slice data offset (length data)) (\<lambda>data.
         obind (go_make 24 len) (\<lambda>_. elem_loop (ParseBytesInData data) 0 len)))"

section \<open>encode.go\<close>

text \<open>A \<open>*big.Int\<close> argument may be nil.\<close>

datatype abi_arg =
    AHash Hash
  | AAddress Address
  | ABigInt "int option"
  | AString string
  | ABytes bytes
  | AHexBytes bytes
  | AUint64 nat
  | AInt64 int
  | AInt int
  | AUint8 nat
  | AAddressSlice "Address list"
  | ABigIntSlice "int option list"
  | AStringSlice "string list"
  | AHexBytesSlice "bytes list"
  | ABytesSlice "bytes list"
  | AUnsupported

definition packHash :: "Hash \<Rightarrow> bytes" where
  "packHash h = h"

definition packAddress :: "Address \<Rightarrow> bytes" where
  "packAddress a = Address_Hash a"

definition packBigInt :: "int option \<Rightarrow> bytes" where
  "packBigInt bi = LeftPadBytes (case bi of None \<Rightarrow> [] | Some v \<Rightarrow> big_Bytes v) 32"

definition packBytes :: "bytes \<Rightarrow> bytes" where
  "packBytes data =
     (let bsLen = length data; paddedLen = (bsLen + 31) div 32 * 32;
          bs = replicate (32 + paddedLen) 0;
          bs = copy_at bs 0 (take 32 (packBigInt (Some (int bsLen))))
      in copy_at bs 32 data)"

definition packString :: "string \<Rightarrow> bytes" where
  "packString str =
     (let strLen = length str; paddedStrLen = (strLen + 31) div 32 * 32;
          bs = replicate (32 + paddedStrLen) 0;
          bs = copy_at bs 0 (take 32 (packBigInt (Some (int strLen))))
      in copy_at bs 32 (str_bytes str))"

fun copy_elems :: "nat \<Rightarrow> bytes list \<Rightarrow> bytes \<Rightarrow> bytes" where
  "copy_elems i [] bs = bs"
| "copy_elems i (e # es) bs = copy_elems (Suc i) es (copy_at bs ((i + 1) * 32) e)"

definition packAddressSlice :: "Address list \<Rightarrow> bytes" where
  "packAddressSlice addrs =
     (let len = length addrs; bs = replicate ((1 + len) * 32) 0;
          bs = copy_at bs 0 (take 32 (packBigInt (Some (int len))))
      in copy_elems 0 (map Address_Hash addrs) bs)"

definition packBigIntSlice :: "int option list \<Rightarrow> bytes" where
  "packBigIntSlice biSlice =
     (let len = length biSlice; bs = replicate ((1 + len) * 32) 0;
          bs = copy_at bs 0 (take 32 (packBigInt (Some (int len))))
      in copy_elems 0 (map packBigInt biSlice) bs)"

text \<open>The inner block of a slice of dynamic elements: heads, then the packed elements.\<close>

fun pack_inner :: "nat \<Rightarrow> bytes list \<Rightarrow> bytes \<Rightarrow> bytes" where
  "pack_inner i [] bsInner = bsInner"
| "pack_inner i (p # ps) bsInner =
     pack_inner (Suc i) ps
       (copy_at bsInner (i * 32) (packBigInt (Some (int (length bsInner)))) @ p)"

definition packStringSlice :: "string list \<Rightarrow> bytes" where
  "packStringSlice strSlice =
     (let len = length strSlice
      in packBigInt (Some (int len)) @
         pack_inner 0 (map packString strSlice) (replicate (len * 32) 0))"

definition packHexBytesSlice :: "bytes list \<Rightarrow> bytes" where
  "packHexBytesSlice bsSlice =
     (let len = length bsSlice
      in packBigInt (Some (int len)) @
         pack_inner 0 (map packBytes bsSlice) (replicate (len * 32) 0))"

definition packBytesSlice :: "bytes list \<Rightarrow> bytes" where
  "packBytesSlice bsSlice =
     (let len = length bsSlice
      in packBigInt (Some (int len)) @
         pack_inner 0 (map packBytes bsSlice) (replicate (len * 32) 0))"

text \<open>A dynamic argument: its offset in the head word \<open>i\<close>, its encoding appended.\<close>

definition pack_dynamic :: "nat \<Rightarrow> bytes \<Rightarrow> bytes \<Rightarrow> bytes" where
  "pack_dynamic i bs p = copy_at bs (i * 32) (packBigInt (Some (int (length bs)))) @ p"

fun pack_arg :: "nat \<Rightarrow> abi_arg \<Rightarrow> bytes \<Rightarrow> (abi_error, bytes) outcome" where
  "pack_arg i (AHash v) bs = Ret (copy_at bs (i * 32) (packHash v))"
| "pack_arg i (AAddress v) bs = Ret (copy_at bs (i * 32) (packAddress v))"
| "pack_arg i (ABigInt v) bs = Ret (copy_at bs (i * 32) (take 32 (packBigInt v)))"
| "pack_arg i (AString v) bs = Ret (pack_dynamic i bs (packString v))"
| "pack_arg i (ABytes v) bs = Ret (pack_dynamic i bs (packBytes v))"
| "pack_arg i (AHexBytes v) bs = Ret (pack_dynamic i bs (packBytes v))"
| "pack_arg i (AUint64 v) bs = Ret (copy_at bs (i * 32) (packBigInt (Some (int v))))"
| "pack_arg i (AInt64 v) bs = Ret (copy_at bs (i * 32) (packBigInt (Some v)))"
| "pack_arg i (AInt v) bs = Ret (copy_at bs (i * 32) (packBigInt (Some v)))"
| "pack_arg i (AUint8 v) bs = Ret (copy_at bs (i * 32) (packBigInt (Some (int v))))"
| "pack_arg i (AAddressSlice v) bs = Ret (pack_dynamic i bs (packAddressSlice v))"
| "pack_arg i (ABigIntSlice v) bs = Ret (pack_dynamic i bs (packBigIntSlice v))"
| "pack_arg i (AStringSlice v) bs = Ret (pack_dynamic i bs (packStringSlice v))"
| "pack_arg i (AHexBytesSlice v) bs = Ret (pack_dynamic i bs (packHexBytesSlice v))"
| "pack_arg i (ABytesSlice v) bs = Ret (pack_dynamic i bs (packBytesSlice v))"
| "pack_arg i AUnsupported bs = Err FatalUnsupported"

fun pack_args :: "nat \<Rightarrow> abi_arg list \<Rightarrow> bytes \<Rightarrow> (abi_error, bytes) outcome" where
  "pack_args i [] bs = Ret bs"
| "pack_args i (a # as) bs = obind (pack_arg i a bs) (pack_args (Suc i) as)"

definition PackData :: "abi_arg list \<Rightarrow> (abi_error, bytes) outcome" where
  "PackData args = pack_args 0 args (replicate (length args * 32) 0)"

definition PackDataWithFuncHash :: "bytes \<Rightarrow> abi_arg list \<Rightarrow> (abi_error, bytes) outcome" where
  "PackDataWithFuncHash funcHash args =
     obind (PackData args) (\<lambda>packData.
       let bs = replicate (4 + length packData) 0;
           bs = copy_at bs 0 (take 4 funcHash)
       in Ret (copy_at bs 4 packData))"

section \<open>Sub-blocks of the data\<close>

named_theorems block_laws "where a block lies in the data"

definition block_at :: "bytes \<Rightarrow> nat \<Rightarrow> bytes \<Rightarrow> bool" where
  "block_at data off p \<longleftrightarrow> off + length p \<le> length data \<and> take (length p) (drop off data) = p"

abbreviation word32 :: "nat \<Rightarrow> bytes" where
  "word32 n \<equiv> packBigInt (Some (int n))"

lemma block_at_append [block_laws]:
  "block_at data off (p @ q) \<longleftrightarrow> block_at data off p \<and> block_at data (off + length p) q"
  by (auto simp: block_at_def take_add append_eq_append_conv add.assoc add.commute)

lemma block_at_all: "data = pre @ p @ post \<Longrightarrow> block_at data (length pre) p"
  by (simp add: block_at_def)

lemma block_at_prefix: "block_at data off p \<Longrightarrow> block_at (data @ rest) off p"
  by (auto simp: block_at_def)

lemma block_at_drop: "off \<le> length data \<Longrightarrow> block_at (drop off data) k p = block_at data (off + k) p"
  by (auto simp: block_at_def add.commute)

lemma length_packBigInt: "\<bar>v\<bar> < 2 ^ 256 \<Longrightarrow> length (packBigInt (Some v)) = 32"
proof -
  assume "\<bar>v\<bar> < 2 ^ 256"
  then have "nat \<bar>v\<bar> < 256 ^ 32" by (simp add: nat_less_iff)
  then have "length (be_bytes (nat \<bar>v\<bar>)) \<le> 32" by (rule length_be_bytes_le)
  then show ?thesis by (simp add: packBigInt_def LeftPadBytes_eq big_Bytes_def)
qed

lemma length_packBigInt_ge [simp]: "32 \<le> length (packBigInt v)"
  by (simp add: packBigInt_def LeftPadBytes_eq)

lemma length_packBigInt_None [simp]: "length (packBigInt None) = 32"
  by (simp add: packBigInt_def LeftPadBytes_eq)

lemma length_word32 [simp]: "n < W64 \<Longrightarrow> length (word32 n) = 32"
  by (rule length_packBigInt) (simp add: W64_def)

lemma be_val_packBigInt [simp]: "be_val (packBigInt (Some v)) = nat \<bar>v\<bar>"
  by (simp add: packBigInt_def be_val_LeftPadBytes big_Bytes_def)

lemma GetBigInt_block:
  assumes "block_at data off p" and "length p = 32" and "length data < W64"
  shows "GetBigInt data off 32 = Ret (int (be_val p))"
  using assms by (auto simp: block_at_def intro: GetBigInt_inside [THEN trans])

lemma GetUint64_block:
  assumes "block_at data off (word32 n)" and "n < W64" and "length data < W64"
  shows "GetUint64 data off 32 = Ret (n, False)"
  unfolding GetUint64_def using assms(2) by (subst GetBigInt_block [OF assms(1) _ assms(3)]) simp_all

lemma GetData_block:
  assumes "block_at data off p" and "length data < 2 ^ 63"
  shows "GetData data off (length p) = Ret p"
  using assms GetData_inside [of off "length p" data] by (simp add: block_at_def)

lemma packBytes_eq:
  assumes "length b < W64"
  shows "\<exists>z. packBytes b = word32 (length b) @ b @ replicate z 0"
proof -
  let ?p = "(length b + 31) div 32 * 32"
  have le: "length b \<le> ?p" by presburger
  have "copy_at (replicate (32 + ?p) 0) 0 (take 32 (word32 (length b))) = word32 (length b) @ replicate ?p 0"
    using assms by (simp add: copy_at_def)
  then have "packBytes b = word32 (length b) @ b @ replicate (?p - length b) 0"
    using assms le by (simp add: packBytes_def Let_def copy_at_def)
  then show ?thesis by blast
qed

lemma packString_packBytes: "packString s = packBytes (str_bytes s)"
  by (simp add: packString_def packBytes_def)

lemma copy_elems_eq:
  assumes "\<And>e. e \<in> set es \<Longrightarrow> length e = 32"
    and "length pre = (i + 1) * 32" and "length zs = length es * 32"
  shows "copy_elems i es (pre @ zs) = pre @ concat es"
  using assms
proof (induction es arbitrary: i pre zs)
  case Nil
  then show ?case by simp
next
  case (Cons e es)
  have e: "length e = 32" using Cons.prems(1) by simp
  have "copy_at (pre @ zs) ((i + 1) * 32) e = (pre @ e) @ drop 32 zs"
    using Cons.prems e by (simp add: copy_at_def)
  moreover have "copy_elems (Suc i) es ((pre @ e) @ drop 32 zs) = (pre @ e) @ concat es"
    using Cons.prems e by (intro Cons.IH) simp_all
  ultimately show ?case by simp
qed

lemma head_word_copy:
  "n < W64 \<Longrightarrow> copy_at (replicate ((1 + k) * 32) 0) 0 (take 32 (word32 n)) = word32 n @ replicate (k * 32) 0"
  by (simp add: copy_at_def)

lemma packAddressSlice_eq:
  "length addrs < W64 \<Longrightarrow>
   packAddressSlice addrs = word32 (length addrs) @ concat (map Address_Hash addrs)"
  unfolding packAddressSlice_def Let_def
  by (subst head_word_copy, assumption, subst copy_elems_eq) (auto simp: HashLength_def)

lemma packBigIntSlice_eq:
  assumes "length bis < W64" and "\<And>b. b \<in> set bis \<Longrightarrow> length (packBigInt b) = 32"
  shows "packBigIntSlice bis = word32 (length bis) @ concat (map packBigInt bis)"
  unfolding packBigIntSlice_def Let_def
  using assms by (simp only: head_word_copy [OF assms(1)]) (subst copy_elems_eq, auto)

section \<open>Parsing what was packed\<close>

lemma ParseBytesInData_block:
  assumes "block_at data pos (word32 off)" and "block_at data off (packBytes b)"
    and "length data < 2 ^ 63"
  shows "ParseBytesInData data pos = Ret b"
proof -
  have len: "length data < W64" using assms(3) by (simp add: W64_def)
  have "length b \<le> length (packBytes b)" by (simp add: packBytes_def Let_def)
  then have b: "length b < W64" and off: "off < W64"
    using assms(2) len by (auto simp: block_at_def)
  obtain z where p: "packBytes b = word32 (length b) @ b @ replicate z 0"
    using packBytes_eq [OF b] by blast
  have l: "block_at data off (word32 (length b))" and d: "block_at data (off + 32) b"
    using assms(2) b by (simp_all add: p block_laws)
  have fit: "off + 32 + length b \<le> length data" using d by (simp add: block_at_def)
  have "GetData data (off + 32) (length b) = (Ret b :: (abi_error, bytes) outcome)"
    by (rule GetData_block [OF d assms(3)])
  with fit len show ?thesis
    unfolding ParseBytesInData_def
    by (subst GetUint64_block [OF assms(1) off len], simp,
        subst GetUint64_block [OF l b len], simp)
qed

lemma ParseStringInData_bytes:
  "ParseStringInData data pos = obind (ParseBytesInData data pos) (\<lambda>d. Ret (bytes_str d))"
  by (auto simp: ParseStringInData_def ParseBytesInData_def obind_assoc
      intro!: arg_cong2 [where f = obind] ext split: prod.splits)

lemma ParseStringInData_block:
  assumes "block_at data pos (word32 off)" and "block_at data off (packString s)"
    and "length data < 2 ^ 63"
  shows "ParseStringInData data pos = Ret s"
  using ParseBytesInData_block [of data pos off "str_bytes s"] assms
  by (simp add: ParseStringInData_bytes packString_packBytes)

lemma elem_loop_Ret:
  assumes "off + 32 * length xs < W64"
    and "\<And>i. i < length xs \<Longrightarrow> f (off + 32 * i) = Ret (xs ! i)"
  shows "elem_loop f off (length xs) = Ret xs"
  using assms
proof (induction xs arbitrary: off)
  case Nil
  then show ?case by simp
next
  case (Cons x xs)
  have "f off = Ret x" using Cons.prems(2) [of 0] by simp
  moreover have "elem_loop f (off + 32) (length xs) = Ret xs"
  proof (rule Cons.IH)
    show "off + 32 + 32 * length xs < W64" using Cons.prems(1) by simp
    show "f (off + 32 + 32 * i) = Ret (xs ! i)" if "i < length xs" for i
      using Cons.prems(2) [of "Suc i"] that by (simp add: add.assoc)
  qed
  ultimately show ?case using Cons.prems(1) by simp
qed

lemma parseSliceInData_block:
  assumes "block_at data pos (word32 off)" and "block_at data off (word32 n)"
    and "off + 32 + n * 32 \<le> length data" and "length data < 2 ^ 63"
  shows "parseSliceInData data pos = Ret (off + 32, n)"
proof -
  have len: "length data < W64" using assms(4) by (simp add: W64_def)
  have n: "n < W64" and off: "off < W64" using assms(3) len by simp_all
  show ?thesis
    unfolding parseSliceInData_def using assms(3) len
    by (subst GetUint64_block [OF assms(1) off len], simp,
        subst GetUint64_block [OF assms(2) n len], simp)
qed

lemma block_at_concat:
  assumes "block_at data off (concat es)" and "\<And>e. e \<in> set es \<Longrightarrow> length e = k" and "i < length es"
  shows "block_at data (off + k * i) (es ! i)"
  using assms
proof (induction es arbitrary: off i)
  case Nil
  then show ?case by simp
next
  case (Cons e es)
  have e: "length e = k" using Cons.prems(2) by simp
  have h: "block_at data off e" and t: "block_at data (off + k) (concat es)"
    using Cons.prems(1) e by (simp_all add: block_laws)
  show ?case
  proof (cases i)
    case 0
    then show ?thesis using h by simp
  next
    case (Suc j)
    then have "block_at data (off + k + k * j) (es ! j)"
      using Cons.prems t by (intro Cons.IH) simp_all
    then show ?thesis using Suc by (simp add: add.assoc)
  qed
qed

lemma length_concat_words:
  "(\<And>e. e \<in> set es \<Longrightarrow> length e = k) \<Longrightarrow> length (concat es) = length es * k"
  by (induction es) simp_all

lemma go_make_small: "n * 32 \<le> 281474976710656 \<Longrightarrow> es \<le> 32 \<Longrightarrow> go_make es n = Ret ()"
  using order_trans [OF mult_le_mono2 [of es 32 n]] by (simp add: go_make_def)

section \<open>The head and tail layout\<close>

text \<open>
  Both \<open>PackData\<close> and the inner block of a slice place a list of items, each a static word or
  a dynamic block, into a buffer that starts with one head word per item.
\<close>

datatype item = Static bytes | Dynamic bytes

fun put_item :: "nat \<Rightarrow> item \<Rightarrow> bytes \<Rightarrow> bytes" where
  "put_item i (Static w) bs = copy_at bs (i * 32) w"
| "put_item i (Dynamic p) bs = pack_dynamic i bs p"

fun put_items :: "nat \<Rightarrow> item list \<Rightarrow> bytes \<Rightarrow> bytes" where
  "put_items i [] bs = bs"
| "put_items i (x # xs) bs = put_items (Suc i) xs (put_item i x bs)"

fun item_ok :: "item \<Rightarrow> bool" where
  "item_ok (Static w) = (length w = 32)"
| "item_ok (Dynamic p) = True"

lemma put_items_append:
  "put_items i (xs @ ys) bs = put_items (i + length xs) ys (put_items i xs bs)"
  by (induction xs arbitrary: i bs) simp_all

lemma pack_inner_items: "pack_inner i ps bs = put_items i (map Dynamic ps) bs"
  by (induction ps arbitrary: i bs) (simp_all add: pack_dynamic_def)

lemma length_put_item: "i * 32 \<le> length bs \<Longrightarrow> length bs \<le> length (put_item i x bs)"
  by (cases x) (simp_all add: pack_dynamic_def)

lemma length_put_items:
  "(i + length xs) * 32 \<le> length bs \<Longrightarrow> length bs \<le> length (put_items i xs bs)"
proof (induction xs arbitrary: i bs)
  case Nil
  then show ?case by simp
next
  case (Cons x xs)
  have "length bs \<le> length (put_item i x bs)" using Cons.prems by (intro length_put_item) simp
  moreover from this have "length (put_item i x bs) \<le> length (put_items (Suc i) xs (put_item i x bs))"
    using Cons.prems by (intro Cons.IH) simp
  ultimately show ?case by simp
qed

lemma block_at_copy_at:
  assumes "block_at bs off p" and "at + length q \<le> length bs"
    and "off + length p \<le> at \<or> at + length q \<le> off"
  shows "block_at (copy_at bs at q) off p"
proof -
  have len: "length (copy_at bs at q) = length bs" using assms(2) by simp
  from assms(3) have "take (length p) (drop off (copy_at bs at q)) = take (length p) (drop off bs)"
  proof
    assume le: "off + length p \<le> at"
    then have "take (off + length p) (copy_at bs at q) = take (off + length p) bs"
      using assms(2) by (intro take_copy_at) simp_all
    then show ?thesis by (metis drop_take add_diff_cancel_left')
  next
    assume "at + length q \<le> off"
    then have "drop off (copy_at bs at q) = drop off bs"
      using assms(1) by (intro drop_copy_at) (simp_all add: block_at_def)
    then show ?thesis by simp
  qed
  then show ?thesis using assms(1) len by (simp add: block_at_def)
qed

lemma block_at_put_item:
  assumes "block_at bs off p" and "item_ok x" and "length bs < W64"
    and "(i + 1) * 32 \<le> length bs" and "off + length p \<le> i * 32 \<or> (i + 1) * 32 \<le> off"
  shows "block_at (put_item i x bs) off p"
  using assms by (cases x) (auto simp: pack_dynamic_def intro!: block_at_copy_at block_at_prefix)

lemma block_at_put_items:
  assumes "block_at bs off p" and "\<And>x. x \<in> set xs \<Longrightarrow> item_ok x"
    and "length (put_items i xs bs) < W64" and "(i + length xs) * 32 \<le> length bs"
    and "off + length p \<le> i * 32 \<or> (i + length xs) * 32 \<le> off"
  shows "block_at (put_items i xs bs) off p"
  using assms
proof (induction xs arbitrary: i bs)
  case Nil
  then show ?case by simp
next
  case (Cons x xs)
  have 1: "length bs \<le> length (put_item i x bs)"
    using Cons.prems(4) by (intro length_put_item) simp
  have 2: "length bs \<le> length (put_items i (x # xs) bs)"
    using Cons.prems(4) by (intro length_put_items) simp
  have "block_at (put_item i x bs) off p"
    using Cons.prems 2 by (intro block_at_put_item) auto
  then show ?case using Cons.prems 1 by (simp, intro Cons.IH) auto
qed

lemma put_items_lookup:
  assumes "length bs = length xs * 32" and "\<And>x. x \<in> set xs \<Longrightarrow> item_ok x"
    and "length (put_items 0 xs bs) < W64" and "j < length xs"
  shows "case xs ! j of
      Static w \<Rightarrow> block_at (put_items 0 xs bs) (j * 32) w
    | Dynamic p \<Rightarrow> \<exists>off. block_at (put_items 0 xs bs) (j * 32) (word32 off)
                        \<and> block_at (put_items 0 xs bs) off p"
proof -
  define pre post x where "pre = take j xs" and "post = drop (Suc j) xs" and "x = xs ! j"
  have xs: "xs = pre @ x # post" and j: "length pre = j"
    using assms(4) by (simp_all add: pre_def post_def x_def id_take_nth_drop)
  define b1 where "b1 = put_items 0 pre bs"
  define b2 where "b2 = put_item j x b1"
  have fs: "put_items 0 xs bs = put_items (Suc j) post b2"
    by (simp add: xs put_items_append b1_def b2_def j)
  have l1: "length xs * 32 \<le> length b1"
    using length_put_items [of 0 pre bs] assms(1) by (simp add: b1_def xs)
  have l2: "length b1 \<le> length b2" using l1 assms(4) by (simp add: b2_def length_put_item)
  have l3: "length b2 \<le> length (put_items (Suc j) post b2)"
    using l1 l2 by (intro length_put_items) (simp add: xs j)
  have lt: "length b1 < W64" using assms(3) l2 l3 by (simp add: fs)
  have keep: "block_at (put_items 0 xs bs) off p"
    if "block_at b2 off p" and "off + length p \<le> Suc j * 32 \<or> length xs * 32 \<le> off" for off p
    unfolding fs using that assms(2,3) l1 l2
    by (intro block_at_put_items) (auto simp: fs [symmetric] xs j)
  show ?thesis
  proof (cases x)
    case (Static w)
    then have w: "length w = 32" using assms(2) [of x] by (simp add: xs)
    then have "block_at b2 (j * 32) w"
      using Static l1 assms(4) take_drop_copy_at [of "j * 32" w b1] by (simp add: b2_def block_at_def)
    then show ?thesis using keep w Static by (simp add: x_def [symmetric])
  next
    case (Dynamic p)
    have w: "length (word32 (length b1)) = 32" using lt by simp
    have "block_at (copy_at b1 (j * 32) (word32 (length b1))) (j * 32) (word32 (length b1))"
      using l1 assms(4) w take_drop_copy_at [of "j * 32" "word32 (length b1)" b1]
      by (simp add: block_at_def)
    then have h: "block_at b2 (j * 32) (word32 (length b1))"
      using Dynamic by (simp add: b2_def pack_dynamic_def block_at_prefix)
    have "length (copy_at b1 (j * 32) (word32 (length b1))) = length b1"
      using l1 assms(4) by simp
    then have t: "block_at b2 (length b1) p"
      using Dynamic by (simp add: b2_def pack_dynamic_def block_at_def)
    from keep [OF h] keep [OF t] w l1 Dynamic show ?thesis
      by (auto simp: x_def [symmetric])
  qed
qed

section \<open>Round trip of the arguments\<close>

text \<open>Arguments as Go's types allow them: arrays of the right size, integers of their width.\<close>

definition big_fits :: "int option \<Rightarrow> bool" where
  "big_fits b = (case b of None \<Rightarrow> True | Some v \<Rightarrow> 0 \<le> v \<and> v < 2 ^ 256)"

fun arg_ok :: "abi_arg \<Rightarrow> bool" where
  "arg_ok (AHash h) = (length h = HashLength)"
| "arg_ok (AAddress a) = (length a = AddressLength)"
| "arg_ok (ABigInt v) = big_fits v"
| "arg_ok (AUint64 v) = (v < W64)"
| "arg_ok (AInt64 v) = (0 \<le> v \<and> v < 2 ^ 63)"
| "arg_ok (AInt v) = (0 \<le> v \<and> v < 2 ^ 63)"
| "arg_ok (AUint8 v) = (v < 256)"
| "arg_ok (AAddressSlice as) = list_all (\<lambda>a. length a = AddressLength) as"
| "arg_ok (ABigIntSlice bs) = list_all big_fits bs"
| "arg_ok AUnsupported = False"
| "arg_ok _ = True"

text \<open>What a parser gives back for each argument at its head position.\<close>

definition big_or_zero :: "int option \<Rightarrow> int" where
  "big_or_zero b = (case b of None \<Rightarrow> 0 | Some v \<Rightarrow> v)"

fun parsed_back :: "bytes \<Rightarrow> nat \<Rightarrow> abi_arg \<Rightarrow> bool" where
  "parsed_back data pos (AHash h) = (GetData data pos 32 = (Ret h :: (abi_error, bytes) outcome))"
| "parsed_back data pos (AAddress a) =
     (obind (GetData data pos 32) (\<lambda>d. Ret (BytesToAddress d)) = (Ret a :: (abi_error, bytes) outcome))"
| "parsed_back data pos (ABigInt v) =
     (GetBigInt data pos 32 = (Ret (big_or_zero v) :: (abi_error, int) outcome))"
| "parsed_back data pos (AString s) = (ParseStringInData data pos = Ret s)"
| "parsed_back data pos (ABytes b) = (ParseBytesInData data pos = Ret b)"
| "parsed_back data pos (AHexBytes b) = (ParseBytesInData data pos = Ret b)"
| "parsed_back data pos (AUint64 v) =
     (GetUint64 data pos 32 = (Ret (v, False) :: (abi_error, nat \<times> bool) outcome))"
| "parsed_back data pos (AInt64 v) = (GetBigInt data pos 32 = (Ret v :: (abi_error, int) outcome))"
| "parsed_back data pos (AInt v) = (GetBigInt data pos 32 = (Ret v :: (abi_error, int) outcome))"
| "parsed_back data pos (AUint8 v) =
     (GetBigInt data pos 32 = (Ret (int v) :: (abi_error, int) outcome))"
| "parsed_back data pos (AAddressSlice as) =
     (ParseAddressSliceAsAddressesInData data pos = Ret as
      \<and> ParseAddressSliceInData data pos = Ret (map LowerHex as))"
| "parsed_back data pos (ABigIntSlice bs) =
     (ParseNumberSliceAsBigIntsInData data pos = Ret (map big_or_zero bs)
      \<and> ParseNumberSliceInData data pos = Ret (map (big_String \<circ> big_or_zero) bs))"
| "parsed_back data pos (AStringSlice ss) = (ParseStringSliceInData data pos = Ret ss)"
| "parsed_back data pos (AHexBytesSlice bs) = (ParseBytesSliceInData data pos = Ret bs)"
| "parsed_back data pos (ABytesSlice bs) = (ParseBytesSliceInData data pos = Ret bs)"
| "parsed_back data pos AUnsupported = False"

fun arg_item :: "abi_arg \<Rightarrow> item" where
  "arg_item (AHash v) = Static (packHash v)"
| "arg_item (AAddress v) = Static (packAddress v)"
| "arg_item (ABigInt v) = Static (take 32 (packBigInt v))"
| "arg_item (AString v) = Dynamic (packString v)"
| "arg_item (ABytes v) = Dynamic (packBytes v)"
| "arg_item (AHexBytes v) = Dynamic (packBytes v)"
| "arg_item (AUint64 v) = Static (packBigInt (Some (int v)))"
| "arg_item (AInt64 v) = Static (packBigInt (Some v))"
| "arg_item (AInt v) = Static (packBigInt (Some v))"
| "arg_item (AUint8 v) = Static (packBigInt (Some (int v)))"
| "arg_item (AAddressSlice v) = Dynamic (packAddressSlice v)"
| "arg_item (ABigIntSlice v) = Dynamic (packBigIntSlice v)"
| "arg_item (AStringSlice v) = Dynamic (packStringSlice v)"
| "arg_item (AHexBytesSlice v) = Dynamic (packHexBytesSlice v)"
| "arg_item (ABytesSlice v) = Dynamic (packBytesSlice v)"
| "arg_item AUnsupported = Dynamic []"

lemma pack_arg_item: "arg_ok a \<Longrightarrow> pack_arg i a bs = Ret (put_item i (arg_item a) bs)"
  by (cases a) simp_all

lemma pack_args_items:
  "list_all arg_ok as \<Longrightarrow> pack_args i as bs = Ret (put_items i (map arg_item as) bs)"
  by (induction as arbitrary: i bs) (simp_all add: pack_arg_item)

lemma big_fits_length: "big_fits b \<Longrightarrow> length (packBigInt b) = 32"
  by (cases b) (simp_all add: big_fits_def length_packBigInt)

lemma be_val_big_fits: "big_fits b \<Longrightarrow> int (be_val (packBigInt b)) = big_or_zero b"
proof (cases b)
  case None
  have "packBigInt None = replicate 32 0" by (simp add: packBigInt_def LeftPadBytes_eq)
  then show ?thesis by (simp add: None big_or_zero_def del: replicate.simps)
qed (simp add: big_fits_def big_or_zero_def)

lemma item_ok_arg_item: "arg_ok a \<Longrightarrow> item_ok (arg_item a)"
  by (cases a) (simp_all add: packHash_def packAddress_def HashLength_def length_packBigInt W64_def big_fits_length)

lemma length_copy_elems: "(i + 1 + length es) * 32 \<le> length bs \<Longrightarrow> length (copy_elems i es bs) = length bs"
  by (induction es arbitrary: i bs) simp_all

lemma elem_loop_words:
  assumes "block_at data off (concat es)" and "\<And>e. e \<in> set es \<Longrightarrow> length e = 32"
    and "\<And>e pos. e \<in> set es \<Longrightarrow> block_at data pos e \<Longrightarrow> f pos = Ret (g e)"
    and "length data < W64"
  shows "elem_loop f off (length es) = Ret (map g es)"
proof -
  have "length (concat es) = length es * 32" by (rule length_concat_words) (rule assms(2))
  then have fit: "off + 32 * length es < W64"
    using assms(1,4) by (simp add: block_at_def)
  have "f (off + 32 * i) = Ret (map g es ! i)" if "i < length (map g es)" for i
    using that assms(3) block_at_concat [OF assms(1,2)] by simp
  then show ?thesis using elem_loop_Ret [of off "map g es" f] fit by simp
qed

lemma slice_header:
  assumes "block_at data pos (word32 off)" and "block_at data off (word32 (length es) @ concat es @ z)"
    and "\<And>e. e \<in> set es \<Longrightarrow> length e = 32" and "length data \<le> 281474976710656" and "k \<le> 32"
  shows "parseSliceInData data pos = Ret (off + 32, length es)"
    and "go_make k (length es) = (Ret () :: (abi_error, unit) outcome)"
    and "block_at data (off + 32) (concat es @ z)"
    and "off + 32 + length es * 32 \<le> length data"
proof -
  have lc: "length (concat es) = length es * 32" by (rule length_concat_words) (rule assms(3))
  have "length es < W64" using assms(2,4) lc by (simp add: block_at_def W64_def)
  then have w: "length (word32 (length es)) = 32" by simp
  from assms(2) w show b: "block_at data (off + 32) (concat es @ z)" by (simp add: block_laws)
  from assms(2) have h: "block_at data off (word32 (length es))" by (simp add: block_laws)
  from b lc show fit: "off + 32 + length es * 32 \<le> length data" by (simp add: block_at_def)
  show "parseSliceInData data pos = Ret (off + 32, length es)"
    using assms(4) by (intro parseSliceInData_block [OF assms(1) h fit]) simp
  show "go_make k (length es) = (Ret () :: (abi_error, unit) outcome)"
    using fit assms(4,5) by (intro go_make_small) simp_all
qed

lemma GetData_word:
  assumes "block_at data pos e" and "length e = 32" and "length data < 2 ^ 63"
  shows "GetData data pos 32 = Ret e"
  using GetData_block [OF assms(1,3)] assms(2) by simp

lemma ParseAddressSlice_block:
  assumes "block_at data pos (word32 off)" and "block_at data off (packAddressSlice as)"
    and "list_all (\<lambda>a. length a = AddressLength) as" and "length data \<le> 281474976710656"
  shows "ParseAddressSliceAsAddressesInData data pos = Ret as"
    and "ParseAddressSliceInData data pos = Ret (map LowerHex as)"
proof -
  have "length as < W64"
    using assms(2,4) length_copy_elems by (auto simp: block_at_def packAddressSlice_def Let_def W64_def)
  then have b: "block_at data off (word32 (length (map Address_Hash as)) @ concat (map Address_Hash as) @ [])"
    using assms(2) by (simp add: packAddressSlice_eq)
  have w: "length e = 32" if "e \<in> set (map Address_Hash as)" for e
    using that by (auto simp: HashLength_def)
  have len: "length data < 2 ^ 63" "length data < W64" using assms(4) by (simp_all add: W64_def)
  have el: "BytesToAddress e \<in> set as" "BytesToAddress e = BytesToAddress e"
    if "e \<in> set (map Address_Hash as)" for e
    using that assms(3) by (auto simp: list_all_iff)
  note hdr = slice_header [OF assms(1) b w assms(4)]
  have bk: "map BytesToAddress (map Address_Hash as) = as"
    using assms(3) by (auto simp: list_all_iff intro!: map_idI)
  have "elem_loop (\<lambda>q. obind (GetData data q 32) (\<lambda>d. Ret (BytesToAddress d))) (off + 32)
      (length (map Address_Hash as)) = Ret (map BytesToAddress (map Address_Hash as))"
    using hdr(3) [of 20] w len
    by (intro elem_loop_words) (simp_all add: GetData_word HashLength_def)
  then show "ParseAddressSliceAsAddressesInData data pos = Ret as"
    using hdr(1,2) [of 20] bk by (simp add: ParseAddressSliceAsAddressesInData_def)
  have "elem_loop (\<lambda>q. obind (GetData data q 32) (\<lambda>d. Ret (LowerHex (BytesToAddress d)))) (off + 32)
      (length (map Address_Hash as)) = Ret (map (\<lambda>e. LowerHex (BytesToAddress e)) (map Address_Hash as))"
    using hdr(3) [of 20] w len
    by (intro elem_loop_words) (simp_all add: GetData_word HashLength_def)
  moreover have "map (\<lambda>e. LowerHex (BytesToAddress e)) (map Address_Hash as) = map LowerHex as"
    using assms(3) by (auto simp: list_all_iff)
  ultimately show "ParseAddressSliceInData data pos = Ret (map LowerHex as)"
    using hdr(1,2) [of 16] by (simp add: ParseAddressSliceInData_def)
qed

lemma ParseNumberSlice_block:
  assumes "block_at data pos (word32 off)" and "block_at data off (packBigIntSlice bis)"
    and "list_all big_fits bis" and "length data \<le> 281474976710656"
  shows "ParseNumberSliceAsBigIntsInData data pos = Ret (map big_or_zero bis)"
    and "ParseNumberSliceInData data pos = Ret (map (big_String \<circ> big_or_zero) bis)"
proof -
  let ?es = "map packBigInt bis"
  have w: "length e = 32" if "e \<in> set ?es" for e
    using that assms(3) by (auto simp: list_all_iff big_fits_length)
  have "length bis < W64"
    using assms(2,4) length_copy_elems by (auto simp: block_at_def packBigIntSlice_def Let_def W64_def)
  then have b: "block_at data off (word32 (length ?es) @ concat ?es @ [])"
    using assms(2) w by (simp add: packBigIntSlice_eq)
  have len: "length data < W64" using assms(4) by (simp add: W64_def)
  note hdr = slice_header [OF assms(1) b w assms(4)]
  have bk: "map (\<lambda>e. int (be_val e)) ?es = map big_or_zero bis"
    using assms(3) by (auto simp: list_all_iff be_val_big_fits)
  have "elem_loop (\<lambda>q. GetBigInt data q 32) (off + 32) (length ?es) = Ret (map (\<lambda>e. int (be_val e)) ?es)"
    using hdr(3) [of 8] w len by (intro elem_loop_words) (simp_all add: GetBigInt_block)
  then show "ParseNumberSliceAsBigIntsInData data pos = Ret (map big_or_zero bis)"
    using hdr(1,2) [of 8] unfolding bk by (simp add: ParseNumberSliceAsBigIntsInData_def)
  have "elem_loop (\<lambda>q. obind (GetBigInt data q 32) (\<lambda>v. Ret (big_String v))) (off + 32) (length ?es)
      = Ret (map (\<lambda>e. big_String (int (be_val e))) ?es)"
    using hdr(3) [of 8] w len by (intro elem_loop_words) (simp_all add: GetBigInt_block)
  moreover have "map (\<lambda>e. big_String (int (be_val e))) ?es = map (big_String \<circ> big_or_zero) bis"
    using assms(3) by (auto simp: list_all_iff be_val_big_fits)
  ultimately show "ParseNumberSliceInData data pos = Ret (map (big_String \<circ> big_or_zero) bis)"
    using hdr(1,2) [of 16] by (simp add: ParseNumberSliceInData_def)
qed

lemma inner_header:
  assumes "block_at data pos (word32 off)"
    and "block_at data off (word32 (length ps) @ pack_inner 0 ps (replicate (length ps * 32) 0))"
    and "length data \<le> 281474976710656" and "k \<le> 32"
  shows "parseSliceInData data pos = Ret (off + 32, length ps)"
    and "go_make k (length ps) = (Ret () :: (abi_error, unit) outcome)"
    and "go_slice data (off + 32) (length data) = (Ret (drop (off + 32) data) :: (abi_error, bytes) outcome)"
    and "i < length ps \<Longrightarrow>
      \<exists>o'. block_at (drop (off + 32) data) (32 * i) (word32 o') \<and> block_at (drop (off + 32) data) o' (ps ! i)"
proof -
  let ?in = "pack_inner 0 ps (replicate (length ps * 32) 0)"
  let ?xs = "map Dynamic ps"
  have li: "length ps * 32 \<le> length ?in"
    using length_put_items [of 0 ?xs "replicate (length ps * 32) 0"] by (simp add: pack_inner_items)
  have lw: "length ?in < W64" using assms(2,3) by (simp add: block_at_def W64_def)
  have "length ps < W64" using li lw by simp
  then have w: "length (word32 (length ps)) = 32" by simp
  have h: "block_at data off (word32 (length ps))" and b: "block_at data (off + 32) ?in"
    using assms(2) w by (simp_all add: block_laws)
  have fit: "off + 32 + length ps * 32 \<le> length data" using b li by (simp add: block_at_def)
  show "parseSliceInData data pos = Ret (off + 32, length ps)"
    using assms(3) by (intro parseSliceInData_block [OF assms(1) h fit]) simp
  show "go_make k (length ps) = (Ret () :: (abi_error, unit) outcome)"
    using fit assms(3,4) by (intro go_make_small) simp_all
  show "go_slice data (off + 32) (length data) = (Ret (drop (off + 32) data) :: (abi_error, bytes) outcome)"
    using fit by (simp add: go_slice_Ret)
  have ok: "item_ok x" if "x \<in> set ?xs" for x using that by auto
  assume i: "i < length ps"
  have "drop (off + 32) data = ?in @ drop (length ?in) (drop (off + 32) data)"
    using b by (metis append_take_drop_id block_at_def)
  moreover obtain o' where "block_at ?in (i * 32) (word32 o')" "block_at ?in o' (ps ! i)"
    using put_items_lookup [of "replicate (length ps * 32) 0" ?xs i, OF _ ok] lw i
    by (auto simp: pack_inner_items)
  ultimately show "\<exists>o'. block_at (drop (off + 32) data) (32 * i) (word32 o') \<and> block_at (drop (off + 32) data) o' (ps ! i)"
    by (metis block_at_prefix mult.commute)
qed

lemma ParseBytesSlice_block:
  assumes "block_at data pos (word32 off)" and "block_at data off (packBytesSlice bs)"
    and "length data \<le> 281474976710656"
  shows "ParseBytesSliceInData data pos = Ret bs"
proof -
  let ?ps = "map packBytes bs"
  have b: "block_at data off (word32 (length ?ps) @ pack_inner 0 ?ps (replicate (length ?ps * 32) 0))"
    using assms(2) by (simp add: packBytesSlice_def Let_def)
  note hdr = inner_header [OF assms(1) b assms(3), of 24]
  have "elem_loop (ParseBytesInData (drop (off + 32) data)) 0 (length bs) = Ret bs"
  proof (rule elem_loop_Ret)
    have "length bs * 24 \<le> 281474976710656"
      using hdr(2) by (simp add: go_make_def split: if_splits)
    then show "0 + 32 * length bs < W64" by (simp add: W64_def)
    fix i assume i: "i < length bs"
    then obtain o' where "block_at (drop (off + 32) data) (32 * i) (word32 o')"
      "block_at (drop (off + 32) data) o' (packBytes (bs ! i))"
      using hdr(4) [of i] by auto
    then show "ParseBytesInData (drop (off + 32) data) (0 + 32 * i) = Ret (bs ! i)"
      using assms(3) by (simp add: ParseBytesInData_block)
  qed
  then show ?thesis using hdr(1,2,3) by (simp add: ParseBytesSliceInData_def)
qed

lemma ParseStringSlice_block:
  assumes "block_at data pos (word32 off)" and "block_at data off (packStringSlice ss)"
    and "length data \<le> 281474976710656"
  shows "ParseStringSliceInData data pos = Ret ss"
proof -
  let ?ps = "map packString ss"
  have b: "block_at data off (word32 (length ?ps) @ pack_inner 0 ?ps (replicate (length ?ps * 32) 0))"
    using assms(2) by (simp add: packStringSlice_def Let_def)
  note hdr = inner_header [OF assms(1) b assms(3), of 16]
  have "elem_loop (ParseStringInData (drop (off + 32) data)) 0 (length ss) = Ret ss"
  proof (rule elem_loop_Ret)
    have "length ss * 16 \<le> 281474976710656"
      using hdr(2) by (simp add: go_make_def split: if_splits)
    then show "0 + 32 * length ss < W64" by (simp add: W64_def)
    fix i assume i: "i < length ss"
    then obtain o' where "block_at (drop (off + 32) data) (32 * i) (word32 o')"
      "block_at (drop (off + 32) data) o' (packString (ss ! i))"
      using hdr(4) [of i] by auto
    then show "ParseStringInData (drop (off + 32) data) (0 + 32 * i) = Ret (ss ! i)"
      using assms(3) by (simp add: ParseStringInData_block)
  qed
  then show ?thesis using hdr(1,2,3) by (simp add: ParseStringSliceInData_def)
qed

lemma parsed_back_static:
  assumes "arg_item a = Static w" and "arg_ok a" and "block_at data pos w"
    and "length data \<le> 281474976710656"
  shows "parsed_back data pos a"
proof -
  have len: "length data < 2 ^ 63" "length data < W64" using assms(4) by (simp_all add: W64_def)
  have w: "length w = 32" using item_ok_arg_item [OF assms(2)] assms(1) by simp
  have d: "GetData data pos 32 = (Ret w :: (abi_error, bytes) outcome)"
    by (rule GetData_word [OF assms(3) w len(1)])
  have g: "GetBigInt data pos 32 = (Ret (int (be_val w)) :: (abi_error, int) outcome)"
    by (rule GetBigInt_block [OF assms(3) w len(2)])
  show ?thesis
    using assms(1,2) d g
    by (cases a) (auto simp: packHash_def packAddress_def GetUint64_def be_val_big_fits big_fits_length)
qed

lemma parsed_back_dynamic:
  assumes "arg_item a = Dynamic p" and "arg_ok a" and "block_at data pos (word32 off)"
    and "block_at data off p" and "length data \<le> 281474976710656"
  shows "parsed_back data pos a"
proof -
  have len: "length data < 2 ^ 63" using assms(5) by simp
  show ?thesis
    using assms len
    by (cases a) (auto simp: ParseBytesInData_block ParseStringInData_block ParseStringSlice_block
        ParseBytesSlice_block packHexBytesSlice_def packBytesSlice_def [symmetric]
        dest: ParseAddressSlice_block ParseNumberSlice_block)
qed

lemma PackData_total: "list_all arg_ok args \<Longrightarrow> \<exists>fs. PackData args = Ret fs"
  by (simp add: PackData_def pack_args_items)

lemma PackData_parsed_back:
  assumes "list_all arg_ok args" and "PackData args = Ret fs"
    and "length fs \<le> 281474976710656" and "i < length args"
  shows "parsed_back fs (i * 32) (args ! i)"
proof -
  let ?xs = "map arg_item args"
  let ?b = "replicate (length args * 32) 0"
  have fs: "fs = put_items 0 ?xs ?b"
    using assms(1,2) by (simp add: PackData_def pack_args_items)
  have ok: "item_ok x" if "x \<in> set ?xs" for x
    using that assms(1) by (auto simp: list_all_iff item_ok_arg_item)
  have lt: "length (put_items 0 ?xs ?b) < W64" using assms(3) by (simp add: fs [symmetric] W64_def)
  have a: "arg_ok (args ! i)" using assms(1,4) by (simp add: list_all_length)
  from put_items_lookup [of ?b ?xs i, OF _ ok lt] assms(4)
  have "case arg_item (args ! i) of Static w \<Rightarrow> block_at fs (i * 32) w
      | Dynamic p \<Rightarrow> \<exists>off. block_at fs (i * 32) (word32 off) \<and> block_at fs off p"
    unfolding fs by simp
  then show ?thesis
    using a assms(3)
    by (auto split: item.splits intro: parsed_back_static parsed_back_dynamic)
qed

section \<open>The bounds check of the parsers\<close>

lemma ParseBytesInData_cases:
  assumes "length data < 2 ^ 63" and "off + 32 \<le> length data" and "l < W64"
    and "GetUint64 data pos 32 = (Ret (off, False) :: (abi_error, nat \<times> bool) outcome)"
    and "GetUint64 data off 32 = (Ret (l, False) :: (abi_error, nat \<times> bool) outcome)"
  shows "ParseBytesInData data pos =
    (if off + 32 + l \<le> length data then Ret (take l (drop (off + 32) data))
     else if off + 32 + l < W64 \<or> length data < off + 32 + l - W64 then Err ErrParseDataError
     else Panic)"
proof -
  have len: "length data < W64" using assms(1) by (simp add: W64_def)
  have o32: "u64_add off 32 = off + 32" using assms(2) len by simp
  have eq: "ParseBytesInData data pos =
      (if length data < u64_add (off + 32) l then Err ErrParseDataError else GetData data (off + 32) l)"
    using assms(4,5) by (simp add: ParseBytesInData_def o32)
  show ?thesis
  proof (cases "off + 32 + l < W64")
    case True
    then show ?thesis
      using assms(1) by (simp add: eq GetData_inside)
  next
    case False
    then have wrap: "u64_add (off + 32) l = off + 32 + l - W64"
      using assms(2,3) len by (simp add: u64_add_def mod_if)
    then have "u64_add (off + 32) l < off + 32" using assms(3) False by linarith
    then have "length data \<ge> u64_add (off + 32) l \<Longrightarrow> GetData data (off + 32) l = (Panic :: (abi_error, bytes) outcome)"
      using assms(2) by (simp add: GetData_def Let_def go_slice_Panic)
    then show ?thesis using False wrap assms(2) len by (auto simp: eq)
  qed
qed

lemma pack_arg_Ret: "(\<exists>fs. pack_arg i a bs = Ret fs) \<longleftrightarrow> a \<noteq> AUnsupported"
  by (cases a) simp_all

lemma pack_args_Ret: "(\<exists>fs. pack_args i as bs = Ret fs) \<longleftrightarrow> AUnsupported \<notin> set as"
proof (induction as arbitrary: i bs)
  case (Cons a as)
  then show ?case using pack_arg_Ret [of i a bs] by (auto simp: outcome_simps)
qed simp

section \<open>Properties\<close>

text \<open>
  C27: the parsers of \<open>decode.go\<close> give back every argument in range that \<open>PackData\<close> encoded, at its
  head position: words, strings, byte strings and the slices of each, also when dynamic arguments
  precede or follow it. In range (\<open>arg_ok\<close>) are integers that are not negative and fit their type, big
  integers from 0 to \<open>2^256 - 1\<close>, and hashes and addresses of their length; the encoding is at most
  \<open>2^48\<close> bytes. (Other integers are encoded, too, but do not read back.)
\<close>

theorem PackData_roundtrip:
  assumes "list_all arg_ok args" and "PackData args = Ret fs" and "length fs \<le> 281474976710656"
  shows "list_all (\<lambda>i. parsed_back fs (i * 32) (args ! i)) [0..<length args]"
  using PackData_parsed_back [OF assms] by (simp add: list_all_iff)

theorem PackData_roundtrip_witness:
  "\<exists>fs. PackData [ABytes [7], AUint64 5] = Ret fs \<and> length fs = 128 \<and>
     list_all (\<lambda>i. parsed_back fs (i * 32) ([ABytes [7], AUint64 5] ! i)) [0..<length [ABytes [7], AUint64 5]]"
proof -
  obtain fs where fs: "PackData [ABytes [7], AUint64 5] = Ret fs"
    using pack_args_Ret [of 0 "[ABytes [7], AUint64 5]"] by (auto simp: PackData_def)
  have "length (word32 n) = 32" if "n < 1000" for n using that by (simp add: W64_def)
  then have len: "length fs = 128"
    using fs by (auto simp: PackData_def pack_dynamic_def packBytes_def Let_def)
  have "list_all arg_ok [ABytes [7], AUint64 5]" by (simp add: W64_def)
  from PackData_roundtrip [OF this fs] len fs show ?thesis by auto
qed

text \<open>\<open>PackData\<close> succeeds on every argument list whose types it supports, and on no other.\<close>

theorem PackData_succeeds: "(\<exists>fs. PackData args = Ret fs) \<longleftrightarrow> AUnsupported \<notin> set args"
  by (simp add: PackData_def pack_args_Ret)

text \<open>
  what \<open>ParseBytesInData\<close> does on any log data with a readable offset and length: it
  returns the announced bytes when they lie inside the data and reports an error when they do
  not, except that a length close to 2^64 makes its bounds check wrap around, and the slice
  expression then panics.
\<close>

theorem ParseBytesInData_behaviour:
  assumes "length data < 2 ^ 63" and "block_at data pos (word32 off)" and "block_at data off (word32 l)"
    and "off < W64" and "l < W64"
  shows "ParseBytesInData data pos =
    (if off + 32 + l \<le> length data then Ret (take l (drop (off + 32) data))
     else if off + 32 + l < W64 \<or> length data < off + 32 + l - W64 then Err ErrParseDataError
     else Panic)"
proof (rule ParseBytesInData_cases [OF assms(1) _ assms(5)])
  have len: "length data < W64" using assms(1) by (simp add: W64_def)
  show "off + 32 \<le> length data" using assms(3,5) by (simp add: block_at_def)
  show "GetUint64 data pos 32 = (Ret (off, False) :: (abi_error, nat \<times> bool) outcome)"
    using assms(2,4) len by (rule GetUint64_block)
  show "GetUint64 data off 32 = (Ret (l, False) :: (abi_error, nat \<times> bool) outcome)"
    using assms(3,5) len by (rule GetUint64_block)
qed

theorem ParseBytesInData_behaviour_witness:
  "length (word32 32 @ word32 (W64 - 64)) = 64 \<and> ParseBytesInData (word32 32 @ word32 (W64 - 64)) 0 = Panic"
proof -
  let ?d = "word32 32 @ word32 (W64 - 64)"
  have "32 < W64" "W64 - 64 < W64" by (simp_all add: W64_def)
  then have len: "length (word32 32) = 32" "length (word32 (W64 - 64)) = 32" by (simp_all only: length_word32)
  then have b: "block_at ?d 0 (word32 32)" "block_at ?d 32 (word32 (W64 - 64))"
    by (simp_all add: block_at_def)
  have "ParseBytesInData ?d 0 =
    (if 32 + 32 + (W64 - 64) \<le> length ?d then Ret (take (W64 - 64) (drop (32 + 32) ?d))
     else if 32 + 32 + (W64 - 64) < W64 \<or> length ?d < 32 + 32 + (W64 - 64) - W64 then Err ErrParseDataError
     else Panic)"
    using len by (intro ParseBytesInData_behaviour b) (simp_all add: W64_def)
  also have "\<dots> = Panic" using len by (simp add: W64_def)
  finally show ?thesis using len by simp
qed

end
