(* ===== verification/VerifyERC20.thy ===== *)
theory VerifyERC20
  imports Router AbiCoder HexUtil
begin

text \<open>
  The verification of an ERC20 router transaction (\<open>tokens/eth/verifyerc20swaptx.go\<close>,
  \<open>verifytx.go\<close>, \<open>address.go\<close>): from the receipt of a transaction and an index
  into its logs to the swap that the router may pay out. The RPC queries of the bridge are the
  fields of \<open>eth_rpc\<close>. The swap record is threaded through the steps and returned with
  the error as well, since some failing swaps are registered. Pointers of RPC results that may be
  nil are options, indexing and dereferencing out of range is a \<open>Panic\<close>. The caches that
  \<open>params.AllowCallByContract\<close> and \<open>CheckEIP1167Master\<close> fill are not threaded: a
  second call gives the value of the first.
\<close>

section \<open>RPC results (types/rpctypes.go)\<close>

record RPCLog =
  log_Address :: "Address option"
  Topics :: "Hash list"
  log_Data :: "bytes option"
  Removed :: "bool option"

record RPCTxReceipt =
  BlockNumber :: "int option"
  rcpt_BlockHash :: "Hash option"
  Status :: "nat option"
  rcpt_From :: "Address option"
  Recipient :: "Address option"
  Logs :: "RPCLog list"

definition IsStatusOk :: "RPCTxReceipt \<Rightarrow> bool" where
  "IsStatusOk r \<longleftrightarrow> Status r = Some 1 \<and> 0 < length (Logs r)"

record eth_rpc =
  GetTransactionReceipt :: "string \<Rightarrow> token_error + RPCTxReceipt \<times> string"
  GetLatestBlockNumberOf :: "string \<Rightarrow> nat \<Rightarrow> token_error + nat"
  GetTransactionByHash :: "string \<Rightarrow> token_error + bytes option"
  GetEIP1167Master :: "Address \<Rightarrow> Address"
  GetContractCodeHash :: "Address \<Rightarrow> Hash"

type_synonym 'a verifying = "(SwapTxInfo, token_error, 'a) stateful"

section \<open>Transaction status (verifytx.go)\<close>

text \<open>The latest block number is asked for up to three times.\<close>

definition GetTransactionStatus :: "eth_rpc \<Rightarrow> string \<Rightarrow> (token_error, TxStatus \<times> RPCTxReceipt) outcome" where
  "GetTransactionStatus e txHash =
     (case GetTransactionReceipt e txHash of
        Inl err \<Rightarrow> Err err
      | Inr (txr, url) \<Rightarrow>
          obind (non_nil (BlockNumber txr)) (\<lambda>n.
          obind (non_nil (rcpt_BlockHash txr)) (\<lambda>h.
            let height = nat (n mod int W64);
                latest = (case GetLatestBlockNumberOf e url 0 of Inr l \<Rightarrow> Inr l | Inl _ \<Rightarrow>
                           (case GetLatestBlockNumberOf e url 1 of Inr l \<Rightarrow> Inr l | Inl _ \<Rightarrow>
                              GetLatestBlockNumberOf e url 2));
                conf = (if height = 0 then 0
                        else case latest of Inr l \<Rightarrow> if l > height then l - height else 0 | Inl _ \<Rightarrow> 0)
            in Ret (\<lparr>Sender = '''', Receipt = Some (WithStatus (IsStatusOk txr)), Confirmations = conf,
                     BlockHeight = height, BlockHash = Encode h, BlockTime = 0\<rparr>, txr))))"

section \<open>Addresses (address.go)\<close>

definition ToUpper :: "string \<Rightarrow> string" where
  "ToUpper s = map (\<lambda>c. if 97 \<le> cv c \<and> cv c \<le> 122 then char_of (cv c - 32) else c) s"

definition IsValidAddress :: "(bytes \<Rightarrow> bytes) \<Rightarrow> bool \<Rightarrow> string \<Rightarrow> bool" where
  "IsValidAddress keccak dontCheckMixedCase address =
     (if \<not> IsHexAddress address then False
      else if dontCheckMixedCase then True
      else case GetUnprefixedHex address of
             (unprefixedHex, isok, hasUpperChar) \<Rightarrow>
               if hasUpperChar \<and> ToUpper address = address then True
               else if hasUpperChar \<and> unprefixedHex \<noteq> drop 2 (Address_Hex keccak (HexToAddress address)) then False
               else isok)"

section \<open>Parsing the logs of the router contract\<close>

definition LogAnySwapOutTopic :: bytes where
  "LogAnySwapOutTopic = FromHex ''0x97116cf6cd4f6412bb47914d6db18da9e16ab2142f543b86e207c24fbd16b23a''"

definition LogAnySwapOut2Topic :: bytes where
  "LogAnySwapOut2Topic = FromHex ''0x409e0ad946b19f77602d6cf11d59e1796ddaa4828159a0b4fb7fa2ff6b161b79''"

definition LogAnySwapOutAndCallTopic :: bytes where
  "LogAnySwapOutAndCallTopic = FromHex ''0x8e7e5695fff09074d4c7d6c71615fd382427677f75f460c522357233f3bd3ec3''"

definition LogAnySwapTradeTokensForTokensTopic :: bytes where
  "LogAnySwapTradeTokensForTokensTopic = FromHex ''0xfea6abdf4fd32f20966dff7619354cd82cd43dc78a3bee479f04c74dbfc585b3''"

definition LogAnySwapTradeTokensForNativeTopic :: bytes where
  "LogAnySwapTradeTokensForNativeTopic = FromHex ''0x278277e0209c347189add7bd92411973b5f6b8644f7ac62ea1be984ce993f8f4''"

definition LogTransferTopic :: bytes where
  "LogTransferTopic = FromHex ''0xddf252ad1be2c89b69c2b068fc378daa952ba7f163c4a11628f55a4df523b3ef''"

definition anySwapOutUnderlyingWithPermitFuncHash :: bytes where
  "anySwapOutUnderlyingWithPermitFuncHash = FromHex ''0x8d7d3eea''"

definition anySwapOutUnderlyingWithTransferPermitFuncHash :: bytes where
  "anySwapOutUnderlyingWithTransferPermitFuncHash = FromHex ''0x1b91a934''"

definition parse_data_error :: token_error where
  "parse_data_error = OtherError ''parse data error''"

definition lift_abi :: "(abi_error, 'a) outcome \<Rightarrow> (token_error, 'a) outcome" where
  "lift_abi r = (case r of Ret v \<Rightarrow> Ret v | Err _ \<Rightarrow> Err parse_data_error | Panic \<Rightarrow> Panic)"

text \<open>The embedded \<open>ERC20SwapInfo\<close> pointer.\<close>

definition get_erc20 :: "ERC20SwapInfo verifying" where
  "get_erc20 s = (non_nil (erc20Info s), s)"

definition upd_erc20 :: "(ERC20SwapInfo \<Rightarrow> ERC20SwapInfo) \<Rightarrow> unit verifying" where
  "upd_erc20 f s =
     (case erc20Info s of None \<Rightarrow> (Panic, s) | Some i \<Rightarrow> (Ret (), s\<lparr>erc20Info := Some (f i)\<rparr>))"

definition topic_address :: "RPCLog \<Rightarrow> nat \<Rightarrow> string" where
  "topic_address rlog i = LowerHex (BytesToAddress (Topics rlog ! i))"

text \<open>The source chain: from the log, unless that is switched off for this chain.\<close>

definition from_chain :: "router_state \<Rightarrow> CrossChainBridgeBase \<Rightarrow> bytes \<Rightarrow> nat \<Rightarrow> (token_error, int option) outcome" where
  "from_chain r b logData pos =
     obind (non_nil (bridgeChainConfig b)) (\<lambda>cc.
       if IsUseFromChainIDInReceiptDisabled (prm (toks r)) (cc_ChainID cc) then Ret (chainID_num cc)
       else obind (GetBigInt logData pos 32) (\<lambda>v. Ret (Some v)))"

definition set_token_id :: "CrossChainBridgeBase \<Rightarrow> unit verifying" where
  "set_token_id b =
     sbind get_erc20 (\<lambda>i.
       case GetTokenConfig b (erc20_Token i) of
         None \<Rightarrow> slift (Err ErrMissTokenConfig)
       | Some c \<Rightarrow> upd_erc20 (\<lambda>i. i\<lparr>erc20_TokenID := TokenID c\<rparr>))"

definition parseERC20SwapoutTxLog :: "router_state \<Rightarrow> CrossChainBridgeBase \<Rightarrow> RPCLog \<Rightarrow> unit verifying" where
  "parseERC20SwapoutTxLog r b rlog =
     sbind (sguard (length (Topics rlog) = 4) ErrTxWithWrongTopics) (\<lambda>_.
     sbind (slift (non_nil (log_Data rlog))) (\<lambda>logData.
     sbind (sguard (length logData = 96) parse_data_error) (\<lambda>_.
     sbind (upd_erc20 (\<lambda>i. i\<lparr>erc20_Token := topic_address rlog 1\<rparr>)) (\<lambda>_.
     sbind (supd (\<lambda>s. s\<lparr>tx_From := topic_address rlog 2, tx_Bind := topic_address rlog 3\<rparr>)) (\<lambda>_.
     sbind (slift (GetBigInt logData 0 32)) (\<lambda>v.
     sbind (supd (\<lambda>s. s\<lparr>tx_Value := Some v\<rparr>)) (\<lambda>_.
     sbind (slift (from_chain r b logData 32)) (\<lambda>fc.
     sbind (slift (GetBigInt logData 64 32)) (\<lambda>tc.
     sbind (supd (\<lambda>s. s\<lparr>tx_FromChainID := fc, tx_ToChainID := Some tc\<rparr>)) (\<lambda>_.
     set_token_id b))))))))))"

definition parseERC20Swapout2TxLog :: "router_state \<Rightarrow> CrossChainBridgeBase \<Rightarrow> RPCLog \<Rightarrow> unit verifying" where
  "parseERC20Swapout2TxLog r b rlog =
     sbind (sguard (length (Topics rlog) = 3) ErrTxWithWrongTopics) (\<lambda>_.
     sbind (slift (non_nil (log_Data rlog))) (\<lambda>logData.
     sbind (sguard (160 \<le> length logData) parse_data_error) (\<lambda>_.
     sbind (upd_erc20 (\<lambda>i. i\<lparr>erc20_Token := topic_address rlog 1\<rparr>)) (\<lambda>_.
     sbind (supd (\<lambda>s. s\<lparr>tx_From := topic_address rlog 2\<rparr>)) (\<lambda>_.
     sbind (slift (lift_abi (ParseStringInData logData 0))) (\<lambda>bind.
     sbind (supd (\<lambda>s. s\<lparr>tx_Bind := bind\<rparr>)) (\<lambda>_.
     sbind (slift (GetBigInt logData 32 32)) (\<lambda>v.
     sbind (supd (\<lambda>s. s\<lparr>tx_Value := Some v\<rparr>)) (\<lambda>_.
     sbind (slift (from_chain r b logData 64)) (\<lambda>fc.
     sbind (slift (GetBigInt logData 96 32)) (\<lambda>tc.
     sbind (supd (\<lambda>s. s\<lparr>tx_FromChainID := fc, tx_ToChainID := Some tc\<rparr>)) (\<lambda>_.
     set_token_id b))))))))))))"

definition parseERC20SwapoutAndCallTxLog :: "router_state \<Rightarrow> CrossChainBridgeBase \<Rightarrow> RPCLog \<Rightarrow> unit verifying" where
  "parseERC20SwapoutAndCallTxLog r b rlog =
     sbind (sguard (length (Topics rlog) = 3) ErrTxWithWrongTopics) (\<lambda>_.
     sbind (slift (non_nil (log_Data rlog))) (\<lambda>logData.
     sbind (sguard (288 \<le> length logData) parse_data_error) (\<lambda>_.
     sbind (upd_erc20 (\<lambda>i. i\<lparr>erc20_Token := topic_address rlog 1\<rparr>)) (\<lambda>_.
     sbind (supd (\<lambda>s. s\<lparr>tx_From := topic_address rlog 2\<rparr>)) (\<lambda>_.
     sbind (slift (lift_abi (ParseStringInData logData 0))) (\<lambda>bind.
     sbind (supd (\<lambda>s. s\<lparr>tx_Bind := bind\<rparr>)) (\<lambda>_.
     sbind (slift (GetBigInt logData 32 32)) (\<lambda>v.
     sbind (supd (\<lambda>s. s\<lparr>tx_Value := Some v\<rparr>)) (\<lambda>_.
     sbind (slift (from_chain r b logData 64)) (\<lambda>fc.
     sbind (slift (GetBigInt logData 96 32)) (\<lambda>tc.
     sbind (supd (\<lambda>s. s\<lparr>tx_FromChainID := fc, tx_ToChainID := Some tc\<rparr>)) (\<lambda>_.
     sbind (slift (lift_abi (ParseStringInData logData 128))) (\<lambda>proxy.
     sbind (upd_erc20 (\<lambda>i. i\<lparr>CallProxy := proxy\<rparr>)) (\<lambda>_.
     sbind (slift (lift_abi (ParseBytesInData logData 160))) (\<lambda>calldata.
     sbind (upd_erc20 (\<lambda>i. i\<lparr>erc20_CallData := Some calldata\<rparr>)) (\<lambda>_.
     set_token_id b))))))))))))))))"

section \<open>Swap trades\<close>

fun pair_loop :: "(string \<Rightarrow> string \<Rightarrow> string \<Rightarrow> token_error + string) \<Rightarrow> string \<Rightarrow> string list \<Rightarrow> (token_error, unit) outcome" where
  "pair_loop getPair factory (t0 # t1 # ts) =
     (case getPair factory t0 t1 of
        Inl err \<Rightarrow> if IsRPCQueryOrNotFoundError err then Err err else Err ErrTxWithWrongPath
      | Inr pairs \<Rightarrow> if pairs = '''' then Err ErrTxWithWrongPath else pair_loop getPair factory (t1 # ts))"
| "pair_loop getPair factory ts = Ret ()"

definition ensure :: "bool \<Rightarrow> token_error \<Rightarrow> (token_error, unit) outcome" where
  "ensure b e = (if b then Ret () else Err e)"

definition or_err :: "'a option \<Rightarrow> token_error \<Rightarrow> (token_error, 'a) outcome" where
  "or_err x e = (case x of None \<Rightarrow> Err e | Some v \<Rightarrow> Ret v)"

definition checkSwapTradePath :: "router_state \<Rightarrow> SwapTxInfo \<Rightarrow> (token_error, unit) outcome" where
  "checkSwapTradePath r swapInfo =
     (let dstChainID = bi_String (tx_ToChainID swapInfo) in
      obind (or_err (GetBridgeByChainID r dstChainID) ErrNoBridgeForChainID) (\<lambda>dst.
      obind (non_nil (erc20Info swapInfo)) (\<lambda>info.
      let multichainToken = GetCachedMultichainToken r (erc20_TokenID info) dstChainID in
      obind (ensure (multichainToken \<noteq> '''') ErrMissTokenConfig) (\<lambda>_.
      obind (or_err (GetTokenConfig (base dst) multichainToken) ErrMissTokenConfig) (\<lambda>tokenCfg.
      let path = Path info in
      obind (ensure (2 \<le> length path) ErrTxWithWrongPath) (\<lambda>_.
      obind (ensure (HexToAddress (path ! 0) = HexToAddress (underlying tokenCfg) \<or>
                     HexToAddress (path ! 0) = HexToAddress multichainToken) ErrTxWithWrongPath) (\<lambda>_.
      obind (GetRouterContract (base dst) multichainToken) (\<lambda>routerContract.
      obind (ensure (routerContract \<noteq> '''') ErrMissRouterInfo) (\<lambda>_.
      obind (or_err (GetRouterInfo r routerContract) ErrMissRouterInfo) (\<lambda>routerInfo.
      obind (if \<not> ForNative info then Ret ()
             else let wNativeAddr = HexToAddress (RouterWNative routerInfo) in
               obind (ensure (wNativeAddr \<noteq> ZeroAddress) ErrSwapTradeNotSupport) (\<lambda>_.
                 ensure (wNativeAddr = HexToAddress (last path)) ErrTxWithWrongPath)) (\<lambda>_.
      let factory = RouterFactory routerInfo in
      obind (ensure (HexToAddress factory \<noteq> ZeroAddress) ErrSwapTradeNotSupport) (\<lambda>_.
      obind (or_err (getPairFor dst) ErrSwapTradeNotSupport) (\<lambda>swapTrader.
        pair_loop swapTrader factory path)))))))))))))"

definition parseERC20SwapTradeTxLog :: "router_state \<Rightarrow> CrossChainBridgeBase \<Rightarrow> RPCLog \<Rightarrow> bool \<Rightarrow> unit verifying" where
  "parseERC20SwapTradeTxLog r b rlog forNative =
     sbind (sguard (IsSwapTradeEnabled (prm (toks r))) ErrSwapTradeNotSupport) (\<lambda>_.
     sbind (sguard (length (Topics rlog) = 3) ErrTxWithWrongTopics) (\<lambda>_.
     sbind (slift (non_nil (log_Data rlog))) (\<lambda>logData.
     sbind (sguard (192 \<le> length logData) parse_data_error) (\<lambda>_.
     sbind (upd_erc20 (\<lambda>i. i\<lparr>ForNative := forNative\<rparr>)) (\<lambda>_.
     sbind (supd (\<lambda>s. s\<lparr>tx_From := topic_address rlog 1, tx_Bind := topic_address rlog 2\<rparr>)) (\<lambda>_.
     sbind (slift (lift_abi (ParseAddressSliceInData logData 0))) (\<lambda>path.
     sbind (sguard (3 \<le> length path) ErrTxWithWrongPath) (\<lambda>_.
     sbind (slift (GetBigInt logData 32 32)) (\<lambda>v.
     sbind (supd (\<lambda>s. s\<lparr>tx_Value := Some v\<rparr>)) (\<lambda>_.
     sbind (slift (GetBigInt logData 64 32)) (\<lambda>amin.
     sbind (upd_erc20 (\<lambda>i. i\<lparr>AmountOutMin := Some amin\<rparr>)) (\<lambda>_.
     sbind (slift (from_chain r b logData 96)) (\<lambda>fc.
     sbind (slift (GetBigInt logData 128 32)) (\<lambda>tc.
     sbind (supd (\<lambda>s. s\<lparr>tx_FromChainID := fc, tx_ToChainID := Some tc\<rparr>)) (\<lambda>_.
     sbind (upd_erc20 (\<lambda>i. i\<lparr>erc20_Token := path ! 0, Path := drop 1 path\<rparr>)) (\<lambda>_.
     sbind (set_token_id b) (\<lambda>_.
     sget (\<lambda>s. slift (checkSwapTradePath r s)))))))))))))))))))"

definition verifyERC20SwapTxLog :: "router_state \<Rightarrow> CrossChainBridgeBase \<Rightarrow> RPCLog \<Rightarrow> unit verifying" where
  "verifyERC20SwapTxLog r b rlog =
     sbind (slift (non_nil (log_Address rlog))) (\<lambda>addr.
     sbind (supd (\<lambda>s. s\<lparr>tx_To := LowerHex addr\<rparr>)) (\<lambda>_.
     sbind (slift (case Topics rlog of [] \<Rightarrow> Panic | t # _ \<Rightarrow> Ret t)) (\<lambda>logTopic.
     sbind (if logTopic = LogAnySwapOutTopic then parseERC20SwapoutTxLog r b rlog
            else if logTopic = LogAnySwapOut2Topic then parseERC20Swapout2TxLog r b rlog
            else if logTopic = LogAnySwapOutAndCallTopic then parseERC20SwapoutAndCallTxLog r b rlog
            else if logTopic = LogAnySwapTradeTokensForTokensTopic then parseERC20SwapTradeTxLog r b rlog False
            else if logTopic = LogAnySwapTradeTokensForNativeTopic then parseERC20SwapTradeTxLog r b rlog True
            else slift (Err ErrSwapoutLogNotFound)) (\<lambda>_.
     sbind (sguard (Removed rlog \<noteq> Some True) ErrTxWithRemovedLog) (\<lambda>_.
     sbind get_erc20 (\<lambda>i.
     sbind (slift (GetRouterContract b (erc20_Token i))) (\<lambda>routerContract.
     sbind (sguard (routerContract \<noteq> '''') ErrMissRouterInfo) (\<lambda>_.
     sguard (EqualFold (LowerHex addr) routerContract) ErrTxWithWrongContract))))))))"

section \<open>Checks of the transaction\<close>

definition getSwapTxReceipt :: "router_state \<Rightarrow> CrossChainBridgeBase \<Rightarrow> eth_rpc \<Rightarrow> bool \<Rightarrow> RPCTxReceipt verifying" where
  "getSwapTxReceipt r b e allowUnstable =
     sget (\<lambda>s.
     sbind (slift (GetTransactionStatus e (tx_Hash s))) (\<lambda>(txStatus, receipt).
     sbind (sguard (BlockHeight txStatus \<noteq> 0) ErrTxNotFound) (\<lambda>_.
     sbind (slift (non_nil (bridgeChainConfig b))) (\<lambda>cc.
     sbind (sguard (InitialHeight cc \<le> BlockHeight txStatus) ErrTxBeforeInitialHeight) (\<lambda>_.
     sbind (supd (\<lambda>s. s\<lparr>tx_Height := BlockHeight txStatus, tx_Timestamp := BlockTime txStatus\<rparr>)) (\<lambda>_.
     sbind (sguard (allowUnstable \<or> cc_Confirmations cc \<le> Confirmations txStatus) ErrTxNotStable) (\<lambda>_.
     sbind (sguard (IsStatusOk receipt) ErrTxWithWrongReceipt) (\<lambda>_.
     sbind (case Recipient receipt of
              None \<Rightarrow> sguard (AllowCallByConstructor (prm (toks r))) ErrTxWithWrongContract
            | Some to \<Rightarrow> supd (\<lambda>s. s\<lparr>tx_TxTo := LowerHex to\<rparr>)) (\<lambda>_.
     sbind (slift (non_nil (rcpt_From receipt))) (\<lambda>from.
     sbind (supd (\<lambda>s. s\<lparr>tx_From := LowerHex from\<rparr>)) (\<lambda>_.
     sbind (sguard (from \<noteq> ZeroAddress) ErrTxWithWrongSender) (\<lambda>_.
     sret receipt))))))))))))"

text \<open>The zero value of a hash.\<close>

definition ZeroHash :: Hash where
  "ZeroHash = replicate HashLength 0"

definition checkCallByContract :: "router_state \<Rightarrow> CrossChainBridgeBase \<Rightarrow> eth_rpc \<Rightarrow> SwapTxInfo \<Rightarrow> (token_error, unit) outcome" where
  "checkCallByContract r b e swapInfo =
     (let p = prm (toks r); txTo = tx_TxTo swapInfo in
      obind (GetRouterContract b (GetToken swapInfo)) (\<lambda>routerContract.
      obind (ensure (routerContract \<noteq> '''') ErrMissRouterInfo) (\<lambda>_.
      if fst (AllowCallByContract p) \<or> EqualFold txTo routerContract then Ret ()
      else obind (non_nil (bridgeChainConfig b)) (\<lambda>cc.
        let chainID = cc_ChainID cc in
        if IsInCallByContractWhitelist p chainID txTo then Ret ()
        else if fst (CheckEIP1167Master p) \<and>
             (let master = GetEIP1167Master e (HexToAddress txTo)
              in master \<noteq> ZeroAddress \<and> IsInCallByContractWhitelist p chainID (LowerHex master))
        then Ret ()
        else if HasCallByContractCodeHashWhitelist p chainID \<and>
             (let codehash = GetContractCodeHash e (HexToAddress txTo)
              in codehash \<noteq> ZeroHash \<and> IsInCallByContractCodeHashWhitelist p chainID (Encode codehash))
        then Ret ()
        else Err ErrTxWithWrongContract))))"

definition checkSwapWithPermit :: "router_state \<Rightarrow> CrossChainBridgeBase \<Rightarrow> eth_rpc \<Rightarrow> SwapTxInfo \<Rightarrow> (token_error, unit) outcome" where
  "checkSwapWithPermit r b e swapInfo =
     (if IsSwapWithPermitEnabled (prm (toks r)) then Ret ()
      else obind (non_nil (erc20Info swapInfo)) (\<lambda>info.
        if CallProxy info \<noteq> '''' then Ret ()
        else obind (GetRouterContract b (erc20_Token info)) (\<lambda>routerContract.
             obind (ensure (routerContract \<noteq> '''') ErrMissRouterInfo) (\<lambda>_.
             if EqualFold (tx_TxTo swapInfo) routerContract then
               (case GetTransactionByHash e (tx_Hash swapInfo) of
                  Inl err \<Rightarrow> Err err
                | Inr payload \<Rightarrow>
                    (case payload of
                       None \<Rightarrow> Err ErrUnsupportedFuncHash
                     | Some data \<Rightarrow>
                         if length data < 4 then Err ErrUnsupportedFuncHash
                         else let funcHash = take 4 data in
                           if funcHash = anySwapOutUnderlyingWithPermitFuncHash \<or>
                              funcHash = anySwapOutUnderlyingWithTransferPermitFuncHash
                           then Err ErrUnsupportedFuncHash else Ret ()))
             else Ret ()))))"

section \<open>Checking that the token was received\<close>

text \<open>
  What the reverse search needs to know: the address of the any-token, of its underlying, the
  router contract and the sender of the swap.
\<close>

record recv_args =
  ra_token :: Address
  ra_underlying :: string
  ra_router :: string
  ra_from :: string

text \<open>
  The body of the search at log \<open>i\<close>: it ends the search (with the amount found, if any),
  goes on with the previous log, or skips the previous log as well.
\<close>

datatype recv_step = Stop "int option" | Next | SkipOne

definition prev_is_mint :: "recv_args \<Rightarrow> RPCLog \<Rightarrow> (token_error, bool) outcome" where
  "prev_is_mint a pLog =
     obind (non_nil (log_Address pLog)) (\<lambda>paddr.
       if paddr \<noteq> ra_token a then Ret False
       else case Topics pLog of
              [] \<Rightarrow> Panic
            | t0 # ts \<Rightarrow>
                if t0 \<noteq> LogTransferTopic then Ret False
                else case ts of
                       [] \<Rightarrow> Panic
                     | t1 # ts' \<Rightarrow>
                         if BytesToAddress t1 \<noteq> ZeroAddress then Ret False
                         else case ts' of [] \<Rightarrow> Panic | t2 # _ \<Rightarrow> Ret (BytesToAddress t2 = HexToAddress (ra_from a)))"

definition recv_body :: "recv_args \<Rightarrow> RPCLog list \<Rightarrow> nat \<Rightarrow> (token_error, recv_step) outcome" where
  "recv_body a logs i =
     (if length logs \<le> i then Panic
      else let rlog = logs ! i in
      obind (non_nil (log_Address rlog)) (\<lambda>addr.
      if EqualFold (LowerHex addr) (ra_router a) then
        (if Topics rlog = [] then Panic else Ret (Stop None))
      else if Removed rlog = Some True then Ret Next
      else case (Topics rlog, log_Data rlog) of
        ([t0, t1, t2], Some data) \<Rightarrow>
          if t0 \<noteq> LogTransferTopic then Ret Next
          else let from = LowerHex (BytesToAddress t1); toAddr = BytesToAddress t2; isBurn = (toAddr = ZeroAddress) in
            if addr = HexToAddress (ra_underlying a) then
              (if isBurn then
                 (if EqualFold from (ra_from a) then obind (GetBigInt data 0 32) (\<lambda>v. Ret (Stop (Some v)))
                  else Ret (Stop None))
               else if toAddr = ra_token a then
                 (if EqualFold from (ra_from a) \<or> EqualFold from (ra_router a)
                  then obind (GetBigInt data 0 32) (\<lambda>v. Ret (Stop (Some v)))
                  else Ret (Stop None))
               else Ret Next)
            else if addr = ra_token a then
              (if \<not> isBurn then Ret Next
               else if \<not> EqualFold from (ra_from a) then Ret Next
               else obind (if 2 \<le> i then prev_is_mint a (logs ! (i - 1)) else Ret False) (\<lambda>mint.
                      if mint then Ret SkipOne
                      else obind (GetBigInt data 0 32) (\<lambda>v. Ret (Stop (Some v)))))
            else Ret Next
      | _ \<Rightarrow> Ret Next))"

text \<open>The loop from log \<open>n - 1\<close> down to 0.\<close>

fun recv_loop :: "recv_args \<Rightarrow> RPCLog list \<Rightarrow> nat \<Rightarrow> (token_error, int option) outcome" where
  "recv_loop a logs 0 = Ret None"
| "recv_loop a logs (Suc i) =
     (case recv_body a logs i of
        Ret (Stop x) \<Rightarrow> Ret x
      | Ret Next \<Rightarrow> recv_loop a logs i
      | Ret SkipOne \<Rightarrow> recv_loop a logs (i - 1)
      | Err e \<Rightarrow> Err e
      | Panic \<Rightarrow> Panic)"

definition checkTokenReceived :: "router_state \<Rightarrow> CrossChainBridgeBase \<Rightarrow> SwapTxInfo \<Rightarrow> RPCTxReceipt \<Rightarrow> (token_error, unit) outcome" where
  "checkTokenReceived r b swapInfo receipt =
     obind (non_nil (erc20Info swapInfo)) (\<lambda>info.
     let token = erc20_Token info; tokenID = erc20_TokenID info in
     obind (or_err (GetTokenConfig b token) ErrMissTokenConfig) (\<lambda>tokenCfg.
     obind (ensure (tokenID \<noteq> '''') ErrMissTokenConfig) (\<lambda>_.
     if DontCheckTokenReceived (prm (toks r)) tokenID then Ret ()
     else let underlyingAddr = underlying tokenCfg in
     if HexToAddress underlyingAddr = ZeroAddress then Ret ()
     else obind (GetRouterContract b token) (\<lambda>routerContract.
     obind (ensure (routerContract \<noteq> '''') ErrMissRouterInfo) (\<lambda>_.
     obind (recv_loop \<lparr>ra_token = HexToAddress token, ra_underlying = underlyingAddr, ra_router = routerContract,
                       ra_from = tx_From swapInfo\<rparr> (Logs receipt) (nat (tx_LogIndex swapInfo))) (\<lambda>recv.
     obind (or_err recv (OtherError ''no underlying token received'')) (\<lambda>recvAmount.
     obind (non_nil (tx_Value swapInfo)) (\<lambda>v.
       ensure (big_Div (v * 4) 5 \<le> recvAmount) (OtherError ''check underlying token received failed'')))))))))"

section \<open>The whole verification\<close>

definition checkERC20SwapInfo :: "router_state \<Rightarrow> CrossChainBridgeBase \<Rightarrow> eth_rpc \<Rightarrow> SwapTxInfo \<Rightarrow> (token_error, unit) outcome" where
  "checkERC20SwapInfo r b e swapInfo =
     obind (checkCallByContract r b e swapInfo) (\<lambda>_.
     obind (checkSwapWithPermit r b e swapInfo) (\<lambda>_.
     obind (non_nil (bridgeChainConfig b)) (\<lambda>cc.
     obind (ensure (bi_String (tx_FromChainID swapInfo) = cc_ChainID cc) ErrFromChainIDMismatch) (\<lambda>_.
     obind (non_nil (erc20Info swapInfo)) (\<lambda>info.
     obind (or_err (GetTokenConfig b (erc20_Token info)) ErrMissTokenConfig) (\<lambda>fromTokenCfg.
     obind (ensure (erc20_TokenID info \<noteq> '''') ErrMissTokenConfig) (\<lambda>_.
     let toChain = bi_String (tx_ToChainID swapInfo);
         multichainToken = GetCachedMultichainToken r (erc20_TokenID info) toChain in
     obind (ensure (multichainToken \<noteq> '''') ErrMissTokenConfig) (\<lambda>_.
     obind (or_err (GetBridgeByChainID r toChain) ErrNoBridgeForChainID) (\<lambda>toBridge.
     obind (or_err (GetTokenConfig (base toBridge) multichainToken) ErrMissTokenConfig) (\<lambda>toTokenCfg.
     obind (ensure (\<not> (ForUnderlying info \<and> HexToAddress (underlying toTokenCfg) = ZeroAddress)) ErrNoUnderlyingToken) (\<lambda>_.
     obind (CheckTokenSwapValue (toks r) swapInfo (Decimals fromTokenCfg) (Decimals toTokenCfg)) (\<lambda>okv.
     obind (ensure okv ErrTxWithWrongValue) (\<lambda>_.
     ensure (isValidAddress toBridge (tx_Bind swapInfo)) ErrWrongBindAddress)))))))))))))"

definition new_swap_info :: "string \<Rightarrow> int \<Rightarrow> SwapTxInfo" where
  "new_swap_info txHash logIndex =
     \<lparr>erc20Info = Some \<lparr>erc20_Token = '''', erc20_TokenID = '''', ForNative = False, ForUnderlying = False,
        Path = [], AmountOutMin = None, CallProxy = '''', erc20_CallData = None\<rparr>,
      nftInfo = None, anycallInfo = None, curveInfo = None, tx_SwapType = ERC20SwapType,
      tx_Hash = ToLower txHash, tx_Height = 0, tx_Timestamp = 0, tx_From = '''', tx_TxTo = '''', tx_To = '''',
      tx_Bind = '''', tx_Value = None, tx_LogIndex = logIndex, tx_FromChainID = None, tx_ToChainID = None\<rparr>"

definition verifyERC20SwapTx :: "router_state \<Rightarrow> CrossChainBridgeBase \<Rightarrow> eth_rpc \<Rightarrow> string \<Rightarrow> int \<Rightarrow> bool \<Rightarrow>
    (token_error, unit) outcome \<times> SwapTxInfo" where
  "verifyERC20SwapTx r b e txHash logIndex allowUnstable =
     sbind (getSwapTxReceipt r b e allowUnstable) (\<lambda>receipt.
     sbind (sguard (\<not> int (length (Logs receipt)) \<le> logIndex) ErrLogIndexOutOfRange) (\<lambda>_.
     sbind (slift (if logIndex < 0 then Panic else Ret (Logs receipt ! nat logIndex))) (\<lambda>rlog.
     sbind (verifyERC20SwapTxLog r b rlog) (\<lambda>_.
     sbind (sget (\<lambda>s. slift (checkTokenReceived r b s receipt))) (\<lambda>_.
     sget (\<lambda>s. slift (checkERC20SwapInfo r b e s)))))))
       (new_swap_info txHash logIndex)"

section \<open>The reverse search for the received token\<close>

text \<open>
  A log that proves the reception of \<open>amt\<close>: a transfer of the underlying token from the
  sender to the zero address, from the sender or the router to the any-token, or of the
  any-token from the sender to the zero address.
\<close>

definition receives :: "recv_args \<Rightarrow> RPCLog \<Rightarrow> int \<Rightarrow> bool" where
  "receives a rlog amt \<longleftrightarrow>
     (\<exists>addr t1 t2 data. log_Address rlog = Some addr \<and> Removed rlog \<noteq> Some True \<and>
        Topics rlog = [LogTransferTopic, t1, t2] \<and> log_Data rlog = Some data \<and>
        GetBigInt data 0 32 = (Ret amt :: (token_error, int) outcome) \<and>
        (let from = LowerHex (BytesToAddress t1); to = BytesToAddress t2 in
           (addr = HexToAddress (ra_underlying a) \<and> to = ZeroAddress \<and> EqualFold from (ra_from a)) \<or>
           (addr = HexToAddress (ra_underlying a) \<and> to = ra_token a \<and>
              (EqualFold from (ra_from a) \<or> EqualFold from (ra_router a))) \<or>
           (addr = ra_token a \<and> to = ZeroAddress \<and> EqualFold from (ra_from a))))"

text \<open>No log of the router lies between (the any-token's own mint log may be skipped).\<close>

definition passed_over :: "recv_args \<Rightarrow> RPCLog \<Rightarrow> bool" where
  "passed_over a rlog \<longleftrightarrow>
     (\<exists>addr. log_Address rlog = Some addr \<and> (\<not> EqualFold (LowerHex addr) (ra_router a) \<or> addr = ra_token a))"

lemma recv_body_Stop:
  assumes "recv_body a logs i = Ret (Stop (Some amt))"
  shows "i < length logs \<and> receives a (logs ! i) amt"
  using assms
  by (auto simp: recv_body_def receives_def Let_def outcome_simps non_nil_def
      split: if_splits option.splits list.splits)

lemma recv_body_Next:
  assumes "recv_body a logs i = Ret Next"
  shows "passed_over a (logs ! i)"
  using assms
  by (auto simp: recv_body_def passed_over_def Let_def outcome_simps non_nil_def
      split: if_splits option.splits list.splits)

lemma prev_is_mint_True: "prev_is_mint a l = Ret True \<Longrightarrow> log_Address l = Some (ra_token a)"
  by (auto simp: prev_is_mint_def non_nil_def outcome_simps split: option.splits if_splits)

lemma recv_body_SkipOne:
  assumes "recv_body a logs i = Ret SkipOne"
  shows "2 \<le> i \<and> passed_over a (logs ! i) \<and> passed_over a (logs ! (i - 1))"
proof -
  from assms have "2 \<le> i \<and> prev_is_mint a (logs ! (i - 1)) = Ret True \<and> passed_over a (logs ! i)"
    by (auto simp: recv_body_def passed_over_def Let_def outcome_simps non_nil_def
        split: if_splits option.splits list.splits)
  then show ?thesis using prev_is_mint_True [of a "logs ! (i - 1)"] by (auto simp: passed_over_def)
qed

lemma recv_loop_sound:
  assumes "recv_loop a logs n = Ret (Some amt)"
  shows "\<exists>i<n. i < length logs \<and> receives a (logs ! i) amt \<and> (\<forall>j. i < j \<and> j < n \<longrightarrow> passed_over a (logs ! j))"
  using assms
proof (induction a logs n rule: recv_loop.induct)
  case (2 a logs i)
  show ?case
  proof (cases "recv_body a logs i")
    case (Ret st)
    show ?thesis
    proof (cases st)
      case (Stop x)
      with Ret "2.prems" recv_body_Stop [of a logs i amt] show ?thesis by auto
    next
      case Next
      with Ret "2.prems" "2.IH"(1) obtain k where k: "k < i" "k < length logs" "receives a (logs ! k) amt"
        "\<forall>j. k < j \<and> j < i \<longrightarrow> passed_over a (logs ! j)" by auto
      have "passed_over a (logs ! i)" using recv_body_Next Ret Next by simp
      with k show ?thesis by (metis less_Suc_eq)
    next
      case SkipOne
      with Ret "2.prems" "2.IH"(2) obtain k where k: "k < i - 1" "k < length logs" "receives a (logs ! k) amt"
        "\<forall>j. k < j \<and> j < i - 1 \<longrightarrow> passed_over a (logs ! j)" by auto
      have skip: "2 \<le> i" "passed_over a (logs ! i)" "passed_over a (logs ! (i - 1))"
        using recv_body_SkipOne [of a logs i] Ret SkipOne by auto
      have "passed_over a (logs ! j)" if "k < j" "j < Suc i" for j
      proof -
        have "j < i - 1 \<or> j = i - 1 \<or> j = i" using that(2) by linarith
        then show ?thesis using that(1) k(4) skip by auto
      qed
      moreover have "k < Suc i" using k(1) by linarith
      ultimately show ?thesis using k(2,3) by blast
    qed
  qed (use "2.prems" in auto)
qed simp

section \<open>What a verified transaction satisfies\<close>

lemma skeeps_get_erc20: "skeeps sel get_erc20"
  by (simp add: skeeps_def get_erc20_def)

lemma skeeps_upd_erc20:
  assumes "\<And>s x. sel (s\<lparr>erc20Info := x\<rparr>) = sel s"
  shows "skeeps sel (upd_erc20 f)"
  using assms by (simp add: skeeps_def upd_erc20_def split: option.splits)

lemma skeeps_set_token_id:
  assumes "\<And>s x. sel (s\<lparr>erc20Info := x\<rparr>) = sel s"
  shows "skeeps sel (set_token_id b)"
  unfolding set_token_id_def
  by (intro skeeps_sbind skeeps_get_erc20)
     (auto intro: skeeps_intros skeeps_upd_erc20 assms split: option.splits)

text \<open>The parsers fill the swap's own fields and leave where the log came from.\<close>

definition origin :: "SwapTxInfo \<Rightarrow> string \<times> int \<times> string \<times> string \<times> nat" where
  "origin s = (tx_To s, tx_LogIndex s, tx_Hash s, tx_TxTo s, tx_Height s)"

lemma parsers_keep_origin:
  "skeeps origin (parseERC20SwapoutTxLog r b rlog)" "skeeps origin (parseERC20Swapout2TxLog r b rlog)"
  "skeeps origin (parseERC20SwapoutAndCallTxLog r b rlog)" "skeeps origin (parseERC20SwapTradeTxLog r b rlog n)"
  unfolding parseERC20SwapoutTxLog_def parseERC20Swapout2TxLog_def parseERC20SwapoutAndCallTxLog_def
    parseERC20SwapTradeTxLog_def
  by (intro skeeps_intros skeeps_upd_erc20 skeeps_set_token_id; simp add: origin_def)+

text \<open>The log was emitted by the router contract of its token and not removed.\<close>

definition from_router :: "CrossChainBridgeBase \<Rightarrow> SwapTxInfo \<Rightarrow> RPCLog \<Rightarrow> bool" where
  "from_router b s rlog \<longleftrightarrow>
     (\<exists>addr info rc. log_Address rlog = Some addr \<and> tx_To s = LowerHex addr \<and> erc20Info s = Some info \<and>
        GetRouterContract b (erc20_Token info) = Ret rc \<and> rc \<noteq> '''' \<and> EqualFold (LowerHex addr) rc \<and>
        Removed rlog \<noteq> Some True \<and>
        (\<exists>t ts. Topics rlog = t # ts \<and>
           t \<in> {LogAnySwapOutTopic, LogAnySwapOut2Topic, LogAnySwapOutAndCallTopic,
                 LogAnySwapTradeTokensForTokensTopic, LogAnySwapTradeTokensForNativeTopic}))"

lemma verifyERC20SwapTxLog_Ret:
  assumes "verifyERC20SwapTxLog r b rlog s = (Ret u, s')"
  shows "from_router b s' rlog \<and> tx_LogIndex s' = tx_LogIndex s \<and> tx_Hash s' = tx_Hash s"
proof -
  obtain addr t ts s1 info rc where
    addr: "log_Address rlog = Some addr" and topics: "Topics rlog = t # ts"
    and parse: "(if t = LogAnySwapOutTopic then parseERC20SwapoutTxLog r b rlog
            else if t = LogAnySwapOut2Topic then parseERC20Swapout2TxLog r b rlog
            else if t = LogAnySwapOutAndCallTopic then parseERC20SwapoutAndCallTxLog r b rlog
            else if t = LogAnySwapTradeTokensForTokensTopic then parseERC20SwapTradeTxLog r b rlog False
            else if t = LogAnySwapTradeTokensForNativeTopic then parseERC20SwapTradeTxLog r b rlog True
            else slift (Err ErrSwapoutLogNotFound)) (s\<lparr>tx_To := LowerHex addr\<rparr>) = (Ret (), s1)"
    and rest: "Removed rlog \<noteq> Some True" "erc20Info s1 = Some info" "GetRouterContract b (erc20_Token info) = Ret rc"
      "rc \<noteq> ''''" "EqualFold (LowerHex addr) rc" "s' = s1"
    using assms
    by (auto simp: verifyERC20SwapTxLog_def outcome_simps get_erc20_def non_nil_def
        split: option.splits list.splits)
  have "origin s1 = origin (s\<lparr>tx_To := LowerHex addr\<rparr>)"
    using parse by (auto dest: skeepsD [OF parsers_keep_origin(1)] skeepsD [OF parsers_keep_origin(2)]
        skeepsD [OF parsers_keep_origin(3)] skeepsD [OF parsers_keep_origin(4)] simp: outcome_simps split: if_splits)
  moreover have "t \<in> {LogAnySwapOutTopic, LogAnySwapOut2Topic, LogAnySwapOutAndCallTopic,
                  LogAnySwapTradeTokensForTokensTopic, LogAnySwapTradeTokensForNativeTopic}"
    using parse by (auto simp: outcome_simps split: if_splits)
  ultimately show ?thesis
    using addr topics rest by (auto simp: from_router_def origin_def)
qed

lemma getSwapTxReceipt_Ret:
  assumes "getSwapTxReceipt r b e u s = (Ret receipt, s')"
  shows "\<exists>st cc. GetTransactionStatus e (tx_Hash s) = Ret (st, receipt) \<and> bridgeChainConfig b = Some cc \<and>
    BlockHeight st \<noteq> 0 \<and> InitialHeight cc \<le> BlockHeight st \<and>
    (u \<or> cc_Confirmations cc \<le> Confirmations st) \<and> IsStatusOk receipt \<and>
    tx_LogIndex s' = tx_LogIndex s \<and> tx_Hash s' = tx_Hash s"
  using assms
  by (auto simp: getSwapTxReceipt_def outcome_simps non_nil_def split: option.splits prod.splits)

lemma verifyERC20SwapTx_Ret:
  assumes "verifyERC20SwapTx r b e txHash logIndex u = (Ret (), s)"
  obtains st receipt cc where
    "GetTransactionStatus e (ToLower txHash) = Ret (st, receipt)" "bridgeChainConfig b = Some cc"
    "BlockHeight st \<noteq> 0" "InitialHeight cc \<le> BlockHeight st" "u \<or> cc_Confirmations cc \<le> Confirmations st"
    "IsStatusOk receipt" "0 \<le> logIndex" "logIndex < int (length (Logs receipt))"
    "from_router b s (Logs receipt ! nat logIndex)" "tx_LogIndex s = logIndex" "tx_Hash s = ToLower txHash"
    "checkTokenReceived r b s receipt = Ret ()" "checkERC20SwapInfo r b e s = Ret ()"
proof -
  obtain receipt s1 where rcpt: "getSwapTxReceipt r b e u (new_swap_info txHash logIndex) = (Ret receipt, s1)"
    and idx: "0 \<le> logIndex" "logIndex < int (length (Logs receipt))"
    and log: "verifyERC20SwapTxLog r b (Logs receipt ! nat logIndex) s1 = (Ret (), s)"
    and chk: "checkTokenReceived r b s receipt = Ret ()" "checkERC20SwapInfo r b e s = Ret ()"
    using assms by (auto simp: verifyERC20SwapTx_def outcome_simps split: if_splits)
  from getSwapTxReceipt_Ret [OF rcpt] verifyERC20SwapTxLog_Ret [OF log] idx chk show ?thesis
    by (auto simp: new_swap_info_def intro: that)
qed

lemma ensure_Ret: "ensure c e = Ret u \<longleftrightarrow> c"
  by (simp add: ensure_def)

lemma or_err_Ret: "or_err x e = Ret v \<longleftrightarrow> x = Some v"
  by (simp add: or_err_def split: option.splits)

lemma non_nil_Ret: "non_nil x = Ret v \<longleftrightarrow> x = Some v"
  by (simp add: non_nil_def split: option.splits)

lemmas checked = obind_Ret_iff ensure_Ret or_err_Ret non_nil_Ret Let_def

lemma checkERC20SwapInfo_Ret:
  assumes "checkERC20SwapInfo r b e s = Ret ()"
  shows "\<exists>cc info fromCfg toBridge toCfg.
    bridgeChainConfig b = Some cc \<and> bi_String (tx_FromChainID s) = cc_ChainID cc \<and> erc20Info s = Some info \<and>
    GetTokenConfig b (erc20_Token info) = Some fromCfg \<and>
    GetBridgeByChainID r (bi_String (tx_ToChainID s)) = Some toBridge \<and>
    GetTokenConfig (base toBridge) (GetCachedMultichainToken r (erc20_TokenID info) (bi_String (tx_ToChainID s))) = Some toCfg \<and>
    CheckTokenSwapValue (toks r) s (Decimals fromCfg) (Decimals toCfg) = Ret True \<and>
    isValidAddress toBridge (tx_Bind s)"
  using assms unfolding checkERC20SwapInfo_def checked by auto

lemma checkTokenReceived_Ret:
  assumes "checkTokenReceived r b s receipt = Ret ()"
  shows "\<exists>info cfg. erc20Info s = Some info \<and> GetTokenConfig b (erc20_Token info) = Some cfg \<and> erc20_TokenID info \<noteq> '''' \<and>
    (DontCheckTokenReceived (prm (toks r)) (erc20_TokenID info) \<or> HexToAddress (underlying cfg) = ZeroAddress \<or>
     (\<exists>rc v amt. GetRouterContract b (erc20_Token info) = Ret rc \<and> tx_Value s = Some v \<and> v * 4 div 5 \<le> amt \<and>
        recv_loop \<lparr>ra_token = HexToAddress (erc20_Token info), ra_underlying = underlying cfg, ra_router = rc,
                   ra_from = tx_From s\<rparr> (Logs receipt) (nat (tx_LogIndex s)) = Ret (Some amt)))"
  using assms unfolding checkTokenReceived_def
  by (auto simp: checked big_Div_pos split: if_splits)

section \<open>Decoding the logs\<close>

lemma length_pack_Swapout2:
  assumes "PackData [AString bind, ABigInt (Some v), ABigInt (Some fc), ABigInt (Some tc)] = Ret logData"
  shows "160 \<le> length logData"
proof -
  have "length (word32 128) = 32" by (simp add: length_packBigInt)
  then show ?thesis
    using assms by (auto simp: PackData_def pack_dynamic_def packString_def Let_def length_packBigInt)
qed

text \<open>
  The log of \<open>anySwapOut(token, to-string, amount, toChainID)\<close> as the router contract emits it
  is read back field by field.
\<close>

lemma parseERC20Swapout2TxLog_eq:
  assumes args: "big_fits (Some v)" "big_fits (Some fc)" "big_fits (Some tc)"
    and pack: "PackData [AString bind, ABigInt (Some v), ABigInt (Some fc), ABigInt (Some tc)] = Ret logData"
    and len: "length logData \<le> 281474976710656"
    and log: "Topics rlog = [LogAnySwapOut2Topic, Address_Hash token, Address_Hash from]" "log_Data rlog = Some logData"
    and addr: "length token = AddressLength" "length from = AddressLength"
    and cfg: "bridgeChainConfig b = Some cc" "\<not> IsUseFromChainIDInReceiptDisabled (prm (toks r)) (cc_ChainID cc)"
      "GetTokenConfig b (LowerHex token) = Some tcfg"
    and s: "erc20Info s = Some info"
  shows "parseERC20Swapout2TxLog r b rlog s =
    (Ret (), s\<lparr>erc20Info := Some (info\<lparr>erc20_Token := LowerHex token, erc20_TokenID := TokenID tcfg\<rparr>),
               tx_From := LowerHex from, tx_Bind := bind, tx_Value := Some v,
               tx_FromChainID := Some fc, tx_ToChainID := Some tc\<rparr>)"
proof -
  let ?args = "[AString bind, ABigInt (Some v), ABigInt (Some fc), ABigInt (Some tc)]"
  have ok: "list_all arg_ok ?args" using args by simp
  note parsed = PackData_parsed_back [OF ok pack len]
  have 0: "ParseStringInData logData 0 = Ret bind" using parsed [of 0] by simp
  have 1: "GetBigInt logData 32 32 = (Ret v :: (token_error, int) outcome)"
    using parsed [of 1] by (simp add: big_or_zero_def GetBigInt_def Let_def go_slice_def obind_Ret_iff split: if_splits)
  have 2: "GetBigInt logData 64 32 = (Ret fc :: (token_error, int) outcome)"
    using parsed [of 2] by (simp add: big_or_zero_def GetBigInt_def Let_def go_slice_def obind_Ret_iff split: if_splits)
  have 3: "GetBigInt logData 96 32 = (Ret tc :: (token_error, int) outcome)"
    using parsed [of 3] by (simp add: big_or_zero_def GetBigInt_def Let_def go_slice_def obind_Ret_iff split: if_splits)
  have fc: "from_chain r b logData 64 = Ret (Some fc)"
    using cfg 2 by (simp add: from_chain_def non_nil_def)
  show ?thesis
    using length_pack_Swapout2 [OF pack] log addr cfg s 0 1 3 fc
    by (simp add: parseERC20Swapout2TxLog_def sbind_def sguard_def slift_def supd_def upd_erc20_def non_nil_def
        topic_address_def lift_abi_def set_token_id_def get_erc20_def)
qed

section \<open>A concrete transaction\<close>

text \<open>
  A transfer of the underlying token to the any-token followed by the router's log, on a chain
  with a checked swap configuration; the witnesses below evaluate the verification on it.
\<close>

definition sample_address :: "nat \<Rightarrow> Address" where
  "sample_address n = replicate AddressLength (of_nat n)"

definition sample_chain :: ChainConfig where
  "sample_chain =
     \<lparr>cc_ChainID = big_String 1, BlockChain = ''ETH'', cc_RouterContract = LowerHex (sample_address 7),
      cc_Confirmations = 3, InitialHeight = 1, chainID_num = Some 1\<rparr>"

definition sample_token :: TokenConfig where
  "sample_token =
     \<lparr>TokenID = ''T'', Decimals = 18, ContractAddress = '''', ContractVersion = 1, RouterContract = '''',
      underlying = LowerHex (sample_address 2)\<rparr>"

definition sample_bridge :: CrossChainBridgeBase where
  "sample_bridge =
     \<lparr>bridgeChainConfig = Some sample_chain,
      bridgeGatewayConfig = Some \<lparr>APIAddress = [''url''], APIAddressExt = []\<rparr>, TokenConfigMap = (\<lambda>_. Some sample_token)\<rparr>"

text \<open>A bridge of which the verifier asks only its configuration and \<open>IsValidAddress\<close>.\<close>

definition sample_ibridge :: IBridge where
  "sample_ibridge =
     \<lparr>base = sample_bridge, isValidAddress = (\<lambda>_. True), getPairFor = None,
      getTransactionStatus = (\<lambda>_ _. (None, Some ErrNotFound)), verifyTransaction = (\<lambda>_ _ _. Inl ErrNotFound),
      mpcSignTransaction = (\<lambda>_ _ _. Inl (SignFailed ErrNotFound)),
      sendTransaction = (\<lambda>_ _. ('''', Some ErrNotFound)), getPoolNonce = None\<rparr>"

definition sample_router :: router_state where
  "sample_router =
     \<lparr>toks = \<lparr>prm = init_params\<lparr>routerConfig := zero_config\<lparr>Extra := Some (zero_extra\<lparr>EnableSwapWithPermit := True\<rparr>)\<rparr>\<rparr>,
              routerSwapType = ERC20SwapType, swapConfigMap = (\<lambda>_. Some (\<lambda>_. Some sample_swap))\<rparr>,
      RouterBridges = (\<lambda>_. Some sample_ibridge),
      MultichainTokens = (\<lambda>_. Some (\<lambda>_. Some ''0x5'')), pausedChainIDs = {}, MPCPublicKeys = Map.empty,
      RouterInfos = Map.empty\<rparr>"

definition sample_receipt :: RPCTxReceipt where
  "sample_receipt =
     \<lparr>BlockNumber = Some 10, rcpt_BlockHash = Some ZeroHash, Status = Some 1, rcpt_From = Some (sample_address 4),
      Recipient = Some (sample_address 7),
      Logs = [\<lparr>log_Address = Some (sample_address 2),
               Topics = [LogTransferTopic, Address_Hash (sample_address 4), Address_Hash (sample_address 3)],
               log_Data = Some (word32 20000), Removed = None\<rparr>,
              \<lparr>log_Address = Some (sample_address 7),
               Topics = [LogAnySwapOutTopic, Address_Hash (sample_address 3), Address_Hash (sample_address 4),
                         Address_Hash (sample_address 5)],
               log_Data = Some (word32 20000 @ word32 1 @ word32 56), Removed = None\<rparr>]\<rparr>"

definition sample_rpc :: eth_rpc where
  "sample_rpc =
     \<lparr>GetTransactionReceipt = (\<lambda>_. Inr (sample_receipt, ''url'')), GetLatestBlockNumberOf = (\<lambda>_ _. Inr 20),
      GetTransactionByHash = (\<lambda>_. Inr None), GetEIP1167Master = (\<lambda>_. ZeroAddress),
      GetContractCodeHash = (\<lambda>_. ZeroHash)\<rparr>"

definition sample_swap_info :: SwapTxInfo where
  "sample_swap_info =
     (new_swap_info ''0xAA'' 1)\<lparr>erc20Info := Some \<lparr>erc20_Token = LowerHex (sample_address 3), erc20_TokenID = ''T'',
        ForNative = False, ForUnderlying = False, Path = [], AmountOutMin = None, CallProxy = '''', erc20_CallData = None\<rparr>,
      tx_Height := 10, tx_Timestamp := 0, tx_From := LowerHex (sample_address 4), tx_TxTo := LowerHex (sample_address 7),
      tx_To := LowerHex (sample_address 7), tx_Bind := LowerHex (sample_address 5), tx_Value := Some 20000,
      tx_FromChainID := Some 1, tx_ToChainID := Some 56\<rparr>"

lemma length_sample_address [simp]: "length (sample_address n) = AddressLength"
  by (simp add: sample_address_def)

lemma LowerHex_not_Nil [simp]: "LowerHex a \<noteq> []"
  by (simp add: LowerHex_def)

lemma ToLower_LowerHex [simp]: "ToLower (LowerHex a) = LowerHex a"
  by (metis ToLower_Address_Hex ToLower_idem)

lemma EqualFold_LowerHex:
  "length a = AddressLength \<Longrightarrow> length b = AddressLength \<Longrightarrow> EqualFold (LowerHex a) (LowerHex b) \<longleftrightarrow> a = b"
  using address_lower.enc_inject by (auto simp: EqualFold_def)

lemma sample_address_inject:
  assumes "m < 256" and "n < 256"
  shows "sample_address m = sample_address n \<longleftrightarrow> m = n"
proof
  assume "sample_address m = sample_address n"
  then have "(of_nat m :: byte) = of_nat n" by (simp add: sample_address_def AddressLength_def)
  then have "unat (of_nat m :: byte) = unat (of_nat n :: byte)" by simp
  with assms show "m = n" by simp
qed simp

lemma ZeroAddress_sample: "ZeroAddress = sample_address 0"
  by (simp add: ZeroAddress_def sample_address_def)

lemmas sample_simps = EqualFold_LowerHex sample_address_inject ZeroAddress_sample

lemma sample_words:
  "GetBigInt (word32 20000) 0 32 = Ret 20000" "GetBigInt (word32 20000 @ word32 1 @ word32 56) 0 32 = Ret 20000"
  "GetBigInt (word32 20000 @ word32 1 @ word32 56) 32 32 = Ret 1"
  "GetBigInt (word32 20000 @ word32 1 @ word32 56) 64 32 = Ret 56"
  "length (word32 20000 @ word32 1 @ word32 56) = 96"
proof -
  have l: "length (word32 20000) = 32" "length (word32 1) = 32" "length (word32 56) = 32"
    by (simp_all add: length_packBigInt)
  then show "length (word32 20000 @ word32 1 @ word32 56) = 96" by simp
  have "block_at (word32 20000) 0 (word32 20000)" by (simp add: block_at_def)
  from GetBigInt_block [OF this] l show "GetBigInt (word32 20000) 0 32 = Ret 20000" by (simp add: W64_def)
  have "block_at (word32 20000 @ word32 1 @ word32 56) 0 (word32 20000)"
    "block_at (word32 20000 @ word32 1 @ word32 56) 32 (word32 1)"
    "block_at (word32 20000 @ word32 1 @ word32 56) 64 (word32 56)"
    using l by (simp_all add: block_at_def)
  from this [THEN GetBigInt_block] l
  show "GetBigInt (word32 20000 @ word32 1 @ word32 56) 0 32 = Ret 20000"
    "GetBigInt (word32 20000 @ word32 1 @ word32 56) 32 32 = Ret 1"
    "GetBigInt (word32 20000 @ word32 1 @ word32 56) 64 32 = Ret 56"
    by (simp_all add: W64_def)
qed

lemmas sample_data = sample_words [simplified]

lemma sample_recv_loop:
  "recv_loop \<lparr>ra_token = sample_address 3, ra_underlying = LowerHex (sample_address 2), ra_router = LowerHex (sample_address 7),
     ra_from = LowerHex (sample_address 4)\<rparr> (Logs sample_receipt) (Suc 0) = Ret (Some 20000)"
proof -
  have "recv_body \<lparr>ra_token = sample_address 3, ra_underlying = LowerHex (sample_address 2), ra_router = LowerHex (sample_address 7),
     ra_from = LowerHex (sample_address 4)\<rparr> (Logs sample_receipt) 0 = Ret (Stop (Some 20000))"
    by (simp add: recv_body_def sample_receipt_def sample_simps non_nil_def sample_data)
  then show ?thesis by simp
qed

lemma sample_value: "CheckTokenSwapValue (toks sample_router) sample_swap_info 18 18 = Ret True"
  by (simp add: CheckTokenSwapValue_def sample_router_def sample_ibridge_def IsERC20Router_def sample_swap_info_def new_swap_info_def
      GetTokenID_def GetSwapConfig_def ConvertTokenValue_def sample_swap_def non_nil_def IsInBigValueWhitelist_def
      in_table_def params_zeros CalcSwapValue_def calc_swap_fee_def big_Div_def GetBaseFeePercent_def GetExtraConfig_def)

lemma sample_status:
  "GetTransactionStatus sample_rpc h =
     Ret (\<lparr>Sender = '''', Receipt = Some (WithStatus True), Confirmations = 10, BlockHeight = 10,
        BlockHash = Encode ZeroHash, BlockTime = 0\<rparr>, sample_receipt)"
  by (simp add: GetTransactionStatus_def sample_rpc_def sample_receipt_def non_nil_def IsStatusOk_def W64_def)

lemma sample_receipt_facts:
  "IsStatusOk sample_receipt" "Recipient sample_receipt = Some (sample_address 7)"
  "rcpt_From sample_receipt = Some (sample_address 4)" "length (Logs sample_receipt) = 2"
  by (simp_all add: sample_receipt_def IsStatusOk_def)

lemma sample_getSwapTxReceipt:
  "getSwapTxReceipt sample_router sample_bridge sample_rpc False s =
     (Ret sample_receipt, s\<lparr>tx_Height := 10, tx_Timestamp := 0, tx_TxTo := LowerHex (sample_address 7),
        tx_From := LowerHex (sample_address 4)\<rparr>)"
  by (simp add: getSwapTxReceipt_def sget_def sbind_def slift_def sample_status sguard_def sample_bridge_def
      sample_chain_def non_nil_def supd_def sret_def sample_simps sample_receipt_facts)

lemma sample_verify:
  "verifyERC20SwapTx sample_router sample_bridge sample_rpc ''0xAA'' 1 False = (Ret (), sample_swap_info)"
proof -
  let ?s = "(new_swap_info ''0xAA'' 1)\<lparr>tx_Height := 10, tx_Timestamp := 0, tx_TxTo := LowerHex (sample_address 7),
        tx_From := LowerHex (sample_address 4)\<rparr>"
  have log: "verifyERC20SwapTxLog sample_router sample_bridge (Logs sample_receipt ! 1) ?s = (Ret (), sample_swap_info)"
    by (simp add: verifyERC20SwapTxLog_def parseERC20SwapoutTxLog_def sbind_def slift_def non_nil_def supd_def sguard_def
        upd_erc20_def get_erc20_def set_token_id_def sample_receipt_def sample_data topic_address_def
        new_swap_info_def sample_swap_info_def from_chain_def sample_bridge_def sample_chain_def sample_router_def sample_ibridge_def
        IsUseFromChainIDInReceiptDisabled_def params_zeros GetTokenConfig_def sample_token_def GetRouterContract_def)
  have recv: "checkTokenReceived sample_router sample_bridge sample_swap_info sample_receipt = Ret ()"
    using sample_recv_loop
    by (simp add: checkTokenReceived_def sample_swap_info_def new_swap_info_def non_nil_def GetTokenConfig_def
        sample_bridge_def sample_token_def or_err_def ensure_def DontCheckTokenReceived_def sample_router_def sample_ibridge_def
        params_zeros sample_simps GetRouterContract_def sample_chain_def big_Div_def Let_def del: recv_loop.simps)
  have chk: "checkERC20SwapInfo sample_router sample_bridge sample_rpc sample_swap_info = Ret ()"
  proof -
    have cc: "checkCallByContract sample_router sample_bridge sample_rpc sample_swap_info = Ret ()"
      by (simp add: checkCallByContract_def sample_swap_info_def new_swap_info_def GetToken_def GetRouterContract_def
          sample_bridge_def sample_chain_def GetTokenConfig_def sample_token_def ensure_def LowerHex_def)
    have "checkSwapWithPermit sample_router sample_bridge sample_rpc sample_swap_info = Ret ()"
      by (simp add: checkSwapWithPermit_def IsSwapWithPermitEnabled_def sample_router_def sample_ibridge_def GetExtraConfig_def params_zeros)
    with cc sample_value show ?thesis
      by (simp add: checkERC20SwapInfo_def sample_bridge_def sample_chain_def non_nil_def ensure_def or_err_def
          GetTokenConfig_def sample_token_def GetCachedMultichainToken_def GetCachedMultichainTokens_def
          GetBridgeByChainID_def bi_String_def)
         (simp add: sample_router_def sample_ibridge_def sample_swap_info_def new_swap_info_def sample_bridge_def sample_token_def)
  qed
  show ?thesis
    using log recv chk
    by (simp add: verifyERC20SwapTx_def sbind_def sample_getSwapTxReceipt sguard_def slift_def sget_def
        sample_receipt_facts)
qed

section \<open>Properties\<close>

text \<open>
  C1: a transaction that passes the verification is on chain at or after the initial height, has
  the required confirmations (unless unstable ones are allowed) and a good receipt, and the log
  at the given index is one of the router's swap logs, not removed, and was emitted by the very
  contract that is configured as the router of the swapped token.
\<close>

theorem verifyERC20SwapTx_authentic:
  assumes "verifyERC20SwapTx r b e txHash logIndex allowUnstable = (Ret (), s)"
  shows "\<exists>st receipt cc. GetTransactionStatus e (ToLower txHash) = Ret (st, receipt) \<and>
    bridgeChainConfig b = Some cc \<and> BlockHeight st \<noteq> 0 \<and> InitialHeight cc \<le> BlockHeight st \<and>
    (cc_Confirmations cc \<le> Confirmations st \<or> allowUnstable) \<and> IsStatusOk receipt \<and>
    0 \<le> logIndex \<and> logIndex < int (length (Logs receipt)) \<and>
    from_router b s (Logs receipt ! nat logIndex) \<and> tx_LogIndex s = logIndex"
  using assms by (rule verifyERC20SwapTx_Ret) blast

theorem verifyERC20SwapTx_authentic_witness:
  "from_router sample_bridge sample_swap_info (Logs sample_receipt ! 1) \<and> 1 < int (length (Logs sample_receipt))"
  using verifyERC20SwapTx_authentic [OF sample_verify] by (auto simp: sample_status)

text \<open>
  C3: a transaction that passes the verification names this chain as its source, a token that is
  configured here and on the target chain, a value that the swap value check accepts with the
  decimals of both tokens, and a receiver that the bridge of the target chain accepts.
\<close>

theorem verifyERC20SwapTx_payable:
  assumes "verifyERC20SwapTx r b e txHash logIndex allowUnstable = (Ret (), s)"
  shows "\<exists>cc info fromCfg toBridge toCfg.
    bridgeChainConfig b = Some cc \<and> bi_String (tx_FromChainID s) = cc_ChainID cc \<and> erc20Info s = Some info \<and>
    GetTokenConfig b (erc20_Token info) = Some fromCfg \<and>
    GetBridgeByChainID r (bi_String (tx_ToChainID s)) = Some toBridge \<and>
    GetTokenConfig (base toBridge) (GetCachedMultichainToken r (erc20_TokenID info) (bi_String (tx_ToChainID s))) = Some toCfg \<and>
    CheckTokenSwapValue (toks r) s (Decimals fromCfg) (Decimals toCfg) = Ret True \<and>
    isValidAddress toBridge (tx_Bind s)"
  using assms by (rule verifyERC20SwapTx_Ret) (rule checkERC20SwapInfo_Ret)

theorem verifyERC20SwapTx_payable_witness:
  "\<exists>toBridge. GetBridgeByChainID sample_router (bi_String (Some 56)) = Some toBridge \<and>
     isValidAddress toBridge (LowerHex (sample_address 5))"
  using verifyERC20SwapTx_payable [OF sample_verify] by (auto simp: sample_swap_info_def)

text \<open>
  C2: when the token has an underlying token (its configured address is not zero) and is not exempt
  by configuration (\<open>DontCheckTokenReceived\<close>), a verified transaction contains, before the swap
  log, a log that moves at least 80 percent of the value from the sender (or the router) to the
  any-token, or burns it from the sender; and between that log and the swap log there is no other
  log of the router, so one reception cannot serve two swaps. For other tokens the code looks for
  no such log.
\<close>

theorem verifyERC20SwapTx_received:
  assumes "verifyERC20SwapTx r b e txHash logIndex allowUnstable = (Ret (), s)"
    and "erc20Info s = Some info" and "GetTokenConfig b (erc20_Token info) = Some cfg"
    and "\<not> DontCheckTokenReceived (prm (toks r)) (erc20_TokenID info)"
    and "HexToAddress (underlying cfg) \<noteq> ZeroAddress"
  shows "\<exists>st receipt rc v amt i a. GetTransactionStatus e (ToLower txHash) = Ret (st, receipt) \<and>
    GetRouterContract b (erc20_Token info) = Ret rc \<and> tx_Value s = Some v \<and> v * 4 div 5 \<le> amt \<and>
    a = \<lparr>ra_token = HexToAddress (erc20_Token info), ra_underlying = underlying cfg, ra_router = rc, ra_from = tx_From s\<rparr> \<and>
    i < nat logIndex \<and> receives a (Logs receipt ! i) amt \<and>
    list_all (passed_over a) (map ((!) (Logs receipt)) [Suc i..<nat logIndex])"
  using assms(1)
proof (rule verifyERC20SwapTx_Ret)
  fix st receipt cc
  assume st: "GetTransactionStatus e (ToLower txHash) = Ret (st, receipt)" and idx: "tx_LogIndex s = logIndex"
    and chk: "checkTokenReceived r b s receipt = Ret ()"
  from checkTokenReceived_Ret [OF chk] assms(2-5) obtain rc v amt where
    rc: "GetRouterContract b (erc20_Token info) = Ret rc" "tx_Value s = Some v" "v * 4 div 5 \<le> amt"
    and loop: "recv_loop \<lparr>ra_token = HexToAddress (erc20_Token info), ra_underlying = underlying cfg, ra_router = rc,
                   ra_from = tx_From s\<rparr> (Logs receipt) (nat logIndex) = Ret (Some amt)"
    by (auto simp: idx)
  from recv_loop_sound [OF loop] st rc show ?thesis by (fastforce simp: list_all_iff)
qed

theorem verifyERC20SwapTx_received_witness:
  "\<exists>v amt. tx_Value sample_swap_info = Some v \<and> v * 4 div 5 \<le> amt \<and>
     receives \<lparr>ra_token = sample_address 3, ra_underlying = LowerHex (sample_address 2),
       ra_router = LowerHex (sample_address 7), ra_from = LowerHex (sample_address 4)\<rparr> (Logs sample_receipt ! 0) amt"
proof -
  let ?info = "the (erc20Info sample_swap_info)"
  have "erc20Info sample_swap_info = Some ?info" by (simp add: sample_swap_info_def)
  moreover have "GetTokenConfig sample_bridge (erc20_Token ?info) = Some sample_token"
    by (simp add: GetTokenConfig_def sample_bridge_def)
  moreover have "\<not> DontCheckTokenReceived (prm (toks sample_router)) (erc20_TokenID ?info)"
    by (simp add: DontCheckTokenReceived_def sample_router_def sample_ibridge_def params_zeros)
  moreover have "HexToAddress (underlying sample_token) \<noteq> ZeroAddress" by (simp add: sample_token_def sample_simps)
  ultimately obtain rc v amt i a where
    rc: "GetRouterContract sample_bridge (erc20_Token ?info) = Ret rc"
    and v: "tx_Value sample_swap_info = Some v" "v * 4 div 5 \<le> amt" "i < nat 1" "receives a (Logs sample_receipt ! i) amt"
    and a: "a = \<lparr>ra_token = HexToAddress (erc20_Token ?info), ra_underlying = underlying sample_token, ra_router = rc,
                ra_from = tx_From sample_swap_info\<rparr>"
    using verifyERC20SwapTx_received [OF sample_verify, of ?info sample_token] by (auto simp: sample_status)
  have "rc = LowerHex (sample_address 7)"
    using rc by (simp add: GetRouterContract_def sample_swap_info_def GetTokenConfig_def sample_bridge_def
        sample_token_def sample_chain_def)
  with a have "a = \<lparr>ra_token = sample_address 3, ra_underlying = LowerHex (sample_address 2),
       ra_router = LowerHex (sample_address 7), ra_from = LowerHex (sample_address 4)\<rparr>"
    by (simp add: sample_swap_info_def sample_token_def)
  with v show ?thesis by auto
qed

text \<open>
  the log of a swap to a receiver given as text, encoded by the ABI as the router contract
  emits it, is read back exactly: token, sender, receiver, value and both chain identifiers.
\<close>

theorem parseERC20Swapout2TxLog_decodes:
  assumes "big_fits (Some v)" and "big_fits (Some fc)" and "big_fits (Some tc)"
    and "PackData [AString bind, ABigInt (Some v), ABigInt (Some fc), ABigInt (Some tc)] = Ret logData"
    and "length logData \<le> 281474976710656"
    and "Topics rlog = [LogAnySwapOut2Topic, Address_Hash token, Address_Hash from]" and "log_Data rlog = Some logData"
    and "length token = AddressLength" and "length from = AddressLength"
    and "bridgeChainConfig b = Some cc" and "\<not> IsUseFromChainIDInReceiptDisabled (prm (toks r)) (cc_ChainID cc)"
    and "GetTokenConfig b (LowerHex token) = Some tcfg" and "erc20Info s = Some info"
  shows "parseERC20Swapout2TxLog r b rlog s =
    (Ret (), s\<lparr>erc20Info := Some (info\<lparr>erc20_Token := LowerHex token, erc20_TokenID := TokenID tcfg\<rparr>),
               tx_From := LowerHex from, tx_Bind := bind, tx_Value := Some v,
               tx_FromChainID := Some fc, tx_ToChainID := Some tc\<rparr>)"
  using assms by (rule parseERC20Swapout2TxLog_eq)

theorem parseERC20Swapout2TxLog_decodes_witness:
  "\<exists>logData s. parseERC20Swapout2TxLog sample_router sample_bridge
      \<lparr>log_Address = None, Topics = [LogAnySwapOut2Topic, Address_Hash (sample_address 3), Address_Hash (sample_address 4)],
       log_Data = Some logData, Removed = None\<rparr> (new_swap_info ''0xaa'' 0) = (Ret (), s) \<and>
     tx_Bind s = ''b'' \<and> tx_Value s = Some 7"
proof -
  obtain logData where pack: "PackData [AString ''b'', ABigInt (Some 7), ABigInt (Some 1), ABigInt (Some 56)] = Ret logData"
    using pack_args_Ret [of 0 "[AString ''b'', ABigInt (Some 7), ABigInt (Some 1), ABigInt (Some 56)]"]
    by (auto simp: PackData_def)
  then have len: "length logData \<le> 281474976710656"
    by (auto simp: PackData_def pack_dynamic_def packString_def Let_def length_packBigInt)
  have fits: "big_fits (Some 7)" "big_fits (Some 1)" "big_fits (Some 56)" by (simp_all add: big_fits_def)
  have cfg: "bridgeChainConfig sample_bridge = Some sample_chain"
    "\<not> IsUseFromChainIDInReceiptDisabled (prm (toks sample_router)) (cc_ChainID sample_chain)"
    "GetTokenConfig sample_bridge (LowerHex (sample_address 3)) = Some sample_token"
    by (simp_all add: sample_bridge_def sample_router_def sample_ibridge_def IsUseFromChainIDInReceiptDisabled_def params_zeros GetTokenConfig_def)
  show ?thesis
    using parseERC20Swapout2TxLog_decodes [OF fits pack len, of
      "\<lparr>log_Address = None, Topics = [LogAnySwapOut2Topic, Address_Hash (sample_address 3), Address_Hash (sample_address 4)],
        log_Data = Some logData, Removed = None\<rparr>" "sample_address 3" "sample_address 4", OF _ _ _ _ cfg, of "new_swap_info ''0xaa'' 0"]
    by (intro exI [of _ logData]) (auto simp: new_swap_info_def)
qed

text \<open>
  the verifier indexes the first topic of the log without a check, so a log without topics
  (an anonymous event of any contract) at the requested index makes it panic instead of
  reporting that the swap log was not found.
\<close>

theorem verifyERC20SwapTxLog_no_topics:
  assumes "Topics rlog = []"
  shows "fst (verifyERC20SwapTxLog r b rlog s) = Panic"
  using assms by (simp add: verifyERC20SwapTxLog_def sbind_def slift_def supd_def non_nil_def split: option.splits)

theorem verifyERC20SwapTxLog_no_topics_witness:
  "fst (verifyERC20SwapTxLog sample_router sample_bridge
     \<lparr>log_Address = Some ZeroAddress, Topics = [], log_Data = Some [], Removed = None\<rparr> (new_swap_info ''0xaa'' 0)) = Panic"
  by (rule verifyERC20SwapTxLog_no_topics) simp

end
