(* ===== verification/VerifyNFT.thy ===== *)
theory VerifyNFT
  imports VerifyERC20
begin

text \<open>
  The verification of the two other kinds of router transactions, NFT swaps
  (\<open>tokens/eth/nftswap.go\<close>) and calls of contracts (\<open>anycallswap.go\<close>), the registration of
  all swaps of a transaction (\<open>register.go\<close>) and the dispatch on the kind (\<open>verifytx.go\<close>). As in
  VerifyERC20, the swap record is threaded through the steps. The balance of a caller on the target
  chain, which the check of a contract call asks for, is a parameter. The cache that
  \<open>params.IsNFTSwapWithData\<close> fills is not threaded.
\<close>

section \<open>Logs of NFT swaps\<close>

definition LogNFT721SwapOutTopic :: bytes where
  "LogNFT721SwapOutTopic = FromHex ''0x0d45b0b9f5add3e1bb841982f1fa9303628b0b619b000cb1f9f1c3903329a4c7''"

definition LogNFT1155SwapOutTopic :: bytes where
  "LogNFT1155SwapOutTopic = FromHex ''0x5058b8684cf36ffd9f66bc623fbc617a44dd65cf2273306d03d3104af0995cb0''"

definition LogNFT1155SwapOutBatchTopic :: bytes where
  "LogNFT1155SwapOutBatchTopic = FromHex ''0xaa428a5ab688b49b415401782c170d216b33b15711d30cf69482f570eca8db38''"

definition LogNFT721SwapOutWithDataTopic :: bytes where
  "LogNFT721SwapOutWithDataTopic = FromHex ''0x8ef0d7d8b96825500b3d692d995a543110f8a93f16b7be5d23b5960fd4363bdc''"

definition errWrongIDsOrAmounts :: token_error where
  "errWrongIDsOrAmounts = OtherError ''wrong ids or amounts''"

text \<open>The embedded \<open>NFTSwapInfo\<close> pointer.\<close>

definition get_nft :: "NFTSwapInfo verifying" where
  "get_nft s = (non_nil (nftInfo s), s)"

definition upd_nft :: "(NFTSwapInfo \<Rightarrow> NFTSwapInfo) \<Rightarrow> unit verifying" where
  "upd_nft f s = (case nftInfo s of None \<Rightarrow> (Panic, s) | Some i \<Rightarrow> (Ret (), s\<lparr>nftInfo := Some (f i)\<rparr>))"

definition set_nft_token_id :: "CrossChainBridgeBase \<Rightarrow> unit verifying" where
  "set_nft_token_id b =
     sbind get_nft (\<lambda>i.
       case GetTokenConfig b (nft_Token i) of
         None \<Rightarrow> slift (Err ErrMissTokenConfig)
       | Some c \<Rightarrow> upd_nft (\<lambda>i. i\<lparr>nft_TokenID := TokenID c\<rparr>))"

text \<open>What the four parsers begin with: the addresses in the topics, and no value.\<close>

definition nft_topics :: "RPCLog \<Rightarrow> unit verifying" where
  "nft_topics rlog =
     sbind (upd_nft (\<lambda>i. i\<lparr>nft_Token := topic_address rlog 1\<rparr>)) (\<lambda>_.
     supd (\<lambda>s. s\<lparr>tx_From := topic_address rlog 2, tx_Bind := topic_address rlog 3, tx_Value := Some 0\<rparr>))"

definition parseNFT721SwapoutTxLog :: "router_state \<Rightarrow> CrossChainBridgeBase \<Rightarrow> RPCLog \<Rightarrow> unit verifying" where
  "parseNFT721SwapoutTxLog r b rlog =
     sbind (sguard (length (Topics rlog) = 4) ErrTxWithWrongTopics) (\<lambda>_.
     sbind (slift (non_nil (log_Data rlog))) (\<lambda>logData.
     sbind (sguard (length logData = 96) parse_data_error) (\<lambda>_.
     sbind (nft_topics rlog) (\<lambda>_.
     sbind (slift (GetBigInt logData 0 32)) (\<lambda>i.
     sbind (upd_nft (\<lambda>n. n\<lparr>IDs := [i]\<rparr>)) (\<lambda>_.
     sbind (slift (from_chain r b logData 32)) (\<lambda>fc.
     sbind (slift (GetBigInt logData 64 32)) (\<lambda>tc.
     sbind (supd (\<lambda>s. s\<lparr>tx_FromChainID := fc, tx_ToChainID := Some tc\<rparr>)) (\<lambda>_.
     set_nft_token_id b)))))))))"

text \<open>Here the source chain is always read from the log.\<close>

definition parseNFT721SwapoutWithDataTxLog :: "router_state \<Rightarrow> CrossChainBridgeBase \<Rightarrow> RPCLog \<Rightarrow> unit verifying" where
  "parseNFT721SwapoutWithDataTxLog r b rlog =
     sbind (sguard (length (Topics rlog) = 4) ErrTxWithWrongTopics) (\<lambda>_.
     sbind (slift (non_nil (log_Data rlog))) (\<lambda>logData.
     sbind (sguard (160 \<le> length logData) parse_data_error) (\<lambda>_.
     sbind (nft_topics rlog) (\<lambda>_.
     sbind (slift (GetBigInt logData 0 32)) (\<lambda>i.
     sbind (upd_nft (\<lambda>n. n\<lparr>IDs := [i]\<rparr>)) (\<lambda>_.
     sbind (slift (GetBigInt logData 32 32)) (\<lambda>fc.
     sbind (slift (GetBigInt logData 64 32)) (\<lambda>tc.
     sbind (supd (\<lambda>s. s\<lparr>tx_FromChainID := Some fc, tx_ToChainID := Some tc\<rparr>)) (\<lambda>_.
     sbind (slift (lift_abi (ParseBytesInData logData 96))) (\<lambda>d.
     sbind (upd_nft (\<lambda>n. n\<lparr>nft_Data := d\<rparr>)) (\<lambda>_.
     set_nft_token_id b)))))))))))"

definition parseNFT1155SwapOutTxLog :: "router_state \<Rightarrow> CrossChainBridgeBase \<Rightarrow> RPCLog \<Rightarrow> unit verifying" where
  "parseNFT1155SwapOutTxLog r b rlog =
     sbind (sguard (length (Topics rlog) = 4) ErrTxWithWrongTopics) (\<lambda>_.
     sbind (slift (non_nil (log_Data rlog))) (\<lambda>logData.
     sbind (sguard (length logData = 128) parse_data_error) (\<lambda>_.
     sbind (nft_topics rlog) (\<lambda>_.
     sbind (slift (GetBigInt logData 0 32)) (\<lambda>i.
     sbind (slift (GetBigInt logData 32 32)) (\<lambda>a.
     sbind (upd_nft (\<lambda>n. n\<lparr>IDs := [i], Amounts := [a]\<rparr>)) (\<lambda>_.
     sbind (slift (from_chain r b logData 64)) (\<lambda>fc.
     sbind (slift (GetBigInt logData 96 32)) (\<lambda>tc.
     sbind (supd (\<lambda>s. s\<lparr>tx_FromChainID := fc, tx_ToChainID := Some tc\<rparr>)) (\<lambda>_.
     set_nft_token_id b))))))))))"

definition parseNFT1155SwapOutBatchTxLog :: "router_state \<Rightarrow> CrossChainBridgeBase \<Rightarrow> RPCLog \<Rightarrow> unit verifying" where
  "parseNFT1155SwapOutBatchTxLog r b rlog =
     sbind (sguard (length (Topics rlog) = 4) ErrTxWithWrongTopics) (\<lambda>_.
     sbind (slift (non_nil (log_Data rlog))) (\<lambda>logData.
     sbind (sguard (192 \<le> length logData) parse_data_error) (\<lambda>_.
     sbind (upd_nft (\<lambda>n. n\<lparr>Batch := True\<rparr>)) (\<lambda>_.
     sbind (nft_topics rlog) (\<lambda>_.
     sbind (slift (lift_abi (ParseNumberSliceAsBigIntsInData logData 0))) (\<lambda>is.
     sbind (upd_nft (\<lambda>n. n\<lparr>IDs := is\<rparr>)) (\<lambda>_.
     sbind (slift (lift_abi (ParseNumberSliceAsBigIntsInData logData 32))) (\<lambda>as.
     sbind (upd_nft (\<lambda>n. n\<lparr>Amounts := as\<rparr>)) (\<lambda>_.
     sbind (slift (from_chain r b logData 64)) (\<lambda>fc.
     sbind (slift (GetBigInt logData 96 32)) (\<lambda>tc.
     sbind (supd (\<lambda>s. s\<lparr>tx_FromChainID := fc, tx_ToChainID := Some tc\<rparr>)) (\<lambda>_.
     set_nft_token_id b))))))))))))"

definition verifyNFTSwapTxLog :: "router_state \<Rightarrow> CrossChainBridgeBase \<Rightarrow> RPCLog \<Rightarrow> unit verifying" where
  "verifyNFTSwapTxLog r b rlog =
     sbind (slift (non_nil (log_Address rlog))) (\<lambda>addr.
     sbind (supd (\<lambda>s. s\<lparr>tx_To := LowerHex addr\<rparr>)) (\<lambda>_.
     sbind (slift (case Topics rlog of [] \<Rightarrow> Panic | t # _ \<Rightarrow> Ret t)) (\<lambda>logTopic.
     sbind (if fst (IsNFTSwapWithData (prm (toks r))) then
              (if logTopic = LogNFT721SwapOutWithDataTopic then parseNFT721SwapoutWithDataTxLog r b rlog
               else slift (Err ErrSwapoutLogNotFound))
            else if logTopic = LogNFT721SwapOutTopic then parseNFT721SwapoutTxLog r b rlog
            else if logTopic = LogNFT1155SwapOutTopic then parseNFT1155SwapOutTxLog r b rlog
            else if logTopic = LogNFT1155SwapOutBatchTopic then parseNFT1155SwapOutBatchTxLog r b rlog
            else slift (Err ErrSwapoutLogNotFound)) (\<lambda>_.
     sbind (sguard (Removed rlog \<noteq> Some True) ErrTxWithRemovedLog) (\<lambda>_.
     sbind get_nft (\<lambda>i.
     sbind (slift (GetRouterContract b (nft_Token i))) (\<lambda>routerContract.
     sbind (sguard (routerContract \<noteq> '''') ErrMissRouterInfo) (\<lambda>_.
     sguard (EqualFold (LowerHex addr) routerContract) ErrTxWithWrongContract))))))))"

text \<open>How many identifiers and amounts each kind of NFT swap has.\<close>

definition check_ids :: "NFTSwapInfo \<Rightarrow> bool" where
  "check_ids n =
     (if Batch n then \<not> (length (IDs n) \<noteq> length (Amounts n) \<or> length (IDs n) = 0)
      else if 0 < length (Amounts n) then \<not> (length (IDs n) \<noteq> 1 \<or> length (Amounts n) \<noteq> 1)
      else \<not> (length (IDs n) \<noteq> 1 \<or> length (Amounts n) \<noteq> 0))"

definition checkNFTSwapInfo :: "router_state \<Rightarrow> CrossChainBridgeBase \<Rightarrow> eth_rpc \<Rightarrow> SwapTxInfo \<Rightarrow> (token_error, unit) outcome" where
  "checkNFTSwapInfo r b e swapInfo =
     obind (checkCallByContract r b e swapInfo) (\<lambda>_.
     obind (non_nil (bridgeChainConfig b)) (\<lambda>cc.
     obind (ensure (bi_String (tx_FromChainID swapInfo) = cc_ChainID cc) ErrFromChainIDMismatch) (\<lambda>_.
     let toChain = bi_String (tx_ToChainID swapInfo) in
     obind (or_err (GetBridgeByChainID r toChain) ErrNoBridgeForChainID) (\<lambda>dstBridge.
     obind (ensure (isValidAddress dstBridge (tx_Bind swapInfo)) ErrWrongBindAddress) (\<lambda>_.
     obind (non_nil (nftInfo swapInfo)) (\<lambda>n.
     obind (or_err (GetTokenConfig b (nft_Token n)) ErrMissTokenConfig) (\<lambda>_.
     obind (ensure (nft_TokenID n \<noteq> '''') ErrMissTokenConfig) (\<lambda>_.
     obind (ensure (GetCachedMultichainToken r (nft_TokenID n) toChain \<noteq> '''') ErrMissTokenConfig) (\<lambda>_.
     ensure (check_ids n) errWrongIDsOrAmounts)))))))))"

definition new_nft_info :: "string \<Rightarrow> int \<Rightarrow> SwapTxInfo" where
  "new_nft_info txHash logIndex =
     (new_swap_info txHash logIndex)\<lparr>erc20Info := None,
        nftInfo := Some \<lparr>nft_Token = '''', nft_TokenID = '''', IDs = [], Amounts = [], Batch = False, nft_Data = []\<rparr>,
        tx_SwapType := NFTSwapType\<rparr>"

text \<open>The frame that the verifications of NFT swaps and contract calls share.\<close>

definition log_at :: "RPCTxReceipt \<Rightarrow> int \<Rightarrow> RPCLog verifying" where
  "log_at receipt logIndex =
     sbind (sguard (\<not> int (length (Logs receipt)) \<le> logIndex) ErrLogIndexOutOfRange) (\<lambda>_.
     slift (if logIndex < 0 then Panic else Ret (Logs receipt ! nat logIndex)))"

definition verifyNFTSwapTx :: "router_state \<Rightarrow> CrossChainBridgeBase \<Rightarrow> eth_rpc \<Rightarrow> string \<Rightarrow> int \<Rightarrow> bool \<Rightarrow>
    (token_error, unit) outcome \<times> SwapTxInfo" where
  "verifyNFTSwapTx r b e txHash logIndex allowUnstable =
     sbind (getSwapTxReceipt r b e allowUnstable) (\<lambda>receipt.
     sbind (log_at receipt logIndex) (\<lambda>rlog.
     sbind (verifyNFTSwapTxLog r b rlog) (\<lambda>_.
     sget (\<lambda>s. slift (checkNFTSwapInfo r b e s)))))
       (new_nft_info txHash logIndex)"

section \<open>Logs of contract calls\<close>

definition LogAnyCallTopic :: bytes where
  "LogAnyCallTopic = FromHex ''0x3d1b3d059223895589208a5541dce543eab6d5942b3b1129231a942d1c47bc45''"

definition LogCurveAnyCallTopic :: bytes where
  "LogCurveAnyCallTopic = FromHex ''0x9ca1de98ebed0a9c38ace93d3ca529edacbbe199cf1b6f0f416ae9b724d4a81c''"

definition defMinReserveBudget :: int where
  "defMinReserveBudget = 10 ^ 16"

definition CurveAnycallSubType :: string where
  "CurveAnycallSubType = ''curve''"

definition getCallFrom :: "params_state \<Rightarrow> SwapTxInfo \<Rightarrow> (token_error, string) outcome" where
  "getCallFrom p swapInfo =
     (if GetSwapSubType p = CurveAnycallSubType then obind (non_nil (curveInfo swapInfo)) (\<lambda>i. Ret (curve_CallFrom i))
      else obind (non_nil (anycallInfo swapInfo)) (\<lambda>i. Ret (any_CallFrom i)))"

definition upd_curve :: "(CurveAnyCallSwapInfo \<Rightarrow> CurveAnyCallSwapInfo) \<Rightarrow> unit verifying" where
  "upd_curve f = supd (\<lambda>s. s\<lparr>curveInfo := map_option f (curveInfo s)\<rparr>)"

definition upd_anycall :: "(AnyCallSwapInfo \<Rightarrow> AnyCallSwapInfo) \<Rightarrow> unit verifying" where
  "upd_anycall f = supd (\<lambda>s. s\<lparr>anycallInfo := map_option f (anycallInfo s)\<rparr>)"

text \<open>\<open>SetBytes\<close> of the fourth topic; the embedded structure is replaced as a whole.\<close>

definition parseCurveAnyCallSwapTxLog :: "CrossChainBridgeBase \<Rightarrow> RPCLog \<Rightarrow> unit verifying" where
  "parseCurveAnyCallSwapTxLog b rlog =
     sbind (sguard (length (Topics rlog) = 4) ErrTxWithWrongTopics) (\<lambda>_.
     sbind (sguard (Topics rlog ! 0 = LogCurveAnyCallTopic) ErrSwapoutLogNotFound) (\<lambda>_.
     sbind (slift (non_nil (log_Data rlog))) (\<lambda>logData.
     sbind (sguard (96 \<le> length logData) parse_data_error) (\<lambda>_.
     sbind (supd (\<lambda>s. s\<lparr>erc20Info := None, nftInfo := None, anycallInfo := None,
       curveInfo := Some \<lparr>curve_CallFrom = topic_address rlog 1, curve_CallTo = topic_address rlog 2, curve_CallData = [], curve_Fallback = ''''\<rparr>,
       tx_ToChainID := Some (big_SetBytes (Topics rlog ! 3))\<rparr>)) (\<lambda>_.
     sbind (slift (non_nil (bridgeChainConfig b))) (\<lambda>cc.
     sbind (supd (\<lambda>s. s\<lparr>tx_FromChainID := chainID_num cc\<rparr>)) (\<lambda>_.
     sbind (slift (lift_abi (ParseBytesInData logData 0))) (\<lambda>d.
     sbind (upd_curve (\<lambda>i. i\<lparr>curve_CallData := d\<rparr>)) (\<lambda>_.
     sbind (slift (GetData logData 32 32)) (\<lambda>f.
     upd_curve (\<lambda>i. i\<lparr>curve_Fallback := LowerHex (BytesToAddress f)\<rparr>)))))))))))"

definition parseAnyCallSwapTxLog :: "router_state \<Rightarrow> CrossChainBridgeBase \<Rightarrow> RPCLog \<Rightarrow> unit verifying" where
  "parseAnyCallSwapTxLog r b rlog =
     sbind (sguard (length (Topics rlog) = 2) ErrTxWithWrongTopics) (\<lambda>_.
     sbind (sguard (Topics rlog ! 0 = LogAnyCallTopic) ErrSwapoutLogNotFound) (\<lambda>_.
     sbind (slift (non_nil (log_Data rlog))) (\<lambda>logData.
     sbind (sguard (320 \<le> length logData) parse_data_error) (\<lambda>_.
     sbind (supd (\<lambda>s. s\<lparr>erc20Info := None, nftInfo := None, curveInfo := None,
       anycallInfo := Some \<lparr>any_CallFrom = topic_address rlog 1, any_CallTo = [], any_CallData = [], Callbacks = [], CallNonces = []\<rparr>\<rparr>)) (\<lambda>_.
     sbind (slift (lift_abi (ParseAddressSliceInData logData 0))) (\<lambda>to.
     sbind (upd_anycall (\<lambda>i. i\<lparr>any_CallTo := to\<rparr>)) (\<lambda>_.
     sbind (slift (lift_abi (ParseBytesSliceInData logData 32))) (\<lambda>ds.
     sbind (upd_anycall (\<lambda>i. i\<lparr>any_CallData := ds\<rparr>)) (\<lambda>_.
     sbind (slift (lift_abi (ParseAddressSliceInData logData 64))) (\<lambda>cbs.
     sbind (upd_anycall (\<lambda>i. i\<lparr>Callbacks := cbs\<rparr>)) (\<lambda>_.
     sbind (slift (lift_abi (ParseNumberSliceAsBigIntsInData logData 96))) (\<lambda>ns.
     sbind (upd_anycall (\<lambda>i. i\<lparr>CallNonces := ns\<rparr>)) (\<lambda>_.
     sbind (slift (from_chain r b logData 128)) (\<lambda>fc.
     sbind (slift (GetBigInt logData 160 32)) (\<lambda>tc.
     supd (\<lambda>s. s\<lparr>tx_FromChainID := fc, tx_ToChainID := Some tc\<rparr>))))))))))))))))"

definition verifyAnyCallSwapTxLog :: "router_state \<Rightarrow> CrossChainBridgeBase \<Rightarrow> RPCLog \<Rightarrow> unit verifying" where
  "verifyAnyCallSwapTxLog r b rlog =
     sbind (slift (non_nil (log_Address rlog))) (\<lambda>addr.
     sbind (supd (\<lambda>s. s\<lparr>tx_To := LowerHex addr\<rparr>)) (\<lambda>_.
     sbind (if GetSwapSubType (prm (toks r)) = CurveAnycallSubType then parseCurveAnyCallSwapTxLog b rlog
            else parseAnyCallSwapTxLog r b rlog) (\<lambda>_.
     sbind (sguard (Removed rlog \<noteq> Some True) ErrTxWithRemovedLog) (\<lambda>_.
     sbind (slift (GetRouterContract b '''')) (\<lambda>routerContract.
     sguard (EqualFold (LowerHex addr) routerContract) ErrTxWithWrongContract)))))"

text \<open>\<open>balanceOf chainID account i\<close> is the answer to the i-th question after a balance.\<close>

definition checkAnyCallSwapInfo :: "router_state \<Rightarrow> CrossChainBridgeBase \<Rightarrow> (string \<Rightarrow> string \<Rightarrow> nat \<Rightarrow> token_error + int) \<Rightarrow>
    SwapTxInfo \<Rightarrow> (token_error, unit) outcome" where
  "checkAnyCallSwapInfo r b balanceOf swapInfo =
     (let p = prm (toks r) in
      obind (non_nil (bridgeChainConfig b)) (\<lambda>cc.
      obind (ensure (bi_String (tx_FromChainID swapInfo) = cc_ChainID cc) ErrFromChainIDMismatch) (\<lambda>_.
      let toChain = bi_String (tx_ToChainID swapInfo) in
      obind (or_err (GetBridgeByChainID r toChain) ErrNoBridgeForChainID) (\<lambda>dstBridge.
      if HasMinReserveBudgetConfig p then
        obind (non_nil (bridgeChainConfig (base dstBridge))) (\<lambda>dcc.
        let minReserveBudget = (case GetMinReserveBudget p (cc_ChainID dcc) of None \<Rightarrow> defMinReserveBudget | Some m \<Rightarrow> m) in
        obind (getCallFrom p swapInfo) (\<lambda>callFrom.
        case CheckNativeBalance (balanceOf toChain callFrom) minReserveBudget of
          Ret _ \<Rightarrow> Ret () | Err _ \<Rightarrow> Err ErrNoEnoughReserveBudget | Panic \<Rightarrow> Panic))
      else Ret ()))))"

definition new_anycall_info :: "string \<Rightarrow> int \<Rightarrow> SwapTxInfo" where
  "new_anycall_info txHash logIndex = (new_swap_info txHash logIndex)\<lparr>erc20Info := None, tx_SwapType := AnyCallSwapType\<rparr>"

definition verifyAnyCallSwapTx :: "router_state \<Rightarrow> CrossChainBridgeBase \<Rightarrow> eth_rpc \<Rightarrow> (string \<Rightarrow> string \<Rightarrow> nat \<Rightarrow> token_error + int) \<Rightarrow>
    string \<Rightarrow> int \<Rightarrow> bool \<Rightarrow> (token_error, unit) outcome \<times> SwapTxInfo" where
  "verifyAnyCallSwapTx r b e balanceOf txHash logIndex allowUnstable =
     sbind (getSwapTxReceipt r b e allowUnstable) (\<lambda>receipt.
     sbind (log_at receipt logIndex) (\<lambda>rlog.
     sbind (verifyAnyCallSwapTxLog r b rlog) (\<lambda>_.
     sbind (sget (\<lambda>s. slift (checkAnyCallSwapInfo r b balanceOf s))) (\<lambda>_.
     if allowUnstable then sret () else sget (\<lambda>s. slift (obind (getCallFrom (prm (toks r)) s) (\<lambda>_. Ret ())))))))
       (new_anycall_info txHash logIndex)"

text \<open>No record comes with the error of an unknown kind.\<close>

definition VerifyTransaction :: "router_state \<Rightarrow> CrossChainBridgeBase \<Rightarrow> eth_rpc \<Rightarrow> (string \<Rightarrow> string \<Rightarrow> nat \<Rightarrow> token_error + int) \<Rightarrow>
    string \<Rightarrow> VerifyArgs \<Rightarrow> (token_error, unit) outcome \<times> SwapTxInfo option" where
  "VerifyTransaction r b e balanceOf txHash args =
     (if va_SwapType args = ERC20SwapType then
        apsnd Some (verifyERC20SwapTx r b e txHash (va_LogIndex args) (AllowUnstable args))
      else if va_SwapType args = NFTSwapType then
        apsnd Some (verifyNFTSwapTx r b e txHash (va_LogIndex args) (AllowUnstable args))
      else if va_SwapType args = AnyCallSwapType then
        apsnd Some (verifyAnyCallSwapTx r b e balanceOf txHash (va_LogIndex args) (AllowUnstable args))
      else (Err ErrSwapTypeNotSupported, None))"

section \<open>Registering all swaps of a transaction\<close>

text \<open>
  The loop over the logs from \<open>i\<close>: logs that are no swap of this router are passed over; every
  other log gives a swap with its error, if it has one.
\<close>

definition passes_over :: "token_error \<Rightarrow> bool" where
  "passes_over err \<longleftrightarrow>
     errors_Is err ErrSwapoutLogNotFound \<or> errors_Is err ErrTxWithWrongTopics \<or> errors_Is err ErrTxWithWrongContract"

fun register_logs :: "(RPCLog \<Rightarrow> unit verifying) \<Rightarrow> (SwapTxInfo \<Rightarrow> (token_error, unit) outcome) \<Rightarrow> SwapTxInfo \<Rightarrow> nat \<Rightarrow> RPCLog list \<Rightarrow>
    (token_error, (SwapTxInfo \<times> token_error option) list) outcome" where
  "register_logs verifyLog checkInfo commonInfo i [] = Ret []"
| "register_logs verifyLog checkInfo commonInfo i (rlog # rlogs) =
     (case verifyLog rlog (commonInfo\<lparr>tx_LogIndex := int i\<rparr>) of
        (Panic, _) \<Rightarrow> Panic
      | (Err err, s) \<Rightarrow>
          obind (register_logs verifyLog checkInfo commonInfo (Suc i) rlogs) (\<lambda>rest.
          Ret (if passes_over err then rest else (s, Some err) # rest))
      | (Ret _, s) \<Rightarrow>
          (case checkInfo s of
             Panic \<Rightarrow> Panic
           | Err err \<Rightarrow> obind (register_logs verifyLog checkInfo commonInfo (Suc i) rlogs) (\<lambda>rest. Ret ((s, Some err) # rest))
           | Ret _ \<Rightarrow> obind (register_logs verifyLog checkInfo commonInfo (Suc i) rlogs) (\<lambda>rest. Ret ((s, None) # rest))))"

text \<open>\<open>start\<close> is the first log that is looked at when no index is given.\<close>

definition register_all :: "nat \<Rightarrow> (RPCLog \<Rightarrow> unit verifying) \<Rightarrow> (SwapTxInfo \<Rightarrow> (token_error, unit) outcome) \<Rightarrow>
    (SwapTxInfo \<Rightarrow> (token_error, RPCTxReceipt) outcome \<times> SwapTxInfo) \<Rightarrow> int \<Rightarrow> SwapTxInfo \<Rightarrow>
    (token_error, (SwapTxInfo \<times> token_error option) list) outcome" where
  "register_all start verifyLog checkInfo getReceipt logIndex info =
     (case getReceipt info of
        (Panic, _) \<Rightarrow> Panic
      | (Err err, commonInfo) \<Rightarrow> Ret [(commonInfo, Some err)]
      | (Ret receipt, commonInfo) \<Rightarrow>
          let n = length (Logs receipt) in
          if logIndex \<noteq> 0 \<and> (logIndex \<ge> int n \<or> logIndex < 0) then Ret [(commonInfo, Some ErrLogIndexOutOfRange)]
          else
            let (i, rlogs) = (if logIndex \<noteq> 0 then (nat logIndex, [Logs receipt ! nat logIndex]) else (start, drop start (Logs receipt)))
            in obind (register_logs verifyLog checkInfo commonInfo i rlogs) (\<lambda>swapInfos.
               Ret (if swapInfos = [] then [(commonInfo, Some ErrSwapoutLogNotFound)] else swapInfos)))"

definition registerERC20SwapTx :: "router_state \<Rightarrow> CrossChainBridgeBase \<Rightarrow> eth_rpc \<Rightarrow> string \<Rightarrow> int \<Rightarrow>
    (token_error, (SwapTxInfo \<times> token_error option) list) outcome" where
  "registerERC20SwapTx r b e txHash logIndex =
     register_all 1 (verifyERC20SwapTxLog r b) (checkERC20SwapInfo r b e) (getSwapTxReceipt r b e True) logIndex (new_swap_info txHash logIndex)"

definition registerNFTSwapTx :: "router_state \<Rightarrow> CrossChainBridgeBase \<Rightarrow> eth_rpc \<Rightarrow> string \<Rightarrow> int \<Rightarrow>
    (token_error, (SwapTxInfo \<times> token_error option) list) outcome" where
  "registerNFTSwapTx r b e txHash logIndex =
     register_all 1 (verifyNFTSwapTxLog r b) (checkNFTSwapInfo r b e) (getSwapTxReceipt r b e True) logIndex (new_nft_info txHash logIndex)"

definition registerAnyCallSwapTx :: "router_state \<Rightarrow> CrossChainBridgeBase \<Rightarrow> eth_rpc \<Rightarrow> (string \<Rightarrow> string \<Rightarrow> nat \<Rightarrow> token_error + int) \<Rightarrow>
    string \<Rightarrow> int \<Rightarrow> (token_error, (SwapTxInfo \<times> token_error option) list) outcome" where
  "registerAnyCallSwapTx r b e balanceOf txHash logIndex =
     register_all 0 (verifyAnyCallSwapTxLog r b) (checkAnyCallSwapInfo r b balanceOf) (getSwapTxReceipt r b e True) logIndex (new_anycall_info txHash logIndex)"

definition RegisterSwap :: "router_state \<Rightarrow> CrossChainBridgeBase \<Rightarrow> eth_rpc \<Rightarrow> (string \<Rightarrow> string \<Rightarrow> nat \<Rightarrow> token_error + int) \<Rightarrow>
    string \<Rightarrow> RegisterArgs \<Rightarrow> (token_error, (SwapTxInfo \<times> token_error option) list) outcome" where
  "RegisterSwap r b e balanceOf txHash args =
     (if ra_SwapType args = ERC20SwapType then registerERC20SwapTx r b e txHash (ra_LogIndex args)
      else if ra_SwapType args = NFTSwapType then registerNFTSwapTx r b e txHash (ra_LogIndex args)
      else if ra_SwapType args = AnyCallSwapType then registerAnyCallSwapTx r b e balanceOf txHash (ra_LogIndex args)
      else Err ErrSwapTypeNotSupported)"


section \<open>What the steps keep\<close>

lemma skeeps_get_nft: "skeeps sel get_nft"
  by (simp add: skeeps_def get_nft_def)

definition log_of :: "SwapTxInfo \<Rightarrow> int \<times> string" where
  "log_of s = (tx_LogIndex s, tx_Hash s)"

lemma skeeps_upd_nft: "skeeps log_of (upd_nft f)"
  by (auto simp: skeeps_def upd_nft_def log_of_def split: option.splits)

lemma skeeps_nft_token_id: "skeeps log_of (set_nft_token_id b)"
  unfolding set_nft_token_id_def
  by (intro skeeps_sbind skeeps_get_nft) (auto simp: skeeps_steps skeeps_upd_nft split: option.splits)

lemma skeeps_if: "skeeps sel m \<Longrightarrow> skeeps sel m' \<Longrightarrow> skeeps sel (if c then m else m')"
  by simp

lemma skeeps_anycall: "skeeps log_of (upd_curve f)" "skeeps log_of (upd_anycall g)"
  unfolding upd_curve_def upd_anycall_def by (intro skeeps_supd; simp add: log_of_def)+

lemma verifyNFTSwapTxLog_keeps: "skeeps log_of (verifyNFTSwapTxLog r b rlog)"
  unfolding verifyNFTSwapTxLog_def parseNFT721SwapoutWithDataTxLog_def parseNFT721SwapoutTxLog_def parseNFT1155SwapOutTxLog_def
    parseNFT1155SwapOutBatchTxLog_def nft_topics_def
  by (intro skeeps_if skeeps_sbind skeeps_steps skeeps_supd skeeps_get_nft skeeps_upd_nft skeeps_nft_token_id) (simp_all add: log_of_def)

lemma verifyAnyCallSwapTxLog_keeps: "skeeps log_of (verifyAnyCallSwapTxLog r b rlog)"
  unfolding verifyAnyCallSwapTxLog_def parseCurveAnyCallSwapTxLog_def parseAnyCallSwapTxLog_def
  by (intro skeeps_if skeeps_sbind skeeps_steps skeeps_supd skeeps_anycall) (simp_all add: log_of_def)

lemma verifyERC20SwapTxLog_keeps: "verifyERC20SwapTxLog r b rlog s = (Ret u, s') \<Longrightarrow> log_of s' = log_of s"
  by (simp add: log_of_def verifyERC20SwapTxLog_Ret)

lemma getSwapTxReceipt_index:
  "getSwapTxReceipt r b e u (s\<lparr>tx_LogIndex := i\<rparr>) = apsnd (\<lambda>s. s\<lparr>tx_LogIndex := i\<rparr>) (getSwapTxReceipt r b e u s)"
  unfolding getSwapTxReceipt_def
  by (auto simp: sget_def sbind_def slift_def sguard_def supd_def sret_def non_nil_def split: prod.splits outcome.splits option.splits)

section \<open>Registration and verification agree\<close>

text \<open>
  A kind of swap: its empty record, the verification of a log and the check of the record. One
  frame registers all swaps of a transaction, another verifies the one at a given index.
\<close>

locale swap_kind =
  fixes info :: "int \<Rightarrow> SwapTxInfo"
    and verifyLog :: "RPCLog \<Rightarrow> unit verifying"
    and checkInfo :: "SwapTxInfo \<Rightarrow> (token_error, unit) outcome"
  assumes info: "info i = (info j)\<lparr>tx_LogIndex := i\<rparr>"
    and keeps_log: "verifyLog rlog s = (Ret u, s') \<Longrightarrow> log_of s' = log_of s"
begin

lemma register_logs_iff:
  assumes "register_logs verifyLog checkInfo c i rlogs = Ret res"
  shows "(s, None) \<in> set res \<longleftrightarrow>
    (\<exists>j<length rlogs. verifyLog (rlogs ! j) (c\<lparr>tx_LogIndex := int (i + j)\<rparr>) = (Ret (), s) \<and> checkInfo s = Ret ())"
  using assms
proof (induction rlogs arbitrary: i res)
  case (Cons rlog rlogs)
  let ?at = "\<lambda>j. verifyLog ((rlog # rlogs) ! j) (c\<lparr>tx_LogIndex := int (i + j)\<rparr>)"
  obtain o1 s1 where v: "verifyLog rlog (c\<lparr>tx_LogIndex := int i\<rparr>) = (o1, s1)" by fastforce
  from Cons.prems v obtain rest where rest: "register_logs verifyLog checkInfo c (Suc i) rlogs = Ret rest"
    and mem: "(s, None) \<in> set res \<longleftrightarrow> (o1 = Ret () \<and> s = s1 \<and> checkInfo s1 = Ret ()) \<or> (s, None) \<in> set rest"
    by (auto simp: outcome_simps split: outcome.splits if_splits)
  have "(\<exists>j<length (rlog # rlogs). ?at j = (Ret (), s) \<and> checkInfo s = Ret ()) \<longleftrightarrow>
      (?at 0 = (Ret (), s) \<and> checkInfo s = Ret ()) \<or> (\<exists>j<length rlogs. ?at (Suc j) = (Ret (), s) \<and> checkInfo s = Ret ())"
    unfolding length_Cons Ex_less_Suc2 ..
  with Cons.IH [OF rest] mem v show ?case by auto
qed simp

lemma registered_iff:
  assumes "register_all start verifyLog checkInfo (getSwapTxReceipt r b e True) 0 (info 0) = Ret res" and "start \<le> i"
  shows "(s, None) \<in> set res \<and> tx_LogIndex s = int i \<longleftrightarrow>
    (\<exists>receipt s1. getSwapTxReceipt r b e True (info (int i)) = (Ret receipt, s1) \<and> i < length (Logs receipt) \<and>
       verifyLog (Logs receipt ! i) s1 = (Ret (), s) \<and> checkInfo s = Ret ())"
proof -
  obtain o1 c where g: "getSwapTxReceipt r b e True (info 0) = (o1, c)" by fastforce
  then have gi: "getSwapTxReceipt r b e True (info (int i)) = (o1, c\<lparr>tx_LogIndex := int i\<rparr>)"
    using getSwapTxReceipt_index [where s = "info 0" and i = "int i"] by (simp add: info [of "int i" 0])
  show ?thesis
  proof (cases o1)
    case (Ret receipt)
    from assms(1) g Ret obtain sw where
      sw: "register_logs verifyLog checkInfo c start (drop start (Logs receipt)) = Ret sw" "(s, None) \<in> set res \<longleftrightarrow> (s, None) \<in> set sw"
      by (auto simp: register_all_def outcome_simps)
    have at: "verifyLog rlog (c\<lparr>tx_LogIndex := int k\<rparr>) = (Ret (), s) \<Longrightarrow> tx_LogIndex s = int k" for rlog k
      using keeps_log by (fastforce simp: log_of_def)
    have "(s, None) \<in> set sw \<longleftrightarrow> (\<exists>j<length (drop start (Logs receipt)). verifyLog (drop start (Logs receipt) ! j) (c\<lparr>tx_LogIndex := int (start + j)\<rparr>) = (Ret (), s) \<and> checkInfo s = Ret ())"
      by (rule register_logs_iff [OF sw(1)])
    also have "\<dots> \<longleftrightarrow> (\<exists>k\<ge>start. k < length (Logs receipt) \<and> verifyLog (Logs receipt ! k) (c\<lparr>tx_LogIndex := int k\<rparr>) = (Ret (), s) \<and> checkInfo s = Ret ())"
      (is "_ \<longleftrightarrow> (\<exists>k\<ge>start. ?Q k)")
    proof (rule iffI, goal_cases)
      case 1
      then obtain j where "j < length (Logs receipt) - start" "?Q (start + j)" by auto
      then show ?case by (intro exI [of _ "start + j"]) simp
    next
      case 2
      then obtain k where "start \<le> k" "?Q k" by blast
      then show ?case
        by (intro exI [of _ "k - start"]) (auto; arith)
    qed
    finally show ?thesis using sw(2) gi Ret at assms(2) by auto
  qed (use assms(1) g gi in \<open>auto simp: register_all_def\<close>)
qed

end

interpretation erc20_kind: swap_kind "new_swap_info txHash" "verifyERC20SwapTxLog r b" "checkERC20SwapInfo r b e" for txHash r b e
  by unfold_locales (auto simp: new_swap_info_def dest: verifyERC20SwapTxLog_keeps)

interpretation nft_kind: swap_kind "new_nft_info txHash" "verifyNFTSwapTxLog r b" "checkNFTSwapInfo r b e" for txHash r b e
  by unfold_locales (auto simp: new_nft_info_def new_swap_info_def dest: skeepsD [OF verifyNFTSwapTxLog_keeps])

interpretation anycall_kind: swap_kind "new_anycall_info txHash" "verifyAnyCallSwapTxLog r b" "checkAnyCallSwapInfo r b balanceOf"
  for txHash r b balanceOf
  by unfold_locales (auto simp: new_anycall_info_def new_swap_info_def dest: skeepsD [OF verifyAnyCallSwapTxLog_keeps])

lemma verifyNFTSwapTx_iff:
  "verifyNFTSwapTx r b e txHash (int i) True = (Ret (), s) \<longleftrightarrow>
    (\<exists>receipt s1. getSwapTxReceipt r b e True (new_nft_info txHash (int i)) = (Ret receipt, s1) \<and> i < length (Logs receipt) \<and>
       verifyNFTSwapTxLog r b (Logs receipt ! i) s1 = (Ret (), s) \<and> checkNFTSwapInfo r b e s = Ret ())"
  by (auto simp: verifyNFTSwapTx_def log_at_def outcome_simps)

lemma verifyAnyCallSwapTx_iff:
  "verifyAnyCallSwapTx r b e balanceOf txHash (int i) True = (Ret (), s) \<longleftrightarrow>
    (\<exists>receipt s1. getSwapTxReceipt r b e True (new_anycall_info txHash (int i)) = (Ret receipt, s1) \<and> i < length (Logs receipt) \<and>
       verifyAnyCallSwapTxLog r b (Logs receipt ! i) s1 = (Ret (), s) \<and> checkAnyCallSwapInfo r b balanceOf s = Ret ())"
  by (auto simp: verifyAnyCallSwapTx_def log_at_def outcome_simps)

lemma verifyERC20SwapTx_iff:
  "verifyERC20SwapTx r b e txHash (int i) True = (Ret (), s) \<longleftrightarrow>
    (\<exists>receipt s1. getSwapTxReceipt r b e True (new_swap_info txHash (int i)) = (Ret receipt, s1) \<and> i < length (Logs receipt) \<and>
       verifyERC20SwapTxLog r b (Logs receipt ! i) s1 = (Ret (), s) \<and> checkTokenReceived r b s receipt = Ret () \<and>
       checkERC20SwapInfo r b e s = Ret ())"
  by (auto simp: verifyERC20SwapTx_def outcome_simps)

section \<open>What a verified NFT swap satisfies\<close>

text \<open>
  What the log of an NFT swap says, by the place of its data: one identifier in the first word, the
  amount of a 1155 token in the second, lists of both for a batch, and the extra bytes of a 721 token.
\<close>

definition log_word :: "bytes \<Rightarrow> nat \<Rightarrow> int" where
  "log_word data i = int (be_val (take 32 (drop i data)))"

definition nft_payload :: "bytes \<Rightarrow> bytes \<Rightarrow> NFTSwapInfo \<Rightarrow> bool" where
  "nft_payload topic data n \<longleftrightarrow>
     (if topic = LogNFT1155SwapOutBatchTopic then
        Batch n \<and> ParseNumberSliceAsBigIntsInData data 0 = Ret (IDs n) \<and> ParseNumberSliceAsBigIntsInData data 32 = Ret (Amounts n) \<and> nft_Data n = []
      else \<not> Batch n \<and> IDs n = [log_word data 0] \<and>
        (if topic = LogNFT1155SwapOutTopic then Amounts n = [log_word data 32] \<and> nft_Data n = []
         else Amounts n = [] \<and>
           (if topic = LogNFT721SwapOutWithDataTopic then ParseBytesInData data 96 = Ret (nft_Data n) else nft_Data n = [])))"

text \<open>The two words of the chains follow; the source may be configured to be this chain instead.\<close>

definition nft_chains :: "router_state \<Rightarrow> ChainConfig \<Rightarrow> bytes \<Rightarrow> bytes \<Rightarrow> SwapTxInfo \<Rightarrow> bool" where
  "nft_chains r cc topic data s \<longleftrightarrow>
     (let at = (if topic = LogNFT1155SwapOutTopic \<or> topic = LogNFT1155SwapOutBatchTopic then 64 else 32) in
      tx_ToChainID s = Some (log_word data (at + 32)) \<and>
      tx_FromChainID s =
        (if topic \<noteq> LogNFT721SwapOutWithDataTopic \<and> IsUseFromChainIDInReceiptDisabled (prm (toks r)) (cc_ChainID cc) then chainID_num cc
         else Some (log_word data at)))"

text \<open>The log was emitted by the router contract of its token, and the swap has the log's data.\<close>

definition nft_decoded :: "router_state \<Rightarrow> CrossChainBridgeBase \<Rightarrow> SwapTxInfo \<Rightarrow> RPCLog \<Rightarrow> bool" where
  "nft_decoded r b s rlog \<longleftrightarrow>
     (\<exists>addr n rc cc c data. log_Address rlog = Some addr \<and> nftInfo s = Some n \<and> length (Topics rlog) = 4 \<and> Removed rlog \<noteq> Some True \<and>
        GetRouterContract b (nft_Token n) = Ret rc \<and> rc \<noteq> '''' \<and> EqualFold (LowerHex addr) rc \<and>
        nft_Token n = topic_address rlog 1 \<and> tx_From s = topic_address rlog 2 \<and> tx_Bind s = topic_address rlog 3 \<and>
        Topics rlog ! 0 \<in> (if fst (IsNFTSwapWithData (prm (toks r))) then {LogNFT721SwapOutWithDataTopic}
          else {LogNFT721SwapOutTopic, LogNFT1155SwapOutTopic, LogNFT1155SwapOutBatchTopic}) \<and>
        GetTokenConfig b (nft_Token n) = Some c \<and> nft_TokenID n = TokenID c \<and>
        log_Data rlog = Some data \<and> nft_payload (Topics rlog ! 0) data n \<and>
        bridgeChainConfig b = Some cc \<and> nft_chains r cc (Topics rlog ! 0) data s)"

lemma nft_topics_distinct:
  "distinct [LogNFT721SwapOutTopic, LogNFT1155SwapOutTopic, LogNFT1155SwapOutBatchTopic, LogNFT721SwapOutWithDataTopic]"
  by code_simp

lemma upd_nft_Ret: "upd_nft f s = (Ret u, s') \<longleftrightarrow> (\<exists>n. nftInfo s = Some n \<and> s' = s\<lparr>nftInfo := Some (f n)\<rparr>)"
  by (auto simp: upd_nft_def split: option.splits)

lemma set_nft_token_id_Ret:
  "set_nft_token_id b s = (Ret u, s') \<longleftrightarrow>
     (\<exists>n c. nftInfo s = Some n \<and> GetTokenConfig b (nft_Token n) = Some c \<and> s' = s\<lparr>nftInfo := Some (n\<lparr>nft_TokenID := TokenID c\<rparr>)\<rparr>)"
  by (auto simp: set_nft_token_id_def get_nft_def upd_nft_def non_nil_def outcome_simps split: option.splits)

lemma GetBigInt_word: "i + 32 \<le> length data \<Longrightarrow> i + 32 < W64 \<Longrightarrow> GetBigInt data i 32 = Ret (log_word data i)"
  by (auto simp: GetBigInt_def Let_def go_slice_Ret big_SetBytes_def log_word_def u64_add_def min_def)

lemma from_chain_word:
  assumes "from_chain r b data i = Ret fc" and "i + 32 \<le> length data" and "i + 32 < W64"
  shows "\<exists>cc. bridgeChainConfig b = Some cc \<and>
    fc = (if IsUseFromChainIDInReceiptDisabled (prm (toks r)) (cc_ChainID cc) then chainID_num cc else Some (log_word data i))"
  using assms by (auto simp: from_chain_def outcome_simps non_nil_def GetBigInt_word split: option.splits if_splits)

definition empty_nft :: NFTSwapInfo where
  "empty_nft = \<lparr>nft_Token = '''', nft_TokenID = '''', IDs = [], Amounts = [], Batch = False, nft_Data = []\<rparr>"

definition nft_parsed :: "router_state \<Rightarrow> CrossChainBridgeBase \<Rightarrow> ChainConfig \<Rightarrow> RPCLog \<Rightarrow> SwapTxInfo \<Rightarrow> bool" where
  "nft_parsed r b cc rlog s \<longleftrightarrow>
     length (Topics rlog) = 4 \<and> tx_From s = topic_address rlog 2 \<and> tx_Bind s = topic_address rlog 3 \<and>
     (case (nftInfo s, log_Data rlog) of
        (Some n, Some data) \<Rightarrow> nft_Token n = topic_address rlog 1 \<and> map_option TokenID (GetTokenConfig b (nft_Token n)) = Some (nft_TokenID n) \<and>
          nft_payload (Topics rlog ! 0) data n \<and> nft_chains r cc (Topics rlog ! 0) data s
      | _ \<Rightarrow> False)"

lemmas nft_parsing = outcome_simps upd_nft_Ret set_nft_token_id_Ret nft_topics_def non_nil_def lift_abi_def nft_parsed_def nft_payload_def nft_chains_def empty_nft_def
  GetBigInt_word W64_def

lemma parsers_nft:
  assumes "nftInfo s = Some empty_nft" and "bridgeChainConfig b = Some cc"
  shows "parseNFT721SwapoutTxLog r b rlog s = (Ret u, s') \<Longrightarrow> Topics rlog ! 0 = LogNFT721SwapOutTopic \<Longrightarrow> nft_parsed r b cc rlog s'"
    and "parseNFT721SwapoutWithDataTxLog r b rlog s = (Ret u, s') \<Longrightarrow> Topics rlog ! 0 = LogNFT721SwapOutWithDataTopic \<Longrightarrow> nft_parsed r b cc rlog s'"
    and "parseNFT1155SwapOutTxLog r b rlog s = (Ret u, s') \<Longrightarrow> Topics rlog ! 0 = LogNFT1155SwapOutTopic \<Longrightarrow> nft_parsed r b cc rlog s'"
    and "parseNFT1155SwapOutBatchTxLog r b rlog s = (Ret u, s') \<Longrightarrow> Topics rlog ! 0 = LogNFT1155SwapOutBatchTopic \<Longrightarrow> nft_parsed r b cc rlog s'"
  using assms nft_topics_distinct
  unfolding parseNFT721SwapoutTxLog_def parseNFT721SwapoutWithDataTxLog_def parseNFT1155SwapOutTxLog_def parseNFT1155SwapOutBatchTxLog_def
  by (auto simp: nft_parsing dest!: from_chain_word split: option.splits outcome.splits)

lemma getSwapTxReceipt_nft: "getSwapTxReceipt r b e u s = (Ret receipt, s') \<Longrightarrow> nftInfo s' = nftInfo s"
  by (auto simp: getSwapTxReceipt_def outcome_simps non_nil_def split: option.splits prod.splits)

lemma verifyNFTSwapTxLog_Ret:
  assumes "verifyNFTSwapTxLog r b rlog s = (Ret u, s')" and "nftInfo s = Some empty_nft" and "bridgeChainConfig b = Some cc"
  shows "nft_decoded r b s' rlog"
proof -
  let ?data = "fst (IsNFTSwapWithData (prm (toks r)))"
  obtain addr t ts s1 n rc where
    addr: "log_Address rlog = Some addr" and topics: "Topics rlog = t # ts"
    and parse: "(if ?data then
              (if t = LogNFT721SwapOutWithDataTopic then parseNFT721SwapoutWithDataTxLog r b rlog
               else slift (Err ErrSwapoutLogNotFound))
            else if t = LogNFT721SwapOutTopic then parseNFT721SwapoutTxLog r b rlog
            else if t = LogNFT1155SwapOutTopic then parseNFT1155SwapOutTxLog r b rlog
            else if t = LogNFT1155SwapOutBatchTopic then parseNFT1155SwapOutBatchTxLog r b rlog
            else slift (Err ErrSwapoutLogNotFound)) (s\<lparr>tx_To := LowerHex addr\<rparr>) = (Ret (), s1)"
    and rest: "Removed rlog \<noteq> Some True" "nftInfo s1 = Some n" "GetRouterContract b (nft_Token n) = Ret rc"
      "rc \<noteq> ''''" "EqualFold (LowerHex addr) rc" "s' = s1"
    using assms(1) by (auto simp: verifyNFTSwapTxLog_def outcome_simps get_nft_def non_nil_def split: option.splits list.splits)
  have "nftInfo (s\<lparr>tx_To := LowerHex addr\<rparr>) = Some empty_nft" using assms(2) by simp
  note p = parsers_nft [OF this assms(3)]
  have "nft_parsed r b cc rlog s1" using parse assms(2) topics by (auto simp: outcome_simps dest: p split: if_splits)
  moreover have "t \<in> (if ?data then {LogNFT721SwapOutWithDataTopic}
      else {LogNFT721SwapOutTopic, LogNFT1155SwapOutTopic, LogNFT1155SwapOutBatchTopic})"
    using parse by (auto simp: outcome_simps split: if_splits)
  ultimately show ?thesis using addr topics rest assms(3) by (auto simp: nft_decoded_def nft_parsed_def split: option.splits)
qed

lemma checkNFTSwapInfo_Ret:
  assumes "checkNFTSwapInfo r b e s = Ret ()"
  obtains cc n dst where "bridgeChainConfig b = Some cc" "bi_String (tx_FromChainID s) = cc_ChainID cc" "nftInfo s = Some n"
    "GetBridgeByChainID r (bi_String (tx_ToChainID s)) = Some dst" "isValidAddress dst (tx_Bind s)"
    "GetCachedMultichainToken r (nft_TokenID n) (bi_String (tx_ToChainID s)) \<noteq> ''''" "check_ids n"
  using assms unfolding checkNFTSwapInfo_def checked by auto

section \<open>A sample swap\<close>

definition sample_nft_log :: RPCLog where
  "sample_nft_log =
     \<lparr>log_Address = Some (sample_address 7),
      Topics = [LogNFT721SwapOutTopic, Address_Hash (sample_address 3), Address_Hash (sample_address 4), Address_Hash (sample_address 5)],
      log_Data = Some (word32 20000 @ word32 1 @ word32 56), Removed = None\<rparr>"

definition sample_nft_receipt :: RPCTxReceipt where
  "sample_nft_receipt = sample_receipt\<lparr>Logs := [sample_nft_log, sample_nft_log]\<rparr>"

definition sample_nft_rpc :: eth_rpc where
  "sample_nft_rpc = sample_rpc\<lparr>GetTransactionReceipt := (\<lambda>_. Inr (sample_nft_receipt, ''url''))\<rparr>"

definition sample_nft_info :: SwapTxInfo where
  "sample_nft_info =
     (new_nft_info ''0xAA'' 1)\<lparr>nftInfo := Some \<lparr>nft_Token = LowerHex (sample_address 3), nft_TokenID = ''T'', IDs = [20000], Amounts = [],
        Batch = False, nft_Data = []\<rparr>,
      tx_Height := 10, tx_Timestamp := 0, tx_From := LowerHex (sample_address 4), tx_TxTo := LowerHex (sample_address 7),
      tx_To := LowerHex (sample_address 7), tx_Bind := LowerHex (sample_address 5), tx_Value := Some 0,
      tx_FromChainID := Some 1, tx_ToChainID := Some 56\<rparr>"

lemma sample_nft_status:
  "GetTransactionStatus sample_nft_rpc h =
     Ret (\<lparr>Sender = '''', Receipt = Some (WithStatus True), Confirmations = 10, BlockHeight = 10,
        BlockHash = Encode ZeroHash, BlockTime = 0\<rparr>, sample_nft_receipt)"
  by (simp add: GetTransactionStatus_def sample_nft_rpc_def sample_rpc_def sample_nft_receipt_def sample_receipt_def non_nil_def
        IsStatusOk_def W64_def)

lemma sample_nft_getReceipt:
  "getSwapTxReceipt sample_router sample_bridge sample_nft_rpc u s =
     (Ret sample_nft_receipt, s\<lparr>tx_Height := 10, tx_Timestamp := 0, tx_TxTo := LowerHex (sample_address 7),
        tx_From := LowerHex (sample_address 4)\<rparr>)"
proof -
  have "IsStatusOk sample_nft_receipt" "Recipient sample_nft_receipt = Some (sample_address 7)"
    "rcpt_From sample_nft_receipt = Some (sample_address 4)"
    by (simp_all add: sample_nft_receipt_def sample_receipt_def IsStatusOk_def)
  then show ?thesis
    by (simp add: sample_nft_status getSwapTxReceipt_def sget_def sbind_def slift_def sguard_def sample_bridge_def
        sample_chain_def non_nil_def supd_def sret_def sample_simps)
qed

lemma sample_nft_verifyLog:
  "verifyNFTSwapTxLog sample_router sample_bridge sample_nft_log ((new_nft_info ''0xAA'' 1)\<lparr>tx_Height := 10, tx_Timestamp := 0,
     tx_TxTo := LowerHex (sample_address 7), tx_From := LowerHex (sample_address 4)\<rparr>) = (Ret (), sample_nft_info)"
  by (simp add: verifyNFTSwapTxLog_def parseNFT721SwapoutTxLog_def nft_topics_def sbind_def slift_def non_nil_def supd_def sguard_def
      upd_nft_def get_nft_def set_nft_token_id_def sample_nft_log_def sample_data topic_address_def
      new_nft_info_def new_swap_info_def sample_nft_info_def from_chain_def sample_bridge_def sample_chain_def sample_router_def sample_ibridge_def
      IsUseFromChainIDInReceiptDisabled_def IsNFTSwapWithData_def GetExtraConfig_def params_zeros GetTokenConfig_def sample_token_def GetRouterContract_def)

lemma sample_nft_check: "checkNFTSwapInfo sample_router sample_bridge e sample_nft_info = Ret ()"
proof -
  have "checkCallByContract sample_router sample_bridge e sample_nft_info = Ret ()"
    by (simp add: checkCallByContract_def sample_nft_info_def new_nft_info_def new_swap_info_def GetToken_def GetRouterContract_def
        sample_bridge_def sample_chain_def GetTokenConfig_def sample_token_def ensure_def LowerHex_def)
  then show ?thesis
    by (simp add: checkNFTSwapInfo_def sample_bridge_def sample_chain_def non_nil_def ensure_def or_err_def check_ids_def
        GetTokenConfig_def sample_token_def GetCachedMultichainToken_def GetCachedMultichainTokens_def
        GetBridgeByChainID_def bi_String_def)
       (simp add: sample_router_def sample_ibridge_def sample_nft_info_def new_nft_info_def new_swap_info_def sample_bridge_def sample_token_def)
qed

lemma sample_nft_verify: "verifyNFTSwapTx sample_router sample_bridge sample_nft_rpc ''0xAA'' 1 u = (Ret (), sample_nft_info)"
  using sample_nft_verifyLog sample_nft_check
  by (simp add: verifyNFTSwapTx_def log_at_def sbind_def sample_nft_getReceipt sguard_def slift_def sget_def sample_nft_receipt_def)

section \<open>Properties\<close>

text \<open>
  C33: registration and verification agree on which swaps are good: with the log index 0, a transaction
  registers without an error exactly the swaps that the verification of a single log accepts with
  unstable transactions allowed, one for each log above 0, each with the fields that the
  verification fills in; for ERC20 swaps the verification asks in addition that the token was
  received, which registration does not.
\<close>

theorem RegisterSwap_agrees:
  assumes "RegisterSwap r b e balanceOf txHash \<lparr>ra_SwapType = k, ra_LogIndex = 0\<rparr> = Ret res" and "0 < i"
  shows "VerifyTransaction r b e balanceOf txHash \<lparr>va_SwapType = k, va_LogIndex = int i, AllowUnstable = True\<rparr> = (Ret (), Some s) \<longleftrightarrow>
    (s, None) \<in> set res \<and> tx_LogIndex s = int i \<and>
    (k = ERC20SwapType \<longrightarrow> (\<exists>receipt s1. getSwapTxReceipt r b e True (new_swap_info txHash (int i)) = (Ret receipt, s1) \<and>
       checkTokenReceived r b s receipt = Ret ()))"
proof -
  have some: "apsnd Some m = (x, Some y) \<longleftrightarrow> m = (x, y)" for m and x :: "(token_error, unit) outcome" and y :: SwapTxInfo
    by (cases m) auto
  consider "k = ERC20SwapType" | "k = NFTSwapType" | "k = AnyCallSwapType"
    using assms(1) by (auto simp: RegisterSwap_def split: if_splits)
  then show ?thesis
  proof cases
    case 1
    from erc20_kind.registered_iff [OF assms(1) [unfolded RegisterSwap_def registerERC20SwapTx_def, simplified 1, simplified], of i s] assms(2)
    show ?thesis using 1 by (auto simp: VerifyTransaction_def verifyERC20SwapTx_iff some)
  next
    case 2
    from nft_kind.registered_iff [OF assms(1) [unfolded RegisterSwap_def registerNFTSwapTx_def, simplified 2 swap_types, simplified], of i s] assms(2)
    show ?thesis using 2 by (auto simp: VerifyTransaction_def verifyNFTSwapTx_iff some swap_types)
  next
    case 3
    from anycall_kind.registered_iff [OF assms(1) [unfolded RegisterSwap_def registerAnyCallSwapTx_def, simplified 3 swap_types, simplified], of i s]
    show ?thesis using 3 by (auto simp: VerifyTransaction_def verifyAnyCallSwapTx_iff some swap_types)
  qed
qed

theorem RegisterSwap_agrees_witness:
  "\<exists>res. RegisterSwap sample_router sample_bridge sample_nft_rpc (\<lambda>_ _ _. Inr 0) ''0xAA'' \<lparr>ra_SwapType = NFTSwapType, ra_LogIndex = 0\<rparr> = Ret res \<and>
     (sample_nft_info, None) \<in> set res"
proof -
  have reg: "\<exists>res. RegisterSwap sample_router sample_bridge sample_nft_rpc (\<lambda>_ _ _. Inr 0) ''0xAA'' \<lparr>ra_SwapType = NFTSwapType, ra_LogIndex = 0\<rparr> = Ret res"
    using sample_nft_verifyLog sample_nft_check
    by (simp add: RegisterSwap_def swap_types registerNFTSwapTx_def register_all_def sample_nft_getReceipt sample_nft_receipt_def new_nft_info_def new_swap_info_def)
  have "VerifyTransaction sample_router sample_bridge sample_nft_rpc (\<lambda>_ _ _. Inr 0) ''0xAA''
      \<lparr>va_SwapType = NFTSwapType, va_LogIndex = int 1, AllowUnstable = True\<rparr> = (Ret (), Some sample_nft_info)"
    using sample_nft_verify by (simp add: VerifyTransaction_def swap_types)
  with reg RegisterSwap_agrees [where k = NFTSwapType and i = 1 and s = sample_nft_info and r = sample_router and b = sample_bridge
      and e = sample_nft_rpc and balanceOf = "\<lambda>_ _ _. Inr 0" and txHash = "''0xAA''"]
  show ?thesis by auto
qed

text \<open>
  C32: an NFT swap that passes the verification comes from a log that the router contract of its
  token emitted and that was not removed; its token, sender and receiver are those of the log's
  topics, and its identifiers, amounts, extra bytes and chains are those at their places in the log's
  data for the kind that the first topic names; the source is this chain, the target chain has a
  bridge which accepts the receiver and a token for the same identifier, and a batch has as many
  amounts as identifiers and at least one.
\<close>

theorem verifyNFTSwapTx_authentic:
  assumes "verifyNFTSwapTx r b e txHash logIndex allowUnstable = (Ret (), s)"
  shows "\<exists>st receipt cc n dst. GetTransactionStatus e (ToLower txHash) = Ret (st, receipt) \<and> bridgeChainConfig b = Some cc \<and>
    (cc_Confirmations cc \<le> Confirmations st \<or> allowUnstable) \<and> IsStatusOk receipt \<and>
    0 \<le> logIndex \<and> logIndex < int (length (Logs receipt)) \<and> nft_decoded r b s (Logs receipt ! nat logIndex) \<and>
    bi_String (tx_FromChainID s) = cc_ChainID cc \<and> nftInfo s = Some n \<and> GetBridgeByChainID r (bi_String (tx_ToChainID s)) = Some dst \<and>
    isValidAddress dst (tx_Bind s) \<and> GetCachedMultichainToken r (nft_TokenID n) (bi_String (tx_ToChainID s)) \<noteq> '''' \<and> check_ids n"
proof -
  from assms obtain receipt s1 where rcpt: "getSwapTxReceipt r b e allowUnstable (new_nft_info txHash logIndex) = (Ret receipt, s1)"
    and idx: "0 \<le> logIndex" "logIndex < int (length (Logs receipt))"
    and log: "verifyNFTSwapTxLog r b (Logs receipt ! nat logIndex) s1 = (Ret (), s)" and chk: "checkNFTSwapInfo r b e s = Ret ()"
    by (auto simp: verifyNFTSwapTx_def log_at_def outcome_simps split: if_splits)
  have new: "tx_Hash (new_nft_info txHash logIndex) = ToLower txHash" "nftInfo (new_nft_info txHash logIndex) = Some empty_nft"
    by (simp_all add: new_nft_info_def new_swap_info_def empty_nft_def)
  note st = getSwapTxReceipt_Ret [OF rcpt]
  from st obtain cc where cc: "bridgeChainConfig b = Some cc" by blast
  have "nftInfo s1 = Some empty_nft" using getSwapTxReceipt_nft [OF rcpt] new(2) by simp
  with st new(1) idx verifyNFTSwapTxLog_Ret [OF log _ cc] show ?thesis
    by (rule_tac checkNFTSwapInfo_Ret [OF chk]) auto
qed

theorem verifyNFTSwapTx_authentic_witness:
  "nft_decoded sample_router sample_bridge sample_nft_info sample_nft_log"
  using verifyNFTSwapTx_authentic [OF sample_nft_verify, of False] by (auto simp: sample_nft_status) (simp add: sample_nft_receipt_def)

end
