(* ===== verification/EthCalls.thy ===== *)
theory EthCalls
  imports VerifyERC20 NonceSetter
begin

text \<open>
  The bridge's queries (\<open>tokens/eth/callapi.go\<close>, \<open>callapi/kusama.go\<close>, \<open>callcontract.go\<close>): every query
  asks the nodes of a list of URLs in turn and combines their answers. The record \<open>eth_node\<close> holds
  what \<open>client.RPCPostWithTimeout\<close> yields for one URL, by the number of questions asked before:
  an error text, or the decoded result, \<open>None\<close> for a JSON \<open>null\<close>. A \<open>null\<close> leaves a variable that
  is not a pointer as it was and is not an error; a failed answer leaves every variable as it was.
  \<open>Address_String\<close> is the checksummed text of an address, as error messages show it.

  \<open>result.ToInt()\<close> of a \<open>hexutil.Big\<close> is a pointer to the variable itself. Where the code keeps
  such pointers over a loop that decodes into the same variable, the model keeps addresses into a
  store, so that they alias as in the code.
\<close>

section \<open>Answers of a node\<close>

type_synonym 'a answer = "string + 'a option"

record full_receipt = RPCTxReceipt +
  rcpt_TxHash :: "Hash option"
  TxIndex :: "nat option"

record RPCTransaction =
  rtx_Type :: nat
  rtx_Hash :: "Hash option"
  rtx_TxIndex :: "nat option"
  rtx_BlockNumber :: "int option"
  rtx_BlockHash :: "Hash option"
  rtx_From :: "Address option"
  rtx_AccountNonce :: string
  rtx_Price :: "int option"
  rtx_GasTipCap :: "int option"
  rtx_GasFeeCap :: "int option"
  rtx_GasLimit :: "nat option"
  rtx_Recipient :: "Address option"
  rtx_Amount :: "int option"
  rtx_Payload :: "bytes option"
  rtx_V :: "string option"
  rtx_R :: "string option"
  rtx_S :: "string option"
  rtx_ChainID :: "int option"

definition GetAccountNonce :: "RPCTransaction option \<Rightarrow> nat" where
  "GetAccountNonce t =
     (case t of
        None \<Rightarrow> 0
      | Some tx \<Rightarrow>
          if rtx_AccountNonce tx = '''' then 0
          else (case GetUint64FromStr (rtx_AccountNonce tx) of Ret result \<Rightarrow> result | _ \<Rightarrow> 0))"

record RPCBlock =
  blk_Hash :: "Hash option"
  blk_ParentHash :: "Hash option"
  blk_Coinbase :: "Address option"
  blk_Difficulty :: "int option"
  blk_Number :: "int option"
  blk_GasLimit :: "nat option"
  blk_GasUsed :: "nat option"
  blk_Time :: "int option"
  blk_BaseFee :: "int option"
  blk_Transactions :: "Hash option list"

text \<open>\<open>IsIniting\<close> is the variable of package \<open>router\<close>; it is constant during a query.\<close>

record eth_node =
  IsIniting :: bool
  Address_String :: "Address \<Rightarrow> string"
  eth_blockNumber :: "nat \<Rightarrow> string \<Rightarrow> string answer"
  eth_getBlockByHash :: "nat \<Rightarrow> string \<Rightarrow> string \<Rightarrow> RPCBlock answer"
  eth_pendingTransactions :: "nat \<Rightarrow> string \<Rightarrow> RPCTransaction option list answer"
  eth_getBlockByNumber :: "nat \<Rightarrow> string \<Rightarrow> int option \<Rightarrow> RPCBlock answer"
  eth_getTransactionByHash :: "nat \<Rightarrow> string \<Rightarrow> string \<Rightarrow> RPCTransaction answer"
  eth_getTransactionByBlockNumberAndIndex :: "nat \<Rightarrow> string \<Rightarrow> int \<Rightarrow> nat \<Rightarrow> RPCTransaction answer"
  eth_getTransactionReceipt :: "nat \<Rightarrow> string \<Rightarrow> string \<Rightarrow> full_receipt answer"
  eth_getTransactionCount :: "nat \<Rightarrow> string \<Rightarrow> Address \<Rightarrow> string \<Rightarrow> nat answer"
  eth_gasPrice :: "nat \<Rightarrow> string \<Rightarrow> int answer"
  eth_maxPriorityFeePerGas :: "nat \<Rightarrow> string \<Rightarrow> int answer"
  eth_feeHistory :: "nat \<Rightarrow> string \<Rightarrow> int \<Rightarrow> int option list answer"
  eth_getBalance :: "nat \<Rightarrow> string \<Rightarrow> string \<Rightarrow> int answer"
  eth_estimateGas :: "nat \<Rightarrow> string \<Rightarrow> string \<Rightarrow> string \<Rightarrow> int option \<Rightarrow> bytes \<Rightarrow> nat answer"
  eth_getCode :: "nat \<Rightarrow> string \<Rightarrow> string \<Rightarrow> bytes answer"
  eth_call :: "nat \<Rightarrow> string \<Rightarrow> string \<Rightarrow> bytes \<Rightarrow> string \<Rightarrow> string answer"
  eth_chainId :: "nat \<Rightarrow> string \<Rightarrow> int answer"
  net_version :: "nat \<Rightarrow> string \<Rightarrow> string answer"
  chain_getFinalizedHead :: "nat \<Rightarrow> string \<Rightarrow> Hash answer"
  chain_getHeader :: "nat \<Rightarrow> string \<Rightarrow> string \<Rightarrow> int option answer"

type_synonym ('x, 'a) calling = "('x store_scheme, token_error, 'a) stateful"

text \<open>\<open>tokens.WrapRPCQueryError\<close>; \<open>params\<close> is the printed list of the parameters.\<close>

definition WrapRPCQueryError :: "string option \<Rightarrow> string \<Rightarrow> string \<Rightarrow> token_error" where
  "WrapRPCQueryError err method params =
     (let q = [CHR 0x27]; call = ''call '' @ q @ method @ '' '' @ params @ q @ '' failed, err='' @ q in
      case err of
        None \<Rightarrow> Wrapped (call @ token_Error ErrNotFound @ q) ErrNotFound
      | Some e \<Rightarrow> Wrapped (token_Error ErrRPCQueryError @ '': '' @ call @ e @ q) ErrRPCQueryError)"

definition errEmptyURLs :: token_error where "errEmptyURLs = OtherError ''empty URLs''"
definition errTxInOrphanBlock :: token_error where "errTxInOrphanBlock = OtherError ''tx is in orphan block''"
definition errTxHashMismatch :: token_error where "errTxHashMismatch = OtherError ''tx hash mismatch with rpc result''"
definition errTxBlockHashMismatch :: token_error where "errTxBlockHashMismatch = OtherError ''tx block hash mismatch with rpc result''"
definition errTxReceiptMissBlockInfo :: token_error where "errTxReceiptMissBlockInfo = OtherError ''tx receipt missing block info''"

lemmas call_errors = errEmptyURLs_def errTxInOrphanBlock_def errTxHashMismatch_def errTxBlockHashMismatch_def errTxReceiptMissBlockInfo_def

text \<open>The printed parameters of a call with one text.\<close>

definition one_param :: "string \<Rightarrow> string" where
  "one_param p = ''['' @ p @ '']''"

text \<open>
  Two loops that most queries share: the first answer without an error, where a \<open>null\<close> counts as
  the initial value \<open>zero\<close> of the variable, and the first answer that is neither an error nor
  \<open>null\<close>. \<open>err\<close> is the error of the last call.
\<close>

fun first_answer :: "(nat \<Rightarrow> string \<Rightarrow> 'a answer) \<Rightarrow> 'a \<Rightarrow> string list \<Rightarrow> string option \<Rightarrow>
    ('x store_scheme, 'e, string option + 'a) stateful" where
  "first_answer ask zero [] err = sret (Inl err)"
| "first_answer ask zero (url # urls) err =
     sbind (extern (\<lambda>t. ask t url)) (\<lambda>a.
     case a of Inl e \<Rightarrow> first_answer ask zero urls (Some e) | Inr None \<Rightarrow> sret (Inr zero) | Inr (Some v) \<Rightarrow> sret (Inr v))"

fun first_found :: "(nat \<Rightarrow> string \<Rightarrow> 'a answer) \<Rightarrow> string list \<Rightarrow> string option \<Rightarrow>
    ('x store_scheme, 'e, string option + 'a \<times> string) stateful" where
  "first_found ask [] err = sret (Inl err)"
| "first_found ask (url # urls) err =
     sbind (extern (\<lambda>t. ask t url)) (\<lambda>a.
     case a of Inl e \<Rightarrow> first_found ask urls (Some e) | Inr None \<Rightarrow> first_found ask urls None | Inr (Some v) \<Rightarrow> sret (Inr (v, url)))"

text \<open>A query of the first list, and of the second one if the first failed in the way \<open>again\<close> names.\<close>

definition or_else :: "('s, 'e, 'a) stateful \<Rightarrow> ('e \<Rightarrow> bool) \<Rightarrow> ('s, 'e, 'a) stateful \<Rightarrow> ('s, 'e, 'a) stateful" where
  "or_else m again m' =
     sbind (stry m) (\<lambda>r. case r of Inl err \<Rightarrow> if again err then m' else slift (Err err) | Inr v \<Rightarrow> sret v)"

lemma or_else_Ret: "or_else m again m' s = (Ret v, s') \<Longrightarrow> m s = (Ret v, s') \<or> (\<exists>s1. m' s1 = (Ret v, s'))"
  unfolding or_else_def by (auto simp: sbind_def stry_def slift_def sret_def split: prod.splits outcome.splits if_splits)

definition or_wrapped :: "string \<Rightarrow> string \<Rightarrow> string option + 'a \<Rightarrow> ('x, 'a) calling" where
  "or_wrapped method params r =
     (case r of Inl err \<Rightarrow> slift (Err (WrapRPCQueryError err method params)) | Inr v \<Rightarrow> sret v)"

text \<open>The two URL lists of the bridge's gateway.\<close>

definition urls_of :: "CrossChainBridgeBase \<Rightarrow> ('x, string list \<times> string list) calling" where
  "urls_of b = slift (obind (non_nil (bridgeGatewayConfig b)) (\<lambda>g. Ret (APIAddress g, APIAddressExt g)))"

section \<open>Heights and nonces\<close>

text \<open>\<open>result\<close> is the text variable of the loop; a \<open>null\<close> leaves the previous text in it.\<close>

fun max_block_loop :: "eth_node \<Rightarrow> string list \<Rightarrow> string \<Rightarrow> nat \<Rightarrow> string option \<Rightarrow> ('x, nat \<times> string option) calling" where
  "max_block_loop n [] result maxHeight err = sret (maxHeight, err)"
| "max_block_loop n (url # urls) result maxHeight err =
     sbind (extern (\<lambda>t. eth_blockNumber n t url)) (\<lambda>a.
     case a of
       Inl e \<Rightarrow> max_block_loop n urls result maxHeight (Some e)
     | Inr v \<Rightarrow>
         let result = (case v of None \<Rightarrow> result | Some r \<Rightarrow> r);
             height = (case GetUint64FromStr result of Ret h \<Rightarrow> h | _ \<Rightarrow> 0)
         in max_block_loop n urls result (if height > maxHeight then height else maxHeight) None)"

definition getMaxLatestBlockNumber :: "eth_node \<Rightarrow> string list \<Rightarrow> ('x, nat) calling" where
  "getMaxLatestBlockNumber n urls =
     (if length urls = 0 then slift (Err errEmptyURLs)
      else sbind (max_block_loop n urls '''' 0 None) (\<lambda>(maxHeight, err).
        if maxHeight > 0 then sret maxHeight else slift (Err (WrapRPCQueryError err ''eth_blockNumber'' ''[]''))))"

definition GetLatestBlockNumber :: "eth_node \<Rightarrow> CrossChainBridgeBase \<Rightarrow> ('x, nat) calling" where
  "GetLatestBlockNumber n b = sbind (urls_of b) (\<lambda>(urls, _). getMaxLatestBlockNumber n urls)"

text \<open>kusama.go\<close>

definition KsmGetFinalizedHead :: "eth_node \<Rightarrow> string \<Rightarrow> ('x, Hash) calling" where
  "KsmGetFinalizedHead n url =
     sbind (extern (\<lambda>t. chain_getFinalizedHead n t url)) (\<lambda>a.
     case a of
       Inl e \<Rightarrow> slift (Err (WrapRPCQueryError (Some e) ''chain_getFinalizedHead'' ''[]''))
     | Inr None \<Rightarrow> sret ZeroHash
     | Inr (Some h) \<Rightarrow> sret h)"

definition ksmGetHeader :: "eth_node \<Rightarrow> string \<Rightarrow> string list \<Rightarrow> ('x, int option) calling" where
  "ksmGetHeader n blockHash urls =
     sbind (first_found (\<lambda>t url. chain_getHeader n t url blockHash) urls None) (\<lambda>r.
     sbind (or_wrapped ''chain_getHeader'' (one_param blockHash) r) (\<lambda>(h, _). sret h))"

definition KsmGetHeader :: "eth_node \<Rightarrow> CrossChainBridgeBase \<Rightarrow> string \<Rightarrow> ('x, int option) calling" where
  "KsmGetHeader n b blockHash =
     sbind (urls_of b) (\<lambda>(urls, ext).
     or_else (ksmGetHeader n blockHash urls) (\<lambda>_. length ext > 0) (ksmGetHeader n blockHash ext))"

definition KsmGetLatestBlockNumberOf :: "eth_node \<Rightarrow> CrossChainBridgeBase \<Rightarrow> string \<Rightarrow> ('x, nat) calling" where
  "KsmGetLatestBlockNumberOf n b url =
     sbind (KsmGetFinalizedHead n url) (\<lambda>blockHash.
     sbind (KsmGetHeader n b (Encode blockHash)) (\<lambda>number.
     sbind (slift (non_nil number)) (\<lambda>v. sret (fst (BigUint64 v)))))"

text \<open>The error of the text's conversion is returned as it is.\<close>

definition GetLatestBlockNumberOf_url :: "eth_node \<Rightarrow> CrossChainBridgeBase \<Rightarrow> string \<Rightarrow> ('x, nat) calling" where
  "GetLatestBlockNumberOf_url n b url =
     (if (case bridgeChainConfig b of None \<Rightarrow> False | Some cc \<Rightarrow> cc_ChainID cc = ''1285'') then KsmGetLatestBlockNumberOf n b url
      else sbind (extern (\<lambda>t. eth_blockNumber n t url)) (\<lambda>a.
        case a of
          Inl e \<Rightarrow> slift (Err (WrapRPCQueryError (Some e) ''eth_blockNumber'' ''[]''))
        | Inr v \<Rightarrow>
            (case GetUint64FromStr (case v of None \<Rightarrow> '''' | Some r \<Rightarrow> r) of
               Ret h \<Rightarrow> sret h | Err e \<Rightarrow> slift (Err (OtherError e)) | Panic \<Rightarrow> slift Panic)))"

fun max_nonce_loop :: "eth_node \<Rightarrow> string list \<Rightarrow> Address \<Rightarrow> string \<Rightarrow> nat \<Rightarrow> nat \<Rightarrow> bool \<Rightarrow> string option \<Rightarrow>
    ('x, nat \<times> bool \<times> string option) calling" where
  "max_nonce_loop n [] account height result maxNonce success err = sret (maxNonce, success, err)"
| "max_nonce_loop n (url # urls) account height result maxNonce success err =
     sbind (extern (\<lambda>t. eth_getTransactionCount n t url account height)) (\<lambda>a.
     case a of
       Inl e \<Rightarrow> max_nonce_loop n urls account height result maxNonce success (Some e)
     | Inr v \<Rightarrow>
         let result = (case v of None \<Rightarrow> result | Some r \<Rightarrow> r)
         in max_nonce_loop n urls account height result (if result > maxNonce then result else maxNonce) True None)"

definition getMaxPoolNonce :: "eth_node \<Rightarrow> Address \<Rightarrow> string \<Rightarrow> string list \<Rightarrow> ('x, nat) calling" where
  "getMaxPoolNonce n account height urls =
     (if length urls = 0 then slift (Err errEmptyURLs)
      else sbind (max_nonce_loop n urls account height 0 0 False None) (\<lambda>(maxNonce, success, err).
        if success then sret maxNonce
        else slift (Err (WrapRPCQueryError err ''eth_getTransactionCount'' (one_param (Address_String n account @ '' '' @ height))))))"

definition GetPoolNonce :: "eth_node \<Rightarrow> CrossChainBridgeBase \<Rightarrow> string \<Rightarrow> string \<Rightarrow> ('x, nat) calling" where
  "GetPoolNonce n b address height =
     (let account = HexToAddress address in
      sbind (urls_of b) (\<lambda>(urls, _). getMaxPoolNonce n account height urls))"

section \<open>Blocks, transactions and receipts\<close>

text \<open>\<open>types.ToBlockNumArg\<close> with the parameters' text.\<close>

definition ToBlockNumArg :: "int option \<Rightarrow> string" where
  "ToBlockNumArg number = (case number of None \<Rightarrow> ''latest'' | Some v \<Rightarrow> EncodeBig v)"

definition getBlockByHash :: "eth_node \<Rightarrow> string \<Rightarrow> string list \<Rightarrow> ('x, RPCBlock) calling" where
  "getBlockByHash n blockHash urls =
     (if length urls = 0 then slift (Err errEmptyURLs)
      else sbind (first_found (\<lambda>t url. eth_getBlockByHash n t url blockHash) urls None) (\<lambda>r.
           sbind (or_wrapped ''eth_getBlockByHash'' (one_param blockHash) r) (\<lambda>(blk, _). sret blk)))"

definition GetBlockByHash :: "eth_node \<Rightarrow> CrossChainBridgeBase \<Rightarrow> string \<Rightarrow> ('x, RPCBlock) calling" where
  "GetBlockByHash n b blockHash = sbind (urls_of b) (\<lambda>(urls, _). getBlockByHash n blockHash urls)"

definition GetBlockByNumber :: "eth_node \<Rightarrow> CrossChainBridgeBase \<Rightarrow> int option \<Rightarrow> ('x, RPCBlock) calling" where
  "GetBlockByNumber n b number =
     sbind (urls_of b) (\<lambda>(urls, _).
     sbind (first_found (\<lambda>t url. eth_getBlockByNumber n t url number) urls None) (\<lambda>r.
     sbind (or_wrapped ''eth_getBlockByNumber'' (one_param (bi_String number)) r) (\<lambda>(blk, _). sret blk)))"

text \<open>The first answer decides, also when its hash is another one; a missing hash is dereferenced.\<close>

definition getTransactionByHash :: "eth_node \<Rightarrow> string \<Rightarrow> string list \<Rightarrow> ('x, RPCTransaction) calling" where
  "getTransactionByHash n txHash urls =
     (if length urls = 0 then slift (Err errEmptyURLs)
      else sbind (first_found (\<lambda>t url. eth_getTransactionByHash n t url txHash) urls None) (\<lambda>r.
           sbind (or_wrapped ''eth_getTransactionByHash'' (one_param txHash) r) (\<lambda>(tx, _).
           sbind (slift (non_nil (rtx_Hash tx))) (\<lambda>h.
           sbind (sguard (EqualFold (Encode h) txHash) errTxHashMismatch) (\<lambda>_. sret tx)))))"

definition GetTransactionByHash_urls :: "eth_node \<Rightarrow> CrossChainBridgeBase \<Rightarrow> string \<Rightarrow> ('x, RPCTransaction) calling" where
  "GetTransactionByHash_urls n b txHash =
     sbind (urls_of b) (\<lambda>(urls, ext).
     or_else (getTransactionByHash n txHash urls) (\<lambda>err. IsRPCQueryOrNotFoundError err \<and> length ext > 0)
       (getTransactionByHash n txHash ext))"

definition getTransactionByBlockNumberAndIndex :: "eth_node \<Rightarrow> int \<Rightarrow> nat \<Rightarrow> string \<Rightarrow> ('x, RPCTransaction) calling" where
  "getTransactionByBlockNumberAndIndex n blockNumber txIndex url =
     sbind (extern (\<lambda>t. eth_getTransactionByBlockNumberAndIndex n t url blockNumber txIndex)) (\<lambda>a.
     let what = one_param (big_String blockNumber @ '' '' @ big_String (int txIndex)) in
     case a of
       Inr (Some tx) \<Rightarrow> sret tx
     | Inr None \<Rightarrow> slift (Err (WrapRPCQueryError None ''eth_getTransactionByBlockNumberAndIndex'' what))
     | Inl e \<Rightarrow> slift (Err (WrapRPCQueryError (Some e) ''eth_getTransactionByBlockNumberAndIndex'' what)))"

definition checkTxBlockHash :: "eth_node \<Rightarrow> CrossChainBridgeBase \<Rightarrow> int \<Rightarrow> Hash \<Rightarrow> ('x, unit) calling" where
  "checkTxBlockHash n b blockNumber blockHash =
     sbind (GetBlockByNumber n b (Some blockNumber)) (\<lambda>blk.
     sbind (slift (non_nil (blk_Hash blk))) (\<lambda>h.
     sguard (h = blockHash) errTxBlockHashMismatch))"

fun block_index_loop :: "eth_node \<Rightarrow> int \<Rightarrow> nat \<Rightarrow> string list \<Rightarrow> token_error option \<Rightarrow> ('x, RPCTransaction) calling" where
  "block_index_loop n blockNumber txIndex [] err =
     slift (Err (WrapRPCQueryError (map_option token_Error err) ''eth_getTransactionByBlockNumberAndIndex''
       (one_param (big_String blockNumber @ '' '' @ big_String (int txIndex)))))"
| "block_index_loop n blockNumber txIndex (url # urls) err =
     sbind (stry (getTransactionByBlockNumberAndIndex n blockNumber txIndex url)) (\<lambda>r.
     case r of Inl e \<Rightarrow> block_index_loop n blockNumber txIndex urls (Some e) | Inr tx \<Rightarrow> sret tx)"

definition GetTransactionByBlockNumberAndIndex :: "eth_node \<Rightarrow> CrossChainBridgeBase \<Rightarrow> int \<Rightarrow> nat \<Rightarrow> ('x, RPCTransaction) calling" where
  "GetTransactionByBlockNumberAndIndex n b blockNumber txIndex =
     sbind (urls_of b) (\<lambda>(urls, _). block_index_loop n blockNumber txIndex urls None)"

definition GetPendingTransactions :: "eth_node \<Rightarrow> CrossChainBridgeBase \<Rightarrow> ('x, RPCTransaction option list) calling" where
  "GetPendingTransactions n b =
     sbind (urls_of b) (\<lambda>(urls, _).
     sbind (first_answer (eth_pendingTransactions n) [] urls None) (or_wrapped ''eth_pendingTransactions'' ''[]''))"

text \<open>The checks of a receipt that a node returned (the body of the loop).\<close>

definition check_receipt :: "params_state \<Rightarrow> eth_node \<Rightarrow> CrossChainBridgeBase \<Rightarrow> string \<Rightarrow> full_receipt \<Rightarrow> string \<Rightarrow> ('x, unit) calling" where
  "check_receipt p n b txHash result url =
     (case (BlockNumber result, rcpt_BlockHash result, TxIndex result) of
        (Some number, Some blockHash, Some txIndex) \<Rightarrow>
          sbind (slift (non_nil (rcpt_TxHash result))) (\<lambda>h.
          sbind (sguard (EqualFold (Encode h) txHash) errTxHashMismatch) (\<lambda>_.
          sbind (slift (non_nil (bridgeChainConfig b))) (\<lambda>cc.
          sbind (if IsCheckTxBlockIndexEnabled p (cc_ChainID cc) then
                   sbind (getTransactionByBlockNumberAndIndex n number txIndex url) (\<lambda>tx.
                   sbind (slift (non_nil (rtx_Hash tx))) (\<lambda>th. sguard (EqualFold (Encode th) txHash) errTxInOrphanBlock))
                 else sret ()) (\<lambda>_.
          if IsCheckTxBlockHashEnabled p (cc_ChainID cc) then checkTxBlockHash n b number blockHash else sret ()))))
      | _ \<Rightarrow> slift (Err errTxReceiptMissBlockInfo))"

definition getTransactionReceipt :: "params_state \<Rightarrow> eth_node \<Rightarrow> CrossChainBridgeBase \<Rightarrow> string \<Rightarrow> string list \<Rightarrow>
    ('x, full_receipt \<times> string) calling" where
  "getTransactionReceipt p n b txHash urls =
     (if length urls = 0 then slift (Err errEmptyURLs)
      else sbind (first_found (\<lambda>t url. eth_getTransactionReceipt n t url txHash) urls None) (\<lambda>r.
           sbind (or_wrapped ''eth_getTransactionReceipt'' (one_param txHash) r) (\<lambda>(result, url).
           sbind (check_receipt p n b txHash result url) (\<lambda>_. sret (result, url)))))"

definition GetTransactionReceipt_urls :: "params_state \<Rightarrow> eth_node \<Rightarrow> CrossChainBridgeBase \<Rightarrow> string \<Rightarrow>
    ('x, full_receipt \<times> string) calling" where
  "GetTransactionReceipt_urls p n b txHash =
     sbind (urls_of b) (\<lambda>(urls, ext).
     or_else (getTransactionReceipt p n b txHash urls) (\<lambda>err. IsRPCQueryOrNotFoundError err \<and> length ext > 0)
       (getTransactionReceipt p n b txHash ext))"

section \<open>Gas prices\<close>

text \<open>The store of the function: address 0 is the variable \<open>result\<close>.\<close>

type_synonym price_heap = "nat \<Rightarrow> int"

definition result_addr :: nat where "result_addr = 0"

definition decode_into :: "nat \<Rightarrow> int option \<Rightarrow> price_heap \<Rightarrow> price_heap" where
  "decode_into a v h = (case v of None \<Rightarrow> h | Some p \<Rightarrow> h(a := p))"

fun gas_url_loop :: "nat \<Rightarrow> eth_node \<Rightarrow> string \<Rightarrow> string option \<Rightarrow> ('x, int) calling" where
  "gas_url_loop 0 n url err = slift (Err (WrapRPCQueryError err ''eth_gasPrice'' ''[]''))"
| "gas_url_loop (Suc k) n url err =
     sbind (extern (\<lambda>t. eth_gasPrice n t url)) (\<lambda>a.
     case a of Inl e \<Rightarrow> gas_url_loop k n url (Some e) | Inr None \<Rightarrow> sret 0 | Inr (Some p) \<Rightarrow> sret p)"

definition getGasPriceFromURL :: "eth_node \<Rightarrow> string \<Rightarrow> ('x, int) calling" where
  "getGasPriceFromURL n url = gas_url_loop 3 n url None"

text \<open>The loop of \<open>getMaxGasPrice\<close>: \<open>maxGasPrice\<close> is nil or the address it points to.\<close>

fun max_price_loop :: "eth_node \<Rightarrow> string list \<Rightarrow> price_heap \<Rightarrow> nat option \<Rightarrow> string option \<Rightarrow>
    ('x, price_heap \<times> nat option \<times> string option) calling" where
  "max_price_loop n [] h maxGasPrice err = sret (h, maxGasPrice, err)"
| "max_price_loop n (url # urls) h maxGasPrice err =
     sbind (extern (\<lambda>t. eth_gasPrice n t url)) (\<lambda>a.
     case a of
       Inl e \<Rightarrow> max_price_loop n urls h maxGasPrice (Some e)
     | Inr v \<Rightarrow>
         let h = decode_into result_addr v h; gasPrice = result_addr;
             maxGasPrice = (case maxGasPrice of
               None \<Rightarrow> Some gasPrice | Some m \<Rightarrow> if h gasPrice > h m then Some gasPrice else Some m)
         in max_price_loop n urls h maxGasPrice None)"

definition getMaxGasPrice :: "eth_node \<Rightarrow> string list list \<Rightarrow> ('x, int) calling" where
  "getMaxGasPrice n urlsSlice =
     sbind (max_price_loop n (concat urlsSlice) (\<lambda>_. 0) None None) (\<lambda>(h, maxGasPrice, err).
     case maxGasPrice of
       None \<Rightarrow> slift (Err (WrapRPCQueryError err ''eth_gasPrice'' ''[]''))
     | Some a \<Rightarrow> sret (h a))"

text \<open>The loop of \<open>getMedianGasPrice\<close>: the list holds addresses.\<close>

fun all_prices_loop :: "eth_node \<Rightarrow> string list \<Rightarrow> price_heap \<Rightarrow> nat list \<Rightarrow> string option \<Rightarrow>
    ('x, price_heap \<times> nat list \<times> string option) calling" where
  "all_prices_loop n [] h allGasPrices err = sret (h, allGasPrices, err)"
| "all_prices_loop n (url # urls) h allGasPrices err =
     sbind (extern (\<lambda>t. eth_gasPrice n t url)) (\<lambda>a.
     case a of
       Inl e \<Rightarrow> all_prices_loop n urls h allGasPrices (Some e)
     | Inr v \<Rightarrow> all_prices_loop n urls (decode_into result_addr v h) (allGasPrices @ [result_addr]) None)"

text \<open>The middle of a sorted list of addresses.\<close>

definition median :: "price_heap \<Rightarrow> nat list \<Rightarrow> int" where
  "median h ps =
     (let count = length ps; mdInd = (count - 1) div 2 in
      if count mod 2 \<noteq> 0 then h (ps ! mdInd) else big_Div (h (ps ! mdInd) + h (ps ! (mdInd + 1))) 2)"

definition getMedianGasPrice :: "eth_node \<Rightarrow> string list list \<Rightarrow> ('x, int) calling" where
  "getMedianGasPrice n urlsSlice =
     sbind (all_prices_loop n (concat urlsSlice) (\<lambda>_. 0) [] None) (\<lambda>(h, allGasPrices, err).
     if length allGasPrices = 0 then slift (Err (WrapRPCQueryError err ''eth_gasPrice'' ''[]''))
     else sret (median h (sort_key h allGasPrices)))"

definition SuggestPrice :: "params_state \<Rightarrow> eth_node \<Rightarrow> CrossChainBridgeBase \<Rightarrow> ('x, int) calling" where
  "SuggestPrice p n b =
     sbind (urls_of b) (\<lambda>(urls, ext).
     sbind (slift (non_nil (bridgeChainConfig b))) (\<lambda>cc.
     let calcMethod = GetCalcGasPriceMethod p (cc_ChainID cc) in
     if calcMethod = ''first'' then (case urls of [] \<Rightarrow> slift Panic | url # _ \<Rightarrow> getGasPriceFromURL n url)
     else if calcMethod = ''max'' then getMaxGasPrice n [urls, ext]
     else getMedianGasPrice n [urls, ext]))"


section \<open>Fees per gas\<close>

fun max_tip_loop :: "eth_node \<Rightarrow> string list \<Rightarrow> price_heap \<Rightarrow> nat option \<Rightarrow> bool \<Rightarrow> string option \<Rightarrow>
    ('x, price_heap \<times> nat option \<times> bool \<times> string option) calling" where
  "max_tip_loop n [] h tipCap success err = sret (h, tipCap, success, err)"
| "max_tip_loop n (url # urls) h tipCap success err =
     sbind (extern (\<lambda>t. eth_maxPriorityFeePerGas n t url)) (\<lambda>a.
     case a of
       Inl e \<Rightarrow> max_tip_loop n urls h tipCap success (Some e)
     | Inr v \<Rightarrow>
         let h = decode_into result_addr v h;
             tipCap = (case tipCap of
               None \<Rightarrow> Some result_addr | Some m \<Rightarrow> if h result_addr > h m then Some result_addr else Some m)
         in max_tip_loop n urls h tipCap True None)"

definition getMaxGasTipCap :: "eth_node \<Rightarrow> string list \<Rightarrow> ('x, int) calling" where
  "getMaxGasTipCap n urls =
     (if length urls = 0 then slift (Err errEmptyURLs)
      else sbind (max_tip_loop n urls (\<lambda>_. 0) None False None) (\<lambda>(h, tipCap, success, err).
        if success then (case tipCap of Some a \<Rightarrow> sret (h a) | None \<Rightarrow> sret 0)
        else slift (Err (WrapRPCQueryError err ''eth_maxPriorityFeePerGas'' ''[]''))))"

text \<open>The two lists are asked with a variable each; the larger answer counts.\<close>

definition SuggestGasTipCap :: "eth_node \<Rightarrow> CrossChainBridgeBase \<Rightarrow> ('x, int) calling" where
  "SuggestGasTipCap n b =
     sbind (urls_of b) (\<lambda>(urls, ext).
     sbind (if length ext > 0 then sbind (stry (getMaxGasTipCap n ext)) (\<lambda>r. sret (case r of Inl _ \<Rightarrow> None | Inr v \<Rightarrow> Some v))
            else sret None) (\<lambda>tipCap.
     sbind (stry (getMaxGasTipCap n urls)) (\<lambda>r.
     case (tipCap, r) of
       (None, Inl err2) \<Rightarrow> slift (Err err2)
     | (Some m, Inl _) \<Rightarrow> sret m
     | (None, Inr m2) \<Rightarrow> sret m2
     | (Some m, Inr m2) \<Rightarrow> sret (if m2 > m then m2 else m))))"

definition getFeeHistory :: "eth_node \<Rightarrow> string list \<Rightarrow> int \<Rightarrow> ('x, int option list) calling" where
  "getFeeHistory n urls blockCount =
     (if length urls = 0 then slift (Err errEmptyURLs)
      else sbind (first_answer (\<lambda>t url. eth_feeHistory n t url blockCount) [] urls None)
             (or_wrapped ''eth_feeHistory'' (one_param (big_String blockCount))))"

definition FeeHistory :: "eth_node \<Rightarrow> CrossChainBridgeBase \<Rightarrow> int \<Rightarrow> ('x, int option list) calling" where
  "FeeHistory n b blockCount =
     sbind (urls_of b) (\<lambda>(urls, ext).
     or_else (getFeeHistory n urls blockCount) (\<lambda>_. length ext > 0) (getFeeHistory n ext blockCount))"

text \<open>A block without a base fee gives a nil number.\<close>

definition GetBaseFee :: "eth_node \<Rightarrow> CrossChainBridgeBase \<Rightarrow> int \<Rightarrow> ('x, int option) calling" where
  "GetBaseFee n b blockCount =
     (if blockCount = 0 then sbind (GetBlockByNumber n b None) (\<lambda>blk. sret (blk_BaseFee blk))
      else sbind (FeeHistory n b blockCount) (\<lambda>fees.
        if length fees > 0 then sret (last fees)
        else slift (Err (WrapRPCQueryError None ''eth_feeHistory'' (one_param (big_String blockCount))))))"

section \<open>Balances, gas, code and contract calls\<close>

text \<open>The parameters of the estimate are printed by \<open>fmt\<close> and not kept here.\<close>

definition EstimateGas :: "eth_node \<Rightarrow> CrossChainBridgeBase \<Rightarrow> string \<Rightarrow> string \<Rightarrow> int option \<Rightarrow> bytes \<Rightarrow> ('x, nat) calling" where
  "EstimateGas n b from to v data =
     sbind (urls_of b) (\<lambda>(urls, _).
     sbind (first_answer (\<lambda>t url. eth_estimateGas n t url from to v data) 0 urls None) (or_wrapped ''eth_estimateGas'' ''[]''))"

definition GetBalance :: "eth_node \<Rightarrow> CrossChainBridgeBase \<Rightarrow> string \<Rightarrow> ('x, int) calling" where
  "GetBalance n b account =
     sbind (urls_of b) (\<lambda>(urls, _).
     sbind (first_answer (\<lambda>t url. eth_getBalance n t url account) 0 urls None) (or_wrapped ''eth_getBalance'' (one_param account)))"

definition getCode :: "eth_node \<Rightarrow> string \<Rightarrow> string list \<Rightarrow> ('x, bytes) calling" where
  "getCode n contract urls =
     (if length urls = 0 then slift (Err errEmptyURLs)
      else sbind (first_answer (\<lambda>t url. eth_getCode n t url contract) [] urls None) (or_wrapped ''eth_getCode'' (one_param contract)))"

definition GetCode :: "eth_node \<Rightarrow> CrossChainBridgeBase \<Rightarrow> string \<Rightarrow> ('x, bytes) calling" where
  "GetCode n b contract =
     sbind (urls_of b) (\<lambda>(urls, ext).
     or_else (getCode n contract urls) (\<lambda>_. length ext > 0) (getCode n contract ext))"

text \<open>
  A failed call is repeated up to \<open>RetryRPCCountInInit\<close> times during start-up; \<open>result\<close> is the
  text variable that every answer is decoded into.
\<close>

definition RetryRPCCountInInit :: nat where "RetryRPCCountInInit = 10"

fun retry_call :: "nat \<Rightarrow> (nat \<Rightarrow> 'a answer) \<Rightarrow> string \<Rightarrow> ('x store_scheme, 'e, 'a answer) stateful" where
  "retry_call 0 ask err = sret (Inl err)"
| "retry_call (Suc k) ask err =
     sbind (extern ask) (\<lambda>a. case a of Inl e \<Rightarrow> retry_call k ask e | Inr v \<Rightarrow> sret (Inr v))"

fun call_loop :: "bool \<Rightarrow> (nat \<Rightarrow> string \<Rightarrow> string answer) \<Rightarrow> string list \<Rightarrow> string option \<Rightarrow>
    ('x store_scheme, 'e, string option + string) stateful" where
  "call_loop initing ask [] err = sret (Inl err)"
| "call_loop initing ask (url # urls) err =
     sbind (extern (\<lambda>t. ask t url)) (\<lambda>a.
     sbind (case a of Inl e \<Rightarrow> if initing then retry_call RetryRPCCountInInit (\<lambda>t. ask t url) e else sret a | Inr _ \<Rightarrow> sret a) (\<lambda>a.
     case a of Inl e \<Rightarrow> call_loop initing ask urls (Some e) | Inr None \<Rightarrow> sret (Inr '''') | Inr (Some v) \<Rightarrow> sret (Inr v)))"

definition CallContract :: "eth_node \<Rightarrow> CrossChainBridgeBase \<Rightarrow> string \<Rightarrow> bytes \<Rightarrow> string \<Rightarrow> ('x, string) calling" where
  "CallContract n b contract data blockNumber =
     sbind (urls_of b) (\<lambda>(urls, _).
     sbind (call_loop (IsIniting n) (\<lambda>t url. eth_call n t url contract data blockNumber) urls None)
       (or_wrapped ''eth_call'' (one_param contract)))"

definition ChainID :: "eth_node \<Rightarrow> CrossChainBridgeBase \<Rightarrow> ('x, int) calling" where
  "ChainID n b =
     sbind (urls_of b) (\<lambda>(urls, _). sbind (first_answer (eth_chainId n) 0 urls None) (or_wrapped ''eth_chainId'' ''[]''))"

definition NetworkID :: "eth_node \<Rightarrow> CrossChainBridgeBase \<Rightarrow> ('x, int) calling" where
  "NetworkID n b =
     sbind (urls_of b) (\<lambda>(urls, _).
     sbind (first_answer (net_version n) '''' urls None) (\<lambda>r.
     sbind (or_wrapped ''net_version'' ''[]'' r) (\<lambda>result.
     case big_SetString result 10 of
       None \<Rightarrow> slift (Err (OtherError (''invalid net_version result '' @ [CHR 0x22] @ result @ [CHR 0x22])))
     | Some v \<Rightarrow> sret v)))"

section \<open>Contract calls (callcontract.go) and the signer's chain (bridge.go)\<close>

definition GetBigIntFromStr_call :: "string \<Rightarrow> ('x, int) calling" where
  "GetBigIntFromStr_call result =
     slift (case GetBigIntFromStr result of Ret v \<Rightarrow> Ret v | Err e \<Rightarrow> Err (OtherError e) | Panic \<Rightarrow> Panic)"

definition GetErc20TotalSupply :: "eth_node \<Rightarrow> CrossChainBridgeBase \<Rightarrow> string \<Rightarrow> ('x, int) calling" where
  "GetErc20TotalSupply n b contract =
     sbind (CallContract n b contract (FromHex ''0x18160ddd'') ''latest'') GetBigIntFromStr_call"

text \<open>\<open>opt\<close> is the package's variable \<open>GetBalanceBlockNumberOpt\<close>.\<close>

definition GetErc20Balance :: "eth_node \<Rightarrow> CrossChainBridgeBase \<Rightarrow> string \<Rightarrow> string \<Rightarrow> string \<Rightarrow> ('x, int) calling" where
  "GetErc20Balance n b opt contract address =
     sbind (CallContract n b contract (FromHex ''0x70a08231'' @ BytesToHash (HexToAddress address)) opt) GetBigIntFromStr_call"

definition GetErc20Decimals :: "eth_node \<Rightarrow> CrossChainBridgeBase \<Rightarrow> string \<Rightarrow> ('x, nat) calling" where
  "GetErc20Decimals n b contract =
     sbind (CallContract n b contract (FromHex ''0x313ce567'') ''latest'') (\<lambda>result.
     case GetUint64FromStr result of
       Ret v \<Rightarrow> sret (v mod 256) | Err e \<Rightarrow> slift (Err (OtherError e)) | Panic \<Rightarrow> slift Panic)"

text \<open>The getters without an argument share their body: the selector differs.\<close>

definition call_address :: "string \<Rightarrow> eth_node \<Rightarrow> CrossChainBridgeBase \<Rightarrow> string \<Rightarrow> ('x, string) calling" where
  "call_address selector n b contractAddr =
     sbind (CallContract n b contractAddr (FromHex selector) ''latest'') (\<lambda>res.
     sbind (slift (GetData (FromHex res) 0 32)) (\<lambda>d. sret (LowerHex (BytesToAddress d))))"

definition GetFactoryAddress :: "eth_node \<Rightarrow> CrossChainBridgeBase \<Rightarrow> string \<Rightarrow> ('x, string) calling" where
  "GetFactoryAddress = call_address ''0xc45a0155''"
definition GetWNativeAddress :: "eth_node \<Rightarrow> CrossChainBridgeBase \<Rightarrow> string \<Rightarrow> ('x, string) calling" where
  "GetWNativeAddress = call_address ''0x8fd903f5''"
definition GetUnderlyingAddress :: "eth_node \<Rightarrow> CrossChainBridgeBase \<Rightarrow> string \<Rightarrow> ('x, string) calling" where
  "GetUnderlyingAddress = call_address ''0x6f307dc3''"
definition GetMPCAddress :: "eth_node \<Rightarrow> CrossChainBridgeBase \<Rightarrow> string \<Rightarrow> ('x, string) calling" where
  "GetMPCAddress = call_address ''0xf75c2664''"
definition GetVaultAddress :: "eth_node \<Rightarrow> CrossChainBridgeBase \<Rightarrow> string \<Rightarrow> ('x, string) calling" where
  "GetVaultAddress = call_address ''0xfbfa77cf''"
definition GetOwnerAddress :: "eth_node \<Rightarrow> CrossChainBridgeBase \<Rightarrow> string \<Rightarrow> ('x, string) calling" where
  "GetOwnerAddress = call_address ''0x8da5cb5b''"

definition IsMinter :: "eth_node \<Rightarrow> CrossChainBridgeBase \<Rightarrow> string \<Rightarrow> string \<Rightarrow> ('x, bool) calling" where
  "IsMinter n b contractAddr minterAddr =
     sbind (CallContract n b contractAddr (FromHex ''0xaa271e1a'' @ BytesToHash (HexToAddress minterAddr)) ''latest'') (\<lambda>res.
     sbind (slift (GetBigInt (FromHex res) 0 32)) (\<lambda>v. sret (v \<noteq> 0)))"

definition checkTokenMinter :: "eth_node \<Rightarrow> CrossChainBridgeBase \<Rightarrow> string \<Rightarrow> TokenConfig \<Rightarrow> ('x, unit) calling" where
  "checkTokenMinter n b routerContract tokenCfg =
     (if \<not> IsStandardTokenVersion tokenCfg then sret ()
      else
        let tokenAddr = ContractAddress tokenCfg; q = [CHR 0x27];
            mismatch = (\<lambda>minterAddr. sguard (HexToAddress minterAddr = HexToAddress routerContract)
              (OtherError (''minter mismatch, have '' @ q @ minterAddr @ q @ '' config '' @ q @ routerContract @ q))) in
        if ContractVersion tokenCfg = 3 then sbind (GetVaultAddress n b tokenAddr) mismatch
        else if ContractVersion tokenCfg = 2 \<or> ContractVersion tokenCfg = 1 then sbind (GetOwnerAddress n b tokenAddr) mismatch
        else sbind (IsMinter n b tokenAddr routerContract) (\<lambda>isMinter.
             sguard isMinter (OtherError (routerContract @ '' is not minter''))))"

definition getETCSignerChainID :: "eth_node \<Rightarrow> CrossChainBridgeBase \<Rightarrow> ('x, int) calling" where
  "getETCSignerChainID n b =
     sbind (NetworkID n b) (\<lambda>networkID.
     let i = fst (BigUint64 networkID) in
     if i = 1 then sret 61 else if i = 6 then sret 6 else if i = 7 then sret 63
     else slift (Err (OtherError ''unsupported etc network id'')))"

definition GetSignerChainID :: "eth_node \<Rightarrow> CrossChainBridgeBase \<Rightarrow> ('x, int) calling" where
  "GetSignerChainID n b =
     sbind (slift (non_nil (bridgeChainConfig b))) (\<lambda>cc.
     if ToUpper (BlockChain cc) = ''ETHCLASSIC'' then getETCSignerChainID n b
     else sbind (ChainID n b) (\<lambda>chainID. if chainID \<noteq> 0 then sret chainID else NetworkID n b))"


section \<open>What the queries return\<close>

text \<open>The answers to the questions of one round, the first asked at time \<open>t\<close>.\<close>

primrec asked :: "(nat \<Rightarrow> string \<Rightarrow> 'a answer) \<Rightarrow> nat \<Rightarrow> string list \<Rightarrow> 'a answer list" where
  "asked ask t [] = []"
| "asked ask t (url # urls) = ask t url # asked ask (Suc t) urls"

lemma asked_append: "asked ask t (us @ vs) = asked ask t us @ asked ask (t + length us) vs"
  by (induction us arbitrary: t) simp_all

text \<open>The value of a variable after the answers were decoded into it.\<close>

definition decoded :: "'a answer list \<Rightarrow> 'a \<Rightarrow> 'a" where
  "decoded as z = fold (\<lambda>a v. case a of Inr (Some p) \<Rightarrow> p | _ \<Rightarrow> v) as z"

lemma decoded_simps [simp]:
  "decoded [] z = z"
  "decoded (Inl e # as) z = decoded as z"
  "decoded (Inr None # as) z = decoded as z"
  "decoded (Inr (Some p) # as) z = decoded as p"
  by (simp_all add: decoded_def)

definition is_answer :: "'a answer \<Rightarrow> bool" where
  "is_answer a = (case a of Inl _ \<Rightarrow> False | Inr _ \<Rightarrow> True)"

lemma is_answer_simps [simp]: "is_answer (Inr v)" "\<not> is_answer (Inl e)"
  by (simp_all add: is_answer_def)

lemmas call_outcome = sbind_def slift_def sret_def extern_def

lemma all_prices_loop_result:
  "\<exists>err'. all_prices_loop n urls h ps err s =
     (Ret (h(result_addr := decoded (asked (eth_gasPrice n) (tick s) urls) (h result_addr)),
           ps @ replicate (length (filter is_answer (asked (eth_gasPrice n) (tick s) urls))) result_addr, err'),
      s\<lparr>tick := tick s + length urls\<rparr>)"
proof (induction urls arbitrary: h ps err s)
  case (Cons url urls)
  let ?s = "s\<lparr>tick := Suc (tick s)\<rparr>"
  show ?case
  proof (cases "eth_gasPrice n (tick s) url")
    case (Inl e)
    then show ?thesis using Cons.IH [of h ps "Some e" ?s] by (simp add: call_outcome)
  next
    case (Inr v)
    then show ?thesis
      using Inr Cons.IH [of "decode_into result_addr v h" "ps @ [result_addr]" None ?s]
      by (cases v) (simp_all add: call_outcome decode_into_def fun_upd_def cong: if_cong)
  qed
qed (simp add: call_outcome)

lemma sort_key_replicate: "sort_key f (replicate k a) = replicate k a"
  by (intro sort_key_id_if_sorted) (simp add: sorted_replicate)

lemma median_of_one_cell: "0 < k \<Longrightarrow> median h (replicate k a) = h a"
proof -
  assume k: "0 < k"
  then have i: "(k - 1) div 2 < k" by linarith
  have j: "k mod 2 = 0 \<Longrightarrow> Suc ((k - 1) div 2) < k" using k by presburger
  have "big_Div (h a + h a) 2 = h a" by (simp add: big_Div_def)
  with i j show ?thesis by (simp add: median_def Let_def)
qed

lemma getMedianGasPrice_result:
  assumes "getMedianGasPrice n us s = (Ret p, s')"
  shows "p = decoded (asked (eth_gasPrice n) (tick s) (concat us)) 0"
proof -
  let ?as = "asked (eth_gasPrice n) (tick s) (concat us)"
  let ?ps = "replicate (length (filter is_answer ?as)) result_addr"
  obtain err where run: "all_prices_loop n (concat us) (\<lambda>_. 0) [] None s =
      (Ret ((\<lambda>_. 0)(result_addr := decoded ?as 0), ?ps, err), s\<lparr>tick := tick s + length (concat us)\<rparr>)"
    using all_prices_loop_result [of n "concat us" "\<lambda>_. 0" "[]" None s] by auto
  show ?thesis
    using assms unfolding getMedianGasPrice_def
    by (auto simp: sbind_def run slift_def sret_def sort_key_replicate median_of_one_cell split: if_splits)
qed

lemma max_price_loop_result:
  assumes "m = None \<or> m = Some result_addr"
  shows "\<exists>err'. max_price_loop n urls h m err s =
     (Ret (h(result_addr := decoded (asked (eth_gasPrice n) (tick s) urls) (h result_addr)),
           (if list_ex is_answer (asked (eth_gasPrice n) (tick s) urls) then Some result_addr else m), err'),
      s\<lparr>tick := tick s + length urls\<rparr>)"
  using assms
proof (induction urls arbitrary: h m err s)
  case (Cons url urls)
  let ?s = "s\<lparr>tick := Suc (tick s)\<rparr>"
  show ?case
  proof (cases "eth_gasPrice n (tick s) url")
    case (Inl e)
    then show ?thesis using Cons.IH [OF Cons.prems, of h "Some e" ?s] by (simp add: call_outcome)
  next
    case (Inr v)
    then show ?thesis
      using Cons.prems Cons.IH [of "Some result_addr" "decode_into result_addr v h" None ?s]
      by (cases v) (auto simp: call_outcome decode_into_def fun_upd_def cong: if_cong)
  qed
qed (simp add: call_outcome)

lemma getMaxGasPrice_result:
  assumes "getMaxGasPrice n us s = (Ret p, s')"
  shows "p = decoded (asked (eth_gasPrice n) (tick s) (concat us)) 0"
  using assms max_price_loop_result [of None n "concat us" "\<lambda>_. 0" None s]
  unfolding getMaxGasPrice_def by (auto simp: sbind_def slift_def sret_def split: if_splits)


text \<open>The height that a nonce query starts from only grows; every answer is at most the result.\<close>

lemma max_nonce_loop_result:
  "\<exists>m ok err'. max_nonce_loop n urls account height r m0 ok0 err s = (Ret (m, ok, err'), s\<lparr>tick := tick s + length urls\<rparr>) \<and>
     m0 \<le> m \<and> (ok \<longleftrightarrow> ok0 \<or> list_ex is_answer (asked (\<lambda>t url. eth_getTransactionCount n t url account height) (tick s) urls)) \<and>
     (\<forall>v. Inr (Some v) \<in> set (asked (\<lambda>t url. eth_getTransactionCount n t url account height) (tick s) urls) \<longrightarrow> v \<le> m) \<and>
     (m = m0 \<or> m = r \<or> Inr (Some m) \<in> set (asked (\<lambda>t url. eth_getTransactionCount n t url account height) (tick s) urls))"
proof (induction urls arbitrary: r m0 ok0 err s)
  case (Cons url urls)
  let ?s = "s\<lparr>tick := Suc (tick s)\<rparr>"
  show ?case
  proof (cases "eth_getTransactionCount n (tick s) url account height")
    case (Inl e)
    then show ?thesis using Cons.IH [of r m0 ok0 "Some e" ?s] by (simp add: call_outcome)
  next
    case (Inr v)
    let ?r = "case v of None \<Rightarrow> r | Some x \<Rightarrow> x"
    from Inr show ?thesis
      using Cons.IH [of ?r "if ?r > m0 then ?r else m0" True None ?s]
      by (cases v) (auto simp: call_outcome split: if_splits)
  qed
qed (simp add: call_outcome)

lemma GetPoolNonce_Ret:
  assumes "GetPoolNonce n b address height s = (Ret nonce, s')" and "bridgeGatewayConfig b = Some g"
  defines "as \<equiv> asked (\<lambda>t url. eth_getTransactionCount n t url (HexToAddress address) height) (tick s) (APIAddress g)"
  shows "list_ex is_answer as" and "\<And>v. Inr (Some v) \<in> set as \<Longrightarrow> v \<le> nonce" and "nonce = 0 \<or> Inr (Some nonce) \<in> set as"
proof -
  let ?a = "HexToAddress address"
  obtain m ok err where run: "max_nonce_loop n (APIAddress g) ?a height 0 0 False None s = (Ret (m, ok, err), s\<lparr>tick := tick s + length (APIAddress g)\<rparr>)"
    and m: "ok \<longleftrightarrow> list_ex is_answer as" "\<forall>v. Inr (Some v) \<in> set as \<longrightarrow> v \<le> m" "m = 0 \<or> Inr (Some m) \<in> set as"
    using max_nonce_loop_result [of n "APIAddress g" ?a height 0 0 False None s] unfolding as_def by auto
  have "ok \<and> nonce = m"
    using assms(1,2) unfolding GetPoolNonce_def urls_of_def getMaxPoolNonce_def
    by (auto simp: sbind_def slift_def sret_def run non_nil_def Let_def split: if_splits)
  with m show "list_ex is_answer as" "\<And>v. Inr (Some v) \<in> set as \<Longrightarrow> v \<le> nonce" "nonce = 0 \<or> Inr (Some nonce) \<in> set as" by auto
qed

section \<open>Receipts\<close>

lemma first_found_Ret:
  assumes "first_found ask urls err s = (Ret (Inr (v, url)), s')"
  shows "url \<in> set urls \<and> (\<exists>t. ask t url = Inr (Some v))"
  using assms
proof (induction urls arbitrary: err s)
  case (Cons u urls)
  then show ?case
    by (cases "ask (tick s) u") (auto simp: call_outcome split: option.splits prod.splits)
qed (simp add: call_outcome)

lemma first_found_total: "\<exists>r s'. first_found ask urls err s = (Ret r, s')"
proof (induction urls arbitrary: err s)
  case (Cons u urls)
  then show ?case by (cases "ask (tick s) u") (auto simp: call_outcome split: option.splits)
qed (simp add: call_outcome)

lemma or_wrapped_Ret [outcome_simps]: "or_wrapped method ps r s = (Ret v, s') \<longleftrightarrow> r = Inr v \<and> s' = s"
  by (auto simp: or_wrapped_def slift_def sret_def split: sum.splits)

text \<open>
  What the checks of a receipt establish: the node at \<open>url\<close> gave it for this transaction, it is
  in a block, and the configured extra checks found the transaction and the block again.
\<close>

definition genuine :: "params_state \<Rightarrow> eth_node \<Rightarrow> CrossChainBridgeBase \<Rightarrow> string \<Rightarrow> full_receipt \<Rightarrow> string \<Rightarrow> bool" where
  "genuine p n b txHash R url \<longleftrightarrow>
     (\<exists>g cc number blockHash txIndex h.
        bridgeGatewayConfig b = Some g \<and> bridgeChainConfig b = Some cc \<and> url \<in> set (APIAddress g @ APIAddressExt g) \<and>
        (\<exists>t. eth_getTransactionReceipt n t url txHash = Inr (Some R)) \<and>
        BlockNumber R = Some number \<and> rcpt_BlockHash R = Some blockHash \<and> TxIndex R = Some txIndex \<and>
        rcpt_TxHash R = Some h \<and> EqualFold (Encode h) txHash \<and>
        (IsCheckTxBlockIndexEnabled p (cc_ChainID cc) \<longrightarrow>
           (\<exists>t tx th. eth_getTransactionByBlockNumberAndIndex n t url number txIndex = Inr (Some tx) \<and>
              rtx_Hash tx = Some th \<and> EqualFold (Encode th) txHash)) \<and>
        (IsCheckTxBlockHashEnabled p (cc_ChainID cc) \<longrightarrow>
           (\<exists>t u blk. u \<in> set (APIAddress g) \<and> eth_getBlockByNumber n t u (Some number) = Inr (Some blk) \<and>
              blk_Hash blk = Some blockHash)))"

lemma urls_of_Ret [outcome_simps]:
  "urls_of b s = (Ret (urls, ext), s') \<longleftrightarrow>
     (\<exists>g. bridgeGatewayConfig b = Some g \<and> urls = APIAddress g \<and> ext = APIAddressExt g) \<and> s' = s"
  by (cases "bridgeGatewayConfig b") (auto simp: urls_of_def slift_def non_nil_def)

lemma extern_Ret [outcome_simps]: "extern q s = (Ret v, s') \<longleftrightarrow> v = q (tick s) \<and> s' = s\<lparr>tick := Suc (tick s)\<rparr>"
  by (auto simp: extern_def)

lemma non_nil_Ret_iff [outcome_simps]: "non_nil x = Ret v \<longleftrightarrow> x = Some v"
  by (auto simp: non_nil_def split: option.splits)

lemma getTransactionByBlockNumberAndIndex_Ret:
  assumes "getTransactionByBlockNumberAndIndex n number i url s = (Ret tx, s')"
  shows "\<exists>t. eth_getTransactionByBlockNumberAndIndex n t url number i = Inr (Some tx)"
  using assms unfolding getTransactionByBlockNumberAndIndex_def
  by (auto simp: outcome_simps slift_def sret_def Let_def split: sum.splits option.splits)

lemma checkTxBlockHash_Ret:
  assumes "checkTxBlockHash n b number blockHash s = (Ret u, s')" and "bridgeGatewayConfig b = Some g"
  shows "\<exists>t url blk. url \<in> set (APIAddress g) \<and> eth_getBlockByNumber n t url (Some number) = Inr (Some blk) \<and> blk_Hash blk = Some blockHash"
  using assms unfolding checkTxBlockHash_def GetBlockByNumber_def
  by (auto simp: outcome_simps sret_def split: prod.splits dest!: first_found_Ret)


lemma check_receipt_genuine:
  assumes "check_receipt p n b txHash R url s = (Ret u, s')" and "bridgeGatewayConfig b = Some g"
    and "url \<in> set (APIAddress g @ APIAddressExt g)" and "eth_getTransactionReceipt n t url txHash = Inr (Some R)"
  shows "genuine p n b txHash R url"
proof -
  obtain number blockHash txIndex where R: "BlockNumber R = Some number" "rcpt_BlockHash R = Some blockHash" "TxIndex R = Some txIndex"
    using assms(1) by (auto simp: check_receipt_def outcome_simps split: option.splits)
  obtain h cc where h: "rcpt_TxHash R = Some h" "EqualFold (Encode h) txHash" "bridgeChainConfig b = Some cc"
    using assms(1) by (auto simp: check_receipt_def outcome_simps R)
  have "IsCheckTxBlockIndexEnabled p (cc_ChainID cc) \<Longrightarrow>
      \<exists>t tx th. eth_getTransactionByBlockNumberAndIndex n t url number txIndex = Inr (Some tx) \<and> rtx_Hash tx = Some th \<and> EqualFold (Encode th) txHash"
    using assms(1) h by (auto simp: check_receipt_def outcome_simps R dest!: getTransactionByBlockNumberAndIndex_Ret)
  moreover have "IsCheckTxBlockHashEnabled p (cc_ChainID cc) \<Longrightarrow>
      \<exists>t u blk. u \<in> set (APIAddress g) \<and> eth_getBlockByNumber n t u (Some number) = Inr (Some blk) \<and> blk_Hash blk = Some blockHash"
    using assms(1,2) h by (auto simp: check_receipt_def outcome_simps R dest!: checkTxBlockHash_Ret [where g = g])
  ultimately show ?thesis using assms(2-4) R h unfolding genuine_def by blast
qed

lemma getTransactionReceipt_genuine:
  assumes "getTransactionReceipt p n b txHash urls s = (Ret (R, url), s')" and "bridgeGatewayConfig b = Some g"
    and "set urls \<subseteq> set (APIAddress g @ APIAddressExt g)"
  shows "genuine p n b txHash R url"
  using assms unfolding getTransactionReceipt_def
  by (auto simp: outcome_simps slift_def sret_def split: if_splits dest!: first_found_Ret
      intro!: check_receipt_genuine [OF _ assms(2)])

lemma GetTransactionReceipt_genuine:
  assumes "GetTransactionReceipt_urls p n b txHash s = (Ret (R, url), s')"
  shows "genuine p n b txHash R url"
proof -
  obtain g where g: "bridgeGatewayConfig b = Some g"
    and run: "or_else (getTransactionReceipt p n b txHash (APIAddress g)) (\<lambda>err. IsRPCQueryOrNotFoundError err \<and> length (APIAddressExt g) > 0)
      (getTransactionReceipt p n b txHash (APIAddressExt g)) s = (Ret (R, url), s')"
    using assms by (auto simp: GetTransactionReceipt_urls_def sbind_Ret_iff urls_of_Ret)
  from or_else_Ret [OF run] show ?thesis by (auto elim!: getTransactionReceipt_genuine [OF _ g])
qed

text \<open>The verifier asks through these queries.\<close>

definition backed_by :: "params_state \<Rightarrow> eth_node \<Rightarrow> CrossChainBridgeBase \<Rightarrow> eth_rpc \<Rightarrow> string \<Rightarrow> bool" where
  "backed_by p n b e txHash \<longleftrightarrow>
     (\<forall>r url. GetTransactionReceipt e txHash = Inr (r, url) \<longrightarrow>
        (\<exists>(s::store) s' R. GetTransactionReceipt_urls p n b txHash s = (Ret (R, url), s') \<and> r = RPCTxReceipt.truncate R))"

lemma GetTransactionStatus_receipt:
  assumes "GetTransactionStatus e txHash = Ret (st, r)"
  shows "\<exists>url. GetTransactionReceipt e txHash = Inr (r, url)"
  using assms by (cases "GetTransactionReceipt e txHash") (auto simp: GetTransactionStatus_def outcome_simps Let_def)

text \<open>
  C4: a verified swap rests on a receipt that a configured node gave for this very transaction:
  the receipt names the transaction's hash and a block, and where the configuration asks for it,
  the block at that number was found with that hash and the transaction at its index. The swap's
  log is one of its logs and was emitted by the router contract.
\<close>

theorem verified_receipt_genuine:
  assumes "verifyERC20SwapTx r b e txHash logIndex allowUnstable = (Ret (), s)" and "backed_by p n b e (ToLower txHash)"
  shows "\<exists>R url. genuine p n b (ToLower txHash) R url \<and> logIndex < int (length (Logs R)) \<and>
    from_router b s (Logs R ! nat logIndex)"
  using assms(1)
proof (rule verifyERC20SwapTx_Ret)
  fix st receipt cc
  assume st: "GetTransactionStatus e (ToLower txHash) = Ret (st, receipt)" and idx: "logIndex < int (length (Logs receipt))"
    and log: "from_router b s (Logs receipt ! nat logIndex)"
  from GetTransactionStatus_receipt [OF st] assms(2) obtain s0 s' R url where
    "GetTransactionReceipt_urls p n b (ToLower txHash) (s0::store) = (Ret (R, url), s')" and R: "receipt = RPCTxReceipt.truncate R"
    unfolding backed_by_def by blast
  from GetTransactionReceipt_genuine [OF this(1)] idx log show ?thesis by (auto simp: R RPCTxReceipt.truncate_def)
qed


definition silent_node :: eth_node where
  "silent_node =
     \<lparr>IsIniting = False, Address_String = LowerHex, eth_blockNumber = (\<lambda>_ _. Inr None), eth_getBlockByHash = (\<lambda>_ _ _. Inr None), eth_pendingTransactions = (\<lambda>_ _. Inr None),
      eth_getBlockByNumber = (\<lambda>_ _ _. Inr None),
      eth_getTransactionByHash = (\<lambda>_ _ _. Inr None), eth_getTransactionByBlockNumberAndIndex = (\<lambda>_ _ _ _. Inr None),
      eth_getTransactionReceipt = (\<lambda>_ _ _. Inr None), eth_getTransactionCount = (\<lambda>_ _ _ _. Inr None),
      eth_gasPrice = (\<lambda>_ _. Inr None), eth_maxPriorityFeePerGas = (\<lambda>_ _. Inr None), eth_feeHistory = (\<lambda>_ _ _. Inr None),
      eth_getBalance = (\<lambda>_ _ _. Inr None), eth_estimateGas = (\<lambda>_ _ _ _ _ _. Inr None), eth_getCode = (\<lambda>_ _ _. Inr None),
      eth_call = (\<lambda>_ _ _ _ _. Inr None), eth_chainId = (\<lambda>_ _. Inr None), net_version = (\<lambda>_ _. Inr None),
      chain_getFinalizedHead = (\<lambda>_ _. Inr None), chain_getHeader = (\<lambda>_ _ _. Inr None)\<rparr>"

definition no_store :: store where
  "no_store = \<lparr>tick = 0, collRouterSwap = Map.empty, collRouterSwapResult = Map.empty, collUsedRValue = Map.empty\<rparr>"

definition sample_full_receipt :: full_receipt where
  "sample_full_receipt = RPCTxReceipt.extend sample_receipt \<lparr>rcpt_TxHash = Some [0xaa], TxIndex = Some 0\<rparr>"

text \<open>A node that knows the receipt of one transaction.\<close>

definition sample_node :: eth_node where
  "sample_node = silent_node\<lparr>eth_getTransactionReceipt := (\<lambda>_ _ h. if h = ''0xaa'' then Inr (Some sample_full_receipt) else Inr None)\<rparr>"

lemma sample_backed: "backed_by (prm (toks sample_router)) sample_node sample_bridge sample_rpc ''0xaa''"
proof -
  have h: "Encode [0xaa] = ''0xaa''" by code_simp
  have "GetTransactionReceipt_urls (prm (toks sample_router)) sample_node sample_bridge ''0xaa'' no_store =
      (Ret (sample_full_receipt, ''url''), no_store\<lparr>tick := 1\<rparr>)"
    by (simp add: GetTransactionReceipt_urls_def urls_of_def or_else_def stry_def getTransactionReceipt_def call_outcome sample_node_def
        silent_node_def sample_bridge_def non_nil_def no_store_def or_wrapped_def check_receipt_def sample_full_receipt_def
        RPCTxReceipt.extend_def sample_receipt_def sguard_def h sample_chain_def sample_router_def sample_ibridge_def
        IsCheckTxBlockIndexEnabled_def IsCheckTxBlockHashEnabled_def params_zeros)
  moreover have "sample_receipt = RPCTxReceipt.truncate sample_full_receipt"
    by (simp add: sample_full_receipt_def RPCTxReceipt.extend_def RPCTxReceipt.truncate_def)
  ultimately show ?thesis unfolding backed_by_def by (auto simp: sample_rpc_def)
qed

theorem verified_receipt_genuine_witness:
  "\<exists>R url. genuine (prm (toks sample_router)) sample_node sample_bridge ''0xaa'' R url \<and>
     from_router sample_bridge sample_swap_info (Logs R ! 1)"
proof -
  have l: "ToLower ''0xAA'' = ''0xaa''" by code_simp
  from verified_receipt_genuine [OF sample_verify sample_backed [folded l]] show ?thesis by (auto simp: l)
qed

text \<open>
  the gas price that a bridge works with is the last price that any of its nodes named, for
  both methods that ask all of them: the prices are compared through pointers to the one variable
  that every answer is decoded into, so that the maximum and the median of the answers are never
  computed.
\<close>

theorem SuggestPrice_last_answer:
  assumes "SuggestPrice p n b s = (Ret price, s')" and "bridgeChainConfig b = Some cc" and "bridgeGatewayConfig b = Some g"
    and "GetCalcGasPriceMethod p (cc_ChainID cc) \<noteq> ''first''"
  shows "price = decoded (asked (eth_gasPrice n) (tick s) (APIAddress g @ APIAddressExt g)) 0"
proof -
  have "getMaxGasPrice n [APIAddress g, APIAddressExt g] s = (Ret price, s') \<or> getMedianGasPrice n [APIAddress g, APIAddressExt g] s = (Ret price, s')"
    using assms by (auto simp: SuggestPrice_def outcome_simps Let_def split: if_splits)
  then show ?thesis by (auto dest: getMaxGasPrice_result getMedianGasPrice_result)
qed

definition three_nodes :: CrossChainBridgeBase where
  "three_nodes = sample_bridge\<lparr>bridgeGatewayConfig := Some \<lparr>APIAddress = [''a'', ''b'', ''c''], APIAddressExt = []\<rparr>\<rparr>"

definition three_prices :: eth_node where
  "three_prices = silent_node\<lparr>eth_gasPrice := (\<lambda>_ url. if url = ''a'' then Inr (Some 50) else if url = ''b'' then Inr (Some 60) else Inr (Some 1))\<rparr>"

theorem SuggestPrice_last_answer_witness:
  "fst (SuggestPrice (prm (toks sample_router)) three_prices three_nodes no_store) = Ret 1"
proof -
  have m: "GetCalcGasPriceMethod (prm (toks sample_router)) c = ''median''" for c
    by (simp add: GetCalcGasPriceMethod_def GetRouterServerConfig_def sample_router_def sample_ibridge_def params_zeros)
  have "\<exists>price s'. SuggestPrice (prm (toks sample_router)) three_prices three_nodes no_store = (Ret price, s')"
    by (simp add: SuggestPrice_def urls_of_def call_outcome three_nodes_def non_nil_def sample_bridge_def sample_chain_def m
        getMedianGasPrice_def three_prices_def no_store_def Let_def)
  then obtain price s' where run: "SuggestPrice (prm (toks sample_router)) three_prices three_nodes no_store = (Ret price, s')" by blast
  have "price = decoded (asked (eth_gasPrice three_prices) (tick no_store) ([''a'', ''b'', ''c''] @ [])) 0"
    using SuggestPrice_last_answer [OF run, of sample_chain "\<lparr>APIAddress = [''a'', ''b'', ''c''], APIAddressExt = []\<rparr>"] m
    by (simp add: three_nodes_def sample_bridge_def sample_chain_def)
  then have "price = 1" by (simp add: three_prices_def no_store_def)
  then show ?thesis by (simp add: run)
qed


end
