(* ===== verification/Rlp.thy ===== *)
theory Rlp
  imports GoLib Codec
begin

text \<open>
  The RLP encoder (\<open>tools/rlp/encode.go\<close>, the type dispatch of \<open>typecache.go\<close>, and the splitting
  of encodings in \<open>raw.go\<close>). The Go types that the reflection code distinguishes are the datatype
  \<open>gotype\<close>, the values of them are \<open>goval\<close>; a value that is not of its type makes reflection
  panic. The encoder collects string data and list headers separately and interleaves them at the
  end; sizes are lengths of data in memory, so they stay below the range of \<open>int\<close>. Types with
  their own \<open>EncodeRLP\<close> call the encoder themselves and are not a \<open>gotype\<close>; the tag \<open>-\<close> does
  not occur in the program.
\<close>

named_theorems rlp_simps "evaluation of the codec on encodings"

section \<open>Types and values\<close>

datatype kind = Byte | String | List

record tags =
  nilOK :: bool
  nilKind :: kind
  tail :: bool

definition no_tags :: tags where
  "no_tags = \<lparr>nilOK = False, nilKind = Byte, tail = False\<rparr>"

text \<open>A structure type has a name and its exported fields with their names and tags.\<close>

datatype gotype =
    TRawValue
  | TBigInt
  | TPtr gotype
  | TUint nat
  | TBool
  | TString
  | TSlice gotype
  | TArray nat gotype
  | TStruct string "(string \<times> tags \<times> gotype) list"
  | TInterface
  | TOther string

datatype goval =
    VBytes bytes
  | VBig int
  | VPtr "goval option"
  | VUint nat
  | VBool bool
  | VList "goval list"
  | VStruct "goval list"
  | VInterface "(gotype \<times> goval) option"

definition isByte :: "gotype \<Rightarrow> bool" where
  "isByte typ \<longleftrightarrow> typ = TUint 8"

definition isUint :: "gotype \<Rightarrow> bool" where
  "isUint typ = (case typ of TUint _ \<Rightarrow> True | _ \<Rightarrow> False)"

definition isByteArray :: "gotype \<Rightarrow> bool" where
  "isByteArray typ = (case typ of TRawValue \<Rightarrow> True | TSlice t \<Rightarrow> isByte t | TArray _ t \<Rightarrow> isByte t | _ \<Rightarrow> False)"

definition defaultNilKind :: "gotype \<Rightarrow> kind" where
  "defaultNilKind typ = (if isUint typ \<or> typ = TString \<or> typ = TBool \<or> isByteArray typ then String else List)"

section \<open>Sizes and headers\<close>

text \<open>The bytes that \<open>putint\<close> writes to the start of its buffer.\<close>

definition putint :: "nat \<Rightarrow> bytes" where
  "putint i =
     (if i < 2 ^ 8 then [of_nat i]
      else if i < 2 ^ 16 then [of_nat (i div 2 ^ 8), of_nat i]
      else if i < 2 ^ 24 then [of_nat (i div 2 ^ 16), of_nat (i div 2 ^ 8), of_nat i]
      else if i < 2 ^ 32 then [of_nat (i div 2 ^ 24), of_nat (i div 2 ^ 16), of_nat (i div 2 ^ 8), of_nat i]
      else if i < 2 ^ 40 then
        [of_nat (i div 2 ^ 32), of_nat (i div 2 ^ 24), of_nat (i div 2 ^ 16), of_nat (i div 2 ^ 8), of_nat i]
      else if i < 2 ^ 48 then
        [of_nat (i div 2 ^ 40), of_nat (i div 2 ^ 32), of_nat (i div 2 ^ 24), of_nat (i div 2 ^ 16), of_nat (i div 2 ^ 8), of_nat i]
      else if i < 2 ^ 56 then
        [of_nat (i div 2 ^ 48), of_nat (i div 2 ^ 40), of_nat (i div 2 ^ 32), of_nat (i div 2 ^ 24), of_nat (i div 2 ^ 16),
         of_nat (i div 2 ^ 8), of_nat i]
      else
        [of_nat (i div 2 ^ 56), of_nat (i div 2 ^ 48), of_nat (i div 2 ^ 40), of_nat (i div 2 ^ 32), of_nat (i div 2 ^ 24),
         of_nat (i div 2 ^ 16), of_nat (i div 2 ^ 8), of_nat i])"

fun intsize_loop :: "nat \<Rightarrow> nat \<Rightarrow> nat" where
  "intsize_loop sz i = (let i = i div 2 ^ 8 in if i = 0 then sz else intsize_loop (sz + 1) i)"

declare intsize_loop.simps [simp del]

definition intsize :: "nat \<Rightarrow> nat" where
  "intsize i = intsize_loop 1 i"

definition headsize :: "nat \<Rightarrow> nat" where
  "headsize sz = (if sz < 56 then 1 else 1 + intsize sz)"

text \<open>Writing into a buffer that is too short is an index out of range.\<close>

definition put_bytes :: "bytes \<Rightarrow> nat \<Rightarrow> bytes \<Rightarrow> ('e, bytes) outcome" where
  "put_bytes buf at bs = (if at + length bs \<le> length buf then Ret (copy_at buf at bs) else Panic)"

definition puthead :: "bytes \<Rightarrow> byte \<Rightarrow> byte \<Rightarrow> nat \<Rightarrow> ('e, bytes \<times> nat) outcome" where
  "puthead buf smalltag largetag sz =
     (if sz < 56 then obind (put_bytes buf 0 [smalltag + of_nat sz]) (\<lambda>buf. Ret (buf, 1))
      else
        let sizesize = length (putint sz) in
        obind (put_bytes buf 1 (putint sz)) (\<lambda>buf.
        obind (put_bytes buf 0 [largetag + of_nat sizesize]) (\<lambda>buf. Ret (buf, sizesize + 1))))"

section \<open>The encoder's buffer\<close>

record listhead =
  offset :: nat
  lh_size :: nat

record encbuf =
  str :: bytes
  lheads :: "listhead list"
  lhsize :: nat

definition enc_reset :: encbuf where
  "enc_reset = \<lparr>str = [], lheads = [], lhsize = 0\<rparr>"

definition Write :: "encbuf \<Rightarrow> bytes \<Rightarrow> encbuf" where
  "Write w b = w\<lparr>str := str w @ b\<rparr>"

definition encodeStringHeader :: "encbuf \<Rightarrow> nat \<Rightarrow> encbuf" where
  "encodeStringHeader w sz =
     (if sz < 56 then Write w [0x80 + of_nat sz]
      else let s = putint sz in Write w ((0xB7 + of_nat (length s)) # s))"

definition encodeString :: "encbuf \<Rightarrow> bytes \<Rightarrow> encbuf" where
  "encodeString w b =
     (if length b = 1 \<and> hd b \<le> 0x7F then Write w [hd b]
      else Write (encodeStringHeader w (length b)) b)"

definition enc_size :: "encbuf \<Rightarrow> nat" where
  "enc_size w = length (str w) + lhsize w"

text \<open>\<open>list\<close> returns a pointer to the new header, here its index in \<open>lheads\<close>.\<close>

definition list_begin :: "encbuf \<Rightarrow> encbuf \<times> nat" where
  "list_begin w =
     (w\<lparr>lheads := lheads w @ [\<lparr>offset = length (str w), lh_size = lhsize w\<rparr>]\<rparr>, length (lheads w))"

definition listEnd :: "encbuf \<Rightarrow> nat \<Rightarrow> encbuf" where
  "listEnd w i =
     (let lh = lheads w ! i;
          sz = enc_size w - offset lh - lh_size lh
      in w\<lparr>lheads := (lheads w)[i := lh\<lparr>lh_size := sz\<rparr>],
           lhsize := (if sz < 56 then lhsize w + 1 else lhsize w + (1 + intsize sz))\<rparr>)"

text \<open>\<open>head.encode(out[pos:])\<close>\<close>

definition put_list_head :: "bytes \<Rightarrow> nat \<Rightarrow> listhead \<Rightarrow> ('e, bytes \<times> nat) outcome" where
  "put_list_head out pos head =
     obind (go_slice out pos (length out)) (\<lambda>buf.
     obind (puthead buf 0xC0 0xF7 (lh_size head)) (\<lambda>(buf, n). Ret (take pos out @ buf, n)))"

fun toBytes_loop :: "bytes \<Rightarrow> listhead list \<Rightarrow> bytes \<Rightarrow> nat \<Rightarrow> nat \<Rightarrow> ('e, bytes) outcome" where
  "toBytes_loop s [] out pos strpos =
     obind (go_slice s strpos (length s)) (\<lambda>seg. Ret (copy_at out pos seg))"
| "toBytes_loop s (head # heads) out pos strpos =
     obind (go_slice s strpos (offset head)) (\<lambda>seg.
     let out = copy_at out pos seg; n = min (length out - pos) (length seg); pos = pos + n; strpos = strpos + n in
     obind (put_list_head out pos head) (\<lambda>(out, k). toBytes_loop s heads out (pos + k) strpos))"

definition toBytes :: "encbuf \<Rightarrow> ('e, bytes) outcome" where
  "toBytes w = toBytes_loop (str w) (lheads w) (replicate (enc_size w) 0) 0 0"

text \<open>\<open>toWriter\<close> to a writer that cannot fail (a hash, a byte buffer): the bytes written.\<close>

fun toWriter_loop :: "bytes \<Rightarrow> listhead list \<Rightarrow> nat \<Rightarrow> bytes \<Rightarrow> ('e, bytes) outcome" where
  "toWriter_loop s [] strpos out =
     (if strpos < length s then obind (go_slice s strpos (length s)) (\<lambda>seg. Ret (out @ seg)) else Ret out)"
| "toWriter_loop s (head # heads) strpos out =
     obind (if strpos < offset head then go_slice s strpos (offset head) else Ret []) (\<lambda>seg.
     obind (puthead (replicate 9 0) 0xC0 0xF7 (lh_size head)) (\<lambda>(buf, n).
       toWriter_loop s heads (strpos + length seg) (out @ seg @ take n buf)))"

definition toWriter :: "encbuf \<Rightarrow> ('e, bytes) outcome" where
  "toWriter w = toWriter_loop (str w) (lheads w) 0 []"

section \<open>Writers by type\<close>

datatype rlp_type_error = NotSerializable gotype | StructFieldError gotype string rlp_type_error

datatype enc_error = TypeError rlp_type_error | NegativeBigInt

text \<open>\<open>makeWriter\<close> up to the error it ends in: the type may contain one that has no encoding.\<close>

fun writerErr :: "gotype \<Rightarrow> rlp_type_error option" where
  "writerErr (TPtr t) = writerErr t"
| "writerErr (TSlice t) = writerErr t"
| "writerErr (TArray n t) = writerErr t"
| "writerErr (TStruct name fs) =
     foldr (\<lambda>(f, e) r. case e of Some err \<Rightarrow> Some (StructFieldError (TStruct name fs) f err) | None \<Rightarrow> r)
       (map (\<lambda>(f, _, t). (f, writerErr t)) fs) None"
| "writerErr (TOther name) = Some (NotSerializable (TOther name))"
| "writerErr _ = None"

definition writeUint :: "nat \<Rightarrow> encbuf \<Rightarrow> encbuf" where
  "writeUint i w =
     (if i = 0 then Write w [0x80]
      else if i < 128 then Write w [of_nat i]
      else let s = putint i in Write w ((0x80 + of_nat (length s)) # s))"

definition writeBool :: "bool \<Rightarrow> encbuf \<Rightarrow> encbuf" where
  "writeBool b w = Write w [if b then 0x01 else 0x80]"

definition writeBigInt :: "int \<Rightarrow> encbuf \<Rightarrow> (enc_error, encbuf) outcome" where
  "writeBigInt i w =
     (if i < 0 then Err NegativeBigInt else if i = 0 then Ret (Write w [0x80]) else Ret (encodeString w (big_Bytes i)))"

definition writeBigIntPtr :: "int option \<Rightarrow> encbuf \<Rightarrow> (enc_error, encbuf) outcome" where
  "writeBigIntPtr p w = (case p of None \<Rightarrow> Ret (Write w [0x80]) | Some i \<Rightarrow> writeBigInt i w)"

definition in_list :: "encbuf \<Rightarrow> (encbuf \<Rightarrow> (enc_error, encbuf) outcome) \<Rightarrow> (enc_error, encbuf) outcome" where
  "in_list w body = (let (w, lh) = list_begin w in obind (body w) (\<lambda>w. Ret (listEnd w lh)))"

definition writeBytes :: "gotype \<Rightarrow> bytes \<Rightarrow> encbuf \<Rightarrow> (enc_error, encbuf) outcome" where
  "writeBytes t b w =
     (case t of
        TRawValue \<Rightarrow> Ret (Write w b)
      | TString \<Rightarrow> Ret (encodeString w b)
      | TSlice e \<Rightarrow> if isByte e then Ret (encodeString w b) else Panic
      | TArray n e \<Rightarrow> if isByte e then Ret (encodeString w b) else Panic
      | _ \<Rightarrow> Panic)"

definition writeNilPtr :: "tags \<Rightarrow> gotype \<Rightarrow> encbuf \<Rightarrow> (enc_error, encbuf) outcome" where
  "writeNilPtr ts e w =
     (if e = TBigInt then writeBigIntPtr None w
      else if (if nilOK ts then nilKind ts else defaultNilKind e) = String then Ret (Write w [0x80])
      else in_list w Ret)"

text \<open>The writers, by the value; the type decides which one runs.\<close>

fun write_val :: "tags \<Rightarrow> gotype \<Rightarrow> goval \<Rightarrow> encbuf \<Rightarrow> (enc_error, encbuf) outcome"
  and write_elems :: "gotype \<Rightarrow> goval list \<Rightarrow> encbuf \<Rightarrow> (enc_error, encbuf) outcome"
  and write_fields :: "(string \<times> tags \<times> gotype) list \<Rightarrow> goval list \<Rightarrow> encbuf \<Rightarrow> (enc_error, encbuf) outcome" where
  "write_val ts t (VBytes b) w = writeBytes t b w"
| "write_val ts t (VBig i) w = (if t = TBigInt then writeBigInt i w else Panic)"
| "write_val ts t (VPtr None) w = (case t of TPtr e \<Rightarrow> writeNilPtr ts e w | _ \<Rightarrow> Panic)"
| "write_val ts t (VPtr (Some v)) w = (case t of TPtr e \<Rightarrow> write_val no_tags e v w | _ \<Rightarrow> Panic)"
| "write_val ts t (VUint i) w = (if isUint t then Ret (writeUint i w) else Panic)"
| "write_val ts t (VBool b) w = (if t = TBool then Ret (writeBool b w) else Panic)"
| "write_val ts t (VList vs) w =
     (case t of
        TSlice e \<Rightarrow>
          if isByte e then Panic else if tail ts then write_elems e vs w else in_list w (\<lambda>w. write_elems e vs w)
      | TArray n e \<Rightarrow>
          if isByte e then Panic else if tail ts then write_elems e vs w else in_list w (\<lambda>w. write_elems e vs w)
      | _ \<Rightarrow> Panic)"
| "write_val ts t (VStruct vs) w =
     (case t of TStruct name fs \<Rightarrow> in_list w (\<lambda>w. write_fields fs vs w) | _ \<Rightarrow> Panic)"
| "write_val ts t (VInterface None) w = (if t = TInterface then Ret (Write w [0xC0]) else Panic)"
| "write_val ts t (VInterface (Some (e, v))) w =
     (if t = TInterface then
        case writerErr e of Some err \<Rightarrow> Err (TypeError err) | None \<Rightarrow> write_val no_tags e v w
      else Panic)"
| "write_elems t [] w = Ret w"
| "write_elems t (v # vs) w = obind (write_val no_tags t v w) (\<lambda>w. write_elems t vs w)"
| "write_fields fs [] w = (if fs = [] then Ret w else Panic)"
| "write_fields fs (v # vs) w =
     (case fs of
        [] \<Rightarrow> Panic
      | (name, ts, t) # fs' \<Rightarrow> obind (write_val ts t v w) (\<lambda>w. write_fields fs' vs w))"

text \<open>\<open>encbuf.encode\<close>, \<open>EncodeToBytes\<close> and \<open>Encode\<close> to a writer that is not an encoder's buffer.\<close>

definition encbuf_encode :: "gotype \<Rightarrow> goval \<Rightarrow> encbuf \<Rightarrow> (enc_error, encbuf) outcome" where
  "encbuf_encode t v w = (case writerErr t of Some err \<Rightarrow> Err (TypeError err) | None \<Rightarrow> write_val no_tags t v w)"

definition EncodeToBytes :: "gotype \<Rightarrow> goval \<Rightarrow> (enc_error, bytes) outcome" where
  "EncodeToBytes t v = obind (encbuf_encode t v enc_reset) toBytes"

definition Encode_to_writer :: "gotype \<Rightarrow> goval \<Rightarrow> (enc_error, bytes) outcome" where
  "Encode_to_writer t v = obind (encbuf_encode t v enc_reset) toWriter"

section \<open>The encoding, as a function of the data\<close>

text \<open>
  RLP encodes trees of byte strings. \<open>Verbatim\<close> stands for raw values, which are copied.
\<close>

datatype item = Str bytes | Items "item list" | Verbatim bytes

definition rlp_head :: "byte \<Rightarrow> byte \<Rightarrow> nat \<Rightarrow> bytes" where
  "rlp_head smalltag largetag n =
     (if n < 56 then [smalltag + of_nat n] else (largetag + of_nat (length (be_bytes n))) # be_bytes n)"

definition rlp_str :: "bytes \<Rightarrow> bytes" where
  "rlp_str b = (if length b = 1 \<and> hd b \<le> 0x7F then b else rlp_head 0x80 0xB7 (length b) @ b)"

definition rlp_list :: "bytes \<Rightarrow> bytes" where
  "rlp_list content = rlp_head 0xC0 0xF7 (length content) @ content"

fun rlp :: "item \<Rightarrow> bytes" where
  "rlp (Str b) = rlp_str b"
| "rlp (Items xs) = rlp_list (concat (map rlp xs))"
| "rlp (Verbatim b) = b"

lemma be_bytes_step: "0 < n \<Longrightarrow> be_bytes n = be_bytes (n div 256) @ [of_nat n]"
proof -
  have "(of_nat (n mod 256) :: byte) = of_nat n"
    by (simp add: word_unat_eq_iff)
  then show "0 < n \<Longrightarrow> be_bytes n = be_bytes (n div 256) @ [of_nat n]"
    by (simp add: be_bytes_def digits_step)
qed

lemma be_bytes_exact:
  "256 ^ k \<le> i \<Longrightarrow> i < 256 ^ Suc k \<Longrightarrow> be_bytes i = map (\<lambda>j. of_nat (i div 256 ^ j)) (rev [0..<Suc k])"
proof (induction k arbitrary: i)
  case (Suc k)
  have i: "0 < i" using Suc.prems(1) by (rule order.strict_trans2 [rotated]) simp
  have "256 ^ k \<le> i div 256" using Suc.prems(1) by (simp add: less_eq_div_iff_mult_less_eq mult.commute)
  moreover have "i div 256 < 256 ^ Suc k" using Suc.prems(2) by (simp add: div_less_iff_less_mult mult.commute)
  moreover note Suc.IH [of "i div 256"]
  ultimately have "be_bytes i = map (\<lambda>j. of_nat (i div 256 div 256 ^ j)) (rev [0..<Suc k]) @ [of_nat i]"
    by (simp only: be_bytes_step [OF i])
  moreover have "map (\<lambda>j. of_nat (i div 256 div 256 ^ j) :: byte) (rev [0..<Suc k]) = map (\<lambda>j. of_nat (i div 256 ^ j)) (rev (map Suc [0..<Suc k]))"
    by (simp add: rev_map div_mult2_eq)
  moreover have "[0..<Suc (Suc k)] = 0 # map Suc [0..<Suc k]"
    by (simp only: map_Suc_upt) (simp add: upt_conv_Cons)
  ultimately show ?case by simp
qed (simp add: be_bytes_step)

lemma putint_be_bytes:
  assumes "0 < i" and "i < W64"
  shows "putint i = be_bytes i"
proof -
  have one: "i < 2 ^ 8 \<Longrightarrow> ?thesis" using assms(1) by (simp add: putint_def be_bytes_step)
  have p: "\<not> i < 2 ^ (8 * k) \<Longrightarrow> i < 2 ^ (8 * Suc k) \<Longrightarrow> be_bytes i = map (\<lambda>j. of_nat (i div 2 ^ (8 * j))) (rev [0..<Suc k])" for k
    using be_bytes_exact [of k i] by (simp add: power_mult power_add)
  show ?thesis
    using one p [of 1] p [of 2] p [of 3] p [of 4] p [of 5] p [of 6] p [of 7] assms(2)
    unfolding putint_def by (auto simp: W64_def upt_rec not_less)
qed

lemma length_be_bytes_step: "0 < n \<Longrightarrow> length (be_bytes n) = Suc (length (be_bytes (n div 256)))"
  by (simp add: be_bytes_step)

lemma intsize_loop_length: "0 < i \<Longrightarrow> intsize_loop (Suc k) i = k + length (be_bytes i)"
proof (induction "Suc k" i arbitrary: k rule: intsize_loop.induct)
  case (1 i)
  then show ?case
    by (subst intsize_loop.simps) (auto simp: Let_def length_be_bytes_step)
qed

lemma headsize_head: "headsize n = length (rlp_head a b n)"
  using intsize_loop_length [of n 0] by (simp add: headsize_def rlp_head_def intsize_def)

lemma puthead_head:
  assumes "n < W64" and "length (rlp_head a b n) \<le> length buf"
  shows "puthead buf a b n = Ret (copy_at buf 0 (rlp_head a b n), length (rlp_head a b n))"
proof (cases "n < 56")
  case True
  with assms show ?thesis by (simp add: puthead_def rlp_head_def put_bytes_def)
next
  case False
  with assms have "putint n = be_bytes n" by (simp add: putint_be_bytes)
  with False assms show ?thesis
    by (simp add: puthead_def rlp_head_def put_bytes_def copy_at_def Let_def)
qed

section \<open>The buffer, as a sequence of pieces\<close>

text \<open>
  What was written to the buffer, in order: data and closed list headers. The buffer keeps the two
  apart; \<open>render\<close> is the text they stand for.
\<close>

datatype piece = Data bytes | Head nat

definition list_head :: "nat \<Rightarrow> bytes" where
  "list_head n = rlp_head 0xC0 0xF7 n"

fun render :: "piece list \<Rightarrow> bytes" where
  "render [] = []"
| "render (Data b # ps) = b @ render ps"
| "render (Head n # ps) = list_head n @ render ps"

fun data_of :: "piece list \<Rightarrow> bytes" where
  "data_of [] = []"
| "data_of (Data b # ps) = b @ data_of ps"
| "data_of (Head n # ps) = data_of ps"

fun heads_of :: "nat \<Rightarrow> piece list \<Rightarrow> listhead list" where
  "heads_of off [] = []"
| "heads_of off (Data b # ps) = heads_of (off + length b) ps"
| "heads_of off (Head n # ps) = \<lparr>offset = off, lh_size = n\<rparr> # heads_of off ps"

fun heads_size :: "piece list \<Rightarrow> nat" where
  "heads_size [] = 0"
| "heads_size (Data b # ps) = heads_size ps"
| "heads_size (Head n # ps) = length (list_head n) + heads_size ps"

lemma render_append [simp]: "render (ps @ qs) = render ps @ render qs"
  by (induction ps rule: render.induct) simp_all

lemma data_of_append [simp]: "data_of (ps @ qs) = data_of ps @ data_of qs"
  by (induction ps rule: data_of.induct) simp_all

lemma heads_of_append [simp]: "heads_of off (ps @ qs) = heads_of off ps @ heads_of (off + length (data_of ps)) qs"
  by (induction off ps rule: heads_of.induct) (simp_all add: add.assoc)

lemma heads_size_append [simp]: "heads_size (ps @ qs) = heads_size ps + heads_size qs"
  by (induction ps rule: heads_size.induct) simp_all

lemma length_render: "length (render ps) = length (data_of ps) + heads_size ps"
  by (induction ps rule: render.induct) simp_all

definition small_heads :: "piece list \<Rightarrow> bool" where
  "small_heads ps \<longleftrightarrow> (\<forall>n. Head n \<in> set ps \<longrightarrow> n < W64)"

lemma small_heads_simps [simp]:
  "small_heads []" "small_heads (Data b # ps) = small_heads ps"
  "small_heads (Head n # ps) \<longleftrightarrow> n < W64 \<and> small_heads ps"
  "small_heads (ps @ qs) \<longleftrightarrow> small_heads ps \<and> small_heads qs"
  by (auto simp: small_heads_def)

text \<open>\<open>w'\<close> is \<open>w\<close> after writing \<open>e\<close>.\<close>

definition written :: "encbuf \<Rightarrow> bytes \<Rightarrow> encbuf \<Rightarrow> bool" where
  "written w e w' \<longleftrightarrow>
     (\<exists>ps. str w' = str w @ data_of ps \<and> lheads w' = lheads w @ heads_of (length (str w)) ps \<and>
        lhsize w' = lhsize w + heads_size ps \<and> render ps = e \<and> small_heads ps)"

lemma written_refl [simp]: "written w [] w"
  unfolding written_def by (rule exI [of _ "[]"]) simp

lemma written_trans: "written w e w1 \<Longrightarrow> written w1 e1 w2 \<Longrightarrow> written w (e @ e1) w2"
  unfolding written_def by (elim exE, rename_tac ps qs, rule_tac x = "ps @ qs" in exI) simp

lemma written_Write [simp]: "written w b (Write w b)"
  unfolding written_def Write_def by (rule exI [of _ "[Data b]"]) simp

lemma written_list:
  assumes "list_begin w = (w1, i)" and "written w1 e w2" and "length e < W64"
  shows "written w (rlp_list e) (listEnd w2 i)"
proof -
  from assms obtain ps where w2: "str w2 = str w @ data_of ps" "lhsize w2 = lhsize w + heads_size ps" "small_heads ps"
      "lheads w2 = lheads w @ \<lparr>offset = length (str w), lh_size = lhsize w\<rparr> # heads_of (length (str w)) ps"
    and e: "render ps = e" and i: "i = length (lheads w)"
    unfolding written_def list_begin_def by auto
  have sz: "enc_size w2 - length (str w) - lhsize w = length e"
    using length_render [of ps] w2 e by (simp add: enc_size_def)
  have hs: "(if n < 56 then k + 1 else k + (1 + intsize n)) = k + length (list_head n)" for n k
    using headsize_head [of n "0xC0" "0xF7"] by (auto simp: headsize_def list_head_def)
  have "listEnd w2 i = w2\<lparr>lheads := lheads w @ \<lparr>offset = length (str w), lh_size = length e\<rparr> # heads_of (length (str w)) ps,
      lhsize := lhsize w2 + length (list_head (length e))\<rparr>"
    using sz unfolding listEnd_def hs by (simp add: Let_def w2 i nth_append list_update_append)
  then show ?thesis unfolding written_def
    by (intro exI [of _ "Head (length e) # ps"]) (use w2 e assms(3) in \<open>simp add: rlp_list_def list_head_def\<close>)
qed

section \<open>The encoder computes the encoding\<close>

text \<open>The items of a value: the encoding rules of Go types, without any buffer.\<close>

definition items_bytes :: "gotype \<Rightarrow> bytes \<Rightarrow> (enc_error, item list) outcome" where
  "items_bytes t b =
     (case t of
        TRawValue \<Rightarrow> Ret [Verbatim b]
      | TString \<Rightarrow> Ret [Str b]
      | TSlice e \<Rightarrow> if isByte e then Ret [Str b] else Panic
      | TArray n e \<Rightarrow> if isByte e then Ret [Str b] else Panic
      | _ \<Rightarrow> Panic)"

definition nil_item :: "tags \<Rightarrow> gotype \<Rightarrow> item" where
  "nil_item ts e =
     (if e = TBigInt \<or> (if nilOK ts then nilKind ts else defaultNilKind e) = String then Str [] else Items [])"

fun items :: "tags \<Rightarrow> gotype \<Rightarrow> goval \<Rightarrow> (enc_error, item list) outcome"
  and items_elems :: "gotype \<Rightarrow> goval list \<Rightarrow> (enc_error, item list) outcome"
  and items_fields :: "(string \<times> tags \<times> gotype) list \<Rightarrow> goval list \<Rightarrow> (enc_error, item list) outcome" where
  "items ts t (VBytes b) = items_bytes t b"
| "items ts t (VBig i) =
     (if t = TBigInt then if i < 0 then Err NegativeBigInt else Ret [Str (be_bytes (nat i))] else Panic)"
| "items ts t (VPtr None) = (case t of TPtr e \<Rightarrow> Ret [nil_item ts e] | _ \<Rightarrow> Panic)"
| "items ts t (VPtr (Some v)) = (case t of TPtr e \<Rightarrow> items no_tags e v | _ \<Rightarrow> Panic)"
| "items ts t (VUint i) = (if isUint t \<and> i < W64 then Ret [Str (be_bytes i)] else Panic)"
| "items ts t (VBool b) = (if t = TBool then Ret [Str (if b then [1] else [])] else Panic)"
| "items ts t (VList vs) =
     (case t of
        TSlice e \<Rightarrow>
          if isByte e then Panic else if tail ts then items_elems e vs else obind (items_elems e vs) (\<lambda>xs. Ret [Items xs])
      | TArray n e \<Rightarrow>
          if isByte e then Panic else if tail ts then items_elems e vs else obind (items_elems e vs) (\<lambda>xs. Ret [Items xs])
      | _ \<Rightarrow> Panic)"
| "items ts t (VStruct vs) =
     (case t of TStruct name fs \<Rightarrow> obind (items_fields fs vs) (\<lambda>xs. Ret [Items xs]) | _ \<Rightarrow> Panic)"
| "items ts t (VInterface None) = (if t = TInterface then Ret [Items []] else Panic)"
| "items ts t (VInterface (Some (e, v))) =
     (if t = TInterface then
        case writerErr e of Some err \<Rightarrow> Err (TypeError err) | None \<Rightarrow> items no_tags e v
      else Panic)"
| "items_elems t [] = Ret []"
| "items_elems t (v # vs) = obind (items no_tags t v) (\<lambda>xs. obind (items_elems t vs) (\<lambda>ys. Ret (xs @ ys)))"
| "items_fields fs [] = (if fs = [] then Ret [] else Panic)"
| "items_fields fs (v # vs) =
     (case fs of
        [] \<Rightarrow> Panic
      | (name, ts, t) # fs' \<Rightarrow> obind (items ts t v) (\<lambda>xs. obind (items_fields fs' vs) (\<lambda>ys. Ret (xs @ ys))))"

lemma Write_Write [simp]: "Write (Write w a) b = Write w (a @ b)"
  by (simp add: Write_def)

lemma encodeString_Write: "length b < W64 \<Longrightarrow> encodeString w b = Write w (rlp_str b)"
  by (cases b) (auto simp: encodeString_def encodeStringHeader_def rlp_str_def rlp_head_def putint_be_bytes Let_def)

lemma length_rlp_str: "length (rlp_str b) < W64 \<Longrightarrow> length b < W64"
  by (auto simp: rlp_str_def split: if_splits)

lemma rlp_str_small: "i < 128 \<Longrightarrow> i \<noteq> 0 \<Longrightarrow> rlp_str (be_bytes i) = [of_nat i]"
  by (simp add: be_bytes_step rlp_str_def word_le_nat_alt)

lemma length_be_bytes_W64: "i < W64 \<Longrightarrow> length (be_bytes i) \<le> 8"
  by (rule length_be_bytes_le) (simp add: W64_power)

lemma rlp_str_big:
  assumes "128 \<le> i" and "i < W64"
  shows "rlp_str (be_bytes i) = (0x80 + of_nat (length (be_bytes i))) # be_bytes i"
proof -
  have "length (be_bytes i) = 1 \<Longrightarrow> \<not> hd (be_bytes i) \<le> 0x7F"
    using assms by (cases "i < 256") (auto simp: be_bytes_step word_le_nat_alt div_eq_0_iff)
  with length_be_bytes_W64 [OF assms(2)] show ?thesis by (auto simp: rlp_str_def rlp_head_def)
qed

lemma writeUint_Write: "i < W64 \<Longrightarrow> writeUint i w = Write w (rlp_str (be_bytes i))"
  by (auto simp: writeUint_def Let_def rlp_str_small rlp_str_big putint_be_bytes)
     (simp add: rlp_str_def rlp_head_def)

lemma writeNilPtr_written: "\<exists>w'. writeNilPtr ts e w = Ret w' \<and> written w (rlp (nil_item ts e)) w'"
proof -
  have "written w (rlp_list []) (listEnd (fst (list_begin w)) (snd (list_begin w)))"
    using written_list [of w "fst (list_begin w)" "snd (list_begin w)" "[]" "fst (list_begin w)"] by simp
  moreover have "written w (rlp_str []) (Write w [0x80])"
    using written_Write [of w "[0x80]"] by (simp add: rlp_str_def rlp_head_def)
  ultimately show ?thesis
    by (auto simp: writeNilPtr_def nil_item_def writeBigIntPtr_def in_list_def split: prod.splits)
qed

text \<open>All the data of a value, in order.\<close>

definition rlps :: "item list \<Rightarrow> bytes" where
  "rlps xs = concat (map rlp xs)"

lemma rlps_simps [simp]: "rlps [] = []" "rlps (x # xs) = rlp x @ rlps xs" "rlps (xs @ ys) = rlps xs @ rlps ys"
  by (simp_all add: rlps_def)

lemma rlp_Items [simp]: "rlp (Items xs) = rlp_list (rlps xs)"
  by (simp add: rlps_def)

declare rlp.simps(2) [simp del]

lemma length_rlp_list: "length (rlp_list c) < W64 \<Longrightarrow> length c < W64"
  by (simp add: rlp_list_def)

lemma in_list_written:
  assumes "\<And>w. \<exists>w'. body w = Ret w' \<and> written w e w'" and "length e < W64"
  shows "\<exists>w'. in_list w body = Ret w' \<and> written w (rlp_list e) w'"
proof -
  obtain w1 i where b: "list_begin w = (w1, i)" by fastforce
  from assms(1) obtain w2 where "body w1 = Ret w2" "written w1 e w2" by blast
  with written_list [OF b this(2) assms(2)] b show ?thesis by (simp add: in_list_def)
qed

lemma in_list_items:
  assumes "obind m (\<lambda>xs. Ret [Items xs]) = Ret ys" and "length (rlps ys) < W64"
    and "\<And>xs w. m = Ret xs \<Longrightarrow> length (rlps xs) < W64 \<Longrightarrow> \<exists>w'. body w = Ret w' \<and> written w (rlps xs) w'"
  shows "\<exists>w'. in_list w body = Ret w' \<and> written w (rlps ys) w'"
proof -
  from assms(1) obtain xs where xs: "m = Ret xs" "ys = [Items xs]" by (auto simp: outcome_simps)
  then have "length (rlps xs) < W64" using assms(2) length_rlp_list by simp
  with xs assms(3) show ?thesis by (simp add: in_list_written)
qed

lemma written_obind:
  assumes "\<exists>w'. m = Ret w' \<and> written w e w'" and "\<And>w. \<exists>w'. f w = Ret w' \<and> written w e' w'"
  shows "\<exists>w'. obind m f = Ret w' \<and> written w (e @ e') w'"
  using assms written_trans by (metis obind.simps(1))

lemma items_obind:
  assumes "obind m (\<lambda>xs. obind m' (\<lambda>ys. Ret (xs @ ys))) = Ret zs" and "length (rlps zs) < W64"
    and "\<And>xs. m = Ret xs \<Longrightarrow> length (rlps xs) < W64 \<Longrightarrow> \<exists>w'. a = Ret w' \<and> written w (rlps xs) w'"
    and "\<And>ys w. m' = Ret ys \<Longrightarrow> length (rlps ys) < W64 \<Longrightarrow> \<exists>w'. f w = Ret w' \<and> written w (rlps ys) w'"
  shows "\<exists>w'. obind a f = Ret w' \<and> written w (rlps zs) w'"
proof -
  from assms(1) obtain xs ys where m: "m = Ret xs" "m' = Ret ys" "zs = xs @ ys" by (auto simp: outcome_simps)
  with assms(2) have "length (rlps xs) < W64" "length (rlps ys) < W64" by simp_all
  with m assms(3,4) show ?thesis by (simp add: written_obind)
qed

lemma write_written:
  "items ts t v = Ret xs \<Longrightarrow> length (rlps xs) < W64 \<Longrightarrow> \<exists>w'. write_val ts t v w = Ret w' \<and> written w (rlps xs) w'"
  "items_elems t vs = Ret xs \<Longrightarrow> length (rlps xs) < W64 \<Longrightarrow> \<exists>w'. write_elems t vs w = Ret w' \<and> written w (rlps xs) w'"
  "items_fields fs vs = Ret xs \<Longrightarrow> length (rlps xs) < W64 \<Longrightarrow> \<exists>w'. write_fields fs vs w = Ret w' \<and> written w (rlps xs) w'"
proof (induction ts t v and t vs and fs vs arbitrary: xs w and xs w and xs w rule: items_items_elems_items_fields.induct)
  case (1 ts t b)
  then show ?case
    by (auto simp: items_bytes_def writeBytes_def encodeString_Write rlp_str_def split: gotype.splits if_splits)
next
  case (2 ts t i)
  have "rlp_str [] = [0x80]" by (simp add: rlp_str_def rlp_head_def)
  with 2 show ?case by (auto simp: writeBigInt_def big_Bytes_def encodeString_Write length_rlp_str split: if_splits)
next
  case (3 ts t)
  then show ?case using writeNilPtr_written by (auto split: gotype.splits)
next
  case (4 ts t v)
  then show ?case by (auto split: gotype.splits)
next
  case (5 ts t i)
  then show ?case by (auto simp: writeUint_Write split: if_splits)
next
  case (6 ts t b)
  then show ?case by (auto simp: writeBool_def rlp_str_def rlp_head_def split: if_splits)
next
  case (7 ts t vs)
  then show ?case by (auto split: gotype.splits if_splits intro: in_list_items)
next
  case (8 ts t vs)
  then show ?case by (auto split: gotype.splits if_splits intro: in_list_items)
next
  case (9 ts t)
  then show ?case by (auto simp: rlp_list_def rlp_head_def split: if_splits)
next
  case (10 ts t e v)
  then show ?case by (auto split: if_splits option.splits)
next
  case (11 t)
  then show ?case by simp
next
  case (12 t v vs)
  then show ?case by (auto intro: items_obind)
next
  case (13 fs)
  then show ?case by (auto split: if_splits)
next
  case (14 fs v vs)
  then show ?case by (auto split: list.splits intro: items_obind)
qed

section \<open>Interleaving data and headers\<close>

lemma length_list_head: "n < W64 \<Longrightarrow> length (list_head n) \<le> 9"
  using length_be_bytes_W64 by (simp add: list_head_def rlp_head_def)

lemma put_list_head_written:
  assumes "lh_size h < W64" and "pos + length (list_head (lh_size h)) \<le> length out"
  shows "put_list_head out pos h = Ret (copy_at out pos (list_head (lh_size h)), length (list_head (lh_size h)))"
  using assms by (simp add: put_list_head_def slice_laws list_head_def puthead_head copy_at_def add.commute)

text \<open>
  The state of the loop: \<open>pend\<close> is the data between the last header written and the next one.
\<close>

lemma toBytes_loop_render:
  assumes "small_heads ps" and "length out = pos + length pend + length (render ps)"
  shows "toBytes_loop (pre @ pend @ data_of ps) (heads_of (length pre + length pend) ps) out pos (length pre) =
    Ret (take pos out @ pend @ render ps)"
  using assms
proof (induction ps arbitrary: pre pend out pos rule: render.induct)
  case 1
  then show ?case by (simp add: slice_laws copy_at_def)
next
  case (2 b ps)
  then show ?case using "2.IH" [of out pos "pend @ b" pre] by (simp add: add.assoc)
next
  case (3 n ps)
  let ?out = "copy_at (copy_at out pos pend) (pos + length pend) (list_head n)"
  have seg: "go_slice (pre @ pend @ data_of ps) (length pre) (length pre + length pend) = Ret pend"
    by (simp add: slice_laws)
  have m: "min (length out - pos) (length pend) = length pend" using 3 by simp
  have h: "put_list_head (copy_at out pos pend) (pos + length pend) \<lparr>offset = length pre + length pend, lh_size = n\<rparr> =
      Ret (?out, length (list_head n))"
    using 3 by (subst put_list_head_written) simp_all
  have out: "take (pos + length pend + length (list_head n)) ?out = take pos out @ pend @ list_head n"
    using "3.prems" by (simp add: copy_at_def)
  show ?case
    using "3.IH" [of ?out "pos + length pend + length (list_head n)" "[]" "pre @ pend"] "3.prems" out
    by (simp add: seg m h Let_def)
qed

lemma toBytes_written:
  assumes "written enc_reset e w"
  shows "toBytes w = Ret e"
proof -
  from assms obtain ps where ps: "str w = data_of ps" "lheads w = heads_of 0 ps" "lhsize w = heads_size ps" "render ps = e" "small_heads ps"
    by (auto simp: written_def enc_reset_def)
  then show ?thesis
    using toBytes_loop_render [of ps "replicate (enc_size w) 0" 0 "[]" "[]"]
    by (auto simp: toBytes_def enc_size_def length_render)
qed

lemma toWriter_loop_render:
  assumes "small_heads ps"
  shows "toWriter_loop (pre @ pend @ data_of ps) (heads_of (length pre + length pend) ps) (length pre) out =
    Ret (out @ pend @ render ps)"
  using assms
proof (induction ps arbitrary: pre pend out rule: render.induct)
  case 1
  then show ?case by (simp add: slice_laws)
next
  case (2 b ps)
  then show ?case using "2.IH" [of pre "pend @ b" out] by (simp add: add.assoc)
next
  case (3 n ps)
  have seg: "(if length pre < length pre + length pend then go_slice (pre @ pend @ data_of ps) (length pre) (length pre + length pend) else Ret []) = Ret pend"
    by (cases pend) (simp_all add: slice_laws)
  have h: "puthead (replicate 9 0) 0xC0 0xF7 n = Ret (copy_at (replicate 9 0) 0 (list_head n), length (list_head n))"
    using 3 length_list_head [of n] by (simp add: puthead_head list_head_def)
  have t: "take (length (list_head n)) (copy_at (replicate 9 0) 0 (list_head n)) = list_head n"
    using length_list_head [of n] "3.prems" by (simp add: copy_at_def)
  show ?case using "3.IH" [of "pre @ pend" "[]" "out @ pend @ list_head n"] "3.prems"
    by (simp only: heads_of.simps toWriter_loop.simps data_of.simps listhead.simps seg obind.simps h prod.case t) simp
qed

lemma toWriter_written: "written enc_reset e w \<Longrightarrow> toWriter w = Ret e"
  using toWriter_loop_render [of _ "[]" "[]" "[]"]
  by (auto simp: written_def enc_reset_def toWriter_def)

lemma encode_written:
  assumes "writerErr t = None" and "items no_tags t v = Ret xs" and "length (rlps xs) < W64"
  shows "\<exists>w. encbuf_encode t v enc_reset = Ret w \<and> written enc_reset (rlps xs) w"
  using assms write_written(1) [of no_tags t v xs enc_reset] by (simp add: encbuf_encode_def)

text \<open>
  C29: the encoder, which collects string data and list headers apart and interleaves them at the
  end, computes the recursive definition of RLP: the bytes of a value are those of its tree of
  items. Writing to a hash or a buffer gives the same bytes, and no index is out of range.
\<close>

theorem EncodeToBytes_is_rlp:
  assumes "writerErr t = None" and "items no_tags t v = Ret xs" and "length (rlps xs) < W64"
  shows "EncodeToBytes t v = Ret (rlps xs) \<and> Encode_to_writer t v = Ret (rlps xs)"
  using encode_written [OF assms] toBytes_written toWriter_written
  by (auto simp: EncodeToBytes_def Encode_to_writer_def)

theorem EncodeToBytes_is_rlp_witness:
  "EncodeToBytes (TStruct ''T'' [(''A'', no_tags, TUint 64), (''B'', no_tags, TSlice (TPtr TBigInt)), (''C'', no_tags, TString)])
     (VStruct [VUint 1024, VList [VPtr (Some (VBig 5)), VPtr None], VBytes [0x64, 0x6f, 0x67]]) =
   Ret [0xCA, 0x82, 4, 0, 0xC2, 5, 0x80, 0x83, 0x64, 0x6f, 0x67]"
proof -
  let ?t = "TStruct ''T'' [(''A'', no_tags, TUint 64), (''B'', no_tags, TSlice (TPtr TBigInt)), (''C'', no_tags, TString)]"
  let ?v = "VStruct [VUint 1024, VList [VPtr (Some (VBig 5)), VPtr None], VBytes [0x64, 0x6f, 0x67]]"
  let ?xs = "[Items [Str [4, 0], Items [Str [5], Str []], Str [0x64, 0x6f, 0x67]]]"
  have "items no_tags ?t ?v = Ret ?xs"
    by (simp add: isUint_def isByte_def W64_def no_tags_def nil_item_def items_bytes_def be_bytes_step)
  moreover have "rlps ?xs = [0xCA, 0x82, 4, 0, 0xC2, 5, 0x80, 0x83, 0x64, 0x6f, 0x67]"
    by (simp add: rlp_list_def rlp_str_def rlp_head_def word_le_nat_alt)
  ultimately show ?thesis
    using EncodeToBytes_is_rlp [of ?t ?v ?xs] by (simp add: W64_def)
qed

section \<open>Splitting encodings (raw.go)\<close>

text \<open>The places that a decoding error passes through on its way out.\<close>

datatype err_ctx = InField string | InIndex nat | InRoot gotype

datatype rlp_error =
    ErrEOL
  | ErrExpectedString
  | ErrExpectedList
  | ErrCanonInt
  | ErrCanonSize
  | ErrElemTooLarge
  | ErrValueTooLarge
  | ErrMoreThanOneValue
  | errNotInList
  | errNotAtEOL
  | errUintOverflow
  | EOF
  | ErrUnexpectedEOF
  | InvalidBool nat
  | DecodeError string gotype "err_ctx list"
  | TypeErr rlp_type_error
  | NonTerminating

definition ListSize :: "nat \<Rightarrow> nat" where
  "ListSize contentSize = u64_add (headsize contentSize) contentSize"

text \<open>The eight cases of \<open>readSize\<close> read as many bytes in big-endian order; for other counts \<open>s\<close> is 0.\<close>

definition readSize :: "bytes \<Rightarrow> nat \<Rightarrow> (rlp_error, nat) outcome" where
  "readSize b slen =
     (if slen > length b then Err ErrUnexpectedEOF
      else
        let s = (if 1 \<le> slen \<and> slen \<le> 8 then be_val (take slen b) else 0) in
        if s < 56 then Err ErrCanonSize
        else (case b of [] \<Rightarrow> Panic | b0 # _ \<Rightarrow> if b0 = 0 then Err ErrCanonSize else Ret s))"

definition readKind_buf :: "bytes \<Rightarrow> (rlp_error, kind \<times> nat \<times> nat) outcome" where
  "readKind_buf buf =
     (case buf of
        [] \<Rightarrow> Err ErrUnexpectedEOF
      | b # buf1 \<Rightarrow>
          obind
            (if b < 0x80 then Ret (Byte, 0, 1)
             else if b < 0xB8 then
               let contentsize = unat (b - 0x80) in
               if contentsize = 1 \<and> length buf > 1 \<and> hd buf1 < 128 then Err ErrCanonSize else Ret (String, 1, contentsize)
             else if b < 0xC0 then
               obind (readSize buf1 (unat (b - 0xB7))) (\<lambda>s. Ret (String, unat (b - 0xB7) + 1, s))
             else if b < 0xF8 then Ret (List, 1, unat (b - 0xC0))
             else obind (readSize buf1 (unat (b - 0xF7))) (\<lambda>s. Ret (List, unat (b - 0xF7) + 1, s)))
            (\<lambda>(k, tagsize, contentsize).
              if contentsize > length buf - tagsize then Err ErrValueTooLarge else Ret (k, tagsize, contentsize)))"

text \<open>The tag and the content lie within \<open>b\<close>: neither \<open>len(buf)-tagsize\<close> nor \<open>ts+cs\<close> wraps.\<close>

definition Split :: "bytes \<Rightarrow> (rlp_error, kind \<times> bytes \<times> bytes) outcome" where
  "Split b =
     obind (readKind_buf b) (\<lambda>(k, ts, cs).
     obind (go_slice b ts (ts + cs)) (\<lambda>content.
     obind (go_slice b (ts + cs) (length b)) (\<lambda>rest. Ret (k, content, rest))))"

definition SplitString :: "bytes \<Rightarrow> (rlp_error, bytes \<times> bytes) outcome" where
  "SplitString b =
     obind (Split b) (\<lambda>(k, content, rest). if k = List then Err ErrExpectedString else Ret (content, rest))"

definition SplitList :: "bytes \<Rightarrow> (rlp_error, bytes \<times> bytes) outcome" where
  "SplitList b =
     obind (Split b) (\<lambda>(k, content, rest). if k \<noteq> List then Err ErrExpectedList else Ret (content, rest))"

lemma readSize_be_bytes:
  assumes "56 \<le> n" and "n < W64"
  shows "readSize (be_bytes n @ x) (length (be_bytes n)) = Ret n"
proof -
  have pos: "0 < n" using assms by simp
  then obtain b0 bs where b: "be_bytes n = b0 # bs" by (cases "be_bytes n") auto
  with hd_be_bytes [OF pos] have "b0 \<noteq> 0" by simp
  moreover have "be_val (b0 # bs) = n" using be_val_be_bytes [of n] b by simp
  ultimately show ?thesis using length_be_bytes_W64 [OF assms(2)] assms(1) b by (simp add: readSize_def)
qed

lemma readSize_Ret:
  assumes "readSize b l = Ret n"
  shows "be_bytes n = take l b \<and> length (be_bytes n) = l \<and> 56 \<le> n \<and> n < W64 \<and> 1 \<le> l \<and> l \<le> 8"
proof -
  let ?s = "if 1 \<le> l \<and> l \<le> 8 then be_val (take l b) else 0"
  obtain b0 bs where b: "b = b0 # bs" using assms by (auto simp: readSize_def Let_def split: if_splits list.splits)
  have n: "n = ?s" "56 \<le> n" "b0 \<noteq> 0" "l \<le> length b" using assms b by (auto simp: readSize_def Let_def split: if_splits)
  then have l: "1 \<le> l" "l \<le> 8" and n': "n = be_val (take l b)" by (auto split: if_splits)
  have "be_bytes n = take l b" using n(3) b l(1) unfolding n' by (intro be_bytes_be_val) (cases l, auto)
  moreover have "be_val (take l b) < 256 ^ 8"
    using be_val_less [of "take l b"] l(2) n(4) power_increasing [of l 8 "256::nat"] by simp
  ultimately show ?thesis using n l n' by (simp add: W64_power)
qed

text \<open>The kinds of a content, and the encoding of a content of each kind.\<close>

definition kind_ok :: "kind \<Rightarrow> bytes \<Rightarrow> bool" where
  "kind_ok k c \<longleftrightarrow> k = List \<or> (k = Byte \<longleftrightarrow> length c = 1 \<and> hd c < 128)"

definition kind_enc :: "kind \<Rightarrow> bytes \<Rightarrow> bytes" where
  "kind_enc k c = (if k = List then rlp_list c else rlp_str c)"

lemma byte_le_7F: "((b::byte) \<le> 0x7F) = (b < 128)"
  by (auto simp: word_le_nat_alt word_less_nat_alt)

lemma unat_add_tag: "unat t + n < 256 \<Longrightarrow> unat ((t::byte) + of_nat n) = unat t + n"
  by (simp add: unat_word_ariths)

lemma unat_sub_tag: "t \<le> (b::byte) \<Longrightarrow> unat (b - t) = unat b - unat t"
  by (rule unat_sub)

lemma tag_sub_add: "t \<le> (b::byte) \<Longrightarrow> n = unat (b - t) \<Longrightarrow> t + of_nat n = b"
  by (simp add: word_unat_eq_iff unat_word_ariths unat_sub_tag word_le_nat_alt)

text \<open>The two forms of a header, as the readers take them apart.\<close>

lemma rlp_head_short: "n < 56 \<Longrightarrow> rlp_head a b n = [a + of_nat n]"
  by (simp add: rlp_head_def)

lemma rlp_head_long: "\<not> n < 56 \<Longrightarrow> rlp_head a b n = (b + of_nat (length (be_bytes n))) # be_bytes n"
  by (simp add: rlp_head_def)

lemma unat_short_tags:
  "n < 56 \<Longrightarrow> unat (0x80 + of_nat n :: byte) = 128 + n"
  "n < 56 \<Longrightarrow> unat (0xC0 + of_nat n :: byte) = 192 + n"
  by (simp_all add: unat_add_tag)

lemma unat_long_tags:
  "n < W64 \<Longrightarrow> unat (0xB7 + of_nat (length (be_bytes n)) :: byte) = 183 + length (be_bytes n)"
  "n < W64 \<Longrightarrow> unat (0xF7 + of_nat (length (be_bytes n)) :: byte) = 247 + length (be_bytes n)"
  using length_be_bytes_W64 [of n] by (simp_all add: unat_add_tag)

lemma length_be_bytes_pos: "\<not> n < 56 \<Longrightarrow> 0 < length (be_bytes n)"
  by simp

lemmas tag_arith = word_less_nat_alt word_le_nat_alt unat_short_tags unat_long_tags unat_sub_tag

lemma short_head_tags:
  assumes "n < 56"
  shows "\<exists>t. rlp_head 0x80 b n = [t] \<and> unat t = 128 + n \<and> unat (t - 0x80) = n"
    and "\<exists>t. rlp_head 0xC0 b n = [t] \<and> unat t = 192 + n \<and> unat (t - 0xC0) = n"
  using assms by (simp_all add: rlp_head_short tag_arith del: add_diff_cancel_left')

lemma long_head_tags:
  assumes "\<not> n < 56" and "n < W64"
  shows "\<exists>t. rlp_head a 0xB7 n = t # be_bytes n \<and> unat t = 183 + length (be_bytes n) \<and> unat (t - 0xB7) = length (be_bytes n)"
    and "\<exists>t. rlp_head a 0xF7 n = t # be_bytes n \<and> unat t = 247 + length (be_bytes n) \<and> unat (t - 0xF7) = length (be_bytes n)"
  using assms length_be_bytes_W64 [OF assms(2)] by (simp_all add: rlp_head_long tag_arith del: add_diff_cancel_left')

lemma readKind_buf_head:
  assumes "kind_ok k c" and "length c < W64"
  shows "readKind_buf (kind_enc k c @ r) =
    (if k = Byte then Ret (Byte, 0, 1) else Ret (k, length (rlp_head 0 0 (length c)), length c))"
proof (cases k)
  case Byte
  with assms(1) obtain x where "c = [x]" "x < 128" by (auto simp: kind_ok_def length_Suc_conv)
  with Byte show ?thesis by (simp add: kind_enc_def rlp_str_def readKind_buf_def byte_le_7F)
next
  case String
  then have e: "kind_enc k c = rlp_head 0x80 0xB7 (length c) @ c" and ns: "\<not> (length c = 1 \<and> hd c < 128)"
    using assms(1) by (auto simp: kind_enc_def rlp_str_def kind_ok_def byte_le_7F)
  show ?thesis
  proof (cases "length c < 56")
    case True
    from short_head_tags(1) [OF this] obtain t where
      t: "rlp_head 0x80 0xB7 (length c) = [t]" "unat t = 128 + length c" "unat (t - 0x80) = length c" by metis
    have "length c = 1 \<Longrightarrow> \<not> hd (c @ r) < 128" using ns by (cases c) auto
    with String True t show ?thesis unfolding e
      by (auto simp: readKind_buf_def rlp_head_short word_less_nat_alt Let_def)
  next
    case False
    from long_head_tags(1) [OF this assms(2)] obtain t where
      t: "rlp_head 0x80 0xB7 (length c) = t # be_bytes (length c)" "unat t = 183 + length (be_bytes (length c))"
        "unat (t - 0xB7) = length (be_bytes (length c))" by metis
    show ?thesis using t False assms(2) String readSize_be_bytes [of "length c" "c @ r"] length_be_bytes_W64 [of "length c"] length_be_bytes_pos [OF False]
      unfolding e by (simp add: readKind_buf_def rlp_head_long word_less_nat_alt)
  qed
next
  case List
  then have e: "kind_enc k c = rlp_head 0xC0 0xF7 (length c) @ c" by (simp add: kind_enc_def rlp_list_def)
  show ?thesis
  proof (cases "length c < 56")
    case True
    from short_head_tags(2) [OF this] obtain t where
      t: "rlp_head 0xC0 0xF7 (length c) = [t]" "unat t = 192 + length c" "unat (t - 0xC0) = length c" by metis
    with List True show ?thesis unfolding e by (simp add: readKind_buf_def rlp_head_short word_less_nat_alt)
  next
    case False
    from long_head_tags(2) [OF this assms(2)] obtain t where
      t: "rlp_head 0xC0 0xF7 (length c) = t # be_bytes (length c)" "unat t = 247 + length (be_bytes (length c))"
        "unat (t - 0xF7) = length (be_bytes (length c))" by metis
    show ?thesis using t False assms(2) List readSize_be_bytes [of "length c" "c @ r"] length_be_bytes_W64 [of "length c"] length_be_bytes_pos [OF False]
      unfolding e by (simp add: readKind_buf_def rlp_head_long word_less_nat_alt)
  qed
qed

lemma Split_enc:
  assumes "kind_ok k c" and "length c < W64"
  shows "Split (kind_enc k c @ r) = Ret (k, c, r)"
proof -
  have "kind_enc k c = (if k = Byte then c else rlp_head 0x80 0xB7 (length c) @ c)" if "k \<noteq> List"
    using that assms(1) by (cases k) (auto simp: kind_enc_def rlp_str_def kind_ok_def byte_le_7F)
  moreover have "length (rlp_head a b n) = length (rlp_head 0 0 n)" for a b n by (simp add: rlp_head_def)
  ultimately have "\<exists>h. kind_enc k c = h @ c \<and> length h = (if k = Byte then 0 else length (rlp_head 0 0 (length c)))"
    by (cases k) (auto simp: kind_enc_def rlp_list_def)
  then obtain h where h: "kind_enc k c = h @ c" "length h = (if k = Byte then 0 else length (rlp_head 0 0 (length c)))" by blast
  have "k = Byte \<Longrightarrow> length c = 1" using assms(1) by (simp add: kind_ok_def)
  with h readKind_buf_head [OF assms, of r] show ?thesis
    by (auto simp: Split_def slice_laws)
qed

lemma readKind_buf_Ret:
  assumes "readKind_buf b = Ret (k, ts, cs)"
  shows "ts + cs \<le> length b \<and> kind_ok k (take cs (drop ts b)) \<and> take (ts + cs) b = kind_enc k (take cs (drop ts b)) \<and> 0 < ts + cs"
proof (cases b)
  case (Cons x xs)
  have bounds: "cs \<le> length b - ts" using assms by (auto simp: readKind_buf_def outcome_simps split: list.splits if_splits)
  consider (byte) "x < 0x80" | (str) "\<not> x < 0x80" "x < 0xB8" | (lstr) "\<not> x < 0xB8" "x < 0xC0" | (lst) "\<not> x < 0xC0" "x < 0xF8" | (llst) "\<not> x < 0xF8"
    by argo
  then show ?thesis
  proof cases
    case byte
    then have "k = Byte" "ts = 0" "cs = 1" using assms Cons by (auto simp: readKind_buf_def outcome_simps split: if_splits)
    with byte Cons show ?thesis by (simp add: kind_ok_def kind_enc_def rlp_str_def byte_le_7F)
  next
    case str
    then have k: "k = String" "ts = 1" "cs = unat (x - 0x80)" and nb: "\<not> (cs = 1 \<and> length b > 1 \<and> hd xs < 128)"
      using assms Cons by (auto simp: readKind_buf_def outcome_simps Let_def split: if_splits)
    have "cs < 56" using str k(3) by (simp add: tag_arith)
    moreover have "0x80 + of_nat cs = x" using str k(3) by (intro tag_sub_add) auto
    moreover have "\<not> (length (take cs xs) = 1 \<and> hd (take cs xs) < 128)" using nb bounds Cons k(2) by (cases xs) auto
    ultimately show ?thesis using Cons k bounds
      by (simp add: kind_ok_def kind_enc_def rlp_str_def rlp_head_short byte_le_7F)
  next
    case lstr
    let ?l = "unat (x - 0xB7)"
    have k: "k = String" "ts = ?l + 1" and rs: "readSize xs ?l = Ret cs"
      using assms Cons lstr by (auto simp: readKind_buf_def outcome_simps Let_def word_less_nat_alt split: if_splits)
    from readSize_Ret [OF rs] have n: "be_bytes cs = take ?l xs" "length (be_bytes cs) = ?l" "56 \<le> cs" by auto
    moreover have "0xB7 + of_nat ?l = x" using lstr by (intro tag_sub_add) (auto simp: word_less_nat_alt word_le_nat_alt)
    ultimately show ?thesis using Cons k bounds
      by (simp add: kind_ok_def kind_enc_def rlp_str_def rlp_head_long take_add)
  next
    case lst
    then have k: "k = List" "ts = 1" "cs = unat (x - 0xC0)"
      using assms Cons by (auto simp: readKind_buf_def outcome_simps Let_def word_less_nat_alt split: if_splits)
    have "cs < 56" using lst k(3) by (simp add: tag_arith)
    moreover have "0xC0 + of_nat cs = x" using lst k(3) by (intro tag_sub_add) auto
    ultimately show ?thesis using Cons k bounds by (simp add: kind_ok_def kind_enc_def rlp_list_def rlp_head_short)
  next
    case llst
    let ?l = "unat (x - 0xF7)"
    have k: "k = List" "ts = ?l + 1" and rs: "readSize xs ?l = Ret cs"
      using assms Cons llst by (auto simp: readKind_buf_def outcome_simps Let_def word_less_nat_alt split: if_splits)
    from readSize_Ret [OF rs] have n: "be_bytes cs = take ?l xs" "length (be_bytes cs) = ?l" "56 \<le> cs" by auto
    moreover have "0xF7 + of_nat ?l = x" using llst by (intro tag_sub_add) (auto simp: word_less_nat_alt word_le_nat_alt)
    ultimately show ?thesis using Cons k bounds by (simp add: kind_ok_def kind_enc_def rlp_list_def rlp_head_long take_add)
  qed
qed (use assms in \<open>simp add: readKind_buf_def\<close>)

text \<open>
  \<open>Split\<close> accepts exactly the data that begins with the canonical encoding of a content, and
  returns that content and what follows it: a content and a kind have one encoding only.
\<close>

theorem Split_iff:
  assumes "length c < W64"
  shows "Split b = Ret (k, c, r) \<longleftrightarrow> kind_ok k c \<and> b = kind_enc k c @ r"
proof
  assume "Split b = Ret (k, c, r)"
  then obtain ts cs where rk: "readKind_buf b = Ret (k, ts, cs)" and c: "c = take cs (drop ts b)" "r = drop (ts + cs) b"
    by (auto simp: Split_def outcome_simps go_slice_def split: if_splits)
  from readKind_buf_Ret [OF rk] c show "kind_ok k c \<and> b = kind_enc k c @ r" by (metis append_take_drop_id)
qed (auto simp: Split_enc assms)

theorem Split_iff_witness:
  "Split [0x83, 0x64, 0x6f, 0x67, 9] = Ret (String, [0x64, 0x6f, 0x67], [9]) \<longleftrightarrow>
     kind_ok String [0x64, 0x6f, 0x67] \<and> [0x83, 0x64, 0x6f, 0x67, 9] = kind_enc String [0x64, 0x6f, 0x67] @ [9]"
  by (rule Split_iff) (simp add: W64_def)

text \<open>The loop of \<open>CountValues\<close> ends: every value takes at least one byte.\<close>

function CountValues_loop :: "bytes \<Rightarrow> nat \<Rightarrow> (rlp_error, nat) outcome" where
  "CountValues_loop b i =
     (if b = [] then Ret i
      else case readKind_buf b of
        Ret (_, tagsize, sz) \<Rightarrow> CountValues_loop (drop (tagsize + sz) b) (i + 1)
      | Err e \<Rightarrow> Err e
      | Panic \<Rightarrow> Panic)"
  by auto
termination
  by (relation "measure (\<lambda>(b, i). length b)") (auto dest!: readKind_buf_Ret simp: neq_Nil_conv)

declare CountValues_loop.simps [simp del]

definition CountValues :: "bytes \<Rightarrow> (rlp_error, nat) outcome" where
  "CountValues b = CountValues_loop b 0"

fun single_enc :: "item \<Rightarrow> bool" where
  "single_enc (Verbatim b) = False"
| "single_enc x = (length (rlp x) < W64)"

lemma single_enc_kind: "single_enc x \<Longrightarrow> \<exists>k c. rlp x = kind_enc k c \<and> kind_ok k c \<and> length c < W64"
proof (cases x)
  case (Str b)
  moreover assume "single_enc x"
  ultimately show ?thesis
    using length_rlp_str [of b]
    by (intro exI [of _ "if length b = 1 \<and> hd b < 128 then Byte else String"] exI [of _ b]) (auto simp: kind_enc_def kind_ok_def)
next
  case (Items xs)
  moreover assume "single_enc x"
  ultimately show ?thesis
    using length_rlp_list [of "rlps xs"] by (intro exI [of _ List] exI [of _ "rlps xs"]) (auto simp: kind_enc_def kind_ok_def)
qed simp

lemma CountValues_loop_rlps: "(\<And>x. x \<in> set xs \<Longrightarrow> single_enc x) \<Longrightarrow> CountValues_loop (rlps xs) i = Ret (i + length xs)"
proof (induction xs arbitrary: i)
  case (Cons x xs)
  from Cons.prems [of x] single_enc_kind obtain k c where x: "rlp x = kind_enc k c" "kind_ok k c" "length c < W64" by fastforce
  from Split_enc [OF x(2,3), of "rlps xs"] obtain ts cs where
    rk: "readKind_buf (rlp x @ rlps xs) = Ret (k, ts, cs)" and d: "drop (ts + cs) (rlp x @ rlps xs) = rlps xs"
    by (auto simp: x Split_def outcome_simps go_slice_def split: if_splits)
  have "rlp x @ rlps xs \<noteq> []" using rk by (auto simp: readKind_buf_def)
  with rk d Cons show ?case by (subst CountValues_loop.simps) simp
qed (simp add: CountValues_loop.simps)

text \<open>\<open>CountValues\<close> counts the values that were encoded one after the other.\<close>

theorem CountValues_counts:
  assumes "\<And>x. x \<in> set xs \<Longrightarrow> single_enc x"
  shows "CountValues (rlps xs) = Ret (length xs)"
  using CountValues_loop_rlps [OF assms] by (simp add: CountValues_def)

end
