(* ===== verification/RlpStream.thy ===== *)
theory RlpStream
  imports Rlp
begin

text \<open>
  The RLP decoder (\<open>tools/rlp/decode.go\<close>): a stream over a byte reader with a stack of open lists,
  and the decoders of the Go types. A decoder fills a fresh variable of its type, so it returns the
  value. The loop over the elements of a slice runs until the stream reports the end of the list;
  its fuel bounds the number of rounds and \<open>NonTerminating\<close> is the outcome when it is used up. The
  auxiliary integer buffer is overwritten before it is read and is not kept. Types with their own
  \<open>DecodeRLP\<close> use the stream's methods and are not a \<open>gotype\<close>.
\<close>

section \<open>The stream\<close>

text \<open>\<open>s_kind\<close> is \<open>None\<close> for -1; the top of the stack is the head of the list.\<close>

record listpos =
  pos :: nat
  lp_size :: nat

record Stream =
  input :: bytes
  remaining :: nat
  limited :: bool
  s_kind :: "kind option"
  s_size :: nat
  byteval :: byte
  kinderr :: "rlp_error option"
  stack :: "listpos list"

type_synonym 'a streaming = "(Stream, rlp_error, 'a) stateful"

text \<open>\<open>Reset\<close> with a \<open>bytes.Reader\<close>: an input limit of 0 stands for the length of the data.\<close>

definition stream_Reset :: "bytes \<Rightarrow> nat \<Rightarrow> Stream" where
  "stream_Reset b inputLimit =
     \<lparr>input = b, remaining = (if inputLimit > 0 then inputLimit else length b), limited = True, s_kind = None, s_size = 0,
      byteval = 0, kinderr = None, stack = []\<rparr>"

definition NewListStream :: "bytes \<Rightarrow> nat \<Rightarrow> Stream" where
  "NewListStream b n = (stream_Reset b n)\<lparr>s_kind := Some List, s_size := n\<rparr>"

definition rearm :: "unit streaming" where
  "rearm = supd (\<lambda>s. s\<lparr>s_kind := None\<rparr>)"

definition willRead :: "nat \<Rightarrow> unit streaming" where
  "willRead n =
     sbind rearm (\<lambda>_.
     sbind (sget (\<lambda>s. case stack s of
         [] \<Rightarrow> sret ()
       | tos # below \<Rightarrow>
           sbind (sguard (\<not> n > u64_sub (lp_size tos) (pos tos)) ErrElemTooLarge) (\<lambda>_.
           supd (\<lambda>s. s\<lparr>stack := tos\<lparr>pos := u64_add (pos tos) n\<rparr> # below\<rparr>)))) (\<lambda>_.
     sget (\<lambda>s.
       if limited s then
         sbind (sguard (\<not> n > remaining s) ErrValueTooLarge) (\<lambda>_. supd (\<lambda>s. s\<lparr>remaining := remaining s - n\<rparr>))
       else sret ())))"

definition readByte :: "byte streaming" where
  "readByte =
     sbind (willRead 1) (\<lambda>_.
     sget (\<lambda>s. case input s of
         [] \<Rightarrow> slift (Err ErrUnexpectedEOF)
       | b # bs \<Rightarrow> sbind (supd (\<lambda>s. s\<lparr>input := bs\<rparr>)) (\<lambda>_. sret b)))"

text \<open>A short input is read to its end before the error is returned.\<close>

definition readFull :: "nat \<Rightarrow> bytes streaming" where
  "readFull n =
     sbind (willRead n) (\<lambda>_.
     sget (\<lambda>s.
       sbind (supd (\<lambda>s. s\<lparr>input := drop n (input s)\<rparr>)) (\<lambda>_.
       if length (input s) < n then slift (Err ErrUnexpectedEOF) else sret (take n (input s)))))"

definition readUint :: "nat \<Rightarrow> nat streaming" where
  "readUint sz =
     (if sz = 0 then sbind rearm (\<lambda>_. sret 0)
      else if sz = 1 then sbind readByte (\<lambda>b. sret (unat b))
      else if sz > 8 then slift Panic
      else sbind (readFull sz) (\<lambda>buf.
           sbind (sguard (hd buf \<noteq> 0) ErrCanonSize) (\<lambda>_. sret (be_val buf))))"

text \<open>\<open>readKind\<close> returns the kind and size together with the error.\<close>

definition readSize_kind :: "kind \<Rightarrow> nat \<Rightarrow> (kind \<times> nat \<times> rlp_error option) streaming" where
  "readSize_kind k l =
     sbind (stry (readUint l)) (\<lambda>r.
     case r of
       Inl err \<Rightarrow> sret (k, 0, Some err)
     | Inr sz \<Rightarrow> sret (k, sz, if sz < 56 then Some ErrCanonSize else None))"

definition readKind :: "(kind \<times> nat \<times> rlp_error option) streaming" where
  "readKind =
     sbind (stry readByte) (\<lambda>r.
     case r of
       Inl err \<Rightarrow>
         sget (\<lambda>s. sret (Byte, 0, Some (if stack s = [] \<and> (err = ErrUnexpectedEOF \<or> err = ErrValueTooLarge) then EOF else err)))
     | Inr b \<Rightarrow>
         sbind (supd (\<lambda>s. s\<lparr>byteval := 0\<rparr>)) (\<lambda>_.
         if b < 0x80 then sbind (supd (\<lambda>s. s\<lparr>byteval := b\<rparr>)) (\<lambda>_. sret (Byte, 0, None))
         else if b < 0xB8 then sret (String, unat (b - 0x80), None)
         else if b < 0xC0 then readSize_kind String (unat (b - 0xB7))
         else if b < 0xF8 then sret (List, unat (b - 0xC0), None)
         else readSize_kind List (unat (b - 0xF7))))"

definition stream_Kind :: "(kind \<times> nat) streaming" where
  "stream_Kind =
     sget (\<lambda>s.
     sbind
       (if s_kind s = None then
          sbind (supd (\<lambda>s. s\<lparr>kinderr := None\<rparr>)) (\<lambda>_.
          sbind (sguard (case stack s of [] \<Rightarrow> True | tos # _ \<Rightarrow> pos tos \<noteq> lp_size tos) ErrEOL) (\<lambda>_.
          sbind readKind (\<lambda>(k, n, err).
          sbind (supd (\<lambda>s. s\<lparr>s_kind := Some k, s_size := n, kinderr := err\<rparr>)) (\<lambda>_.
          if err \<noteq> None then sret ()
          else sget (\<lambda>s. case stack s of
              [] \<Rightarrow> if limited s \<and> s_size s > remaining s then supd (\<lambda>s. s\<lparr>kinderr := Some ErrValueTooLarge\<rparr>) else sret ()
            | tos # _ \<Rightarrow>
                if s_size s > u64_sub (lp_size tos) (pos tos) then supd (\<lambda>s. s\<lparr>kinderr := Some ErrElemTooLarge\<rparr>) else sret ())))))
        else sret ())
       (\<lambda>_. sget (\<lambda>s.
          case kinderr s of
            Some err \<Rightarrow> slift (Err err)
          | None \<Rightarrow> (case s_kind s of Some k \<Rightarrow> sret (k, s_size s) | None \<Rightarrow> slift Panic))))"

definition stream_Bytes :: "bytes streaming" where
  "stream_Bytes =
     sbind stream_Kind (\<lambda>(k, n).
     case k of
       Byte \<Rightarrow> sbind rearm (\<lambda>_. sget (\<lambda>s. sret [byteval s]))
     | String \<Rightarrow>
         sbind (readFull n) (\<lambda>b. sbind (sguard (\<not> (n = 1 \<and> hd b < 128)) ErrCanonSize) (\<lambda>_. sret b))
     | List \<Rightarrow> slift (Err ErrExpectedString))"

definition stream_Raw :: "bytes streaming" where
  "stream_Raw =
     sbind stream_Kind (\<lambda>(k, n).
     if k = Byte then sbind rearm (\<lambda>_. sget (\<lambda>s. sret [byteval s]))
     else
       sbind (readFull n) (\<lambda>content.
       sbind (slift (if k = String then puthead (replicate (headsize n) 0 @ content) 0x80 0xB7 n
                     else puthead (replicate (headsize n) 0 @ content) 0xC0 0xF7 n)) (\<lambda>(buf, _). sret buf)))"

definition stream_uint :: "nat \<Rightarrow> nat streaming" where
  "stream_uint maxbits =
     sbind stream_Kind (\<lambda>(k, n).
     case k of
       Byte \<Rightarrow>
         sget (\<lambda>s. sbind (sguard (byteval s \<noteq> 0) ErrCanonInt) (\<lambda>_. sbind rearm (\<lambda>_. sret (unat (byteval s)))))
     | String \<Rightarrow>
         sbind (sguard (\<not> n > maxbits div 8) errUintOverflow) (\<lambda>_.
         sbind (stry (readUint n)) (\<lambda>r.
         case r of
           Inl err \<Rightarrow> slift (Err (if err = ErrCanonSize then ErrCanonInt else err))
         | Inr v \<Rightarrow> sbind (sguard (\<not> (n > 0 \<and> v < 128)) ErrCanonSize) (\<lambda>_. sret v)))
     | List \<Rightarrow> slift (Err ErrExpectedString))"

definition stream_Bool :: "bool streaming" where
  "stream_Bool =
     sbind (stream_uint 8) (\<lambda>num.
     if num = 0 then sret False else if num = 1 then sret True else slift (Err (InvalidBool num)))"

definition stream_List :: "nat streaming" where
  "stream_List =
     sbind stream_Kind (\<lambda>(k, n).
     sbind (sguard (k = List) ErrExpectedList) (\<lambda>_.
     sbind (supd (\<lambda>s. s\<lparr>stack := \<lparr>pos = 0, lp_size = n\<rparr> # stack s, s_kind := None, s_size := 0\<rparr>)) (\<lambda>_. sret n)))"

definition stream_ListEnd :: "unit streaming" where
  "stream_ListEnd =
     sget (\<lambda>s. case stack s of
         [] \<Rightarrow> slift (Err errNotInList)
       | tos # below \<Rightarrow>
           sbind (sguard (pos tos = lp_size tos) errNotAtEOL) (\<lambda>_.
           supd (\<lambda>s. s\<lparr>stack := (case below of [] \<Rightarrow> [] | p # ps \<Rightarrow> p\<lparr>pos := u64_add (pos p) (lp_size tos)\<rparr> # ps),
                      s_kind := None, s_size := 0\<rparr>)))"

section \<open>Decoders by type\<close>

definition wrapStreamError :: "rlp_error \<Rightarrow> gotype \<Rightarrow> rlp_error" where
  "wrapStreamError err typ =
     (case err of
        ErrCanonInt \<Rightarrow> DecodeError ''non-canonical integer (leading zero bytes)'' typ []
      | ErrCanonSize \<Rightarrow> DecodeError ''non-canonical size information'' typ []
      | ErrExpectedList \<Rightarrow> DecodeError ''expected input list'' typ []
      | ErrExpectedString \<Rightarrow> DecodeError ''expected input string or byte'' typ []
      | errUintOverflow \<Rightarrow> DecodeError ''input string too long'' typ []
      | errNotAtEOL \<Rightarrow> DecodeError ''input list has too many elements'' typ []
      | _ \<Rightarrow> err)"

definition addErrorContext :: "rlp_error \<Rightarrow> err_ctx \<Rightarrow> rlp_error" where
  "addErrorContext err c = (case err of DecodeError msg typ ctx \<Rightarrow> DecodeError msg typ (ctx @ [c]) | _ \<Rightarrow> err)"

definition wrapping :: "gotype \<Rightarrow> 'a streaming \<Rightarrow> 'a streaming" where
  "wrapping typ m =
     sbind (stry m) (\<lambda>r. case r of Inl err \<Rightarrow> slift (Err (wrapStreamError err typ)) | Inr v \<Rightarrow> sret v)"

text \<open>Also for a variable that is not a pointer: the decoder gets its address.\<close>

definition decodeBigInt :: "int streaming" where
  "decodeBigInt = (let typ = TPtr TBigInt in
     sbind (wrapping typ stream_Bytes) (\<lambda>b.
     sbind (sguard (\<not> (length b > 0 \<and> hd b = 0)) (wrapStreamError ErrCanonInt typ)) (\<lambda>_.
     sret (big_SetBytes b))))"

definition decodeByteArray :: "gotype \<Rightarrow> nat \<Rightarrow> bytes streaming" where
  "decodeByteArray typ vlen =
     sbind stream_Kind (\<lambda>(k, n).
     case k of
       Byte \<Rightarrow>
         if vlen = 0 then slift (Err (DecodeError ''input string too long'' typ []))
         else if vlen > 1 then slift (Err (DecodeError ''input string too short'' typ []))
         else sbind (stry (stream_uint 64)) (\<lambda>r. sret [case r of Inl _ \<Rightarrow> 0 | Inr bv \<Rightarrow> of_nat bv])
     | String \<Rightarrow>
         if vlen < n then slift (Err (DecodeError ''input string too long'' typ []))
         else if vlen > n then slift (Err (DecodeError ''input string too short'' typ []))
         else sbind (readFull vlen) (\<lambda>b.
              sbind (sguard (\<not> (n = 1 \<and> hd b < 128)) (wrapStreamError ErrCanonSize typ)) (\<lambda>_. sret b))
     | List \<Rightarrow> slift (Err (wrapStreamError ErrExpectedString typ)))"

fun decodeSliceElems :: "nat \<Rightarrow> goval streaming \<Rightarrow> nat \<Rightarrow> goval list streaming" where
  "decodeSliceElems 0 elemdec i = slift (Err NonTerminating)"
| "decodeSliceElems (Suc fuel) elemdec i =
     sbind (stry elemdec) (\<lambda>r.
     case r of
       Inl err \<Rightarrow> if err = ErrEOL then sret [] else slift (Err (addErrorContext err (InIndex i)))
     | Inr v \<Rightarrow> sbind (decodeSliceElems fuel elemdec (i + 1)) (\<lambda>vs. sret (v # vs)))"

definition decodeListSlice :: "nat \<Rightarrow> gotype \<Rightarrow> goval streaming \<Rightarrow> goval list streaming" where
  "decodeListSlice fuel typ elemdec =
     sbind (wrapping typ stream_List) (\<lambda>n.
     if n = 0 then sbind stream_ListEnd (\<lambda>_. sret [])
     else sbind (decodeSliceElems fuel elemdec 0) (\<lambda>vs. sbind stream_ListEnd (\<lambda>_. sret vs)))"

fun array_elems :: "nat \<Rightarrow> gotype \<Rightarrow> goval streaming \<Rightarrow> nat \<Rightarrow> goval list streaming" where
  "array_elems 0 typ elemdec i = sret []"
| "array_elems (Suc left) typ elemdec i =
     sbind (stry elemdec) (\<lambda>r.
     case r of
       Inl err \<Rightarrow>
         if err = ErrEOL then slift (Err (DecodeError ''input list has too few elements'' typ []))
         else slift (Err (addErrorContext err (InIndex i)))
     | Inr v \<Rightarrow> sbind (array_elems left typ elemdec (i + 1)) (\<lambda>vs. sret (v # vs)))"

definition decodeListArray :: "nat \<Rightarrow> gotype \<Rightarrow> goval streaming \<Rightarrow> goval list streaming" where
  "decodeListArray vlen typ elemdec =
     sbind (wrapping typ stream_List) (\<lambda>_.
     sbind (array_elems vlen typ elemdec 0) (\<lambda>vs.
     sbind (wrapping typ stream_ListEnd) (\<lambda>_. sret vs)))"

fun struct_fields :: "gotype \<Rightarrow> (string \<times> goval streaming) list \<Rightarrow> goval list streaming" where
  "struct_fields typ [] = sret []"
| "struct_fields typ ((name, dec) # fs) =
     sbind (stry dec) (\<lambda>r.
     case r of
       Inl err \<Rightarrow>
         if err = ErrEOL then slift (Err (DecodeError ''too few elements'' typ []))
         else slift (Err (addErrorContext err (InField name)))
     | Inr v \<Rightarrow> sbind (struct_fields typ fs) (\<lambda>vs. sret (v # vs)))"

definition decodeStruct :: "gotype \<Rightarrow> (string \<times> goval streaming) list \<Rightarrow> goval list streaming" where
  "decodeStruct typ fs =
     sbind (wrapping typ stream_List) (\<lambda>_.
     sbind (struct_fields typ fs) (\<lambda>vs.
     sbind (wrapping typ stream_ListEnd) (\<lambda>_. sret vs)))"

definition kind_String :: "kind \<Rightarrow> string" where
  "kind_String k = (case k of Byte \<Rightarrow> ''Byte'' | String \<Rightarrow> ''String'' | List \<Rightarrow> ''List'')"

definition decodeNilPtr :: "gotype \<Rightarrow> kind \<Rightarrow> goval streaming \<Rightarrow> goval streaming" where
  "decodeNilPtr etype nk dec =
     sbind (wrapping (TPtr etype) stream_Kind) (\<lambda>(k, n).
     if k \<noteq> Byte \<and> n = 0 then
       if k \<noteq> nk then
         slift (Err (DecodeError
           (''wrong kind of empty value (got '' @ kind_String k @ '', want '' @ kind_String nk @ '')'') (TPtr etype) []))
       else sbind rearm (\<lambda>_. sret (VPtr None))
     else sbind dec (\<lambda>v. sret (VPtr (Some v))))"

definition decodeSimplePtr :: "goval streaming \<Rightarrow> goval streaming" where
  [simp]: "decodeSimplePtr dec = sbind dec (\<lambda>v. sret (VPtr (Some v)))"

definition decodePtr :: "tags \<Rightarrow> gotype \<Rightarrow> goval streaming \<Rightarrow> goval streaming" where
  [simp]: "decodePtr ts etype dec = (if \<not> nilOK ts then decodeSimplePtr dec else decodeNilPtr etype (nilKind ts) dec)"

fun decodeInterface :: "nat \<Rightarrow> goval streaming" where
  "decodeInterface 0 = slift (Err NonTerminating)"
| "decodeInterface (Suc fuel) =
     sbind stream_Kind (\<lambda>(k, _).
     if k = List then
       sbind (decodeListSlice (Suc fuel) (TSlice TInterface) (decodeInterface fuel)) (\<lambda>vs.
         sret (VInterface (Some (TSlice TInterface, VList vs))))
     else sbind stream_Bytes (\<lambda>b. sret (VInterface (Some (TSlice (TUint 8), VBytes b)))))"

fun decode_val :: "nat \<Rightarrow> tags \<Rightarrow> gotype \<Rightarrow> goval streaming" where
  "decode_val fuel ts TRawValue = sbind stream_Raw (\<lambda>b. sret (VBytes b))"
| "decode_val fuel ts TBigInt = sbind decodeBigInt (\<lambda>i. sret (VBig i))"
| "decode_val fuel ts (TPtr t) =
     (if t = TBigInt then sbind decodeBigInt (\<lambda>i. sret (VPtr (Some (VBig i))))
      else decodePtr ts t (decode_val fuel no_tags t))"
| "decode_val fuel ts (TUint bits) = sbind (wrapping (TUint bits) (stream_uint bits)) (\<lambda>i. sret (VUint i))"
| "decode_val fuel ts TBool = sbind (wrapping TBool stream_Bool) (\<lambda>b. sret (VBool b))"
| "decode_val fuel ts TString = sbind (wrapping TString stream_Bytes) (\<lambda>b. sret (VBytes b))"
| "decode_val fuel ts (TSlice t) =
     (if isByte t then sbind (wrapping (TSlice t) stream_Bytes) (\<lambda>b. sret (VBytes b))
      else if tail ts then sbind (decodeSliceElems fuel (decode_val fuel no_tags t) 0) (\<lambda>vs. sret (VList vs))
      else sbind (decodeListSlice fuel (TSlice t) (decode_val fuel no_tags t)) (\<lambda>vs. sret (VList vs)))"
| "decode_val fuel ts (TArray n t) =
     (if isByte t then sbind (decodeByteArray (TArray n t) n) (\<lambda>b. sret (VBytes b))
      else sbind (decodeListArray n (TArray n t) (decode_val fuel no_tags t)) (\<lambda>vs. sret (VList vs)))"
| "decode_val fuel ts (TStruct name fs) =
     sbind (decodeStruct (TStruct name fs) (map (\<lambda>(f, fts, t). (f, decode_val fuel fts t)) fs)) (\<lambda>vs. sret (VStruct vs))"
| "decode_val fuel ts TInterface = decodeInterface fuel"
| "decode_val fuel ts (TOther name) = slift Panic"

text \<open>\<open>Stream.Decode\<close>; the types without a decoder are those without a writer.\<close>

definition stream_Decode :: "nat \<Rightarrow> gotype \<Rightarrow> goval streaming" where
  "stream_Decode fuel t =
     (case writerErr t of
        Some err \<Rightarrow> slift (Err (TypeErr err))
      | None \<Rightarrow>
          sbind (stry (decode_val fuel no_tags t)) (\<lambda>r.
          case r of
            Inr v \<Rightarrow> sret v
          | Inl err \<Rightarrow>
              slift (Err (case err of DecodeError msg typ ctx \<Rightarrow> if ctx = [] then err else addErrorContext err (InRoot t) | _ \<Rightarrow> err))))"

definition DecodeBytes :: "nat \<Rightarrow> gotype \<Rightarrow> bytes \<Rightarrow> (rlp_error, goval) outcome" where
  "DecodeBytes fuel t b =
     (case stream_Decode fuel t (stream_Reset b (length b)) of
        (Ret v, s) \<Rightarrow> if length (input s) > 0 then Err ErrMoreThanOneValue else Ret v
      | (Err e, s) \<Rightarrow> Err e
      | (Panic, s) \<Rightarrow> Panic)"

section \<open>Reading forward\<close>

text \<open>
  The part of the state that decides what is read next, and the state after \<open>n\<close> bytes were read
  without an error.
\<close>

definition core :: "Stream \<Rightarrow> kind option \<times> bytes \<times> nat \<times> bool \<times> listpos list" where
  "core s = (s_kind s, input s, remaining s, limited s, stack s)"

fun advance :: "nat \<Rightarrow> listpos list \<Rightarrow> listpos list" where
  "advance n [] = []"
| "advance n (p # ps) = p\<lparr>pos := pos p + n\<rparr> # ps"

definition eat :: "nat \<Rightarrow> Stream \<Rightarrow> Stream" where
  "eat n s = s\<lparr>s_kind := None, input := drop n (input s), remaining := remaining s - n, stack := advance n (stack s)\<rparr>"

definition in_top :: "nat \<Rightarrow> listpos list \<Rightarrow> bool" where
  "in_top n st = (case st of [] \<Rightarrow> True | p # _ \<Rightarrow> pos p + n \<le> lp_size p \<and> lp_size p < W64)"

definition fits :: "nat \<Rightarrow> Stream \<Rightarrow> bool" where
  "fits n s \<longleftrightarrow> limited s \<and> n \<le> remaining s \<and> n \<le> length (input s) \<and> in_top n (stack s)"

lemma advance_add [simp]: "advance m (advance n st) = advance (n + m) st"
  by (cases st) (simp_all add: add.assoc)

lemma in_top_simps [simp]: "in_top n []" "in_top n (p # st) \<longleftrightarrow> pos p + n \<le> lp_size p \<and> lp_size p < W64"
  by (simp_all add: in_top_def)

lemma in_top_le: "in_top n st \<Longrightarrow> m \<le> n \<Longrightarrow> in_top m st"
  by (cases st) auto

lemma fits_le: "fits n s \<Longrightarrow> m \<le> n \<Longrightarrow> fits m s"
  by (auto simp: fits_def in_top_le)

lemma fits_eat: "fits (n + m) s \<Longrightarrow> fits m (eat n s)"
  by (cases "stack s") (auto simp: fits_def eat_def add.assoc)

lemma eat_eat [simp]: "eat m (eat n s) = eat (n + m) s"
  by (simp add: eat_def add.commute)

lemma eat_sel [simp]:
  "s_kind (eat n s) = None" "input (eat n s) = drop n (input s)" "remaining (eat n s) = remaining s - n"
  "limited (eat n s) = limited s" "stack (eat n s) = advance n (stack s)" "byteval (eat n s) = byteval s"
  by (simp_all add: eat_def)

lemma fits_core: "core s = core s' \<Longrightarrow> fits n s \<Longrightarrow> fits n s'"
  by (simp add: core_def fits_def)

lemma core_eat: "core s = core s' \<Longrightarrow> core (eat n s) = core (eat n s')"
  by (simp add: core_def)

lemmas stream_steps = sbind_def sret_def slift_def supd_def sget_def sguard_def stry_def

lemma willRead_fits:
  "fits n s \<Longrightarrow> willRead n s = (Ret (), s\<lparr>s_kind := None, stack := advance n (stack s), remaining := remaining s - n\<rparr>)"
  by (cases "stack s") (auto simp: willRead_def rearm_def stream_steps fits_def)

lemma readByte_fits: "fits (Suc 0) s \<Longrightarrow> readByte s = (Ret (hd (input s)), eat (Suc 0) s)"
  by (cases "input s") (auto simp: readByte_def sbind_def willRead_fits, auto simp: stream_steps fits_def eat_def)

lemma readFull_fits: "fits n s \<Longrightarrow> readFull n s = (Ret (take n (input s)), eat n s)"
  by (simp add: readFull_def sbind_def willRead_fits) (simp add: stream_steps fits_def eat_def)

lemma readUint_fits:
  assumes "fits (length b) s" and "take (length b) (input s) = b" and "b \<noteq> []" and "length b \<le> 8" and "hd b \<noteq> 0"
  shows "readUint (length b) s = (Ret (be_val b), eat (length b) s)"
proof (cases "length b = 1")
  case True
  then obtain x where b: "b = [x]" by (auto simp: length_Suc_conv)
  with assms(2) have "hd (input s) = x" by (cases "input s") auto
  with assms(1) b show ?thesis by (simp add: readUint_def sbind_def readByte_fits be_val_Cons sret_def)
next
  case False
  with assms show ?thesis by (simp add: readUint_def sbind_def readFull_fits) (simp add: stream_steps)
qed

lemma fits_pos: "fits (Suc n) s \<Longrightarrow> (case stack s of [] \<Rightarrow> True | tos # _ \<Rightarrow> pos tos \<noteq> lp_size tos)"
  by (cases "stack s") (auto simp: fits_def)

text \<open>The header of a value is consumed, its content is still to be read.\<close>

definition head_length :: "kind \<Rightarrow> bytes \<Rightarrow> nat" where
  "head_length k c = (if k = Byte then 1 else length (kind_enc k c) - length c)"

definition at_content :: "Stream \<Rightarrow> kind \<Rightarrow> bytes \<Rightarrow> Stream \<Rightarrow> bool" where
  "at_content s k c s1 \<longleftrightarrow>
     s_kind s1 = Some k \<and> s_size s1 = (if k = Byte then 0 else length c) \<and> kinderr s1 = None \<and>
     byteval s1 = (if k = Byte then hd c else 0) \<and> core (s1\<lparr>s_kind := None\<rparr>) = core (eat (head_length k c) s)"

definition before :: "bytes \<Rightarrow> Stream \<Rightarrow> bool" where
  "before e s \<longleftrightarrow> s_kind s = None \<and> fits (length e) s \<and> take (length e) (input s) = e"

lemma before_core: "core s = core s' \<Longrightarrow> before e s \<Longrightarrow> before e s'"
  by (simp add: before_def core_def fits_def)

lemma take_split: "take (length a + length b) xs = a @ b \<Longrightarrow> take (length a) xs = a \<and> take (length b) (drop (length a) xs) = b"
proof -
  assume "take (length a + length b) xs = a @ b"
  then obtain r where "xs = (a @ b) @ r" by (metis append_take_drop_id)
  then show ?thesis by simp
qed

lemma before_eat: "before (e @ e') s \<Longrightarrow> before e' (eat (length e) s)"
  unfolding before_def using take_split [of e e' "input s"] by (simp add: fits_eat)

lemma before_append: "before (e @ e') s \<Longrightarrow> before e s"
  unfolding before_def using take_split [of e e' "input s"] by (auto intro: fits_le)

lemma readByte_before: "before (b # e) s \<Longrightarrow> readByte s = (Ret b, eat (Suc 0) s)"
proof -
  assume "before (b # e) s"
  then have "fits (Suc 0) s" "hd (input s) = b" by (auto simp: before_def intro: fits_le, cases "input s", auto)
  then show ?thesis by (simp add: readByte_fits)
qed

lemma readSize_kind_before:
  assumes "before (be_bytes n) s" and "56 \<le> n" and "n < W64"
  shows "readSize_kind k (length (be_bytes n)) s = (Ret (k, n, None), eat (length (be_bytes n)) s)"
proof -
  have "readUint (length (be_bytes n)) s = (Ret n, eat (length (be_bytes n)) s)"
    using assms hd_be_bytes [of n] length_be_bytes_W64 [of n] by (subst readUint_fits) (auto simp: before_def)
  with assms(2) show ?thesis by (simp add: readSize_kind_def sbind_def stry_def sret_def)
qed

lemma kind_enc_head:
  assumes "kind_ok k c" and "k \<noteq> Byte"
  shows "kind_enc k c = (if k = String then rlp_head 0x80 0xB7 (length c) else rlp_head 0xC0 0xF7 (length c)) @ c"
  using assms by (cases k) (auto simp: kind_enc_def rlp_str_def rlp_list_def kind_ok_def byte_le_7F)

lemma readKind_at:
  assumes "kind_ok k c" and "length c < W64" and "before (kind_enc k c) s"
  shows "\<exists>s1. readKind s = (Ret (k, (if k = Byte then 0 else length c), None), s1) \<and>
    byteval s1 = (if k = Byte then hd c else 0) \<and> core s1 = core (eat (head_length k c) s)"
proof (cases "k = Byte")
  case True
  with assms(1) obtain x where c: "c = [x]" "x < 128" by (auto simp: kind_ok_def length_Suc_conv)
  then have e: "kind_enc k c = [x]" using True by (simp add: kind_enc_def rlp_str_def byte_le_7F)
  with assms(3) have "before [x] s" by simp
  with True c e show ?thesis
    by (simp add: readKind_def sbind_def stry_def readByte_before head_length_def) (simp add: stream_steps core_def)
next
  case False
  note e = kind_enc_head [OF assms(1) False]
  have h: "head_length k c = length (if k = String then rlp_head 0x80 0xB7 (length c) else rlp_head 0xC0 0xF7 (length c))"
    using False by (simp add: head_length_def e)
  show ?thesis
  proof (cases "length c < 56")
    case True
    with short_head_tags [OF True] obtain t where t: "kind_enc k c = [t] @ c" "head_length k c = 1"
        "k = String \<Longrightarrow> unat t = 128 + length c \<and> unat (t - 0x80) = length c"
        "k \<noteq> String \<Longrightarrow> unat t = 192 + length c \<and> unat (t - 0xC0) = length c"
      unfolding e h by (cases "k = String") (simp_all, metis+)
    with assms(3) have b: "before (t # c) s" by simp
    show ?thesis using t True False
      by (cases k; simp add: readKind_def sbind_def stry_def readByte_before [OF b]; simp add: stream_steps core_def word_less_nat_alt)
  next
    case long: False
    let ?l = "be_bytes (length c)"
    from long_head_tags [OF long assms(2)] obtain t where t: "kind_enc k c = t # ?l @ c" "head_length k c = Suc (length ?l)"
        "k = String \<Longrightarrow> unat t = 183 + length ?l \<and> unat (t - 0xB7) = length ?l"
        "k \<noteq> String \<Longrightarrow> unat t = 247 + length ?l \<and> unat (t - 0xF7) = length ?l"
      unfolding e h by (cases "k = String") (simp_all, metis+)
    with assms(3) have b: "before (t # ?l @ c) s" by simp
    let ?s = "(eat (Suc 0) s)\<lparr>byteval := 0\<rparr>"
    have "before (?l @ c) (eat (Suc 0) s)" using before_eat [of "[t]" "?l @ c" s] b by simp
    then have "before ?l (eat (Suc 0) s)" by (rule before_append)
    then have "before ?l ?s" by (rule before_core [rotated]) (simp add: core_def)
    then have sz: "readSize_kind k' (length ?l) ?s = (Ret (k', length c, None), eat (length ?l) ?s)" for k'
      using long assms(2) by (intro readSize_kind_before) auto
    have c: "core (eat (length ?l) ?s) = core (eat (Suc (length ?l)) s)" by (simp add: core_def)
    have "readKind s = readSize_kind k (length ?l) ?s"
      using t False length_be_bytes_pos [OF long] length_be_bytes_W64 [OF assms(2)]
      by (cases k) (simp_all add: readKind_def sbind_def stry_def readByte_before [OF b] supd_def word_less_nat_alt)
    with sz c t(2) False show ?thesis by simp
  qed
qed

lemma head_length_add: "kind_ok k c \<Longrightarrow> head_length k c + (if k = Byte then 0 else length c) = length (kind_enc k c)"
  by (cases "k = Byte")
     (auto simp: head_length_def kind_enc_head kind_ok_def kind_enc_def rlp_str_def rlp_list_def byte_le_7F)

lemma kind_enc_pos: "kind_ok k c \<Longrightarrow> 0 < length (kind_enc k c)"
  by (cases "k = Byte") (auto simp: kind_enc_head kind_ok_def kind_enc_def rlp_str_def rlp_list_def rlp_head_def byte_le_7F)

text \<open>After \<open>stream_Kind\<close> the header is consumed and the kind is cached.\<close>

lemma stream_Kind_at:
  assumes "kind_ok k c" and "length c < W64" and "before (kind_enc k c) s"
  shows "\<exists>s1. stream_Kind s = (Ret (k, if k = Byte then 0 else length c), s1) \<and> s_kind s1 = Some k \<and> kinderr s1 = None \<and>
    byteval s1 = (if k = Byte then hd c else 0) \<and> core (s1\<lparr>s_kind := None\<rparr>) = core (eat (head_length k c) s)"
proof -
  let ?n = "if k = Byte then 0 else length c" and ?s = "s\<lparr>kinderr := None\<rparr>"
  have "before (kind_enc k c) ?s" using assms(3) by (rule before_core [rotated]) (simp add: core_def)
  from readKind_at [OF assms(1,2) this] obtain s1 where
    rk: "readKind ?s = (Ret (k, ?n, None), s1)" and b: "byteval s1 = (if k = Byte then hd c else 0)"
    and c: "core s1 = core (eat (head_length k c) s)"
    by (auto simp: core_def)
  have f: "fits (length (kind_enc k c)) s" and k: "s_kind s = None" using assms(3) by (auto simp: before_def)
  have "fits ?n (eat (head_length k c) s)"
    using f head_length_add [OF assms(1)] by (intro fits_eat) simp
  then have "fits ?n s1" by (rule fits_core [rotated]) (simp add: c)
  moreover have "case stack s of [] \<Rightarrow> True | tos # _ \<Rightarrow> pos tos \<noteq> lp_size tos"
    using f kind_enc_pos [OF assms(1)] by (intro fits_pos [of "length (kind_enc k c) - 1"]) simp
  ultimately show ?thesis using rk b c k
    by (cases "stack s1"; cases "stack s")
       (auto simp: stream_Kind_def stream_steps fits_def core_def)
qed

text \<open>\<open>m\<close> reads the encoding \<open>e\<close> of \<open>v\<close>.\<close>

definition reads :: "'a streaming \<Rightarrow> bytes \<Rightarrow> 'a \<Rightarrow> bool" where
  "reads m e v \<longleftrightarrow> (\<forall>s. before e s \<longrightarrow> (\<exists>s'. m s = (Ret v, s') \<and> core s' = core (eat (length e) s)))"

lemma readsD: "reads m e v \<Longrightarrow> before e s \<Longrightarrow> \<exists>s'. m s = (Ret v, s') \<and> core s' = core (eat (length e) s)"
  by (simp add: reads_def)

lemma reads_map: "reads m e v \<Longrightarrow> reads (sbind m (\<lambda>x. sret (g x))) e (g v)"
  by (fastforce simp: reads_def sbind_def sret_def)

lemma reads_wrapping: "reads m e v \<Longrightarrow> reads (wrapping typ m) e v"
  by (fastforce simp: reads_def wrapping_def sbind_def stry_def sret_def)

lemma core_restart: "core (s1\<lparr>s_kind := None\<rparr>) = core s2 \<Longrightarrow> core (eat n s1) = core (eat n s2)"
  by (simp add: core_def)

lemma fits_restart: "core (s1\<lparr>s_kind := None\<rparr>) = core s2 \<Longrightarrow> fits n s2 \<Longrightarrow> fits n s1"
  by (simp add: core_def fits_def)

lemma rlp_str_kind: "\<exists>k. k \<noteq> List \<and> kind_ok k b \<and> rlp_str b = kind_enc k b"
  by (rule exI [of _ "if length b = 1 \<and> hd b < 128 then Byte else String"]) (auto simp: kind_ok_def kind_enc_def)

text \<open>What is left of an encoding after its header.\<close>

lemma content_left:
  assumes "kind_ok k c" and "k \<noteq> Byte" and "before (kind_enc k c) s"
  shows "fits (length c) (eat (head_length k c) s) \<and> take (length c) (drop (head_length k c) (input s)) = c"
proof -
  let ?h = "if k = String then rlp_head 0x80 0xB7 (length c) else rlp_head 0xC0 0xF7 (length c)"
  note e = kind_enc_head [OF assms(1,2)]
  have "head_length k c = length ?h" using assms(2) by (simp add: head_length_def e)
  with before_eat [of ?h c s] assms(3) show ?thesis unfolding e by (simp add: before_def)
qed

lemma reads_Bytes: "length b < W64 \<Longrightarrow> reads stream_Bytes (rlp_str b) b"
  unfolding reads_def
proof (intro allI impI)
  fix s assume b: "length b < W64" and s: "before (rlp_str b) s"
  obtain k where k: "k \<noteq> List" "kind_ok k b" "rlp_str b = kind_enc k b" using rlp_str_kind by blast
  from stream_Kind_at [OF k(2) b] s k(3) obtain s1 where
    K: "stream_Kind s = (Ret (k, if k = Byte then 0 else length b), s1)" and s1: "byteval s1 = (if k = Byte then hd b else 0)"
      "core (s1\<lparr>s_kind := None\<rparr>) = core (eat (head_length k b) s)"
    by auto
  show "\<exists>s'. stream_Bytes s = (Ret b, s') \<and> core s' = core (eat (length (rlp_str b)) s)"
  proof (cases k)
    case Byte
    with k(2) obtain x where "b = [x]" by (auto simp: kind_ok_def length_Suc_conv)
    with Byte K s1 k(3) head_length_add [OF k(2)] show ?thesis
      by (simp add: stream_Bytes_def stream_steps rearm_def)
  next
    case String
    from content_left [OF k(2), of s] s k(3) String
    have f: "fits (length b) (eat (head_length k b) s)" "take (length b) (drop (head_length k b) (input s)) = b" by auto
    have "take (length b) (input s1) = b" using s1(2) f(2) by (simp add: core_def)
    moreover have "readFull (length b) s1 = (Ret (take (length b) (input s1)), eat (length b) s1)"
      using fits_restart [OF s1(2) f(1)] by (rule readFull_fits)
    moreover have "core (eat (length b) s1) = core (eat (length (rlp_str b)) s)"
      using core_restart [OF s1(2), of "length b"] head_length_add [OF k(2)] String k(3) by simp
    moreover have "\<not> (length b = 1 \<and> hd b < 128)" using k(2) String by (simp add: kind_ok_def)
    ultimately show ?thesis using K String by (simp add: stream_Bytes_def stream_steps)
  qed (use k in simp)
qed

lemma reads_uint:
  assumes i: "i < W64" and bits: "length (be_bytes i) \<le> maxbits div 8"
  shows "reads (stream_uint maxbits) (rlp_str (be_bytes i)) i"
  unfolding reads_def
proof (intro allI impI)
  fix s assume s: "before (rlp_str (be_bytes i)) s"
  let ?b = "be_bytes i"
  have l8: "length ?b \<le> 8" using i by (rule length_be_bytes_W64)
  then have lb: "length ?b < W64" by (simp add: W64_def)
  obtain k where k: "k \<noteq> List" "kind_ok k ?b" "rlp_str ?b = kind_enc k ?b" using rlp_str_kind by blast
  from stream_Kind_at [OF k(2) lb] s k(3) obtain s1 where
    K: "stream_Kind s = (Ret (k, if k = Byte then 0 else length ?b), s1)" and s1: "byteval s1 = (if k = Byte then hd ?b else 0)"
      "core (s1\<lparr>s_kind := None\<rparr>) = core (eat (head_length k ?b) s)"
    by auto
  show "\<exists>s'. stream_uint maxbits s = (Ret i, s') \<and> core s' = core (eat (length (rlp_str ?b)) s)"
  proof (cases k)
    case Byte
    with k(2) obtain x where x: "?b = [x]" by (auto simp: kind_ok_def length_Suc_conv)
    then have "i \<noteq> 0" by (metis be_bytes_eq_Nil list.distinct(1))
    moreover have "unat x = i" using be_val_be_bytes [of i] x by (simp add: be_val_Cons)
    ultimately have "0 < i" "unat x = i" by simp_all
    with x Byte K s1 k(3) head_length_add [OF k(2)] show ?thesis
      by (auto simp: stream_uint_def stream_steps rearm_def)
  next
    case String
    from content_left [OF k(2), of s] s k(3) String
    have f: "fits (length ?b) (eat (head_length k ?b) s)" "take (length ?b) (drop (head_length k ?b) (input s)) = ?b" by auto
    have t: "take (length ?b) (input s1) = ?b" using s1(2) f(2) by (simp add: core_def)
    have c: "core (eat (length ?b) s1) = core (eat (length (rlp_str ?b)) s)"
      using core_restart [OF s1(2), of "length ?b"] head_length_add [OF k(2)] String k(3) by simp
    show ?thesis
    proof (cases "i = 0")
      case True
      then have "core (s1\<lparr>s_kind := None\<rparr>) = core (eat (length (rlp_str ?b)) s)"
        using s1(2) head_length_add [OF k(2)] String k(3) by simp
      with True K String show ?thesis
        by (auto simp: stream_uint_def stream_steps readUint_def rearm_def)
    next
      case False
      then have "readUint (length ?b) s1 = (Ret i, eat (length ?b) s1)"
        using readUint_fits [OF fits_restart [OF s1(2) f(1)] t] l8 hd_be_bytes [of i] by simp
      moreover have "\<not> i < 128"
        using k(2) String False by (auto simp: kind_ok_def be_bytes_step word_less_nat_alt)
      ultimately show ?thesis using K String bits c by (simp add: stream_uint_def stream_steps)
    qed
  qed (use k in simp)
qed

lemma reads_Bool: "reads stream_Bool (rlp_str (if b then [1] else [])) b"
proof -
  have "reads (stream_uint 8) (rlp_str (be_bytes (of_bool b))) (of_bool b)"
    by (rule reads_uint) (simp_all add: W64_def be_bytes_step)
  moreover have "be_bytes (of_bool b) = (if b then [1] else [])" by (simp add: be_bytes_step)
  ultimately have u: "reads (stream_uint 8) (rlp_str (if b then [1] else [])) (of_bool b)" by simp
  show ?thesis
    unfolding reads_def
  proof (intro allI impI)
    fix s assume "before (rlp_str (if b then [1] else [])) s"
    from readsD [OF u this] show "\<exists>s'. stream_Bool s = (Ret b, s') \<and> core s' = core (eat (length (rlp_str (if b then [1] else []))) s)"
      by (cases b) (auto simp: stream_Bool_def sbind_def sret_def)
  qed
qed

section \<open>Lists\<close>

text \<open>\<open>m\<close> reads \<open>e\<close> as the rest of the innermost list.\<close>

definition reads_rest :: "'a streaming \<Rightarrow> bytes \<Rightarrow> 'a \<Rightarrow> bool" where
  "reads_rest m e v \<longleftrightarrow>
     (\<forall>s p ps. before e s \<longrightarrow> stack s = p # ps \<longrightarrow> pos p + length e = lp_size p \<longrightarrow>
        (\<exists>s'. m s = (Ret v, s') \<and> core s' = core (eat (length e) s)))"

lemma reads_rest_reads: "reads m e v \<Longrightarrow> reads_rest m e v"
  by (simp add: reads_def reads_rest_def)

lemma stream_List_at:
  assumes "length c < W64" and "before (rlp_list c) s"
  shows "\<exists>s1. stream_List s = (Ret (length c), s1) \<and> before c s1 \<and>
    core s1 = core ((eat (head_length List c) s)\<lparr>stack := \<lparr>pos = 0, lp_size = length c\<rparr> # advance (head_length List c) (stack s)\<rparr>)"
proof -
  have k: "kind_ok List c" "rlp_list c = kind_enc List c" by (simp_all add: kind_ok_def kind_enc_def)
  from stream_Kind_at [OF k(1) assms(1)] assms(2) k(2) obtain s1 where
    K: "stream_Kind s = (Ret (List, length c), s1)" and s1: "core (s1\<lparr>s_kind := None\<rparr>) = core (eat (head_length List c) s)"
    by auto
  from content_left [OF k(1), of s] assms(2) k(2)
  have f: "fits (length c) (eat (head_length List c) s)" "take (length c) (drop (head_length List c) (input s)) = c" by auto
  let ?s = "s1\<lparr>stack := \<lparr>pos = 0, lp_size = length c\<rparr> # stack s1, s_kind := None, s_size := 0\<rparr>"
  have "stream_List s = (Ret (length c), ?s)" using K by (simp add: stream_List_def stream_steps)
  moreover have "before c ?s" using s1 f assms(1) by (simp add: before_def fits_def core_def)
  moreover have "core ?s = core ((eat (head_length List c) s)\<lparr>stack := \<lparr>pos = 0, lp_size = length c\<rparr> # advance (head_length List c) (stack s)\<rparr>)"
    using s1 by (simp add: core_def)
  ultimately show ?thesis by blast
qed

lemma stream_ListEnd_at:
  assumes "core s2 = core (eat (length c) s1)" and "before (rlp_list c) s" and "length c < W64"
    and "core s1 = core ((eat (head_length List c) s)\<lparr>stack := \<lparr>pos = 0, lp_size = length c\<rparr> # advance (head_length List c) (stack s)\<rparr>)"
  shows "\<exists>s3. stream_ListEnd s2 = (Ret (), s3) \<and> core s3 = core (eat (length (rlp_list c)) s)"
proof -
  have h: "head_length List c + length c = length (rlp_list c)"
    using head_length_add [of List c] by (simp add: kind_ok_def kind_enc_def)
  have st: "stack s2 = \<lparr>pos = length c, lp_size = length c\<rparr> # advance (head_length List c) (stack s)"
    and r: "input s2 = drop (length (rlp_list c)) (input s)" "remaining s2 = remaining s - length (rlp_list c)" "limited s2 = limited s"
    using assms(1,4) h by (simp_all add: core_def add.commute)
  have "in_top (length (rlp_list c)) (stack s)" using assms(2) by (simp add: before_def fits_def)
  then have "(case advance (head_length List c) (stack s) of [] \<Rightarrow> [] | p # ps \<Rightarrow> p\<lparr>pos := u64_add (pos p) (length c)\<rparr> # ps) =
      advance (length (rlp_list c)) (stack s)"
    using h by (cases "stack s") (simp_all add: add.assoc)
  with st r show ?thesis by (simp add: stream_ListEnd_def stream_steps core_def cong: list.case_cong)
qed

lemma reads_list:
  assumes "reads_rest (m (length c)) c v" and "length c < W64"
    and L: "\<And>s n s'. stream_List s = (Ret n, s') \<Longrightarrow> lst s = (Ret n, s')"
    and E: "\<And>s s'. stream_ListEnd s = (Ret (), s') \<Longrightarrow> lend s = (Ret (), s')"
  shows "reads (sbind lst (\<lambda>n. sbind (m n) (\<lambda>v. sbind lend (\<lambda>_. sret v)))) (rlp_list c) v"
  unfolding reads_def
proof (intro allI impI)
  fix s assume s: "before (rlp_list c) s"
  from stream_List_at [OF assms(2) s] obtain s1 where L1: "stream_List s = (Ret (length c), s1)" "before c s1" and
    s1: "core s1 = core ((eat (head_length List c) s)\<lparr>stack := \<lparr>pos = 0, lp_size = length c\<rparr> # advance (head_length List c) (stack s)\<rparr>)"
    by blast
  from s1 have "stack s1 = \<lparr>pos = 0, lp_size = length c\<rparr> # advance (head_length List c) (stack s)" by (simp add: core_def)
  with assms(1) L1(2) obtain s2 where m: "m (length c) s1 = (Ret v, s2)" and s2: "core s2 = core (eat (length c) s1)"
    unfolding reads_rest_def by fastforce
  from stream_ListEnd_at [OF s2 s assms(2) s1] obtain s3 where "stream_ListEnd s2 = (Ret (), s3)" "core s3 = core (eat (length (rlp_list c)) s)"
    by blast
  with L [OF L1(1)] E m
  show "\<exists>s'. sbind lst (\<lambda>n. sbind (m n) (\<lambda>v. sbind lend (\<lambda>_. sret v))) s = (Ret v, s') \<and>
      core s' = core (eat (length (rlp_list c)) s)"
    by (auto simp: sbind_def sret_def)
qed

lemma wrapping_Ret: "m s = (Ret v, s') \<Longrightarrow> wrapping typ m s = (Ret v, s')"
  by (simp add: wrapping_def sbind_def stry_def sret_def)

section \<open>Composing readers\<close>

lemma advance_0 [simp]: "advance 0 st = st"
  by (cases st) simp_all

lemma core_eat_0: "s_kind s = None \<Longrightarrow> core (eat 0 s) = core s"
  by (simp add: core_def)

lemma reads_sbind:
  assumes "reads m e v" and "reads (f v) e' v'"
  shows "reads (sbind m f) (e @ e') v'"
  unfolding reads_def
proof (intro allI impI)
  fix s assume s: "before (e @ e') s"
  from readsD [OF assms(1) before_append [OF s]] obtain s1 where m: "m s = (Ret v, s1)" and c: "core s1 = core (eat (length e) s)" by blast
  have "before e' s1" using before_eat [OF s] by (rule before_core [rotated]) (simp add: c)
  from readsD [OF assms(2) this] core_eat [OF c, of "length e'"] m
  show "\<exists>s'. sbind m f s = (Ret v', s') \<and> core s' = core (eat (length (e @ e')) s)" by (auto simp: sbind_def)
qed

lemma reads_rest_sbind:
  assumes "reads m e v" and "reads_rest (f v) e' v'"
  shows "reads_rest (sbind m f) (e @ e') v'"
  unfolding reads_rest_def
proof (intro allI impI)
  fix s p ps assume s: "before (e @ e') s" and st: "stack s = p # ps" "pos p + length (e @ e') = lp_size p"
  from readsD [OF assms(1) before_append [OF s]] obtain s1 where m: "m s = (Ret v, s1)" and c: "core s1 = core (eat (length e) s)" by blast
  have b: "before e' s1" using before_eat [OF s] by (rule before_core [rotated]) (simp add: c)
  have "stack s1 = p\<lparr>pos := pos p + length e\<rparr> # ps" using c st by (simp add: core_def)
  with assms(2) b st(2) obtain s' where "f v s1 = (Ret v', s')" "core s' = core (eat (length e') s1)"
    unfolding reads_rest_def by fastforce
  with core_eat [OF c, of "length e'"] m
  show "\<exists>s'. sbind m f s = (Ret v', s') \<and> core s' = core (eat (length (e @ e')) s)" by (auto simp: sbind_def)
qed

lemma reads_rest_map: "reads_rest m e v \<Longrightarrow> reads_rest (sbind m (\<lambda>x. sret (g x))) e (g v)"
  by (fastforce simp: reads_rest_def sbind_def sret_def)

lemma reads_stry: "reads m e v \<Longrightarrow> reads (stry m) e (Inr v)"
  by (fastforce simp: reads_def stry_def)

lemma reads_sret: "reads (sret v) [] v"
  by (auto simp: reads_def sret_def before_def core_eat_0)

lemma reads_rest_end:
  assumes "reads_rest m e v" and "\<And>s. f (Inr v) s = (Ret w, s)"
  shows "reads_rest (sbind (stry m) f) e w"
  unfolding reads_rest_def
proof (intro allI impI)
  fix s p ps assume "before e s" "stack s = p # ps" "pos p + length e = lp_size p"
  with assms(1) obtain s' where "m s = (Ret v, s')" "core s' = core (eat (length e) s)" unfolding reads_rest_def by blast
  with assms(2) show "\<exists>s'. sbind (stry m) f s = (Ret w, s') \<and> core s' = core (eat (length e) s)"
    by (simp add: sbind_def stry_def)
qed

text \<open>At the end of a list every decoder reports it and reads nothing.\<close>

definition eol :: "'a streaming \<Rightarrow> bool" where
  "eol m \<longleftrightarrow> (\<forall>s p ps. s_kind s = None \<longrightarrow> stack s = p # ps \<longrightarrow> pos p = lp_size p \<longrightarrow>
     (\<exists>s'. m s = (Err ErrEOL, s') \<and> core s' = core s))"

lemma eol_Kind: "eol stream_Kind"
  by (auto simp: eol_def stream_Kind_def stream_steps core_def)

lemma eolD: "eol m \<Longrightarrow> s_kind s = None \<Longrightarrow> stack s = p # ps \<Longrightarrow> pos p = lp_size p \<Longrightarrow> \<exists>s'. m s = (Err ErrEOL, s') \<and> core s' = core s"
  unfolding eol_def by blast

lemma eol_sbind: "eol m \<Longrightarrow> eol (sbind m f)"
  unfolding eol_def [of "sbind m f"] by (intro allI impI) (drule (3) eolD, auto simp: sbind_def)

lemma eol_wrapping: "eol m \<Longrightarrow> eol (wrapping typ m)"
  unfolding eol_def [of "wrapping typ m"]
  by (intro allI impI) (drule (3) eolD, auto simp: wrapping_def sbind_def stry_def slift_def wrapStreamError_def)

lemma eol_methods: "eol stream_Bytes" "eol stream_Raw" "eol (stream_uint n)" "eol stream_Bool" "eol stream_List"
  unfolding stream_Bytes_def stream_Raw_def stream_uint_def stream_Bool_def stream_List_def
  by (intro eol_sbind eol_Kind)+

lemma eol_decoders:
  "eol decodeBigInt" "eol (decodeByteArray t n)" "eol (decodeListSlice k t dec)" "eol (decodeListArray n t dec)"
  "eol (decodeStruct t fs)" "eol (decodeNilPtr t nk dec)" "eol (decodeInterface (Suc k))"
  unfolding decodeBigInt_def Let_def decodeByteArray_def decodeListSlice_def decodeListArray_def decodeStruct_def decodeNilPtr_def decodeInterface.simps
  by (intro eol_sbind eol_wrapping eol_methods eol_Kind)+

lemma eol_decode: "writerErr t = None \<Longrightarrow> \<not> tail ts \<Longrightarrow> 0 < fuel \<Longrightarrow> eol (decode_val fuel ts t)"
proof (induction t arbitrary: ts)
  case (TPtr t)
  then show ?case by (auto simp: no_tags_def intro: eol_sbind eol_decoders)
next
  case TInterface
  then show ?case by (cases fuel) (simp_all only: decode_val.simps eol_decoders)
qed (auto intro: eol_sbind eol_wrapping eol_methods eol_decoders)

lemma reads_rest_elems:
  assumes "list_all2 (reads dec) es vs" and "eol dec" and "length vs < fuel"
  shows "reads_rest (decodeSliceElems fuel dec i) (concat es) vs"
  using assms(1,3)
proof (induction es vs arbitrary: fuel i rule: list_all2_induct)
  case Nil
  then obtain f where f: "fuel = Suc f" by (cases fuel) auto
  show ?case
    unfolding reads_rest_def f
  proof (intro allI impI)
    fix s p ps assume s: "before (concat []) s" "stack s = p # ps" "pos p + length (concat []) = lp_size p"
    then have k: "s_kind s = None" by (simp add: before_def)
    with assms(2) s obtain s' where "dec s = (Err ErrEOL, s')" "core s' = core s" by (auto simp: eol_def)
    with k show "\<exists>s'. decodeSliceElems (Suc f) dec i s = (Ret [], s') \<and> core s' = core (eat (length (concat [])) s)"
      by (simp add: sbind_def stry_def sret_def core_eat_0)
  qed
next
  case (Cons e es v vs)
  then obtain f where f: "fuel = Suc f" by (cases fuel) auto
  have "reads_rest (sbind (decodeSliceElems f dec (i + 1)) (\<lambda>vs. sret (v # vs))) (concat es) (v # vs)"
    using Cons f by (intro reads_rest_map) auto
  with Cons(1) show ?case unfolding f decodeSliceElems.simps concat.simps
    by (intro reads_rest_sbind [OF reads_stry]) auto
qed

lemma reads_array_elems:
  assumes "list_all2 (reads dec) es vs"
  shows "reads (array_elems (length vs) typ dec i) (concat es) vs"
  using assms
proof (induction es vs arbitrary: i rule: list_all2_induct)
  case (Cons e es v vs)
  have "reads (sbind (array_elems (length vs) typ dec (i + 1)) (\<lambda>vs. sret (v # vs))) (concat es) (v # vs)"
    using Cons by (intro reads_map) auto
  with Cons(1) show ?case unfolding array_elems.simps concat.simps length_Cons
    by (intro reads_sbind [OF reads_stry]) auto
qed (simp add: reads_sret)

section \<open>Decoding what was encoded\<close>

lemma reads_ListSlice:
  assumes "list_all2 (reads dec) es vs" and "eol dec" and "[] \<notin> set es"
    and "length (concat es) < W64" and "length (concat es) < fuel"
  shows "reads (decodeListSlice fuel typ dec) (rlp_list (concat es)) vs"
proof -
  have "length vs \<le> length (concat es)"
    using assms(1,3)
  proof (induction es vs rule: list_all2_induct)
    case (Cons e es v vs)
    then have "1 \<le> length e" by (cases e) auto
    with Cons show ?case by simp
  qed simp
  then have elems: "reads_rest (if length (concat es) = 0 then sret [] else decodeSliceElems fuel dec 0) (concat es) vs"
    using assms reads_rest_elems [OF assms(1,2), of fuel 0] reads_rest_reads [OF reads_sret [of "[]"]] by (cases "concat es") auto
  have "decodeListSlice fuel typ dec =
      sbind (wrapping typ stream_List) (\<lambda>n. sbind (if n = 0 then sret [] else decodeSliceElems fuel dec 0) (\<lambda>v. sbind stream_ListEnd (\<lambda>_. sret v)))"
    unfolding decodeListSlice_def by (rule arg_cong [of _ _ "sbind _"]) (auto simp: fun_eq_iff sbind_def sret_def)
  moreover have "reads (sbind (wrapping typ stream_List) (\<lambda>n. sbind (if n = 0 then sret [] else decodeSliceElems fuel dec 0)
      (\<lambda>v. sbind stream_ListEnd (\<lambda>_. sret v)))) (rlp_list (concat es)) vs"
    by (rule reads_list) (use elems assms(4) in \<open>simp_all add: wrapping_Ret\<close>)
  ultimately show ?thesis by simp
qed

lemma reads_ListArray:
  assumes "list_all2 (reads dec) es vs" and "length (concat es) < W64"
  shows "reads (decodeListArray (length vs) typ dec) (rlp_list (concat es)) vs"
  unfolding decodeListArray_def
  by (rule reads_list [OF reads_rest_reads [OF reads_array_elems] _ wrapping_Ret wrapping_Ret]) (use assms in auto)

lemma reads_Struct:
  assumes "reads_rest (struct_fields typ fs) e vs" and "length e < W64"
  shows "reads (decodeStruct typ fs) (rlp_list e) vs"
  unfolding decodeStruct_def
  by (rule reads_list [OF _ _ wrapping_Ret wrapping_Ret]) (use assms in auto)

lemma reads_BigInt: "0 \<le> i \<Longrightarrow> length (be_bytes (nat i)) < W64 \<Longrightarrow> reads decodeBigInt (rlp_str (be_bytes (nat i))) i"
proof -
  assume i: "0 \<le> i" and l: "length (be_bytes (nat i)) < W64"
  have "\<not> (length (be_bytes (nat i)) > 0 \<and> hd (be_bytes (nat i)) = 0)" using hd_be_bytes [of "nat i"] by auto
  then have "decodeBigInt = sbind (wrapping (TPtr TBigInt) stream_Bytes) (\<lambda>b. if b = be_bytes (nat i) then sret i else
      sbind (sguard (\<not> (length b > 0 \<and> hd b = 0)) (wrapStreamError ErrCanonInt (TPtr TBigInt))) (\<lambda>_. sret (big_SetBytes b)))"
    unfolding decodeBigInt_def Let_def
    by (intro arg_cong [of _ _ "sbind _"]) (auto simp: fun_eq_iff sbind_def sret_def sguard_def big_SetBytes_def i)
  moreover have "reads (sbind (wrapping (TPtr TBigInt) stream_Bytes) (\<lambda>b. if b = be_bytes (nat i) then sret i else
      sbind (sguard (\<not> (length b > 0 \<and> hd b = 0)) (wrapStreamError ErrCanonInt (TPtr TBigInt))) (\<lambda>_. sret (big_SetBytes b))))
      (rlp_str (be_bytes (nat i)) @ []) i"
    by (rule reads_sbind [OF reads_wrapping [OF reads_Bytes [OF l]]]) (simp add: reads_sret)
  ultimately show ?thesis by simp
qed

text \<open>A decoder looks at the kind first, and the kind stays cached until it is consumed.\<close>

definition peeks :: "'a streaming \<Rightarrow> bool" where
  "peeks m \<longleftrightarrow> (\<forall>s r s1. stream_Kind s = (Ret r, s1) \<longrightarrow> m s = m s1)"

lemma peeksD: "peeks m \<Longrightarrow> stream_Kind s = (Ret r, s1) \<Longrightarrow> m s1 = m s"
  unfolding peeks_def by metis

lemma stream_Kind_cached: "s_kind s1 = Some k \<Longrightarrow> kinderr s1 = None \<Longrightarrow> stream_Kind s1 = (Ret (k, s_size s1), s1)"
  by (simp add: stream_Kind_def stream_steps)

lemma stream_Kind_caches: "stream_Kind s = (Ret r, s1) \<Longrightarrow> s_kind s1 = Some (fst r) \<and> kinderr s1 = None \<and> snd r = s_size s1"
  unfolding stream_Kind_def
  by (auto simp: stream_steps split: option.splits list.splits if_splits prod.splits outcome.splits)

lemma peeks_Kind: "peeks stream_Kind"
  unfolding peeks_def by (metis stream_Kind_caches stream_Kind_cached prod.collapse)

lemma peeks_sbind: "peeks m \<Longrightarrow> peeks (sbind m f)"
  unfolding peeks_def [of "sbind m f"] by (auto simp: sbind_def dest: peeksD)

lemma peeks_wrapping: "peeks m \<Longrightarrow> peeks (wrapping typ m)"
  unfolding peeks_def [of "wrapping typ m"] by (auto simp: wrapping_def sbind_def stry_def dest: peeksD)

lemma peeks_methods: "peeks stream_Bytes" "peeks stream_Raw" "peeks (stream_uint n)" "peeks stream_Bool" "peeks stream_List"
  unfolding stream_Bytes_def stream_Raw_def stream_uint_def stream_Bool_def stream_List_def
  by (intro peeks_sbind peeks_Kind)+

lemma peeks_decoders:
  "peeks decodeBigInt" "peeks (decodeByteArray t n)" "peeks (decodeListSlice k t dec)" "peeks (decodeListArray n t dec)"
  "peeks (decodeStruct t fs)" "peeks (decodeNilPtr t nk dec)" "peeks (decodeInterface (Suc k))"
  unfolding decodeBigInt_def Let_def decodeByteArray_def decodeListSlice_def decodeListArray_def decodeStruct_def decodeNilPtr_def decodeInterface.simps
  by (intro peeks_sbind peeks_wrapping peeks_methods peeks_Kind)+

lemma peeks_decode: "writerErr t = None \<Longrightarrow> \<not> tail ts \<Longrightarrow> 0 < fuel \<Longrightarrow> peeks (decode_val fuel ts t)"
proof (induction t arbitrary: ts)
  case (TPtr t)
  then show ?case by (auto simp: no_tags_def intro: peeks_sbind peeks_decoders)
next
  case TInterface
  then show ?case by (cases fuel) (simp_all only: decode_val.simps peeks_decoders)
qed (auto intro: peeks_sbind peeks_wrapping peeks_methods peeks_decoders)

lemma reads_ByteArray:
  assumes "length b < W64" and "b \<noteq> [0]"
  shows "reads (decodeByteArray typ (length b)) (rlp_str b) b"
  unfolding reads_def
proof (intro allI impI)
  fix s assume s: "before (rlp_str b) s"
  obtain k where k: "k \<noteq> List" "kind_ok k b" "rlp_str b = kind_enc k b" using rlp_str_kind by blast
  from stream_Kind_at [OF k(2) assms(1)] s k(3) obtain s1 where
    K: "stream_Kind s = (Ret (k, if k = Byte then 0 else length b), s1)" and c: "s_kind s1 = Some k" "kinderr s1 = None"
    and s1: "byteval s1 = (if k = Byte then hd b else 0)" "core (s1\<lparr>s_kind := None\<rparr>) = core (eat (head_length k b) s)"
    by auto
  show "\<exists>s'. decodeByteArray typ (length b) s = (Ret b, s') \<and> core s' = core (eat (length (rlp_str b)) s)"
  proof (cases k)
    case Byte
    with k(2) obtain x where x: "b = [x]" by (auto simp: kind_ok_def length_Suc_conv)
    with assms(2) have "x \<noteq> 0" by simp
    moreover have "stream_Kind s1 = (Ret (Byte, s_size s1), s1)" using stream_Kind_cached c Byte by simp
    ultimately have "stream_uint 64 s1 = (Ret (unat x), s1\<lparr>s_kind := None\<rparr>)"
      using s1(1) x Byte by (simp add: stream_uint_def stream_steps rearm_def)
    with Byte K s1 x k(3) head_length_add [OF k(2)] show ?thesis
      by (simp add: decodeByteArray_def sbind_def stry_def sret_def)
  next
    case String
    from content_left [OF k(2), of s] s k(3) String
    have f: "fits (length b) (eat (head_length k b) s)" "take (length b) (drop (head_length k b) (input s)) = b" by auto
    have "take (length b) (input s1) = b" using s1(2) f(2) by (simp add: core_def)
    moreover have "readFull (length b) s1 = (Ret (take (length b) (input s1)), eat (length b) s1)"
      using fits_restart [OF s1(2) f(1)] by (rule readFull_fits)
    moreover have "core (eat (length b) s1) = core (eat (length (rlp_str b)) s)"
      using core_restart [OF s1(2), of "length b"] head_length_add [OF k(2)] String k(3) by simp
    moreover have "\<not> (length b = 1 \<and> hd b < 128)" using k(2) String by (simp add: kind_ok_def)
    ultimately show ?thesis using K String by (simp add: decodeByteArray_def stream_steps)
  qed (use k in simp)
qed

text \<open>The encoding of a nil pointer, and one that stands for a value.\<close>

lemma reads_NilPtr_nil:
  assumes "nk \<noteq> Byte"
  shows "reads (decodeNilPtr t nk dec) (kind_enc nk []) (VPtr None)"
  unfolding reads_def
proof (intro allI impI)
  fix s assume s: "before (kind_enc nk []) s"
  have k: "kind_ok nk []" using assms by (simp add: kind_ok_def)
  from stream_Kind_at [OF k _ s] obtain s1 where K: "stream_Kind s = (Ret (nk, 0), s1)"
      "core (s1\<lparr>s_kind := None\<rparr>) = core (eat (head_length nk []) s)"
    by (auto simp: W64_def)
  with assms head_length_add [OF k]
  show "\<exists>s'. decodeNilPtr t nk dec s = (Ret (VPtr None), s') \<and> core s' = core (eat (length (kind_enc nk [])) s)"
    by (simp add: decodeNilPtr_def wrapping_def stream_steps rearm_def)
qed

definition full_enc :: "bytes \<Rightarrow> bool" where
  "full_enc e \<longleftrightarrow> (\<exists>k c. e = kind_enc k c \<and> kind_ok k c \<and> length c < W64)"

lemma full_enc_str: "length b < W64 \<Longrightarrow> full_enc (rlp_str b)"
  unfolding full_enc_def using rlp_str_kind [of b] by blast

lemma full_enc_list: "length c < W64 \<Longrightarrow> full_enc (rlp_list c)"
  unfolding full_enc_def by (rule exI [of _ List], rule exI [of _ c]) (simp add: kind_ok_def kind_enc_def)

lemma reads_NilPtr_some:
  assumes "reads dec e v" and "peeks dec" and "full_enc e" and "e \<noteq> rlp_str []" and "e \<noteq> rlp_list []"
  shows "reads (decodeNilPtr t nk dec) e (VPtr (Some v))"
  unfolding reads_def
proof (intro allI impI)
  fix s assume s: "before e s"
  from assms(3) obtain k c where e: "e = kind_enc k c" "kind_ok k c" "length c < W64" by (auto simp: full_enc_def)
  from stream_Kind_at [OF e(2,3)] s e(1) obtain s1 where K: "stream_Kind s = (Ret (k, if k = Byte then 0 else length c), s1)" by auto
  have "\<not> (k \<noteq> Byte \<and> length c = 0)" using e(1) assms(4,5) by (auto simp: kind_enc_def split: if_splits)
  moreover have "dec s1 = dec s" using peeksD [OF assms(2) K] .
  moreover from readsD [OF assms(1) s] obtain s' where "dec s = (Ret v, s')" "core s' = core (eat (length e) s)" by blast
  ultimately show "\<exists>s'. decodeNilPtr t nk dec s = (Ret (VPtr (Some v)), s') \<and> core s' = core (eat (length e) s)"
    using K by (auto simp: decodeNilPtr_def wrapping_def stream_steps)
qed

text \<open>
  The values that come back: not a raw or interface value, no one-byte array that holds a zero, no
  nil pointer without the tag, and no pointer with the tag to a value with an empty encoding.
\<close>

definition is_slice :: "gotype \<Rightarrow> bool" where
  "is_slice t = (case t of TSlice _ \<Rightarrow> True | _ \<Rightarrow> False)"

definition bytes_rt :: "gotype \<Rightarrow> bytes \<Rightarrow> bool" where
  "bytes_rt t b =
     (case t of
        TString \<Rightarrow> True
      | TSlice e \<Rightarrow> isByte e
      | TArray n e \<Rightarrow> isByte e \<and> length b = n \<and> b \<noteq> [0]
      | _ \<Rightarrow> False)"

fun rt :: "tags \<Rightarrow> gotype \<Rightarrow> goval \<Rightarrow> bool"
  and rt_elems :: "gotype \<Rightarrow> goval list \<Rightarrow> bool"
  and rt_fields :: "(string \<times> tags \<times> gotype) list \<Rightarrow> goval list \<Rightarrow> bool" where
  "rt ts t (VBytes b) = bytes_rt t b"
| "rt ts t (VBig i) = (t = TBigInt)"
| "rt ts t (VPtr None) = (case t of TPtr e \<Rightarrow> e \<noteq> TBigInt \<and> nilOK ts \<and> nilKind ts \<noteq> Byte | _ \<Rightarrow> False)"
| "rt ts t (VPtr (Some v)) =
     (case t of
        TPtr e \<Rightarrow> rt no_tags e v \<and>
          (nilOK ts \<and> e \<noteq> TBigInt \<longrightarrow>
            (case items no_tags e v of Ret xs \<Rightarrow> rlps xs \<noteq> rlp_str [] \<and> rlps xs \<noteq> rlp_list [] | _ \<Rightarrow> True))
      | _ \<Rightarrow> False)"
| "rt ts t (VUint i) = (\<exists>bits\<in>{8, 16, 32, 64}. t = TUint bits \<and> i < 2 ^ bits)"
| "rt ts t (VBool b) = (t = TBool)"
| "rt ts t (VList vs) =
     (case t of
        TSlice e \<Rightarrow> \<not> isByte e \<and> rt_elems e vs
      | TArray n e \<Rightarrow> \<not> isByte e \<and> length vs = n \<and> rt_elems e vs
      | _ \<Rightarrow> False)"
| "rt ts t (VStruct vs) = (case t of TStruct name fs \<Rightarrow> rt_fields fs vs | _ \<Rightarrow> False)"
| "rt ts t (VInterface _) = False"
| "rt_elems t [] = True"
| "rt_elems t (v # vs) = (rt no_tags t v \<and> rt_elems t vs)"
| "rt_fields fs [] = (fs = [])"
| "rt_fields fs (v # vs) =
     (case fs of
        [] \<Rightarrow> False
      | (name, ts, t) # fs' \<Rightarrow> (tail ts \<longrightarrow> fs' = [] \<and> is_slice t) \<and> rt ts t v \<and> rt_fields fs' vs)"

lemma writerErr_struct:
  "writerErr (TStruct name fs) = None \<Longrightarrow> (f, ts, t) \<in> set fs \<Longrightarrow> writerErr t = None"
proof -
  have "foldr (\<lambda>(f, e) r. case e of Some err \<Rightarrow> Some (g f err) | None \<Rightarrow> r) (map (\<lambda>(f, _, t). (f, writerErr t)) fs') None = None \<Longrightarrow>
      (f, ts, t) \<in> set fs' \<Longrightarrow> writerErr t = None" for fs' g
    by (induction fs') (auto split: option.splits)
  then show "writerErr (TStruct name fs) = None \<Longrightarrow> (f, ts, t) \<in> set fs \<Longrightarrow> writerErr t = None" by fastforce
qed

definition decodes :: "nat \<Rightarrow> tags \<Rightarrow> gotype \<Rightarrow> bytes \<Rightarrow> goval \<Rightarrow> bool" where
  "decodes fuel ts t e v \<longleftrightarrow>
     (if tail ts then reads_rest (decode_val fuel ts t) e v else reads (decode_val fuel ts t) e v \<and> full_enc e)"

lemma decodes_reads: "\<not> tail ts \<Longrightarrow> decodes fuel ts t e v \<Longrightarrow> reads (decode_val fuel ts t) e v \<and> full_enc e"
  by (simp add: decodes_def)

lemma decodesI: "reads (decode_val fuel ts t) e v \<Longrightarrow> full_enc e \<Longrightarrow> decodes fuel ts t e v"
  by (simp add: decodes_def reads_rest_reads)

lemma full_enc_not_Nil: "full_enc e \<Longrightarrow> e \<noteq> []"
  using kind_enc_pos by (fastforce simp: full_enc_def)

lemma no_tags_tail [simp]: "\<not> tail no_tags" "\<not> nilOK no_tags"
  by (simp_all add: no_tags_def)

lemma be_bytes_bits: "bits \<in> {8, 16, 32, 64} \<Longrightarrow> i < 2 ^ bits \<Longrightarrow> length (be_bytes i) \<le> bits div 8"
  by (auto intro!: length_be_bytes_le)

lemma W64_bits: "bits \<in> {8, 16, 32, 64::nat} \<Longrightarrow> (i::nat) < 2 ^ bits \<Longrightarrow> i < W64"
  by (auto simp: W64_def)

lemma nil_item_tag: "t \<noteq> TBigInt \<Longrightarrow> nilOK ts \<Longrightarrow> nilKind ts \<noteq> Byte \<Longrightarrow> rlp (nil_item ts t) = kind_enc (nilKind ts) []"
  by (cases "nilKind ts") (auto simp: nil_item_def kind_enc_def)

lemma rt_BigInt: "rt ts TBigInt v \<Longrightarrow> \<exists>i. v = VBig i"
  by (cases "(ts, TBigInt, v)" rule: rt.cases) (auto simp: bytes_rt_def)

lemma length_elems: "list_all2 P es vs \<Longrightarrow> [] \<notin> set es \<Longrightarrow> length vs \<le> length (concat es)"
proof (induction es vs rule: list_all2_induct)
  case (Cons e es v vs)
  then have "1 \<le> length e" by (cases e) auto
  with Cons show ?case by simp
qed simp

lemma decode_encoded:
  "items ts t v = Ret xs \<Longrightarrow> rt ts t v \<Longrightarrow> writerErr t = None \<Longrightarrow> (tail ts \<longrightarrow> is_slice t) \<Longrightarrow>
     length (rlps xs) < W64 \<Longrightarrow> length (rlps xs) < fuel \<Longrightarrow> decodes fuel ts t (rlps xs) v"
  "items_elems t vs = Ret xs \<Longrightarrow> rt_elems t vs \<Longrightarrow> writerErr t = None \<Longrightarrow>
     length (rlps xs) < W64 \<Longrightarrow> length (rlps xs) < fuel \<Longrightarrow>
     \<exists>es. list_all2 (reads (decode_val fuel no_tags t)) es vs \<and> rlps xs = concat es \<and> [] \<notin> set es"
  "items_fields fs vs = Ret xs \<Longrightarrow> rt_fields fs vs \<Longrightarrow> (\<And>f ts t. (f, ts, t) \<in> set fs \<Longrightarrow> writerErr t = None) \<Longrightarrow>
     length (rlps xs) < W64 \<Longrightarrow> length (rlps xs) < fuel \<Longrightarrow>
     reads_rest (struct_fields ty (map (\<lambda>(f, fts, t). (f, decode_val fuel fts t)) fs)) (rlps xs) vs"
proof (induction ts t v and t vs and fs vs arbitrary: xs and xs and xs ty rule: items_items_elems_items_fields.induct)
  case (1 ts t b)
  then have xs: "xs = [Str b]" by (auto simp: items_bytes_def bytes_rt_def split: gotype.splits if_splits)
  with 1 have b: "length b < W64" using length_rlp_str by simp
  have "reads (decode_val fuel ts t) (rlp_str b) (VBytes b)"
    using 1 by (cases t) (auto simp: bytes_rt_def b intro!: reads_map reads_wrapping reads_Bytes reads_ByteArray)
  with xs b show ?case by (simp add: decodesI full_enc_str)
next
  case (2 ts t i)
  then have xs: "xs = [Str (be_bytes (nat i))]" "0 \<le> i" "t = TBigInt" by (auto split: if_splits)
  with 2 have b: "length (be_bytes (nat i)) < W64" using length_rlp_str by simp
  from xs b show ?case by (auto intro!: decodesI reads_map reads_BigInt full_enc_str)
next
  case (3 ts t)
  then obtain e where t: "t = TPtr e" "e \<noteq> TBigInt" "nilOK ts" "nilKind ts \<noteq> Byte" "xs = [nil_item ts e]"
    by (auto split: gotype.splits)
  have "full_enc (kind_enc (nilKind ts) [])"
    using t(4) by (auto simp: full_enc_def kind_ok_def W64_def intro!: exI [of _ "nilKind ts"] exI [of _ "[]"])
  with t show ?case by (auto simp: nil_item_tag intro!: decodesI reads_NilPtr_nil)
next
  case (4 ts t v)
  then obtain e where t: "t = TPtr e" "items no_tags e v = Ret xs" "rt no_tags e v" "writerErr e = None"
    and nz: "nilOK ts \<and> e \<noteq> TBigInt \<longrightarrow> rlps xs \<noteq> rlp_str [] \<and> rlps xs \<noteq> rlp_list []"
    by (auto split: gotype.splits)
  with 4 have "decodes fuel no_tags e (rlps xs) v" by (auto split: gotype.splits)
  then have r: "reads (decode_val fuel no_tags e) (rlps xs) v" "full_enc (rlps xs)" by (simp_all add: decodes_def)
  show ?case
  proof (cases "e = TBigInt")
    case True
    then obtain i where v: "v = VBig i" using t(3) rt_BigInt by blast
    with t(2) True have xs: "xs = [Str (be_bytes (nat i))]" "0 \<le> i" by (auto split: if_splits)
    with 4(6) have "length (be_bytes (nat i)) < W64" using length_rlp_str by simp
    with xs v True t(1) show ?thesis by (auto intro!: decodesI reads_map reads_BigInt full_enc_str)
  next
    case False
    then show ?thesis using t r nz peeks_decode [OF t(4), of no_tags fuel] 4(7)
      by (auto intro!: decodesI reads_map reads_NilPtr_some)
  qed
next
  case (5 ts t i)
  then obtain bits where b: "bits \<in> {8, 16, 32, 64}" "t = TUint bits" "i < 2 ^ bits" by (simp only: rt.simps bex_simps) blast
  have xs: "xs = [Str (be_bytes i)]" using 5(1) by (auto split: if_splits)
  have "reads (decode_val fuel ts t) (rlp_str (be_bytes i)) (VUint i)"
    unfolding b(2) decode_val.simps
    by (rule reads_map [OF reads_wrapping [OF reads_uint [OF W64_bits [OF b(1,3)] be_bytes_bits [OF b(1,3)]]]])
  moreover have "full_enc (rlp_str (be_bytes i))"
    using length_be_bytes_W64 [OF W64_bits [OF b(1,3)]] by (intro full_enc_str) (simp add: W64_def)
  ultimately show ?case using xs by (simp add: decodesI)
next
  case (6 ts t b)
  then have t: "t = TBool" "xs = [Str (if b then [1] else [])]" by (auto split: if_splits)
  have "reads (decode_val fuel ts t) (rlp_str (if b then [1] else [])) (VBool b)"
    unfolding t decode_val.simps by (rule reads_map [OF reads_wrapping [OF reads_Bool]])
  moreover have "full_enc (rlp_str (if b then [1] else []))" by (intro full_enc_str) (simp add: W64_def)
  ultimately have "decodes fuel ts t (rlp_str (if b then [1] else [])) (VBool b)" by (rule decodesI)
  then show ?case unfolding t by simp
next
  case (7 ts t vs)
  show ?case
  proof (cases t)
    case (TSlice e)
    with 7 obtain ys where ys: "items_elems e vs = Ret ys" "xs = (if tail ts then ys else [Items ys])" "rt_elems e vs" "\<not> isByte e" "writerErr e = None"
      by (auto simp: outcome_simps split: if_splits)
    with "7.prems"(5) have l: "length (rlps ys) < W64" by (cases "tail ts") (auto dest: length_rlp_list)
    from ys "7.prems"(6) have f: "length (rlps ys) < fuel" by (cases "tail ts") (auto simp: rlp_list_def)
    obtain es where
      es: "list_all2 (reads (decode_val fuel no_tags e)) es vs" "rlps ys = concat es" "[] \<notin> set es"
      using "7.IH"(1,2) [OF TSlice ys(4) _ ys(1) ys(3) ys(5) l f] by (cases "tail ts") blast+
    have eol: "eol (decode_val fuel no_tags e)" using ys(5) f by (intro eol_decode) auto
    have n: "length vs \<le> length (concat es)" using es(1,3) by (rule length_elems)
    show ?thesis
    proof (cases "tail ts")
      case True
      have "reads_rest (decode_val fuel ts t) (rlps xs) (VList vs)"
        using TSlice True ys es eol n f by (auto intro!: reads_rest_map reads_rest_elems)
      with True show ?thesis by (simp add: decodes_def)
    next
      case False
      with TSlice ys es eol l f show ?thesis
        by (auto intro!: decodesI reads_map reads_ListSlice full_enc_list)
    qed
  next
    case (TArray n e)
    then have nt: "\<not> tail ts" using "7.prems"(4) by (simp add: is_slice_def)
    with TArray 7 obtain ys where ys: "items_elems e vs = Ret ys" "xs = [Items ys]" "rt_elems e vs" "\<not> isByte e" "writerErr e = None" "length vs = n"
      by (auto simp: outcome_simps split: if_splits)
    with "7.prems"(5) have l: "length (rlps ys) < W64" by (auto dest: length_rlp_list)
    from ys "7.prems"(6) have f: "length (rlps ys) < fuel" by (auto simp: rlp_list_def)
    obtain es where
      es: "list_all2 (reads (decode_val fuel no_tags e)) es vs" "rlps ys = concat es" "[] \<notin> set es"
      using "7.IH"(4) [OF TArray ys(4) nt ys(1) ys(3) ys(5) l f] by blast
    with TArray ys l nt show ?thesis by (auto intro!: decodesI reads_map reads_ListArray full_enc_list)
  qed (use 7 in auto)
next
  case (8 ts t vs)
  then obtain name fs where t: "t = TStruct name fs" by (auto split: gotype.splits)
  with 8 obtain ys where ys: "items_fields fs vs = Ret ys" "xs = [Items ys]" "rt_fields fs vs" by (auto simp: outcome_simps)
  with 8 have l: "length (rlps ys) < W64" by (auto dest: length_rlp_list)
  from ys 8 have f: "length (rlps ys) < fuel" by (auto simp: rlp_list_def)
  have "reads_rest (struct_fields ty (map (\<lambda>(f, fts, t). (f, decode_val fuel fts t)) fs)) (rlps ys) vs" for ty
    using "8.IH" [OF t ys(1) ys(3) _ l f] "8.prems"(3) t writerErr_struct by blast
  with t ys l show ?case by (auto intro!: decodesI reads_map reads_Struct full_enc_list)
next
  case (9 ts t)
  then show ?case by simp
next
  case (10 ts t e v)
  then show ?case by simp
next
  case (11 t)
  then show ?case by (intro exI [of _ "[]"]) simp
next
  case (12 t v vs)
  then obtain ys zs where ys: "items no_tags t v = Ret ys" "items_elems t vs = Ret zs" "xs = ys @ zs" by (auto simp: outcome_simps)
  with 12 have "decodes fuel no_tags t (rlps ys) v" by simp
  then have r: "reads (decode_val fuel no_tags t) (rlps ys) v" "full_enc (rlps ys)" by (simp_all add: decodes_def)
  moreover from "12.IH"(2) [OF ys(2)] "12.prems" ys obtain es where
    "list_all2 (reads (decode_val fuel no_tags t)) es vs" "rlps zs = concat es" "[] \<notin> set es" by auto
  ultimately show ?case using ys(3) full_enc_not_Nil [of "rlps ys"] by (intro exI [of _ "rlps ys # es"]) auto
next
  case (13 fs)
  then show ?case by (auto split: if_splits intro!: reads_rest_reads reads_sret)
next
  case (14 fs v vs)
  then obtain f ts t fs' where fs: "fs = (f, ts, t) # fs'" by (auto split: list.splits)
  with 14 obtain ys zs where ys: "items ts t v = Ret ys" "items_fields fs' vs = Ret zs" "xs = ys @ zs" by (auto simp: outcome_simps)
  have w: "writerErr t = None" and w': "\<And>f ts t. (f, ts, t) \<in> set fs' \<Longrightarrow> writerErr t = None" using "14.prems"(3) fs by auto
  have d: "decodes fuel ts t (rlps ys) v" using "14.IH"(1) [OF fs refl refl ys(1)] "14.prems" fs ys w by auto
  have rest: "reads_rest (struct_fields ty (map (\<lambda>(f, fts, t). (f, decode_val fuel fts t)) fs')) (rlps zs) vs"
    using "14.IH"(2) [OF fs refl refl ys(2)] "14.prems" fs ys w' by auto
  have eq: "struct_fields ty (map (\<lambda>(f, fts, t). (f, decode_val fuel fts t)) fs) =
      sbind (stry (decode_val fuel ts t)) (\<lambda>r. case r of
         Inl err \<Rightarrow> if err = ErrEOL then slift (Err (DecodeError ''too few elements'' ty [])) else slift (Err (addErrorContext err (InField f)))
       | Inr v \<Rightarrow> sbind (struct_fields ty (map (\<lambda>(f, fts, t). (f, decode_val fuel fts t)) fs')) (\<lambda>vs. sret (v # vs)))"
    by (simp add: fs)
  show ?case
  proof (cases "tail ts")
    case True
    with "14.prems"(2) fs have "fs' = []" by auto
    with ys have z: "vs = []" "zs = []" using "14.prems"(2) fs by (cases vs; auto)+
    from d True have "reads_rest (decode_val fuel ts t) (rlps ys) v" by (simp add: decodes_def)
    with z ys(3) have "reads_rest (decode_val fuel ts t) (rlps xs) v" by simp
    then show ?thesis unfolding eq using z \<open>fs' = []\<close>
      by (intro reads_rest_end) (simp_all add: sbind_def sret_def)
  next
    case False
    with d have "reads (decode_val fuel ts t) (rlps ys) v" by (simp add: decodes_def)
    with rest ys(3) show ?thesis unfolding eq
      by (auto intro!: reads_rest_sbind [OF reads_stry] reads_rest_map)
  qed
qed

section \<open>The codec\<close>

text \<open>The values of type \<open>t\<close> that the decoder gives back, as a predicate that computes.\<close>

definition rlp_valid :: "gotype \<Rightarrow> goval \<Rightarrow> bool" where
  "rlp_valid t v \<longleftrightarrow>
     writerErr t = None \<and> rt no_tags t v \<and> (case items no_tags t v of Ret xs \<Rightarrow> length (rlps xs) < W64 | _ \<Rightarrow> False)"

lemma rlp_validD:
  assumes "rlp_valid t v"
  shows "\<exists>e. EncodeToBytes t v = Ret e \<and> full_enc e \<and> (\<forall>fuel. length e < fuel \<longrightarrow> reads (decode_val fuel no_tags t) e v)"
proof -
  from assms obtain xs where xs: "items no_tags t v = Ret xs" "length (rlps xs) < W64" and t: "writerErr t = None" "rt no_tags t v"
    by (auto simp: rlp_valid_def split: outcome.splits)
  have "EncodeToBytes t v = Ret (rlps xs)"
    using encode_written [OF t(1) xs] toBytes_written by (auto simp: EncodeToBytes_def)
  moreover have "decodes fuel no_tags t (rlps xs) v" if "length (rlps xs) < fuel" for fuel
    using decode_encoded(1) [OF xs(1) t(2,1) _ xs(2) that] by simp
  ultimately show ?thesis by (force simp: decodes_def)
qed

lemma DecodeBytes_reads:
  assumes "writerErr t = None" and "reads (decode_val fuel no_tags t) b v"
  shows "DecodeBytes fuel t b = Ret v"
proof -
  have "before b (stream_Reset b (length b))" by (auto simp: before_def stream_Reset_def fits_def)
  from readsD [OF assms(2) this] obtain s' where "decode_val fuel no_tags t (stream_Reset b (length b)) = (Ret v, s')"
      "core s' = core (eat (length b) (stream_Reset b (length b)))"
    by blast
  then show ?thesis
    using assms(1) by (simp add: DecodeBytes_def stream_Decode_def sbind_def stry_def sret_def core_def stream_Reset_def)
qed

text \<open>
  C30: decoding undoes encoding: a value built from unsigned integers, big integers, booleans, texts,
  byte strings, slices, arrays, structures and pointers comes back from the bytes that
  \<open>EncodeToBytes\<close> made of it. Any fuel above the length of the data is enough, so the decoder ends.
  The values (\<open>rlp_valid\<close>) fit their type; excluded are, although they encode, an array of the one
  byte zero, interface values, nil pointers without a tag that restores them, and pointers with such a tag to
  a value whose encoding is empty.
\<close>

theorem DecodeBytes_EncodeToBytes:
  assumes "rlp_valid t v" and "EncodeToBytes t v = Ret b" and "length b < fuel"
  shows "DecodeBytes fuel t b = Ret v"
proof -
  from rlp_validD [OF assms(1)] assms(2,3) have "reads (decode_val fuel no_tags t) b v" by auto
  with assms(1) show ?thesis by (intro DecodeBytes_reads) (auto simp: rlp_valid_def)
qed

definition sample_tuple :: gotype where
  "sample_tuple = TStruct ''AccessTuple'' [(''Address'', no_tags, TArray 3 (TUint 8)), (''Nonce'', no_tags, TUint 64),
     (''To'', \<lparr>nilOK = True, nilKind = String, tail = False\<rparr>, TPtr (TArray 2 (TUint 8))), (''Keys'', no_tags, TSlice (TPtr TBigInt))]"

definition sample_tuple_val :: goval where
  "sample_tuple_val = VStruct [VBytes [1, 2, 3], VUint 300, VPtr None, VList [VPtr (Some (VBig 7)), VPtr (Some (VBig 0))]]"

theorem DecodeBytes_EncodeToBytes_witness:
  "DecodeBytes 20 sample_tuple [0xCB, 0x83, 1, 2, 3, 0x82, 1, 44, 0x80, 0xC2, 7, 0x80] = Ret sample_tuple_val"
proof -
  let ?xs = "[Items [Str [1, 2, 3], Str [1, 44], Str [], Items [Str [7], Str []]]]"
  have i: "items no_tags sample_tuple sample_tuple_val = Ret ?xs"
    by (simp add: sample_tuple_def sample_tuple_val_def isUint_def isByte_def W64_def nil_item_def items_bytes_def be_bytes_step no_tags_def)
  have b: "rlps ?xs = [0xCB, 0x83, 1, 2, 3, 0x82, 1, 44, 0x80, 0xC2, 7, 0x80]"
    by (simp add: rlp_list_def rlp_str_def rlp_head_def word_le_nat_alt)
  have w: "writerErr sample_tuple = None" by (simp add: sample_tuple_def)
  have "rt no_tags sample_tuple sample_tuple_val"
    by (simp add: sample_tuple_def sample_tuple_val_def isByte_def bytes_rt_def no_tags_def)
  then have v: "rlp_valid sample_tuple sample_tuple_val" using i b w by (simp add: rlp_valid_def W64_def)
  have "EncodeToBytes sample_tuple sample_tuple_val = Ret (rlps ?xs)"
    using encode_written [OF w i] b toBytes_written by (auto simp: EncodeToBytes_def W64_def)
  with DecodeBytes_EncodeToBytes [OF v this, of 20] b show ?thesis by simp
qed

definition rlp_bytes :: "gotype \<Rightarrow> goval \<Rightarrow> bytes" where
  "rlp_bytes t v = (case EncodeToBytes t v of Ret b \<Rightarrow> b | _ \<Rightarrow> [])"

interpretation rlp: codec "rlp_bytes t" "\<lambda>b. DecodeBytes (Suc (length b)) t b" "rlp_valid t" for t
proof unfold_locales
  fix v assume v: "rlp_valid t v"
  from rlp_validD [OF v] v show "DecodeBytes (Suc (length (rlp_bytes t v))) t (rlp_bytes t v) = Ret v"
    by (intro DecodeBytes_reads) (auto simp: rlp_bytes_def rlp_valid_def)
qed

section \<open>A decoder that does not end\<close>

text \<open>
  \<open>decodeByteArray\<close> ignores the error of \<open>s.Uint()\<close> for the byte 0, which leaves the kind cached:
  the same byte is decoded again and again.
\<close>

lemma one_byte_array_stuck:
  assumes "s_kind s = Some Byte" and "kinderr s = None" and "byteval s = 0"
  shows "decode_val fuel no_tags (TArray 1 (TUint 8)) s = (Ret (VBytes [0]), s)"
  using assms stream_Kind_cached [OF assms(1,2)]
  by (simp add: isByte_def decodeByteArray_def stream_uint_def stream_steps)

lemma elems_stuck:
  assumes "s_kind s = Some Byte" and "kinderr s = None" and "byteval s = 0"
  shows "decodeSliceElems fuel (decode_val k no_tags (TArray 1 (TUint 8))) i s = (Err NonTerminating, s)"
  using one_byte_array_stuck [OF assms]
  by (induction fuel arbitrary: i) (simp_all add: stream_steps del: decode_val.simps)

text \<open>
  C31: decoding the two bytes \<open>c1 00\<close>, which encode a slice of one array of one zero byte, into a
  slice of one-byte arrays never ends: it uses up any fuel.
\<close>

theorem one_byte_arrays_never_end: "DecodeBytes fuel (TSlice (TArray 1 (TUint 8))) [0xC1, 0] = Err NonTerminating"
proof -
  let ?s0 = "stream_Reset [0xC1, 0] 2"
  let ?s1 = "\<lparr>input = [0], remaining = 1, limited = True, s_kind = None, s_size = 0, byteval = 0, kinderr = None, stack = [\<lparr>pos = 0, lp_size = 1\<rparr>]\<rparr>"
  let ?s2 = "\<lparr>input = [], remaining = 0, limited = True, s_kind = Some Byte, s_size = 0, byteval = 0, kinderr = None, stack = [\<lparr>pos = 1, lp_size = 1\<rparr>]\<rparr>"
  have L: "stream_List ?s0 = (Ret 1, ?s1)"
    by (simp add: stream_List_def stream_Kind_def readKind_def readByte_def willRead_def rearm_def stream_steps stream_Reset_def word_less_nat_alt)
  have K: "stream_Kind ?s1 = (Ret (Byte, 0), ?s2)"
    by (simp add: stream_Kind_def readKind_def readByte_def willRead_def rearm_def stream_steps word_less_nat_alt u64_sub_def u64_add_def W64_def)
  then have A: "decode_val k no_tags (TArray 1 (TUint 8)) ?s1 = (Ret (VBytes [0]), ?s2)" for k
    using stream_Kind_cached [of ?s2 Byte] by (simp add: isByte_def decodeByteArray_def stream_uint_def stream_steps)
  have "\<exists>s'. decodeSliceElems fuel (decode_val fuel no_tags (TArray 1 (TUint 8))) 0 ?s1 = (Err NonTerminating, s')"
  proof (cases fuel)
    case (Suc f)
    then show ?thesis using A [of fuel] elems_stuck [of ?s2 f fuel 1] by (simp add: stream_steps del: decode_val.simps)
  qed (simp add: stream_steps)
  then obtain s' where E: "decodeSliceElems fuel (decode_val fuel no_tags (TArray 1 (TUint 8))) 0 ?s1 = (Err NonTerminating, s')" by blast
  have "wrapping (TSlice (TArray 1 (TUint 8))) stream_List ?s0 = (Ret 1, ?s1)" using L by (rule wrapping_Ret)
  with E have "decodeListSlice fuel (TSlice (TArray 1 (TUint 8))) (decode_val fuel no_tags (TArray 1 (TUint 8))) ?s0 = (Err NonTerminating, s')"
    by (simp add: decodeListSlice_def sbind_def del: decode_val.simps)
  then have "decode_val fuel no_tags (TSlice (TArray 1 (TUint 8))) ?s0 = (Err NonTerminating, s')"
    by (subst decode_val.simps) (simp add: isByte_def sbind_def del: decode_val.simps)
  then show ?thesis
    by (simp add: DecodeBytes_def stream_Decode_def sbind_def stry_def slift_def numeral_2_eq_2 del: decode_val.simps)
qed

end
