(* ===== verification/Transactions.thy ===== *)
theory Transactions
  imports RlpStream Common
begin

text \<open>
  Ethereum transactions (\<open>types/transaction.go\<close>, \<open>txdata.go\<close>, \<open>transaction_signing.go\<close>,
  \<open>transaction_hash.go\<close> and \<open>ValidateSignatureValues\<close> of \<open>tools/crypto/crypto.go\<close>): construction,
  the binary forms over the RLP codec, the signers and the recovery of the sender. Keccak and the
  recovery of public keys, which other packages provide, are the fields of \<open>crypto_lib\<close>. Big
  integers are values: nothing changes one that is shared. The cached size is left out; a nil
  pointer that is dereferenced is a \<open>Panic\<close>.
\<close>

section \<open>Transaction data\<close>

record crypto_lib =
  keccak256 :: "bytes \<Rightarrow> bytes"
  Ecrecover :: "bytes \<Rightarrow> bytes \<Rightarrow> string + bytes"

datatype tx_error =
    ErrInvalidChainID
  | ErrInvalidSig
  | ErrTxTypeNotSupported
  | errEmptyTypedTx
  | InvalidPublicKey
  | RecoverError string
  | EncodeError enc_error
  | DecodeErr rlp_error

definition tx_deref :: "'a option \<Rightarrow> ('e, 'a) outcome" where
  "tx_deref p = (case p of None \<Rightarrow> Panic | Some x \<Rightarrow> Ret x)"

definition LegacyTxType :: nat where "LegacyTxType = 0"
definition AccessListTxType :: nat where "AccessListTxType = 1"
definition DynamicFeeTxType :: nat where "DynamicFeeTxType = 2"

lemmas tx_types = LegacyTxType_def AccessListTxType_def DynamicFeeTxType_def

record AccessTuple =
  at_Address :: Address
  at_StorageKeys :: "Hash list"

record txdata =
  td_Type :: nat
  td_AccountNonce :: nat
  td_Price :: "int option"
  td_MaxPriorityFeePerGas :: "int option"
  td_MaxFeePerGas :: "int option"
  td_GasLimit :: nat
  td_Recipient :: "Address option"
  td_Amount :: "int option"
  td_Payload :: bytes
  td_V :: "int option"
  td_R :: "int option"
  td_S :: "int option"
  td_ChainID :: "int option"
  td_AccessList :: "AccessTuple list"

record LegacyTx =
  lt_Nonce :: nat
  lt_GasPrice :: "int option"
  lt_Gas :: nat
  lt_To :: "Address option"
  lt_Value :: "int option"
  lt_Data :: bytes
  lt_V :: "int option"
  lt_R :: "int option"
  lt_S :: "int option"

record AccessListTx =
  al_ChainID :: "int option"
  al_Nonce :: nat
  al_GasPrice :: "int option"
  al_Gas :: nat
  al_To :: "Address option"
  al_Value :: "int option"
  al_Data :: bytes
  al_AccessList :: "AccessTuple list"
  al_V :: "int option"
  al_R :: "int option"
  al_S :: "int option"

record DynamicFeeTx =
  df_ChainID :: "int option"
  df_Nonce :: nat
  df_GasTipCap :: "int option"
  df_GasFeeCap :: "int option"
  df_Gas :: nat
  df_To :: "Address option"
  df_Value :: "int option"
  df_Data :: bytes
  df_AccessList :: "AccessTuple list"
  df_V :: "int option"
  df_R :: "int option"
  df_S :: "int option"

definition toLegacyTx :: "txdata \<Rightarrow> LegacyTx" where
  "toLegacyTx d =
     \<lparr>lt_Nonce = td_AccountNonce d, lt_GasPrice = td_Price d, lt_Gas = td_GasLimit d, lt_To = td_Recipient d,
      lt_Value = td_Amount d, lt_Data = td_Payload d, lt_V = td_V d, lt_R = td_R d, lt_S = td_S d\<rparr>"

definition toAccessListTx :: "txdata \<Rightarrow> AccessListTx" where
  "toAccessListTx d =
     \<lparr>al_ChainID = td_ChainID d, al_Nonce = td_AccountNonce d, al_GasPrice = td_Price d, al_Gas = td_GasLimit d,
      al_To = td_Recipient d, al_Value = td_Amount d, al_Data = td_Payload d, al_AccessList = td_AccessList d,
      al_V = td_V d, al_R = td_R d, al_S = td_S d\<rparr>"

definition toDynamicFeeTx :: "txdata \<Rightarrow> DynamicFeeTx" where
  "toDynamicFeeTx d =
     \<lparr>df_ChainID = td_ChainID d, df_Nonce = td_AccountNonce d, df_GasTipCap = td_MaxPriorityFeePerGas d,
      df_GasFeeCap = td_MaxFeePerGas d, df_Gas = td_GasLimit d, df_To = td_Recipient d, df_Value = td_Amount d,
      df_Data = td_Payload d, df_AccessList = td_AccessList d, df_V = td_V d, df_R = td_R d, df_S = td_S d\<rparr>"

text \<open>Fields that a composite literal leaves out have their zero values.\<close>

definition txdata_zero :: txdata where
  "txdata_zero =
     \<lparr>td_Type = 0, td_AccountNonce = 0, td_Price = None, td_MaxPriorityFeePerGas = None, td_MaxFeePerGas = None,
      td_GasLimit = 0, td_Recipient = None, td_Amount = None, td_Payload = [], td_V = None, td_R = None, td_S = None,
      td_ChainID = None, td_AccessList = []\<rparr>"

definition LegacyTx_getTxData :: "LegacyTx \<Rightarrow> txdata" where
  "LegacyTx_getTxData tx =
     txdata_zero\<lparr>td_Type := LegacyTxType, td_AccountNonce := lt_Nonce tx, td_Price := lt_GasPrice tx,
      td_GasLimit := lt_Gas tx, td_Recipient := lt_To tx, td_Amount := lt_Value tx, td_Payload := lt_Data tx,
      td_V := lt_V tx, td_R := lt_R tx, td_S := lt_S tx\<rparr>"

definition AccessListTx_getTxData :: "AccessListTx \<Rightarrow> txdata" where
  "AccessListTx_getTxData tx =
     txdata_zero\<lparr>td_Type := AccessListTxType, td_ChainID := al_ChainID tx, td_AccountNonce := al_Nonce tx,
      td_Price := al_GasPrice tx, td_GasLimit := al_Gas tx, td_Recipient := al_To tx, td_Amount := al_Value tx,
      td_Payload := al_Data tx, td_AccessList := al_AccessList tx, td_V := al_V tx, td_R := al_R tx, td_S := al_S tx\<rparr>"

definition DynamicFeeTx_getTxData :: "DynamicFeeTx \<Rightarrow> txdata" where
  "DynamicFeeTx_getTxData tx =
     txdata_zero\<lparr>td_Type := DynamicFeeTxType, td_ChainID := df_ChainID tx, td_AccountNonce := df_Nonce tx,
      td_MaxPriorityFeePerGas := df_GasTipCap tx, td_MaxFeePerGas := df_GasFeeCap tx, td_GasLimit := df_Gas tx,
      td_Recipient := df_To tx, td_Amount := df_Value tx, td_Payload := df_Data tx, td_AccessList := df_AccessList tx,
      td_V := df_V tx, td_R := df_R tx, td_S := df_S tx\<rparr>"

section \<open>Construction and access\<close>

text \<open>\<open>new(big.Int)\<close>, set to \<open>x\<close> unless that is nil.\<close>

definition set_big :: "int option \<Rightarrow> int option" where
  "set_big x = (case x of None \<Rightarrow> Some 0 | Some v \<Rightarrow> Some v)"

text \<open>The signers, with their chain ID; \<open>Equal\<close> is equality. The caches are empty at first.\<close>

datatype Signer = LondonSigner int | EIP2930Signer int | EIP155Signer int | HomesteadSigner | FrontierSigner

record Transaction =
  tx_data :: txdata
  tx_hash :: "Hash option"
  tx_from :: "(Signer \<times> Address) option"

definition fresh_tx :: "txdata \<Rightarrow> Transaction" where
  "fresh_tx d = \<lparr>tx_data = d, tx_hash = None, tx_from = None\<rparr>"

definition newTransaction :: "nat \<Rightarrow> Address option \<Rightarrow> int option \<Rightarrow> nat \<Rightarrow> int option \<Rightarrow> bytes \<Rightarrow> Transaction" where
  "newTransaction nonce to amount gasLimit gasPrice data =
     fresh_tx (txdata_zero\<lparr>td_AccountNonce := nonce, td_Recipient := to, td_Payload := data, td_Amount := set_big amount,
       td_GasLimit := gasLimit, td_Price := set_big gasPrice, td_V := Some 0, td_R := Some 0, td_S := Some 0\<rparr>)"

definition NewTransaction :: "nat \<Rightarrow> Address \<Rightarrow> int option \<Rightarrow> nat \<Rightarrow> int option \<Rightarrow> bytes \<Rightarrow> Transaction" where
  "NewTransaction nonce to amount gasLimit gasPrice data = newTransaction nonce (Some to) amount gasLimit gasPrice data"

definition NewContractCreation :: "nat \<Rightarrow> int option \<Rightarrow> nat \<Rightarrow> int option \<Rightarrow> bytes \<Rightarrow> Transaction" where
  "NewContractCreation nonce amount gasLimit gasPrice data = newTransaction nonce None amount gasLimit gasPrice data"

definition NewDynamicFeeTx :: "int option \<Rightarrow> nat \<Rightarrow> Address option \<Rightarrow> int option \<Rightarrow> nat \<Rightarrow> int option \<Rightarrow> int option \<Rightarrow> bytes \<Rightarrow>
    AccessTuple list \<Rightarrow> Transaction" where
  "NewDynamicFeeTx chainID nonce to amount gasLimit gasTipCap gasFeeCap data accessList =
     fresh_tx (DynamicFeeTx_getTxData
       \<lparr>df_ChainID = set_big chainID, df_Nonce = nonce, df_GasTipCap = set_big gasTipCap, df_GasFeeCap = set_big gasFeeCap,
        df_Gas = gasLimit, df_To = to, df_Value = set_big amount, df_Data = data, df_AccessList = accessList,
        df_V = Some 0, df_R = Some 0, df_S = Some 0\<rparr>)"

text \<open>\<open>Uint64\<close> takes the low word of the absolute value.\<close>

definition big_Uint64 :: "int \<Rightarrow> nat" where
  "big_Uint64 x = nat \<bar>x\<bar> mod W64"

definition isProtectedV :: "int \<Rightarrow> bool" where
  "isProtectedV rsvV =
     (if big_BitLen rsvV \<le> 8 then let v = big_Uint64 rsvV in v \<noteq> 27 \<and> v \<noteq> 28 else True)"

definition Protected :: "Transaction \<Rightarrow> ('e, bool) outcome" where
  "Protected tx = obind (tx_deref (td_V (tx_data tx))) (\<lambda>v. Ret (isProtectedV v))"

definition deriveChainID :: "int \<Rightarrow> int" where
  "deriveChainID v =
     (if big_BitLen v \<le> 64 then
        let v = big_Uint64 v in if v = 27 \<or> v = 28 then 0 else int (u64_sub v 35 div 2)
      else big_Div (v - 35) 2)"

definition tx_ChainID :: "Transaction \<Rightarrow> ('e, int) outcome" where
  "tx_ChainID tx =
     (if td_Type (tx_data tx) = LegacyTxType then obind (tx_deref (td_V (tx_data tx))) (\<lambda>v. Ret (deriveChainID v))
      else tx_deref (td_ChainID (tx_data tx)))"

definition tx_Data :: "Transaction \<Rightarrow> bytes" where "tx_Data tx = td_Payload (tx_data tx)"
definition tx_Gas :: "Transaction \<Rightarrow> nat" where "tx_Gas tx = td_GasLimit (tx_data tx)"
definition tx_Nonce :: "Transaction \<Rightarrow> nat" where "tx_Nonce tx = td_AccountNonce (tx_data tx)"
definition tx_To :: "Transaction \<Rightarrow> Address option" where "tx_To tx = td_Recipient (tx_data tx)"
definition tx_Value :: "Transaction \<Rightarrow> ('e, int) outcome" where "tx_Value tx = tx_deref (td_Amount (tx_data tx))"
definition tx_GasPrice :: "Transaction \<Rightarrow> ('e, int) outcome" where "tx_GasPrice tx = tx_deref (td_Price (tx_data tx))"
definition tx_GasTipCap :: "Transaction \<Rightarrow> int option" where "tx_GasTipCap tx = td_MaxPriorityFeePerGas (tx_data tx)"
definition tx_GasFeeCap :: "Transaction \<Rightarrow> int option" where "tx_GasFeeCap tx = td_MaxFeePerGas (tx_data tx)"
definition tx_AccessList :: "Transaction \<Rightarrow> AccessTuple list" where "tx_AccessList tx = td_AccessList (tx_data tx)"

text \<open>The cached hash is kept, also when the price changes.\<close>

definition SetGasPrice :: "Transaction \<Rightarrow> int \<Rightarrow> ('e, Transaction) outcome" where
  "SetGasPrice tx gasPrice =
     obind (tx_deref (td_Price (tx_data tx))) (\<lambda>_. Ret (tx\<lparr>tx_data := (tx_data tx)\<lparr>td_Price := Some gasPrice\<rparr>\<rparr>))"

definition Cost :: "Transaction \<Rightarrow> ('e, int) outcome" where
  "Cost tx =
     obind (tx_GasPrice tx) (\<lambda>price.
     obind (tx_Value tx) (\<lambda>amount. Ret (price * int (tx_Gas tx) + amount)))"

section \<open>RLP forms\<close>

definition AddressType :: gotype where "AddressType = TArray 20 (TUint 8)"
definition HashType :: gotype where "HashType = TArray 32 (TUint 8)"

definition AccessListType :: gotype where
  "AccessListType = TSlice (TStruct ''AccessTuple''
     [(''Address'', no_tags, AddressType), (''StorageKeys'', no_tags, TSlice HashType)])"

text \<open>The tag \<open>nil\<close> of a pointer to an address.\<close>

definition nil_tag :: tags where
  "nil_tag = \<lparr>nilOK = True, nilKind = defaultNilKind AddressType, tail = False\<rparr>"

definition LegacyTxRlp :: gotype where
  "LegacyTxRlp = TStruct ''LegacyTx''
     [(''Nonce'', no_tags, TUint 64), (''GasPrice'', no_tags, TPtr TBigInt), (''Gas'', no_tags, TUint 64),
      (''To'', nil_tag, TPtr AddressType), (''Value'', no_tags, TPtr TBigInt), (''Data'', no_tags, TSlice (TUint 8)),
      (''V'', no_tags, TPtr TBigInt), (''R'', no_tags, TPtr TBigInt), (''S'', no_tags, TPtr TBigInt)]"

definition AccessListTxRlp :: gotype where
  "AccessListTxRlp = TStruct ''AccessListTx''
     [(''ChainID'', no_tags, TPtr TBigInt), (''Nonce'', no_tags, TUint 64), (''GasPrice'', no_tags, TPtr TBigInt),
      (''Gas'', no_tags, TUint 64), (''To'', nil_tag, TPtr AddressType), (''Value'', no_tags, TPtr TBigInt),
      (''Data'', no_tags, TSlice (TUint 8)), (''AccessList'', no_tags, AccessListType),
      (''V'', no_tags, TPtr TBigInt), (''R'', no_tags, TPtr TBigInt), (''S'', no_tags, TPtr TBigInt)]"

definition DynamicFeeTxRlp :: gotype where
  "DynamicFeeTxRlp = TStruct ''DynamicFeeTx''
     [(''ChainID'', no_tags, TPtr TBigInt), (''Nonce'', no_tags, TUint 64), (''GasTipCap'', no_tags, TPtr TBigInt),
      (''GasFeeCap'', no_tags, TPtr TBigInt), (''Gas'', no_tags, TUint 64), (''To'', nil_tag, TPtr AddressType),
      (''Value'', no_tags, TPtr TBigInt), (''Data'', no_tags, TSlice (TUint 8)), (''AccessList'', no_tags, AccessListType),
      (''V'', no_tags, TPtr TBigInt), (''R'', no_tags, TPtr TBigInt), (''S'', no_tags, TPtr TBigInt)]"

text \<open>The values that reflection reads from and sets in these structures.\<close>

definition big_val :: "int option \<Rightarrow> goval" where
  "big_val p = VPtr (map_option VBig p)"

definition addr_val :: "Address option \<Rightarrow> goval" where
  "addr_val p = VPtr (map_option VBytes p)"

definition access_val :: "AccessTuple list \<Rightarrow> goval" where
  "access_val al = VList (map (\<lambda>t. VStruct [VBytes (at_Address t), VList (map VBytes (at_StorageKeys t))]) al)"

definition LegacyTx_val :: "LegacyTx \<Rightarrow> goval" where
  "LegacyTx_val t = VStruct
     [VUint (lt_Nonce t), big_val (lt_GasPrice t), VUint (lt_Gas t), addr_val (lt_To t), big_val (lt_Value t), VBytes (lt_Data t),
      big_val (lt_V t), big_val (lt_R t), big_val (lt_S t)]"

definition AccessListTx_val :: "AccessListTx \<Rightarrow> goval" where
  "AccessListTx_val t = VStruct
     [big_val (al_ChainID t), VUint (al_Nonce t), big_val (al_GasPrice t), VUint (al_Gas t), addr_val (al_To t),
      big_val (al_Value t), VBytes (al_Data t), access_val (al_AccessList t), big_val (al_V t), big_val (al_R t), big_val (al_S t)]"

definition DynamicFeeTx_val :: "DynamicFeeTx \<Rightarrow> goval" where
  "DynamicFeeTx_val t = VStruct
     [big_val (df_ChainID t), VUint (df_Nonce t), big_val (df_GasTipCap t), big_val (df_GasFeeCap t), VUint (df_Gas t),
      addr_val (df_To t), big_val (df_Value t), VBytes (df_Data t), access_val (df_AccessList t),
      big_val (df_V t), big_val (df_R t), big_val (df_S t)]"

definition uint_of :: "goval \<Rightarrow> nat" where
  "uint_of v = (case v of VUint n \<Rightarrow> n | _ \<Rightarrow> 0)"
definition bytes_of :: "goval \<Rightarrow> bytes" where
  "bytes_of v = (case v of VBytes b \<Rightarrow> b | _ \<Rightarrow> [])"
definition list_of :: "goval \<Rightarrow> goval list" where
  "list_of v = (case v of VList vs \<Rightarrow> vs | VStruct vs \<Rightarrow> vs | _ \<Rightarrow> [])"
definition big_of :: "goval \<Rightarrow> int option" where
  "big_of v = (case v of VPtr (Some (VBig i)) \<Rightarrow> Some i | _ \<Rightarrow> None)"
definition addr_of :: "goval \<Rightarrow> Address option" where
  "addr_of v = (case v of VPtr (Some (VBytes b)) \<Rightarrow> Some b | _ \<Rightarrow> None)"

definition access_of :: "goval \<Rightarrow> AccessTuple list" where
  "access_of v =
     map (\<lambda>t. \<lparr>at_Address = bytes_of (list_of t ! 0), at_StorageKeys = map bytes_of (list_of (list_of t ! 1))\<rparr>) (list_of v)"

definition LegacyTx_of :: "goval \<Rightarrow> LegacyTx" where
  "LegacyTx_of v =
     (let f = (\<lambda>i. list_of v ! i) in
      \<lparr>lt_Nonce = uint_of (f 0), lt_GasPrice = big_of (f 1), lt_Gas = uint_of (f 2), lt_To = addr_of (f 3), lt_Value = big_of (f 4),
       lt_Data = bytes_of (f 5), lt_V = big_of (f 6), lt_R = big_of (f 7), lt_S = big_of (f 8)\<rparr>)"

definition AccessListTx_of :: "goval \<Rightarrow> AccessListTx" where
  "AccessListTx_of v =
     (let f = (\<lambda>i. list_of v ! i) in
      \<lparr>al_ChainID = big_of (f 0), al_Nonce = uint_of (f 1), al_GasPrice = big_of (f 2), al_Gas = uint_of (f 3), al_To = addr_of (f 4),
       al_Value = big_of (f 5), al_Data = bytes_of (f 6), al_AccessList = access_of (f 7),
       al_V = big_of (f 8), al_R = big_of (f 9), al_S = big_of (f 10)\<rparr>)"

definition DynamicFeeTx_of :: "goval \<Rightarrow> DynamicFeeTx" where
  "DynamicFeeTx_of v =
     (let f = (\<lambda>i. list_of v ! i) in
      \<lparr>df_ChainID = big_of (f 0), df_Nonce = uint_of (f 1), df_GasTipCap = big_of (f 2), df_GasFeeCap = big_of (f 3),
       df_Gas = uint_of (f 4), df_To = addr_of (f 5), df_Value = big_of (f 6), df_Data = bytes_of (f 7),
       df_AccessList = access_of (f 8), df_V = big_of (f 9), df_R = big_of (f 10), df_S = big_of (f 11)\<rparr>)"

section \<open>Binary encoding\<close>

fun lift_err :: "('e \<Rightarrow> 'f) \<Rightarrow> ('e, 'a) outcome \<Rightarrow> ('f, 'a) outcome" where
  "lift_err f (Ret a) = Ret a"
| "lift_err f (Err e) = Err (f e)"
| "lift_err f Panic = Panic"

definition encodeTyped :: "txdata \<Rightarrow> (tx_error, bytes) outcome" where
  "encodeTyped d =
     (let enc = (\<lambda>t v. lift_err EncodeError (Encode_to_writer (TPtr t) (VPtr (Some v))));
          r = (if td_Type d = AccessListTxType then enc AccessListTxRlp (AccessListTx_val (toAccessListTx d))
               else if td_Type d = DynamicFeeTxType then enc DynamicFeeTxRlp (DynamicFeeTx_val (toDynamicFeeTx d))
               else Err ErrTxTypeNotSupported)
      in obind r (\<lambda>b. Ret (of_nat (td_Type d) # b)))"

definition EncodeRLP :: "Transaction \<Rightarrow> encbuf \<Rightarrow> (tx_error, encbuf) outcome" where
  "EncodeRLP tx w =
     (if td_Type (tx_data tx) = LegacyTxType then
        lift_err EncodeError (encbuf_encode (TPtr LegacyTxRlp) (VPtr (Some (LegacyTx_val (toLegacyTx (tx_data tx))))) w)
      else
        obind (encodeTyped (tx_data tx)) (\<lambda>b. lift_err EncodeError (encbuf_encode (TSlice (TUint 8)) (VBytes b) w)))"

definition MarshalBinary :: "Transaction \<Rightarrow> (tx_error, bytes) outcome" where
  "MarshalBinary tx =
     (if td_Type (tx_data tx) = LegacyTxType then
        lift_err EncodeError (EncodeToBytes (TPtr LegacyTxRlp) (VPtr (Some (LegacyTx_val (toLegacyTx (tx_data tx))))))
      else encodeTyped (tx_data tx))"

definition decode_bytes :: "gotype \<Rightarrow> bytes \<Rightarrow> (tx_error, goval) outcome" where
  "decode_bytes t b = lift_err DecodeErr (DecodeBytes (Suc (length b)) t b)"

definition decodeTyped :: "bytes \<Rightarrow> (tx_error, txdata) outcome" where
  "decodeTyped b =
     (case b of
        [] \<Rightarrow> Err errEmptyTypedTx
      | b0 # rest \<Rightarrow>
          if unat b0 = AccessListTxType then
            obind (decode_bytes AccessListTxRlp rest) (\<lambda>v. Ret (AccessListTx_getTxData (AccessListTx_of v)))
          else if unat b0 = DynamicFeeTxType then
            obind (decode_bytes DynamicFeeTxRlp rest) (\<lambda>v. Ret (DynamicFeeTx_getTxData (DynamicFeeTx_of v)))
          else Err ErrTxTypeNotSupported)"

text \<open>\<open>setDecoded\<close> replaces the data; the caches of the receiver stay.\<close>

definition setDecoded :: "Transaction \<Rightarrow> txdata \<Rightarrow> Transaction" where
  "setDecoded tx inner = tx\<lparr>tx_data := inner\<rparr>"

definition UnmarshalBinary :: "Transaction \<Rightarrow> bytes \<Rightarrow> (tx_error, Transaction) outcome" where
  "UnmarshalBinary tx b =
     (if length b > 0 \<and> hd b > 0x7F then
        obind (decode_bytes LegacyTxRlp b) (\<lambda>v. Ret (setDecoded tx (LegacyTx_getTxData (LegacyTx_of v))))
      else obind (decodeTyped b) (\<lambda>d. Ret (setDecoded tx d)))"

text \<open>\<open>DecodeRLP\<close> and \<open>rlp.DecodeBytes\<close> into a transaction.\<close>

definition from_stream :: "'a streaming \<Rightarrow> (Stream, tx_error, 'a) stateful" where
  "from_stream m = (\<lambda>s. case m s of (r, s') \<Rightarrow> (lift_err DecodeErr r, s'))"

definition DecodeRLP :: "nat \<Rightarrow> Transaction \<Rightarrow> (Stream, tx_error, Transaction) stateful" where
  "DecodeRLP fuel tx =
     sbind (from_stream stream_Kind) (\<lambda>(k, _).
     if k = List then
       sbind (from_stream (stream_Decode fuel LegacyTxRlp)) (\<lambda>v. sret (setDecoded tx (LegacyTx_getTxData (LegacyTx_of v))))
     else if k = String then
       sbind (from_stream stream_Bytes) (\<lambda>b.
       sbind (slift (decodeTyped b)) (\<lambda>d. sret (setDecoded tx d)))
     else slift (Err (DecodeErr ErrExpectedList)))"

definition tx_DecodeBytes :: "bytes \<Rightarrow> (tx_error, Transaction) outcome" where
  "tx_DecodeBytes b =
     (case DecodeRLP (Suc (length b)) (fresh_tx txdata_zero) (stream_Reset b (length b)) of
        (Ret tx, s) \<Rightarrow> if length (input s) > 0 then Err (DecodeErr ErrMoreThanOneValue) else Ret tx
      | (Err e, s) \<Rightarrow> Err e
      | (Panic, s) \<Rightarrow> Panic)"

section \<open>Hashes\<close>

text \<open>The error of the encoder is ignored: then nothing is hashed after the prefix.\<close>

definition rlpHash :: "crypto_lib \<Rightarrow> gotype \<Rightarrow> goval \<Rightarrow> Hash" where
  "rlpHash c t v = keccak256 c (case Encode_to_writer t v of Ret b \<Rightarrow> b | _ \<Rightarrow> [])"

definition prefixedRlpHash :: "crypto_lib \<Rightarrow> byte \<Rightarrow> gotype \<Rightarrow> goval \<Rightarrow> Hash" where
  "prefixedRlpHash c p t v = keccak256 c (p # (case Encode_to_writer t v of Ret b \<Rightarrow> b | _ \<Rightarrow> []))"

definition Hash_of_data :: "crypto_lib \<Rightarrow> txdata \<Rightarrow> Hash" where
  "Hash_of_data c d =
     (if td_Type d = LegacyTxType then rlpHash c (TPtr LegacyTxRlp) (VPtr (Some (LegacyTx_val (toLegacyTx d))))
      else if td_Type d = AccessListTxType then
        prefixedRlpHash c (of_nat (td_Type d)) (TPtr AccessListTxRlp) (VPtr (Some (AccessListTx_val (toAccessListTx d))))
      else if td_Type d = DynamicFeeTxType then
        prefixedRlpHash c (of_nat (td_Type d)) (TPtr DynamicFeeTxRlp) (VPtr (Some (DynamicFeeTx_val (toDynamicFeeTx d))))
      else replicate HashLength 0)"

definition tx_Hash :: "crypto_lib \<Rightarrow> Transaction \<Rightarrow> Hash \<times> Transaction" where
  "tx_Hash c tx =
     (case tx_hash tx of
        Some h \<Rightarrow> (h, tx)
      | None \<Rightarrow>
          let h = Hash_of_data c (tx_data tx)
          in (h, if h \<noteq> replicate HashLength 0 then tx\<lparr>tx_hash := Some h\<rparr> else tx))"

text \<open>The values that a signer hashes, as a list of interface values.\<close>

definition boxed :: "(gotype \<times> goval) list \<Rightarrow> goval" where
  "boxed xs = VList (map (\<lambda>x. VInterface (Some x)) xs)"

definition common_fields :: "txdata \<Rightarrow> (gotype \<times> goval) list" where
  "common_fields d =
     [(TUint 64, VUint (td_AccountNonce d)), (TPtr TBigInt, big_val (td_Price d)), (TUint 64, VUint (td_GasLimit d)),
      (TPtr AddressType, addr_val (td_Recipient d)), (TPtr TBigInt, big_val (td_Amount d)), (TSlice (TUint 8), VBytes (td_Payload d))]"

definition FrontierSigner_Hash :: "crypto_lib \<Rightarrow> txdata \<Rightarrow> Hash" where
  "FrontierSigner_Hash c d = rlpHash c (TSlice TInterface) (boxed (common_fields d))"

definition EIP155Signer_Hash :: "crypto_lib \<Rightarrow> int \<Rightarrow> txdata \<Rightarrow> Hash" where
  "EIP155Signer_Hash c chainID d =
     rlpHash c (TSlice TInterface) (boxed (common_fields d @
       [(TPtr TBigInt, big_val (Some chainID)), (TUint 64, VUint 0), (TUint 64, VUint 0)]))"

definition eip2930Signer_Hash :: "crypto_lib \<Rightarrow> int \<Rightarrow> txdata \<Rightarrow> Hash" where
  "eip2930Signer_Hash c chainID d =
     (if td_Type d = LegacyTxType then EIP155Signer_Hash c chainID d
      else if td_Type d = AccessListTxType then
        prefixedRlpHash c (of_nat (td_Type d)) (TSlice TInterface) (boxed ((TPtr TBigInt, big_val (Some chainID)) # common_fields d @
          [(AccessListType, access_val (td_AccessList d))]))
      else replicate HashLength 0)"

definition londonSigner_Hash :: "crypto_lib \<Rightarrow> int \<Rightarrow> txdata \<Rightarrow> Hash" where
  "londonSigner_Hash c chainID d =
     (if td_Type d \<noteq> DynamicFeeTxType then eip2930Signer_Hash c chainID d
      else prefixedRlpHash c (of_nat (td_Type d)) (TSlice TInterface) (boxed
        [(TPtr TBigInt, big_val (Some chainID)), (TUint 64, VUint (td_AccountNonce d)),
         (TPtr TBigInt, big_val (td_MaxPriorityFeePerGas d)), (TPtr TBigInt, big_val (td_MaxFeePerGas d)),
         (TUint 64, VUint (td_GasLimit d)), (TPtr AddressType, addr_val (td_Recipient d)), (TPtr TBigInt, big_val (td_Amount d)),
         (TSlice (TUint 8), VBytes (td_Payload d)), (AccessListType, access_val (td_AccessList d))]))"

definition Signer_Hash :: "crypto_lib \<Rightarrow> Signer \<Rightarrow> txdata \<Rightarrow> Hash" where
  "Signer_Hash c s d =
     (case s of
        LondonSigner chainID \<Rightarrow> londonSigner_Hash c chainID d
      | EIP2930Signer chainID \<Rightarrow> eip2930Signer_Hash c chainID d
      | EIP155Signer chainID \<Rightarrow> EIP155Signer_Hash c chainID d
      | HomesteadSigner \<Rightarrow> FrontierSigner_Hash c d
      | FrontierSigner \<Rightarrow> FrontierSigner_Hash c d)"


section \<open>Signatures\<close>

definition SignatureLength :: nat where "SignatureLength = 65"

definition secp256k1N :: int where
  "secp256k1N = 0xfffffffffffffffffffffffffffffffebaaedce6af48a03bbfd25e8cd0364141"

definition secp256k1halfN :: int where
  "secp256k1halfN = big_Div secp256k1N 2"

definition ValidateSignatureValues :: "byte \<Rightarrow> int \<Rightarrow> int \<Rightarrow> bool \<Rightarrow> bool" where
  "ValidateSignatureValues v r s homestead =
     (if r < 1 \<or> s < 1 then False
      else if homestead \<and> s > secp256k1halfN then False
      else r < secp256k1N \<and> s < secp256k1N \<and> (v = 0 \<or> v = 1))"

definition decodeSignature :: "bytes \<Rightarrow> ('e, int \<times> int \<times> int) outcome" where
  "decodeSignature sig =
     (if length sig \<noteq> SignatureLength then Panic
      else Ret (big_SetBytes (take 32 sig), big_SetBytes (take 32 (drop 32 sig)), big_SetBytes [sig ! 64 + 27]))"

text \<open>The signature values may be nil; they are read after the check of \<open>rsvV\<close>.\<close>

definition recoverPlain :: "crypto_lib \<Rightarrow> Hash \<Rightarrow> int option \<Rightarrow> int option \<Rightarrow> int \<Rightarrow> bool \<Rightarrow> (tx_error, Address) outcome" where
  "recoverPlain c sighash R S rsvV homestead =
     (if big_BitLen rsvV > 8 then Err ErrInvalidSig
      else
        obind (tx_deref R) (\<lambda>rsvR. obind (tx_deref S) (\<lambda>rsvS.
        let v = (of_nat (u64_sub (big_Uint64 rsvV) 27) :: byte) in
        if \<not> ValidateSignatureValues v rsvR rsvS homestead then Err ErrInvalidSig
        else
          let r = big_Bytes rsvR; s = big_Bytes rsvS;
              sig = (copy_at (copy_at (replicate SignatureLength 0) (32 - length r) r) (64 - length s) s)[64 := v]
          in case Ecrecover c sighash sig of
               Inl err \<Rightarrow> Err (RecoverError err)
             | Inr pub \<Rightarrow>
                 if length pub = 0 \<or> hd pub \<noteq> 4 then Err InvalidPublicKey
                 else Ret (copy_at ZeroAddress 0 (drop 12 (keccak256 c (tl pub)))))))"

definition MakeSigner :: "string \<Rightarrow> int option \<Rightarrow> Signer" where
  "MakeSigner signType chainID =
     (let c = (case chainID of None \<Rightarrow> 0 | Some i \<Rightarrow> i) in
      if signType = ''London'' then LondonSigner c else EIP155Signer c)"

definition FrontierSigner_SignatureValues :: "txdata \<Rightarrow> bytes \<Rightarrow> (tx_error, int \<times> int \<times> int) outcome" where
  "FrontierSigner_SignatureValues d sig =
     (if td_Type d \<noteq> LegacyTxType then Err ErrTxTypeNotSupported else decodeSignature sig)"

definition EIP155Signer_SignatureValues :: "int \<Rightarrow> txdata \<Rightarrow> bytes \<Rightarrow> (tx_error, int \<times> int \<times> int) outcome" where
  "EIP155Signer_SignatureValues chainID d sig =
     obind (FrontierSigner_SignatureValues d sig) (\<lambda>(r, s, v).
     Ret (r, s, if chainID \<noteq> 0 then int (unat (sig ! 64 + 35)) + chainID * 2 else v))"

text \<open>The check of the chain ID and the values of a typed transaction.\<close>

definition typed_SignatureValues :: "int \<Rightarrow> txdata \<Rightarrow> bytes \<Rightarrow> (tx_error, int \<times> int \<times> int) outcome" where
  "typed_SignatureValues chainID d sig =
     (if (case td_ChainID d of None \<Rightarrow> False | Some i \<Rightarrow> i \<noteq> 0 \<and> i \<noteq> chainID) then Err ErrInvalidChainID
      else obind (decodeSignature sig) (\<lambda>(r, s, _). Ret (r, s, int (unat (sig ! 64)))))"

definition eip2930Signer_SignatureValues :: "int \<Rightarrow> txdata \<Rightarrow> bytes \<Rightarrow> (tx_error, int \<times> int \<times> int) outcome" where
  "eip2930Signer_SignatureValues chainID d sig =
     (if td_Type d = LegacyTxType then EIP155Signer_SignatureValues chainID d sig
      else if td_Type d = AccessListTxType \<or> td_Type d = DynamicFeeTxType then typed_SignatureValues chainID d sig
      else Err ErrTxTypeNotSupported)"

definition londonSigner_SignatureValues :: "int \<Rightarrow> txdata \<Rightarrow> bytes \<Rightarrow> (tx_error, int \<times> int \<times> int) outcome" where
  "londonSigner_SignatureValues chainID d sig =
     (if td_Type d \<noteq> DynamicFeeTxType then eip2930Signer_SignatureValues chainID d sig else typed_SignatureValues chainID d sig)"

definition SignatureValues :: "Signer \<Rightarrow> txdata \<Rightarrow> bytes \<Rightarrow> (tx_error, int \<times> int \<times> int) outcome" where
  "SignatureValues s d sig =
     (case s of
        LondonSigner chainID \<Rightarrow> londonSigner_SignatureValues chainID d sig
      | EIP2930Signer chainID \<Rightarrow> eip2930Signer_SignatureValues chainID d sig
      | EIP155Signer chainID \<Rightarrow> EIP155Signer_SignatureValues chainID d sig
      | HomesteadSigner \<Rightarrow> FrontierSigner_SignatureValues d sig
      | FrontierSigner \<Rightarrow> FrontierSigner_SignatureValues d sig)"

definition WithSignature :: "Transaction \<Rightarrow> Signer \<Rightarrow> bytes \<Rightarrow> (tx_error, Transaction) outcome" where
  "WithSignature tx signer sig =
     obind (SignatureValues signer (tx_data tx) sig) (\<lambda>(r, s, v).
     Ret (fresh_tx ((tx_data tx)\<lparr>td_R := Some r, td_S := Some s, td_V := Some v\<rparr>)))"

definition FrontierSigner_Sender :: "crypto_lib \<Rightarrow> bool \<Rightarrow> Transaction \<Rightarrow> (tx_error, Address) outcome" where
  "FrontierSigner_Sender c homestead tx =
     (let d = tx_data tx in
      obind (tx_deref (td_V d)) (\<lambda>v. recoverPlain c (FrontierSigner_Hash c d) (td_R d) (td_S d) v homestead))"

definition EIP155Signer_Sender :: "crypto_lib \<Rightarrow> int \<Rightarrow> Transaction \<Rightarrow> (tx_error, Address) outcome" where
  "EIP155Signer_Sender c chainID tx =
     (let d = tx_data tx in
      obind (Protected tx) (\<lambda>p.
      if \<not> p then FrontierSigner_Sender c True tx
      else
        obind (tx_ChainID tx) (\<lambda>i.
        if i \<noteq> chainID then Err ErrInvalidChainID
        else obind (tx_deref (td_V d)) (\<lambda>v.
          recoverPlain c (EIP155Signer_Hash c chainID d) (td_R d) (td_S d) (v - chainID * 2 - 8) True))))"

text \<open>The tail that the typed signers share: the chain ID is checked and the signature recovered.\<close>

definition recover_checked :: "crypto_lib \<Rightarrow> int \<Rightarrow> Hash \<Rightarrow> Transaction \<Rightarrow> int \<Rightarrow> (tx_error, Address) outcome" where
  "recover_checked c chainID h tx v =
     obind (tx_ChainID tx) (\<lambda>i.
     if i \<noteq> chainID then Err ErrInvalidChainID
     else recoverPlain c h (td_R (tx_data tx)) (td_S (tx_data tx)) v True)"

definition eip2930Signer_Sender :: "crypto_lib \<Rightarrow> int \<Rightarrow> Transaction \<Rightarrow> (tx_error, Address) outcome" where
  "eip2930Signer_Sender c chainID tx =
     (let d = tx_data tx; h = eip2930Signer_Hash c chainID d in
      if td_Type d = LegacyTxType then
        obind (Protected tx) (\<lambda>p.
        if \<not> p then FrontierSigner_Sender c True tx
        else obind (tx_deref (td_V d)) (\<lambda>v. recover_checked c chainID h tx (v - chainID * 2 - 8)))
      else if td_Type d = AccessListTxType then
        obind (tx_deref (td_V d)) (\<lambda>v. recover_checked c chainID h tx (v + 27))
      else Err ErrTxTypeNotSupported)"

definition londonSigner_Sender :: "crypto_lib \<Rightarrow> int \<Rightarrow> Transaction \<Rightarrow> (tx_error, Address) outcome" where
  "londonSigner_Sender c chainID tx =
     (if td_Type (tx_data tx) \<noteq> DynamicFeeTxType then eip2930Signer_Sender c chainID tx
      else obind (tx_deref (td_V (tx_data tx))) (\<lambda>v.
        recover_checked c chainID (londonSigner_Hash c chainID (tx_data tx)) tx (v + 27)))"

definition Signer_Sender :: "crypto_lib \<Rightarrow> Signer \<Rightarrow> Transaction \<Rightarrow> (tx_error, Address) outcome" where
  "Signer_Sender c s tx =
     (case s of
        LondonSigner chainID \<Rightarrow> londonSigner_Sender c chainID tx
      | EIP2930Signer chainID \<Rightarrow> eip2930Signer_Sender c chainID tx
      | EIP155Signer chainID \<Rightarrow> EIP155Signer_Sender c chainID tx
      | HomesteadSigner \<Rightarrow> FrontierSigner_Sender c True tx
      | FrontierSigner \<Rightarrow> FrontierSigner_Sender c False tx)"

text \<open>\<open>types.Sender\<close>, with the cache of the transaction.\<close>

definition tx_Sender :: "crypto_lib \<Rightarrow> Signer \<Rightarrow> Transaction \<Rightarrow> (tx_error, Address \<times> Transaction) outcome" where
  "tx_Sender c signer tx =
     (let fresh = obind (Signer_Sender c signer tx) (\<lambda>addr. Ret (addr, tx\<lparr>tx_from := Some (signer, addr)\<rparr>)) in
      case tx_from tx of
        Some (s, from) \<Rightarrow> if s = signer then Ret (from, tx) else fresh
      | None \<Rightarrow> fresh)"


section \<open>The binary form reads back\<close>

text \<open>A transaction whose fields are set and in range, as the constructors and the decoder make them.\<close>

definition set_nat :: "int option \<Rightarrow> bool" where
  "set_nat p \<longleftrightarrow> (case p of None \<Rightarrow> False | Some i \<Rightarrow> 0 \<le> i)"

definition addr_ok :: "Address option \<Rightarrow> bool" where
  "addr_ok p \<longleftrightarrow> (case p of None \<Rightarrow> True | Some a \<Rightarrow> length a = 20)"

definition access_ok :: "AccessTuple list \<Rightarrow> bool" where
  "access_ok al \<longleftrightarrow> (\<forall>t\<in>set al. length (at_Address t) = 20 \<and> (\<forall>h\<in>set (at_StorageKeys t). length h = 32))"

definition tx_ok :: "txdata \<Rightarrow> bool" where
  "tx_ok d \<longleftrightarrow>
     td_AccountNonce d < W64 \<and> td_GasLimit d < W64 \<and> addr_ok (td_Recipient d) \<and> set_nat (td_Amount d) \<and>
     set_nat (td_V d) \<and> set_nat (td_R d) \<and> set_nat (td_S d) \<and>
     (if td_Type d = LegacyTxType then
        set_nat (td_Price d) \<and> td_ChainID d = None \<and> td_AccessList d = [] \<and> td_MaxPriorityFeePerGas d = None \<and> td_MaxFeePerGas d = None
      else if td_Type d = AccessListTxType then
        set_nat (td_Price d) \<and> set_nat (td_ChainID d) \<and> access_ok (td_AccessList d) \<and> td_MaxPriorityFeePerGas d = None \<and> td_MaxFeePerGas d = None
      else if td_Type d = DynamicFeeTxType then
        td_Price d = None \<and> set_nat (td_ChainID d) \<and> access_ok (td_AccessList d) \<and> set_nat (td_MaxPriorityFeePerGas d) \<and> set_nat (td_MaxFeePerGas d)
      else False)"

lemma set_natE: "set_nat p \<Longrightarrow> \<exists>i. p = Some i \<and> 0 \<le> i"
  by (auto simp: set_nat_def split: option.splits)

lemma bytes_of_VBytes [simp]: "bytes_of (VBytes b) = b" by (simp add: bytes_of_def)
lemma uint_of_VUint [simp]: "uint_of (VUint n) = n" by (simp add: uint_of_def)
lemma big_of_val [simp]: "big_of (big_val p) = p" by (cases p) (simp_all add: big_of_def big_val_def)
lemma addr_of_val [simp]: "addr_of (addr_val p) = p" by (cases p) (simp_all add: addr_of_def addr_val_def)
lemma list_of_simps [simp]: "list_of (VList vs) = vs" "list_of (VStruct vs) = vs" by (simp_all add: list_of_def)

lemma access_of_val [simp]: "access_of (access_val al) = al"
  by (simp add: access_of_def access_val_def comp_def map_idI)

lemma numeral_nth: "(x # xs) ! numeral n = xs ! pred_numeral n"
  by (simp add: numeral_eq_Suc)

lemma LegacyTx_of_val [simp]: "LegacyTx_of (LegacyTx_val t) = t"
  by (simp add: LegacyTx_of_def LegacyTx_val_def numeral_nth Let_def)

lemma AccessListTx_of_val [simp]: "AccessListTx_of (AccessListTx_val t) = t"
  by (simp add: AccessListTx_of_def AccessListTx_val_def numeral_nth Let_def)

lemma DynamicFeeTx_of_val [simp]: "DynamicFeeTx_of (DynamicFeeTx_val t) = t"
  by (simp add: DynamicFeeTx_of_def DynamicFeeTx_val_def numeral_nth Let_def)

lemma rt_big: "set_nat p \<Longrightarrow> rt no_tags (TPtr TBigInt) (big_val p)"
  by (auto simp: set_nat_def big_val_def split: option.splits)

lemma rt_uint: "n < W64 \<Longrightarrow> rt ts (TUint 64) (VUint n)"
  by (simp add: W64_def)

lemma rlp_addr: "length a = 20 \<Longrightarrow> rlp_str a \<noteq> rlp_str [] \<and> rlp_str a \<noteq> rlp_list []"
proof -
  assume a: "length a = 20"
  then have "length (rlp_str a) = 21" by (auto simp: rlp_str_def rlp_head_def)
  then show ?thesis by (auto simp: rlp_str_def rlp_list_def rlp_head_def)
qed

lemma rt_addr: "addr_ok p \<Longrightarrow> rt nil_tag (TPtr AddressType) (addr_val p)"
  using rlp_addr
  by (cases p) (auto simp: addr_ok_def addr_val_def nil_tag_def AddressType_def bytes_rt_def isByte_def defaultNilKind_def
      isByteArray_def isUint_def items_bytes_def)

lemma rt_elems_iff: "rt_elems t vs \<longleftrightarrow> (\<forall>v\<in>set vs. rt no_tags t v)"
  by (induction vs) auto

lemma rt_access: "access_ok al \<Longrightarrow> rt no_tags AccessListType (access_val al)"
proof -
  have "access_ok al \<Longrightarrow> t \<in> set al \<Longrightarrow> h \<in> set (at_StorageKeys t) \<Longrightarrow> length h = 32 \<and> h \<noteq> [0]" for t h
    by (fastforce simp: access_ok_def)
  moreover have "access_ok al \<Longrightarrow> t \<in> set al \<Longrightarrow> length (at_Address t) = 20 \<and> at_Address t \<noteq> [0]" for t
    by (fastforce simp: access_ok_def)
  ultimately show "access_ok al \<Longrightarrow> rt no_tags AccessListType (access_val al)"
    by (simp add: access_val_def AccessListType_def AddressType_def HashType_def isByte_def bytes_rt_def rt_elems_iff)
qed

lemmas tx_rlp_types = LegacyTxRlp_def AccessListTxRlp_def DynamicFeeTxRlp_def

lemma nil_tag_tail [simp]: "\<not> tail nil_tag"
  by (simp add: nil_tag_def)

lemma rt_Legacy: "tx_ok d \<Longrightarrow> td_Type d = LegacyTxType \<Longrightarrow> rt no_tags LegacyTxRlp (LegacyTx_val (toLegacyTx d))"
  by (simp add: tx_ok_def LegacyTxRlp_def LegacyTx_val_def toLegacyTx_def rt_big rt_uint rt_addr bytes_rt_def isByte_def del: rt.simps(5,3,4))

lemma rt_AccessList: "tx_ok d \<Longrightarrow> td_Type d = AccessListTxType \<Longrightarrow> rt no_tags AccessListTxRlp (AccessListTx_val (toAccessListTx d))"
  by (simp add: tx_ok_def tx_types AccessListTxRlp_def AccessListTx_val_def toAccessListTx_def rt_big rt_uint rt_addr rt_access bytes_rt_def isByte_def
      del: rt.simps(5,3,4))

lemma rt_DynamicFee: "tx_ok d \<Longrightarrow> td_Type d = DynamicFeeTxType \<Longrightarrow> rt no_tags DynamicFeeTxRlp (DynamicFeeTx_val (toDynamicFeeTx d))"
  by (simp add: tx_ok_def tx_types DynamicFeeTxRlp_def DynamicFeeTx_val_def toDynamicFeeTx_def rt_big rt_uint rt_addr rt_access bytes_rt_def isByte_def
      del: rt.simps(5,3,4))


text \<open>The structure of a transaction as RLP sees it, and the check of its size.\<close>

definition tx_rlp :: "txdata \<Rightarrow> gotype \<times> goval" where
  "tx_rlp d =
     (if td_Type d = LegacyTxType then (LegacyTxRlp, LegacyTx_val (toLegacyTx d))
      else if td_Type d = AccessListTxType then (AccessListTxRlp, AccessListTx_val (toAccessListTx d))
      else (DynamicFeeTxRlp, DynamicFeeTx_val (toDynamicFeeTx d)))"

definition tx_size_ok :: "txdata \<Rightarrow> bool" where
  "tx_size_ok d \<longleftrightarrow> (case items no_tags (fst (tx_rlp d)) (snd (tx_rlp d)) of Ret xs \<Rightarrow> length (rlps xs) < W64 | _ \<Rightarrow> False)"

lemma tx_rlp_valid:
  assumes "tx_ok d" and "tx_size_ok d"
  shows "rlp_valid (fst (tx_rlp d)) (snd (tx_rlp d))"
proof -
  have "writerErr (fst (tx_rlp d)) = None"
    by (simp add: tx_rlp_def LegacyTxRlp_def AccessListTxRlp_def DynamicFeeTxRlp_def AccessListType_def AddressType_def HashType_def)
  moreover have "rt no_tags (fst (tx_rlp d)) (snd (tx_rlp d))"
    using assms(1) rt_Legacy [OF assms(1)] rt_AccessList [OF assms(1)] rt_DynamicFee [OF assms(1)]
    by (auto simp: tx_rlp_def tx_ok_def split: if_splits)
  ultimately show ?thesis using assms(2) by (simp add: rlp_valid_def tx_size_ok_def)
qed

lemma encode_tx_rlp:
  assumes "tx_ok d" and "tx_size_ok d"
  shows "\<exists>e. EncodeToBytes (TPtr (fst (tx_rlp d))) (VPtr (Some (snd (tx_rlp d)))) = Ret e \<and>
    Encode_to_writer (TPtr (fst (tx_rlp d))) (VPtr (Some (snd (tx_rlp d)))) = Ret e \<and>
    decode_bytes (fst (tx_rlp d)) e = Ret (snd (tx_rlp d)) \<and> e \<noteq> [] \<and> hd e > 0x7F"
proof -
  let ?t = "fst (tx_rlp d)" and ?v = "snd (tx_rlp d)"
  have valid: "rlp_valid ?t ?v" by (rule tx_rlp_valid [OF assms])
  then obtain xs where xs: "items no_tags ?t ?v = Ret xs" "length (rlps xs) < W64" and t: "writerErr ?t = None"
    by (auto simp: rlp_valid_def split: outcome.splits)
  have "items no_tags (TPtr ?t) (VPtr (Some ?v)) = Ret xs" "writerErr (TPtr ?t) = None" using xs t by simp_all
  from encode_written [OF this(2,1) xs(2)] toBytes_written toWriter_written
  have e: "EncodeToBytes (TPtr ?t) (VPtr (Some ?v)) = Ret (rlps xs)" "Encode_to_writer (TPtr ?t) (VPtr (Some ?v)) = Ret (rlps xs)"
    by (auto simp: EncodeToBytes_def Encode_to_writer_def)
  have "EncodeToBytes ?t ?v = Ret (rlps xs)" using encode_written [OF t xs] toBytes_written by (auto simp: EncodeToBytes_def)
  with rlp_validD [OF valid] have "reads (decode_val (Suc (length (rlps xs))) no_tags ?t) (rlps xs) ?v" by auto
  from DecodeBytes_reads [OF t this] have d: "decode_bytes ?t (rlps xs) = Ret ?v" by (simp add: decode_bytes_def)
  have "\<exists>name fs vs. ?t = TStruct name fs \<and> ?v = VStruct vs"
    by (simp add: tx_rlp_def LegacyTxRlp_def AccessListTxRlp_def DynamicFeeTxRlp_def LegacyTx_val_def AccessListTx_val_def DynamicFeeTx_val_def)
  with xs(1) obtain ys where ys: "xs = [Items ys]" by (auto simp: outcome_simps)
  have "rlps xs \<noteq> [] \<and> hd (rlps xs) > 0x7F"
  proof (cases "length (rlps ys) < 56")
    case True
    from short_head_tags(2) [OF True] obtain h where "rlp_head 0xC0 0xF7 (length (rlps ys)) = [h]" "unat h = 192 + length (rlps ys)" by metis
    then show ?thesis by (simp add: ys rlp_list_def word_less_nat_alt)
  next
    case False
    have "length (rlps ys) < W64" using xs(2) ys by (simp add: rlp_list_def)
    from long_head_tags(2) [OF False this] obtain h where
      "rlp_head 0xC0 0xF7 (length (rlps ys)) = h # be_bytes (length (rlps ys))" "unat h = 247 + length (be_bytes (length (rlps ys)))" by metis
    then show ?thesis by (simp add: ys rlp_list_def word_less_nat_alt)
  qed
  with e d show ?thesis by blast
qed

text \<open>
  C34: a transaction of any of the three types comes back from its binary form: \<open>UnmarshalBinary\<close>
  of the bytes of \<open>MarshalBinary\<close> restores every field, and the type byte tells the forms apart.
\<close>

theorem MarshalBinary_roundtrip:
  assumes "tx_ok (tx_data tx)" and "tx_size_ok (tx_data tx)"
  shows "\<exists>b. MarshalBinary tx = Ret b \<and> UnmarshalBinary tx' b = Ret (setDecoded tx' (tx_data tx))"
proof -
  let ?d = "tx_data tx"
  from encode_tx_rlp [OF assms] obtain e where
    e: "EncodeToBytes (TPtr (fst (tx_rlp ?d))) (VPtr (Some (snd (tx_rlp ?d)))) = Ret e"
      "Encode_to_writer (TPtr (fst (tx_rlp ?d))) (VPtr (Some (snd (tx_rlp ?d)))) = Ret e"
      "decode_bytes (fst (tx_rlp ?d)) e = Ret (snd (tx_rlp ?d))" "e \<noteq> []" "hd e > 0x7F"
    by blast
  consider (leg) "td_Type ?d = LegacyTxType" | (al) "td_Type ?d = AccessListTxType" | (df) "td_Type ?d = DynamicFeeTxType"
    using assms(1) by (auto simp: tx_ok_def split: if_splits)
  then show ?thesis
  proof cases
    case leg
    then have "LegacyTx_getTxData (toLegacyTx ?d) = ?d"
      using assms(1) by (simp add: tx_ok_def LegacyTx_getTxData_def toLegacyTx_def txdata_zero_def)
    with leg e show ?thesis by (simp add: MarshalBinary_def UnmarshalBinary_def tx_rlp_def)
  next
    case al
    then have "AccessListTx_getTxData (toAccessListTx ?d) = ?d"
      using assms(1) by (simp add: tx_ok_def tx_types AccessListTx_getTxData_def toAccessListTx_def txdata_zero_def)
    with al e show ?thesis
      by (simp add: MarshalBinary_def encodeTyped_def UnmarshalBinary_def decodeTyped_def tx_rlp_def tx_types Let_def)
  next
    case df
    then have "DynamicFeeTx_getTxData (toDynamicFeeTx ?d) = ?d"
      using assms(1) by (simp add: tx_ok_def tx_types DynamicFeeTx_getTxData_def toDynamicFeeTx_def txdata_zero_def)
    with df e show ?thesis
      by (simp add: MarshalBinary_def encodeTyped_def UnmarshalBinary_def decodeTyped_def tx_rlp_def tx_types Let_def word_less_nat_alt)
  qed
qed


definition sample_tx :: Transaction where
  "sample_tx = NewDynamicFeeTx (Some 56) 7 (Some (replicate 20 1)) (Some 5) 200 (Some 2) (Some 100) [0xaa, 0xbb]
     [\<lparr>at_Address = replicate 20 2, at_StorageKeys = []\<rparr>]"

lemmas sample_tx_simps = sample_tx_def NewDynamicFeeTx_def fresh_tx_def DynamicFeeTx_getTxData_def txdata_zero_def set_big_def tx_types

lemma sample_tx_ok: "tx_ok (tx_data sample_tx)"
  by (simp add: sample_tx_simps tx_ok_def set_nat_def addr_ok_def access_ok_def W64_def)

lemma sample_tx_size: "tx_size_ok (tx_data sample_tx)"
  by (simp add: sample_tx_simps tx_size_ok_def tx_rlp_def toDynamicFeeTx_def DynamicFeeTxRlp_def DynamicFeeTx_val_def big_val_def addr_val_def
      access_val_def AccessListType_def AddressType_def HashType_def isUint_def isByte_def items_bytes_def W64_def no_tags_def
      rlp_list_def rlp_str_def rlp_head_def be_bytes_step)

theorem MarshalBinary_roundtrip_witness:
  "\<exists>b. MarshalBinary sample_tx = Ret b \<and> UnmarshalBinary (fresh_tx txdata_zero) b = Ret sample_tx"
  using MarshalBinary_roundtrip [OF sample_tx_ok sample_tx_size, of "fresh_tx txdata_zero"]
  by (simp add: setDecoded_def fresh_tx_def sample_tx_def NewDynamicFeeTx_def)

section \<open>Signing and recovering\<close>

text \<open>What a signer recovers from a signature of the form \<open>[R || S || V]\<close> for the hash \<open>h\<close>.\<close>

definition recover :: "crypto_lib \<Rightarrow> Hash \<Rightarrow> bytes \<Rightarrow> (tx_error, Address) outcome" where
  "recover c h sig =
     (if \<not> ValidateSignatureValues (sig ! 64) (big_SetBytes (take 32 sig)) (big_SetBytes (take 32 (drop 32 sig))) True then Err ErrInvalidSig
      else case Ecrecover c h sig of
        Inl err \<Rightarrow> Err (RecoverError err)
      | Inr pub \<Rightarrow>
          if length pub = 0 \<or> hd pub \<noteq> 4 then Err InvalidPublicKey
          else Ret (copy_at ZeroAddress 0 (drop 12 (keccak256 c (tl pub)))))"

lemma pad_be_bytes: "length b \<le> n \<Longrightarrow> replicate (n - length (be_bytes (be_val b))) 0 @ be_bytes (be_val b) = replicate (n - length b) 0 @ b"
proof (induction b arbitrary: n)
  case (Cons x b)
  show ?case
  proof (cases "x = 0")
    case True
    then have "be_val (x # b) = be_val b" by (simp add: be_val_Cons)
    moreover have "n - length b = Suc (n - length (x # b))" using Cons.prems by simp
    then have "replicate (n - length b) 0 @ b = replicate (n - length (x # b)) 0 @ x # b"
      using True by (simp add: replicate_app_Cons_same)
    ultimately show ?thesis using Cons by simp
  next
    case False
    then have "be_bytes (be_val (x # b)) = x # b" by (intro be_bytes_be_val) simp
    then show ?thesis by simp
  qed
qed simp

lemma signature_rebuilt:
  assumes "length sig = 65" and that: "r = big_Bytes (big_SetBytes (take 32 sig))" "s = big_Bytes (big_SetBytes (take 32 (drop 32 sig)))"
  shows "(copy_at (copy_at (replicate SignatureLength 0) (32 - length r) r) (64 - length s) s)[64 := sig ! 64] = sig"
proof -
  let ?a = "take 32 sig" and ?b = "take 32 (drop 32 sig)"
  have la: "length ?a = 32" "length ?b = 32" using assms by simp_all
  have r: "length r \<le> 32" "replicate (32 - length r) 0 @ r = ?a"
    using pad_be_bytes [of ?a 32] la length_be_bytes_le [of "be_val ?a" 32] be_val_less [of ?a]
    by (simp_all add: that big_Bytes_def big_SetBytes_def)
  have s: "length s \<le> 32" "replicate (32 - length s) 0 @ s = ?b"
    using pad_be_bytes [of ?b 32] la length_be_bytes_le [of "be_val ?b" 32] be_val_less [of ?b]
    by (simp_all add: that big_Bytes_def big_SetBytes_def)
  have "copy_at (replicate SignatureLength 0) (32 - length r) r = ?a @ replicate 33 0"
    unfolding r(2) [symmetric] using r(1) by (simp add: copy_at_def SignatureLength_def)
  moreover have "copy_at (?a @ replicate 33 0) (64 - length s) s = ?a @ ?b @ [0]"
    unfolding s(2) [symmetric] using s(1) la by (simp add: copy_at_def)
  moreover have "sig = ?a @ ?b @ [sig ! 64]"
  proof -
    have "drop 64 sig = [sig ! 64]" using assms(1) by (simp flip: Cons_nth_drop_Suc)
    moreover have "drop 32 sig = ?b @ drop 64 sig" using append_take_drop_id [of 32 "drop 32 sig"] by simp
    ultimately show ?thesis using append_take_drop_id [of 32 sig] by simp
  qed
  moreover have "(?a @ ?b @ [0])[64 := sig ! 64] = ?a @ ?b @ [sig ! 64]" using la by (simp add: list_update_append)
  ultimately show ?thesis by metis
qed


lemma recoverPlain_recover:
  assumes "length sig = 65" and "sig ! 64 = 0 \<or> sig ! 64 = 1" and "v = 27 + int (unat (sig ! 64))"
  shows "recoverPlain c h (Some (big_SetBytes (take 32 sig))) (Some (big_SetBytes (take 32 (drop 32 sig)))) v True = recover c h sig"
proof -
  have "\<bar>v\<bar> < 2 ^ 8" using assms(2,3) by auto
  then have l: "\<not> big_BitLen v > 8" by (simp add: big_BitLen_le_iff not_less)
  have n: "(of_nat (u64_sub (big_Uint64 v) 27) :: byte) = sig ! 64"
    using assms(2,3) by (auto simp: big_Uint64_def W64_def u64_sub_def)
  show ?thesis
    using signature_rebuilt [OF assms(1) refl refl] l
    by (simp add: recoverPlain_def recover_def tx_deref_def n Let_def)
qed

text \<open>The hashes do not depend on the signature.\<close>

lemma Signer_Hash_unsigned [simp]:
  "Signer_Hash c s (d\<lparr>td_R := r, td_S := r', td_V := v\<rparr>) = Signer_Hash c s d"
  by (cases s) (simp_all add: Signer_Hash_def londonSigner_Hash_def eip2930Signer_Hash_def EIP155Signer_Hash_def FrontierSigner_Hash_def common_fields_def)

lemma decodeSignature_65:
  "length sig = 65 \<Longrightarrow> decodeSignature sig =
     Ret (big_SetBytes (take 32 sig), big_SetBytes (take 32 (drop 32 sig)), big_SetBytes [sig ! 64 + 27])"
  by (simp add: decodeSignature_def SignatureLength_def)

lemma eip155_V:
  assumes "0 < i" and "v = 0 \<or> v = 1"
  shows "isProtectedV (35 + v + i * 2)" and "deriveChainID (35 + v + i * 2) = i"
proof -
  define V where "V = 35 + v + i * 2"
  have V: "37 \<le> V" and i: "nat (V - 35) div 2 = nat i" "(V - 35) div 2 = i" using assms by (auto simp: V_def)
  have small: "\<bar>V\<bar> < 2 ^ 64 \<Longrightarrow> big_Uint64 V = nat V" using V by (simp add: big_Uint64_def W64_def nat_less_iff)
  have n: "nat V \<noteq> 27" "nat V \<noteq> 28" using V by simp_all
  have "isProtectedV V"
  proof (cases "\<bar>V\<bar> < 2 ^ 8")
    case True
    then show ?thesis using small n by (simp add: isProtectedV_def big_BitLen_le_iff)
  qed (simp add: isProtectedV_def big_BitLen_le_iff)
  moreover have "deriveChainID V = i"
  proof (cases "\<bar>V\<bar> < 2 ^ 64")
    case True
    then have "u64_sub (nat V) 35 = nat (V - 35)" using V by (subst u64_sub_exact) (auto simp: W64_def nat_diff_distrib)
    then show ?thesis using True small n i assms(1) by (simp add: deriveChainID_def big_BitLen_le_iff)
  next
    case False
    then show ?thesis using V i by (simp add: deriveChainID_def big_BitLen_le_iff big_Div_pos)
  qed
  ultimately show "isProtectedV (35 + v + i * 2)" and "deriveChainID (35 + v + i * 2) = i" by (simp_all add: V_def)
qed

lemma WithSignature_recovers:
  assumes "WithSignature tx (MakeSigner signType (Some i)) sig = Ret tx'" and "length sig = 65" and "sig ! 64 = 0 \<or> sig ! 64 = 1"
    and "0 < i" and "td_Type (tx_data tx) = LegacyTxType \<or> td_ChainID (tx_data tx) = Some i"
  shows "Signer_Sender c (MakeSigner signType (Some i)) tx' = recover c (Signer_Hash c (MakeSigner signType (Some i)) (tx_data tx)) sig"
proof -
  let ?d = "tx_data tx" and ?m = "MakeSigner signType (Some i)"
  let ?r = "big_SetBytes (take 32 sig)" and ?s = "big_SetBytes (take 32 (drop 32 sig))" and ?v = "uint (sig ! 64)"
  let ?tx = "\<lambda>v. fresh_tx (?d\<lparr>td_R := Some ?r, td_S := Some ?s, td_V := Some v\<rparr>)"
  have rec: "recoverPlain c h (Some ?r) (Some ?s) (27 + ?v) True = recover c h sig" for h
    using recoverPlain_recover [OF assms(2,3) refl] by simp
  then have rec': "recoverPlain c h (Some ?r) (Some ?s) (?v + 27) True = recover c h sig" for h
    by (simp add: add.commute)
  have m: "?m = LondonSigner i \<or> ?m = EIP155Signer i" by (simp add: MakeSigner_def)
  have v: "?v = 0 \<or> ?v = 1" using assms(3) by auto
  have hashes: "Signer_Hash c (LondonSigner i) (?d\<lparr>td_R := Some ?r, td_S := Some ?s, td_V := w\<rparr>) = Signer_Hash c (LondonSigner i) ?d"
    "Signer_Hash c (EIP155Signer i) (?d\<lparr>td_R := Some ?r, td_S := Some ?s, td_V := w\<rparr>) = Signer_Hash c (EIP155Signer i) ?d" for w
    by simp_all
  show ?thesis
  proof (cases "td_Type ?d = LegacyTxType")
    case True
    have v35: "uint (sig ! 64 + 35) + i * 2 = 35 + ?v + i * 2" using assms(3) by auto
    have "SignatureValues ?m ?d sig = Ret (?r, ?s, 35 + ?v + i * 2)"
      using True m assms(4) unfolding v35 [symmetric]
      by (auto simp: SignatureValues_def londonSigner_SignatureValues_def eip2930Signer_SignatureValues_def
          EIP155Signer_SignatureValues_def FrontierSigner_SignatureValues_def decodeSignature_65 [OF assms(2)] tx_types)
    then have tx': "tx' = ?tx (35 + ?v + i * 2)" using assms(1) by (simp add: WithSignature_def)
    have arith: "35 + ?v + i * 2 - i * 2 - 8 = 27 + ?v" by simp
    show ?thesis
      using True m hashes [of "Some (35 + ?v + i * 2)"] eip155_V [OF assms(4) v] rec arith
      by (auto simp: Signer_Sender_def londonSigner_Sender_def eip2930Signer_Sender_def EIP155Signer_Sender_def
          recover_checked_def tx' fresh_tx_def tx_types tx_ChainID_def Protected_def tx_deref_def Signer_Hash_def londonSigner_Hash_def eip2930Signer_Hash_def Let_def)
  next
    case False
    then have ch: "td_ChainID ?d = Some i" using assms(5) by simp
    have ml: "?m = LondonSigner i" and sv: "SignatureValues ?m ?d sig = Ret (?r, ?s, ?v)" and
      ty: "td_Type ?d = AccessListTxType \<or> td_Type ?d = DynamicFeeTxType"
      using False m ch assms(1)
      by (auto simp: WithSignature_def SignatureValues_def londonSigner_SignatureValues_def eip2930Signer_SignatureValues_def
          EIP155Signer_SignatureValues_def FrontierSigner_SignatureValues_def typed_SignatureValues_def decodeSignature_65 [OF assms(2)] tx_types split: if_splits)
    then have tx': "tx' = ?tx ?v" using assms(1) by (simp add: WithSignature_def)
    show ?thesis
      using ty ml ch hashes(1) [of "Some ?v"] rec'
      by (auto simp: Signer_Sender_def londonSigner_Sender_def eip2930Signer_Sender_def
          recover_checked_def tx' fresh_tx_def tx_types tx_ChainID_def tx_deref_def Signer_Hash_def londonSigner_Hash_def Let_def)
  qed
qed

text \<open>
  C35: a signer recovers the sender of a transaction it signed from exactly that signature over
  exactly the hash that was signed: the replay protection (EIP-155) and the typed forms store the
  recovery id and the chain in \<open>V\<close> in such a way that \<open>Sender\<close> gets both again, for positive chain IDs
  of any size, and the numbers \<open>R\<close> and \<open>S\<close> are padded back to the bytes of the signature. The recovery
  id is 0 or 1, and a typed transaction names the chain of the signer.
\<close>

theorem Sender_of_WithSignature:
  assumes "WithSignature tx (MakeSigner signType (Some i)) sig = Ret tx'" and "length sig = 65" and "sig ! 64 = 0 \<or> sig ! 64 = 1"
    and "0 < i" and "td_Type (tx_data tx) = LegacyTxType \<or> td_ChainID (tx_data tx) = Some i"
  shows "Signer_Sender c (MakeSigner signType (Some i)) tx' = recover c (Signer_Hash c (MakeSigner signType (Some i)) (tx_data tx)) sig"
  using assms by (rule WithSignature_recovers)

definition sample_crypto :: crypto_lib where
  "sample_crypto = \<lparr>keccak256 = \<lambda>b. replicate 32 (of_nat (length b)), Ecrecover = \<lambda>h sig. Inr (4 # sig)\<rparr>"

definition sample_sig :: bytes where
  "sample_sig = replicate 31 0 @ [1] @ replicate 31 0 @ [2, 1]"

lemma be_val_zeros: "be_val (replicate n 0 @ b) = be_val b"
  by (induction n) (simp_all add: be_val_Cons)

lemma sample_sig_simps:
  "length sample_sig = 65" "sample_sig ! 64 = 1" "big_SetBytes (take 32 sample_sig) = 1" "big_SetBytes (take 32 (drop 32 sample_sig)) = 2"
  by (simp_all add: sample_sig_def nth_append big_SetBytes_def be_val_Cons be_val_zeros)

lemma sample_signed: "WithSignature sample_tx (MakeSigner ''London'' (Some 56)) sample_sig =
    Ret (fresh_tx ((tx_data sample_tx)\<lparr>td_R := Some 1, td_S := Some 2, td_V := Some 1\<rparr>))"
  by (simp add: WithSignature_def MakeSigner_def SignatureValues_def londonSigner_SignatureValues_def typed_SignatureValues_def
      decodeSignature_65 sample_sig_simps sample_tx_simps)

theorem Sender_of_WithSignature_witness:
  "\<exists>tx'. WithSignature sample_tx (MakeSigner ''London'' (Some 56)) sample_sig = Ret tx' \<and>
     Signer_Sender sample_crypto (MakeSigner ''London'' (Some 56)) tx' = Ret (replicate 20 65)"
proof -
  have "recover sample_crypto h sample_sig = Ret (replicate 20 65)" for h
    by (simp add: recover_def sample_sig_simps sample_crypto_def ValidateSignatureValues_def secp256k1halfN_def secp256k1N_def
        copy_at_def ZeroAddress_def AddressLength_def big_Div_pos)
  moreover have "td_ChainID (tx_data sample_tx) = Some 56" by (simp add: sample_tx_simps)
  ultimately show ?thesis
    using Sender_of_WithSignature [OF sample_signed sample_sig_simps(1), of sample_crypto] sample_signed
    by (simp add: sample_sig_simps)
qed

end
