(* ===== verification/EthBuild.thy ===== *)
theory EthBuild
  imports VerifyNFT EthCalls Transactions
begin

text \<open>
  Building of the transactions that pay out swaps (\<open>tokens/eth/buildtx.go\<close>, \<open>builderc20swaptx.go\<close> and
  the builders of \<open>nftswap.go\<close> and \<open>anycallswap.go\<close>). The record \<open>eth_env\<close> holds what a bridge of an
  EVM chain reads and nobody writes meanwhile: the router's tables, its configuration, its nodes and
  its signer. The state is the store with the bridge's nonces and the package's variable
  \<open>latestGasPrice\<close>, which all bridges of the process share. A builder writes to the arguments it is
  given; the model returns them updated, and only with a success, since no caller goes on with
  them after an error. Sleeping between the attempts of a query and logging are left out.
\<close>

section \<open>State and errors\<close>

record eth_env =
  routers :: router_state
  bridge :: CrossChainBridgeBase
  node :: eth_node
  mongo :: mgo_env
  SignerChainID :: "int option"
  Signer_of :: Signer
  cryptolib :: crypto_lib
  IsTestMode :: bool

record build_store = nonce_store +
  latestGasPrice :: "int option"

datatype build_error = BToken token_error | BStore store_error

type_synonym ('x, 'a) building = "('x build_store_scheme, build_error, 'a) stateful"

abbreviation BOther :: "string \<Rightarrow> build_error" where
  "BOther msg \<equiv> BToken (OtherError msg)"

text \<open>Calls with the errors of the other packages.\<close>

definition calls :: "('s, token_error, 'a) stateful \<Rightarrow> ('s, build_error, 'a) stateful" where
  "calls m s = (case m s of (Ret a, s') \<Rightarrow> (Ret a, s') | (Err e, s') \<Rightarrow> (Err (BToken e), s') | (Panic, s') \<Rightarrow> (Panic, s'))"

definition stores :: "('s, store_error, 'a) stateful \<Rightarrow> ('s, build_error, 'a) stateful" where
  "stores m s = (case m s of (Ret a, s') \<Rightarrow> (Ret a, s') | (Err e, s') \<Rightarrow> (Err (BStore e), s') | (Panic, s') \<Rightarrow> (Panic, s'))"

definition params_of :: "eth_env \<Rightarrow> params_state" where
  "params_of E = prm (toks (routers E))"

definition chain_of :: "eth_env \<Rightarrow> (token_error, string) outcome" where
  "chain_of E = obind (non_nil (bridgeChainConfig (bridge E))) (\<lambda>cc. Ret (cc_ChainID cc))"

text \<open>A query is tried up to \<open>k + 1\<close> times.\<close>

fun retry_rpc :: "nat \<Rightarrow> ('s, 'e, 'a) stateful \<Rightarrow> ('s, 'e, 'a) stateful" where
  "retry_rpc 0 m = m"
| "retry_rpc (Suc k) m = sbind (stry m) (\<lambda>r. case r of Inr v \<Rightarrow> sret v | Inl (e :: 'e) \<Rightarrow> retry_rpc k m)"

section \<open>Call data of ERC20 swaps (builderc20swaptx.go)\<close>

definition defSwapDeadlineOffset :: int where "defSwapDeadlineOffset = 36000"

definition ForceAnySwapInAutoTokenVersion :: nat where "ForceAnySwapInAutoTokenVersion = 10001"
definition ForceAnySwapInTokenVersion :: nat where "ForceAnySwapInTokenVersion = 10002"
definition ForceAnySwapInUnderlyingTokenVersion :: nat where "ForceAnySwapInUnderlyingTokenVersion = 10003"
definition ForceAnySwapInNativeTokenVersion :: nat where "ForceAnySwapInNativeTokenVersion = 10004"
definition ForceAnySwapInAndCallTokenVersion :: nat where "ForceAnySwapInAndCallTokenVersion = 10005"
definition ForceAnySwapInUnerlyingAndCallTokenVersion :: nat where "ForceAnySwapInUnerlyingAndCallTokenVersion = 10006"

definition AnySwapInFuncHash :: bytes where "AnySwapInFuncHash = FromHex ''0x825bb13c''"
definition AnySwapInUnderlyingFuncHash :: bytes where "AnySwapInUnderlyingFuncHash = FromHex ''0x3f88de89''"
definition AnySwapInNativeFuncHash :: bytes where "AnySwapInNativeFuncHash = FromHex ''0x21974f28''"
definition AnySwapInAutoFuncHash :: bytes where "AnySwapInAutoFuncHash = FromHex ''0x0175b1c4''"
definition AnySwapInExactTokensForTokensFuncHash :: bytes where "AnySwapInExactTokensForTokensFuncHash = FromHex ''0x2fc1e728''"
definition AnySwapInExactTokensForNativeFuncHash :: bytes where "AnySwapInExactTokensForNativeFuncHash = FromHex ''0x52a397d5''"
definition AnySwapInAndExecFuncHash :: bytes where "AnySwapInAndExecFuncHash = FromHex ''0x22db7336''"
definition AnySwapInUnderlyingAndExecFuncHash :: bytes where "AnySwapInUnderlyingAndExecFuncHash = FromHex ''0x302ef85a''"

definition without_underlying :: "TokenConfig \<Rightarrow> bool" where
  "without_underlying cfg \<longleftrightarrow> HexToAddress (underlying cfg) = ZeroAddress"

definition GetSwapInFuncHash :: "params_state \<Rightarrow> TokenConfig \<Rightarrow> bool \<Rightarrow> bytes" where
  "GetSwapInFuncHash p tokenCfg forUnderlying =
     (let v = ContractVersion tokenCfg in
      if forUnderlying then AnySwapInUnderlyingFuncHash
      else if v = ForceAnySwapInAutoTokenVersion then AnySwapInAutoFuncHash
      else if v = ForceAnySwapInTokenVersion then AnySwapInFuncHash
      else if v = ForceAnySwapInUnderlyingTokenVersion then AnySwapInUnderlyingFuncHash
      else if v = ForceAnySwapInNativeTokenVersion then AnySwapInNativeFuncHash
      else if v = 0 then (if without_underlying tokenCfg then AnySwapInFuncHash else AnySwapInAutoFuncHash)
      else if without_underlying tokenCfg \<and> \<not> IsForceAnySwapInAuto p then AnySwapInFuncHash
      else AnySwapInAutoFuncHash)"

definition GetSwapInAndExecFuncHash :: "TokenConfig \<Rightarrow> bytes" where
  "GetSwapInAndExecFuncHash tokenCfg =
     (let v = ContractVersion tokenCfg in
      if v = ForceAnySwapInAndCallTokenVersion then AnySwapInAndExecFuncHash
      else if v = ForceAnySwapInUnerlyingAndCallTokenVersion then AnySwapInUnderlyingAndExecFuncHash
      else if without_underlying tokenCfg then AnySwapInAndExecFuncHash
      else AnySwapInUnderlyingAndExecFuncHash)"

text \<open>\<open>log.Fatalf\<close>, which the packer calls for a type it does not know, ends the process.\<close>

definition pack_call :: "bytes \<Rightarrow> abi_arg list \<Rightarrow> ('e, bytes) outcome" where
  "pack_call funcHash as = (case PackDataWithFuncHash funcHash as of Ret bs \<Rightarrow> Ret bs | _ \<Rightarrow> Panic)"

definition toAddresses :: "string list \<Rightarrow> Address list" where
  "toAddresses path = map HexToAddress path"

text \<open>A nil list of bytes packs like an empty one.\<close>

definition or_empty :: "bytes option \<Rightarrow> bytes" where
  "or_empty b = (case b of None \<Rightarrow> [] | Some d \<Rightarrow> d)"

definition getReceiverAndAmount :: "router_state \<Rightarrow> CrossChainBridgeBase \<Rightarrow> BuildTxArgs \<Rightarrow> string \<Rightarrow>
    (token_error, Address \<times> int option) outcome" where
  "getReceiverAndAmount r b args multichainToken =
     (let sw = swapArgs args; receiver = HexToAddress (args_Bind sw) in
      obind (ensure (\<not> (receiver = ZeroAddress \<or> \<not> IsHexAddress (args_Bind sw))) (OtherError ''can not swapout to empty or invalid receiver'')) (\<lambda>_.
      obind (or_err (GetBridgeByChainID r (bi_String (args_FromChainID sw))) ErrNoBridgeForChainID) (\<lambda>fromBridge.
      obind (non_nil (erc20Info sw)) (\<lambda>i.
      obind (or_err (GetTokenConfig (base fromBridge) (erc20_Token i)) ErrMissTokenConfig) (\<lambda>fromTokenCfg.
      obind (or_err (GetTokenConfig b multichainToken) ErrMissTokenConfig) (\<lambda>toTokenCfg.
      obind (non_nil (bridgeChainConfig b)) (\<lambda>cc.
      obind (CalcSwapValue (toks r) (erc20_TokenID i) (cc_ChainID cc) (OriginValue args) (Decimals fromTokenCfg) (Decimals toTokenCfg)
        (OriginFrom args) (OriginTxTo args)) (\<lambda>amount.
      Ret (receiver, amount)))))))))"

definition buildSwapAndExecTxInput :: "router_state \<Rightarrow> CrossChainBridgeBase \<Rightarrow> BuildTxArgs \<Rightarrow> string \<Rightarrow> (token_error, BuildTxArgs) outcome" where
  "buildSwapAndExecTxInput r b args multichainToken =
     (let sw = swapArgs args in
      obind (getReceiverAndAmount r b args multichainToken) (\<lambda>(receiver, amount).
      obind (or_err (GetTokenConfig b multichainToken) ErrMissTokenConfig) (\<lambda>toTokenCfg.
      obind (non_nil (erc20Info sw)) (\<lambda>i.
      obind (pack_call (GetSwapInAndExecFuncHash toTokenCfg)
        [AHash (HexToHash (args_SwapID sw)), AAddress (HexToAddress multichainToken), AAddress receiver, ABigInt amount,
         ABigInt (args_FromChainID sw), AAddress (HexToAddress (CallProxy i)), AHexBytes (or_empty (erc20_CallData i))]) (\<lambda>input.
      obind (GetRouterContract b multichainToken) (\<lambda>to.
      Ret (args\<lparr>Input := Some input, args_To := to, SwapValue := amount\<rparr>)))))))"

definition buildERC20SwapoutTxInput :: "router_state \<Rightarrow> CrossChainBridgeBase \<Rightarrow> BuildTxArgs \<Rightarrow> string \<Rightarrow> (token_error, BuildTxArgs) outcome" where
  "buildERC20SwapoutTxInput r b args multichainToken =
     (let sw = swapArgs args in
      obind (getReceiverAndAmount r b args multichainToken) (\<lambda>(receiver, amount).
      obind (or_err (GetTokenConfig b multichainToken) ErrMissTokenConfig) (\<lambda>toTokenCfg.
      obind (non_nil (erc20Info sw)) (\<lambda>i.
      obind (pack_call (GetSwapInFuncHash (prm (toks r)) toTokenCfg (ForUnderlying i))
        [AHash (HexToHash (args_SwapID sw)), AAddress (HexToAddress multichainToken), AAddress receiver, ABigInt amount,
         ABigInt (args_FromChainID sw)]) (\<lambda>input.
      obind (GetRouterContract b multichainToken) (\<lambda>to.
      Ret (args\<lparr>Input := Some input, args_To := to, SwapValue := amount\<rparr>)))))))"

definition getOrInitEthExtra :: "BuildTxArgs \<Rightarrow> EthExtraArgs \<times> BuildTxArgs" where
  "getOrInitEthExtra args =
     (let zero = \<lparr>Gas = None, GasPrice = None, GasTipCap = None, GasFeeCap = None, Nonce = None, Deadline = 0\<rparr> in
      case args_Extra args of
        None \<Rightarrow> (zero, args\<lparr>args_Extra := Some \<lparr>EthExtra = Some zero, ReplaceNum = 0, Sequence = None, Fee = None\<rparr>\<rparr>)
      | Some x \<Rightarrow>
          (case EthExtra x of
             None \<Rightarrow> (zero, args\<lparr>args_Extra := Some (x\<lparr>EthExtra := Some zero\<rparr>)\<rparr>)
           | Some e \<Rightarrow> (e, args)))"

definition set_extra :: "EthExtraArgs \<Rightarrow> BuildTxArgs \<Rightarrow> BuildTxArgs" where
  "set_extra e args = args\<lparr>args_Extra := map_option (\<lambda>x. x\<lparr>EthExtra := Some e\<rparr>) (args_Extra args)\<rparr>"

definition calcSwapDeadline :: "eth_env \<Rightarrow> BuildTxArgs \<Rightarrow> ('x, int \<times> BuildTxArgs) building" where
  "calcSwapDeadline E args =
     (case (case args_Extra args of None \<Rightarrow> None | Some x \<Rightarrow> EthExtra x) of
        Some e \<Rightarrow> sret (Deadline e, args)
      | None \<Rightarrow>
          (case GetRouterServerConfig (params_of E) of
             None \<Rightarrow> sret (0, args)
           | Some serverCfg \<Rightarrow>
               let offset = (if SwapDeadlineOffset serverCfg = 0 then defSwapDeadlineOffset else SwapDeadlineOffset serverCfg) in
               sbind (Unix_now (mongo E)) (\<lambda>nw.
               let deadline = i64 (nw + offset); (e, args) = getOrInitEthExtra args
               in sret (deadline, set_extra (e\<lparr>Deadline := deadline\<rparr>) args))))"

definition buildERC20SwapTradeTxInput :: "eth_env \<Rightarrow> BuildTxArgs \<Rightarrow> string \<Rightarrow> ('x, BuildTxArgs) building" where
  "buildERC20SwapTradeTxInput E args multichainToken =
     (let sw = swapArgs args in
      sbind (calls (slift (getReceiverAndAmount (routers E) (bridge E) args multichainToken))) (\<lambda>(receiver, amount).
      sbind (slift (non_nil (erc20Info sw))) (\<lambda>i.
      let funcHash = (if ForNative i then AnySwapInExactTokensForNativeFuncHash else AnySwapInExactTokensForTokensFuncHash) in
      sbind (calcSwapDeadline E args) (\<lambda>(deadline, args).
      sbind (slift (pack_call funcHash
        [AHash (HexToHash (args_SwapID sw)), ABigInt amount, ABigInt (AmountOutMin i), AAddressSlice (toAddresses (Path i)),
         AAddress receiver, AInt64 deadline, ABigInt (args_FromChainID sw)])) (\<lambda>input.
      sbind (calls (slift (GetRouterContract (bridge E) multichainToken))) (\<lambda>to.
      sret (args\<lparr>Input := Some input, args_To := to, SwapValue := amount\<rparr>)))))))"

definition buildERC20SwapTxInput :: "eth_env \<Rightarrow> BuildTxArgs \<Rightarrow> ('x, BuildTxArgs) building" where
  "buildERC20SwapTxInput E args =
     (let sw = swapArgs args in
      case erc20Info sw of
        None \<Rightarrow> slift (Err (BOther ''build router swaptx without tokenID''))
      | Some i \<Rightarrow>
          if erc20_TokenID i = '''' then slift (Err (BOther ''build router swaptx without tokenID''))
          else let multichainToken = GetCachedMultichainToken (routers E) (erc20_TokenID i) (bi_String (args_ToChainID sw)) in
            if multichainToken = '''' then slift (Err (BToken ErrMissTokenConfig))
            else if CallProxy i \<noteq> '''' then calls (slift (buildSwapAndExecTxInput (routers E) (bridge E) args multichainToken))
            else if length (Path i) > 0 then buildERC20SwapTradeTxInput E args multichainToken
            else calls (slift (buildERC20SwapoutTxInput (routers E) (bridge E) args multichainToken)))"

section \<open>Call data of NFT swaps and contract calls\<close>

definition nft721SwapInFuncHash :: bytes where "nft721SwapInFuncHash = FromHex ''09493b23''"
definition nft1155SwapInFuncHash :: bytes where "nft1155SwapInFuncHash = FromHex ''1b5b36c0''"
definition nft1155BatchSwapInFuncHash :: bytes where "nft1155BatchSwapInFuncHash = FromHex ''88b150f7''"
definition nft721SwapInWithDataFuncHash :: bytes where "nft721SwapInWithDataFuncHash = FromHex ''2cbba1a4''"

definition AnyExecFuncHash :: bytes where "AnyExecFuncHash = FromHex ''0x32f29022''"
definition CurveAnyExecFuncHash :: bytes where "CurveAnyExecFuncHash = FromHex ''0xb4c5dbd0''"

text \<open>The selector and the arguments after the swap, the token and the receiver.\<close>

definition nft_call :: "params_state \<Rightarrow> NFTSwapInfo \<Rightarrow> int option \<Rightarrow> (token_error, bytes \<times> abi_arg list) outcome" where
  "nft_call p n fromChainID =
     (if Batch n then
        if length (IDs n) \<noteq> length (Amounts n) \<or> length (IDs n) = 0 then Err errWrongIDsOrAmounts
        else Ret (nft1155BatchSwapInFuncHash, [ABigIntSlice (map Some (IDs n)), ABigIntSlice (map Some (Amounts n)), ABigInt fromChainID])
      else if length (Amounts n) > 0 then
        if length (IDs n) \<noteq> 1 \<or> length (Amounts n) \<noteq> 1 then Err errWrongIDsOrAmounts
        else Ret (nft1155SwapInFuncHash, [ABigInt (Some (IDs n ! 0)), ABigInt (Some (Amounts n ! 0)), ABigInt fromChainID])
      else
        if length (IDs n) \<noteq> 1 \<or> length (Amounts n) \<noteq> 0 then Err errWrongIDsOrAmounts
        else if fst (IsNFTSwapWithData p) then
          Ret (nft721SwapInWithDataFuncHash, [ABigInt (Some (IDs n ! 0)), ABigInt fromChainID, AHexBytes (nft_Data n)])
        else Ret (nft721SwapInFuncHash, [ABigInt (Some (IDs n ! 0)), ABigInt fromChainID]))"

definition buildNFTSwapTxInput :: "router_state \<Rightarrow> CrossChainBridgeBase \<Rightarrow> BuildTxArgs \<Rightarrow> (token_error, BuildTxArgs) outcome" where
  "buildNFTSwapTxInput r b args =
     (let sw = swapArgs args in
      obind (or_err (nftInfo sw) (OtherError ''build nft swaptx without swapinfo'')) (\<lambda>n.
      obind (non_nil (bridgeChainConfig b)) (\<lambda>cc.
      obind (ensure (cc_ChainID cc = bi_String (args_ToChainID sw)) (OtherError ''nftswap to chainId mismatch'')) (\<lambda>_.
      let receiver = HexToAddress (args_Bind sw) in
      obind (ensure (\<not> (receiver = ZeroAddress \<or> \<not> IsHexAddress (args_Bind sw))) ErrWrongBindAddress) (\<lambda>_.
      let multichainToken = GetCachedMultichainToken r (nft_TokenID n) (bi_String (args_ToChainID sw)) in
      obind (ensure (multichainToken \<noteq> '''') ErrMissTokenConfig) (\<lambda>_.
      obind (nft_call (prm (toks r)) n (args_FromChainID sw)) (\<lambda>(funcHash, rest).
      obind (pack_call funcHash
        ([AHash (HexToHash (args_SwapID sw)), AAddress (HexToAddress multichainToken), AAddress receiver] @ rest)) (\<lambda>input.
      obind (GetRouterContract b multichainToken) (\<lambda>to.
      Ret (args\<lparr>Input := Some input, args_To := to\<rparr>))))))))))"

definition buildAnyCallSwapTxInput :: "router_state \<Rightarrow> CrossChainBridgeBase \<Rightarrow> BuildTxArgs \<Rightarrow> (token_error, BuildTxArgs) outcome" where
  "buildAnyCallSwapTxInput r b args =
     (let sw = swapArgs args; without = OtherError ''build anycall swaptx without swapinfo'' in
      obind (non_nil (bridgeChainConfig b)) (\<lambda>cc.
      obind (ensure (cc_ChainID cc = bi_String (args_ToChainID sw)) (OtherError ''anycall to chainId mismatch'')) (\<lambda>_.
      obind (if GetSwapSubType (prm (toks r)) = CurveAnycallSubType then
               obind (or_err (curveInfo sw) without) (\<lambda>i.
               pack_call CurveAnyExecFuncHash
                 [AAddress (HexToAddress (curve_CallFrom i)), AAddress (HexToAddress (curve_CallTo i)), AHexBytes (curve_CallData i),
                  AAddress (HexToAddress (curve_Fallback i)), ABigInt (args_FromChainID sw)])
             else
               obind (or_err (anycallInfo sw) without) (\<lambda>i.
               pack_call AnyExecFuncHash
                 [AAddress (HexToAddress (any_CallFrom i)), AAddressSlice (toAddresses (any_CallTo i)), AHexBytesSlice (any_CallData i),
                  AAddressSlice (toAddresses (Callbacks i)), ABigIntSlice (map Some (CallNonces i)), ABigInt (args_FromChainID sw)])) (\<lambda>input.
      obind (GetRouterContract b '''') (\<lambda>to.
      Ret (args\<lparr>Input := Some input, args_To := to\<rparr>))))))"

section \<open>Gas prices (buildtx.go)\<close>

text \<open>\<open>int64(n)\<close> of a \<open>uint64\<close> \<open>n\<close>, as the percentages are converted.\<close>

definition percent_of :: "int \<Rightarrow> nat \<Rightarrow> int" where
  "percent_of x addPercent = big_Div (x * int_of_u64 (u64_add 100 addPercent)) 100"

definition getDefaultGasLimit :: "eth_env \<Rightarrow> (token_error, nat) outcome" where
  "getDefaultGasLimit E =
     obind (chain_of E) (\<lambda>chainID.
     Ret (case GetRouterServerConfig (params_of E) of
            None \<Rightarrow> 90000
          | Some serverCfg \<Rightarrow> (case map_of (DefaultGasLimit serverCfg) chainID of None \<Rightarrow> 90000 | Some g \<Rightarrow> g)))"

text \<open>The percentage that is added, bounded by the configured maximum.\<close>

definition added_percent :: "RouterServerConfig \<Rightarrow> nat \<Rightarrow> nat \<Rightarrow> nat" where
  "added_percent serverCfg addPercent replaceNum =
     (let addPercent = (if replaceNum > 0 then u64_add addPercent (u64_mul replaceNum (ReplacePlusGasPricePercent serverCfg)) else addPercent)
      in if addPercent > MaxPlusGasPricePercentage serverCfg then MaxPlusGasPricePercentage serverCfg else addPercent)"

definition new_gas_price :: "RouterServerConfig \<Rightarrow> nat \<Rightarrow> nat \<Rightarrow> int option \<Rightarrow> int \<Rightarrow> int" where
  "new_gas_price serverCfg plusPercent replaceNum latest oldGasPrice =
     (let addPercent = added_percent serverCfg plusPercent replaceNum;
          newGasPrice = (if addPercent > 0 then percent_of oldGasPrice addPercent else oldGasPrice);
          fluct = MaxGasPriceFluctPercent serverCfg
      in if fluct > 0 then
           (case latest of
              None \<Rightarrow> newGasPrice
            | Some l \<Rightarrow>
                let minGasPrice = l - big_Div (l * int fluct) 100
                in if newGasPrice < minGasPrice then minGasPrice else newGasPrice)
         else newGasPrice)"

definition adjustSwapGasPrice :: "eth_env \<Rightarrow> BuildTxArgs \<Rightarrow> int \<Rightarrow> ('x, int) building" where
  "adjustSwapGasPrice E args oldGasPrice =
     (case GetRouterServerConfig (params_of E) of
        None \<Rightarrow> slift (Err (BOther ''no router server config''))
      | Some serverCfg \<Rightarrow>
          sbind (calls (slift (chain_of E))) (\<lambda>chainID.
          let replaceNum = GetReplaceNum args;
              plusPercent = (if IsFixedGasPrice (params_of E) chainID then 0 else PlusGasPricePercentage serverCfg)
          in sget (\<lambda>s.
             let newGasPrice = new_gas_price serverCfg plusPercent replaceNum (latestGasPrice s) oldGasPrice
             in if MaxGasPriceFluctPercent serverCfg > 0 \<and> replaceNum = 0
                then sbind (supd (\<lambda>s. s\<lparr>latestGasPrice := Some newGasPrice\<rparr>)) (\<lambda>_. sret newGasPrice)
                else sret newGasPrice)))"

definition gas_price_of :: "eth_env \<Rightarrow> BuildTxArgs \<Rightarrow> string \<Rightarrow> int \<Rightarrow> ('x, int) building" where
  "gas_price_of E args chainID price =
     (if IsTestMode E then sret price
      else
        sbind (adjustSwapGasPrice E args price) (\<lambda>price.
        case GetMaxGasPrice (params_of E) chainID of
          None \<Rightarrow> sret price
        | Some maxGasPrice \<Rightarrow>
            if price > maxGasPrice then slift (Err (BOther (''gas price '' @ big_String price @ '' exceeded maximum limit'')))
            else sret price))"

definition getGasPrice :: "eth_env \<Rightarrow> BuildTxArgs \<Rightarrow> ('x, int) building" where
  "getGasPrice E args =
     sbind (calls (slift (chain_of E))) (\<lambda>chainID.
     case GetFixedGasPrice (params_of E) chainID of
       Some fixedGasPrice \<Rightarrow>
         if GetReplaceNum args = 0 then sret fixedGasPrice else gas_price_of E args chainID fixedGasPrice
     | None \<Rightarrow>
         sbind (retry_rpc 2 (calls (SuggestPrice (params_of E) (node E) (bridge E)))) (gas_price_of E args chainID))"

definition capped :: "int \<Rightarrow> int option \<Rightarrow> int" where
  "capped x m = (case m of None \<Rightarrow> x | Some maxv \<Rightarrow> if x > maxv then maxv else x)"

definition getGasTipCap :: "eth_env \<Rightarrow> BuildTxArgs \<Rightarrow> ('x, int) building" where
  "getGasTipCap E args =
     sbind (calls (slift (chain_of E))) (\<lambda>chainID.
     case (GetRouterServerConfig (params_of E), GetDynamicFeeTxConfig (params_of E) chainID) of
       (Some serverCfg, Some dfConfig) \<Rightarrow>
         sbind (retry_rpc 2 (calls (SuggestGasTipCap (node E) (bridge E)))) (\<lambda>gasTipCap.
         let addPercent = added_percent serverCfg (PlusGasTipCapPercent dfConfig) (GetReplaceNum args);
             gasTipCap = (if addPercent > 0 then percent_of gasTipCap addPercent else gasTipCap)
         in sret (capped gasTipCap (maxGasTipCap dfConfig)))
     | _ \<Rightarrow> slift (Err (BToken ErrMissDynamicFeeConfig)))"

definition getGasFeeCap :: "eth_env \<Rightarrow> int \<Rightarrow> ('x, int) building" where
  "getGasFeeCap E gasTipCap =
     sbind (calls (slift (chain_of E))) (\<lambda>chainID.
     case GetDynamicFeeTxConfig (params_of E) chainID of
       None \<Rightarrow> slift (Err (BToken ErrMissDynamicFeeConfig))
     | Some dfConfig \<Rightarrow>
         sbind (retry_rpc 2 (calls (GetBaseFee (node E) (bridge E) (BlockCountFeeHistory dfConfig)))) (\<lambda>baseFee.
         sbind (slift (non_nil baseFee)) (\<lambda>baseFee.
         sret (capped (percent_of (gasTipCap + baseFee * 2) (PlusGasFeeCapPercent dfConfig)) (maxGasFeeCap dfConfig)))))"

section \<open>Nonces, balances and defaults\<close>

definition getAccountNonce :: "eth_env \<Rightarrow> BuildTxArgs \<Rightarrow> ('x, nat) building" where
  "getAccountNonce E args =
     (if IsParallelSwapEnabled (params_of E) then stores (AllocateNonce (mongo E) args)
      else
        sbind (calls (slift (chain_of E))) (\<lambda>chainID.
        if IsAutoSwapNonceEnabled (params_of E) chainID then sget (\<lambda>s. sret (GetSwapNonce (setter s) (args_From args)))
        else
          sbind (retry_rpc 2 (calls (GetPoolNonce (node E) (bridge E) (args_From args) ''pending''))) (\<lambda>nonce.
          sget (\<lambda>s. sret (AdjustNonce (setter s) (args_From args) nonce)))))"

text \<open>The configuration is always set here; 0.1 coin is the default.\<close>

definition getMinReserveFee :: "eth_env \<Rightarrow> (token_error, int) outcome" where
  "getMinReserveFee E =
     obind (chain_of E) (\<lambda>chainID. Ret (case GetMinReserveFee (params_of E) chainID of None \<Rightarrow> 10 ^ 17 | Some m \<Rightarrow> m))"

definition checkCoinBalance :: "eth_env \<Rightarrow> string \<Rightarrow> int \<Rightarrow> ('x, unit) building" where
  "checkCoinBalance E sender needValue =
     sbind (retry_rpc 2 (calls (GetBalance (node E) (bridge E) sender))) (\<lambda>balance.
     sguard (\<not> balance < needValue) (BOther (''not enough coin balance. '' @ big_String balance @ '' < '' @ big_String needValue)))"

definition setDefaults :: "eth_env \<Rightarrow> BuildTxArgs \<Rightarrow> ('x, BuildTxArgs) building" where
  "setDefaults E args =
     (let args = (case args_Value args of None \<Rightarrow> args\<lparr>args_Value := Some 0\<rparr> | Some _ \<Rightarrow> args);
          (extra, args) = getOrInitEthExtra args in
      sbind (calls (slift (chain_of E))) (\<lambda>chainID.
      sbind (if IsDynamicFeeTxEnabled (params_of E) chainID then
               sbind (case GasTipCap extra of None \<Rightarrow> getGasTipCap E args | Some t \<Rightarrow> sret t) (\<lambda>tip.
               sbind (case GasFeeCap extra of None \<Rightarrow> getGasFeeCap E tip | Some f \<Rightarrow> sret f) (\<lambda>fee.
               sret (extra\<lparr>GasTipCap := Some tip, GasFeeCap := Some fee, GasPrice := None\<rparr>)))
             else (case GasPrice extra of
               None \<Rightarrow> sbind (getGasPrice E args) (\<lambda>price. sret (extra\<lparr>GasPrice := Some price, GasTipCap := None, GasFeeCap := None\<rparr>))
             | Some _ \<Rightarrow> sret extra)) (\<lambda>extra.
      sbind (case Gas extra of
               Some _ \<Rightarrow> sret extra
             | None \<Rightarrow>
                 sbind (slift (non_nil (Input args))) (\<lambda>input.
                 sbind (stry (EstimateGas (node E) (bridge E) (args_From args) (args_To args) (args_Value args) input)) (\<lambda>es.
                 case es of
                   Inl (_ :: token_error) \<Rightarrow> slift (Err (BToken ErrEstimateGasFailed))
                 | Inr esGasLimit \<Rightarrow>
                     let esGasLimit = u64_add esGasLimit (u64_mul esGasLimit 30 div 100) in
                     sbind (calls (slift (getDefaultGasLimit E))) (\<lambda>defGasLimit.
                     sret (extra\<lparr>Gas := Some (if esGasLimit < defGasLimit then defGasLimit else esGasLimit)\<rparr>))))) (\<lambda>extra.
      sret (set_extra extra args)))))"

section \<open>The transaction\<close>

text \<open>What the account must own, when a reserve is configured.\<close>

definition needed_value :: "int option \<Rightarrow> int \<Rightarrow> int \<Rightarrow> nat \<Rightarrow> int" where
  "needed_value val minReserveFee price gasLimit =
     (case val of Some v \<Rightarrow> if v > 0 then v else 0 | None \<Rightarrow> 0) + minReserveFee + 5 * (price * int gasLimit)"

definition check_reserve :: "eth_env \<Rightarrow> BuildTxArgs \<Rightarrow> EthExtraArgs \<Rightarrow> bool \<Rightarrow> nat \<Rightarrow> ('x, unit) building" where
  "check_reserve E args extra isDynamicFeeTx gasLimit =
     sbind (calls (slift (getMinReserveFee E))) (\<lambda>minReserveFee.
     if minReserveFee > 0 then
       sbind (slift (non_nil (if isDynamicFeeTx then GasFeeCap extra else GasPrice extra))) (\<lambda>price.
       checkCoinBalance E (args_From args) (needed_value (args_Value args) minReserveFee price gasLimit))
     else sret ())"

definition buildTx :: "eth_env \<Rightarrow> BuildTxArgs \<Rightarrow> ('x, Transaction \<times> BuildTxArgs) building" where
  "buildTx E args =
     sbind (slift (non_nil (Input args))) (\<lambda>input.
     sbind (slift (obind (non_nil (args_Extra args)) (\<lambda>x. non_nil (EthExtra x)))) (\<lambda>extra.
     sbind (slift (non_nil (Gas extra))) (\<lambda>gasLimit.
     sbind (calls (slift (chain_of E))) (\<lambda>chainID.
     let to = HexToAddress (args_To args); isDynamicFeeTx = IsDynamicFeeTxEnabled (params_of E) chainID in
     sbind (check_reserve E args extra isDynamicFeeTx gasLimit) (\<lambda>_.
     sbind (case Nonce extra of None \<Rightarrow> getAccountNonce E args | Some n \<Rightarrow> sret n) (\<lambda>nonce.
     sret
      (if isDynamicFeeTx then
         NewDynamicFeeTx (SignerChainID E) nonce (Some to) (args_Value args) gasLimit (GasTipCap extra) (GasFeeCap extra) input []
       else NewTransaction nonce to (args_Value args) gasLimit (GasPrice extra) input,
       set_extra (extra\<lparr>Nonce := Some nonce\<rparr>) args)))))))"

definition build_input :: "eth_env \<Rightarrow> BuildTxArgs \<Rightarrow> ('x, BuildTxArgs) building" where
  "build_input E args =
     (let swapType = args_SwapType (swapArgs args) in
      if swapType = ERC20SwapType then buildERC20SwapTxInput E args
      else if swapType = NFTSwapType then calls (slift (buildNFTSwapTxInput (routers E) (bridge E) args))
      else if swapType = AnyCallSwapType then calls (slift (buildAnyCallSwapTxInput (routers E) (bridge E) args))
      else slift (Err (BToken ErrSwapTypeNotSupported)))"

definition BuildRawTransaction :: "eth_env \<Rightarrow> BuildTxArgs \<Rightarrow> ('x, Transaction \<times> BuildTxArgs) building" where
  "BuildRawTransaction E args =
     sbind (calls (slift (chain_of E))) (\<lambda>chainID.
     sbind (sguard (IsTestMode E \<or> bi_String (args_ToChainID (swapArgs args)) = chainID) (BToken ErrToChainIDMismatch)) (\<lambda>_.
     sbind (sguard (Input args = None) (BOther ''forbid build raw swap tx with input data'')) (\<lambda>_.
     sbind (sguard (args_From args \<noteq> '''') (BOther ''forbid empty sender'')) (\<lambda>_.
     sbind (calls (slift (GetRouterMPC (routers E) (GetTokenID (swapArgs args)) chainID))) (\<lambda>routerMPC.
     sbind (sguard (EqualFold (args_From args) routerMPC) (BToken ErrSenderMismatch)) (\<lambda>_.
     sbind (build_input E args) (\<lambda>args.
     sbind (setDefaults E args) (\<lambda>args.
     buildTx E args))))))))"


section \<open>What a built transaction is\<close>

lemma calls_Ret [outcome_simps]: "calls m s = (Ret a, s') \<longleftrightarrow> m s = (Ret a, s')"
  by (auto simp: calls_def split: prod.splits outcome.splits)

lemma stores_Ret [outcome_simps]: "stores m s = (Ret a, s') \<longleftrightarrow> m s = (Ret a, s')"
  by (auto simp: stores_def split: prod.splits outcome.splits)

lemma chain_of_Ret: "chain_of E = Ret c \<longleftrightarrow> (\<exists>cc. bridgeChainConfig (bridge E) = Some cc \<and> c = cc_ChainID cc)"
  by (auto simp: chain_of_def outcome_simps non_nil_Ret)

text \<open>The parts of the arguments that the steps after the input leave as they are.\<close>

definition settled :: "BuildTxArgs \<Rightarrow> SwapArgs \<times> string \<times> string \<times> bytes option \<times> int option" where
  "settled args = (swapArgs args, args_From args, args_To args, Input args, SwapValue args)"

lemma settled_extra: "getOrInitEthExtra args = (e, args1) \<Longrightarrow> settled args1 = settled args"
  by (auto simp: getOrInitEthExtra_def settled_def Let_def split: option.splits)

lemma settled_set_extra [simp]: "settled (set_extra e args) = settled args"
  by (simp add: set_extra_def settled_def)

lemma settled_Value [simp]: "settled (args\<lparr>args_Value := v\<rparr>) = settled args"
  by (simp add: settled_def)

lemma setDefaults_settled: "setDefaults E args s = (Ret args', s') \<Longrightarrow> settled args' = settled args"
  unfolding setDefaults_def Let_def
  by (auto simp: outcome_simps simp del: split_paired_Ex dest!: settled_extra split: prod.splits option.splits)

text \<open>The transaction \<open>tx\<close> carries the input, the target, the value and the nonce of \<open>args\<close>.\<close>

definition carries :: "eth_env \<Rightarrow> BuildTxArgs \<Rightarrow> Transaction \<Rightarrow> bool" where
  "carries E args tx \<longleftrightarrow>
     Input args = Some (tx_Data tx) \<and> tx_To tx = Some (HexToAddress (args_To args)) \<and> tx_Nonce tx = GetTxNonce args \<and>
     td_Amount (tx_data tx) = set_big (args_Value args) \<and> tx_from tx = None \<and> tx_hash tx = None \<and>
     (\<exists>cc. bridgeChainConfig (bridge E) = Some cc \<and>
        (if IsDynamicFeeTxEnabled (params_of E) (cc_ChainID cc)
         then td_Type (tx_data tx) = DynamicFeeTxType \<and> td_ChainID (tx_data tx) = set_big (SignerChainID E)
         else td_Type (tx_data tx) = LegacyTxType))"

lemma buildTx_Ret:
  assumes "buildTx E args s = (Ret (tx, args'), s')"
  shows "carries E args' tx \<and> settled args' = settled args"
  using assms unfolding buildTx_def
  by (auto simp: outcome_simps non_nil_Ret chain_of_Ret Let_def GetTxNonce_def set_extra_def settled_def carries_def
      NewDynamicFeeTx_def NewTransaction_def newTransaction_def fresh_tx_def DynamicFeeTx_getTxData_def txdata_zero_def tx_types
      tx_To_def tx_Data_def tx_Nonce_def)

lemma BuildRawTransaction_steps:
  assumes "BuildRawTransaction E args s = (Ret (tx, args'), s')"
  obtains cc mpc a1 s1 a2 s2 where "bridgeChainConfig (bridge E) = Some cc"
    "IsTestMode E \<or> bi_String (args_ToChainID (swapArgs args)) = cc_ChainID cc" "Input args = None"
    "GetRouterMPC (routers E) (GetTokenID (swapArgs args)) (cc_ChainID cc) = Ret mpc" "EqualFold (args_From args) mpc"
    "build_input E args s = (Ret a1, s1)" "setDefaults E a1 s1 = (Ret a2, s2)" "buildTx E a2 s2 = (Ret (tx, args'), s')"
  using assms by (auto simp: BuildRawTransaction_def outcome_simps chain_of_Ret)


section \<open>The call data reads back\<close>

text \<open>\<open>inp\<close> calls the function \<open>funcHash\<close> with the given arguments: the parsers read each of them back.\<close>

definition calls_with :: "bytes \<Rightarrow> bytes \<Rightarrow> abi_arg list \<Rightarrow> bool" where
  "calls_with inp funcHash as \<longleftrightarrow>
     take 4 inp = funcHash \<and> (\<forall>i<length as. parsed_back (drop 4 inp) (i * 32) (as ! i))"

lemma pack_call_Ret:
  assumes "pack_call funcHash as = Ret inp" and "list_all arg_ok as" and "length funcHash = 4" and "length inp \<le> 281474976710656"
  shows "calls_with inp funcHash as"
proof -
  from assms(1) obtain fs where fs: "PackData as = Ret fs" and inp: "inp = copy_at (copy_at (replicate (4 + length fs) 0) 0 (take 4 funcHash)) 4 fs"
    by (auto simp: pack_call_def PackDataWithFuncHash_def outcome_simps split: outcome.splits)
  have i: "inp = funcHash @ fs" unfolding inp using assms(3) by (simp add: copy_at_def)
  have "length fs \<le> 281474976710656" using assms(4) i by simp
  from PackData_parsed_back [OF assms(2) fs this] i assms(3) show ?thesis by (simp add: calls_with_def)
qed


lemma length_HexTo [simp]: "length (HexToAddress a) = AddressLength" "length (HexToHash h) = HashLength"
  by (simp_all add: HexToAddress_def HexToHash_def)

text \<open>The first five arguments of every payment of a token: the swap, the token, its receiver, the amount and the source.\<close>

definition payment :: "SwapArgs \<Rightarrow> string \<Rightarrow> int option \<Rightarrow> abi_arg list" where
  "payment sw multichainToken amount =
     [AHash (HexToHash (args_SwapID sw)), AAddress (HexToAddress multichainToken), AAddress (HexToAddress (args_Bind sw)),
      ABigInt amount, ABigInt (args_FromChainID sw)]"

lemma selectors:
  "length AnySwapInFuncHash = 4" "length AnySwapInUnderlyingFuncHash = 4" "length AnySwapInNativeFuncHash = 4"
  "length AnySwapInAutoFuncHash = 4" "length AnySwapInExactTokensForTokensFuncHash = 4" "length AnySwapInExactTokensForNativeFuncHash = 4"
  "length AnySwapInAndExecFuncHash = 4" "length AnySwapInUnderlyingAndExecFuncHash = 4"
  "length nft721SwapInFuncHash = 4" "length nft1155SwapInFuncHash = 4" "length nft1155BatchSwapInFuncHash = 4"
  "length nft721SwapInWithDataFuncHash = 4" "length AnyExecFuncHash = 4" "length CurveAnyExecFuncHash = 4"
  by code_simp+


lemma getReceiverAndAmount_Ret:
  assumes "getReceiverAndAmount r b args mt = Ret (receiver, amount)"
  shows "receiver = HexToAddress (args_Bind (swapArgs args)) \<and> receiver \<noteq> ZeroAddress \<and>
    (\<exists>i fromBridge fromCfg toCfg cc. erc20Info (swapArgs args) = Some i \<and>
       GetBridgeByChainID r (bi_String (args_FromChainID (swapArgs args))) = Some fromBridge \<and>
       GetTokenConfig (base fromBridge) (erc20_Token i) = Some fromCfg \<and> GetTokenConfig b mt = Some toCfg \<and> bridgeChainConfig b = Some cc \<and>
       CalcSwapValue (toks r) (erc20_TokenID i) (cc_ChainID cc) (OriginValue args) (Decimals fromCfg) (Decimals toCfg)
         (OriginFrom args) (OriginTxTo args) = Ret amount)"
  using assms unfolding getReceiverAndAmount_def checked by auto

definition swap_in_selectors :: "bytes set" where
  "swap_in_selectors =
     {AnySwapInFuncHash, AnySwapInUnderlyingFuncHash, AnySwapInNativeFuncHash, AnySwapInAutoFuncHash,
      AnySwapInAndExecFuncHash, AnySwapInUnderlyingAndExecFuncHash}"

lemma selector_length: "h \<in> swap_in_selectors \<Longrightarrow> length h = 4"
  by (auto simp: swap_in_selectors_def selectors)

lemma calls_with_append: "calls_with inp h (as @ bs) \<Longrightarrow> calls_with inp h as"
  unfolding calls_with_def by (metis nth_append length_append trans_less_add1)

text \<open>What the two builders of payments without a trade have in common.\<close>

lemma payment_built:
  assumes "pack_call h (payment sw mt amount @ rest) = Ret inp" and "h \<in> swap_in_selectors" and "list_all arg_ok rest"
    and "big_fits amount" and "big_fits (args_FromChainID sw)" and "length inp \<le> 281474976710656"
  shows "calls_with inp h (payment sw mt amount)"
proof -
  have "list_all arg_ok (payment sw mt amount @ rest)" using assms(3-5) by (simp add: payment_def)
  from calls_with_append [OF pack_call_Ret [OF assms(1) this selector_length [OF assms(2)] assms(6)]] show ?thesis .
qed

text \<open>\<open>args\<close> became \<open>args'\<close> by a payment of the token \<open>mt\<close>.\<close>

definition paid :: "router_state \<Rightarrow> CrossChainBridgeBase \<Rightarrow> BuildTxArgs \<Rightarrow> BuildTxArgs \<Rightarrow> string \<Rightarrow> bool" where
  "paid r b args args' mt \<longleftrightarrow>
     (\<exists>inp h rc. Input args' = Some inp \<and> h \<in> swap_in_selectors \<and> GetRouterContract b mt = Ret rc \<and> args_To args' = rc \<and>
        swapArgs args' = swapArgs args \<and> args_From args' = args_From args \<and>
        (\<exists>receiver. getReceiverAndAmount r b args mt = Ret (receiver, SwapValue args')) \<and>
        (length inp \<le> 281474976710656 \<and> big_fits (SwapValue args') \<and> big_fits (args_FromChainID (swapArgs args)) \<longrightarrow>
           calls_with inp h (payment (swapArgs args) mt (SwapValue args'))))"

lemma buildERC20SwapoutTxInput_Ret:
  assumes "buildERC20SwapoutTxInput r b args mt = Ret args'"
  shows "paid r b args args' mt"
proof -
  let ?sw = "swapArgs args"
  have "\<exists>receiver amount cfg i inp rc. GetTokenConfig b mt = Some cfg \<and> erc20Info ?sw = Some i \<and> getReceiverAndAmount r b args mt = Ret (receiver, amount) \<and>
      pack_call (GetSwapInFuncHash (prm (toks r)) cfg (ForUnderlying i))
        [AHash (HexToHash (args_SwapID ?sw)), AAddress (HexToAddress mt), AAddress receiver, ABigInt amount, ABigInt (args_FromChainID ?sw)] = (Ret inp :: (token_error, bytes) outcome) \<and>
      GetRouterContract b mt = Ret rc \<and>
      args' = args\<lparr>Input := Some inp, args_To := rc, SwapValue := amount\<rparr>"
    using assms unfolding buildERC20SwapoutTxInput_def checked by (auto simp: checked)
  then obtain receiver amount inp rc and cfg :: TokenConfig and i :: ERC20SwapInfo where
    ra: "getReceiverAndAmount r b args mt = Ret (receiver, amount)"
    and inp: "pack_call (GetSwapInFuncHash (prm (toks r)) cfg (ForUnderlying i))
        [AHash (HexToHash (args_SwapID ?sw)), AAddress (HexToAddress mt), AAddress receiver, ABigInt amount, ABigInt (args_FromChainID ?sw)] = (Ret inp :: (token_error, bytes) outcome)"
    and rc: "GetRouterContract b mt = Ret rc" and args': "args' = args\<lparr>Input := Some inp, args_To := rc, SwapValue := amount\<rparr>"
    by blast
  let ?h = "GetSwapInFuncHash (prm (toks r)) cfg (ForUnderlying i)"
  have h: "?h \<in> swap_in_selectors" by (simp add: GetSwapInFuncHash_def swap_in_selectors_def Let_def)
  have "pack_call ?h (payment ?sw mt amount @ []) = (Ret inp :: (token_error, bytes) outcome)"
    using inp getReceiverAndAmount_Ret [OF ra] by (simp add: payment_def)
  from payment_built [OF this h] ra rc h show ?thesis by (auto simp: paid_def args')
qed

lemma buildSwapAndExecTxInput_Ret:
  assumes "buildSwapAndExecTxInput r b args mt = Ret args'"
  shows "paid r b args args' mt"
proof -
  let ?sw = "swapArgs args"
  have "\<exists>receiver amount cfg i inp rc. GetTokenConfig b mt = Some cfg \<and> erc20Info ?sw = Some i \<and> getReceiverAndAmount r b args mt = Ret (receiver, amount) \<and>
      pack_call (GetSwapInAndExecFuncHash cfg)
        [AHash (HexToHash (args_SwapID ?sw)), AAddress (HexToAddress mt), AAddress receiver, ABigInt amount, ABigInt (args_FromChainID ?sw),
         AAddress (HexToAddress (CallProxy i)), AHexBytes (or_empty (erc20_CallData i))] = (Ret inp :: (token_error, bytes) outcome) \<and>
      GetRouterContract b mt = Ret rc \<and>
      args' = args\<lparr>Input := Some inp, args_To := rc, SwapValue := amount\<rparr>"
    using assms unfolding buildSwapAndExecTxInput_def checked by (auto simp: checked)
  then obtain receiver amount inp rc and cfg :: TokenConfig and i :: ERC20SwapInfo where
    ra: "getReceiverAndAmount r b args mt = Ret (receiver, amount)"
    and inp: "pack_call (GetSwapInAndExecFuncHash cfg)
        [AHash (HexToHash (args_SwapID ?sw)), AAddress (HexToAddress mt), AAddress receiver, ABigInt amount, ABigInt (args_FromChainID ?sw),
         AAddress (HexToAddress (CallProxy i)), AHexBytes (or_empty (erc20_CallData i))] = (Ret inp :: (token_error, bytes) outcome)"
    and rc: "GetRouterContract b mt = Ret rc" and args': "args' = args\<lparr>Input := Some inp, args_To := rc, SwapValue := amount\<rparr>"
    by blast
  have h: "GetSwapInAndExecFuncHash cfg \<in> swap_in_selectors" by (simp add: GetSwapInAndExecFuncHash_def swap_in_selectors_def Let_def)
  have "pack_call (GetSwapInAndExecFuncHash cfg) (payment ?sw mt amount @ [AAddress (HexToAddress (CallProxy i)), AHexBytes (or_empty (erc20_CallData i))]) = (Ret inp :: (token_error, bytes) outcome)"
    using inp getReceiverAndAmount_Ret [OF ra] by (simp add: payment_def)
  from payment_built [OF this h] ra rc h show ?thesis by (auto simp: paid_def args')
qed


section \<open>Queries only count their calls\<close>

text \<open>A part of the state that does not see how many external calls were made.\<close>

locale query_free =
  fixes sel :: "'x store_scheme \<Rightarrow> 'b"
  assumes sel: "sel (s\<lparr>tick := t\<rparr>) = sel s"
begin

lemma skeeps_extern: "skeeps sel (extern f)"
  by (simp add: skeeps_def extern_def sel)

lemma query_cases:
  "(\<And>x. skeeps sel (f x)) \<Longrightarrow> (\<And>y. skeeps sel (g y)) \<Longrightarrow> skeeps sel (case z of Inl x \<Rightarrow> f x | Inr y \<Rightarrow> g y)"
  "skeeps sel m \<Longrightarrow> (\<And>y. skeeps sel (h y)) \<Longrightarrow> skeeps sel (case q of None \<Rightarrow> m | Some y \<Rightarrow> h y)"
  "(\<And>x y. skeeps sel (k x y)) \<Longrightarrow> skeeps sel (case p of (x, y) \<Rightarrow> k x y)"
  "(\<And>x. skeeps sel (f x)) \<Longrightarrow> skeeps sel (let x = v in f x)"
  "skeeps sel m \<Longrightarrow> (\<And>x xs. skeeps sel (c x xs)) \<Longrightarrow> skeeps sel (case l of [] \<Rightarrow> m | x # xs \<Rightarrow> c x xs)"
  by (simp_all split: sum.splits option.splits prod.splits list.splits)

lemmas asks = skeeps_sbind skeeps_steps skeeps_stry skeeps_extern query_cases skeeps_if

lemma skeeps_loops:
  "skeeps sel (first_answer ask zero urls err)"
  "skeeps sel (gas_url_loop k n url err)"
  "skeeps sel (max_price_loop n urls h best err)"
  "skeeps sel (all_prices_loop n urls h ps err)"
  "skeeps sel (max_tip_loop n urls h best success err)"
  "skeeps sel (first_found ask' urls err)"
  "skeeps sel (max_nonce_loop n urls account height a b success err)"
proof -
  show "skeeps sel (first_answer ask zero urls err)" by (induction urls arbitrary: err) (simp_all add: asks)
  show "skeeps sel (gas_url_loop k n url err)" by (induction k arbitrary: err) (simp_all add: asks)
  show "skeeps sel (max_price_loop n urls h best err)" by (induction urls arbitrary: h best err) (simp_all add: asks)
  show "skeeps sel (all_prices_loop n urls h ps err)" by (induction urls arbitrary: h ps err) (simp_all add: asks)
  show "skeeps sel (max_tip_loop n urls h best success err)" by (induction urls arbitrary: h best success err) (simp_all add: asks)
  show "skeeps sel (first_found ask' urls err)" by (induction urls arbitrary: err) (simp_all add: asks)
  show "skeeps sel (max_nonce_loop n urls account height a b success err)"
    by (induction urls arbitrary: a b success err) (simp_all add: asks)
qed

lemma skeeps_or: "skeeps sel m \<Longrightarrow> skeeps sel m' \<Longrightarrow> skeeps sel (or_else m again m')"
  unfolding or_else_def by (intro asks)

lemma skeeps_wrapped: "skeeps sel (or_wrapped method ps r)" "skeeps sel (urls_of b)"
  unfolding or_wrapped_def urls_of_def by (intro asks)+

lemma skeeps_calls: "skeeps sel m \<Longrightarrow> skeeps sel (calls m)"
  unfolding skeeps_def calls_def by (auto split: prod.splits outcome.splits) (metis snd_conv)+

lemma skeeps_retry: "skeeps sel m \<Longrightarrow> skeeps sel (retry_rpc k m)"
  by (induction k) (simp_all add: asks)

lemmas queries = asks skeeps_loops skeeps_or skeeps_wrapped skeeps_calls skeeps_retry

lemma skeeps_queries:
  "skeeps sel (SuggestPrice p n b)"
  "skeeps sel (SuggestGasTipCap n b)"
  "skeeps sel (GetBaseFee n b blockCount)"
  "skeeps sel (GetPoolNonce n b address height)"
  "skeeps sel (GetBalance n b account)"
  "skeeps sel (EstimateGas n b from to v data)"
  unfolding SuggestPrice_def getMaxGasPrice_def getMedianGasPrice_def getGasPriceFromURL_def SuggestGasTipCap_def getMaxGasTipCap_def
    GetBaseFee_def FeeHistory_def getFeeHistory_def GetBlockByNumber_def GetPoolNonce_def getMaxPoolNonce_def GetBalance_def EstimateGas_def
  by (intro queries)+

end

interpretation latest_price: query_free latestGasPrice
  by unfold_locales simp


section \<open>Bounds of the gas price\<close>

lemma new_gas_price_floor:
  "0 < MaxGasPriceFluctPercent cfg \<Longrightarrow> g - big_Div (g * int (MaxGasPriceFluctPercent cfg)) 100 \<le> new_gas_price cfg plusPercent n (Some g) p"
  by (simp add: new_gas_price_def Let_def)

lemma adjustSwapGasPrice_eq:
  assumes "GetRouterServerConfig (params_of E) = Some cfg" and "chain_of E = Ret c"
    and "q = new_gas_price cfg (if IsFixedGasPrice (params_of E) c then 0 else PlusGasPricePercentage cfg) (GetReplaceNum args) (latestGasPrice s) p"
  shows "adjustSwapGasPrice E args p s =
    (Ret q, if MaxGasPriceFluctPercent cfg > 0 \<and> GetReplaceNum args = 0 then s\<lparr>latestGasPrice := Some q\<rparr> else s)"
  using assms(1,2) by (simp add: adjustSwapGasPrice_def calls_def slift_def sbind_def sget_def supd_def sret_def assms(3) Let_def)

lemma adjustSwapGasPrice_Ret:
  assumes "adjustSwapGasPrice E args p s = (Ret q, s')"
  obtains cfg percent where "GetRouterServerConfig (params_of E) = Some cfg" "q = new_gas_price cfg percent (GetReplaceNum args) (latestGasPrice s) p"
    "0 < MaxGasPriceFluctPercent cfg \<Longrightarrow> GetReplaceNum args = 0 \<Longrightarrow> latestGasPrice s' = Some q"
proof -
  from assms obtain cfg where cfg: "GetRouterServerConfig (params_of E) = Some cfg"
    by (auto simp: adjustSwapGasPrice_def outcome_simps split: option.splits)
  moreover from assms cfg obtain c where "chain_of E = Ret c"
    by (auto simp: adjustSwapGasPrice_def outcome_simps)
  note adjustSwapGasPrice_eq [OF cfg this refl, where args = args and s = s and p = p]
  ultimately show ?thesis using assms that by auto
qed

lemma getGasPrice_Ret:
  assumes "getGasPrice E args s = (Ret p, s')" and "\<not> IsTestMode E" and "bridgeChainConfig (bridge E) = Some cc"
  shows "GetFixedGasPrice (params_of E) (cc_ChainID cc) = Some p \<and> GetReplaceNum args = 0 \<and> s' = s \<or>
    (\<forall>m. GetMaxGasPrice (params_of E) (cc_ChainID cc) = Some m \<longrightarrow> p \<le> m) \<and>
    (\<exists>s1 q. latestGasPrice s1 = latestGasPrice s \<and> adjustSwapGasPrice E args q s1 = (Ret p, s'))"
proof -
  have ask: "skeeps latestGasPrice (retry_rpc 2 (calls (SuggestPrice (params_of E) (node E) (bridge E))))"
    by (intro latest_price.skeeps_retry latest_price.skeeps_calls latest_price.skeeps_queries)
  have adj: "gas_price_of E args (cc_ChainID cc) q s1 = (Ret p, s') \<Longrightarrow>
      (\<forall>m. GetMaxGasPrice (params_of E) (cc_ChainID cc) = Some m \<longrightarrow> p \<le> m) \<and> adjustSwapGasPrice E args q s1 = (Ret p, s')" for q s1
    using assms(2) by (auto simp: gas_price_of_def outcome_simps split: option.splits if_splits)
  have "GetFixedGasPrice (params_of E) (cc_ChainID cc) = Some p \<and> GetReplaceNum args = 0 \<and> s' = s \<or>
      (\<exists>q s1. latestGasPrice s1 = latestGasPrice s \<and> gas_price_of E args (cc_ChainID cc) q s1 = (Ret p, s'))"
  proof (cases "GetFixedGasPrice (params_of E) (cc_ChainID cc)")
    case None
    with assms(1,3) obtain q s1 where "retry_rpc 2 (calls (SuggestPrice (params_of E) (node E) (bridge E))) s = (Ret q, s1)"
      and "gas_price_of E args (cc_ChainID cc) q s1 = (Ret p, s')"
      by (auto simp: getGasPrice_def outcome_simps chain_of_Ret)
    with skeepsD [OF ask this(1)] show ?thesis by blast
  next
    case (Some q)
    with assms(1,3) show ?thesis by (auto simp: getGasPrice_def outcome_simps chain_of_Ret split: if_splits)
  qed
  then show ?thesis using adj by blast
qed


section \<open>Properties\<close>

text \<open>
  C36: outside the test mode a price that is not simply the fixed price of the chain (none is
  configured, or the price is for a replacement) never exceeds the chain's configured maximum, if
  there is one; with a bound on the fluctuation configured, it does not fall below the last price by
  more than that percentage, and it becomes the last price unless it is for a replacement.
\<close>

theorem getGasPrice_bounds:
  assumes "getGasPrice E args s = (Ret p, s')" and "\<not> IsTestMode E" and "bridgeChainConfig (bridge E) = Some cc"
    and "GetFixedGasPrice (params_of E) (cc_ChainID cc) = None \<or> 0 < GetReplaceNum args"
  shows "\<exists>cfg. GetRouterServerConfig (params_of E) = Some cfg \<and>
    (\<forall>m. GetMaxGasPrice (params_of E) (cc_ChainID cc) = Some m \<longrightarrow> p \<le> m) \<and>
    (0 < MaxGasPriceFluctPercent cfg \<longrightarrow>
       (\<forall>g. latestGasPrice s = Some g \<longrightarrow> g - big_Div (g * int (MaxGasPriceFluctPercent cfg)) 100 \<le> p) \<and>
       (GetReplaceNum args = 0 \<longrightarrow> latestGasPrice s' = Some p))"
proof -
  from getGasPrice_Ret [OF assms(1-3)] assms(4) obtain s1 q where
    m: "\<forall>m. GetMaxGasPrice (params_of E) (cc_ChainID cc) = Some m \<longrightarrow> p \<le> m" and l: "latestGasPrice s1 = latestGasPrice s"
    and q: "adjustSwapGasPrice E args q s1 = (Ret p, s')"
    by auto
  from q show ?thesis
  proof (cases rule: adjustSwapGasPrice_Ret)
    case (1 cfg percent)
    with m l new_gas_price_floor [of cfg] show ?thesis by auto
  qed
qed

text \<open>A bridge whose node quotes 100, with 10 percent added and at most 20 percent of fluctuation.\<close>

definition sample_server :: RouterServerConfig where
  "sample_server = zero_server\<lparr>PlusGasPricePercentage := 10, MaxPlusGasPricePercentage := 50, MaxGasPriceFluctPercent := 20\<rparr>"

definition paying_params :: params_state where
  "paying_params = init_params
     \<lparr>routerConfig := zero_config\<lparr>Server := Some sample_server, Extra := Some (zero_extra\<lparr>MinReserveFee := [(''56'', 0), (''1'', 0)]\<rparr>)\<rparr>,
      maxGasPriceMap := [''56'' \<mapsto> 1000]\<rparr>"

definition paying_router :: router_state where
  "paying_router = sample_router
     \<lparr>toks := (toks sample_router)\<lparr>prm := paying_params\<rparr>,
      RouterInfos := (\<lambda>_. Some \<lparr>RouterMPC = ''0xmpc'', RouterFactory = '''', RouterWNative = ''''\<rparr>)\<rparr>"

definition paying_env :: "string \<Rightarrow> int \<Rightarrow> eth_env" where
  "paying_env chainID price =
     \<lparr>routers = paying_router, bridge = sample_bridge\<lparr>bridgeChainConfig := Some (sample_chain\<lparr>cc_ChainID := chainID\<rparr>)\<rparr>,
      node = silent_node\<lparr>eth_gasPrice := (\<lambda>_ _. Inr (Some price))\<rparr>, mongo = memory_env two_keys, SignerChainID = Some 56,
      Signer_of = LondonSigner 56, cryptolib = sample_crypto, IsTestMode = False\<rparr>"

definition build_start :: build_store where
  "build_start = store.extend no_store \<lparr>setter = NewNonceSetterBase, latestGasPrice = None\<rparr>"


definition sample_order :: BuildTxArgs where
  "sample_order = sample_build
     \<lparr>swapArgs := (swapArgs sample_build)\<lparr>erc20Info := Some \<lparr>erc20_Token = LowerHex (sample_address 3), erc20_TokenID = ''T'',
          ForNative = False, ForUnderlying = False, Path = [], AmountOutMin = None, CallProxy = '''', erc20_CallData = None\<rparr>,
        args_Bind := LowerHex (sample_address 5)\<rparr>,
      OriginValue := Some 20000\<rparr>"

lemmas run_steps = sbind_def slift_def sret_def sget_def supd_def sguard_def stry_def calls_def

lemma paying_params: "params_of (paying_env c q) = paying_params" "chain_of (paying_env c q) = Ret c"
  "GetRouterServerConfig paying_params = Some sample_server" "GetFixedGasPrice paying_params c = None" "\<not> IsFixedGasPrice paying_params c"
  "GetMaxGasPrice paying_params c = (if c = ''56'' then Some 1000 else None)" "GetCalcGasPriceMethod paying_params c = ''median''"
  by (simp_all add: params_of_def chain_of_def non_nil_def paying_env_def paying_router_def paying_params_def init_params_def
      GetRouterServerConfig_def GetFixedGasPrice_def IsFixedGasPrice_def GetMaxGasPrice_def GetCalcGasPriceMethod_def sample_server_def zero_server_def zero_config_def)

lemma paying_quote: "SuggestPrice paying_params (node (paying_env c q)) (bridge (paying_env c q)) s = (Ret q, s\<lparr>tick := Suc (tick s)\<rparr>)"
  by (simp add: SuggestPrice_def urls_of_def run_steps non_nil_def paying_env_def sample_bridge_def paying_params(7) getMedianGasPrice_def
      extern_def silent_node_def decode_into_def result_addr_def median_def)

lemma paying_price:
  "getGasPrice (paying_env c q) sample_order s =
     (let p = new_gas_price sample_server 10 0 (latestGasPrice s) q in
      if c = ''56'' \<and> p > 1000 then (Err (BOther (''gas price '' @ big_String p @ '' exceeded maximum limit'')), s\<lparr>tick := Suc (tick s), latestGasPrice := Some p\<rparr>)
      else (Ret p, s\<lparr>tick := Suc (tick s), latestGasPrice := Some p\<rparr>))"
proof -
  have n: "GetReplaceNum sample_order = 0" by (simp add: GetReplaceNum_def sample_order_def sample_build_def)
  have t: "\<not> IsTestMode (paying_env c q)" by (simp add: paying_env_def)
  have "PlusGasPricePercentage sample_server = 10" "MaxGasPriceFluctPercent sample_server = 20" by (simp_all add: sample_server_def)
  with n t show ?thesis
    by (simp add: getGasPrice_def gas_price_of_def adjustSwapGasPrice_eq [OF _ _ refl, of "paying_env c q" sample_server c] paying_params paying_quote numeral_2_eq_2 Let_def run_steps)
qed

lemma sample_new_price: "new_gas_price sample_server 10 0 None 100 = 110" "new_gas_price sample_server 10 0 (Some 110) 1 = 88"
  by (simp_all add: new_gas_price_def added_percent_def sample_server_def percent_of_def int_of_u64_def u64_add_def W64_def big_Div_pos)

lemma sample_price: "fst (getGasPrice (paying_env ''56'' 100) sample_order build_start) = Ret 110"
  by (simp add: paying_price sample_new_price build_start_def store.extend_def Let_def)

theorem getGasPrice_bounds_witness:
  "\<exists>p s'. getGasPrice (paying_env ''56'' 100) sample_order build_start = (Ret p, s') \<and> p \<le> 1000 \<and> latestGasPrice s' = Some p"
proof -
  obtain s' where s': "getGasPrice (paying_env ''56'' 100) sample_order build_start = (Ret 110, s')"
    using sample_price by (metis prod.collapse)
  from getGasPrice_bounds [OF s', of "sample_chain\<lparr>cc_ChainID := ''56''\<rparr>"] s'
  show ?thesis
    by (auto simp: paying_params sample_server_def GetReplaceNum_def sample_order_def sample_build_def) (simp_all add: paying_env_def)
qed

text \<open>
  C37: the last gas price is one variable for all chains of the process: after the bridge of one
  chain priced a swap, the price that the bridge of any other chain computes is at least that price
  less the fluctuation, whatever the nodes of the other chain quote.
\<close>

theorem gas_price_carries_over:
  assumes "getGasPrice E args s = (Ret p, s1)" and "getGasPrice E' args' s1 = (Ret p', s2)"
    and "routers E' = routers E" and "\<not> IsTestMode E" and "\<not> IsTestMode E'"
    and "bridgeChainConfig (bridge E) = Some cc" and "bridgeChainConfig (bridge E') = Some cc'"
    and "GetFixedGasPrice (params_of E) (cc_ChainID cc) = None" and "GetFixedGasPrice (params_of E) (cc_ChainID cc') = None"
    and "GetReplaceNum args = 0" and "GetRouterServerConfig (params_of E) = Some cfg" and "0 < MaxGasPriceFluctPercent cfg"
  shows "p - big_Div (p * int (MaxGasPriceFluctPercent cfg)) 100 \<le> p'"
proof -
  have same: "params_of E' = params_of E" using assms(3) by (simp add: params_of_def)
  from getGasPrice_Ret [OF assms(1,4,6)] assms(8) obtain s0 q where "adjustSwapGasPrice E args q s0 = (Ret p, s1)" by auto
  then have l: "latestGasPrice s1 = Some p" by (cases rule: adjustSwapGasPrice_Ret) (use assms(10-12) in auto)
  from getGasPrice_Ret [OF assms(2,5,7)] assms(9) same obtain s3 q' where
    "latestGasPrice s3 = latestGasPrice s1" "adjustSwapGasPrice E' args' q' s3 = (Ret p', s2)" by auto
  from this(2) show ?thesis
    by (cases rule: adjustSwapGasPrice_Ret) (use assms(11,12) same l \<open>latestGasPrice s3 = _\<close> new_gas_price_floor [of cfg p] in auto)
qed

lemma sample_prices:
  "fst (getGasPrice (paying_env ''1'' 1) sample_order (snd (getGasPrice (paying_env ''56'' 100) sample_order build_start))) = Ret 88"
  by (simp add: paying_price sample_new_price build_start_def store.extend_def Let_def)

theorem gas_price_carries_over_witness:
  "\<exists>p s1 p' s2. getGasPrice (paying_env ''56'' 100) sample_order build_start = (Ret p, s1) \<and>
     getGasPrice (paying_env ''1'' 1) sample_order s1 = (Ret p', s2) \<and> 80 < p'"
proof -
  obtain s1 where 1: "getGasPrice (paying_env ''56'' 100) sample_order build_start = (Ret 110, s1)"
    using sample_price by (metis prod.collapse)
  obtain s2 where 2: "getGasPrice (paying_env ''1'' 1) sample_order s1 = (Ret 88, s2)"
    using sample_prices 1 by (metis prod.collapse snd_conv)
  have "110 - big_Div (110 * int (MaxGasPriceFluctPercent sample_server)) 100 \<le> 88"
    by (intro gas_price_carries_over [OF 1 2, where cfg = sample_server and cc = "sample_chain\<lparr>cc_ChainID := ''56''\<rparr>" and cc' = "sample_chain\<lparr>cc_ChainID := ''1''\<rparr>"])
       (simp_all add: paying_params, simp_all add: paying_env_def sample_server_def GetReplaceNum_def sample_order_def sample_build_def)
  with 1 2 show ?thesis by (auto simp: sample_server_def big_Div_pos)
qed

end
