(* ===== verification/Payments.thy ===== *)
theory Payments
  imports EthBuild
begin

text \<open>
  What the transactions pay that \<open>BuildRawTransaction\<close> of \<open>src/tokens/eth/buildtx.go\<close> returns:
  the steps of the builder composed, from the swap that is to be paid to the call data that the
  router contract of the target chain will read.
\<close>

section \<open>ERC20 swaps\<close>

lemma buildERC20SwapTxInput_Ret:
  assumes "buildERC20SwapTxInput E args s = (Ret args', s')" and "erc20Info (swapArgs args) = Some i"
    and "CallProxy i \<noteq> '''' \<or> Path i = []"
  obtains mt where "mt = GetCachedMultichainToken (routers E) (erc20_TokenID i) (bi_String (args_ToChainID (swapArgs args)))"
    and "mt \<noteq> ''''" and "paid (routers E) (bridge E) args args' mt"
  using assms that [OF refl] buildERC20SwapoutTxInput_Ret buildSwapAndExecTxInput_Ret
  by (auto simp: buildERC20SwapTxInput_def Let_def outcome_simps split: if_splits)

lemma getReceiverAndAmount_valid:
  assumes "getReceiverAndAmount r b args mt = Ret (receiver, amount)"
  shows "IsHexAddress (args_Bind (swapArgs args))"
  using assms unfolding getReceiverAndAmount_def checked by auto

text \<open>After the input, the builder leaves what \<open>settled\<close> holds and puts it into the transaction.\<close>

lemma BuildRawTransaction_carries:
  assumes "BuildRawTransaction E args s = (Ret (tx, args'), s')" and "\<not> IsTestMode E"
  obtains cc mpc a1 s1 where "bridgeChainConfig (bridge E) = Some cc" and "bi_String (args_ToChainID (swapArgs args)) = cc_ChainID cc"
    and "GetRouterMPC (routers E) (GetTokenID (swapArgs args)) (cc_ChainID cc) = Ret mpc" and "EqualFold (args_From args) mpc"
    and "build_input E args s = (Ret a1, s1)" and "settled args' = settled a1" and "carries E args' tx"
proof -
  from BuildRawTransaction_steps [OF assms(1)] obtain cc mpc a1 s1 a2 s2 where *:
    "bridgeChainConfig (bridge E) = Some cc" "IsTestMode E \<or> bi_String (args_ToChainID (swapArgs args)) = cc_ChainID cc"
    "GetRouterMPC (routers E) (GetTokenID (swapArgs args)) (cc_ChainID cc) = Ret mpc" "EqualFold (args_From args) mpc"
    "build_input E args s = (Ret a1, s1)" "setDefaults E a1 s1 = (Ret a2, s2)" "buildTx E a2 s2 = (Ret (tx, args'), s')" .
  from setDefaults_settled [OF *(6)] buildTx_Ret [OF *(7)] have "settled args' = settled a1" "carries E args' tx" by simp_all
  with * assms(2) that show thesis by auto
qed

text \<open>
  C14: outside the test mode, a transaction that the builder returns for an ERC20 swap without a trade
  (it has a call proxy or an empty path) goes from the router's MPC account to the router contract of
  the target token and calls one of its payment functions: the call data reads back as the swap, the
  target token, the receiver of the swap, the value that \<open>CalcSwapValue\<close> gives for the deposit, and
  the source chain. Value and chain are to fit 256 bits, and the data 48 bits of length.
\<close>

theorem BuildRawTransaction_pays:
  assumes "BuildRawTransaction E args s = (Ret (tx, args'), s')" and "\<not> IsTestMode E"
    and "args_SwapType (swapArgs args) = ERC20SwapType" and "erc20Info (swapArgs args) = Some i" and "CallProxy i \<noteq> '''' \<or> Path i = []"
    and "length (tx_Data tx) \<le> 281474976710656" and "big_fits (SwapValue args')" and "big_fits (args_FromChainID (swapArgs args))"
  shows "\<exists>cc mpc mt h rc fromBridge fromCfg toCfg.
    bridgeChainConfig (bridge E) = Some cc \<and> bi_String (args_ToChainID (swapArgs args)) = cc_ChainID cc \<and>
    GetRouterMPC (routers E) (erc20_TokenID i) (cc_ChainID cc) = Ret mpc \<and> EqualFold (args_From args) mpc \<and>
    mt = GetCachedMultichainToken (routers E) (erc20_TokenID i) (cc_ChainID cc) \<and> mt \<noteq> '''' \<and>
    IsHexAddress (args_Bind (swapArgs args)) \<and> HexToAddress (args_Bind (swapArgs args)) \<noteq> ZeroAddress \<and>
    GetBridgeByChainID (routers E) (bi_String (args_FromChainID (swapArgs args))) = Some fromBridge \<and>
    GetTokenConfig (base fromBridge) (erc20_Token i) = Some fromCfg \<and> GetTokenConfig (bridge E) mt = Some toCfg \<and>
    CalcSwapValue (toks (routers E)) (erc20_TokenID i) (cc_ChainID cc) (OriginValue args) (Decimals fromCfg) (Decimals toCfg)
      (OriginFrom args) (OriginTxTo args) = Ret (SwapValue args') \<and>
    GetRouterContract (bridge E) mt = Ret rc \<and> tx_To tx = Some (HexToAddress rc) \<and>
    h \<in> swap_in_selectors \<and> calls_with (tx_Data tx) h (payment (swapArgs args) mt (SwapValue args'))"
proof -
  from BuildRawTransaction_carries [OF assms(1,2)] obtain cc mpc a1 s1 where 1:
    "bridgeChainConfig (bridge E) = Some cc" "bi_String (args_ToChainID (swapArgs args)) = cc_ChainID cc"
    "GetRouterMPC (routers E) (GetTokenID (swapArgs args)) (cc_ChainID cc) = Ret mpc" "EqualFold (args_From args) mpc"
    and inp: "build_input E args s = (Ret a1, s1)" and tx: "settled args' = settled a1" "carries E args' tx" .
  from inp assms(3) have "buildERC20SwapTxInput E args s = (Ret a1, s1)" by (simp add: build_input_def)
  from buildERC20SwapTxInput_Ret [OF this assms(4,5)] obtain mt where
    mt: "mt = GetCachedMultichainToken (routers E) (erc20_TokenID i) (cc_ChainID cc)" "mt \<noteq> ''''" and paid: "paid (routers E) (bridge E) args a1 mt"
    using 1(2) by auto
  have tid: "GetTokenID (swapArgs args) = erc20_TokenID i" by (simp add: GetTokenID_def assms(4))
  from paid tx assms(6-8) obtain h rc receiver where
    h: "h \<in> swap_in_selectors" "GetRouterContract (bridge E) mt = Ret rc" "tx_To tx = Some (HexToAddress rc)"
      "calls_with (tx_Data tx) h (payment (swapArgs args) mt (SwapValue args'))"
    and ra: "getReceiverAndAmount (routers E) (bridge E) args mt = Ret (receiver, SwapValue args')"
    by (auto simp: paid_def settled_def carries_def)
  from getReceiverAndAmount_Ret [OF ra] getReceiverAndAmount_valid [OF ra] 1 mt h tid assms(4) show ?thesis by auto
qed

text \<open>A deposit of 20000 units, of which 20 are the fee, paid on the chain \<open>56\<close> with gas, price and nonce given.\<close>

definition sample_payment :: BuildTxArgs where
  "sample_payment = sample_order
     \<lparr>SwapValue := None, args_Extra := Some \<lparr>EthExtra = Some \<lparr>Gas = Some 90000, GasPrice = Some 5, GasTipCap = None, GasFeeCap = None, Nonce = Some 7, Deadline = 0\<rparr>,
        ReplaceNum = 0, Sequence = None, Fee = None\<rparr>\<rparr>"

fun tail_length :: "AbiCoder.item \<Rightarrow> nat" where
  "tail_length (Static w) = 0"
| "tail_length (Dynamic p) = length p"

lemma length_put_item_eq: "item_ok x \<Longrightarrow> (i + 1) * 32 \<le> length bs \<Longrightarrow> length (put_item i x bs) = length bs + tail_length x"
  by (cases x) (auto simp: pack_dynamic_def length_packBigInt_ge)

lemma length_put_items_eq:
  "list_all item_ok xs \<Longrightarrow> (i + length xs) * 32 \<le> length bs \<Longrightarrow> length (put_items i xs bs) = length bs + sum_list (map tail_length xs)"
  by (induction i xs bs rule: put_items.induct) (auto simp: length_put_item_eq)

lemma length_pack_call:
  assumes "list_all arg_ok as" and "pack_call h as = Ret inp"
  shows "length inp = 4 + length as * 32 + sum_list (map (tail_length \<circ> arg_item) as)"
proof -
  have "list_all item_ok (map arg_item as)" using assms(1) by (auto simp: list_all_iff intro: item_ok_arg_item)
  then have "length (put_items 0 (map arg_item as) (replicate (length as * 32) 0)) = length as * 32 + sum_list (map (tail_length \<circ> arg_item) as)"
    by (subst length_put_items_eq) simp_all
  with assms(2) show ?thesis by (auto simp: pack_call_def PackDataWithFuncHash_def PackData_def pack_args_items [OF assms(1)])
qed

lemma pack_call_total: "list_all arg_ok as \<Longrightarrow> \<exists>inp. pack_call h as = Ret inp"
  by (auto simp: pack_call_def PackDataWithFuncHash_def PackData_def pack_args_items)

lemma payment_packed:
  assumes "big_fits amount" and "big_fits (args_FromChainID sw)"
  obtains inp where "pack_call h (payment sw mt amount) = (Ret inp :: ('e, bytes) outcome)" and "length inp = 164"
proof -
  have ok: "list_all arg_ok (payment sw mt amount)" using assms by (simp add: payment_def)
  from pack_call_total [OF this] obtain inp where "pack_call h (payment sw mt amount) = (Ret inp :: ('e, bytes) outcome)" by blast
  with that length_pack_call [OF ok this] show thesis by (simp add: payment_def)
qed

lemma sample_payment_amount:
  "getReceiverAndAmount paying_router (bridge (paying_env ''56'' 100)) sample_payment ''0x5'' = Ret (sample_address 5, Some 19980)"
proof -
  have "CalcSwapValue (toks paying_router) ''T'' ''56'' (Some 20000) 18 18 '''' '''' = Ret (Some 19980)"
    by (simp add: CalcSwapValue_def paying_router_def sample_router_def IsERC20Router_def GetSwapConfig_def sample_swap_def
        IsInBigValueWhitelist_def in_table_def paying_params_def params_zeros calc_swap_fee_def GetBaseFeePercent_def GetExtraConfig_def
        ConvertTokenValue_def big_Div_def non_nil_def)
  moreover have "sample_address 5 \<noteq> ZeroAddress" by (simp add: ZeroAddress_sample sample_address_inject)
  moreover have "IsHexAddress (LowerHex (sample_address 5))" by code_simp
  ultimately show ?thesis
    by (simp add: Let_def getReceiverAndAmount_def sample_payment_def sample_order_def sample_build_def ensure_def or_err_def non_nil_def
        GetBridgeByChainID_def GetTokenConfig_def paying_env_def paying_router_def sample_router_def sample_ibridge_def sample_bridge_def
        sample_token_def sample_chain_def)
qed

lemma sample_payment_input:
  obtains inp where "length inp = 164"
    and "buildERC20SwapTxInput (paying_env ''56'' 100) sample_payment s = (Ret (sample_payment\<lparr>Input := Some inp, args_To := LowerHex (sample_address 7), SwapValue := Some 19980\<rparr>), s)"
proof -
  let ?sw = "swapArgs sample_payment" and ?h = "GetSwapInFuncHash paying_params sample_token False"
  have from_chain: "args_FromChainID ?sw = Some 1" by (simp add: sample_payment_def sample_order_def sample_build_def)
  then have "big_fits (args_FromChainID ?sw)" "big_fits (Some 19980)" by (simp_all add: big_fits_def)
  then obtain inp where p: "pack_call ?h (payment ?sw ''0x5'' (Some 19980)) = (Ret inp :: (token_error, bytes) outcome)" and "length inp = 164"
    using payment_packed by blast
  have bind: "HexToAddress (args_Bind ?sw) = sample_address 5" by (simp add: sample_payment_def sample_order_def)
  have info: "erc20Info ?sw = Some \<lparr>erc20_Token = LowerHex (sample_address 3), erc20_TokenID = ''T'', ForNative = False, ForUnderlying = False, Path = [],
      AmountOutMin = None, CallProxy = '''', erc20_CallData = None\<rparr>"
    by (simp add: sample_payment_def sample_order_def)
  have tokens: "GetTokenConfig (bridge (paying_env ''56'' 100)) ''0x5'' = Some sample_token"
    "GetRouterContract (bridge (paying_env ''56'' 100)) ''0x5'' = Ret (LowerHex (sample_address 7))"
    by (simp_all add: GetRouterContract_def GetTokenConfig_def paying_env_def sample_bridge_def) (simp add: sample_token_def sample_chain_def)
  have prm: "prm (toks paying_router) = paying_params" by (simp add: paying_router_def)
  have "buildERC20SwapoutTxInput paying_router (bridge (paying_env ''56'' 100)) sample_payment ''0x5'' =
      Ret (sample_payment\<lparr>Input := Some inp, args_To := LowerHex (sample_address 7), SwapValue := Some 19980\<rparr>)"
    using p unfolding payment_def bind
    by (simp add: buildERC20SwapoutTxInput_def Let_def sample_payment_amount info or_err_def non_nil_def tokens prm from_chain)
  moreover have "routers (paying_env ''56'' 100) = paying_router" by (simp add: paying_env_def)
  moreover have "GetCachedMultichainToken paying_router ''T'' c = ''0x5''" for c
    by (simp add: GetCachedMultichainToken_def GetCachedMultichainTokens_def paying_router_def sample_router_def)
  ultimately show thesis
    using that \<open>length inp = 164\<close> by (simp add: buildERC20SwapTxInput_def Let_def info calls_def slift_def)
qed

text \<open>With price and nonce given, the sample chain builds every transaction whose input could be built.\<close>

lemma paying_estimate: "EstimateGas (node (paying_env c q)) (bridge (paying_env c q)) from to v d s = (Ret 0, s\<lparr>tick := Suc (tick s)\<rparr>)"
  by (simp add: EstimateGas_def urls_of_def run_steps non_nil_def paying_env_def sample_bridge_def extern_def silent_node_def or_wrapped_def)

lemma paying_defaults:
  assumes "args_Value a = None" and "args_Extra a = Some x" and "EthExtra x = Some e" and "GasPrice e = Some g" and "Input a = Some inp"
  shows "\<exists>e2 gas s2. setDefaults (paying_env c q) a s = (Ret (set_extra e2 (a\<lparr>args_Value := Some 0\<rparr>)), s2) \<and>
    GasPrice e2 = Some g \<and> Nonce e2 = Nonce e \<and> Gas e2 = Some gas"
proof -
  have dyn: "\<not> IsDynamicFeeTxEnabled paying_params c" for c
    by (simp add: IsDynamicFeeTxEnabled_def paying_params_def init_params_def)
  have gas: "\<exists>gas. getDefaultGasLimit (paying_env c q) = Ret gas" by (simp add: getDefaultGasLimit_def paying_params)
  show ?thesis
    using assms gas
    by (cases "Gas e") (auto simp: setDefaults_def run_steps paying_params dyn getOrInitEthExtra_def Let_def paying_estimate non_nil_def)
qed

lemma paying_builds:
  assumes "build_input (paying_env ''56'' 100) args s = (Ret a, s1)" and "args_ToChainID (swapArgs args) = Some 56" and "Input args = None"
    and "args_From args = ''0xmpc''" and "args_Value a = None" and "args_Extra a = Some x" and "EthExtra x = Some e" and "GasPrice e = Some g"
    and "Nonce e = Some n" and "Input a = Some inp"
  shows "\<exists>tx args' s'. BuildRawTransaction (paying_env ''56'' 100) args s = (Ret (tx, args'), s') \<and> tx_Data tx = inp \<and> SwapValue args' = SwapValue a"
proof -
  let ?E = "paying_env ''56'' 100"
  from paying_defaults [OF assms(5-8,10)] obtain e2 gas s2 where d: "setDefaults ?E a s1 = (Ret (set_extra e2 (a\<lparr>args_Value := Some 0\<rparr>)), s2)"
    and e2: "GasPrice e2 = Some g" "Nonce e2 = Some n" "Gas e2 = Some gas" using assms(9) by (metis (no_types, lifting))
  define a' where "a' = set_extra e2 (a\<lparr>args_Value := Some 0\<rparr>)"
  have a': "args_Extra a' = Some (x\<lparr>EthExtra := Some e2\<rparr>)" "Input a' = Some inp" "SwapValue a' = SwapValue a"
    using assms(6,10) by (simp_all add: a'_def set_extra_def)
  have dyn: "\<not> IsDynamicFeeTxEnabled paying_params c" and fee: "GetMinReserveFee paying_params ''56'' = Some 0" for c
    by (simp_all add: IsDynamicFeeTxEnabled_def GetMinReserveFee_def GetExtraConfig_def paying_params_def init_params_def)
  obtain tx args' where b: "buildTx ?E a' s2 = (Ret (tx, args'), s2)"
    using e2 by (simp add: buildTx_def check_reserve_def getMinReserveFee_def run_steps paying_params dyn fee a' non_nil_def Let_def)
  have mpc: "GetRouterMPC (routers ?E) t c = Ret ''0xmpc''" for t c
    by (simp add: GetRouterMPC_def GetTokenRouterInfo_def GetTokenRouterContract_def GetRouterInfo_def paying_env_def paying_router_def sample_router_def
        sample_ibridge_def sample_bridge_def GetBridgeByChainID_def GetRouterContract_def GetTokenConfig_def sample_token_def sample_chain_def
        GetCachedMultichainToken_def GetCachedMultichainTokens_def)
  have "\<not> IsTestMode ?E" by (simp add: paying_env_def)
  moreover have "big_String 56 = ''56''" by code_simp
  ultimately have "BuildRawTransaction ?E args s = (Ret (tx, args'), s2)"
    using assms(1-4) d b by (simp add: BuildRawTransaction_def run_steps paying_params mpc a'_def bi_String_def)
  moreover from buildTx_Ret [OF b] a' have "tx_Data tx = inp" "SwapValue args' = SwapValue a" by (auto simp: settled_def carries_def)
  ultimately show ?thesis by blast
qed

lemma sample_payment_built:
  obtains tx args' s' where "BuildRawTransaction (paying_env ''56'' 100) sample_payment s = (Ret (tx, args'), s')" and "length (tx_Data tx) = 164"
    and "SwapValue args' = Some 19980"
proof -
  obtain inp where len: "length inp = 164" and inp: "buildERC20SwapTxInput (paying_env ''56'' 100) sample_payment s =
      (Ret (sample_payment\<lparr>Input := Some inp, args_To := LowerHex (sample_address 7), SwapValue := Some 19980\<rparr>), s)"
    by (rule sample_payment_input)
  have "build_input (paying_env ''56'' 100) sample_payment s =
      (Ret (sample_payment\<lparr>Input := Some inp, args_To := LowerHex (sample_address 7), SwapValue := Some 19980\<rparr>), s)"
    using inp by (simp add: build_input_def sample_payment_def sample_order_def sample_build_def ERC20SwapType_def)
  from paying_builds [OF this] that len show thesis
    by (fastforce simp: sample_payment_def sample_order_def sample_build_def)
qed

theorem BuildRawTransaction_pays_witness:
  "\<exists>tx args' s' h. BuildRawTransaction (paying_env ''56'' 100) sample_payment build_start = (Ret (tx, args'), s') \<and>
     tx_To tx = Some (sample_address 7) \<and> h \<in> swap_in_selectors \<and>
     calls_with (tx_Data tx) h (payment (swapArgs sample_payment) ''0x5'' (Some 19980))"
proof -
  obtain tx args' s' where built: "BuildRawTransaction (paying_env ''56'' 100) sample_payment build_start = (Ret (tx, args'), s')"
    and "length (tx_Data tx) = 164" and amount: "SwapValue args' = Some 19980"
    by (rule sample_payment_built)
  moreover have "bi_String (Some 56) = ''56''" by code_simp
  ultimately show ?thesis
    using BuildRawTransaction_pays [OF built _ _ _ _ _ _ _] GetRouterContract_def
    by (auto simp: paying_env_def paying_router_def sample_router_def sample_bridge_def sample_chain_def sample_token_def sample_payment_def sample_order_def sample_build_def
        ERC20SwapType_def big_fits_def GetCachedMultichainToken_def GetCachedMultichainTokens_def GetRouterContract_def GetTokenConfig_def)
qed

section \<open>NFT swaps\<close>

lemma buildNFTSwapTxInput_Ret:
  assumes "buildNFTSwapTxInput r b args = Ret args'"
  shows "\<exists>n cc h rest inp rc. nftInfo (swapArgs args) = Some n \<and> HexToAddress (args_Bind (swapArgs args)) \<noteq> ZeroAddress \<and> IsHexAddress (args_Bind (swapArgs args)) \<and>
    bridgeChainConfig b = Some cc \<and> cc_ChainID cc = bi_String (args_ToChainID (swapArgs args)) \<and>
    GetCachedMultichainToken r (nft_TokenID n) (cc_ChainID cc) \<noteq> '''' \<and>
    nft_call (prm (toks r)) n (args_FromChainID (swapArgs args)) = Ret (h, rest) \<and>
    pack_call h ([AHash (HexToHash (args_SwapID (swapArgs args))), AAddress (HexToAddress (GetCachedMultichainToken r (nft_TokenID n) (cc_ChainID cc))),
      AAddress (HexToAddress (args_Bind (swapArgs args)))] @ rest) = (Ret inp :: (token_error, bytes) outcome) \<and>
    GetRouterContract b (GetCachedMultichainToken r (nft_TokenID n) (cc_ChainID cc)) = Ret rc \<and>
    args' = args\<lparr>Input := Some inp, args_To := rc\<rparr>"
  using assms unfolding buildNFTSwapTxInput_def Let_def checked by (auto simp: checked)

lemma nft_call_args:
  assumes "nft_call p n from = Ret (h, rest)" and "list_all (\<lambda>v. big_fits (Some v)) (IDs n @ Amounts n)" and "big_fits from"
  shows "length h = 4 \<and> list_all arg_ok rest"
  using assms by (auto simp: nft_call_def selectors list_all_iff list_all_length split: if_splits)

text \<open>
  The functions of the router contract that pay out NFTs, with what follows the swap, the token and the
  receiver in a call of each: lists of identifiers and amounts for a batch; one identifier and one
  amount; one identifier, with or without extra bytes; and the source chain.
\<close>

definition mint_call :: "bool \<Rightarrow> NFTSwapInfo \<Rightarrow> int option \<Rightarrow> bytes \<Rightarrow> abi_arg list \<Rightarrow> bool" where
  "mint_call with_data n from h rest \<longleftrightarrow>
     (if Batch n then
        length (IDs n) = length (Amounts n) \<and> IDs n \<noteq> [] \<and> h = FromHex ''88b150f7'' \<and>
        rest = [ABigIntSlice (map Some (IDs n)), ABigIntSlice (map Some (Amounts n)), ABigInt from]
      else \<exists>i. IDs n = [i] \<and>
        ((\<exists>a. Amounts n = [a] \<and> h = FromHex ''1b5b36c0'' \<and> rest = [ABigInt (Some i), ABigInt (Some a), ABigInt from]) \<or>
         Amounts n = [] \<and> with_data \<and> h = FromHex ''2cbba1a4'' \<and> rest = [ABigInt (Some i), ABigInt from, AHexBytes (nft_Data n)] \<or>
         Amounts n = [] \<and> \<not> with_data \<and> h = FromHex ''09493b23'' \<and> rest = [ABigInt (Some i), ABigInt from]))"

lemma nft_call_mints: "nft_call p n from = Ret (h, rest) \<Longrightarrow> mint_call (fst (IsNFTSwapWithData p)) n from h rest"
  by (auto simp: nft_call_def mint_call_def nft1155BatchSwapInFuncHash_def nft1155SwapInFuncHash_def nft721SwapInWithDataFuncHash_def nft721SwapInFuncHash_def
      length_Suc_conv split: if_splits)

text \<open>
  C15: outside the test mode, a transaction that the builder returns for an NFT swap goes to the router
  contract of the target token and its call data reads back as the swap, the target token, the
  receiver, and then, by the function of the contract that is called, the lists of identifiers and
  amounts of a batch, the one identifier and amount, or the one identifier (with its extra bytes where
  configured), and the source chain. Identifiers, amounts and chain are to fit 256 bits, and the data
  48 bits of length.
\<close>

theorem BuildRawTransaction_mints:
  assumes "BuildRawTransaction E args s = (Ret (tx, args'), s')" and "\<not> IsTestMode E"
    and "args_SwapType (swapArgs args) = NFTSwapType" and "nftInfo (swapArgs args) = Some n"
    and "length (tx_Data tx) \<le> 281474976710656" and "list_all (\<lambda>v. big_fits (Some v)) (IDs n @ Amounts n)" and "big_fits (args_FromChainID (swapArgs args))"
  shows "\<exists>cc mt h rest rc. bridgeChainConfig (bridge E) = Some cc \<and> bi_String (args_ToChainID (swapArgs args)) = cc_ChainID cc \<and>
    mt = GetCachedMultichainToken (routers E) (nft_TokenID n) (cc_ChainID cc) \<and> mt \<noteq> '''' \<and>
    IsHexAddress (args_Bind (swapArgs args)) \<and> HexToAddress (args_Bind (swapArgs args)) \<noteq> ZeroAddress \<and>
    GetRouterContract (bridge E) mt = Ret rc \<and> tx_To tx = Some (HexToAddress rc) \<and>
    mint_call (fst (IsNFTSwapWithData (params_of E))) n (args_FromChainID (swapArgs args)) h rest \<and>
    calls_with (tx_Data tx) h
      ([AHash (HexToHash (args_SwapID (swapArgs args))), AAddress (HexToAddress mt), AAddress (HexToAddress (args_Bind (swapArgs args)))] @ rest)"
proof -
  from BuildRawTransaction_carries [OF assms(1,2)] obtain a1 s1 where inp: "build_input E args s = (Ret a1, s1)"
    and tx: "settled args' = settled a1" "carries E args' tx" by blast
  from inp assms(3) have "buildNFTSwapTxInput (routers E) (bridge E) args = Ret a1"
    by (simp add: build_input_def NFTSwapType_def ERC20SwapType_def outcome_simps)
  from buildNFTSwapTxInput_Ret [OF this] assms(4) obtain cc h rest inp rc where
    *: "HexToAddress (args_Bind (swapArgs args)) \<noteq> ZeroAddress" "IsHexAddress (args_Bind (swapArgs args))"
      "bridgeChainConfig (bridge E) = Some cc" "cc_ChainID cc = bi_String (args_ToChainID (swapArgs args))"
      "GetCachedMultichainToken (routers E) (nft_TokenID n) (cc_ChainID cc) \<noteq> ''''" "nft_call (params_of E) n (args_FromChainID (swapArgs args)) = Ret (h, rest)"
      "GetRouterContract (bridge E) (GetCachedMultichainToken (routers E) (nft_TokenID n) (cc_ChainID cc)) = Ret rc"
    and p: "pack_call h ([AHash (HexToHash (args_SwapID (swapArgs args))), AAddress (HexToAddress (GetCachedMultichainToken (routers E) (nft_TokenID n) (cc_ChainID cc))),
      AAddress (HexToAddress (args_Bind (swapArgs args)))] @ rest) = (Ret inp :: (token_error, bytes) outcome)"
    and a1: "a1 = args\<lparr>Input := Some inp, args_To := rc\<rparr>"
    unfolding params_of_def by auto
  from tx a1 have d: "tx_Data tx = inp" "tx_To tx = Some (HexToAddress rc)" by (auto simp: settled_def carries_def)
  from nft_call_args [OF *(6) assms(6,7)] have ok: "length h = 4" "list_all arg_ok rest" by simp_all
  have ids: "mint_call (fst (IsNFTSwapWithData (params_of E))) n (args_FromChainID (swapArgs args)) h rest" by (rule nft_call_mints [OF *(6)])
  from pack_call_Ret [OF p _ ok(1)] ok(2) assms(5) d ids * show ?thesis
    by (intro exI [of _ cc] exI [of _ "GetCachedMultichainToken (routers E) (nft_TokenID n) (cc_ChainID cc)"] exI [of _ h] exI [of _ rest] exI [of _ rc]) auto
qed

definition sample_mint :: BuildTxArgs where
  "sample_mint = sample_payment
     \<lparr>swapArgs := (swapArgs sample_payment)\<lparr>args_SwapType := NFTSwapType, erc20Info := None,
        nftInfo := Some \<lparr>nft_Token = LowerHex (sample_address 3), nft_TokenID = ''T'', IDs = [7, 8], Amounts = [1, 2], Batch = True, nft_Data = []\<rparr>\<rparr>\<rparr>"

lemma sample_mint_input:
  obtains inp a where "build_input (paying_env ''56'' 100) sample_mint s = (Ret a, s)" and "Input a = Some inp" and "length inp \<le> 1000"
    and "args_Value a = None" and "args_Extra a = args_Extra sample_mint"
proof -
  let ?sw = "swapArgs sample_mint" and ?b = "bridge (paying_env ''56'' 100)"
  let ?as = "[AHash (HexToHash (args_SwapID ?sw)), AAddress (HexToAddress ''0x5''), AAddress (sample_address 5),
    ABigIntSlice [Some 7, Some 8], ABigIntSlice [Some 1, Some 2], ABigInt (Some 1)]"
  have ok: "list_all arg_ok ?as" by (simp add: big_fits_def)
  from pack_call_total [OF ok] obtain inp where p: "pack_call nft1155BatchSwapInFuncHash ?as = (Ret inp :: (token_error, bytes) outcome)" by blast
  have "length (packBigIntSlice [Some v, Some w]) = 96" if "big_fits (Some v)" "big_fits (Some w)" for v w
    by (subst packBigIntSlice_eq) (use that in \<open>auto simp: W64_def big_fits_length length_packBigInt\<close>)
  then have len: "length inp \<le> 1000"
    by (simp add: length_pack_call [OF ok p]) (simp add: big_fits_def)
  have fields: "args_SwapType ?sw = NFTSwapType" "args_FromChainID ?sw = Some 1" "args_ToChainID ?sw = Some 56" "args_Bind ?sw = LowerHex (sample_address 5)"
    "nftInfo ?sw = Some \<lparr>nft_Token = LowerHex (sample_address 3), nft_TokenID = ''T'', IDs = [7, 8], Amounts = [1, 2], Batch = True, nft_Data = []\<rparr>"
    "args_Value sample_mint = None"
    by (simp_all add: sample_mint_def sample_payment_def sample_order_def sample_build_def)
  have b: "bridgeChainConfig ?b = Some (sample_chain\<lparr>cc_ChainID := ''56''\<rparr>)" "GetRouterContract ?b ''0x5'' = Ret (LowerHex (sample_address 7))"
    by (simp_all add: GetRouterContract_def GetTokenConfig_def paying_env_def sample_bridge_def) (simp add: sample_token_def sample_chain_def)
  have r: "routers (paying_env ''56'' 100) = paying_router" by (simp add: paying_env_def)
  have mt: "GetCachedMultichainToken paying_router ''T'' c = ''0x5''" for c
    by (simp add: GetCachedMultichainToken_def GetCachedMultichainTokens_def paying_router_def sample_router_def)
  have "bi_String (Some 56) = ''56''" by code_simp
  moreover have "sample_address 5 \<noteq> ZeroAddress" by (simp add: ZeroAddress_sample sample_address_inject)
  moreover have "IsHexAddress (LowerHex (sample_address 5))" by code_simp
  ultimately have "buildNFTSwapTxInput paying_router ?b sample_mint = Ret (sample_mint\<lparr>Input := Some inp, args_To := LowerHex (sample_address 7)\<rparr>)"
    using p by (simp add: buildNFTSwapTxInput_def fields or_err_def ensure_def non_nil_def b Let_def mt nft_call_def)
  then have "build_input (paying_env ''56'' 100) sample_mint s = (Ret (sample_mint\<lparr>Input := Some inp, args_To := LowerHex (sample_address 7)\<rparr>), s)"
    by (simp add: build_input_def fields r NFTSwapType_def ERC20SwapType_def run_steps)
  with that len fields show thesis by simp
qed

theorem BuildRawTransaction_mints_witness:
  "\<exists>tx args' s' h. BuildRawTransaction (paying_env ''56'' 100) sample_mint build_start = (Ret (tx, args'), s') \<and>
     calls_with (tx_Data tx) h [AHash (HexToHash ''0xab''), AAddress (HexToAddress ''0x5''), AAddress (sample_address 5),
       ABigIntSlice [Some 7, Some 8], ABigIntSlice [Some 1, Some 2], ABigInt (Some 1)]"
proof -
  obtain a inp where a: "build_input (paying_env ''56'' 100) sample_mint build_start = (Ret a, build_start)" "Input a = Some inp" "length inp \<le> 1000"
    "args_Value a = None" "args_Extra a = args_Extra sample_mint" by (rule sample_mint_input)
  have fields: "args_ToChainID (swapArgs sample_mint) = Some 56" "Input sample_mint = None" "args_From sample_mint = ''0xmpc''" "args_SwapType (swapArgs sample_mint) = NFTSwapType"
    "args_FromChainID (swapArgs sample_mint) = Some 1" "args_SwapID (swapArgs sample_mint) = ''0xab''" "HexToAddress (args_Bind (swapArgs sample_mint)) = sample_address 5"
    "\<exists>x e. args_Extra sample_mint = Some x \<and> EthExtra x = Some e \<and> GasPrice e = Some 5 \<and> Nonce e = Some 7"
    by (simp_all add: sample_mint_def sample_payment_def sample_order_def sample_build_def)
  then obtain x e where x: "args_Extra sample_mint = Some x" "EthExtra x = Some e" "GasPrice e = Some 5" "Nonce e = Some 7" by blast
  from paying_builds [OF a(1) fields(1-3) a(4) _ x(2-4) a(2)] a(5) x(1) obtain tx args' s' where
    b: "BuildRawTransaction (paying_env ''56'' 100) sample_mint build_start = (Ret (tx, args'), s')" and d: "tx_Data tx = inp"
    by auto
  have mt: "GetCachedMultichainToken (routers (paying_env ''56'' 100)) ''T'' c = ''0x5''" for c
    by (simp add: GetCachedMultichainToken_def GetCachedMultichainTokens_def paying_env_def paying_router_def sample_router_def)
  let ?n = "\<lparr>nft_Token = LowerHex (sample_address 3), nft_TokenID = ''T'', IDs = [7, 8], Amounts = [1, 2], Batch = True, nft_Data = []\<rparr>"
  have n: "nftInfo (swapArgs sample_mint) = Some ?n" by (simp add: sample_mint_def)
  have t: "\<not> IsTestMode (paying_env ''56'' 100)" by (simp add: paying_env_def)
  from BuildRawTransaction_mints [OF b t fields(4) n] a(3) d fields(5-7) show ?thesis
    using b by (auto simp: big_fits_def mt mint_call_def)
qed

end
