(* ===== verification/TradeReplace.thy ===== *)
theory TradeReplace
  imports Payments WorkerRuns
begin

text \<open>
  Replacing the transaction of a swap that trades on the target chain: the arguments that
  \<open>ReplaceRouterSwap\<close> of \<open>src/worker/replace.go\<close> makes, given to the builder of
  \<open>src/tokens/eth/builderc20swaptx.go\<close>.
\<close>

section \<open>The deadline of a trade\<close>

text \<open>A deadline is computed only where the arguments carry no extra ones; else theirs is taken as it is.\<close>

lemma calcSwapDeadline_given:
  "args_Extra args = Some x \<Longrightarrow> EthExtra x = Some e \<Longrightarrow> calcSwapDeadline E args s = (Ret (Deadline e, args), s)"
  by (simp add: calcSwapDeadline_def sret_def)

text \<open>The arguments of a trade: the swap, the amount, the least amount to get, the path, the receiver, the deadline, the source.\<close>

definition trade :: "SwapArgs \<Rightarrow> ERC20SwapInfo \<Rightarrow> int option \<Rightarrow> int \<Rightarrow> abi_arg list" where
  "trade sw i amount deadline =
     [AHash (HexToHash (args_SwapID sw)), ABigInt amount, ABigInt (AmountOutMin i), AAddressSlice (toAddresses (Path i)),
      AAddress (HexToAddress (args_Bind sw)), AInt64 deadline, ABigInt (args_FromChainID sw)]"

lemma buildERC20SwapTradeTxInput_Ret:
  assumes "buildERC20SwapTradeTxInput E args mt s = (Ret args', s')" and "erc20Info (swapArgs args) = Some i"
    and "args_Extra args = Some x" and "EthExtra x = Some e"
  shows "\<exists>h inp. pack_call h (trade (swapArgs args) i (SwapValue args') (Deadline e)) = (Ret inp :: (build_error, bytes) outcome) \<and> length h = 4 \<and>
    Input args' = Some inp"
proof -
  have "\<exists>receiver amount inp rc. getReceiverAndAmount (routers E) (bridge E) args mt = Ret (receiver, amount) \<and>
      pack_call (if ForNative i then AnySwapInExactTokensForNativeFuncHash else AnySwapInExactTokensForTokensFuncHash)
        [AHash (HexToHash (args_SwapID (swapArgs args))), ABigInt amount, ABigInt (AmountOutMin i), AAddressSlice (toAddresses (Path i)),
         AAddress receiver, AInt64 (Deadline e), ABigInt (args_FromChainID (swapArgs args))] = (Ret inp :: (build_error, bytes) outcome) \<and>
      args' = args\<lparr>Input := Some inp, args_To := rc, SwapValue := amount\<rparr>"
    using assms by (auto simp: buildERC20SwapTradeTxInput_def Let_def outcome_simps non_nil_Ret calcSwapDeadline_given [OF assms(3,4)])
  then obtain receiver amount inp rc where ra: "getReceiverAndAmount (routers E) (bridge E) args mt = Ret (receiver, amount)"
    and inp: "pack_call (if ForNative i then AnySwapInExactTokensForNativeFuncHash else AnySwapInExactTokensForTokensFuncHash)
        [AHash (HexToHash (args_SwapID (swapArgs args))), ABigInt amount, ABigInt (AmountOutMin i), AAddressSlice (toAddresses (Path i)),
         AAddress receiver, AInt64 (Deadline e), ABigInt (args_FromChainID (swapArgs args))] = (Ret inp :: (build_error, bytes) outcome)"
    and args': "args' = args\<lparr>Input := Some inp, args_To := rc, SwapValue := amount\<rparr>"
    by blast
  have "receiver = HexToAddress (args_Bind (swapArgs args))" using getReceiverAndAmount_Ret [OF ra] by simp
  with inp args' show ?thesis
    by (intro exI conjI) (auto simp: trade_def selectors)
qed

text \<open>
  C38: when the server replaces the transaction of a swap with a trade, the new transaction carries the
  deadline 0, whatever deadline the replaced one had and whatever the configured offset is: the extra
  arguments of the replacement hold the nonce and no deadline, and a deadline is computed only for
  arguments without extra ones. A router contract refuses a trade whose deadline has passed.
\<close>

theorem replaced_trade_deadline_zero:
  assumes "BuildRawTransaction E (replaceArgs W swap res gasPrice nums info) s = (Ret (tx, args'), s')" and "\<not> IsTestMode E"
    and "rs_SwapType res = ERC20SwapType" and "erc20Info info = Some i" and "CallProxy i = ''''" and "Path i \<noteq> []"
    and "length (tx_Data tx) \<le> 281474976710656"
    and "big_fits (SwapValue args')" and "big_fits (AmountOutMin i)" and "big_fits (Some (fst nums))"
  shows "GetBigInt (drop 4 (tx_Data tx)) 160 32 = (Ret 0 :: (abi_error, int) outcome)"
proof -
  let ?args = "replaceArgs W swap res gasPrice nums info"
  have sw: "erc20Info (swapArgs ?args) = Some i" "args_SwapType (swapArgs ?args) = ERC20SwapType" "args_FromChainID (swapArgs ?args) = Some (fst nums)"
    using assms(3,4) by (simp_all add: replaceArgs_def with_info_def split: prod.split)
  have "\<exists>x e. args_Extra ?args = Some x \<and> EthExtra x = Some e \<and> Deadline e = 0" by (simp add: replaceArgs_def split: prod.split)
  then obtain x e where x: "args_Extra ?args = Some x" "EthExtra x = Some e" "Deadline e = 0" by blast
  from BuildRawTransaction_carries [OF assms(1,2)] obtain a1 s1 where inp: "build_input E ?args s = (Ret a1, s1)"
    and tx: "settled args' = settled a1" "carries E args' tx" by blast
  from inp sw assms(5,6) obtain mt where "buildERC20SwapTradeTxInput E ?args mt s = (Ret a1, s1)"
    by (auto simp: build_input_def buildERC20SwapTxInput_def Let_def outcome_simps split: if_splits)
  from buildERC20SwapTradeTxInput_Ret [OF this sw(1) x(1,2)] x(3) tx obtain h where
    h: "pack_call h (trade (swapArgs ?args) i (SwapValue args') 0) = (Ret (tx_Data tx) :: (build_error, bytes) outcome)" "length h = 4"
    by (auto simp: settled_def carries_def)
  have "list_all arg_ok (trade (swapArgs ?args) i (SwapValue args') 0)"
    using assms(8-10) sw(3) by (simp add: trade_def toAddresses_def list_all_iff)
  from pack_call_Ret [OF h(1) this h(2) assms(7)] have "parsed_back (drop 4 (tx_Data tx)) (5 * 32) (trade (swapArgs ?args) i (SwapValue args') 0 ! 5)"
    unfolding calls_with_def by (simp add: trade_def) (drule conjunct2, drule spec [of _ 5], simp)
  then show ?thesis by (simp add: trade_def)
qed

section \<open>A replacement\<close>

definition trade_info :: SwapInfo where
  "trade_info =
     \<lparr>erc20Info = Some \<lparr>erc20_Token = LowerHex (sample_address 3), erc20_TokenID = ''T'', ForNative = False, ForUnderlying = False,
        Path = [''0x5''], AmountOutMin = Some 1, CallProxy = '''', erc20_CallData = None\<rparr>,
      nftInfo = None, anycallInfo = None, curveInfo = None\<rparr>"

definition trade_replacement :: BuildTxArgs where
  "trade_replacement =
     replaceArgs sample_worker (swap_doc 10 TxProcessed) ((result_doc 10 MatchTxNotStable 7 ''0x1'')\<lparr>rs_Bind := LowerHex (sample_address 5)\<rparr>)
       (Some 5) (1, 56, 20000) trade_info"

lemma trade_replacement_amount:
  "getReceiverAndAmount paying_router (bridge (paying_env ''56'' 100)) trade_replacement ''0x5'' = Ret (sample_address 5, Some 19980)"
  using sample_payment_amount
  by (simp add: getReceiverAndAmount_def non_nil_def Let_def trade_replacement_def replaceArgs_def with_info_def trade_info_def swap_doc_def
      sample_payment_def sample_order_def sample_build_def)

lemma trade_replacement_input:
  obtains a inp where "build_input (paying_env ''56'' 100) trade_replacement s = (Ret a, s)" and "length inp \<le> 300" and "Input a = Some inp"
    and "args_Value a = None" and "args_Extra a = args_Extra trade_replacement" and "SwapValue a = Some 19980"
proof -
  let ?sw = "swapArgs trade_replacement" and ?i = "the (erc20Info trade_info)" and ?h = AnySwapInExactTokensForTokensFuncHash
  have fields: "erc20Info ?sw = Some ?i" "args_SwapType ?sw = ERC20SwapType" "args_FromChainID ?sw = Some 1" "args_Bind ?sw = LowerHex (sample_address 5)"
    "erc20_TokenID ?i = ''T''" "CallProxy ?i = ''''" "Path ?i = [''0x5'']" "AmountOutMin ?i = Some 1" "\<not> ForNative ?i" "args_Value trade_replacement = None"
    by (simp_all add: trade_replacement_def replaceArgs_def with_info_def trade_info_def result_doc_def ToSwapResult_def swap_doc_def ERC20SwapType_def)
  have ok: "list_all arg_ok (trade ?sw ?i (Some 19980) 0)" by (simp add: trade_def toAddresses_def fields big_fits_def)
  from pack_call_total [OF ok] obtain inp where p: "pack_call ?h (trade ?sw ?i (Some 19980) 0) = (Ret inp :: (build_error, bytes) outcome)" by blast
  have len: "length inp \<le> 300"
    by (simp add: length_pack_call [OF ok p]) (simp add: trade_def toAddresses_def fields packAddressSlice_eq W64_def HashLength_def big_fits_length big_fits_def)
  obtain x e where x: "args_Extra trade_replacement = Some x" "EthExtra x = Some e" "Deadline e = 0"
    by (auto simp: trade_replacement_def replaceArgs_def)
  have tokens: "GetRouterContract (bridge (paying_env ''56'' 100)) ''0x5'' = Ret (LowerHex (sample_address 7))"
    by (simp add: GetRouterContract_def GetTokenConfig_def paying_env_def sample_bridge_def) (simp add: sample_token_def sample_chain_def)
  have r: "routers (paying_env ''56'' 100) = paying_router" by (simp add: paying_env_def)
  have mt: "GetCachedMultichainToken paying_router ''T'' c = ''0x5''" for c
    by (simp add: GetCachedMultichainToken_def GetCachedMultichainTokens_def paying_router_def sample_router_def)
  have "build_input (paying_env ''56'' 100) trade_replacement s =
      (Ret (trade_replacement\<lparr>Input := Some inp, args_To := LowerHex (sample_address 7), SwapValue := Some 19980\<rparr>), s)"
    using p by (simp add: build_input_def buildERC20SwapTxInput_def buildERC20SwapTradeTxInput_def trade_replacement_amount run_steps Let_def r mt tokens fields
        non_nil_def calcSwapDeadline_given [OF x(1,2)] x(3) trade_def)
  then show thesis using that len fields by simp
qed

theorem replaced_trade_deadline_zero_witness:
  "\<exists>tx args' s'. BuildRawTransaction (paying_env ''56'' 100) trade_replacement build_start = (Ret (tx, args'), s') \<and>
     GetBigInt (drop 4 (tx_Data tx)) 160 32 = (Ret 0 :: (abi_error, int) outcome)"
proof -
  obtain a inp where a: "build_input (paying_env ''56'' 100) trade_replacement build_start = (Ret a, build_start)" "length inp \<le> 300" "Input a = Some inp"
    "args_Value a = None" "args_Extra a = args_Extra trade_replacement" "SwapValue a = Some 19980" by (rule trade_replacement_input)
  have fields: "args_ToChainID (swapArgs trade_replacement) = Some 56" "Input trade_replacement = None" "args_From trade_replacement = ''0xmpc''"
    "\<exists>x e. args_Extra trade_replacement = Some x \<and> EthExtra x = Some e \<and> GasPrice e = Some 5 \<and> Nonce e = Some 7"
    by (simp_all add: trade_replacement_def replaceArgs_def with_info_def result_doc_def ToSwapResult_def)
  then obtain x e where x: "args_Extra trade_replacement = Some x" "EthExtra x = Some e" "GasPrice e = Some 5" "Nonce e = Some 7" by blast
  from paying_builds [OF a(1) fields(1-3) a(4) _ x(2-4) a(3)] a(5) x(1) obtain tx args' s' where
    b: "BuildRawTransaction (paying_env ''56'' 100) trade_replacement build_start = (Ret (tx, args'), s')" and d: "tx_Data tx = inp" "SwapValue args' = Some 19980"
    using a(6) by auto
  have "GetBigInt (drop 4 (tx_Data tx)) 160 32 = (Ret 0 :: (abi_error, int) outcome)"
    by (rule replaced_trade_deadline_zero [OF b [unfolded trade_replacement_def], where i = "the (erc20Info trade_info)"])
       (use a(2) d in \<open>simp_all add: paying_env_def trade_info_def result_doc_def ToSwapResult_def swap_doc_def ERC20SwapType_def big_fits_def\<close>)
  with b show ?thesis by blast
qed

end
