(* ===== verification/Mpc.thy ===== *)
theory Mpc
  imports EthBuild
begin

text \<open>
  Package \<open>mpc\<close>, the client of the signing network: the answers of its nodes (api.go, types.go), the
  request for a signature over the groups of the initiator nodes and the wait for its result, the
  transactions that carry requests (sign.go), the acceptance (accept.go) and the bookkeeping of the
  sign groups (init.go). The package's variables are the record \<open>mpc_state\<close>, which extends the store
  of the builder. The nodes' answers, the coding of JSON, the signature of a private key, the random
  choice of the first group and the number of polls before the timer fires are the fields of
  \<open>mpc_env\<close>. Loading of keys and the group checks at the start, which ask the nodes until they
  answer, are left out; \<open>log.Fatal\<close> ends the process.
\<close>

section \<open>Data (types.go)\<close>

record SignReply =
  reply_Enode :: string
  reply_Status :: string
  reply_TimeStamp :: string
  reply_Initiator :: string

record SignStatus =
  ss_Status :: string
  Rsv :: "string list"
  ss_Tip :: string
  ss_Error :: string
  AllReply :: "SignReply option list"
  ss_TimeStamp :: string

record DataResultResp =
  dr_Status :: string
  dr_Tip :: string
  dr_Error :: string
  dr_Data :: "string option"

record GetEnodeResp =
  ge_Status :: string
  ge_Tip :: string
  ge_Error :: string
  ge_Data :: "string option"

record SignInfoData =
  si_Account :: string
  si_GroupID :: string
  si_Key :: string
  si_KeyType :: string
  si_Mode :: string
  si_MsgHash :: "string list"
  si_MsgContext :: "string list"
  si_Nonce :: string
  si_PubKey :: string
  si_ThresHold :: string
  si_TimeStamp :: string
  si_timestamp :: nat

record SignInfoResp =
  sir_Status :: string
  sir_Tip :: string
  sir_Error :: string
  sir_Data :: "SignInfoData option list"

record SignData =
  sd_TxType :: string
  sd_PubKey :: string
  sd_MsgHash :: "string list"
  sd_MsgContext :: "string list"
  sd_Keytype :: string
  sd_GroupID :: string
  sd_ThresHold :: string
  sd_Mode :: string
  sd_TimeStamp :: string

record AcceptData =
  ad_TxType :: string
  ad_Key :: string
  ad_Accept :: string
  ad_MsgHash :: "string list"
  ad_MsgContext :: "string list"
  ad_TimeStamp :: string

text \<open>The loop over the replies: a nil one is dereferenced.\<close>

fun HasDisagree :: "SignReply option list \<Rightarrow> ('e, bool) outcome" where
  "HasDisagree [] = Ret False"
| "HasDisagree (None # rs) = Panic"
| "HasDisagree (Some r # rs) = (if EqualFold (reply_Status r) ''DisAgree'' then Ret True else HasDisagree rs)"

section \<open>State and environment\<close>

record sign_failures =
  sf_count :: int
  sf_lastTime :: int

record keystore_key =
  key_Address :: Address
  PrivateKey :: bytes

record NodeInfo =
  keyWrapper :: keystore_key
  mpcUser :: Address
  mpcRPCAddress :: string
  originSignGroups :: "string list"
  usableSignGroupIndexes :: "nat list"

record mpc_state =
  mpcAPIPrefix :: string
  mpcGroupID :: string
  mpcThreshold :: string
  mpcMode :: string
  mpcNeededOracles :: nat
  mpcTotalOracles :: nat
  verifySignatureInAccept :: bool
  defaultMPCNode :: "NodeInfo option"
  allInitiatorNodes :: "NodeInfo list"
  maxSignGroupFailures :: int
  minIntervalToAddSignGroup :: int
  signGroupFailuresMap :: "string \<rightharpoonup> sign_failures"

record sign_store = build_store +
  mpcs :: mpc_state

datatype mpc_error =
    ErrGetSignStatusTimeout
  | ErrGetSignStatusFailed
  | ErrGetSignStatusHasDisagree
  | errSignTimerTimeout
  | errDoSignFailed
  | errSignWithoutPublickey
  | errGetSignResultFailed
  | errRValueIsUsed
  | errWrongSignatureLength
  | errNoUsableSignGroups
  | PostError string string
  | WrongStatusError string string string
  | MpcTx tx_error
  | MpcOther string

type_synonym ('x, 'a) mpc_call = "('x sign_store_scheme, mpc_error, 'a) stateful"

record mpc_env =
  mpc_mongo :: mgo_env
  mpc_crypto :: crypto_lib
  crypto_Sign :: "bytes \<Rightarrow> bytes \<Rightarrow> string + bytes"
  Marshal_SignData :: "SignData \<Rightarrow> string + bytes"
  Marshal_AcceptData :: "AcceptData \<Rightarrow> string + bytes"
  Unmarshal_SignStatus :: "string \<Rightarrow> string + SignStatus"
  post_data :: "nat \<Rightarrow> string \<Rightarrow> string \<Rightarrow> string \<Rightarrow> string + DataResultResp"
  post_enode :: "nat \<Rightarrow> string \<Rightarrow> string + GetEnodeResp"
  post_sign_info :: "nat \<Rightarrow> string \<Rightarrow> string \<Rightarrow> string + SignInfoResp"
  rand_Int :: "nat \<Rightarrow> nat \<Rightarrow> nat"
  polls_before_timeout :: "nat \<Rightarrow> nat"

definition upd_mpc :: "(mpc_state \<Rightarrow> mpc_state) \<Rightarrow> ('x sign_store_scheme, 'e, unit) stateful" where
  "upd_mpc f = supd (\<lambda>s. s\<lparr>mpcs := f (mpcs s)\<rparr>)"

definition mpc_deref :: "'a option \<Rightarrow> ('e, 'a) outcome" where
  "mpc_deref p = (case p of None \<Rightarrow> Panic | Some x \<Rightarrow> Ret x)"

text \<open>\<open>common.NowMilliStr()\<close>.\<close>

definition NowMilliStr :: "mpc_env \<Rightarrow> ('x sign_store_scheme, 'e, string) stateful" where
  "NowMilliStr E = sbind (NowMilli (mpc_mongo E)) (\<lambda>t. sret (big_String t))"

section \<open>The nodes' answers (api.go)\<close>

definition successStatus :: string where "successStatus = ''Success''"

definition wrapPostError :: "mpc_state \<Rightarrow> string \<Rightarrow> string \<Rightarrow> mpc_error" where
  "wrapPostError m method err = PostError (mpcAPIPrefix m @ method) err"

text \<open>The common shape of the calls that return a text.\<close>

definition post_result :: "mpc_env \<Rightarrow> string \<Rightarrow> string \<Rightarrow> string \<Rightarrow> string \<Rightarrow> ('x, string) mpc_call" where
  "post_result E rpcAddr method param pre =
     sbind (extern (\<lambda>t. post_data E t rpcAddr method param)) (\<lambda>a. sget (\<lambda>s.
     case a of
       Inl err \<Rightarrow> slift (Err (wrapPostError (mpcs s) method err))
     | Inr result \<Rightarrow>
         if dr_Status result \<noteq> successStatus then slift (Err (WrongStatusError method (dr_Status result) (pre @ dr_Error result)))
         else slift (mpc_deref (dr_Data result))))"

definition GetEnode :: "mpc_env \<Rightarrow> string \<Rightarrow> ('x, string) mpc_call" where
  "GetEnode E rpcAddr =
     sbind (extern (\<lambda>t. post_enode E t rpcAddr)) (\<lambda>a. sget (\<lambda>s.
     case a of
       Inl err \<Rightarrow> slift (Err (wrapPostError (mpcs s) ''getEnode'' err))
     | Inr result \<Rightarrow>
         if ge_Status result \<noteq> successStatus then slift (Err (WrongStatusError ''getEnode'' (ge_Status result) (ge_Error result)))
         else slift (mpc_deref (ge_Data result))))"

definition GetSignNonce :: "mpc_env \<Rightarrow> string \<Rightarrow> string \<Rightarrow> ('x, nat) mpc_call" where
  "GetSignNonce E user rpcAddr =
     sbind (post_result E rpcAddr ''getSignNonce'' user '''') (\<lambda>data.
     case GetBigIntFromStr data of
       Ret bi \<Rightarrow> sret (big_Uint64 bi)
     | Err e \<Rightarrow> slift (Err (MpcOther (''getSignNonce can't parse result as big int, '' @ e)))
     | Panic \<Rightarrow> slift Panic)"

definition GetSignStatus :: "mpc_env \<Rightarrow> string \<Rightarrow> string \<Rightarrow> ('x, SignStatus) mpc_call" where
  "GetSignStatus E key rpcAddr =
     sbind (post_result E rpcAddr ''getSignStatus'' key ''response error '') (\<lambda>data. sget (\<lambda>s.
     case Unmarshal_SignStatus E data of
       Inl err \<Rightarrow> slift (Err (wrapPostError (mpcs s) ''getSignStatus'' err))
     | Inr signStatus \<Rightarrow>
         if ss_Status signStatus = ''Failure'' then
           sbind (slift (HasDisagree (AllReply signStatus))) (\<lambda>d.
           slift (Err (if d then ErrGetSignStatusHasDisagree else ErrGetSignStatusFailed)))
         else if ss_Status signStatus = ''Timeout'' then slift (Err ErrGetSignStatusTimeout)
         else if ss_Status signStatus = successStatus then sret signStatus
         else slift (Err (WrongStatusError ''getSignStatus'' (ss_Status signStatus) (''sign status error '' @ ss_Error signStatus)))))"

definition mpc_Sign :: "mpc_env \<Rightarrow> string \<Rightarrow> string \<Rightarrow> ('x, string) mpc_call" where
  "mpc_Sign E raw rpcAddr = post_result E rpcAddr ''sign'' raw ''''"

definition default_rpc :: "('x, string) mpc_call" where
  "default_rpc = sget (\<lambda>s. sbind (slift (mpc_deref (defaultMPCNode (mpcs s)))) (\<lambda>n. sret (mpcRPCAddress n)))"

definition AcceptSign :: "mpc_env \<Rightarrow> string \<Rightarrow> ('x, string) mpc_call" where
  "AcceptSign E raw = sbind default_rpc (\<lambda>addr. post_result E addr ''acceptSign'' raw '''')"

section \<open>Sign requests as the oracles see them\<close>

definition SignTypeEC256K1 :: string where "SignTypeEC256K1 = ''ECDSA''"
definition SignTypeED25519 :: string where "SignTypeED25519 = ''ED25519''"

definition isEC :: "string \<Rightarrow> bool" where
  "isEC signType \<longleftrightarrow> take 2 signType = ''EC''"

text \<open>\<open>payload, _ := json.Marshal(txdata)\<close>: the error is dropped.\<close>

definition marshal_dropped :: "mpc_env \<Rightarrow> SignData \<Rightarrow> bytes" where
  "marshal_dropped E txdata = (case Marshal_SignData E txdata of Inl _ \<Rightarrow> [] | Inr b \<Rightarrow> b)"

definition HasValidSignature :: "mpc_env \<Rightarrow> mpc_state \<Rightarrow> SignInfoData \<Rightarrow> bool" where
  "HasValidSignature E m s =
     (let msgContextLen = length (si_MsgContext s) in
      if \<not> verifySignatureInAccept m then msgContextLen = 1
      else if msgContextLen \<noteq> 2 then False
      else
        let msgContext = take (msgContextLen - 1) (si_MsgContext s);
            msgSig = FromHex (si_MsgContext s ! (msgContextLen - 1));
            txdata = \<lparr>sd_TxType = ''SIGN'', sd_PubKey = si_PubKey s, sd_MsgHash = si_MsgHash s, sd_MsgContext = msgContext,
              sd_Keytype = SignTypeEC256K1, sd_GroupID = si_GroupID s, sd_ThresHold = si_ThresHold s, sd_Mode = si_Mode s,
              sd_TimeStamp = si_TimeStamp s\<rparr>;
            sighash = keccak256 (mpc_crypto E) (marshal_dropped E txdata)
        in (case Ecrecover (mpc_crypto E) sighash msgSig of
              Inl _ \<Rightarrow> False
            | Inr pub \<Rightarrow>
                if length pub = 0 \<or> hd pub \<noteq> 4 then False
                else copy_at ZeroAddress 0 (drop 12 (keccak256 (mpc_crypto E) (tl pub))) = HexToAddress (si_Account s)))"

definition SignInfoData_IsValid :: "mpc_env \<Rightarrow> mpc_state \<Rightarrow> SignInfoData option \<Rightarrow> bool" where
  "SignInfoData_IsValid E m p =
     (case p of
        None \<Rightarrow> False
      | Some s \<Rightarrow> si_Key s \<noteq> '''' \<and> si_Account s \<noteq> '''' \<and> si_GroupID s \<noteq> '''' \<and> HasValidSignature E m s)"

text \<open>One pass of the loop over the answers; the clock is read for each entry that may have expired.\<close>

definition parse_timestamp :: "string \<Rightarrow> nat" where
  "parse_timestamp t = (case GetUint64FromStr t of Ret v \<Rightarrow> v | _ \<Rightarrow> 0)"

fun filter_sign_infos :: "mpc_env \<Rightarrow> int \<Rightarrow> SignInfoData option list \<Rightarrow> ('x, SignInfoData list) mpc_call" where
  "filter_sign_infos E expiredInterval [] = sret []"
| "filter_sign_infos E expiredInterval (p # ps) = sget (\<lambda>st.
     if \<not> SignInfoData_IsValid E (mpcs st) p then filter_sign_infos E expiredInterval ps
     else
       let s = (the p)\<lparr>si_timestamp := parse_timestamp (si_TimeStamp (the p))\<rparr> in
       sbind (if expiredInterval > 0 then
                sbind (Unix_now (mpc_mongo E)) (\<lambda>nw. sret (i64 (int (si_timestamp s div 1000) + expiredInterval) < nw))
              else sret False) (\<lambda>expired.
       sbind (filter_sign_infos E expiredInterval ps) (\<lambda>rest. sret (if expired then rest else s # rest))))"

definition GetCurNodeSignInfo :: "mpc_env \<Rightarrow> int \<Rightarrow> ('x, SignInfoData list) mpc_call" where
  "GetCurNodeSignInfo E expiredInterval = sget (\<lambda>st.
     sbind (slift (mpc_deref (defaultMPCNode (mpcs st)))) (\<lambda>n.
     sbind (extern (\<lambda>t. post_sign_info E t (mpcRPCAddress n) (Address_Hex (keccak256 (mpc_crypto E)) (key_Address (keyWrapper n))))) (\<lambda>a.
     case a of
       Inl err \<Rightarrow> slift (Err (wrapPostError (mpcs st) ''getCurNodeSignInfo'' err))
     | Inr result \<Rightarrow>
         if sir_Status result \<noteq> successStatus then
           slift (Err (WrongStatusError ''getCurNodeSignInfo'' (sir_Status result) (sir_Error result)))
         else sbind (filter_sign_infos E expiredInterval (sir_Data result)) (\<lambda>infos. sret (sort_key si_timestamp infos)))))"

section \<open>Raw transactions of the network (sign.go)\<close>

definition mpcToAddr :: Address where "mpcToAddr = HexToAddress ''0x00000000000000000000000000000000000000dc''"

definition mpcWalletServiceID :: int where "mpcWalletServiceID = 30400"

definition mpcSigner :: Signer where "mpcSigner = MakeSigner ''EIP155'' (Some mpcWalletServiceID)"

definition of_tx :: "(tx_error, 'a) outcome \<Rightarrow> (mpc_error, 'a) outcome" where
  "of_tx = lift_err MpcTx"

definition BuildMPCRawTx :: "mpc_env \<Rightarrow> nat \<Rightarrow> bytes \<Rightarrow> keystore_key \<Rightarrow> (mpc_error, string) outcome" where
  "BuildMPCRawTx E nonce payload key =
     (let tx = NewTransaction nonce mpcToAddr (Some 0) 100000 (Some 80000) payload in
      case crypto_Sign E (Signer_Hash (mpc_crypto E) mpcSigner (tx_data tx)) (PrivateKey key) of
        Inl err \<Rightarrow> Err (MpcOther err)
      | Inr signature \<Rightarrow>
          obind (of_tx (WithSignature tx mpcSigner signature)) (\<lambda>sigTx.
          obind (of_tx (obind (EncodeRLP sigTx enc_reset) (\<lambda>w. lift_err EncodeError (toBytes w)))) (\<lambda>txdata.
          Ret (ToHex txdata))))"

definition DoAcceptSign :: "mpc_env \<Rightarrow> string \<Rightarrow> string \<Rightarrow> string list \<Rightarrow> string list \<Rightarrow> ('x, string) mpc_call" where
  "DoAcceptSign E keyID agreeResult msgHash msgContext =
     sbind (NowMilliStr E) (\<lambda>ts.
     case Marshal_AcceptData E \<lparr>ad_TxType = ''ACCEPTSIGN'', ad_Key = keyID, ad_Accept = agreeResult, ad_MsgHash = msgHash,
         ad_MsgContext = msgContext, ad_TimeStamp = ts\<rparr> of
       Inl err \<Rightarrow> slift (Err (MpcOther err))
     | Inr payload \<Rightarrow> sget (\<lambda>st.
         sbind (slift (mpc_deref (defaultMPCNode (mpcs st)))) (\<lambda>n.
         sbind (slift (BuildMPCRawTx E 0 payload (keyWrapper n))) (\<lambda>rawTX. AcceptSign E rawTX))))"

section \<open>Sign groups (init.go)\<close>

definition no_failures :: sign_failures where "no_failures = \<lparr>sf_count = 0, sf_lastTime = 0\<rparr>"

definition failures_of :: "mpc_state \<Rightarrow> string \<Rightarrow> sign_failures" where
  "failures_of m g = (case signGroupFailuresMap m g of None \<Rightarrow> no_failures | Some f \<Rightarrow> f)"

definition setOriginSignGroups :: "string list \<Rightarrow> NodeInfo \<Rightarrow> NodeInfo" where
  "setOriginSignGroups groups ni = ni\<lparr>originSignGroups := groups, usableSignGroupIndexes := [0..<length groups]\<rparr>"

definition getUsableSignGroupIndexes :: "NodeInfo \<Rightarrow> nat list" where
  "getUsableSignGroupIndexes ni = usableSignGroupIndexes ni"

definition deleteSignGroup :: "nat \<Rightarrow> NodeInfo \<Rightarrow> NodeInfo" where
  "deleteSignGroup groupIndex ni = ni\<lparr>usableSignGroupIndexes := remove1 groupIndex (usableSignGroupIndexes ni)\<rparr>"

definition upd_node :: "nat \<Rightarrow> (NodeInfo \<Rightarrow> NodeInfo) \<Rightarrow> mpc_state \<Rightarrow> mpc_state" where
  "upd_node k f m = m\<lparr>allInitiatorNodes := (allInitiatorNodes m)[k := f (allInitiatorNodes m ! k)]\<rparr>"

definition setMPCGroup :: "string \<Rightarrow> nat \<Rightarrow> nat \<Rightarrow> nat \<Rightarrow> mpc_state \<Rightarrow> mpc_state" where
  "setMPCGroup grp mode neededOracles totalOracles m =
     m\<lparr>mpcGroupID := grp, mpcNeededOracles := neededOracles, mpcTotalOracles := totalOracles,
       mpcThreshold := big_String (int neededOracles) @ ''/'' @ big_String (int totalOracles), mpcMode := big_String (int mode)\<rparr>"

definition addInitiatorNode :: "NodeInfo \<Rightarrow> mpc_state \<Rightarrow> ('e, mpc_state) outcome" where
  "addInitiatorNode ni m =
     (if mpcRPCAddress ni = '''' \<or> mpcUser ni = ZeroAddress \<or> length (originSignGroups ni) = 0 \<or>
         list_ex (\<lambda>old. mpcRPCAddress old = mpcRPCAddress ni \<or> mpcUser old = mpcUser ni) (allInitiatorNodes m)
      then Panic else Ret (m\<lparr>allInitiatorNodes := allInitiatorNodes m @ [ni]\<rparr>))"

definition IsSwapServer :: "mpc_state \<Rightarrow> bool" where
  "IsSwapServer m \<longleftrightarrow> length (allInitiatorNodes m) > 0"

text \<open>One round of \<open>checkAndAddSignGroups\<close>: the groups \<open>i\<close>, \<open>i + 1\<close>, ... of the node, against the indexes read at its start.\<close>

fun add_sign_groups :: "mpc_env \<Rightarrow> nat \<Rightarrow> nat list \<Rightarrow> nat \<Rightarrow> string list \<Rightarrow> ('x, unit) mpc_call" where
  "add_sign_groups E k usableGroupIndexes i [] = sret ()"
| "add_sign_groups E k usableGroupIndexes i (signGroup # gs) =
     (if i \<in> set usableGroupIndexes then add_sign_groups E k usableGroupIndexes (Suc i) gs
      else
        sbind (Unix_now (mpc_mongo E)) (\<lambda>nw. sget (\<lambda>s.
        if i64 (sf_lastTime (failures_of (mpcs s) signGroup) + minIntervalToAddSignGroup (mpcs s)) > nw
        then add_sign_groups E k usableGroupIndexes (Suc i) gs
        else
          sbind (upd_mpc (upd_node k (\<lambda>ni. ni\<lparr>usableSignGroupIndexes := usableSignGroupIndexes ni @ [i]\<rparr>))) (\<lambda>_.
          sbind (Unix_now (mpc_mongo E)) (\<lambda>nw.
          sbind (upd_mpc (\<lambda>m. m\<lparr>signGroupFailuresMap := (signGroupFailuresMap m)(signGroup \<mapsto> \<lparr>sf_count = 0, sf_lastTime = nw\<rparr>)\<rparr>)) (\<lambda>_.
          add_sign_groups E k usableGroupIndexes (Suc i) gs))))))"

definition checkAndAddSignGroups :: "mpc_env \<Rightarrow> nat \<Rightarrow> ('x, unit) mpc_call" where
  "checkAndAddSignGroups E k = sget (\<lambda>s.
     let ni = allInitiatorNodes (mpcs s) ! k in add_sign_groups E k (getUsableSignGroupIndexes ni) 0 (originSignGroups ni))"

section \<open>Signing (sign.go)\<close>

fun pingMPCNode :: "nat \<Rightarrow> mpc_env \<Rightarrow> string \<Rightarrow> ('x, unit) mpc_call" where
  "pingMPCNode 0 E rpcAddr = sret ()"
| "pingMPCNode (Suc k) E rpcAddr =
     sbind (stry (GetEnode E rpcAddr)) (\<lambda>r.
     case r of Inr _ \<Rightarrow> sret () | Inl err \<Rightarrow> if k = 0 then slift (Err err) else pingMPCNode k E rpcAddr)"

definition pingCount :: nat where "pingCount = 3"
definition retrySignLoop :: nat where "retrySignLoop = 3"

text \<open>The loop of \<open>getSignResult\<close> for the passes before the timer fires; \<open>err\<close> is the error of the last one.\<close>

fun sign_status_loop :: "nat \<Rightarrow> mpc_env \<Rightarrow> string \<Rightarrow> string \<Rightarrow> mpc_error option \<Rightarrow> ('x, string list \<times> mpc_error option) mpc_call" where
  "sign_status_loop 0 E keyID rpcAddr err = sret ([], Some (case err of None \<Rightarrow> errSignTimerTimeout | Some e \<Rightarrow> e))"
| "sign_status_loop (Suc k) E keyID rpcAddr err =
     sbind (stry (GetSignStatus E keyID rpcAddr)) (\<lambda>r.
     case r of
       Inr signStatus \<Rightarrow> sret (Rsv signStatus, None)
     | Inl e \<Rightarrow>
         if e \<in> {ErrGetSignStatusHasDisagree, ErrGetSignStatusFailed, ErrGetSignStatusTimeout} then sret ([], Some e)
         else sign_status_loop k E keyID rpcAddr (Some e))"

definition getSignResult :: "mpc_env \<Rightarrow> string \<Rightarrow> string \<Rightarrow> ('x, string list) mpc_call" where
  "getSignResult E keyID rpcAddr =
     sbind (extern (polls_before_timeout E)) (\<lambda>k.
     sbind (sign_status_loop k E keyID rpcAddr None) (\<lambda>(rsvs, err).
     if length rsvs = 0 \<or> err \<noteq> None then slift (Err errGetSignResultFailed) else sret rsvs))"

definition GetSignStatusByKeyID :: "mpc_env \<Rightarrow> string \<Rightarrow> ('x, string list) mpc_call" where
  "GetSignStatusByKeyID E keyID = sbind default_rpc (\<lambda>addr. getSignResult E keyID addr)"

text \<open>The check that no r value is used twice.\<close>

fun use_r_values :: "mpc_env \<Rightarrow> string \<Rightarrow> string list \<Rightarrow> ('x, unit) mpc_call" where
  "use_r_values E signPubkey [] = sret ()"
| "use_r_values E signPubkey (rsv # rsvs) =
     (let signature = FromHex rsv in
      if length signature \<noteq> SignatureLength then slift (Err errWrongSignatureLength)
      else
        sbind (stry (AddUsedRValue (mpc_mongo E) signPubkey (ToHex (take 32 signature)))) (\<lambda>r.
        case r of Inl (_ :: store_error) \<Rightarrow> slift (Err errRValueIsUsed) | Inr _ \<Rightarrow> use_r_values E signPubkey rsvs))"

text \<open>The bookkeeping of a group after its attempt.\<close>

definition record_failures :: "mpc_env \<Rightarrow> string \<Rightarrow> int \<Rightarrow> ('x, unit) mpc_call" where
  "record_failures E signGroup count =
     sbind (Unix_now (mpc_mongo E)) (\<lambda>nw.
     upd_mpc (\<lambda>m. m\<lparr>signGroupFailuresMap := (signGroupFailuresMap m)(signGroup \<mapsto> \<lparr>sf_count = count, sf_lastTime = nw\<rparr>)\<rparr>))"

definition sign_failed :: "mpc_env \<Rightarrow> nat \<Rightarrow> nat \<Rightarrow> string \<Rightarrow> ('x, unit) mpc_call" where
  "sign_failed E k signGroupIndex signGroup = sget (\<lambda>s.
     if maxSignGroupFailures (mpcs s) > 0 then
       (let old = failures_of (mpcs s) signGroup in
        sbind (record_failures E signGroup (sf_count old + 1)) (\<lambda>_.
        if sf_count old + 1 \<ge> maxSignGroupFailures (mpcs s) then upd_mpc (upd_node k (deleteSignGroup signGroupIndex)) else sret ()))
     else sret ())"

text \<open>The request of a group: its data and the payload, signed by the node's key when the oracles check it.\<close>

definition sign_request :: "mpc_env \<Rightarrow> mpc_state \<Rightarrow> NodeInfo \<Rightarrow> string \<Rightarrow> string \<Rightarrow> string \<Rightarrow> string list \<Rightarrow> string list \<Rightarrow> string \<Rightarrow>
    (mpc_error, SignData \<times> bytes) outcome" where
  "sign_request E m ni signGroup signType signPubkey msgHash msgContext ts =
     (let txdata = \<lparr>sd_TxType = ''SIGN'', sd_PubKey = signPubkey, sd_MsgHash = msgHash, sd_MsgContext = msgContext, sd_Keytype = signType,
        sd_GroupID = signGroup, sd_ThresHold = mpcThreshold m, sd_Mode = mpcMode m, sd_TimeStamp = ts\<rparr> in
      case Marshal_SignData E txdata of
        Inl err \<Rightarrow> Err (MpcOther err)
      | Inr payload \<Rightarrow>
          if verifySignatureInAccept m then
            (case crypto_Sign E (keccak256 (mpc_crypto E) payload) (PrivateKey (keyWrapper ni)) of
               Inl err \<Rightarrow> Err (MpcOther err)
             | Inr signature \<Rightarrow>
                 let txdata = txdata\<lparr>sd_MsgContext := msgContext @ [ToHex signature]\<rparr> in Ret (txdata, marshal_dropped E txdata))
          else Ret (txdata, payload))"

definition doSignImpl :: "mpc_env \<Rightarrow> nat \<Rightarrow> nat \<Rightarrow> string \<Rightarrow> string \<Rightarrow> string list \<Rightarrow> string list \<Rightarrow> ('x, string \<times> string list) mpc_call" where
  "doSignImpl E k signGroupIndex signType signPubkey msgHash msgContext = sget (\<lambda>s0.
     let ni = allInitiatorNodes (mpcs s0) ! k; rpcAddr = mpcRPCAddress ni in
     sbind (GetSignNonce E (Address_Hex (keccak256 (mpc_crypto E)) (mpcUser ni)) rpcAddr) (\<lambda>nonce.
     sbind (slift (if signGroupIndex < length (originSignGroups ni) then Ret (originSignGroups ni ! signGroupIndex) else Panic)) (\<lambda>signGroup.
     sbind (NowMilliStr E) (\<lambda>ts.
     sbind (slift (sign_request E (mpcs s0) ni signGroup signType signPubkey msgHash msgContext ts)) (\<lambda>(txdata, payload).
     sbind (slift (BuildMPCRawTx E nonce payload (keyWrapper ni))) (\<lambda>rawTX.
     sbind (mpc_Sign E rawTX rpcAddr) (\<lambda>keyID.
     sbind (stry (getSignResult E keyID rpcAddr)) (\<lambda>r.
     case r of
       Inl err \<Rightarrow> sbind (sign_failed E k signGroupIndex signGroup) (\<lambda>_. slift (Err err))
     | Inr rsvs \<Rightarrow>
         sbind (sget (\<lambda>s. if maxSignGroupFailures (mpcs s) > 0 then record_failures E signGroup 0 else sret ())) (\<lambda>_.
         sbind (if isEC signType then use_r_values E signPubkey rsvs else sret ()) (\<lambda>_.
         sret (keyID, rsvs)))))))))))"

text \<open>The loop over the groups from the picked one on, at most once around.\<close>

fun group_loop :: "nat \<Rightarrow> (nat \<Rightarrow> ('x, string \<times> string list) mpc_call) \<Rightarrow> nat list \<Rightarrow> nat \<Rightarrow> nat \<Rightarrow> ('x, (string \<times> string list) option) mpc_call" where
  "group_loop 0 attempt groups start i = sret None"
| "group_loop (Suc rest) attempt groups start i =
     (if \<not> i < length groups then slift Panic
      else
        sbind (stry (attempt (groups ! i))) (\<lambda>r.
        case r of
          Inr sgn_res \<Rightarrow> sret (Some sgn_res)
        | Inl (_ :: mpc_error) \<Rightarrow>
            let i = (i + 1) mod length groups in
            if i = start then sret None else group_loop rest attempt groups start i))"

definition sign_on_node :: "mpc_env \<Rightarrow> string \<Rightarrow> string \<Rightarrow> string list \<Rightarrow> string list \<Rightarrow> nat \<Rightarrow> ('x, (string \<times> string list) option) mpc_call" where
  "sign_on_node E signType signPubkey msgHash msgContext k = sget (\<lambda>s.
     sbind (stry (pingMPCNode pingCount E (mpcRPCAddress (allInitiatorNodes (mpcs s) ! k)))) (\<lambda>ping.
     case ping of
       Inl (_ :: mpc_error) \<Rightarrow> sret None
     | Inr _ \<Rightarrow> sget (\<lambda>s.
         let groups = getUsableSignGroupIndexes (allInitiatorNodes (mpcs s) ! k) in
         if length groups = 0 then sret None
         else
           sbind (extern (\<lambda>t. rand_Int E t (length groups))) (\<lambda>start.
           group_loop (length groups) (\<lambda>g. doSignImpl E k g signType signPubkey msgHash msgContext) groups start start))))"

fun node_loop :: "(nat \<Rightarrow> ('x, (string \<times> string list) option) mpc_call) \<Rightarrow> nat list \<Rightarrow> ('x, (string \<times> string list) option) mpc_call" where
  "node_loop attempt [] = sret None"
| "node_loop attempt (k # ks) =
     sbind (attempt k) (\<lambda>r. case r of Some sgn_res \<Rightarrow> sret (Some sgn_res) | None \<Rightarrow> node_loop attempt ks)"

fun sign_rounds :: "nat \<Rightarrow> (nat \<Rightarrow> ('x, (string \<times> string list) option) mpc_call) \<Rightarrow> ('x, (string \<times> string list) option) mpc_call" where
  "sign_rounds 0 attempt = sret None"
| "sign_rounds (Suc n) attempt = sget (\<lambda>s.
     sbind (node_loop attempt [0..<length (allInitiatorNodes (mpcs s))]) (\<lambda>r.
     case r of Some sgn_res \<Rightarrow> sret (Some sgn_res) | None \<Rightarrow> sign_rounds n attempt))"

definition DoSign :: "mpc_env \<Rightarrow> string \<Rightarrow> string \<Rightarrow> string list \<Rightarrow> string list \<Rightarrow> ('x, string \<times> string list) mpc_call" where
  "DoSign E signType signPubkey msgHash msgContext =
     (if signPubkey = '''' then slift (Err errSignWithoutPublickey)
      else
        sbind (sign_rounds retrySignLoop (sign_on_node E signType signPubkey msgHash msgContext)) (\<lambda>r.
        case r of Some sgn_res \<Rightarrow> sret sgn_res | None \<Rightarrow> slift (Err errDoSignFailed)))"

definition DoSignOneEC :: "mpc_env \<Rightarrow> string \<Rightarrow> string \<Rightarrow> string \<Rightarrow> ('x, string \<times> string list) mpc_call" where
  "DoSignOneEC E signPubkey msgHash msgContext = DoSign E SignTypeEC256K1 signPubkey [msgHash] [msgContext]"

definition DoSignOneED :: "mpc_env \<Rightarrow> string \<Rightarrow> string \<Rightarrow> string \<Rightarrow> ('x, string \<times> string list) mpc_call" where
  "DoSignOneED E signPubkey msgHash msgContext = DoSign E SignTypeED25519 signPubkey [msgHash] [msgContext]"

definition DoSignOne :: "mpc_env \<Rightarrow> string \<Rightarrow> string \<Rightarrow> string \<Rightarrow> string \<Rightarrow> ('x, string \<times> string list) mpc_call" where
  "DoSignOne E signType signPubkey msgHash msgContext = DoSign E signType signPubkey [msgHash] [msgContext]"

section \<open>Errors of a request\<close>

lemma group_loop_Err: "group_loop n attempt groups start i s \<noteq> (Err e, s')"
  by (induction n arbitrary: i s) (auto simp: sbind_def stry_def sret_def slift_def Let_def split: prod.splits outcome.splits)

lemma sign_on_node_Err: "sign_on_node E signType pk h c k s \<noteq> (Err e, s')"
  unfolding sign_on_node_def
  by (auto simp: sget_def sbind_def stry_def sret_def extern_def group_loop_Err Let_def split: prod.splits outcome.splits)

lemma node_loop_Err: "(\<And>k s. attempt k s \<noteq> (Err e, s')) \<Longrightarrow> node_loop attempt ks s \<noteq> (Err e, s')"
  by (induction ks arbitrary: s) (auto simp: sbind_def sret_def split: prod.splits outcome.splits option.splits)

lemma sign_rounds_Err: "(\<And>k s. attempt k s \<noteq> (Err e, s')) \<Longrightarrow> sign_rounds n attempt s \<noteq> (Err e, s')"
  by (induction n arbitrary: s) (auto simp: sget_def sbind_def sret_def node_loop_Err split: prod.splits outcome.splits option.splits)

lemma DoSign_Err:
  assumes "DoSign E signType pk h c s = (Err e, s')"
  shows "e = (if pk = '''' then errSignWithoutPublickey else errDoSignFailed)"
proof -
  have "sign_rounds retrySignLoop (sign_on_node E signType pk h c) s \<noteq> (Err e, s')"
    by (rule sign_rounds_Err) (rule sign_on_node_Err)
  with assms show ?thesis by (auto simp: DoSign_def sbind_def slift_def sret_def split: if_splits prod.splits outcome.splits option.splits)
qed

section \<open>The values of used signatures\<close>

text \<open>The key under which the r value of a signature is recorded.\<close>

definition r_key :: "string \<Rightarrow> string \<Rightarrow> string" where
  "r_key signPubkey rsv = ToLower (ToHex (take 32 (FromHex rsv)) @ '':'' @ signPubkey)"

interpretation r_values: evolution "\<lambda>s s' :: 'x store_scheme. coll_keeps id (collUsedRValue s) (collUsedRValue s')"
  by unfold_locales (auto simp: coll_keeps_laws intro: coll_keeps_trans)

abbreviation recording :: "('x store_scheme, 'e, 'a) stateful \<Rightarrow> bool" where
  "recording \<equiv> srel (\<lambda>s s'. coll_keeps id (collUsedRValue s) (collUsedRValue s'))"

lemma recording_same: "skeeps collUsedRValue m \<Longrightarrow> recording m"
  by (simp add: skeeps_def sfrom_def coll_keeps_laws)

lemma recording_AddUsedRValue: "documented matches M \<Longrightarrow> recording (AddUsedRValue M pk r)"
  using ops_keep_identity [of matches M _ "[OpAddUsedRValue pk r]"]
  by (auto simp: sfrom_def same_identity_def exec_all_def)

interpretation r_free: query_free collUsedRValue
  by unfold_locales simp

lemma skeeps_upd_mpc [simp]: "skeeps collUsedRValue (upd_mpc f)"
  unfolding upd_mpc_def by (rule skeeps_supd) simp

lemma keeps_r_clock: "skeeps collUsedRValue (Unix_now M)" "skeeps collUsedRValue (NowMilliStr E)"
  unfolding Unix_now_def NowMilliStr_def NowMilli_def by (intro r_free.asks)+

lemmas r_asks = r_free.asks skeeps_sget keeps_r_clock skeeps_upd_mpc

lemma keeps_r_calls:
  "skeeps collUsedRValue (post_result E rpcAddr method param pre)"
  "skeeps collUsedRValue (GetEnode E rpcAddr)"
  "skeeps collUsedRValue (GetSignNonce E user rpcAddr)"
  "skeeps collUsedRValue (GetSignStatus E key rpcAddr)"
  "skeeps collUsedRValue (mpc_Sign E raw rpcAddr)"
proof -
  show post: "skeeps collUsedRValue (post_result E rpcAddr meth param pre)" for E rpcAddr meth param pre
    unfolding post_result_def by (intro r_asks)
  show "skeeps collUsedRValue (GetEnode E rpcAddr)" unfolding GetEnode_def by (intro r_asks)
  show "skeeps collUsedRValue (GetSignNonce E user rpcAddr)"
    unfolding GetSignNonce_def by (intro r_asks post) (auto split: outcome.splits intro: r_asks)
  show "skeeps collUsedRValue (GetSignStatus E key rpcAddr)" unfolding GetSignStatus_def by (intro r_asks post)
  show "skeeps collUsedRValue (mpc_Sign E raw rpcAddr)" unfolding mpc_Sign_def by (rule post)
qed

lemma keeps_r_sign_result: "skeeps collUsedRValue (getSignResult E keyID rpcAddr)"
proof -
  have "skeeps collUsedRValue (sign_status_loop k E keyID rpcAddr err)" for k err
    by (induction k arbitrary: err) (simp_all add: r_asks keeps_r_calls)
  then show ?thesis unfolding getSignResult_def by (intro r_asks)
qed

lemma keeps_r_books: "skeeps collUsedRValue (record_failures E g n)" "skeeps collUsedRValue (sign_failed E k i g)"
proof -
  show books: "skeeps collUsedRValue (record_failures E g n)" for n unfolding record_failures_def by (intro r_asks)
  show "skeeps collUsedRValue (sign_failed E k i g)" unfolding sign_failed_def Let_def by (intro r_asks books)
qed

lemma keeps_r_ping: "skeeps collUsedRValue (pingMPCNode k E rpcAddr)"
  by (induction k) (simp_all add: r_asks keeps_r_calls)

text \<open>What a successful check leaves: every r value is new and recorded.\<close>

lemma use_r_values_Ret:
  assumes "documented matches (mpc_mongo E)" and "use_r_values E pk rsvs s = (Ret (), s')"
  shows "coll_keeps id (collUsedRValue s) (collUsedRValue s') \<and>
    (\<forall>rsv\<in>set rsvs. length (FromHex rsv) = SignatureLength \<and> collUsedRValue s (r_key pk rsv) = None \<and> collUsedRValue s' (r_key pk rsv) \<noteq> None)"
  using assms(2)
proof (induction rsvs arbitrary: s)
  case Nil
  then show ?case by (simp add: outcome_simps coll_keeps_laws)
next
  case (Cons rsv rsvs)
  from Cons.prems obtain r t where len: "length (FromHex rsv) = SignatureLength"
    and added: "stry (AddUsedRValue (mpc_mongo E) pk (ToHex (take 32 (FromHex rsv)))) s = (Ret r :: (mpc_error, store_error + unit) outcome, t)"
    and rest: "(case r of Inl _ \<Rightarrow> slift (Err errRValueIsUsed) | Inr _ \<Rightarrow> use_r_values E pk rsvs) t = (Ret (), s')"
    by (auto simp: Let_def sbind_Ret_iff sstep_iff split: if_splits)
  then have add: "AddUsedRValue (mpc_mongo E) pk (ToHex (take 32 (FromHex rsv))) s = (Ret (), t)" and rest: "use_r_values E pk rsvs t = (Ret (), s')"
    by (cases r; simp add: outcome_simps)+
  from AddUsedRValue_fresh [OF assms(1) add] have fresh: "collUsedRValue s (r_key pk rsv) = None" "collUsedRValue t (r_key pk rsv) \<noteq> None"
    by (simp_all add: r_key_def)
  from sfromD [OF recording_AddUsedRValue [OF assms(1)] _ add] have st: "coll_keeps id (collUsedRValue s) (collUsedRValue t)" by simp
  from Cons.IH [OF rest] fresh st len show ?case
    by (auto simp: coll_keeps_def) (metis not_None_eq)+
qed

definition freshly_used :: "string \<Rightarrow> string list \<Rightarrow> 'x store_scheme \<Rightarrow> 'x store_scheme \<Rightarrow> bool" where
  "freshly_used pk rsvs s s' \<longleftrightarrow>
     (\<forall>rsv\<in>set rsvs. length (FromHex rsv) = SignatureLength \<and> collUsedRValue s (r_key pk rsv) = None \<and> collUsedRValue s' (r_key pk rsv) \<noteq> None)"

lemma freshly_used_earlier:
  "coll_keeps id (collUsedRValue s) (collUsedRValue t) \<Longrightarrow> freshly_used pk rsvs t s' \<Longrightarrow> freshly_used pk rsvs s s'"
  unfolding freshly_used_def coll_keeps_def by (metis not_None_eq)

lemma recording_use_r_values: "documented matches (mpc_mongo E) \<Longrightarrow> recording (use_r_values E pk rsvs)"
proof (induction rsvs)
  case (Cons rsv rsvs)
  show ?case
    unfolding use_r_values.simps Let_def
    by (intro r_values.srel_intros recording_AddUsedRValue [OF Cons.prems] Cons.IH [OF Cons.prems])
qed (simp add: r_values.sfrom_steps)

lemma recording_doSignImpl:
  assumes "documented matches (mpc_mongo E)"
  shows "recording (doSignImpl E k g signType pk h c)"
  unfolding doSignImpl_def Let_def
  by (intro r_values.srel_intros recording_use_r_values [OF assms] keeps_r_calls [THEN recording_same] keeps_r_sign_result [THEN recording_same]
      keeps_r_books [THEN recording_same] keeps_r_clock [THEN recording_same])

lemmas same_r_values = skeepsD [OF keeps_r_calls(3)] skeepsD [OF keeps_r_calls(5)] skeepsD [OF skeeps_stry [OF keeps_r_sign_result]]
  skeepsD [OF keeps_r_books(1)] skeepsD [OF keeps_r_books(2)] skeepsD [OF keeps_r_clock(2)]

lemma sum_run: "(case r of Inl e \<Rightarrow> f e | Inr x \<Rightarrow> g x) t = z \<longleftrightarrow> (\<exists>e. r = Inl e \<and> f e t = z) \<or> (\<exists>x. r = Inr x \<and> g x t = z)"
  by (cases r) auto

lemma doSignImpl_Ret:
  assumes "documented matches (mpc_mongo E)" and "isEC signType" and "doSignImpl E k g signType pk h c s = (Ret (keyID, rsvs), s')"
  shows "freshly_used pk rsvs s s'"
proof -
  have "\<exists>t. collUsedRValue t = collUsedRValue s \<and> use_r_values E pk rsvs t = (Ret (), s')"
    using assms(2,3) unfolding doSignImpl_def Let_def
    by (auto simp: sbind_Ret_iff sstep_iff sum_run split: prod.splits if_splits dest!: same_r_values)
  then obtain t where t: "collUsedRValue t = collUsedRValue s" and u: "use_r_values E pk rsvs t = (Ret (), s')" by blast
  from use_r_values_Ret [OF assms(1) u] show ?thesis by (simp add: freshly_used_def t)
qed

text \<open>The loops hand on the signature of one of their attempts.\<close>

lemma group_loop_fresh:
  assumes "\<And>g. recording (attempt g)" and "\<And>g s key rsvs s'. attempt g s = (Ret (key, rsvs), s') \<Longrightarrow> freshly_used pk rsvs s s'"
    and "group_loop n attempt groups start i s = (Ret (Some (key, rsvs)), s')"
  shows "freshly_used pk rsvs s s'"
  using assms(3)
proof (induction n arbitrary: i s)
  case (Suc n)
  then obtain r t where r: "stry (attempt (groups ! i)) s = (Ret r :: (mpc_error, mpc_error + string \<times> string list) outcome, t)"
    and rest: "(case r of Inr sgn_res \<Rightarrow> sret (Some sgn_res) | Inl _ \<Rightarrow>
        let i = Suc i mod length groups in if i = start then sret None else group_loop n attempt groups start i) t = (Ret (Some (key, rsvs)), s')"
    by (auto simp: sbind_Ret_iff sstep_iff split: if_splits)
  have st: "coll_keeps id (collUsedRValue s) (collUsedRValue t)"
    using sfromD [OF r_values.sfrom_stry [OF assms(1)] _ r] by simp
  show ?case
  proof (cases r)
    case (Inl e)
    with rest have "group_loop n attempt groups start (Suc i mod length groups) t = (Ret (Some (key, rsvs)), s')"
      by (auto simp: Let_def sstep_iff split: if_splits)
    from freshly_used_earlier [OF st Suc.IH [OF this]] show ?thesis .
  next
    case (Inr x)
    with rest r have "attempt (groups ! i) s = (Ret (key, rsvs), s')" by (auto simp: outcome_simps)
    then show ?thesis by (rule assms(2))
  qed
qed (simp add: sstep_iff)

lemma recording_group_loop: "(\<And>g. recording (attempt g)) \<Longrightarrow> recording (group_loop n attempt groups start i)"
proof (induction n arbitrary: i)
  case (Suc n)
  show ?case
    unfolding group_loop.simps Let_def by (intro r_values.srel_intros Suc.prems Suc.IH)
qed (simp add: r_values.sfrom_steps)

lemma recording_sign_on_node:
  "documented matches (mpc_mongo E) \<Longrightarrow> recording (sign_on_node E signType pk h c k)"
  unfolding sign_on_node_def Let_def
  by (intro r_values.srel_intros recording_group_loop recording_doSignImpl keeps_r_ping [THEN recording_same]
      r_free.skeeps_extern [THEN recording_same])

lemma sign_on_node_fresh:
  assumes "documented matches (mpc_mongo E)" and "isEC signType" and "sign_on_node E signType pk h c k s = (Ret (Some (key, rsvs)), s')"
  shows "freshly_used pk rsvs s s'"
proof -
  have "\<exists>t groups start. collUsedRValue t = collUsedRValue s \<and>
      group_loop (length groups) (\<lambda>g. doSignImpl E k g signType pk h c) groups start start t = (Ret (Some (key, rsvs)), s')"
    using assms(3) unfolding sign_on_node_def Let_def
    by (auto simp: sbind_Ret_iff sstep_iff sum_run simp del: group_loop.simps split: if_splits
        dest!: skeepsD [OF skeeps_stry [OF keeps_r_ping]] skeepsD [OF r_free.skeeps_extern]) blast
  then obtain t groups start where t: "collUsedRValue t = collUsedRValue s"
    and g: "group_loop (length groups) (\<lambda>g. doSignImpl E k g signType pk h c) groups start start t = (Ret (Some (key, rsvs)), s')" by blast
  from group_loop_fresh [OF recording_doSignImpl [OF assms(1)] doSignImpl_Ret [OF assms(1,2)] g] show ?thesis
    by (simp add: freshly_used_def t)
qed

lemma node_loop_fresh:
  assumes "\<And>k. recording (attempt k)" and "\<And>k s key rsvs s'. attempt k s = (Ret (Some (key, rsvs)), s') \<Longrightarrow> freshly_used pk rsvs s s'"
    and "node_loop attempt ks s = (Ret (Some (key, rsvs)), s')"
  shows "freshly_used pk rsvs s s'"
  using assms(3)
proof (induction ks arbitrary: s)
  case (Cons k ks)
  then obtain r t where r: "attempt k s = (Ret r, t)"
    and rest: "(case r of Some sgn_res \<Rightarrow> sret (Some sgn_res) | None \<Rightarrow> node_loop attempt ks) t = (Ret (Some (key, rsvs)), s')"
    by (auto simp: sbind_Ret_iff)
  have st: "coll_keeps id (collUsedRValue s) (collUsedRValue t)" using sfromD [OF assms(1) _ r] by simp
  show ?case
  proof (cases r)
    case None
    with rest show ?thesis using freshly_used_earlier [OF st Cons.IH] by simp
  next
    case (Some x)
    with rest r assms(2) show ?thesis by (auto simp: sstep_iff)
  qed
qed (simp add: sstep_iff)

lemma recording_node_loop: "(\<And>k. recording (attempt k)) \<Longrightarrow> recording (node_loop attempt ks)"
proof (induction ks)
  case (Cons k ks)
  show ?case unfolding node_loop.simps by (intro r_values.srel_intros Cons.prems Cons.IH)
qed (simp add: r_values.sfrom_steps)

lemma sign_rounds_fresh:
  assumes "\<And>k. recording (attempt k)" and "\<And>k s key rsvs s'. attempt k s = (Ret (Some (key, rsvs)), s') \<Longrightarrow> freshly_used pk rsvs s s'"
    and "sign_rounds n attempt s = (Ret (Some (key, rsvs)), s')"
  shows "freshly_used pk rsvs s s'"
  using assms(3)
proof (induction n arbitrary: s)
  case (Suc n)
  then obtain r t where r: "node_loop attempt [0..<length (allInitiatorNodes (mpcs s))] s = (Ret r, t)"
    and rest: "(case r of Some sgn_res \<Rightarrow> sret (Some sgn_res) | None \<Rightarrow> sign_rounds n attempt) t = (Ret (Some (key, rsvs)), s')"
    by (auto simp: sbind_Ret_iff sstep_iff)
  have st: "coll_keeps id (collUsedRValue s) (collUsedRValue t)" using sfromD [OF recording_node_loop [OF assms(1)] _ r] by simp
  show ?case
  proof (cases r)
    case None
    with rest show ?thesis using freshly_used_earlier [OF st Suc.IH] by simp
  next
    case (Some x)
    with rest r node_loop_fresh [OF assms(1,2)] show ?thesis by (auto simp: sstep_iff)
  qed
qed (simp add: sstep_iff)

lemma DoSign_fresh:
  assumes "documented matches (mpc_mongo E)" and "isEC signType" and "DoSign E signType pk h c s = (Ret (keyID, rsvs), s')"
  shows "freshly_used pk rsvs s s'"
proof -
  from assms(3) have "sign_rounds retrySignLoop (sign_on_node E signType pk h c) s = (Ret (Some (keyID, rsvs)), s')"
    by (auto simp: DoSign_def sbind_Ret_iff sstep_iff split: if_splits option.splits)
  from sign_rounds_fresh [OF recording_sign_on_node [OF assms(1)] sign_on_node_fresh [OF assms(1,2)] this] show ?thesis .
qed

section \<open>A network of one node\<close>

definition sample_key :: keystore_key where "sample_key = \<lparr>key_Address = sample_address 9, PrivateKey = []\<rparr>"

definition sample_node :: NodeInfo where
  "sample_node = setOriginSignGroups [''g1'', ''g2''] \<lparr>keyWrapper = sample_key, mpcUser = sample_address 9, mpcRPCAddress = ''rpc'', originSignGroups = [],
     usableSignGroupIndexes = []\<rparr>"

definition sample_mpcs :: mpc_state where
  "sample_mpcs = \<lparr>mpcAPIPrefix = ''smpc_'', mpcGroupID = '''', mpcThreshold = ''2/3'', mpcMode = ''0'', mpcNeededOracles = 2, mpcTotalOracles = 3,
     verifySignatureInAccept = True, defaultMPCNode = Some sample_node, allInitiatorNodes = [sample_node], maxSignGroupFailures = 0,
     minIntervalToAddSignGroup = 3600, signGroupFailuresMap = Map.empty\<rparr>"

definition sign_start :: sign_store where
  "sign_start = build_store.extend build_start \<lparr>mpcs = sample_mpcs\<rparr>"

definition sample_status :: "string \<Rightarrow> SignStatus" where
  "sample_status rsv = \<lparr>ss_Status = ''Success'', Rsv = [rsv], ss_Tip = '''', ss_Error = '''', AllReply = [], ss_TimeStamp = ''''\<rparr>"

text \<open>The network signs with \<open>a\<close> before the tenth question and with \<open>b\<close> from then on.\<close>

definition sample_mpc :: "string \<Rightarrow> string \<Rightarrow> mpc_env" where
  "sample_mpc a b = \<lparr>mpc_mongo = memory_env two_keys, mpc_crypto = sample_crypto, crypto_Sign = (\<lambda>_ _. Inr sample_sig),
     Marshal_SignData = (\<lambda>_. Inr [1]), Marshal_AcceptData = (\<lambda>_. Inr [1]), Unmarshal_SignStatus = (\<lambda>d. Inr (sample_status d)),
     post_data = (\<lambda>t _ method _. Inr \<lparr>dr_Status = ''Success'', dr_Tip = '''', dr_Error = '''',
       dr_Data = Some (if method = ''getSignStatus'' then (if t < 10 then a else b) else ''1'')\<rparr>),
     post_enode = (\<lambda>_ _. Inr \<lparr>ge_Status = ''Success'', ge_Tip = '''', ge_Error = '''', ge_Data = Some ''''\<rparr>),
     post_sign_info = (\<lambda>_ _ _. Inl ''''), rand_Int = (\<lambda>_ _. 1), polls_before_timeout = (\<lambda>_. 2)\<rparr>"

definition sample_rsv :: "byte \<Rightarrow> string" where
  "sample_rsv v = ToHex (v # tl sample_sig)"

definition sample_request_tx :: "nat \<Rightarrow> Transaction" where
  "sample_request_tx n = NewTransaction n mpcToAddr (Some 0) 100000 (Some 80000) [1]"

lemma sample_request_signed:
  "WithSignature (sample_request_tx n) mpcSigner sample_sig = Ret (fresh_tx ((tx_data (sample_request_tx n))\<lparr>td_R := Some 1, td_S := Some 2, td_V := Some 60836\<rparr>))"
  by (simp add: WithSignature_def mpcSigner_def MakeSigner_def SignatureValues_def EIP155Signer_SignatureValues_def FrontierSigner_SignatureValues_def mpcWalletServiceID_def
      decodeSignature_65 sample_sig_simps sample_request_tx_def NewTransaction_def newTransaction_def fresh_tx_def txdata_zero_def tx_types)

lemma sample_request_encoded:
  assumes "n = 0 \<or> n = 1"
  shows   "\<exists>e. obind (EncodeRLP (fresh_tx ((tx_data (sample_request_tx n))\<lparr>td_R := Some 1, td_S := Some 2, td_V := Some 60836\<rparr>)) enc_reset) (\<lambda>w. lift_err EncodeError (toBytes w)) = Ret e"
proof -
  let ?d = "(tx_data (sample_request_tx n))\<lparr>td_R := Some 1, td_S := Some 2, td_V := Some 60836\<rparr>"
  have ok: "tx_ok ?d" using assms
    by (auto simp: tx_ok_def sample_request_tx_def NewTransaction_def newTransaction_def fresh_tx_def tx_types set_nat_def addr_ok_def mpcToAddr_def txdata_zero_def
       W64_def set_big_def AddressLength_def)
  have "length (HexToAddress h) = 20" for h by (simp add: AddressLength_def)
  then have sz: "tx_size_ok ?d" using assms
    by (elim disjE) (simp_all add: sample_request_tx_def NewTransaction_def newTransaction_def fresh_tx_def txdata_zero_def tx_types mpcToAddr_def set_big_def
      tx_size_ok_def tx_rlp_def toLegacyTx_def LegacyTxRlp_def LegacyTx_val_def big_val_def addr_val_def nil_tag_def AddressLength_def
      AddressType_def isUint_def isByte_def items_bytes_def W64_def no_tags_def rlp_list_def rlp_str_def rlp_head_def be_bytes_step)
  have l: "td_Type ?d = LegacyTxType" by (simp add: tx_types txdata_zero_def sample_request_tx_def NewTransaction_def newTransaction_def fresh_tx_def)
  from encode_tx_rlp [OF ok sz] l show ?thesis
    by (auto simp: tx_rlp_def EncodeRLP_def fresh_tx_def EncodeToBytes_def outcome_simps)
qed

lemma sample_raw: "n = 0 \<or> n = 1 \<Longrightarrow> \<exists>raw. BuildMPCRawTx (sample_mpc a b) n [1] key = Ret raw"
  using sample_request_encoded [of n] sample_request_signed [of n]
  by (auto simp: BuildMPCRawTx_def Let_def sample_mpc_def of_tx_def sample_request_tx_def)

lemma sample_attempt:
  fixes s :: sign_store
  assumes "mpcs s = sample_mpcs" and "rsv = (if tick s + 4 < 10 then a else b)" and "length (FromHex rsv) = 65"
  shows "doSignImpl (sample_mpc a b) 0 1 ''ECDSA'' pk h c s =
    (case AddUsedRValue (memory_env two_keys) pk (ToHex (take 32 (FromHex rsv))) (s\<lparr>tick := tick s + 5\<rparr>) of
       (Ret u, s') \<Rightarrow> (Ret (''1'', [rsv]), s') | (Err e, s') \<Rightarrow> (Err errRValueIsUsed, s') | (Panic, s') \<Rightarrow> (Panic, s'))"
proof -
  obtain raw where raw: "BuildMPCRawTx (sample_mpc a b) 1 [1] sample_key = Ret raw" using sample_raw [of 1] by blast
  have nonce: "GetBigIntFromStr ''1'' = Ret 1" by code_simp
  have ec: "isEC ''ECDSA''" by (simp add: isEC_def)
  have node: "allInitiatorNodes sample_mpcs = [sample_node]" "mpcRPCAddress sample_node = ''rpc''" "originSignGroups sample_node = [''g1'', ''g2'']"
    "keyWrapper sample_node = sample_key" "verifySignatureInAccept sample_mpcs" "maxSignGroupFailures sample_mpcs = 0"
    by (simp_all add: sample_mpcs_def sample_node_def setOriginSignGroups_def)
  have answer: "post_result (sample_mpc a b) ''rpc'' m p pre t =
      (Ret (if m = ''getSignStatus'' then (if tick t < 10 then a else b) else ''1''), t\<lparr>tick := Suc (tick t)\<rparr>)" for m p pre and t :: sign_store
    by (simp add: post_result_def sample_mpc_def extern_def run_steps successStatus_def mpc_deref_def)
  have status: "getSignResult (sample_mpc a b) k ''rpc'' t = (Ret [if tick t + 1 < 10 then a else b], t\<lparr>tick := tick t + 2\<rparr>)" for k and t :: sign_store
  proof -
    have "Unmarshal_SignStatus (sample_mpc a b) d = Inr (sample_status d)" "polls_before_timeout (sample_mpc a b) n = Suc (Suc 0)" for d n
      by (simp_all add: sample_mpc_def numeral_2_eq_2)
    then show ?thesis
      by (simp add: getSignResult_def GetSignStatus_def answer run_steps extern_def sample_status_def successStatus_def)
  qed
  have req: "sign_request (sample_mpc a b) sample_mpcs sample_node g ''ECDSA'' pk h c ts = Ret (txdata, p) \<Longrightarrow> p = [1]" for g ts txdata p
    by (auto simp: sign_request_def sample_mpc_def node Let_def marshal_dropped_def)
  have req': "\<exists>txdata. sign_request (sample_mpc a b) sample_mpcs sample_node g ''ECDSA'' pk h c ts = Ret (txdata, [1])" for g ts
    by (auto simp: sign_request_def sample_mpc_def node Let_def marshal_dropped_def)
  have now: "NowMilliStr (sample_mpc a b) t = (Ret (big_String (int (tick t) * 1000)), t\<lparr>tick := Suc (tick t)\<rparr>)" for t :: sign_store
    by (simp add: NowMilliStr_def NowMilli_def run_steps extern_def sample_mpc_def memory_env_def sgn_mult abs_mult mult.commute)
  have uint: "big_Uint64 1 = 1" by (simp add: big_Uint64_def W64_def)
  have mongo: "mpc_mongo (sample_mpc a b) = memory_env two_keys" by (simp add: sample_mpc_def)
  obtain txdata where "sign_request (sample_mpc a b) sample_mpcs sample_node ''g2'' ''ECDSA'' pk h c (big_String (int (Suc (tick s)) * 1000)) = Ret (txdata, [1])"
    using req' by blast
  moreover have "GetSignNonce (sample_mpc a b) u ''rpc'' s = (Ret 1, s\<lparr>tick := Suc (tick s)\<rparr>)" for u
    by (simp add: GetSignNonce_def answer run_steps nonce uint)
  moreover have "getSignResult (sample_mpc a b) k ''rpc'' (s\<lparr>tick := Suc (Suc (Suc (tick s)))\<rparr>) = (Ret [rsv], s\<lparr>tick := tick s + 5\<rparr>)" for k
    using assms(2) by (simp add: status)
  ultimately have "doSignImpl (sample_mpc a b) 0 1 ''ECDSA'' pk h c s =
      sbind (use_r_values (sample_mpc a b) pk [rsv]) (\<lambda>_. sret (''1'', [rsv])) (s\<lparr>tick := tick s + 5\<rparr>)"
    by (simp add: doSignImpl_def run_steps assms(1) node now raw [simplified] mpc_Sign_def answer ec Let_def del: use_r_values.simps)
  then show ?thesis
    by (cases "AddUsedRValue (memory_env two_keys) pk (ToHex (take 32 (FromHex rsv))) (s\<lparr>tick := tick s + 5\<rparr>)";
        cases "fst (AddUsedRValue (memory_env two_keys) pk (ToHex (take 32 (FromHex rsv))) (s\<lparr>tick := tick s + 5\<rparr>))")
       (simp_all add: run_steps mongo assms(3) SignatureLength_def)
qed

lemma sample_use:
  assumes "collUsedRValue s (ToLower (r @ '':'' @ pk)) = None"
  shows "AddUsedRValue (memory_env two_keys) pk r s =
    (Ret (), s\<lparr>tick := tick s + 2, collUsedRValue := (collUsedRValue s)(ToLower (r @ '':'' @ pk) \<mapsto>
       \<lparr>ur_Key = ToLower (r @ '':'' @ pk), ur_Timestamp = int (tick s) * 1000\<rparr>)\<rparr>)"
  using assms
  by (simp add: AddUsedRValue_def Let_def run_steps NowMilli_def extern_def memory_env_def insertRValue_def coll_write_def memory_coll_def sgn_mult abs_mult mult.commute)

lemma sample_DoSign:
  fixes s :: sign_store
  assumes "mpcs s = sample_mpcs" and "rsv = (if tick s + 6 < 10 then a else b)" and "length (FromHex rsv) = 65" and "collUsedRValue s (r_key ''pk'' rsv) = None"
  shows "DoSign (sample_mpc a b) ''ECDSA'' ''pk'' h c s = (Ret (''1'', [rsv]), s\<lparr>tick := tick s + 9, collUsedRValue := (collUsedRValue s)(r_key ''pk'' rsv \<mapsto>
       \<lparr>ur_Key = r_key ''pk'' rsv, ur_Timestamp = int (tick s + 7) * 1000\<rparr>)\<rparr>)"
proof -
  let ?s = "s\<lparr>tick := tick s + 2\<rparr>"
  let ?t = "s\<lparr>tick := tick s + 9, collUsedRValue := (collUsedRValue s)(r_key ''pk'' rsv \<mapsto> \<lparr>ur_Key = r_key ''pk'' rsv, ur_Timestamp = int (tick s + 7) * 1000\<rparr>)\<rparr>"
  have nodes: "allInitiatorNodes sample_mpcs = [sample_node]" "usableSignGroupIndexes sample_node = [0, 1]"
    by (simp_all add: sample_mpcs_def sample_node_def setOriginSignGroups_def)
  have ping: "pingMPCNode pingCount (sample_mpc a b) addr t = (Ret (), t\<lparr>tick := Suc (tick t)\<rparr>)" for addr and t :: sign_store
    by (simp add: pingCount_def numeral_3_eq_3 GetEnode_def run_steps extern_def sample_mpc_def successStatus_def mpc_deref_def)
  have pick: "rand_Int (sample_mpc a b) t n = 1" for t n by (simp add: sample_mpc_def)
  have "doSignImpl (sample_mpc a b) 0 1 ''ECDSA'' ''pk'' h c ?s = (Ret (''1'', [rsv]), s\<lparr>tick := tick s + 9, collUsedRValue := (collUsedRValue s)(r_key ''pk'' rsv \<mapsto>
       \<lparr>ur_Key = r_key ''pk'' rsv, ur_Timestamp = int (tick s + 7) * 1000\<rparr>)\<rparr>)"
    using sample_attempt [of ?s rsv a b "''pk''" h c] assms sample_use [of "?s\<lparr>tick := tick ?s + 5\<rparr>" "ToHex (take 32 (FromHex rsv))" "''pk''"]
    by (simp add: r_key_def ac_simps)
  then have "group_loop 2 (\<lambda>g. doSignImpl (sample_mpc a b) 0 g ''ECDSA'' ''pk'' h c) [0, 1] 1 1 ?s = (Ret (Some (''1'', [rsv])), ?t)"
    by (simp add: numeral_2_eq_2 run_steps)
  then have "sign_on_node (sample_mpc a b) ''ECDSA'' ''pk'' h c 0 s = (Ret (Some (''1'', [rsv])), ?t)"
    by (simp add: sign_on_node_def run_steps assms(1) nodes ping getUsableSignGroupIndexes_def Let_def extern_def pick numeral_2_eq_2 del: group_loop.simps)
  then show ?thesis
    by (simp add: DoSign_def retrySignLoop_def numeral_3_eq_3 run_steps assms(1) nodes)
qed

section \<open>Properties\<close>

text \<open>
  C39: the caller of \<open>DoSign\<close> cannot see why a request failed: the only errors are a missing public key
  and \<open>errDoSignFailed\<close>, also when an oracle disagreed, although the swap job looks for exactly that
  error to verify the swap again.
\<close>

theorem DoSign_hides_disagree:
  "fst (DoSign E signType signPubkey msgHash msgContext s) \<in> {Err errSignWithoutPublickey, Err errDoSignFailed, Panic} \<union> range Ret"
  using DoSign_Err [of E signType signPubkey msgHash msgContext s]
  by (cases "DoSign E signType signPubkey msgHash msgContext s"; cases "fst (DoSign E signType signPubkey msgHash msgContext s)") (auto split: if_splits)

text \<open>
  C13: two signatures that the network returns for one public key on a curve of elliptic-curve type,
  one by each of two requests that follow each other with any store operations in between, do not
  share their r value, which would give the private key away: the values of the first request are
  recorded, and a value that is recorded already makes a request fail.
\<close>

theorem signatures_never_share_r:
  assumes "documented matches (mpc_mongo E)" and "isEC signType" and "isEC signType'"
    and "DoSign E signType pk h c s = (Ret (keyID, rsvs), s1)"
    and "DoSign E signType' pk h' c' (exec_all (mpc_mongo E) ops s1) = (Ret (keyID', rsvs'), s2)"
    and "rsv \<in> set rsvs" and "rsv' \<in> set rsvs'"
  shows "take 32 (FromHex rsv) \<noteq> take 32 (FromHex rsv')"
proof
  assume eq: "take 32 (FromHex rsv) = take 32 (FromHex rsv')"
  from DoSign_fresh [OF assms(1,2,4)] assms(6) have "collUsedRValue s1 (r_key pk rsv) \<noteq> None" by (simp add: freshly_used_def)
  with ops_keep_identity [OF assms(1), of s1 ops] have "collUsedRValue (exec_all (mpc_mongo E) ops s1) (r_key pk rsv) \<noteq> None"
    by (auto simp: same_identity_def coll_keeps_def)
  moreover from DoSign_fresh [OF assms(1,3,5)] assms(7) have "collUsedRValue (exec_all (mpc_mongo E) ops s1) (r_key pk rsv') = None"
    by (simp add: freshly_used_def)
  ultimately show False by (simp add: r_key_def eq)
qed

lemma sample_rsv_bytes: "FromHex (sample_rsv v) = v # tl sample_sig"
  unfolding sample_rsv_def ToHex_def by (rule FromHex_0x)

theorem signatures_never_share_r_witness:
  "\<exists>s1 s2. DoSign (sample_mpc (sample_rsv 1) (sample_rsv 2)) ''ECDSA'' ''pk'' [''h''] [''c''] sign_start = (Ret (''1'', [sample_rsv 1]), s1) \<and>
     DoSign (sample_mpc (sample_rsv 1) (sample_rsv 2)) ''ECDSA'' ''pk'' [''h''] [''c''] s1 = (Ret (''1'', [sample_rsv 2]), s2) \<and>
     take 32 (FromHex (sample_rsv 1)) \<noteq> take 32 (FromHex (sample_rsv 2))"
proof -
  let ?E = "sample_mpc (sample_rsv 1) (sample_rsv 2)"
  have len: "length (FromHex (sample_rsv v)) = 65" for v by (simp add: sample_rsv_bytes sample_sig_simps)
  have start: "mpcs sign_start = sample_mpcs" "tick sign_start = 0" "collUsedRValue sign_start = Map.empty"
    by (simp_all add: sign_start_def build_start_def no_store_def store.extend_def build_store.extend_def)
  obtain s1 where s1: "DoSign ?E ''ECDSA'' ''pk'' [''h''] [''c''] sign_start = (Ret (''1'', [sample_rsv 1]), s1)"
    and s1': "mpcs s1 = sample_mpcs" "tick s1 = 9" "collUsedRValue s1 = [r_key ''pk'' (sample_rsv 1) \<mapsto> \<lparr>ur_Key = r_key ''pk'' (sample_rsv 1), ur_Timestamp = 7000\<rparr>]"
    using sample_DoSign [of sign_start "sample_rsv 1" "sample_rsv 1" "sample_rsv 2"] start len by simp
  have "r_key ''pk'' (sample_rsv 2) \<noteq> r_key ''pk'' (sample_rsv 1)"
    unfolding r_key_def sample_rsv_bytes by code_simp
  then obtain s2 where s2: "DoSign ?E ''ECDSA'' ''pk'' [''h''] [''c''] s1 = (Ret (''1'', [sample_rsv 2]), s2)"
    using sample_DoSign [of s1 "sample_rsv 2" "sample_rsv 1" "sample_rsv 2"] s1' len by simp
  have mongo: "mpc_mongo ?E = memory_env two_keys" by (simp add: sample_mpc_def)
  obtain matches where "documented matches (mpc_mongo ?E)" using documented_memory unfolding mongo by blast
  from signatures_never_share_r [OF this, of "''ECDSA''" "''ECDSA''" "''pk''" "[''h'']" "[''c'']" sign_start "''1''" "[sample_rsv 1]" s1 "[''h'']" "[''c'']" "[]" "''1''" "[sample_rsv 2]" s2]
  have "take 32 (FromHex (sample_rsv 1)) \<noteq> take 32 (FromHex (sample_rsv 2))"
    using s1 s2 by (simp add: isEC_def exec_all_def)
  with s1 s2 show ?thesis by blast
qed

text \<open>
  C40: the request that an initiator node signs for the curve of Ethereum (key type \<open>EC256K1\<close>, as
  \<open>DoSignOneEC\<close> asks for) with one message context passes the check of the oracles, when their data
  agree and the signature of its key recovers to its address: the payload that they rebuild from the
  sign info, without the last entry of the context, is the one that was signed.
\<close>

theorem sign_request_accepted:
  assumes "sign_request E m ni signGroup SignTypeEC256K1 signPubkey msgHash [msgContext] ts = Ret (txdata, payload)"
    and "\<And>h sig. crypto_Sign E h (PrivateKey (keyWrapper ni)) = Inr sig \<Longrightarrow>
      \<exists>pub. Ecrecover (mpc_crypto E) h sig = Inr (4 # pub) \<and> drop 12 (keccak256 (mpc_crypto E) pub) = HexToAddress account"
    and "si_Account info = account" and "si_PubKey info = sd_PubKey txdata" and "si_MsgHash info = sd_MsgHash txdata"
    and "si_MsgContext info = sd_MsgContext txdata" and "si_GroupID info = sd_GroupID txdata" and "si_ThresHold info = sd_ThresHold txdata"
    and "si_Mode info = sd_Mode txdata" and "si_TimeStamp info = sd_TimeStamp txdata"
  shows "HasValidSignature E m info"
proof (cases "verifySignatureInAccept m")
  case True
  from assms(1) True obtain p signature where p: "Marshal_SignData E \<lparr>sd_TxType = ''SIGN'', sd_PubKey = signPubkey, sd_MsgHash = msgHash,
        sd_MsgContext = [msgContext], sd_Keytype = SignTypeEC256K1, sd_GroupID = signGroup, sd_ThresHold = mpcThreshold m, sd_Mode = mpcMode m, sd_TimeStamp = ts\<rparr> = Inr p"
    and sig: "crypto_Sign E (keccak256 (mpc_crypto E) p) (PrivateKey (keyWrapper ni)) = Inr signature"
    and txdata: "txdata = \<lparr>sd_TxType = ''SIGN'', sd_PubKey = signPubkey, sd_MsgHash = msgHash,
        sd_MsgContext = [msgContext, ToHex signature], sd_Keytype = SignTypeEC256K1, sd_GroupID = signGroup, sd_ThresHold = mpcThreshold m, sd_Mode = mpcMode m, sd_TimeStamp = ts\<rparr>"
    by (auto simp: sign_request_def Let_def split: sum.splits)
  from assms(2) [OF sig] obtain pub where pub: "Ecrecover (mpc_crypto E) (keccak256 (mpc_crypto E) p) signature = Inr (4 # pub)"
    "drop 12 (keccak256 (mpc_crypto E) pub) = HexToAddress account" by blast
  have hex: "FromHex (ToHex signature) = signature" unfolding ToHex_def by (rule FromHex_0x)
  have "length (HexToAddress account) = length ZeroAddress" by simp
  then have "copy_at ZeroAddress 0 (HexToAddress account) = HexToAddress account" by (simp add: copy_at_def)
  with p pub assms(3-10) True show ?thesis
    by (simp add: HasValidSignature_def txdata Let_def hex marshal_dropped_def)
next
  case False
  with assms(1,6) show ?thesis
    by (auto simp: HasValidSignature_def sign_request_def Let_def split: sum.splits)
qed

theorem sign_request_accepted_witness:
  "\<exists>txdata. sign_request (sample_mpc '''' '''') sample_mpcs sample_node ''g1'' SignTypeEC256K1 ''pk'' [''h''] [''c''] ''1'' = Ret (txdata, [1]) \<and>
     HasValidSignature (sample_mpc '''' '''') sample_mpcs
       \<lparr>si_Account = LowerHex (replicate 20 65), si_GroupID = sd_GroupID txdata, si_Key = ''key'', si_KeyType = '''', si_Mode = sd_Mode txdata,
        si_MsgHash = sd_MsgHash txdata, si_MsgContext = sd_MsgContext txdata, si_Nonce = '''', si_PubKey = sd_PubKey txdata,
        si_ThresHold = sd_ThresHold txdata, si_TimeStamp = sd_TimeStamp txdata, si_timestamp = 0\<rparr>"
proof -
  have "\<exists>txdata. sign_request (sample_mpc '''' '''') sample_mpcs sample_node ''g1'' SignTypeEC256K1 ''pk'' [''h''] [''c''] ''1'' = Ret (txdata, [1])"
    by (simp add: sign_request_def sample_mpc_def Let_def marshal_dropped_def)
  then obtain txdata where t: "sign_request (sample_mpc '''' '''') sample_mpcs sample_node ''g1'' SignTypeEC256K1 ''pk'' [''h''] [''c''] ''1'' = Ret (txdata, [1])" ..
  have acc: "HexToAddress (LowerHex (replicate 20 65)) = replicate 20 65" by (rule HexToAddress_LowerHex) (simp add: AddressLength_def)
  have rec: "\<exists>pub. Ecrecover (mpc_crypto (sample_mpc '''' '''')) h sig = Inr (4 # pub) \<and>
      drop 12 (keccak256 (mpc_crypto (sample_mpc '''' '''')) pub) = HexToAddress (LowerHex (replicate 20 65))"
    if "crypto_Sign (sample_mpc '''' '''') h (PrivateKey (keyWrapper sample_node)) = Inr sig" for h sig
    using that by (auto simp: acc sample_mpc_def sample_crypto_def sample_sig_simps)
  from t sign_request_accepted [OF t rec] show ?thesis by auto
qed

end
