(* ===== verification/EthSign.thy ===== *)
theory EthSign
  imports Payments Mpc
begin

text \<open>
  Signing and sending of the transactions that pay out swaps (\<open>tokens/eth/signtx.go\<close>, \<open>sendtx.go\<close>,
  \<open>VerifyMsgHash\<close> of \<open>verifytx.go\<close>, the sending of \<open>callapi.go\<close>, \<open>SignTx\<close> of
  \<open>types/transaction_signing.go\<close> and \<open>ToECDSA\<close> of \<open>tools/crypto\<close>). A raw transaction is an interface
  value: \<open>None\<close> stands for one that is no transaction of this kind. The nodes' answers to a sent
  transaction, the order in which they arrive, the coding of JSON and the multiplication on the curve
  are the fields of \<open>sign_env\<close>. A private key is the bytes it was made from.
\<close>

section \<open>Environment and errors\<close>

record MPCConfig =
  mc_SignWithPrivateKey :: bool
  mc_SignerPrivateKeys :: "(string \<rightharpoonup> string) option"

record sign_env =
  eth :: eth_env
  mpcnet :: mpc_env
  mpcConfig :: "MPCConfig option"
  Marshal_args :: "BuildTxArgs \<Rightarrow> string + string"
  ScalarBaseMult_X :: "bytes \<Rightarrow> int option"
  eth_sendRawTransaction :: "nat \<Rightarrow> string \<Rightarrow> string \<Rightarrow> string \<times> string option"
  arrival_order :: "nat \<Rightarrow> string list \<Rightarrow> string list"

datatype sign_error =
    SToken token_error
  | SMpc mpc_error
  | STx tx_error
  | SOther string
  | SignTxFailed sign_error

type_synonym ('x, 'a) signing = "('x sign_store_scheme, sign_error, 'a) stateful"

text \<open>Calls with the errors of another package.\<close>

definition failing_as :: "('e \<Rightarrow> 'f) \<Rightarrow> ('s, 'e, 'a) stateful \<Rightarrow> ('s, 'f, 'a) stateful" where
  "failing_as f m s = (case m s of (r, s') \<Rightarrow> (lift_err f r, s'))"

definition tx_keccak :: "sign_env \<Rightarrow> bytes \<Rightarrow> bytes" where
  "tx_keccak E = keccak256 (cryptolib (eth E))"

section \<open>Private keys (params/config.go, tools/crypto/crypto.go)\<close>

definition SignWithPrivateKey :: "MPCConfig option \<Rightarrow> ('e, bool) outcome" where
  "SignWithPrivateKey c = obind (mpc_deref c) (\<lambda>c. Ret (mc_SignWithPrivateKey c))"

definition EnableSignWithPrivateKey :: "MPCConfig option \<Rightarrow> MPCConfig option" where
  "EnableSignWithPrivateKey c = Some \<lparr>mc_SignWithPrivateKey = True, mc_SignerPrivateKeys = Some Map.empty\<rparr>"

definition GetSignerPrivateKey :: "MPCConfig option \<Rightarrow> string \<Rightarrow> ('e, string) outcome" where
  "GetSignerPrivateKey c chainID =
     obind (mpc_deref c) (\<lambda>c.
     Ret (case mc_SignerPrivateKeys c of None \<Rightarrow> '''' | Some m \<Rightarrow> (case m chainID of Some prikey \<Rightarrow> prikey | None \<Rightarrow> '''')))"

definition SetSignerPrivateKey :: "string \<Rightarrow> string \<Rightarrow> MPCConfig option \<Rightarrow> ('e, MPCConfig option) outcome" where
  "SetSignerPrivateKey chainID prikey c =
     obind (mpc_deref c) (\<lambda>c.
     obind (mpc_deref (mc_SignerPrivateKeys c)) (\<lambda>m. Ret (Some (c\<lparr>mc_SignerPrivateKeys := Some (m(chainID \<mapsto> prikey))\<rparr>))))"

definition toECDSA :: "sign_env \<Rightarrow> bytes \<Rightarrow> bool \<Rightarrow> (sign_error, bytes) outcome" where
  "toECDSA E d strict =
     (if strict \<and> 8 * length d \<noteq> 256 then Err (SOther ''invalid length, need 256 bits'')
      else if big_SetBytes d \<ge> secp256k1N then Err (SOther ''invalid private key, >=N'')
      else if big_SetBytes d \<le> 0 then Err (SOther ''invalid private key, zero or negative'')
      else if ScalarBaseMult_X E d = None then Err (SOther ''invalid private key'')
      else Ret d)"

definition ToECDSA :: "sign_env \<Rightarrow> bytes \<Rightarrow> (sign_error, bytes) outcome" where
  "ToECDSA E d = toECDSA E d True"

definition SignTx :: "sign_env \<Rightarrow> Transaction \<Rightarrow> Signer \<Rightarrow> bytes \<Rightarrow> (sign_error, Transaction) outcome" where
  "SignTx E tx s prv =
     (case crypto_Sign (mpcnet E) (Signer_Hash (cryptolib (eth E)) s (tx_data tx)) prv of
        Inl err \<Rightarrow> Err (SOther err)
      | Inr signature \<Rightarrow> lift_err STx (WithSignature tx s signature))"

section \<open>Signing (signtx.go)\<close>

definition verifyTransactionReceiver :: "sign_env \<Rightarrow> Transaction option \<Rightarrow> string \<Rightarrow> (sign_error, Transaction) outcome" where
  "verifyTransactionReceiver E rawTx tokenID =
     (case rawTx of
        None \<Rightarrow> Err (SOther ''[sign] wrong raw tx param'')
      | Some tx \<Rightarrow>
          (case tx_To tx of
             None \<Rightarrow> Err (SOther ''[sign] tx receiver is empty'')
           | Some to \<Rightarrow>
               if to = ZeroAddress then Err (SOther ''[sign] tx receiver is empty'')
               else
                 obind (lift_err SToken (chain_of (eth E))) (\<lambda>chainID.
                 obind (lift_err SToken (GetTokenRouterContract (routers (eth E)) tokenID chainID)) (\<lambda>checkReceiver.
                 if \<not> EqualFold (Address_Hex (tx_keccak E) to) checkReceiver
                 then Err (SOther (''[sign] tx receiver mismatch. have '' @ Address_Hex (tx_keccak E) to @ '' want '' @ checkReceiver))
                 else Ret tx))))"

text \<open>A transaction with a gas price gets the current price when that is higher, and so do the arguments.\<close>

definition updateGasPrice :: "sign_env \<Rightarrow> Transaction \<Rightarrow> BuildTxArgs \<Rightarrow> ('x, Transaction \<times> BuildTxArgs) signing" where
  "updateGasPrice E tx args =
     sbind (slift (lift_err SToken (chain_of (eth E)))) (\<lambda>chainID.
     if IsDynamicFeeTxEnabled (params_of (eth E)) chainID then sret (tx, args)
     else
       sbind (stry (getGasPrice (eth E) args)) (\<lambda>r.
       case r of
         Inl (_ :: build_error) \<Rightarrow> sret (tx, args)
       | Inr gasPrice \<Rightarrow>
           sbind (slift (obind (mpc_deref (args_Extra args)) (\<lambda>x. mpc_deref (EthExtra x)))) (\<lambda>extra.
           sbind (slift (mpc_deref (GasPrice extra))) (\<lambda>oldGasPrice.
           if oldGasPrice < gasPrice then
             sbind (slift (SetGasPrice tx gasPrice)) (\<lambda>tx. sret (tx, set_extra (extra\<lparr>GasPrice := Some gasPrice\<rparr>) args))
           else sret (tx, args)))))"

text \<open>The signature is tried with the recovery id as it is and then with the other one.\<close>

fun try_signature :: "nat \<Rightarrow> sign_env \<Rightarrow> Transaction \<Rightarrow> bytes \<Rightarrow> Address \<Rightarrow> (sign_error, Transaction) outcome" where
  "try_signature 0 E tx signature signerAddr = Err (SOther ''wrong sender address'')"
| "try_signature (Suc k) E tx signature signerAddr =
     obind (lift_err STx (WithSignature tx (Signer_of (eth E)) signature)) (\<lambda>signedTx.
     obind (lift_err STx (tx_Sender (cryptolib (eth E)) (Signer_of (eth E)) signedTx)) (\<lambda>(sender, signedTx).
     if sender = signerAddr then Ret signedTx
     else try_signature k E tx (signature[SignatureLength - 1 := signature ! (SignatureLength - 1) XOR 1]) signerAddr))"

definition signTxWithSignature :: "sign_env \<Rightarrow> Transaction \<Rightarrow> bytes \<Rightarrow> Address \<Rightarrow> (sign_error, Transaction) outcome" where
  "signTxWithSignature E tx signature signerAddr = try_signature 2 E tx signature signerAddr"

text \<open>A signed transaction and the text of its hash.\<close>

definition with_hash :: "sign_env \<Rightarrow> Transaction \<Rightarrow> Transaction \<times> string" where
  "with_hash E signedTx = (case tx_Hash (cryptolib (eth E)) signedTx of (h, tx) \<Rightarrow> (tx, Encode h))"

definition SignTransactionWithPrivateKey :: "sign_env \<Rightarrow> Transaction option \<Rightarrow> string \<Rightarrow> (sign_error, Transaction \<times> string) outcome" where
  "SignTransactionWithPrivateKey E rawTx priKey =
     (case rawTx of
        None \<Rightarrow> Err (SOther ''wrong raw tx param'')
      | Some tx \<Rightarrow>
          obind (ToECDSA E (FromHex priKey)) (\<lambda>privKey.
          obind (lift_err SignTxFailed (SignTx E tx (Signer_of (eth E)) privKey)) (\<lambda>signedTx.
          Ret (with_hash E signedTx))))"

text \<open>\<open>jsondata, _ := json.Marshal(args.GetExtraArgs())\<close>\<close>

definition msgContext_of :: "sign_env \<Rightarrow> BuildTxArgs \<Rightarrow> string" where
  "msgContext_of E args = (case Marshal_args E (GetExtraArgs args) of Inl _ \<Rightarrow> '''' | Inr jsondata \<Rightarrow> jsondata)"

definition MPCSignTransaction :: "sign_env \<Rightarrow> Transaction option \<Rightarrow> BuildTxArgs \<Rightarrow> ('x, Transaction \<times> string \<times> BuildTxArgs) signing" where
  "MPCSignTransaction E rawTx args =
     sbind (slift (verifyTransactionReceiver E rawTx (GetTokenID (swapArgs args)))) (\<lambda>tx.
     sbind (updateGasPrice E tx args) (\<lambda>(tx, args).
     sbind (slift (SignWithPrivateKey (mpcConfig E))) (\<lambda>withKey.
     if withKey then
       sbind (slift (lift_err SToken (chain_of (eth E)))) (\<lambda>chainID.
       sbind (slift (GetSignerPrivateKey (mpcConfig E) chainID)) (\<lambda>priKey.
       sbind (slift (SignTransactionWithPrivateKey E (Some tx) priKey)) (\<lambda>(signedTx, txHash). sret (signedTx, txHash, args))))
     else
       let mpcPubkey = GetMPCPublicKey (routers (eth E)) (args_From args) in
       sbind (sguard (mpcPubkey \<noteq> '''') (SToken ErrMissMPCPublicKey)) (\<lambda>_.
       let msgHash = Signer_Hash (cryptolib (eth E)) (Signer_of (eth E)) (tx_data tx) in
       sbind (failing_as SMpc (DoSignOneEC (mpcnet E) mpcPubkey (Encode msgHash) (msgContext_of E args))) (\<lambda>(keyID, rsvs).
       sbind (sguard (length rsvs = 1) (SOther ''get sign status require one rsv but return many'')) (\<lambda>_.
       let signature = FromHex (rsvs ! 0) in
       sbind (sguard (length signature = SignatureLength) (SOther ''wrong signature length'')) (\<lambda>_.
       sbind (slift (signTxWithSignature E tx signature (HexToAddress (args_From args)))) (\<lambda>signedTx.
       let (signedTx, txHash) = with_hash E signedTx in sret (signedTx, txHash, args)))))))))"

definition GetSignedTxHashOfKeyID :: "sign_env \<Rightarrow> string \<Rightarrow> string \<Rightarrow> Transaction option \<Rightarrow> ('x, string) signing" where
  "GetSignedTxHashOfKeyID E sender keyID rawTx =
     (case rawTx of
        None \<Rightarrow> slift (Err (SOther (''wrong raw tx of keyID '' @ keyID)))
      | Some tx \<Rightarrow>
          sbind (failing_as SMpc (GetSignStatusByKeyID (mpcnet E) keyID)) (\<lambda>rsvs.
          sbind (sguard (length rsvs = 1) (SOther (''wrong number of rsvs of keyID '' @ keyID))) (\<lambda>_.
          let signature = FromHex (rsvs ! 0) in
          sbind (sguard (length signature = SignatureLength) (SOther (''wrong signature of keyID '' @ keyID))) (\<lambda>_.
          sbind (slift (signTxWithSignature E tx signature (HexToAddress sender))) (\<lambda>signedTx.
          sret (snd (with_hash E signedTx)))))))"

section \<open>The oracles' check of a message (verifytx.go)\<close>

definition VerifyMsgHash :: "sign_env \<Rightarrow> Transaction option \<Rightarrow> string list \<Rightarrow> (token_error, unit) outcome" where
  "VerifyMsgHash E rawTx msgHashes =
     (case rawTx of
        None \<Rightarrow> Err ErrWrongRawTx
      | Some tx \<Rightarrow>
          (case msgHashes of
             [] \<Rightarrow> Err ErrWrongCountOfMsgHashes
           | msgHash # _ \<Rightarrow>
               if Encode (Signer_Hash (cryptolib (eth E)) (Signer_of (eth E)) (tx_data tx)) \<noteq> msgHash then Err ErrMsgHashMismatch
               else Ret ()))"

section \<open>Sending (callapi.go, sendtx.go)\<close>

text \<open>The answers in the order of their arrival; the first success decides, else the last error.\<close>

fun first_sent :: "(string \<times> string option) list \<Rightarrow> string option \<Rightarrow> string option + string" where
  "first_sent [] err = Inl err"
| "first_sent ((txHash, err) # rs) _ = (if err = None \<and> txHash \<noteq> '''' then Inr txHash else first_sent rs err)"

definition SendSignedTransaction :: "sign_env \<Rightarrow> Transaction \<Rightarrow> ('x, string) signing" where
  "SendSignedTransaction E tx =
     sbind (slift (lift_err STx (MarshalBinary tx))) (\<lambda>data.
     let hexData = ToHex data in
     sbind (failing_as SToken (urls_of (bridge (eth E)))) (\<lambda>(urls, ext).
     sbind (extern (\<lambda>t. map (\<lambda>url. eth_sendRawTransaction E t url hexData) (arrival_order E t (urls @ ext)))) (\<lambda>answers.
     case first_sent answers None of
       Inr txHash \<Rightarrow> sret txHash
     | Inl err \<Rightarrow> slift (Err (SToken (WrapRPCQueryError err ''eth_sendRawTransaction'' ''[]''))))))"

text \<open>The hash is returned also beside an error.\<close>

definition SendTransaction :: "sign_env \<Rightarrow> Transaction option \<Rightarrow> ('x, string \<times> sign_error option) signing" where
  "SendTransaction E signedTx =
     (case signedTx of
        None \<Rightarrow> sret ('''', Some (SOther ''wrong signed transaction type''))
      | Some tx \<Rightarrow>
          sbind (stry (SendSignedTransaction E tx)) (\<lambda>r.
          case r of
            Inl err \<Rightarrow> sret ('''', Some err)
          | Inr txHash \<Rightarrow>
              if IsParallelSwapEnabled (params_of (eth E)) then sret (txHash, None)
              else (case tx_Sender (cryptolib (eth E)) (Signer_of (eth E)) tx of
                  Panic \<Rightarrow> slift Panic
                | Err errt \<Rightarrow> sret (txHash, Some (STx errt))
                | Ret (sender, _) \<Rightarrow>
                    sbind (supd (\<lambda>s. s\<lparr>setter := SetNonce (LowerHex sender) (u64_add (tx_Nonce tx) 1) (setter s)\<rparr>)) (\<lambda>_.
                    sret (txHash, None)))))"

section \<open>What a signed transaction is\<close>

lemma lift_err_Ret [outcome_simps]: "lift_err f r = Ret a \<longleftrightarrow> r = Ret a"
  by (cases r) auto

lemma failing_as_Ret [outcome_simps]: "failing_as f m s = (Ret a, s') \<longleftrightarrow> m s = (Ret a, s')"
  by (auto simp: failing_as_def outcome_simps split: prod.splits)

text \<open>The sender depends on the data of a transaction only, not on its caches.\<close>

lemma Signer_Sender_caches [simp]:
  "Signer_Sender c s (tx\<lparr>tx_from := f\<rparr>) = Signer_Sender c s tx" "Signer_Sender c s (tx\<lparr>tx_hash := h\<rparr>) = Signer_Sender c s tx"
  by (simp_all add: Signer_Sender_def londonSigner_Sender_def eip2930Signer_Sender_def EIP155Signer_Sender_def FrontierSigner_Sender_def
      recover_checked_def Protected_def tx_ChainID_def Let_def cong: if_cong split: Signer.split)

lemma WithSignature_Ret:
  "WithSignature tx s sig = Ret tx' \<Longrightarrow> \<exists>R S V. tx' = fresh_tx ((tx_data tx)\<lparr>td_R := Some R, td_S := Some S, td_V := Some V\<rparr>)"
  by (auto simp: WithSignature_def outcome_simps)

text \<open>\<open>signed_by c s tx signedTx a\<close>: \<open>signedTx\<close> is \<open>tx\<close> with a signature from which the signer recovers \<open>a\<close>.\<close>

definition signed_by :: "crypto_lib \<Rightarrow> Signer \<Rightarrow> Transaction \<Rightarrow> Transaction \<Rightarrow> Address \<Rightarrow> bool" where
  "signed_by c s tx signedTx a \<longleftrightarrow>
     Signer_Sender c s signedTx = Ret a \<and>
     (\<exists>R S V. tx_data signedTx = (tx_data tx)\<lparr>td_R := Some R, td_S := Some S, td_V := Some V\<rparr>)"

lemma try_signature_Ret:
  assumes "try_signature k E tx sig a = Ret signedTx"
  shows "signed_by (cryptolib (eth E)) (Signer_of (eth E)) tx signedTx a \<and> tx_hash signedTx = None"
  using assms
proof (induction k arbitrary: sig)
  case (Suc k)
  let ?c = "cryptolib (eth E)" and ?s = "Signer_of (eth E)"
  from Suc.prems obtain t sender t' where w: "WithSignature tx ?s sig = Ret t" and s: "tx_Sender ?c ?s t = Ret (sender, t')"
    and r: "(if sender = a then Ret t' else try_signature k E tx (sig[SignatureLength - 1 := sig ! (SignatureLength - 1) XOR 1]) a) = Ret signedTx"
    by (auto simp: outcome_simps simp del: One_nat_def)
  from WithSignature_Ret [OF w] obtain R S V where t: "t = fresh_tx ((tx_data tx)\<lparr>td_R := Some R, td_S := Some S, td_V := Some V\<rparr>)" by blast
  then have d: "tx_data t = (tx_data tx)\<lparr>td_R := Some R, td_S := Some S, td_V := Some V\<rparr>" "tx_hash t = None" "tx_from t = None"
    by (simp_all add: fresh_tx_def)
  show ?case
  proof (cases "sender = a")
    case True
    from s d(3) have "Signer_Sender ?c ?s t = Ret a" "t' = t\<lparr>tx_from := Some (?s, a)\<rparr>"
      by (auto simp: tx_Sender_def outcome_simps True)
    with r True have "signedTx = t\<lparr>tx_from := Some (?s, a)\<rparr>" "Signer_Sender ?c ?s signedTx = Ret a" by auto
    with d show ?thesis unfolding signed_by_def by auto
  qed (use r Suc.IH in auto)
qed simp

lemma with_hash_Ret:
  "with_hash E tx = (tx', h) \<Longrightarrow> tx_hash tx = None \<Longrightarrow>
     tx_data tx' = tx_data tx \<and> h = Encode (Hash_of_data (cryptolib (eth E)) (tx_data tx)) \<and> Signer_Sender c s tx' = Signer_Sender c s tx"
  by (auto simp: with_hash_def tx_Hash_def Let_def split: prod.splits if_splits)

text \<open>\<open>repriced tx args tx' args'\<close>: either nothing changed or both got the same higher price.\<close>

definition repriced :: "Transaction \<Rightarrow> BuildTxArgs \<Rightarrow> Transaction \<Rightarrow> BuildTxArgs \<Rightarrow> bool" where
  "repriced tx args tx' args' \<longleftrightarrow>
     tx' = tx \<and> args' = args \<or>
     (\<exists>x e old p. args_Extra args = Some x \<and> EthExtra x = Some e \<and> GasPrice e = Some old \<and> old < p \<and>
        tx' = tx\<lparr>tx_data := (tx_data tx)\<lparr>td_Price := Some p\<rparr>\<rparr> \<and> args' = set_extra (e\<lparr>GasPrice := Some p\<rparr>) args)"

lemma updateGasPrice_Ret: "updateGasPrice E tx args s = (Ret (tx', args'), s') \<Longrightarrow> repriced tx args tx' args'"
  by (auto simp: updateGasPrice_def outcome_simps sum_run repriced_def mpc_deref_def SetGasPrice_def split: if_splits option.splits)

lemma repriced_From: "repriced tx args tx' args' \<Longrightarrow> args_From args' = args_From args"
  by (auto simp: repriced_def set_extra_def)

text \<open>
  C12: outside the test mode that signs with a private key, a transaction that comes back signed from
  the signing network is one that the router contract of the token receives and that is sent by the
  MPC account of the arguments: whatever signature the network gave, the sender that the signer
  recovers from the result is that account. Apart from the signature nothing of the transaction
  changed but its gas price, which only rises, in the transaction and in the arguments alike.
\<close>

theorem MPCSignTransaction_signs:
  assumes "MPCSignTransaction E (Some tx) args s = (Ret (signedTx, txHash, args'), s')" and "mpcConfig E = Some c" and "\<not> mc_SignWithPrivateKey c"
  shows "\<exists>cc to routerContract tx'.
    bridgeChainConfig (bridge (eth E)) = Some cc \<and> tx_To tx = Some to \<and> to \<noteq> ZeroAddress \<and>
    GetTokenRouterContract (routers (eth E)) (GetTokenID (swapArgs args)) (cc_ChainID cc) = Ret routerContract \<and> LowerHex to = ToLower routerContract \<and>
    repriced tx args tx' args' \<and>
    signed_by (cryptolib (eth E)) (Signer_of (eth E)) tx' signedTx (HexToAddress (args_From args)) \<and>
    txHash = Encode (Hash_of_data (cryptolib (eth E)) (tx_data signedTx))"
proof -
  from assms obtain tx' args1 t sig t1 where r: "verifyTransactionReceiver E (Some tx) (GetTokenID (swapArgs args)) = Ret tx"
    and u: "updateGasPrice E tx args s = (Ret (tx', args1), t)"
    and sgn: "signTxWithSignature E tx' sig (HexToAddress (args_From args1)) = Ret t1" and h: "signedTx = fst (with_hash E t1)" "txHash = snd (with_hash E t1)" and a: "args1 = args'"
    by (auto simp: MPCSignTransaction_def outcome_simps SignWithPrivateKey_def mpc_deref_def Let_def verifyTransactionReceiver_def case_prod_unfold split: option.splits if_splits)
  from r obtain to cc routerContract where "tx_To tx = Some to" "to \<noteq> ZeroAddress" "bridgeChainConfig (bridge (eth E)) = Some cc"
    "GetTokenRouterContract (routers (eth E)) (GetTokenID (swapArgs args)) (cc_ChainID cc) = Ret routerContract" "EqualFold (Address_Hex (tx_keccak E) to) routerContract"
    by (auto simp: verifyTransactionReceiver_def outcome_simps chain_of_Ret split: option.splits if_splits)
  moreover from this(5) have "LowerHex to = ToLower routerContract" by (simp add: EqualFold_def ToLower_Address_Hex)
  moreover have p: "repriced tx args tx' args'" using updateGasPrice_Ret [OF u] a by simp
  moreover from try_signature_Ret [OF sgn [unfolded signTxWithSignature_def]] repriced_From [OF p] a have
    "signed_by (cryptolib (eth E)) (Signer_of (eth E)) tx' t1 (HexToAddress (args_From args))" "tx_hash t1 = None" by simp_all
  moreover from with_hash_Ret [of E t1 signedTx txHash, OF _ this(2)] h this(1) have
    "signed_by (cryptolib (eth E)) (Signer_of (eth E)) tx' signedTx (HexToAddress (args_From args))" "txHash = Encode (Hash_of_data (cryptolib (eth E)) (tx_data signedTx))"
    by (auto simp: signed_by_def)
  ultimately show ?thesis by blast
qed

section \<open>A signature\<close>

text \<open>The paying bridge with a public key for every account and a network that signs.\<close>

definition signing_env :: "int \<Rightarrow> sign_env" where
  "signing_env price =
     (let e = paying_env ''56'' price in
      \<lparr>eth = e\<lparr>routers := (routers e)\<lparr>MPCPublicKeys := (\<lambda>_. Some ''pk'')\<rparr>\<rparr>, mpcnet = sample_mpc (sample_rsv 1) (sample_rsv 2),
       mpcConfig = Some \<lparr>mc_SignWithPrivateKey = False, mc_SignerPrivateKeys = None\<rparr>, Marshal_args = (\<lambda>_. Inr ''c''),
       ScalarBaseMult_X = (\<lambda>_. Some 1), eth_sendRawTransaction = (\<lambda>_ _ _. (''0xab'', None)), arrival_order = (\<lambda>_ urls. urls)\<rparr>)"

lemma signing_env_simps:
  "params_of (eth (signing_env q)) = paying_params" "bridge (eth (signing_env q)) = bridge (paying_env ''56'' q)"
  "node (eth (signing_env q)) = node (paying_env ''56'' q)" "\<not> IsTestMode (eth (signing_env q))" "chain_of (eth (signing_env q)) = Ret ''56''"
  "routers (eth (signing_env q)) = paying_router\<lparr>MPCPublicKeys := (\<lambda>_. Some ''pk'')\<rparr>" "Signer_of (eth (signing_env q)) = LondonSigner 56"
  "cryptolib (eth (signing_env q)) = sample_crypto" "mpcnet (signing_env q) = sample_mpc (sample_rsv 1) (sample_rsv 2)"
  "mpcConfig (signing_env q) = Some \<lparr>mc_SignWithPrivateKey = False, mc_SignerPrivateKeys = None\<rparr>"
  "SignerChainID (eth (signing_env q)) = Some 56"
  by (simp_all add: signing_env_def Let_def params_of_def chain_of_def paying_env_def paying_router_def non_nil_def)

lemma getGasPrice_same:
  assumes "params_of E' = params_of E" and "bridge E' = bridge E" and "node E' = node E" and "IsTestMode E' = IsTestMode E"
    and "GetReplaceNum args' = GetReplaceNum args"
  shows "getGasPrice E' args' = getGasPrice E args"
proof -
  have c: "chain_of E' = chain_of E" unfolding chain_of_def assms ..
  have a: "adjustSwapGasPrice E' args' p = adjustSwapGasPrice E args p" for p unfolding adjustSwapGasPrice_def assms c ..
  have g: "gas_price_of E' args' = gas_price_of E args" unfolding gas_price_of_def fun_eq_iff assms c a by simp
  show ?thesis unfolding getGasPrice_def assms c g ..
qed

lemma signing_price:
  assumes "GetReplaceNum args = 0" and "latestGasPrice s = None"
  shows "getGasPrice (eth (signing_env 100)) args s = (Ret 110, s\<lparr>tick := Suc (tick s), latestGasPrice := Some 110\<rparr>)"
proof -
  have "getGasPrice (eth (signing_env 100)) args s = getGasPrice (paying_env ''56'' 100) sample_order s"
    by (rule fun_cong [OF getGasPrice_same]) (use assms(1) in \<open>simp_all add: signing_env_simps paying_params, simp_all add: paying_env_def GetReplaceNum_def sample_order_def sample_build_def\<close>)
  then show ?thesis by (simp add: paying_price assms(2) sample_new_price Let_def)
qed

lemma signing_update:
  assumes "args_Extra args = Some x" and "EthExtra x = Some e" and "GasPrice e = Some 5" and "ReplaceNum x = 0" and "latestGasPrice s = None"
  shows "updateGasPrice (signing_env 100) (NewTransaction n to v g (Some 5) d) args s =
    (Ret (NewTransaction n to v g (Some 110) d, set_extra (e\<lparr>GasPrice := Some 110\<rparr>) args), s\<lparr>tick := Suc (tick s), latestGasPrice := Some 110\<rparr>)"
proof -
  have "GetReplaceNum args = 0" using assms(1,4) by (simp add: GetReplaceNum_def)
  moreover have "\<not> IsDynamicFeeTxEnabled paying_params c" for c by (simp add: IsDynamicFeeTxEnabled_def paying_params_def init_params_def)
  ultimately show ?thesis
    using assms by (simp add: updateGasPrice_def run_steps signing_env_simps signing_price mpc_deref_def NewTransaction_def newTransaction_def
        fresh_tx_def set_big_def SetGasPrice_def tx_deref_def)
qed

text \<open>The signature of the network and the account it recovers to.\<close>

lemma sample_rsv_simps:
  "length (1 # tl sample_sig) = 65" "(1 # tl sample_sig) ! 64 = 1"
  "big_SetBytes (take 32 (1 # tl sample_sig)) = 2 ^ 248 + 1" "big_SetBytes (take 32 (drop 32 (1 # tl sample_sig))) = 2"
proof -
  have t: "tl sample_sig = replicate 30 0 @ [1] @ replicate 31 0 @ [2, 1]"
  proof -
    have sig: "sample_sig = (0 # replicate 30 0) @ [1] @ replicate 31 0 @ [2, 1]" unfolding sample_sig_def by (simp flip: replicate_Suc)
    show ?thesis unfolding sig by simp
  qed
  show "length (1 # tl sample_sig) = 65" "(1 # tl sample_sig) ! 64 = 1" "big_SetBytes (take 32 (drop 32 (1 # tl sample_sig))) = 2"
    "big_SetBytes (take 32 (1 # tl sample_sig)) = 2 ^ 248 + 1"
    unfolding t by (simp_all add: nth_append big_SetBytes_def be_val_Cons be_val_zeros nth_Cons')
qed

lemma sample_rsv_recovers: "recover sample_crypto h (1 # tl sample_sig) = Ret (replicate 20 65)"
  using sample_rsv_simps
  by (simp add: recover_def sample_crypto_def ValidateSignatureValues_def secp256k1halfN_def secp256k1N_def copy_at_def ZeroAddress_def
      AddressLength_def big_Div_pos)

lemma sample_signs:
  fixes n to v g p d
  defines "tx \<equiv> NewTransaction n to v g p d"
  shows "\<exists>t. signTxWithSignature (signing_env q) tx (1 # tl sample_sig) (replicate 20 65) = Ret t"
proof -
  let ?sig = "1 # tl sample_sig" and ?s = "MakeSigner ''London'' (Some 56)"
  have s: "?s = LondonSigner 56" by (simp add: MakeSigner_def)
  have leg: "td_Type (tx_data tx) = LegacyTxType" by (simp add: tx_def NewTransaction_def newTransaction_def fresh_tx_def txdata_zero_def tx_types)
  obtain t where t: "WithSignature tx ?s ?sig = Ret t"
    using leg by (simp add: WithSignature_def s SignatureValues_def londonSigner_SignatureValues_def eip2930Signer_SignatureValues_def
        EIP155Signer_SignatureValues_def FrontierSigner_SignatureValues_def decodeSignature_65 [OF sample_rsv_simps(1)] tx_types)
  have "Signer_Sender sample_crypto ?s t = Ret (replicate 20 65)"
    using WithSignature_recovers [OF t sample_rsv_simps(1) disjI2 [OF sample_rsv_simps(2)] _ disjI1 [OF leg]] by (simp add: sample_rsv_recovers)
  moreover have "tx_from t = None" using WithSignature_Ret [OF t] by (auto simp: fresh_tx_def)
  ultimately have "tx_Sender sample_crypto ?s t = Ret (replicate 20 65, t\<lparr>tx_from := Some (?s, replicate 20 65)\<rparr>)" by (simp add: tx_Sender_def)
  with t show ?thesis by (simp add: signTxWithSignature_def numeral_2_eq_2 signing_env_simps s)
qed

definition sample_payer :: string where "sample_payer = LowerHex (replicate 20 65)"

theorem MPCSignTransaction_signs_witness:
  "\<exists>signedTx txHash args' s'. MPCSignTransaction (signing_env 100) (Some (NewTransaction 7 (sample_address 7) (Some 0) 90000 (Some 5) [1]))
       (sample_payment\<lparr>args_From := sample_payer\<rparr>) sign_start = (Ret (signedTx, txHash, args'), s') \<and>
     Signer_Sender sample_crypto (LondonSigner 56) signedTx = Ret (HexToAddress sample_payer) \<and> tx_Nonce signedTx = 7"
proof -
  let ?E = "signing_env 100" and ?tx = "\<lambda>p. NewTransaction 7 (sample_address 7) (Some 0) 90000 (Some p) [1]" and ?a = "sample_payment\<lparr>args_From := sample_payer\<rparr>"
  let ?u = "sign_start\<lparr>tick := Suc (tick sign_start), latestGasPrice := Some 110\<rparr>"
  obtain x e where x: "args_Extra ?a = Some x" "EthExtra x = Some e" "GasPrice e = Some 5" "ReplaceNum x = 0" by (simp add: sample_payment_def)
  have start: "latestGasPrice sign_start = None" "tick sign_start = 0" "mpcs sign_start = sample_mpcs" "collUsedRValue sign_start = Map.empty"
    by (simp_all add: sign_start_def build_start_def no_store_def store.extend_def build_store.extend_def)
  obtain a' where upd: "updateGasPrice ?E (?tx 5) ?a sign_start = (Ret (?tx 110, a'), ?u)" and a': "args_From a' = sample_payer"
    using signing_update [OF x start(1)] by (simp add: set_extra_def)
  have acc: "HexToAddress sample_payer = replicate 20 65" unfolding sample_payer_def by (rule HexToAddress_LowerHex) (simp add: AddressLength_def)
  have to: "tx_To (?tx p) = Some (sample_address 7)" for p by (simp add: tx_To_def NewTransaction_def newTransaction_def fresh_tx_def)
  have "GetTokenRouterContract (routers (eth ?E)) (GetTokenID (swapArgs ?a)) ''56'' = Ret (LowerHex (sample_address 7))"
    by (simp add: GetTokenRouterContract_def signing_env_simps paying_router_def sample_router_def sample_ibridge_def sample_bridge_def
        GetBridgeByChainID_def GetRouterContract_def GetTokenConfig_def sample_token_def sample_chain_def
        GetCachedMultichainToken_def GetCachedMultichainTokens_def)
  moreover have "sample_address 7 \<noteq> ZeroAddress" by (simp add: ZeroAddress_sample sample_address_inject)
  moreover have "EqualFold (Address_Hex k (sample_address 7)) (LowerHex (sample_address 7))" for k
    by (simp add: EqualFold_def ToLower_Address_Hex ToLower_LowerHex)
  ultimately have recv: "verifyTransactionReceiver ?E (Some (?tx 5)) (GetTokenID (swapArgs ?a)) = Ret (?tx 5)"
    by (simp add: verifyTransactionReceiver_def to signing_env_simps)
  have hex: "FromHex (sample_rsv 1) = 1 # tl sample_sig" by (rule sample_rsv_bytes)
  have "\<exists>s'. DoSignOneEC (mpcnet ?E) ''pk'' h c ?u = (Ret (''1'', [sample_rsv 1]), s')" for h c
    using sample_DoSign [of ?u "sample_rsv 1" "sample_rsv 1" "sample_rsv 2" "[h]" "[c]"] start hex sample_rsv_simps(1)
    by (simp add: DoSignOneEC_def SignTypeEC256K1_def signing_env_simps)
  then obtain s' where "DoSignOneEC (mpcnet ?E) ''pk'' (Encode (Signer_Hash (cryptolib (eth ?E)) (Signer_of (eth ?E)) (tx_data (?tx 110)))) (msgContext_of ?E a') ?u
      = (Ret (''1'', [sample_rsv 1]), s')" by blast
  moreover obtain t where "signTxWithSignature ?E (?tx 110) (1 # tl sample_sig) (replicate 20 65) = Ret t" using sample_signs by blast
  moreover have "GetMPCPublicKey (routers (eth ?E)) f = ''pk''" for f by (simp add: GetMPCPublicKey_def signing_env_simps)
  moreover obtain signedTx txHash where "with_hash ?E t = (signedTx, txHash)" by fastforce
  ultimately have r: "MPCSignTransaction ?E (Some (?tx 5)) ?a sign_start = (Ret (signedTx, txHash, a'), s')"
    using recv upd a' acc hex sample_rsv_simps(1)
    by (simp add: MPCSignTransaction_def run_steps failing_as_def SignWithPrivateKey_def mpc_deref_def signing_env_simps(10) SignatureLength_def Let_def)
  from MPCSignTransaction_signs [OF r signing_env_simps(10)] obtain tx' where "repriced (?tx 5) ?a tx' a'"
    and s: "signed_by sample_crypto (LondonSigner 56) tx' signedTx (HexToAddress (args_From ?a))"
    by (auto simp: signing_env_simps)
  then have "tx_Nonce tx' = 7" by (auto simp: repriced_def tx_Nonce_def NewTransaction_def newTransaction_def fresh_tx_def)
  with s have "tx_Nonce signedTx = 7" by (auto simp: signed_by_def tx_Nonce_def)
  with r s show ?thesis by (auto simp: signed_by_def)
qed

section \<open>Nonces of sent transactions\<close>

lemma SetNonce_swapNonce:
  "swapNonce b a = Some m \<Longrightarrow> \<exists>m'\<ge>m. swapNonce (SetNonce x v b) a = Some m'"
  by (auto simp: SetNonce_def Let_def split: option.splits)

lemma SetNonce_later:
  "swapNonce b a = Some m \<Longrightarrow> \<exists>m'\<ge>m. swapNonce (fold (\<lambda>(x, v). SetNonce x v) later b) a = Some m'"
proof (induction later arbitrary: b m)
  case (Cons xv later)
  obtain x v where "xv = (x, v)" by fastforce
  with Cons.IH SetNonce_swapNonce [OF Cons.prems] show ?case by (metis (no_types, lifting) case_prod_conv fold_simps(2) order_trans)
qed simp

interpretation nonce_free: query_free setter
  by unfold_locales simp

lemma keeps_setter: "skeeps setter (retry_rpc k (calls (GetPoolNonce nd b address height)))"
  by (intro nonce_free.skeeps_retry nonce_free.skeeps_calls nonce_free.skeeps_queries)

lemma getAccountNonce_bound:
  assumes "getAccountNonce E args t = (Ret n, t')" and "\<not> IsParallelSwapEnabled (params_of E)"
    and "swapNonce (setter t) (ToLower (args_From args)) = Some m"
  shows "m \<le> n"
  using assms
  by (auto simp: getAccountNonce_def outcome_simps GetSwapNonce_def AdjustNonce_def split: if_splits option.splits dest!: skeepsD [OF keeps_setter])

text \<open>
  C17: while swaps are sent one after the other (not in parallel), after a signed transaction was sent
  successfully no transaction of its sender is built with its nonce or a lower one, whatever the nodes
  say about the account: the nonces that other sends set in between never lower it. The transaction may
  carry the sender that its signing has cached, as every one from \<open>MPCSignTransaction\<close> does, or none;
  its nonce is below the largest of 64 bits.
\<close>

theorem sent_nonce_passed:
  assumes "SendTransaction E (Some tx) s = (Ret (txHash, None), s')" and "\<not> IsParallelSwapEnabled (params_of (eth E))"
    and "signed_by (cryptolib (eth E)) (Signer_of (eth E)) raw tx a" and "tx_from tx = None \<or> tx_from tx = Some (Signer_of (eth E), a)" and "tx_Nonce tx + 1 < W64"
    and "setter t = fold (\<lambda>(x, v). SetNonce x v) later (setter s')"
    and "getAccountNonce (eth E) args t = (Ret n, t')" and "ToLower (args_From args) = LowerHex a"
  shows "tx_Nonce tx < n"
proof -
  from assms(3,4) obtain tx1 where "tx_Sender (cryptolib (eth E)) (Signer_of (eth E)) tx = Ret (a, tx1)"
    by (auto simp: signed_by_def tx_Sender_def)
  with assms(1,2,5) obtain b where "setter s' = SetNonce (LowerHex a) (tx_Nonce tx + 1) b"
    by (auto simp: SendTransaction_def outcome_simps sum_run)
  then obtain m where "swapNonce (setter s') (LowerHex a) = Some m" "tx_Nonce tx + 1 \<le> m"
    by (auto simp: SetNonce_def Let_def split: option.splits if_splits)
  with SetNonce_later [of "setter s'" "LowerHex a" m later] assms(6,8) obtain m' where
    "swapNonce (setter t) (ToLower (args_From args)) = Some m'" "m \<le> m'" by auto
  with getAccountNonce_bound [OF assms(7,2)] \<open>tx_Nonce tx + 1 \<le> m\<close> show ?thesis by fastforce
qed
definition sent_tx :: Transaction where
  "sent_tx = fresh_tx ((tx_data (NewTransaction 7 (sample_address 7) (Some 0) 90000 (Some 5) [1]))\<lparr>td_R := Some (2 ^ 248 + 1), td_S := Some 2, td_V := Some 148\<rparr>)"

lemmas sent_tx_simps = sent_tx_def NewTransaction_def newTransaction_def fresh_tx_def txdata_zero_def set_big_def tx_types

lemma sent_tx_encoded: "\<exists>e. MarshalBinary sent_tx = Ret e"
proof -
  have ok: "tx_ok (tx_data sent_tx)" by (simp add: sent_tx_simps tx_ok_def set_nat_def addr_ok_def W64_def AddressLength_def)
  have leg: "td_Type (tx_data sent_tx) = LegacyTxType" by (simp add: sent_tx_simps)
  have "tx_size_ok (tx_data sent_tx)"
    by (simp add: sent_tx_simps tx_size_ok_def tx_rlp_def toLegacyTx_def LegacyTxRlp_def LegacyTx_val_def big_val_def addr_val_def nil_tag_def AddressLength_def
      AddressType_def isUint_def isByte_def items_bytes_def W64_def no_tags_def rlp_list_def rlp_str_def rlp_head_def be_bytes_step)
  from encode_tx_rlp [OF ok this] leg show ?thesis by (auto simp: MarshalBinary_def tx_rlp_def)
qed

lemma sent_tx_signed: "signed_by sample_crypto (LondonSigner 56) (NewTransaction 7 (sample_address 7) (Some 0) 90000 (Some 5) [1]) sent_tx (replicate 20 65)"
proof -
  let ?tx = "NewTransaction 7 (sample_address 7) (Some 0) 90000 (Some 5) [1]" and ?sig = "1 # tl sample_sig" and ?s = "MakeSigner ''London'' (Some 56)"
  have s: "?s = LondonSigner 56" by (simp add: MakeSigner_def)
  have leg: "td_Type (tx_data ?tx) = LegacyTxType" by (simp add: sent_tx_simps)
  have t: "WithSignature ?tx ?s ?sig = Ret sent_tx"
    using leg sample_rsv_simps by (simp add: WithSignature_def s SignatureValues_def londonSigner_SignatureValues_def eip2930Signer_SignatureValues_def
        EIP155Signer_SignatureValues_def FrontierSigner_SignatureValues_def decodeSignature_65 [OF sample_rsv_simps(1)] tx_types sent_tx_def)
  from WithSignature_recovers [OF t sample_rsv_simps(1) disjI2 [OF sample_rsv_simps(2)] _ disjI1 [OF leg]] show ?thesis
    by (auto simp: signed_by_def s sample_rsv_recovers sent_tx_def fresh_tx_def)
qed

theorem sent_nonce_passed_witness:
  "\<exists>h s' n t'. SendTransaction (signing_env 100) (Some sent_tx) sign_start = (Ret (h, None), s') \<and>
     getAccountNonce (eth (signing_env 100)) (sample_payment\<lparr>args_From := sample_payer\<rparr>) s' = (Ret n, t') \<and> 7 < n"
proof -
  let ?E = "signing_env 100" and ?a = "sample_payment\<lparr>args_From := sample_payer\<rparr>"
  obtain e where e: "MarshalBinary sent_tx = Ret e" using sent_tx_encoded ..
  have from_: "tx_from sent_tx = None" "tx_Nonce sent_tx = 7" by (simp_all add: sent_tx_simps tx_Nonce_def)
  have par: "\<not> IsParallelSwapEnabled paying_params" "\<not> IsAutoSwapNonceEnabled paying_params c" for c
    by (simp_all add: IsParallelSwapEnabled_def IsAutoSwapNonceEnabled_def GetExtraConfig_def paying_params_def init_params_def zero_extra_def)
  have gw: "bridgeGatewayConfig (bridge (paying_env ''56'' 100)) = Some \<lparr>APIAddress = [''url''], APIAddressExt = []\<rparr>"
    by (simp add: paying_env_def sample_bridge_def)
  have post: "eth_sendRawTransaction ?E t url d = (''0xab'', None)" "arrival_order ?E t us = us" for t url d us
    by (simp_all add: signing_env_def Let_def)
  have sent: "SendSignedTransaction ?E sent_tx sign_start = (Ret ''0xab'', sign_start\<lparr>tick := Suc (tick sign_start)\<rparr>)"
    using e by (simp add: SendSignedTransaction_def run_steps failing_as_def urls_of_def non_nil_def signing_env_simps gw extern_def post Let_def)
  obtain s' where s': "SendTransaction ?E (Some sent_tx) sign_start = (Ret (''0xab'', None), s')"
    using from_ sent_tx_signed sent by (simp add: SendTransaction_def run_steps signing_env_simps par tx_Sender_def signed_by_def)
  have nodes: "eth_getTransactionCount (node (paying_env ''56'' 100)) t url a h = Inr None" for t url a h
    by (simp add: paying_env_def silent_node_def)
  have "GetPoolNonce (node (paying_env ''56'' 100)) (bridge (paying_env ''56'' 100)) a h s' = (Ret 0, s'\<lparr>tick := Suc (tick s')\<rparr>)" for a h
    by (simp add: GetPoolNonce_def urls_of_def run_steps non_nil_def gw getMaxPoolNonce_def extern_def nodes Let_def)
  then obtain n t' where n: "getAccountNonce (eth ?E) ?a s' = (Ret n, t')"
    by (simp add: getAccountNonce_def run_steps signing_env_simps par numeral_2_eq_2)
  have "ToLower (args_From ?a) = LowerHex (replicate 20 65)" by (simp add: sample_payer_def)
  from sent_nonce_passed [OF s' _ _ disjI1 [OF from_(1)] _ _ n this, of _ "[]"] sent_tx_signed from_(2) have "7 < n"
    by (simp add: signing_env_simps par W64_def)
  with s' n show ?thesis by blast
qed
end
