(* ===== verification/Rebuild.thy ===== *)
theory Rebuild
  imports EthSign
begin

text \<open>
  The server builds a transaction (\<open>BuildRawTransaction\<close> of \<open>src/tokens/eth/buildtx.go\<close>), raises its
  price (\<open>MPCSignTransaction\<close> of \<open>signtx.go\<close>) and sends the extra arguments along with the message hash;
  each oracle builds the transaction again from them and its own verification of the swap. This theory
  shows that the two are the same transaction, although the nodes that the two ask may differ.
\<close>

section \<open>The input\<close>

definition deadline_of :: "BuildTxArgs \<Rightarrow> int" where
  "deadline_of args = (case args_Extra args of None \<Rightarrow> 0 | Some x \<Rightarrow> (case EthExtra x of None \<Rightarrow> 0 | Some e \<Rightarrow> Deadline e))"

lemma getReceiverAndAmount_extra [simp]:
  "getReceiverAndAmount r b (args\<lparr>args_Extra := X\<rparr>) mt = getReceiverAndAmount r b args mt"
  by (simp add: getReceiverAndAmount_def)

lemma extra_last:
  "a\<lparr>args_Extra := X, Input := i\<rparr> = a\<lparr>Input := i, args_Extra := X\<rparr>"
  "a\<lparr>args_Extra := X, args_To := to\<rparr> = a\<lparr>args_To := to, args_Extra := X\<rparr>"
  "a\<lparr>args_Extra := X, SwapValue := v\<rparr> = a\<lparr>SwapValue := v, args_Extra := X\<rparr>"
  "a\<lparr>args_Extra := X, args_Value := v\<rparr> = a\<lparr>args_Value := v, args_Extra := X\<rparr>"
  by (cases a, simp)+

lemma extra_same: "args_Extra a = X \<Longrightarrow> a\<lparr>args_Extra := X\<rparr> = a"
  by (cases a) simp

text \<open>The builders without a deadline do not look at the extra arguments.\<close>

lemma builders_extra:
  "buildSwapAndExecTxInput r b (args\<lparr>args_Extra := X\<rparr>) mt = obind (buildSwapAndExecTxInput r b args mt) (\<lambda>a. Ret (a\<lparr>args_Extra := X\<rparr>))"
  "buildERC20SwapoutTxInput r b (args\<lparr>args_Extra := X\<rparr>) mt = obind (buildERC20SwapoutTxInput r b args mt) (\<lambda>a. Ret (a\<lparr>args_Extra := X\<rparr>))"
  "buildNFTSwapTxInput r b (args\<lparr>args_Extra := X\<rparr>) = obind (buildNFTSwapTxInput r b args) (\<lambda>a. Ret (a\<lparr>args_Extra := X\<rparr>))"
  "buildAnyCallSwapTxInput r b (args\<lparr>args_Extra := X\<rparr>) = obind (buildAnyCallSwapTxInput r b args) (\<lambda>a. Ret (a\<lparr>args_Extra := X\<rparr>))"
  by (simp_all add: buildSwapAndExecTxInput_def buildERC20SwapoutTxInput_def buildNFTSwapTxInput_def buildAnyCallSwapTxInput_def Let_def obind_assoc extra_last case_prod_unfold)

text \<open>A trade takes the deadline that the arguments then hold.\<close>

lemma calcSwapDeadline_Ret:
  "calcSwapDeadline E args s = (Ret (d, args'), s') \<Longrightarrow> deadline_of args' = d \<and> args' = args\<lparr>args_Extra := args_Extra args'\<rparr>"
  unfolding calcSwapDeadline_def
  by (cases "args_Extra args"; cases "EthExtra (the (args_Extra args))"; cases "GetRouterServerConfig (params_of E)")
    (auto simp: deadline_of_def getOrInitEthExtra_def set_extra_def Let_def sstep_iff sbind_Ret_iff extra_same)

lemma calcSwapDeadline_set:
  "args_Extra args = Some x \<Longrightarrow> EthExtra x = Some e \<Longrightarrow> calcSwapDeadline E args s = (Ret (Deadline e, args), s)"
  by (simp add: calcSwapDeadline_def sret_def)

lemma trade_extra:
  assumes "buildERC20SwapTradeTxInput E args mt s = (Ret a, s')" and "routers E' = routers E" and "bridge E' = bridge E"
    and "EthExtra x = Some e" and "Deadline e = deadline_of a"
  shows "buildERC20SwapTradeTxInput E' (args\<lparr>args_Extra := Some x\<rparr>) mt t = (Ret (a\<lparr>args_Extra := Some x\<rparr>), t)"
proof -
  from assms(1) obtain receiver amount i d args0 input to where
    1: "getReceiverAndAmount (routers E) (bridge E) args mt = Ret (receiver, amount)" "non_nil (erc20Info (swapArgs args)) = (Ret i :: (build_error, _) outcome)"
    and d: "calcSwapDeadline E args s = (Ret (d, args0), s')"
    and 2: "pack_call (if ForNative i then AnySwapInExactTokensForNativeFuncHash else AnySwapInExactTokensForTokensFuncHash)
        [AHash (HexToHash (args_SwapID (swapArgs args))), ABigInt amount, ABigInt (AmountOutMin i), AAddressSlice (toAddresses (Path i)),
         AAddress receiver, AInt64 d, ABigInt (args_FromChainID (swapArgs args))] = (Ret input :: (build_error, _) outcome)"
      "GetRouterContract (bridge E) mt = Ret to"
    and a: "a = args0\<lparr>Input := Some input, args_To := to, SwapValue := amount\<rparr>"
    by (auto simp: buildERC20SwapTradeTxInput_def Let_def outcome_simps)
  from calcSwapDeadline_Ret [OF d] obtain X where "args0 = args\<lparr>args_Extra := X\<rparr>" and "deadline_of args0 = d" by blast
  moreover from this(2) have "deadline_of a = d" unfolding a by (simp add: deadline_of_def)
  ultimately show ?thesis
    using assms(2-5) 1 2
    by (simp add: buildERC20SwapTradeTxInput_def Let_def run_steps calcSwapDeadline_set a)
qed

lemma calls_lift: "calls (slift r) s = (Ret a, s') \<longleftrightarrow> r = Ret a \<and> s' = s"
  by (auto simp: outcome_simps)

lemma build_input_rebuilt:
  assumes "build_input E args s = (Ret a, s')" and "routers E' = routers E" and "bridge E' = bridge E"
    and "EthExtra x = Some e" and "Deadline e = deadline_of a"
  shows "build_input E' (args\<lparr>args_Extra := Some x\<rparr>) t = (Ret (a\<lparr>args_Extra := Some x\<rparr>), t)"
proof -
  let ?sw = "args_SwapType (swapArgs args)"
  consider (erc20) "?sw = ERC20SwapType" | (nft) "?sw = NFTSwapType" "?sw \<noteq> ERC20SwapType"
    | (any) "?sw = AnyCallSwapType" "?sw \<noteq> ERC20SwapType" "?sw \<noteq> NFTSwapType"
    using assms(1) by (auto simp: build_input_def Let_def outcome_simps split: if_splits)
  then show ?thesis
  proof cases
    case erc20
    with assms(1) have "buildERC20SwapTxInput E args s = (Ret a, s')" by (simp add: build_input_def)
    then show ?thesis
      using erc20 assms(2-5) trade_extra [OF _ assms(2-5)] builders_extra
      by (auto simp: build_input_def buildERC20SwapTxInput_def Let_def calls_lift sstep_iff split: option.splits if_splits)
  next
    case nft
    with assms(1-3) show ?thesis
      using builders_extra by (auto simp: build_input_def calls_lift)
  next
    case any
    with assms(1-3) show ?thesis
      using builders_extra by (auto simp: build_input_def calls_lift)
  qed
qed

section \<open>The extra arguments\<close>

text \<open>Arguments with a price, and arguments that leave nothing to ask the nodes for.\<close>

definition priced :: "eth_env \<Rightarrow> EthExtraArgs \<Rightarrow> bool" where
  "priced E e \<longleftrightarrow>
     (\<exists>cc. bridgeChainConfig (bridge E) = Some cc \<and>
       (if IsDynamicFeeTxEnabled (params_of E) (cc_ChainID cc) then GasTipCap e \<noteq> None \<and> GasFeeCap e \<noteq> None \<and> GasPrice e = None
        else GasPrice e \<noteq> None))"

definition complete_extra :: "eth_env \<Rightarrow> EthExtraArgs \<Rightarrow> bool" where
  "complete_extra E e \<longleftrightarrow> Gas e \<noteq> None \<and> Nonce e \<noteq> None \<and> priced E e"

lemma priced_update [simp]: "priced E (e\<lparr>Gas := g\<rparr>) = priced E e" "priced E (e\<lparr>Nonce := n\<rparr>) = priced E e"
  by (simp_all add: priced_def)

definition with_value :: "BuildTxArgs \<Rightarrow> BuildTxArgs" where
  "with_value args = (case args_Value args of None \<Rightarrow> args\<lparr>args_Value := Some 0\<rparr> | Some _ \<Rightarrow> args)"

text \<open>The transaction that is made of complete arguments.\<close>

definition tx_of :: "eth_env \<Rightarrow> BuildTxArgs \<Rightarrow> EthExtraArgs \<Rightarrow> Transaction" where
  "tx_of E args e =
     (if IsDynamicFeeTxEnabled (params_of E) (cc_ChainID (the (bridgeChainConfig (bridge E)))) then
        NewDynamicFeeTx (SignerChainID E) (the (Nonce e)) (Some (HexToAddress (args_To args))) (args_Value args) (the (Gas e)) (GasTipCap e)
          (GasFeeCap e) (the (Input args)) []
      else NewTransaction (the (Nonce e)) (HexToAddress (args_To args)) (args_Value args) (the (Gas e)) (GasPrice e) (the (Input args)))"

lemma getOrInitEthExtra_Ret:
  "getOrInitEthExtra args = (e, args') \<Longrightarrow> \<exists>x. args' = args\<lparr>args_Extra := Some x\<rparr> \<and> EthExtra x = Some e \<and> Deadline e = deadline_of args"
  by (cases "args_Extra args"; cases "EthExtra (the (args_Extra args))")
    (auto simp: getOrInitEthExtra_def deadline_of_def Let_def intro: extra_same [symmetric])

lemma with_value_keeps: "swapArgs (with_value a) = swapArgs a" "args_Extra (with_value a) = args_Extra a" "Input (with_value a) = Input a"
  "args_To (with_value a) = args_To a" "deadline_of (with_value a) = deadline_of a" "with_value (a\<lparr>args_Extra := X\<rparr>) = (with_value a)\<lparr>args_Extra := X\<rparr>"
  by (auto simp: with_value_def deadline_of_def extra_last split: option.splits)

lemma three_steps:
  "sbind m (\<lambda>c. sbind (f c) (\<lambda>x. sbind (g x) (\<lambda>y. sret (h y)))) s = (Ret a, s') \<Longrightarrow>
     \<exists>c t x u y. m s = (Ret c, t) \<and> f c t = (Ret x, u) \<and> g x u = (Ret y, s') \<and> a = h y"
  by (auto simp: outcome_simps)

lemma setDefaults_completes:
  assumes "setDefaults E a s = (Ret a', s')"
  shows "\<exists>x e. a' = (with_value a)\<lparr>args_Extra := Some x\<rparr> \<and> EthExtra x = Some e \<and> Deadline e = deadline_of a \<and> Gas e \<noteq> None \<and> priced E e"
proof -
  obtain e0 a0 where init: "getOrInitEthExtra (with_value a) = (e0, a0)" by fastforce
  from getOrInitEthExtra_Ret [OF this] obtain x0 where x0: "a0 = (with_value a)\<lparr>args_Extra := Some x0\<rparr>" "EthExtra x0 = Some e0" "Deadline e0 = deadline_of a"
    by (auto simp: with_value_keeps)
  let ?price = "\<lambda>chainID. if IsDynamicFeeTxEnabled (params_of E) chainID then
               sbind (case GasTipCap e0 of None \<Rightarrow> getGasTipCap E a0 | Some t \<Rightarrow> sret t) (\<lambda>tip.
               sbind (case GasFeeCap e0 of None \<Rightarrow> getGasFeeCap E tip | Some f \<Rightarrow> sret f) (\<lambda>fee.
               sret (e0\<lparr>GasTipCap := Some tip, GasFeeCap := Some fee, GasPrice := None\<rparr>)))
             else (case GasPrice e0 of
               None \<Rightarrow> sbind (getGasPrice E a0) (\<lambda>price. sret (e0\<lparr>GasPrice := Some price, GasTipCap := None, GasFeeCap := None\<rparr>))
             | Some _ \<Rightarrow> sret e0)"
  let ?gas = "\<lambda>extra. case Gas extra of
               Some _ \<Rightarrow> sret extra
             | None \<Rightarrow>
                 sbind (slift (non_nil (Input a0))) (\<lambda>input.
                 sbind (stry (EstimateGas (node E) (bridge E) (args_From a0) (args_To a0) (args_Value a0) input)) (\<lambda>es.
                 case es of
                   Inl (_ :: token_error) \<Rightarrow> slift (Err (BToken ErrEstimateGasFailed))
                 | Inr esGasLimit \<Rightarrow>
                     let esGasLimit = u64_add esGasLimit (u64_mul esGasLimit 30 div 100) in
                     sbind (calls (slift (getDefaultGasLimit E))) (\<lambda>defGasLimit.
                     sret (extra\<lparr>Gas := Some (if esGasLimit < defGasLimit then defGasLimit else esGasLimit)\<rparr>))))"
  have "setDefaults E a = sbind (calls (slift (chain_of E))) (\<lambda>chainID. sbind (?price chainID) (\<lambda>extra. sbind (?gas extra) (\<lambda>extra. sret (set_extra extra a0))))"
    unfolding setDefaults_def with_value_def [symmetric] Let_def init prod.case ..
  from three_steps [OF assms [unfolded this]] obtain c t0 e1 t e2 where "calls (slift (chain_of E)) s = (Ret c, t0)"
    and e1: "?price c t0 = (Ret e1, t)" and gas: "?gas e1 t = (Ret e2, s')" and a': "a' = set_extra e2 a0"
    by (elim exE conjE) (rule that)
  then obtain cc where cc: "bridgeChainConfig (bridge E) = Some cc" "c = cc_ChainID cc" by (auto simp: calls_lift chain_of_Ret)
  from gas have e2: "e2 = e1 \<and> Gas e1 \<noteq> None \<or> (\<exists>g. e2 = e1\<lparr>Gas := Some g\<rparr>)"
    by (cases "Gas e1") (auto simp: outcome_simps sum_run Let_def)
  from e1 cc have "Deadline e1 = Deadline e0" and "priced E e1"
    by (auto simp: priced_def outcome_simps split: if_splits option.splits)
  with e2 x0 have "Deadline e2 = deadline_of a" "Gas e2 \<noteq> None" "priced E e2" by auto
  then show ?thesis
    unfolding a' x0(1) by (intro exI [of _ "x0\<lparr>EthExtra := Some e2\<rparr>"] exI [of _ e2]) (simp add: set_extra_def)
qed

section \<open>The transaction\<close>

lemma set_extra_self: "args_Extra a = Some x \<Longrightarrow> EthExtra x = Some e \<Longrightarrow> set_extra e a = a"
proof -
  assume "args_Extra a = Some x" "EthExtra x = Some e"
  moreover from this(2) have "x\<lparr>EthExtra := Some e\<rparr> = x" by (cases x) simp
  ultimately show ?thesis by (simp add: set_extra_def extra_same)
qed

lemma value_steps: "sbind (sret a) f = f a" "sbind (slift (Ret a)) f = f a" "calls (slift (Ret a)) = slift (Ret a)"
  by (simp_all add: fun_eq_iff run_steps)

text \<open>With complete arguments neither the defaults nor the transaction need an answer, but for the balance.\<close>

lemma setDefaults_complete:
  assumes "args_Extra a = Some x" and "EthExtra x = Some e" and "complete_extra E e"
  shows "setDefaults E a t = (Ret (with_value a), t)"
proof -
  have init: "getOrInitEthExtra (with_value a) = (e, with_value a)"
    using assms(1,2) by (simp add: getOrInitEthExtra_def with_value_keeps)
  from assms(3) obtain cc g where cc': "bridgeChainConfig (bridge E) = Some cc" and g: "Gas e = Some g"
    and p: "if IsDynamicFeeTxEnabled (params_of E) (cc_ChainID cc) then GasTipCap e \<noteq> None \<and> GasFeeCap e \<noteq> None \<and> GasPrice e = None
        else GasPrice e \<noteq> None"
    unfolding complete_extra_def priced_def by blast
  have cc: "chain_of E = Ret (cc_ChainID cc)" using cc' by (simp add: chain_of_Ret)
  have "set_extra e (with_value a) = with_value a" using assms(1,2) by (intro set_extra_self) (simp_all add: with_value_keeps)
  moreover have same: "GasTipCap e = p \<Longrightarrow> GasFeeCap e = q \<Longrightarrow> GasPrice e = r \<Longrightarrow> e\<lparr>GasTipCap := p, GasFeeCap := q, GasPrice := r\<rparr> = e" for p q r
    by (cases e) simp
  ultimately show ?thesis
    using p unfolding setDefaults_def with_value_def [symmetric] Let_def init
    by (auto simp: run_steps cc g same split: if_splits)
qed

lemma buildTx_complete:
  assumes "args_Extra a = Some x" and "EthExtra x = Some e" and "complete_extra E e" and "Input a = Some inp"
    and "bridgeChainConfig (bridge E) = Some cc"
  shows "buildTx E a t =
    sbind (check_reserve E a e (IsDynamicFeeTxEnabled (params_of E) (cc_ChainID cc)) (the (Gas e))) (\<lambda>_. sret (tx_of E a e, a)) t"
proof -
  from assms(3) obtain g n where gn: "Gas e = Some g" "Nonce e = Some n" by (auto simp: complete_extra_def)
  have "e\<lparr>Nonce := Some n\<rparr> = e" using gn(2) by (cases e) simp
  then have "set_extra (e\<lparr>Nonce := Some n\<rparr>) a = a" using set_extra_self [OF assms(1,2)] by simp
  moreover have "chain_of E = Ret (cc_ChainID cc)" using assms(5) by (simp add: chain_of_Ret)
  ultimately show ?thesis
    using assms gn by (simp add: buildTx_def value_steps non_nil_def tx_of_def Let_def)
qed

lemma buildTx_makes:
  assumes "buildTx E a s = (Ret (tx, a'), s')" and "args_Extra a = Some x" and "EthExtra x = Some e" and "Gas e \<noteq> None" and "priced E e"
  shows "\<exists>n e' x'. e' = e\<lparr>Nonce := Some n\<rparr> \<and> x' = x\<lparr>EthExtra := Some e'\<rparr> \<and> a' = a\<lparr>args_Extra := Some x'\<rparr> \<and> complete_extra E e' \<and> tx = tx_of E a' e' \<and>
    Input a \<noteq> None"
  using assms
  by (auto simp: buildTx_def outcome_simps non_nil_Ret chain_of_Ret Let_def set_extra_def complete_extra_def tx_of_def)

text \<open>Raising the price keeps the transaction the one that the arguments describe.\<close>

lemma updateGasPrice_keeps:
  assumes "updateGasPrice E tx a s = (Ret (tx', a'), s')" and "args_Extra a = Some x" and "EthExtra x = Some e" and "complete_extra (eth E) e"
    and "tx = tx_of (eth E) a e"
  shows "\<exists>x' e'. a' = a\<lparr>args_Extra := Some x'\<rparr> \<and> EthExtra x' = Some e' \<and> Deadline e' = Deadline e \<and> complete_extra (eth E) e' \<and> tx' = tx_of (eth E) a' e'"
proof -
  have same: ?thesis if "tx' = tx" "a' = a"
    using that assms(2-5) extra_same [of a "Some x"] by metis
  from assms(4) obtain cc where cc: "bridgeChainConfig (bridge (eth E)) = Some cc" by (auto simp: complete_extra_def priced_def)
  then have "chain_of (eth E) = Ret (cc_ChainID cc)" by (simp add: chain_of_Ret)
  show ?thesis
  proof (cases "tx' = tx \<and> a' = a")
    case False
    with assms(1-3) \<open>chain_of _ = _\<close> obtain p where dyn: "\<not> IsDynamicFeeTxEnabled (params_of (eth E)) (cc_ChainID cc)"
      and p: "SetGasPrice tx p = (Ret tx' :: (sign_error, _) outcome)" "a' = set_extra (e\<lparr>GasPrice := Some p\<rparr>) a"
      by (auto simp: updateGasPrice_def outcome_simps sum_run mpc_deref_def split: if_splits option.splits)
    have "complete_extra (eth E) (e\<lparr>GasPrice := Some p\<rparr>)" using assms(4) dyn cc by (auto simp: complete_extra_def priced_def)
    moreover have "tx' = tx_of (eth E) a' (e\<lparr>GasPrice := Some p\<rparr>)"
      using p dyn cc unfolding assms(5)
      by (auto simp: tx_of_def SetGasPrice_def outcome_simps set_extra_def NewTransaction_def newTransaction_def fresh_tx_def set_big_def)
    ultimately show ?thesis
      using p(2) assms(2)
      by (intro exI [of _ "x\<lparr>EthExtra := Some (e\<lparr>GasPrice := Some p\<rparr>)\<rparr>"] exI [of _ "e\<lparr>GasPrice := Some p\<rparr>"]) (simp add: set_extra_def)
  qed (use same in blast)
qed

text \<open>What the server and an oracle have in common, whatever nodes each of them asks.\<close>

definition same_config :: "sign_env \<Rightarrow> sign_env \<Rightarrow> bool" where
  "same_config E E' \<longleftrightarrow>
     routers (eth E') = routers (eth E) \<and> bridge (eth E') = bridge (eth E) \<and> SignerChainID (eth E') = SignerChainID (eth E) \<and>
     Signer_of (eth E') = Signer_of (eth E) \<and> cryptolib (eth E') = cryptolib (eth E) \<and> IsTestMode (eth E') = IsTestMode (eth E)"

lemma same_configD:
  assumes "same_config E E'"
  shows "complete_extra (eth E') = complete_extra (eth E)" and "tx_of (eth E') = tx_of (eth E)" and "params_of (eth E') = params_of (eth E)"
    and "chain_of (eth E') = chain_of (eth E)"
  using assms by (auto simp: same_config_def complete_extra_def priced_def tx_of_def params_of_def chain_of_def fun_eq_iff)

lemma rebuild:
  assumes "BuildRawTransaction (eth E) args s = (Ret (tx, args1), s1)" and "updateGasPrice E tx args1 u = (Ret (tx2, args2), u')"
    and "same_config E E'"
  shows "\<exists>x e cc. args_Extra args2 = Some x \<and> bridgeChainConfig (bridge (eth E)) = Some cc \<and> complete_extra (eth E) e \<and>
    BuildRawTransaction (eth E') (args\<lparr>args_Extra := Some x\<rparr>) t =
      sbind (check_reserve (eth E') args2 e (IsDynamicFeeTxEnabled (params_of (eth E)) (cc_ChainID cc)) (the (Gas e))) (\<lambda>_. sret (tx2, args2)) t"
proof -
  note same = same_configD [OF assms(3)]
  from BuildRawTransaction_steps [OF assms(1)] obtain cc mpc a1 t1 a2 t2 where cc: "bridgeChainConfig (bridge (eth E)) = Some cc"
    and guards: "IsTestMode (eth E) \<or> bi_String (args_ToChainID (swapArgs args)) = cc_ChainID cc" "Input args = None"
      "GetRouterMPC (routers (eth E)) (GetTokenID (swapArgs args)) (cc_ChainID cc) = Ret mpc" "EqualFold (args_From args) mpc"
    and inp: "build_input (eth E) args s = (Ret a1, t1)" and def: "setDefaults (eth E) a1 t1 = (Ret a2, t2)" and tx: "buildTx (eth E) a2 t2 = (Ret (tx, args1), s1)" .
  from guards(4) assms(1) have from_: "args_From args \<noteq> ''''" by (auto simp: BuildRawTransaction_def outcome_simps)
  from setDefaults_completes [OF def] obtain x e where a2: "a2 = (with_value a1)\<lparr>args_Extra := Some x\<rparr>" and e: "EthExtra x = Some e" "Deadline e = deadline_of a1"
    "Gas e \<noteq> None" "priced (eth E) e" by blast
  from buildTx_makes [OF tx _ e(1,3,4)] a2 obtain n e1 x1 where e1: "e1 = e\<lparr>Nonce := Some n\<rparr>" "x1 = x\<lparr>EthExtra := Some e1\<rparr>"
    and args1: "args1 = (with_value a1)\<lparr>args_Extra := Some x1\<rparr>" and c1: "complete_extra (eth E) e1" and tx1: "tx = tx_of (eth E) args1 e1" and i: "Input a2 \<noteq> None"
    by auto
  from updateGasPrice_keeps [OF assms(2) _ _ c1 tx1, of x1] args1 e1 obtain x2 e2 where args2: "args2 = (with_value a1)\<lparr>args_Extra := Some x2\<rparr>"
    and e2: "EthExtra x2 = Some e2" "Deadline e2 = Deadline e1" "complete_extra (eth E) e2" and tx2: "tx2 = tx_of (eth E) args2 e2"
    by auto
  obtain inp where inp': "Input args2 = Some inp" using i by (auto simp: a2 args2 with_value_keeps)
  have E': "routers (eth E') = routers (eth E)" "bridge (eth E') = bridge (eth E)" "IsTestMode (eth E') = IsTestMode (eth E)"
    using assms(3) by (simp_all add: same_config_def)
  have "Deadline e2 = deadline_of a1" using e e1 e2 by simp
  from build_input_rebuilt [OF inp E'(1,2) e2(1) this] have in2: "build_input (eth E') (args\<lparr>args_Extra := Some x2\<rparr>) t = (Ret (a1\<lparr>args_Extra := Some x2\<rparr>), t)" .
  have c2: "complete_extra (eth E') e2" using e2(3) same by simp
  from setDefaults_complete [OF _ e2(1) c2, of "a1\<lparr>args_Extra := Some x2\<rparr>"] have def2: "setDefaults (eth E') (a1\<lparr>args_Extra := Some x2\<rparr>) t = (Ret args2, t)"
    by (simp add: args2 with_value_keeps)
  from buildTx_complete [OF _ e2(1) c2 inp', of cc t] args2 cc E' have
    "buildTx (eth E') args2 t = sbind (check_reserve (eth E') args2 e2 (IsDynamicFeeTxEnabled (params_of (eth E)) (cc_ChainID cc)) (the (Gas e2))) (\<lambda>_. sret (tx2, args2)) t"
    by (simp add: same tx2)
  moreover have "chain_of (eth E') = Ret (cc_ChainID cc)" using cc same by (simp add: chain_of_Ret)
  ultimately have "BuildRawTransaction (eth E') (args\<lparr>args_Extra := Some x2\<rparr>) t =
      sbind (check_reserve (eth E') args2 e2 (IsDynamicFeeTxEnabled (params_of (eth E)) (cc_ChainID cc)) (the (Gas e2))) (\<lambda>_. sret (tx2, args2)) t"
    using guards from_ in2 def2 E' by (simp add: BuildRawTransaction_def run_steps)
  then show ?thesis using args2 cc e2(3) by (intro exI [of _ x2] exI [of _ e2] exI [of _ cc]) simp
qed

text \<open>
  C16: an oracle that builds the transaction of a sign request again gets the very transaction that the
  server asks to be signed, whatever its own nodes answer about prices, limits, nonces and the time:
  the extra arguments that come with the request leave only the balance to be asked for. So its check
  of the message hash passes, and without a reserve to be kept the oracle cannot fail to build it.
\<close>

theorem oracle_rebuilds_signed_tx:
  assumes "BuildRawTransaction (eth E) args s = (Ret (tx, args1), s1)" and "updateGasPrice E tx args1 u = (Ret (tx2, args2), u')"
    and "same_config E E'"
  shows "(\<forall>tx' args' t'. BuildRawTransaction (eth E') (args\<lparr>args_Extra := args_Extra args2\<rparr>) t = (Ret (tx', args'), t') \<longrightarrow>
      tx' = tx2 \<and> VerifyMsgHash E' (Some tx') [Encode (Signer_Hash (cryptolib (eth E)) (Signer_of (eth E)) (tx_data tx2))] = Ret ()) \<and>
    (\<forall>m. getMinReserveFee (eth E') = Ret m \<and> m \<le> 0 \<longrightarrow>
      BuildRawTransaction (eth E') (args\<lparr>args_Extra := args_Extra args2\<rparr>) t = (Ret (tx2, args2), t))"
proof -
  from rebuild [OF assms, of t] obtain x e cc where "args_Extra args2 = Some x" and "bridgeChainConfig (bridge (eth E)) = Some cc" and
    eq: "BuildRawTransaction (eth E') (args\<lparr>args_Extra := Some x\<rparr>) t =
      sbind (check_reserve (eth E') args2 e (IsDynamicFeeTxEnabled (params_of (eth E)) (cc_ChainID cc)) (the (Gas e))) (\<lambda>_. sret (tx2, args2)) t"
    by blast
  moreover have "VerifyMsgHash E' (Some tx2) [Encode (Signer_Hash (cryptolib (eth E)) (Signer_of (eth E)) (tx_data tx2))] = Ret ()"
    using assms(3) by (simp add: VerifyMsgHash_def same_config_def)
  ultimately show ?thesis by (auto simp: outcome_simps) (auto simp: check_reserve_def run_steps)
qed

section \<open>A server and an oracle\<close>

text \<open>The node of the server quotes 100, that of the oracle 999.\<close>

definition quoting :: "int \<Rightarrow> sign_env" where
  "quoting q = (signing_env 100)\<lparr>eth := paying_env ''56'' q\<rparr>"

lemma quoting_update: "updateGasPrice (quoting 100) tx args s = updateGasPrice (signing_env 100) tx args s"
proof -
  have e: "eth (quoting 100) = paying_env ''56'' 100" by (simp add: quoting_def)
  have same: "params_of (paying_env ''56'' 100) = params_of (eth (signing_env 100))" "chain_of (paying_env ''56'' 100) = chain_of (eth (signing_env 100))"
    by (simp_all add: signing_env_simps paying_params)
  have "bridge (paying_env ''56'' 100) = bridge (eth (signing_env 100))" "node (paying_env ''56'' 100) = node (eth (signing_env 100))"
    "IsTestMode (paying_env ''56'' 100) = IsTestMode (eth (signing_env 100))"
    by (simp_all add: signing_env_simps) (simp add: paying_env_def)
  note price = getGasPrice_same [OF same(1) this refl]
  show ?thesis unfolding updateGasPrice_def e same price ..
qed

lemma sample_payment_tx:
  obtains a x e inp s' where
    "BuildRawTransaction (paying_env ''56'' 100) sample_payment build_start = (Ret (NewTransaction 7 (sample_address 7) (Some 0) 90000 (Some 5) inp, a), s')"
    "args_Extra a = Some x" "EthExtra x = Some e" "GasPrice e = Some 5" "ReplaceNum x = 0"
proof -
  let ?E = "paying_env ''56'' 100"
  obtain inp where "length inp = 164" and bi: "buildERC20SwapTxInput ?E sample_payment build_start =
      (Ret (sample_payment\<lparr>Input := Some inp, args_To := LowerHex (sample_address 7), SwapValue := Some 19980\<rparr>), build_start)"
    by (rule sample_payment_input)
  define a1 where "a1 = sample_payment\<lparr>Input := Some inp, args_To := LowerHex (sample_address 7), SwapValue := Some 19980\<rparr>"
  have sp: "args_SwapType (swapArgs sample_payment) = ERC20SwapType" "args_ToChainID (swapArgs sample_payment) = Some 56" "Input sample_payment = None"
    "args_From sample_payment = ''0xmpc''"
    by (simp_all add: sample_payment_def sample_order_def sample_build_def ERC20SwapType_def)
  from bi sp(1) have b: "build_input ?E sample_payment build_start = (Ret a1, build_start)" by (simp add: build_input_def a1_def)
  obtain x e where x: "args_Extra a1 = Some x" "EthExtra x = Some e" "GasPrice e = Some 5" "ReplaceNum x = 0" "Gas e = Some 90000" "Nonce e = Some 7" "args_Value a1 = None"
    by (simp add: a1_def sample_payment_def sample_order_def sample_build_def)
  have inp: "Input a1 = Some inp" "args_To a1 = LowerHex (sample_address 7)" by (simp_all add: a1_def)
  from paying_builds [OF b sp(2-4) x(7,1,2,3,6) inp(1)] obtain tx args' s' where r: "BuildRawTransaction ?E sample_payment build_start = (Ret (tx, args'), s')" by blast
  from BuildRawTransaction_steps [OF r] b obtain cc a2 s2 where cc: "bridgeChainConfig (bridge ?E) = Some cc"
    and d: "setDefaults ?E a1 build_start = (Ret a2, s2)" and t: "buildTx ?E a2 s2 = (Ret (tx, args'), s')" by (metis Pair_inject outcome.inject(1))
  have dyn: "\<not> IsDynamicFeeTxEnabled (params_of ?E) c" for c by (simp add: paying_params IsDynamicFeeTxEnabled_def) (simp add: paying_params_def init_params_def)
  have c: "complete_extra ?E e" using x cc dyn by (simp add: complete_extra_def priced_def)
  from setDefaults_complete [OF x(1,2) c, of build_start] d have a2: "a2 = with_value a1" by simp
  from buildTx_complete [where a = a2 and inp = inp and t = s2, OF _ x(2) c _ cc] t x(1) inp have "tx = tx_of ?E a2 e" "args' = a2"
    by (auto simp: a2 with_value_keeps outcome_simps)
  moreover have "tx_of ?E a2 e = NewTransaction 7 (sample_address 7) (Some 0) 90000 (Some 5) inp"
    using x inp by (simp add: tx_of_def dyn a2 with_value_keeps) (simp add: with_value_def)
  ultimately show thesis using that [of inp a2 s' x e] r x(1-4) by (simp add: a2 with_value_keeps)
qed

lemma quoting_signed:
  obtains tx args1 s1 tx2 args2 u' where "BuildRawTransaction (eth (quoting 100)) sample_payment build_start = (Ret (tx, args1), s1)"
    "updateGasPrice (quoting 100) tx args1 sign_start = (Ret (tx2, args2), u')" "td_Price (tx_data tx2) = Some 110"
proof -
  let ?tx = "\<lambda>p inp. NewTransaction 7 (sample_address 7) (Some 0) 90000 (Some p) inp"
  obtain a x e inp s1 where b: "BuildRawTransaction (paying_env ''56'' 100) sample_payment build_start = (Ret (?tx 5 inp, a), s1)"
    and x: "args_Extra a = Some x" "EthExtra x = Some e" "GasPrice e = Some 5" "ReplaceNum x = 0" by (rule sample_payment_tx)
  have "latestGasPrice sign_start = None" by (simp add: sign_start_def build_start_def no_store_def store.extend_def build_store.extend_def)
  from signing_update [OF x this] obtain a2 u' where "updateGasPrice (quoting 100) (?tx 5 inp) a sign_start = (Ret (?tx 110 inp, a2), u')"
    by (simp add: quoting_update)
  moreover have "td_Price (tx_data (?tx 110 inp)) = Some 110" by (simp add: NewTransaction_def newTransaction_def fresh_tx_def set_big_def)
  moreover have "eth (quoting 100) = paying_env ''56'' 100" by (simp add: quoting_def)
  ultimately show thesis using that b by simp
qed

lemma quoting_agree: "same_config (quoting 100) (quoting 999)" "getMinReserveFee (eth (quoting 999)) = Ret 0"
proof -
  have eth: "eth (quoting q) = paying_env ''56'' q" for q by (simp add: quoting_def)
  show "same_config (quoting 100) (quoting 999)" by (simp add: same_config_def eth) (simp add: paying_env_def)
  show "getMinReserveFee (eth (quoting 999)) = Ret 0"
    by (simp add: eth getMinReserveFee_def paying_params) (simp add: GetMinReserveFee_def GetExtraConfig_def paying_params_def init_params_def)
qed

theorem oracle_rebuilds_signed_tx_witness:
  "\<exists>tx args1 s1 tx2 args2 u'. BuildRawTransaction (eth (quoting 100)) sample_payment build_start = (Ret (tx, args1), s1) \<and>
     updateGasPrice (quoting 100) tx args1 sign_start = (Ret (tx2, args2), u') \<and> td_Price (tx_data tx2) = Some 110 \<and>
     BuildRawTransaction (eth (quoting 999)) (sample_payment\<lparr>args_Extra := args_Extra args2\<rparr>) build_start = (Ret (tx2, args2), build_start)"
proof -
  obtain tx args1 s1 tx2 args2 u' where b: "BuildRawTransaction (eth (quoting 100)) sample_payment build_start = (Ret (tx, args1), s1)"
    and u: "updateGasPrice (quoting 100) tx args1 sign_start = (Ret (tx2, args2), u')" and p: "td_Price (tx_data tx2) = Some 110"
    by (rule quoting_signed)
  from conjunct2 [OF oracle_rebuilds_signed_tx [OF b u quoting_agree(1)]] quoting_agree(2)
  have "BuildRawTransaction (eth (quoting 999)) (sample_payment\<lparr>args_Extra := args_Extra args2\<rparr>) build_start = (Ret (tx2, args2), build_start)"
    by blast
  with b u p show ?thesis by (intro exI conjI)
qed

end
