(* ===== verification/Accept.thy ===== *)
theory Accept
  imports Worker Rebuild "HOL-Library.Char_ord" "HOL-Library.List_Lexorder"
begin

text \<open>
  The accept job of an oracle (\<open>worker/accept.go\<close>) and its database of accepted swaps
  (\<open>worker/acceptdb.go\<close>). The job's variables extend the store of the signing network's client. The
  operations of \<open>tokens.IBridge\<close> that only this job uses, the coding of JSON, the texts of errors and
  goleveldb are the fields of \<open>accept_env\<close>; the database is a map from keys to values. The goroutine
  that saves an accepted swap is a step of its own (\<open>saveAcceptRecord\<close>): \<open>processAcceptInfo\<close> returns
  the request for it, beside the answer that it sent. The endless loops, the limit on running
  goroutines, sleeping and logging are left out; \<open>log.Crit\<close> and \<open>log.Fatal\<close> end the process.
\<close>

section \<open>State and environment\<close>

record accept_store = sign_store +
  cachedAcceptInfos :: "string set"
  isPendingInvalidAccept :: bool
  lvldbHandle :: "(string \<rightharpoonup> bytes) option"

datatype accept_error =
    AToken token_error
  | ABuild build_error
  | ASign EthSign.sign_error
  | AMpc mpc_error
  | ADb string
  | AOther string
  | errIdentifierMismatch
  | errInitiatorMismatch
  | errWrongMsgContext
  | errAlreadySwapped

type_synonym 'a accepting = "(accept_store, accept_error, 'a) stateful"

datatype pool_tx = EthTx RPCTransaction | OtherTx

record accept_env =
  acc_mpc :: mpc_env
  acc_routers :: router_state
  locDataDir :: string
  Unmarshal_args :: "string \<Rightarrow> string + BuildTxArgs"
  error_text :: "accept_error \<Rightarrow> string"
  bridge_BuildRawTransaction :: "IBridge \<Rightarrow> BuildTxArgs \<Rightarrow> (accept_store, build_error, Transaction option \<times> BuildTxArgs) stateful"
  bridge_VerifyMsgHash :: "IBridge \<Rightarrow> Transaction option \<Rightarrow> string list \<Rightarrow> (token_error, unit) outcome"
  bridge_GetTransaction :: "IBridge \<Rightarrow> nat \<Rightarrow> string \<Rightarrow> token_error + pool_tx"
  bridge_GetSignedTxHashOfKeyID :: "IBridge \<Rightarrow> (string \<Rightarrow> string \<Rightarrow> Transaction option \<Rightarrow> (accept_store, EthSign.sign_error, string) stateful) option"
  popped_info :: "nat \<Rightarrow> string set \<Rightarrow> string"
  lvl_New :: "nat \<Rightarrow> string \<Rightarrow> string + (string \<rightharpoonup> bytes)"
  lvl_Get :: "nat \<Rightarrow> string \<Rightarrow> (string \<rightharpoonup> bytes) \<Rightarrow> (string \<times> bool) + bytes"
  lvl_Put :: "nat \<Rightarrow> string \<Rightarrow> bytes \<Rightarrow> (string \<rightharpoonup> bytes) \<Rightarrow> string option \<times> (string \<rightharpoonup> bytes)"
  lvl_Iterator :: "nat \<Rightarrow> string \<Rightarrow> (string \<rightharpoonup> bytes) \<Rightarrow> (string \<times> bytes) list"

definition acc_params :: "accept_env \<Rightarrow> params_state" where
  "acc_params E = prm (toks (acc_routers E))"

definition acc_now :: "accept_env \<Rightarrow> int accepting" where
  "acc_now E = Unix_now (mpc_mongo (acc_mpc E))"

text \<open>\<open>errors.Is\<close> with an error of package \<open>tokens\<close>.\<close>

fun is_token_error :: "accept_error \<Rightarrow> token_error \<Rightarrow> bool" where
  "is_token_error (AToken e) target = errors_Is e target"
| "is_token_error (ABuild (BToken e)) target = errors_Is e target"
| "is_token_error _ target = False"

section \<open>The database (acceptdb.go)\<close>

definition identifierKey :: string where "identifierKey = ''router-identifier''"

definition allowReswapTimeInterval :: int where "allowReswapTimeInterval = 1800"

definition ascii_bytes :: "string \<Rightarrow> bytes" where
  "ascii_bytes = map (\<lambda>c. of_nat (of_char c))"

definition getSwapKeyPrefix :: "BuildTxArgs \<Rightarrow> string" where
  "getSwapKeyPrefix args =
     (let sw = swapArgs args in
      ToLower (args_SwapID sw @ '':'' @ big_String (args_LogIndex sw) @ '':'' @ bi_String (args_FromChainID sw) @ '':'' @
        big_String (int (args_SwapType sw)) @ '':''))"

definition int64ToBytes :: "int \<Rightarrow> bytes" where
  "int64ToBytes i = (let b = be_bytes (nat (i mod int W64)) in replicate (8 - length b) 0 @ b)"

definition bytesToInt64 :: "bytes \<Rightarrow> ('e, int) outcome" where
  "bytesToInt64 buf = (if length buf < 8 then Panic else Ret (int_of_u64 (be_val (take 8 buf))))"

definition AddAcceptRecord :: "accept_env \<Rightarrow> BuildTxArgs \<Rightarrow> string \<Rightarrow> unit accepting" where
  "AddAcceptRecord E args swapTx = sget (\<lambda>s.
     case lvldbHandle s of
       None \<Rightarrow> sret ()
     | Some kv \<Rightarrow>
         sbind (acc_now E) (\<lambda>nw.
         sbind (extern (\<lambda>t. lvl_Put E t (getSwapKeyPrefix args @ swapTx) (int64ToBytes nw) kv)) (\<lambda>(err, kv).
         sbind (supd (\<lambda>s. s\<lparr>lvldbHandle := Some kv\<rparr>)) (\<lambda>_.
         slift (case err of None \<Rightarrow> Ret () | Some e \<Rightarrow> Err (ADb e))))))"

fun read_records :: "(string \<times> bytes) list \<Rightarrow> (string \<rightharpoonup> int) \<Rightarrow> ('e, string \<rightharpoonup> int) outcome" where
  "read_records [] result = Ret result"
| "read_records ((key, v) # rs) result = obind (bytesToInt64 v) (\<lambda>i. read_records rs (result(key \<mapsto> i)))"

definition FindAcceptRecords :: "accept_env \<Rightarrow> BuildTxArgs \<Rightarrow> (string \<rightharpoonup> int) option accepting" where
  "FindAcceptRecords E args = sget (\<lambda>s.
     case lvldbHandle s of
       None \<Rightarrow> sret None
     | Some kv \<Rightarrow>
         sbind (extern (\<lambda>t. lvl_Iterator E t (getSwapKeyPrefix args) kv)) (\<lambda>rs.
         sbind (slift (read_records rs Map.empty)) (\<lambda>m. sret (Some m))))"

text \<open>\<open>tx.GetAccountNonce()\<close>\<close>

definition GetAccountNonce :: "RPCTransaction \<Rightarrow> nat" where
  "GetAccountNonce tx =
     (if rtx_AccountNonce tx = '''' then 0 else case GetUint64FromStr (rtx_AccountNonce tx) of Ret v \<Rightarrow> v | _ \<Rightarrow> 0)"

text \<open>A transaction that is not on chain: whether it stands against another one.\<close>

definition pool_blocks :: "BuildTxArgs \<Rightarrow> int \<Rightarrow> int \<Rightarrow> token_error + pool_tx \<Rightarrow> bool" where
  "pool_blocks args v nowTime r =
     (case r of
        Inl _ \<Rightarrow> False
      | Inr OtherTx \<Rightarrow> True
      | Inr (EthTx etx) \<Rightarrow>
          if Reswapping (swapArgs args) \<and> i64 (v + allowReswapTimeInterval) \<le> nowTime then False
          else GetAccountNonce etx \<noteq> GetTxNonce args)"

definition on_chain :: "TxStatus option \<Rightarrow> token_error option \<Rightarrow> TxStatus option" where
  "on_chain txStatus errt =
     (case txStatus of None \<Rightarrow> None | Some st \<Rightarrow> if errt = None \<and> BlockHeight st > 0 then Some st else None)"

text \<open>The loop over the records; the result is \<open>alreadySwapped\<close>.\<close>

fun check_records :: "accept_env \<Rightarrow> IBridge option \<Rightarrow> BuildTxArgs \<Rightarrow> int \<Rightarrow> nat \<Rightarrow> (string \<times> bytes) list \<Rightarrow> bool accepting" where
  "check_records E toBridge args nowTime prefixLen [] = sret False"
| "check_records E toBridge args nowTime prefixLen ((key, buf) # rs) =
     sbind (slift (bytesToInt64 buf)) (\<lambda>v.
     let oldSwapTx = drop prefixLen key in
     sbind (slift (mpc_deref toBridge)) (\<lambda>b.
     sbind (extern (\<lambda>t. getTransactionStatus b t oldSwapTx)) (\<lambda>(txStatus, errt).
     case on_chain txStatus errt of
       Some st \<Rightarrow>
         (case Receipt st of
            Some (WithStatus succeeded) \<Rightarrow> if succeeded then sret True else check_records E toBridge args nowTime prefixLen rs
          | _ \<Rightarrow> sret True)
     | None \<Rightarrow>
         sbind (extern (\<lambda>t. bridge_GetTransaction E b t oldSwapTx)) (\<lambda>r.
         if pool_blocks args v nowTime r then sret True else check_records E toBridge args nowTime prefixLen rs))))"

definition CheckAcceptRecord :: "accept_env \<Rightarrow> BuildTxArgs \<Rightarrow> unit accepting" where
  "CheckAcceptRecord E args = sget (\<lambda>s.
     case lvldbHandle s of
       None \<Rightarrow> sret ()
     | Some kv \<Rightarrow>
         let toBridge = GetBridgeByChainID (acc_routers E) (bi_String (args_ToChainID (swapArgs args))); pre = getSwapKeyPrefix args in
         sbind (acc_now E) (\<lambda>nowTime.
         sbind (extern (\<lambda>t. lvl_Iterator E t pre kv)) (\<lambda>rs.
         sbind (check_records E toBridge args nowTime (length pre) rs) (\<lambda>alreadySwapped.
         sguard (\<not> alreadySwapped) errAlreadySwapped))))"

definition getLeveldbPath :: "accept_env \<Rightarrow> string" where
  "getLeveldbPath E = ToLower (locDataDir E @ ''/'' @ GetIdentifier (acc_params E))"

definition openLeveldb :: "accept_env \<Rightarrow> unit accepting" where
  "openLeveldb E = sget (\<lambda>s.
     if lvldbHandle s \<noteq> None then slift Panic
     else if locDataDir E = '''' \<or> GetIdentifier (acc_params E) = '''' then sret ()
     else
       sbind (extern (\<lambda>t. lvl_New E t (getLeveldbPath E))) (\<lambda>opened.
       case opened of
         Inl _ \<Rightarrow> slift Panic
       | Inr kv \<Rightarrow>
           let configIdentifier = GetIdentifier (acc_params E) in
           sbind (extern (\<lambda>t. lvl_Get E t identifierKey kv)) (\<lambda>got.
           sbind (case got of
                    Inr identifierVal \<Rightarrow> if identifierVal \<noteq> ascii_bytes configIdentifier then slift Panic else sret kv
                  | Inl (_, notFound) \<Rightarrow>
                      if \<not> notFound then slift Panic
                      else sbind (extern (\<lambda>t. lvl_Put E t identifierKey (ascii_bytes configIdentifier) kv)) (\<lambda>(err, kv).
                           if err \<noteq> None then slift Panic else sret kv)) (\<lambda>kv.
           supd (\<lambda>s. s\<lparr>lvldbHandle := Some kv\<rparr>)))))"

section \<open>Sign requests (accept.go)\<close>

definition acceptAgree :: string where "acceptAgree = ''AGREE''"
definition acceptDisagree :: string where "acceptDisagree = ''DISAGREE''"
definition maxCachedAcceptInfos :: nat where "maxCachedAcceptInfos = 500"
definition maxAcceptSignTimeInterval :: int where "maxAcceptSignTimeInterval = 600"

definition checkAndUpdateCachedAcceptInfoMap :: "accept_env \<Rightarrow> string \<Rightarrow> bool accepting" where
  "checkAndUpdateCachedAcceptInfoMap E keyID = sget (\<lambda>s.
     if keyID \<in> cachedAcceptInfos s then sret False
     else
       sbind (if maxCachedAcceptInfos \<le> card (cachedAcceptInfos s)
              then sbind (extern (\<lambda>t. popped_info E t (cachedAcceptInfos s))) (\<lambda>x.
                   supd (\<lambda>s. s\<lparr>cachedAcceptInfos := cachedAcceptInfos s - {x}\<rparr>))
              else sret ()) (\<lambda>_.
       sbind (supd (\<lambda>s. s\<lparr>cachedAcceptInfos := insert keyID (cachedAcceptInfos s)\<rparr>)) (\<lambda>_. sret True)))"

definition getBridges :: "accept_env \<Rightarrow> string \<Rightarrow> string \<Rightarrow> (accept_error, IBridge \<times> IBridge) outcome" where
  "getBridges E fromChainID toChainID =
     (case (GetBridgeByChainID (acc_routers E) fromChainID, GetBridgeByChainID (acc_routers E) toChainID) of
        (Some srcBridge, Some dstBridge) \<Rightarrow> Ret (srcBridge, dstBridge)
      | _ \<Rightarrow> Err (AToken ErrNoBridgeForChainID))"

text \<open>The arguments that the oracle builds the transaction from: its own view of the swap, and from the
  request only the sender, the extra arguments and the mark of a reswap.\<close>

definition accept_args :: "accept_env \<Rightarrow> SwapTxInfo \<Rightarrow> BuildTxArgs \<Rightarrow> BuildTxArgs" where
  "accept_args E swapInfo args =
     \<lparr>swapArgs = with_info
        \<lparr>erc20Info = None, nftInfo = None, anycallInfo = None, curveInfo = None,
         args_Identifier = GetIdentifier (acc_params E), args_SwapID = SwapTxInfo.tx_Hash swapInfo, args_SwapType = tx_SwapType swapInfo,
         args_Bind = tx_Bind swapInfo, args_LogIndex = tx_LogIndex swapInfo, args_FromChainID = tx_FromChainID swapInfo,
         args_ToChainID = tx_ToChainID swapInfo, Reswapping = Reswapping (swapArgs args)\<rparr> (SwapInfo.truncate swapInfo),
      args_From = args_From args, args_To = '''', OriginFrom = tx_From swapInfo, OriginTxTo = tx_TxTo swapInfo,
      OriginValue = SwapTxInfo.tx_Value swapInfo, SwapValue = None, args_Value = None, Memo = '''', Input = None, args_Extra = args_Extra args\<rparr>"

text \<open>What the goroutine that saves the accepted swap gets.\<close>

record save_request =
  save_bridge :: IBridge
  save_keyID :: string
  save_args :: BuildTxArgs
  save_rawTx :: "Transaction option"

definition quoted :: "string \<Rightarrow> string" where
  "quoted s = CHR 0x27 # s @ [CHR 0x27]"

definition rebuildAndVerifyMsgHash :: "accept_env \<Rightarrow> string \<Rightarrow> string list \<Rightarrow> BuildTxArgs \<Rightarrow> save_request option accepting" where
  "rebuildAndVerifyMsgHash E keyID msgHash args =
     (let sw = swapArgs args in
      sbind (sguard (IsValidType (args_SwapType sw)) (AOther (''unknown router swap type '' @ big_String (int (args_SwapType sw))))) (\<lambda>_.
      sbind (slift (getBridges E (bi_String (args_FromChainID sw)) (bi_String (args_ToChainID sw)))) (\<lambda>(srcBridge, dstBridge).
      sbind (extern (\<lambda>t. verifyTransaction srcBridge t (args_SwapID sw)
        \<lparr>va_SwapType = args_SwapType sw, va_LogIndex = args_LogIndex sw, AllowUnstable = False\<rparr>)) (\<lambda>verified.
      case verified of
        Inl err \<Rightarrow> slift (Err (AToken err))
      | Inr swapInfo \<Rightarrow>
          sbind (sguard (EqualFold (args_Bind sw) (tx_Bind swapInfo))
            (AOther (''bind mismatch: '' @ quoted (args_Bind sw) @ '' != '' @ quoted (tx_Bind swapInfo)))) (\<lambda>_.
          sbind (slift (mpc_deref (args_ToChainID sw))) (\<lambda>argsTo.
          sbind (slift (mpc_deref (tx_ToChainID swapInfo))) (\<lambda>infoTo.
          sbind (sguard (argsTo = infoTo) (AOther (''toChainID mismatch: '' @ quoted (big_String argsTo) @ '' != '' @ quoted (big_String infoTo)))) (\<lambda>_.
          let buildTxArgs = accept_args E swapInfo args in
          sbind (failing_as ABuild (bridge_BuildRawTransaction E dstBridge buildTxArgs)) (\<lambda>(rawTx, buildTxArgs).
          sbind (slift (lift_err AToken (bridge_VerifyMsgHash E dstBridge rawTx msgHash))) (\<lambda>_.
          sget (\<lambda>s. sret
            (if lvldbHandle s \<noteq> None \<and> GetTxNonce args > 0
             then Some \<lparr>save_bridge = dstBridge, save_keyID = keyID, save_args = buildTxArgs, save_rawTx = rawTx\<rparr> else None))))))))))))"

text \<open>The goroutine of an accepted swap: it waits for the signature and saves the transaction it makes.\<close>

definition saveAcceptRecord :: "accept_env \<Rightarrow> save_request \<Rightarrow> unit accepting" where
  "saveAcceptRecord E req =
     (case bridge_GetSignedTxHashOfKeyID E (save_bridge req) of
        None \<Rightarrow> sret ()
      | Some signed_hash \<Rightarrow>
          sbind (stry (signed_hash (args_From (save_args req)) (save_keyID req) (save_rawTx req))) (\<lambda>r.
          case r of
            Inl _ \<Rightarrow> sret ()
          | Inr swapTx \<Rightarrow> sbind (stry (AddAcceptRecord E (save_args req) swapTx)) (\<lambda>r. case r of Inl (_ :: accept_error) \<Rightarrow> sret () | Inr _ \<Rightarrow> sret ())))"

definition verifySignInfo :: "accept_env \<Rightarrow> SignInfoData \<Rightarrow> save_request option accepting" where
  "verifySignInfo E signInfo =
     sbind (slift (case si_MsgContext signInfo of [] \<Rightarrow> Panic | c # _ \<Rightarrow> Ret c)) (\<lambda>msgContext.
     case Unmarshal_args E msgContext of
       Inl _ \<Rightarrow> slift (Err errWrongMsgContext)
     | Inr args \<Rightarrow>
         sbind (sguard (args_Identifier (swapArgs args) = GetIdentifier (acc_params E)) errIdentifierMismatch) (\<lambda>_.
         sbind (sguard (IsMPCInitiator (acc_params E) (si_Account signInfo)) errInitiatorMismatch) (\<lambda>_.
         sbind (sget (\<lambda>s. if lvldbHandle s \<noteq> None \<and> GetTxNonce args > 0 then CheckAcceptRecord E args else sret ())) (\<lambda>_.
         rebuildAndVerifyMsgHash E (si_Key signInfo) (si_MsgHash signInfo) args))))"

text \<open>What the switch does with an error: discard the request, ignore it for now, or answer it.\<close>

datatype verdict = Discard | Ignore | Answer

definition judge :: "bool \<Rightarrow> accept_error option \<Rightarrow> verdict" where
  "judge pendingInvalid err =
     (case err of
        None \<Rightarrow> Answer
      | Some e \<Rightarrow>
          if e = errWrongMsgContext \<or> e = errIdentifierMismatch then Discard
          else if is_token_error e ErrTxNotStable \<or> is_token_error e ErrTxNotFound \<or> is_token_error e ErrRPCQueryError \<or> is_token_error e ErrNotFound
          then (if pendingInvalid then Ignore else Answer)
          else if e = errInitiatorMismatch \<or> is_token_error e ErrTxWithWrongContract \<or> is_token_error e ErrNoBridgeForChainID
          then (if pendingInvalid then Discard else Answer)
          else Answer)"

definition uncache :: "string \<Rightarrow> unit accepting" where
  "uncache keyID = supd (\<lambda>s. s\<lparr>cachedAcceptInfos := cachedAcceptInfos s - {keyID}\<rparr>)"

text \<open>The result is the answer that the network took, with the request to save the swap, if any.\<close>

definition answer_request :: "accept_env \<Rightarrow> SignInfoData \<Rightarrow> accept_error + save_request option \<Rightarrow>
    (string option \<times> save_request option) accepting" where
  "answer_request E info r =
     (let keyID = si_Key info; (err, save) = (case r of Inl e \<Rightarrow> (Some e, None) | Inr save \<Rightarrow> (None, save)) in
      sget (\<lambda>s.
      case judge (isPendingInvalidAccept s) err of
        Discard \<Rightarrow> sret (None, save)
      | Ignore \<Rightarrow> sbind (uncache keyID) (\<lambda>_. sret (None, save))
      | Answer \<Rightarrow>
          let agreeResult = (if err = None then acceptAgree else acceptDisagree);
              aggreeMsgContext = (case err of None \<Rightarrow> [] | Some e \<Rightarrow> [take 1000 (error_text E e)]) in
          sbind (stry (DoAcceptSign (acc_mpc E) keyID agreeResult (si_MsgHash info) aggreeMsgContext)) (\<lambda>res.
          case res of
            Inl (_ :: mpc_error) \<Rightarrow> sbind (uncache keyID) (\<lambda>_. sret (None, save))
          | Inr _ \<Rightarrow> sret (Some agreeResult, save))))"

definition processAcceptInfo :: "accept_env \<Rightarrow> SignInfoData \<Rightarrow> (string option \<times> save_request option) accepting" where
  "processAcceptInfo E info =
     sbind (checkAndUpdateCachedAcceptInfoMap E (si_Key info)) (\<lambda>isNew.
     if \<not> isNew then sret (None, None)
     else sbind (stry (verifySignInfo E info)) (answer_request E info))"

text \<open>One round of the producer: the requests it hands to the consumer.\<close>

definition produce_round :: "accept_env \<Rightarrow> SignInfoData list accepting" where
  "produce_round E =
     sbind (stry (GetCurNodeSignInfo (acc_mpc E) maxAcceptSignTimeInterval)) (\<lambda>r.
     case r of
       Inl (_ :: mpc_error) \<Rightarrow> sret []
     | Inr signInfo \<Rightarrow> sget (\<lambda>s. sret (filter (\<lambda>info. si_Key info \<notin> cachedAcceptInfos s) signInfo)))"

text \<open>The times of \<open>StartAcceptSignJob\<close>: the pauses after a failed and after a finished round, in nanoseconds.\<close>

definition accept_intervals :: "accept_env \<Rightarrow> int \<times> int" where
  "accept_intervals E =
     (let getAcceptListInterval = GetAcceptListInterval (acc_params E); retryInterval = 3000000000; waitInterval = 5000000000 in
      if getAcceptListInterval > 0 then
        let waitInterval = i64 (int_of_u64 getAcceptListInterval * 1000000000) in
        (if retryInterval > waitInterval then waitInterval else retryInterval, waitInterval)
      else (retryInterval, waitInterval))"

definition StartAcceptSignJob :: "accept_env \<Rightarrow> unit accepting" where
  "StartAcceptSignJob E =
     sbind (supd (\<lambda>s. s\<lparr>isPendingInvalidAccept := IsPendingInvalidAccept (acc_params E)\<rparr>)) (\<lambda>_. openLeveldb E)"

section \<open>What an oracle agrees to\<close>

text \<open>A record of an accepted transaction that does not stand against a request, by a node's answers.\<close>

definition record_passes :: "accept_env \<Rightarrow> IBridge option \<Rightarrow> BuildTxArgs \<Rightarrow> string \<Rightarrow> bool" where
  "record_passes E toBridge args oldSwapTx \<longleftrightarrow>
     (\<exists>b t t' v nowTime. toBridge = Some b \<and>
       (case on_chain (fst (getTransactionStatus b t oldSwapTx)) (snd (getTransactionStatus b t oldSwapTx)) of
          Some st \<Rightarrow> Receipt st = Some (WithStatus False)
        | None \<Rightarrow> \<not> pool_blocks args v nowTime (bridge_GetTransaction E b t' oldSwapTx)))"

lemma check_records_False:
  assumes "check_records E toBridge args nowTime n rs s = (Ret False, s')"
  shows "\<forall>(key, v)\<in>set rs. record_passes E toBridge args (drop n key)"
  using assms
proof (induction rs arbitrary: s)
  case (Cons r rs)
  obtain key buf where r: "r = (key, buf)" by fastforce
  from Cons.prems obtain v b where v: "bytesToInt64 buf = (Ret v :: (accept_error, int) outcome)" and b: "toBridge = Some b"
    and rest: "(\<lambda>(txStatus, errt). case on_chain txStatus errt of
       Some st \<Rightarrow>
         (case Receipt st of
            Some (WithStatus succeeded) \<Rightarrow> if succeeded then sret True else check_records E toBridge args nowTime n rs
          | _ \<Rightarrow> sret True)
     | None \<Rightarrow>
         sbind (extern (\<lambda>t. bridge_GetTransaction E b t (drop n key))) (\<lambda>r.
         if pool_blocks args v nowTime r then sret True else check_records E toBridge args nowTime n rs))
      (getTransactionStatus b (tick s) (drop n key)) (s\<lparr>tick := Suc (tick s)\<rparr>) = (Ret False, s')"
    by (auto simp: r sbind_Ret_iff sstep_iff mpc_deref_def extern_def Let_def split: option.splits)
  show ?case
  proof (cases "on_chain (fst (getTransactionStatus b (tick s) (drop n key))) (snd (getTransactionStatus b (tick s) (drop n key)))")
    case None
    with rest obtain t s1 where "\<not> pool_blocks args v nowTime (bridge_GetTransaction E b t (drop n key))" "check_records E toBridge args nowTime n rs s1 = (Ret False, s')"
      by (auto simp: case_prod_unfold sbind_Ret_iff sstep_iff extern_def split: if_splits)
    moreover from this(1) None b have "record_passes E toBridge args (drop n key)"
      unfolding record_passes_def by (intro exI [of _ b] exI [of _ "tick s"] exI [of _ t] exI [of _ v] exI [of _ nowTime]) simp
    ultimately show ?thesis using Cons.IH by (simp add: r)
  next
    case (Some st)
    with rest obtain s1 where "Receipt st = Some (WithStatus False)" "check_records E toBridge args nowTime n rs s1 = (Ret False, s')"
      by (auto simp: case_prod_unfold sstep_iff split: option.splits receipt_value.splits if_splits)
    moreover from this(1) Some b have "record_passes E toBridge args (drop n key)"
      unfolding record_passes_def by (intro exI [of _ b] exI [of _ "tick s"]) simp
    ultimately show ?thesis using Cons.IH by (simp add: r)
  qed
qed simp

text \<open>A request that was verified, and the records that were found for it.\<close>

definition records_pass :: "accept_env \<Rightarrow> BuildTxArgs \<Rightarrow> (string \<rightharpoonup> bytes) \<Rightarrow> bool" where
  "records_pass E args kv \<longleftrightarrow>
     (\<exists>t. \<forall>(key, v)\<in>set (lvl_Iterator E t (getSwapKeyPrefix args) kv).
       record_passes E (GetBridgeByChainID (acc_routers E) (bi_String (args_ToChainID (swapArgs args)))) args (drop (length (getSwapKeyPrefix args)) key))"

lemma CheckAcceptRecord_Ret: "CheckAcceptRecord E args s = (Ret (), s') \<Longrightarrow> lvldbHandle s = Some kv \<Longrightarrow> records_pass E args kv"
  unfolding CheckAcceptRecord_def records_pass_def Let_def
  by (auto simp: sbind_Ret_iff sstep_iff extern_def simp del: split_paired_All split_paired_Ex dest!: check_records_False) blast

definition verified_request :: "accept_env \<Rightarrow> SignInfoData \<Rightarrow> (string \<rightharpoonup> bytes) option \<Rightarrow> BuildTxArgs \<Rightarrow> SwapTxInfo \<Rightarrow> bool" where
  "verified_request E info handle args swapInfo \<longleftrightarrow>
     (\<exists>c cs src dst t u u' rawTx built. si_MsgContext info = c # cs \<and> Unmarshal_args E c = Inr args \<and>
       args_Identifier (swapArgs args) = GetIdentifier (acc_params E) \<and> IsMPCInitiator (acc_params E) (si_Account info) \<and>
       IsValidType (args_SwapType (swapArgs args)) \<and>
       GetBridgeByChainID (acc_routers E) (bi_String (args_FromChainID (swapArgs args))) = Some src \<and>
       GetBridgeByChainID (acc_routers E) (bi_String (args_ToChainID (swapArgs args))) = Some dst \<and>
       verifyTransaction src t (args_SwapID (swapArgs args))
         \<lparr>va_SwapType = args_SwapType (swapArgs args), va_LogIndex = args_LogIndex (swapArgs args), AllowUnstable = False\<rparr> = Inr swapInfo \<and>
       EqualFold (args_Bind (swapArgs args)) (tx_Bind swapInfo) \<and> args_ToChainID (swapArgs args) = tx_ToChainID swapInfo \<and>
       bridge_BuildRawTransaction E dst (accept_args E swapInfo args) u = (Ret (rawTx, built), u') \<and>
       bridge_VerifyMsgHash E dst rawTx (si_MsgHash info) = Ret () \<and>
       (\<forall>kv. handle = Some kv \<and> GetTxNonce args > 0 \<longrightarrow> records_pass E args kv))"

lemma rebuild_Ret:
  assumes "rebuildAndVerifyMsgHash E keyID msgHash args s = (Ret save, s')"
  shows "\<exists>src dst t u u' rawTx built swapInfo. IsValidType (args_SwapType (swapArgs args)) \<and>
       GetBridgeByChainID (acc_routers E) (bi_String (args_FromChainID (swapArgs args))) = Some src \<and>
       GetBridgeByChainID (acc_routers E) (bi_String (args_ToChainID (swapArgs args))) = Some dst \<and>
       verifyTransaction src t (args_SwapID (swapArgs args))
         \<lparr>va_SwapType = args_SwapType (swapArgs args), va_LogIndex = args_LogIndex (swapArgs args), AllowUnstable = False\<rparr> = Inr swapInfo \<and>
       EqualFold (args_Bind (swapArgs args)) (tx_Bind swapInfo) \<and> args_ToChainID (swapArgs args) = tx_ToChainID swapInfo \<and>
       bridge_BuildRawTransaction E dst (accept_args E swapInfo args) u = (Ret (rawTx, built), u') \<and>
       bridge_VerifyMsgHash E dst rawTx msgHash = Ret ()"
proof -
  let ?sw = "swapArgs args"
  from assms obtain src dst s1 swapInfo argsTo infoTo u rawTx built u' where
    1: "IsValidType (args_SwapType ?sw)" "getBridges E (bi_String (args_FromChainID ?sw)) (bi_String (args_ToChainID ?sw)) = Ret (src, dst)"
      "verifyTransaction src (tick s) (args_SwapID ?sw) \<lparr>va_SwapType = args_SwapType ?sw, va_LogIndex = args_LogIndex ?sw, AllowUnstable = False\<rparr> = Inr swapInfo"
      "EqualFold (args_Bind ?sw) (tx_Bind swapInfo)"
    and 2: "args_ToChainID ?sw = Some argsTo" "tx_ToChainID swapInfo = Some infoTo" "argsTo = infoTo"
    and 3: "bridge_BuildRawTransaction E dst (accept_args E swapInfo args) u = (Ret (rawTx, built), u')" "bridge_VerifyMsgHash E dst rawTx msgHash = Ret ()"
    by (auto simp: rebuildAndVerifyMsgHash_def Let_def sbind_Ret_iff sstep_iff extern_def sum_run mpc_deref_def lift_err_Ret failing_as_Ret simp del: split_paired_Ex
      split: option.splits)
  from 1(2) have "GetBridgeByChainID (acc_routers E) (bi_String (args_FromChainID ?sw)) = Some src"
    "GetBridgeByChainID (acc_routers E) (bi_String (args_ToChainID ?sw)) = Some dst"
    by (auto simp: getBridges_def split: option.splits)
  with 1 3 2 show ?thesis by (intro exI conjI) (assumption | simp)+
qed

lemma verifySignInfo_Ret:
  assumes "verifySignInfo E info s = (Ret save, s')"
  shows "\<exists>args swapInfo. verified_request E info (lvldbHandle s) args swapInfo"
proof -
  from assms obtain c cs args s1 where c: "si_MsgContext info = c # cs" "Unmarshal_args E c = Inr args"
    "args_Identifier (swapArgs args) = GetIdentifier (acc_params E)" "IsMPCInitiator (acc_params E) (si_Account info)"
    and check: "(if lvldbHandle s \<noteq> None \<and> GetTxNonce args > 0 then CheckAcceptRecord E args else sret ()) s = (Ret (), s1)"
    and r: "rebuildAndVerifyMsgHash E (si_Key info) (si_MsgHash info) args s1 = (Ret save, s')"
    by (auto simp: verifySignInfo_def sbind_Ret_iff sstep_iff split: list.splits sum.splits)
  from check CheckAcceptRecord_Ret have "\<forall>kv. lvldbHandle s = Some kv \<and> GetTxNonce args > 0 \<longrightarrow> records_pass E args kv"
    by (auto split: if_splits)
  with c rebuild_Ret [OF r] show ?thesis unfolding verified_request_def by metis
qed

lemma checkAndUpdate_handle: "checkAndUpdateCachedAcceptInfoMap E k s = (Ret b, s') \<Longrightarrow> lvldbHandle s' = lvldbHandle s"
  by (auto simp: checkAndUpdateCachedAcceptInfoMap_def outcome_simps extern_def split: if_splits)

lemma processAcceptInfo_agree:
  assumes "processAcceptInfo E info s = (Ret (Some acceptAgree, save), s')"
  shows "\<exists>args swapInfo. verified_request E info (lvldbHandle s) args swapInfo"
proof -
  from assms obtain s1 r s2 where c: "checkAndUpdateCachedAcceptInfoMap E (si_Key info) s = (Ret True, s1)"
    and v: "stry (verifySignInfo E info) s1 = (Ret r :: (accept_error, accept_error + save_request option) outcome, s2)"
    and rest: "answer_request E info r s2 = (Ret (Some acceptAgree, save), s')"
    by (auto simp: processAcceptInfo_def sbind_Ret_iff sstep_iff split: if_splits)
  have r: "\<exists>save. r = Inr save"
  proof (cases r)
    case (Inl e)
    with rest show ?thesis
      by (auto simp: answer_request_def Let_def sbind_Ret_iff sstep_iff sum_run acceptAgree_def acceptDisagree_def split: verdict.splits)
  qed simp
  from v r obtain save where "verifySignInfo E info s1 = (Ret save, s2)" by (auto simp: outcome_simps)
  with verifySignInfo_Ret checkAndUpdate_handle [OF c] show ?thesis by metis
qed


section \<open>Saved swaps\<close>

text \<open>What goleveldb documents of writing and of iterating over a prefix.\<close>

definition documented_lvl :: "accept_env \<Rightarrow> bool" where
  "documented_lvl E \<longleftrightarrow>
     (\<forall>t k v kv kv'. lvl_Put E t k v kv = (None, kv') \<longrightarrow> kv' = kv(k \<mapsto> v)) \<and>
     (\<forall>t p kv. finite (dom kv) \<longrightarrow> set (lvl_Iterator E t p kv) = {(k, v). kv k = Some v \<and> take (length p) k = p})"

lemma AddAcceptRecord_saves:
  assumes "documented_lvl E" and "AddAcceptRecord E args swapTx s = (Ret (), s')" and "lvldbHandle s = Some kv"
  shows "\<exists>kv'. lvldbHandle s' = Some kv' \<and> kv' (getSwapKeyPrefix args @ swapTx) \<noteq> None"
proof -
  from assms(2,3) obtain t nw where "fst (lvl_Put E t (getSwapKeyPrefix args @ swapTx) (int64ToBytes nw) kv) = None"
    and h: "lvldbHandle s' = Some (snd (lvl_Put E t (getSwapKeyPrefix args @ swapTx) (int64ToBytes nw) kv))"
    by (auto simp: AddAcceptRecord_def sbind_Ret_iff sstep_iff extern_def case_prod_unfold split: option.splits)
  then obtain kv' where "lvl_Put E t (getSwapKeyPrefix args @ swapTx) (int64ToBytes nw) kv = (None, kv')" "lvldbHandle s' = Some kv'"
    by (metis prod.collapse)
  moreover from this(1) assms(1) have "kv' = kv(getSwapKeyPrefix args @ swapTx \<mapsto> int64ToBytes nw)" unfolding documented_lvl_def by blast
  ultimately show ?thesis by simp
qed

text \<open>
  C10: once an accepted swap is saved with its transaction, the oracle agrees to no other request for
  that swap (unless it comes with the nonce 0) while its node reports the transaction on chain and not
  failed: the records are found under the prefix of the swap, whatever was saved beside it.
\<close>

theorem saved_swap_refused:
  assumes "documented_lvl E" and "AddAcceptRecord E saved swapTx s0 = (Ret (), s1)" and "lvldbHandle s0 = Some kv0"
    and "lvldbHandle s1 = Some kv1" and "lvldbHandle s = Some kv" and "dom kv1 \<subseteq> dom kv" and "finite (dom kv)"
    and "si_MsgContext info = c # cs" and "Unmarshal_args E c = Inr args" and "getSwapKeyPrefix args = getSwapKeyPrefix saved" and "0 < GetTxNonce args"
    and "GetBridgeByChainID (acc_routers E) (bi_String (args_ToChainID (swapArgs args))) = Some dst"
    and "\<And>t. \<exists>st. getTransactionStatus dst t swapTx = (Some st, None) \<and> 0 < BlockHeight st \<and> Receipt st \<noteq> Some (WithStatus False)"
  shows "processAcceptInfo E info s \<noteq> (Ret (Some acceptAgree, save), s')"
proof
  assume "processAcceptInfo E info s = (Ret (Some acceptAgree, save), s')"
  from processAcceptInfo_agree [OF this] assms(5,8,9,11) have pass: "records_pass E args kv"
    unfolding verified_request_def by auto
  let ?p = "getSwapKeyPrefix args"
  from AddAcceptRecord_saves [OF assms(1-3)] assms(4,6,10) obtain v where "kv (?p @ swapTx) = Some v" by auto
  with assms(1,7) have "(?p @ swapTx, v) \<in> set (lvl_Iterator E t ?p kv)" for t by (simp add: documented_lvl_def)
  with pass assms(12) have "record_passes E (Some dst) args swapTx" unfolding records_pass_def by fastforce
  then obtain t t' v nowTime where t: "case on_chain (fst (getTransactionStatus dst t swapTx)) (snd (getTransactionStatus dst t swapTx)) of
      Some st \<Rightarrow> Receipt st = Some (WithStatus False)
    | None \<Rightarrow> \<not> pool_blocks args v nowTime (bridge_GetTransaction E dst t' swapTx)"
    unfolding record_passes_def by blast
  obtain st where "getTransactionStatus dst t swapTx = (Some st, None)" "0 < BlockHeight st" "Receipt st \<noteq> Some (WithStatus False)"
    using assms(13) by blast
  with t show False by (simp add: on_chain_def)
qed

section \<open>Honest requests\<close>

text \<open>The operations of a bridge of an EVM chain, as the accept job calls them.\<close>

definition evm_build :: "sign_env \<Rightarrow> BuildTxArgs \<Rightarrow> (accept_store, build_error, Transaction option \<times> BuildTxArgs) stateful" where
  "evm_build oracle args = sbind (BuildRawTransaction (eth oracle) args) (\<lambda>(tx, args). sret (Some tx, args))"

lemma builders_keep:
  "buildSwapAndExecTxInput r b args mt = Ret a \<Longrightarrow> swapArgs a = swapArgs args \<and> args_From a = args_From args"
  "buildERC20SwapoutTxInput r b args mt = Ret a \<Longrightarrow> swapArgs a = swapArgs args \<and> args_From a = args_From args"
  "buildNFTSwapTxInput r b args = Ret a \<Longrightarrow> swapArgs a = swapArgs args \<and> args_From a = args_From args"
  "buildAnyCallSwapTxInput r b args = Ret a \<Longrightarrow> swapArgs a = swapArgs args \<and> args_From a = args_From args"
  by (auto simp: buildSwapAndExecTxInput_def buildERC20SwapoutTxInput_def buildNFTSwapTxInput_def buildAnyCallSwapTxInput_def Let_def outcome_simps)

lemma calcSwapDeadline_keeps: "calcSwapDeadline E args s = (Ret (d, a), s') \<Longrightarrow> swapArgs a = swapArgs args \<and> args_From a = args_From args"
  using calcSwapDeadline_Ret [of E args s d a s'] by (metis BuildTxArgs.select_convs(1,2) BuildTxArgs.surjective BuildTxArgs.update_convs(11))

lemma build_input_keeps:
  assumes "build_input E args s = (Ret a, s')"
  shows "swapArgs a = swapArgs args \<and> args_From a = args_From args"
proof -
  have trade: "buildERC20SwapTradeTxInput E args mt s = (Ret a, s') \<Longrightarrow> ?thesis" for mt
    by (auto simp: buildERC20SwapTradeTxInput_def Let_def outcome_simps dest!: calcSwapDeadline_keeps)
  have "buildERC20SwapTxInput E args s = (Ret a, s') \<Longrightarrow> ?thesis"
    using trade builders_keep(1,2) by (auto simp: buildERC20SwapTxInput_def Let_def calls_lift sstep_iff split: if_splits option.splits)
  with assms builders_keep(3,4) show ?thesis
    by (auto simp: build_input_def Let_def calls_lift sstep_iff split: if_splits)
qed

lemma BuildRawTransaction_keeps:
  assumes "BuildRawTransaction E args s = (Ret (tx, a), s')"
  shows "swapArgs a = swapArgs args \<and> args_From a = args_From args"
proof -
  from BuildRawTransaction_steps [OF assms] obtain a1 s1 a2 s2 where "build_input E args s = (Ret a1, s1)" "setDefaults E a1 s1 = (Ret a2, s2)"
    "buildTx E a2 s2 = (Ret (tx, a), s')" by metis
  with build_input_keeps setDefaults_settled buildTx_Ret have "swapArgs a1 = swapArgs args" "args_From a1 = args_From args" "settled a = settled a1" by metis+
  then show ?thesis by (simp add: settled_def)
qed

lemma updateGasPrice_keeps_swap:
  "updateGasPrice E tx args s = (Ret (tx', args'), s') \<Longrightarrow> swapArgs args' = swapArgs args \<and> args_From args' = args_From args"
  using updateGasPrice_Ret [of E tx args s tx' args' s'] by (auto simp: repriced_def set_extra_def)

text \<open>The arguments that the oracle builds from are those of the server, with the extra ones of the request.\<close>

lemma accept_args_of_request:
  "accept_args E swapInfo args = args \<Longrightarrow> swapArgs args2 = swapArgs args \<Longrightarrow> args_From args2 = args_From args \<Longrightarrow>
     accept_args E swapInfo (GetExtraArgs args2) = args\<lparr>args_Extra := args_Extra args2\<rparr>"
proof -
  assume "accept_args E swapInfo args = args" "swapArgs args2 = swapArgs args" "args_From args2 = args_From args"
  moreover have "accept_args E swapInfo (GetExtraArgs args2) = (accept_args E swapInfo args)\<lparr>args_Extra := args_Extra args2\<rparr>"
    if "swapArgs args2 = swapArgs args" "args_From args2 = args_From args"
    using that by (simp add: accept_args_def GetExtraArgs_def)
  ultimately show ?thesis by simp
qed

lemma evm_build_Ret: "BuildRawTransaction (eth oracle) args s = (Ret (tx, a), s') \<Longrightarrow> evm_build oracle args s = (Ret (Some tx, a), s')"
  by (simp add: evm_build_def sbind_def sret_def)

lemma rebuildAndVerifyMsgHash_runs:
  assumes "IsValidType (args_SwapType (swapArgs args))"
    and "GetBridgeByChainID (acc_routers E) (bi_String (args_FromChainID (swapArgs args))) = Some src"
    and "GetBridgeByChainID (acc_routers E) (bi_String (args_ToChainID (swapArgs args))) = Some dst"
    and "\<And>t. verifyTransaction src t (args_SwapID (swapArgs args))
      \<lparr>va_SwapType = args_SwapType (swapArgs args), va_LogIndex = args_LogIndex (swapArgs args), AllowUnstable = False\<rparr> = Inr swapInfo"
    and "EqualFold (args_Bind (swapArgs args)) (tx_Bind swapInfo)" and "args_ToChainID (swapArgs args) = Some to" and "tx_ToChainID swapInfo = Some to"
    and b: "\<And>v. bridge_BuildRawTransaction E dst (accept_args E swapInfo args) v = (Ret (rawTx, built), v)"
    and "bridge_VerifyMsgHash E dst rawTx msgHash = Ret ()"
  shows "rebuildAndVerifyMsgHash E keyID msgHash args t =
    (Ret (if lvldbHandle t \<noteq> None \<and> GetTxNonce args > 0
          then Some \<lparr>save_bridge = dst, save_keyID = keyID, save_args = built, save_rawTx = rawTx\<rparr> else None), t\<lparr>tick := Suc (tick t)\<rparr>)"
proof -
  have "failing_as ABuild (bridge_BuildRawTransaction E dst (accept_args E swapInfo args)) v = (Ret (rawTx, built), v)" for v
    by (simp add: failing_as_def b)
  with assms(1-7,9) show ?thesis
    by (simp add: rebuildAndVerifyMsgHash_def getBridges_def Let_def run_steps extern_def mpc_deref_def)
qed

text \<open>
  No transaction that was accepted for the swap of a request stands against it: the database is
  closed, or every record under the swap's prefix is of a transaction that failed on chain (in
  particular when there is none).
\<close>

definition failed_on_chain :: "IBridge \<Rightarrow> string \<Rightarrow> bool" where
  "failed_on_chain b swapTx \<longleftrightarrow>
     (\<forall>t. \<exists>st. getTransactionStatus b t swapTx = (Some st, None) \<and> 0 < BlockHeight st \<and> Receipt st = Some (WithStatus False))"

definition none_stands :: "accept_env \<Rightarrow> IBridge \<Rightarrow> string \<Rightarrow> (string \<rightharpoonup> bytes) option \<Rightarrow> bool" where
  "none_stands E dst pre handle \<longleftrightarrow>
     (case handle of None \<Rightarrow> True
      | Some kv \<Rightarrow> documented_lvl E \<and> finite (dom kv) \<and>
          (\<forall>k v. kv k = Some v \<longrightarrow> take (length pre) k = pre \<longrightarrow> 8 \<le> length v \<and> failed_on_chain dst (drop (length pre) k)))"

lemma check_records_passes:
  assumes "\<forall>(key, buf)\<in>set rs. 8 \<le> length buf \<and> failed_on_chain b (drop n key)"
  shows "\<exists>m. check_records E (Some b) args nowTime n rs s = (Ret False, s\<lparr>tick := m\<rparr>)"
  using assms
proof (induction rs arbitrary: s)
  case Nil
  show ?case by (rule exI [of _ "tick s"]) (simp add: sret_def)
next
  case (Cons r rs)
  obtain key buf where r: "r = (key, buf)" by fastforce
  from Cons.prems obtain st where st: "getTransactionStatus b (tick s) (drop n key) = (Some st, None)" "0 < BlockHeight st"
    "Receipt st = Some (WithStatus False)"
    unfolding failed_on_chain_def r by (simp, metis)
  from Cons.prems obtain v where v: "bytesToInt64 buf = (Ret v :: (accept_error, int) outcome)" by (auto simp: r bytesToInt64_def)
  obtain m where "check_records E (Some b) args nowTime n rs (s\<lparr>tick := Suc (tick s)\<rparr>) = (Ret False, s\<lparr>tick := m\<rparr>)"
    using Cons.IH [of "s\<lparr>tick := Suc (tick s)\<rparr>"] Cons.prems by auto
  then have "check_records E (Some b) args nowTime n (r # rs) s = (Ret False, s\<lparr>tick := m\<rparr>)"
    by (simp add: r run_steps v mpc_deref_def extern_def st on_chain_def Let_def)
  then show ?case ..
qed

lemma CheckAcceptRecord_passes:
  assumes "none_stands E dst (getSwapKeyPrefix args) (lvldbHandle s)"
    and "GetBridgeByChainID (acc_routers E) (bi_String (args_ToChainID (swapArgs args))) = Some dst"
  shows "\<exists>m. CheckAcceptRecord E args s = (Ret (), s\<lparr>tick := m\<rparr>)"
proof (cases "lvldbHandle s")
  case None
  then show ?thesis by (intro exI [of _ "tick s"]) (simp add: CheckAcceptRecord_def run_steps)
next
  case (Some kv)
  let ?p = "getSwapKeyPrefix args"
  obtain nw t where now: "(acc_now E :: int accepting) s = (Ret nw, s\<lparr>tick := t\<rparr>)"
    by (simp add: acc_now_def Unix_now_def run_steps extern_def)
  have "set (lvl_Iterator E t ?p kv) = {(k, v). kv k = Some v \<and> take (length ?p) k = ?p}"
    using assms(1) Some by (simp add: none_stands_def documented_lvl_def)
  then have "\<forall>(key, buf)\<in>set (lvl_Iterator E t ?p kv). 8 \<le> length buf \<and> failed_on_chain dst (drop (length ?p) key)"
    using assms(1) Some by (auto simp: none_stands_def)
  from check_records_passes [OF this, of E args nw "s\<lparr>tick := Suc t\<rparr>"] obtain m where
    "check_records E (Some dst) args nw (length ?p) (lvl_Iterator E t ?p kv) (s\<lparr>tick := Suc t\<rparr>) = (Ret False, s\<lparr>tick := m\<rparr>)" by auto
  with Some now assms(2) have "CheckAcceptRecord E args s = (Ret (), s\<lparr>tick := m\<rparr>)"
    by (simp add: CheckAcceptRecord_def run_steps extern_def Let_def)
  then show ?thesis ..
qed

lemma honest_request:
  assumes "BuildRawTransaction (eth server) args s = (Ret (tx, args1), s1)" and "updateGasPrice server tx args1 u = (Ret (tx2, args2), u')"
    and "same_config server oracle" and "getMinReserveFee (eth oracle) = Ret m" and "m \<le> 0"
    and "si_MsgContext info = c # cs" and "Unmarshal_args E c = Inr (GetExtraArgs args2)"
    and "si_MsgHash info = [Encode (Signer_Hash (cryptolib (eth server)) (Signer_of (eth server)) (tx_data tx2))]"
    and "accept_args E swapInfo args = args" and "IsMPCInitiator (acc_params E) (si_Account info)" and "IsValidType (args_SwapType (swapArgs args))"
    and "GetBridgeByChainID (acc_routers E) (bi_String (args_FromChainID (swapArgs args))) = Some src"
    and "GetBridgeByChainID (acc_routers E) (bi_String (args_ToChainID (swapArgs args))) = Some dst"
    and "\<And>t. verifyTransaction src t (args_SwapID (swapArgs args))
      \<lparr>va_SwapType = args_SwapType (swapArgs args), va_LogIndex = args_LogIndex (swapArgs args), AllowUnstable = False\<rparr> = Inr swapInfo"
    and "args_ToChainID (swapArgs args) \<noteq> None"
    and "bridge_BuildRawTransaction E dst = evm_build oracle" and "bridge_VerifyMsgHash E dst = VerifyMsgHash oracle"
    and "none_stands E dst (getSwapKeyPrefix args) (lvldbHandle t)"
  shows "\<exists>save n. verifySignInfo E info t = (Ret save, t\<lparr>tick := n\<rparr>) \<and>
    (save \<noteq> None \<longleftrightarrow> lvldbHandle t \<noteq> None \<and> 0 < GetTxNonce args2)"
proof -
  let ?sw = "swapArgs args" and ?args = "args\<lparr>args_Extra := args_Extra args2\<rparr>"
  have keep: "swapArgs args2 = ?sw" "args_From args2 = args_From args"
    using BuildRawTransaction_keeps [OF assms(1)] updateGasPrice_keeps_swap [OF assms(2)] by simp_all
  from rebuild [OF assms(1-3)] obtain x e cc where x: "args_Extra args2 = Some x" by blast
  have b: "BuildRawTransaction (eth oracle) ?args v = (Ret (tx2, args2), v)" for v :: accept_store
  proof -
    from rebuild [OF assms(1-3), of v] obtain e cc where "bridgeChainConfig (bridge (eth server)) = Some cc"
      "BuildRawTransaction (eth oracle) ?args v =
        sbind (check_reserve (eth oracle) args2 e (IsDynamicFeeTxEnabled (params_of (eth server)) (cc_ChainID cc)) (the (Gas e))) (\<lambda>_. sret (tx2, args2)) v"
      by auto
    with assms(4,5) show ?thesis by (simp add: check_reserve_def run_steps)
  qed
  have hash: "VerifyMsgHash oracle (Some tx2) (si_MsgHash info) = Ret ()" using assms(3,8) by (simp add: VerifyMsgHash_def same_config_def)
  have "args_Bind (swapArgs (accept_args E swapInfo args)) = tx_Bind swapInfo" "args_ToChainID (swapArgs (accept_args E swapInfo args)) = tx_ToChainID swapInfo"
    "args_Identifier (swapArgs (accept_args E swapInfo args)) = GetIdentifier (acc_params E)"
    by (simp_all add: accept_args_def with_info_def)
  then have info: "tx_Bind swapInfo = args_Bind ?sw" "tx_ToChainID swapInfo = args_ToChainID ?sw" "args_Identifier ?sw = GetIdentifier (acc_params E)"
    unfolding assms(9) by simp_all
  from assms(15) obtain toID where to: "args_ToChainID ?sw = Some toID" by blast
  have req: "swapArgs (GetExtraArgs args2) = ?sw" by (simp add: GetExtraArgs_def keep)
  have build: "bridge_BuildRawTransaction E dst (accept_args E swapInfo (GetExtraArgs args2)) v = (Ret (Some tx2, args2), v)" for v
    unfolding accept_args_of_request [OF assms(9) keep] assms(16) by (rule evm_build_Ret [OF b])
  have "bridge_VerifyMsgHash E dst (Some tx2) (si_MsgHash info) = Ret ()" unfolding assms(17) by (rule hash)
  note rebuilds = rebuildAndVerifyMsgHash_runs [where args = "GetExtraArgs args2" and to = toID, unfolded req, OF assms(11-14) _ to _ build this]
  have nonce: "GetTxNonce (GetExtraArgs args2) = GetTxNonce args2" by (simp add: GetTxNonce_def GetExtraArgs_def)
  have pre: "getSwapKeyPrefix (GetExtraArgs args2) = getSwapKeyPrefix args" by (simp add: getSwapKeyPrefix_def req)
  obtain n where check: "(if lvldbHandle t \<noteq> None \<and> GetTxNonce (GetExtraArgs args2) > 0 then CheckAcceptRecord E (GetExtraArgs args2) else sret ()) t =
      (Ret (), t\<lparr>tick := n\<rparr>)"
  proof (cases "lvldbHandle t \<noteq> None \<and> GetTxNonce (GetExtraArgs args2) > 0")
    case True
    with CheckAcceptRecord_passes [of E dst "GetExtraArgs args2" t, unfolded pre req, OF assms(18,13)] that show thesis by auto
  next
    case False
    with that [of "tick t"] show thesis by (auto simp: sret_def)
  qed
  show ?thesis
    using rebuilds [of "si_Key info" "t\<lparr>tick := n\<rparr>"] info to check
    by (auto simp: verifySignInfo_def assms(6,7,10) req info(3) run_steps EqualFold_refl nonce split: if_splits)
qed

section \<open>An oracle that is asked to sign\<close>

definition sample_info :: SwapTxInfo where
  "sample_info =
     (let args = sample_payment; sw = swapArgs args in
      \<lparr>erc20Info = erc20Info sw, nftInfo = None, anycallInfo = None, curveInfo = None, tx_SwapType = args_SwapType sw, tx_Hash = args_SwapID sw,
       tx_Height = 100, tx_Timestamp = 0, tx_From = OriginFrom args, tx_TxTo = OriginTxTo args, tx_To = '''', tx_Bind = args_Bind sw,
       tx_Value = OriginValue args, tx_LogIndex = args_LogIndex sw, tx_FromChainID = args_FromChainID sw, tx_ToChainID = args_ToChainID sw\<rparr>)"

definition sample_swap_bridge :: IBridge where
  "sample_swap_bridge =
     \<lparr>base = NewCrossChainBridgeBase, isValidAddress = (\<lambda>_. True), getPairFor = None,
      getTransactionStatus = (\<lambda>_ _. (Some \<lparr>Sender = '''', Receipt = Some (WithStatus True), Confirmations = 1, BlockHeight = 9, BlockHash = '''',
        BlockTime = 0\<rparr>, None)),
      verifyTransaction = (\<lambda>_ _ _. Inr sample_info), mpcSignTransaction = (\<lambda>_ _ _. undefined), sendTransaction = (\<lambda>_ _. ('''', None)), getPoolNonce = None\<rparr>"

definition sample_accept :: "BuildTxArgs \<Rightarrow> accept_env" where
  "sample_accept request =
     \<lparr>acc_mpc = sample_mpc '''' '''',
      acc_routers = paying_router\<lparr>toks := (toks paying_router)\<lparr>prm := paying_params
        \<lparr>routerConfig := (routerConfig paying_params)\<lparr>Initiators := [''0xinitiator'']\<rparr>\<rparr>\<rparr>, RouterBridges := (\<lambda>_. Some sample_swap_bridge)\<rparr>,
      locDataDir = '''', Unmarshal_args = (\<lambda>_. Inr request), error_text = (\<lambda>_. ''''),
      bridge_BuildRawTransaction = (\<lambda>_. evm_build (quoting 999)), bridge_VerifyMsgHash = (\<lambda>_. VerifyMsgHash (quoting 999)),
      bridge_GetTransaction = (\<lambda>_ _ _. Inl ErrNotFound), bridge_GetSignedTxHashOfKeyID = (\<lambda>_. None), popped_info = (\<lambda>_ _. ''''),
      lvl_New = (\<lambda>_ _. Inr Map.empty), lvl_Get = (\<lambda>_ k kv. case kv k of Some v \<Rightarrow> Inr v | None \<Rightarrow> Inl ('''', True)),
      lvl_Put = (\<lambda>_ k v kv. (None, kv(k \<mapsto> v))),
      lvl_Iterator = (\<lambda>_ p kv. map (\<lambda>k. (k, the (kv k))) (sorted_list_of_set {k \<in> dom kv. take (length p) k = p}))\<rparr>"

definition sample_request :: "Transaction \<Rightarrow> SignInfoData" where
  "sample_request tx =
     \<lparr>si_Account = ''0xinitiator'', si_GroupID = '''', si_Key = ''0xkey'', si_KeyType = ''ECDSA'', si_Mode = '''',
      si_MsgHash = [Encode (Signer_Hash sample_crypto (LondonSigner 56) (tx_data tx))], si_MsgContext = [''args''], si_Nonce = '''',
      si_PubKey = '''', si_ThresHold = '''', si_TimeStamp = '''', si_timestamp = 0\<rparr>"

definition accept_start :: "(string \<rightharpoonup> bytes) option \<Rightarrow> accept_store" where
  "accept_start handle = sign_store.extend sign_start \<lparr>cachedAcceptInfos = {}, isPendingInvalidAccept = False, lvldbHandle = handle\<rparr>"

lemma sample_accept_facts:
  "IsMPCInitiator (acc_params (sample_accept r)) (si_Account (sample_request tx))" "GetIdentifier (acc_params (sample_accept r)) = ''''"
  "GetBridgeByChainID (acc_routers (sample_accept r)) c = Some sample_swap_bridge" "verifyTransaction sample_swap_bridge n h a = Inr sample_info"
  "si_MsgContext (sample_request tx) = [''args'']" "Unmarshal_args (sample_accept r) m = Inr r"
  "si_MsgHash (sample_request tx) = [Encode (Signer_Hash (cryptolib (eth (quoting 100))) (Signer_of (eth (quoting 100))) (tx_data tx))]"
  "bridge_BuildRawTransaction (sample_accept r) b = evm_build (quoting 999)" "bridge_VerifyMsgHash (sample_accept r) b = VerifyMsgHash (quoting 999)"
  "lvldbHandle (accept_start handle) = handle"
  by (simp_all add: sample_accept_def sample_request_def acc_params_def IsMPCInitiator_def GetBridgeByChainID_def sample_swap_bridge_def accept_start_def
      quoting_def paying_env_def signing_env_def paying_params_def zero_config_def init_params_def GetIdentifier_def sign_store.extend_def)

text \<open>
  C11: the verification of an oracle passes the request that an honest server makes: when the server
  builds a transaction for a swap that the oracle verifies to the same information, raises its price
  and asks for its signature with the extra arguments in the message, the verification returns
  without an error, whatever price, gas limit, nonce and time the oracle's own nodes would have
  given, and asks for the swap to be saved if the database is open and the nonce is not 0. The server
  and the oracle share their configuration (\<open>same_config\<close>), no reserve is demanded of the sender, the
  message decodes to the extra arguments that were encoded, and no earlier transaction of the swap
  stands: the database of accepted swaps is closed, or it behaves as documented and every
  transaction recorded for the swap is reported as failed on chain.
\<close>

theorem honest_request_agreed:
  assumes "BuildRawTransaction (eth server) args s = (Ret (tx, args1), s1)" and "updateGasPrice server tx args1 u = (Ret (tx2, args2), u')"
    and "same_config server oracle" and "getMinReserveFee (eth oracle) = Ret m" and "m \<le> 0"
    and "si_MsgContext info = c # cs" and "Unmarshal_args E c = Inr (GetExtraArgs args2)"
    and "si_MsgHash info = [Encode (Signer_Hash (cryptolib (eth server)) (Signer_of (eth server)) (tx_data tx2))]"
    and "accept_args E swapInfo args = args" and "IsMPCInitiator (acc_params E) (si_Account info)" and "IsValidType (args_SwapType (swapArgs args))"
    and "GetBridgeByChainID (acc_routers E) (bi_String (args_FromChainID (swapArgs args))) = Some src"
    and "GetBridgeByChainID (acc_routers E) (bi_String (args_ToChainID (swapArgs args))) = Some dst"
    and "\<And>t. verifyTransaction src t (args_SwapID (swapArgs args))
      \<lparr>va_SwapType = args_SwapType (swapArgs args), va_LogIndex = args_LogIndex (swapArgs args), AllowUnstable = False\<rparr> = Inr swapInfo"
    and "args_ToChainID (swapArgs args) \<noteq> None"
    and "bridge_BuildRawTransaction E dst = evm_build oracle" and "bridge_VerifyMsgHash E dst = VerifyMsgHash oracle"
    and "none_stands E dst (getSwapKeyPrefix args) (lvldbHandle t)"
  shows "\<exists>save n. verifySignInfo E info t = (Ret save, t\<lparr>tick := n\<rparr>) \<and>
    (save \<noteq> None \<longleftrightarrow> lvldbHandle t \<noteq> None \<and> 0 < GetTxNonce args2)"
  by (rule honest_request [OF assms])

lemma sample_accept_args: "accept_args (sample_accept r) sample_info sample_payment = sample_payment"
  "IsValidType (args_SwapType (swapArgs sample_payment))" "args_ToChainID (swapArgs sample_payment) \<noteq> None"
  by (simp_all add: accept_args_def sample_accept_facts sample_info_def Let_def with_info_def sample_payment_def sample_order_def sample_build_def
      SwapInfo.truncate_def IsValidType_def swap_types)

lemma sample_accept_start: "tick (accept_start handle) = 0" "cachedAcceptInfos (accept_start handle) = {}" "mpcs (accept_start handle) = sample_mpcs"
  "isPendingInvalidAccept (accept_start handle) = False"
  by (simp_all add: accept_start_def sign_start_def sign_store.extend_def build_store.extend_def build_start_def store.extend_def no_store_def)

lemma sample_verified:
  obtains tx2 args2 where "td_Price (tx_data tx2) = Some 110"
    "\<And>t. lvldbHandle t = None \<Longrightarrow> \<exists>n. verifySignInfo (sample_accept (GetExtraArgs args2)) (sample_request tx2) t = (Ret None, t\<lparr>tick := n\<rparr>)"
proof -
  obtain tx args1 s1 tx2 args2 u' where b: "BuildRawTransaction (eth (quoting 100)) sample_payment build_start = (Ret (tx, args1), s1)"
    and u: "updateGasPrice (quoting 100) tx args1 sign_start = (Ret (tx2, args2), u')" and p: "td_Price (tx_data tx2) = Some 110"
    by (rule quoting_signed)
  have "\<exists>n. verifySignInfo (sample_accept (GetExtraArgs args2)) (sample_request tx2) t = (Ret None, t\<lparr>tick := n\<rparr>)" if "lvldbHandle t = None" for t
  proof -
    have "none_stands (sample_accept (GetExtraArgs args2)) sample_swap_bridge p (lvldbHandle t)" for p using that by (simp add: none_stands_def)
    from honest_request [OF b u quoting_agree order_refl sample_accept_facts(5,6,7) sample_accept_args(1) sample_accept_facts(1) sample_accept_args(2)
        sample_accept_facts(3,3,4) sample_accept_args(3) sample_accept_facts(8,9) this] that show ?thesis by auto
  qed
  with p show thesis by (rule that)
qed

lemma sample_accept_sent:
  assumes "mpcs s = sample_mpcs"
  shows "\<exists>v s'. DoAcceptSign (sample_mpc '''' '''') keyID res h c s = (Ret v, s')"
proof -
  have node: "defaultMPCNode sample_mpcs = Some sample_node" by (simp add: sample_mpcs_def)
  obtain raw where raw: "BuildMPCRawTx (sample_mpc '''' '''') 0 [1] (keyWrapper sample_node) = Ret raw" using sample_raw by blast
  have now: "NowMilliStr (sample_mpc '''' '''') t = (Ret (big_String (int (tick t) * 1000)), t\<lparr>tick := Suc (tick t)\<rparr>)" for t :: "'x sign_store_scheme"
    by (simp add: NowMilliStr_def NowMilli_def run_steps extern_def sample_mpc_def memory_env_def sgn_mult abs_mult mult.commute)
  have m: "Marshal_AcceptData (sample_mpc '''' '''') d = Inr [1]" for d by (simp add: sample_mpc_def)
  have post: "\<exists>v t'. post_result (sample_mpc '''' '''') addr ''acceptSign'' p pre t = (Ret v, t')" for addr p pre and t :: "'x sign_store_scheme"
    by (simp add: post_result_def sample_mpc_def extern_def run_steps successStatus_def mpc_deref_def)
  show ?thesis using post
    by (simp add: DoAcceptSign_def AcceptSign_def default_rpc_def run_steps now m assms node mpc_deref_def raw)
qed


lemma sample_documented: "documented_lvl (sample_accept r)"
  by (auto simp: documented_lvl_def sample_accept_def)

theorem saved_swap_refused_witness:
  "\<exists>s1 kv1. AddAcceptRecord (sample_accept (GetExtraArgs sample_payment)) sample_payment ''0xtx'' (accept_start (Some Map.empty)) = (Ret (), s1) \<and>
     lvldbHandle s1 = Some kv1 \<and>
     (\<forall>tx save s'. processAcceptInfo (sample_accept (GetExtraArgs sample_payment)) (sample_request tx) s1 \<noteq> (Ret (Some acceptAgree, save), s'))"
proof -
  let ?E = "sample_accept (GetExtraArgs sample_payment)" and ?k = "getSwapKeyPrefix sample_payment @ ''0xtx''"
  let ?s1 = "(accept_start (Some Map.empty))\<lparr>tick := 2, lvldbHandle := Some [?k \<mapsto> int64ToBytes 0]\<rparr>"
  have put: "lvl_Put ?E t k v kv = (None, kv(k \<mapsto> v))" for t k v kv by (simp add: sample_accept_def)
  have nw: "acc_now ?E t = (Ret 0, t\<lparr>tick := Suc (tick t)\<rparr>)" if "tick t = 0" for t
    using that by (simp add: acc_now_def sample_accept_def sample_mpc_def Unix_now_def run_steps extern_def memory_env_def)
  have add: "AddAcceptRecord ?E sample_payment ''0xtx'' (accept_start (Some Map.empty)) = (Ret (), ?s1)"
    by (simp add: AddAcceptRecord_def run_steps sample_accept_facts sample_accept_start nw extern_def put numeral_2_eq_2)
  have h: "lvldbHandle ?s1 = Some [?k \<mapsto> int64ToBytes 0]" by simp
  have st: "\<exists>st. getTransactionStatus sample_swap_bridge t ''0xtx'' = (Some st, None) \<and> 0 < BlockHeight st \<and> Receipt st \<noteq> Some (WithStatus False)" for t
    by (simp add: sample_swap_bridge_def)
  have pre: "getSwapKeyPrefix (GetExtraArgs sample_payment) = getSwapKeyPrefix sample_payment" by (simp add: getSwapKeyPrefix_def GetExtraArgs_def)
  have nonce: "0 < GetTxNonce (GetExtraArgs sample_payment)" by (simp add: GetTxNonce_def GetExtraArgs_def sample_payment_def)
  have fin: "finite (dom [?k \<mapsto> int64ToBytes 0])" by simp
  have "processAcceptInfo ?E (sample_request tx) ?s1 \<noteq> (Ret (Some acceptAgree, save), s')" for tx save s'
    by (rule saved_swap_refused [OF sample_documented add sample_accept_facts(10) h h order_refl fin sample_accept_facts(5,6) pre nonce sample_accept_facts(3) st])
  with add h show ?thesis by blast
qed

theorem honest_request_agreed_witness:
  "\<exists>tx2 args2 save n. td_Price (tx_data tx2) = Some 110 \<and>
     verifySignInfo (sample_accept (GetExtraArgs args2)) (sample_request tx2) (accept_start (Some Map.empty)) =
       (Ret save, (accept_start (Some Map.empty))\<lparr>tick := n\<rparr>)"
proof -
  obtain tx args1 s1 tx2 args2 u' where b: "BuildRawTransaction (eth (quoting 100)) sample_payment build_start = (Ret (tx, args1), s1)"
    and u: "updateGasPrice (quoting 100) tx args1 sign_start = (Ret (tx2, args2), u')" and p: "td_Price (tx_data tx2) = Some 110"
    by (rule quoting_signed)
  have "none_stands (sample_accept (GetExtraArgs args2)) sample_swap_bridge pre (lvldbHandle (accept_start (Some Map.empty)))" for pre
    by (simp add: none_stands_def sample_accept_facts sample_documented)
  from honest_request_agreed [OF b u quoting_agree order_refl sample_accept_facts(5,6,7) sample_accept_args(1) sample_accept_facts(1) sample_accept_args(2)
    sample_accept_facts(3,3,4) sample_accept_args(3) sample_accept_facts(8,9) this] p show ?thesis by blast
qed

end
