(* ===== verification/Spec2Isabelle.thy ===== *)
theory Spec2Isabelle
  imports ResultMachine Delivery TradeReplace Accept
begin

text \<open>
  Verification of the checkTx router server (Go).

  \<^bold>\<open>The program.\<close> A router moves tokens between chains. A user deposits into a router contract; the server
  registers the deposit as a swap, verifies it on the source chain, builds the transaction that pays it out on
  the target chain, has it signed by a network of oracles (MPC), sends it, watches it and replaces it when it is
  not mined. Every oracle runs the same program in another role: it checks each sign request by verifying the swap
  and building the transaction again. What can go wrong is therefore paying what was not deposited, paying
  twice, paying the wrong account, signing what was not verified, and losing a deposit; the properties are about these.

  \<^bold>\<open>The parts\<close>, with the files under \<open>src/\<close> and the theories that model them:

  \<^item> \<open>Prelude\<close>, \<open>GoLib\<close>: Go's data and outcomes (a value, an error, a panic), calls that change a state, and the
    parts of the standard library that are used. \<open>evolution\<close> is the contract of a reflexive and transitive
    relation between states that all operations keep.
  \<^item> \<open>CMath\<close> (\<open>common/math\<close>), \<open>Common\<close> (\<open>common\<close>), \<open>Codec\<close> and \<open>HexUtil\<close> (\<open>common/hexutil\<close>), \<open>AbiCoder\<close>
    (\<open>tokens/eth/abicoder\<close>), \<open>Rlp\<close> and \<open>RlpStream\<close> (\<open>tools/rlp\<close>), \<open>Transactions\<close> (\<open>types\<close>): numbers, texts,
    call data and transactions. The locale \<open>codec\<close> states the contract of an encoder with its decoder; it is interpreted
    on the hexadecimal texts, the addresses and the RLP decoder.
  \<^item> \<open>Params\<close> (\<open>params/config.go\<close>, \<open>checkconfig.go\<close>), \<open>Tokens\<close> (\<open>tokens\<close>), \<open>Router\<close> (\<open>router/types.go\<close>): the
    configuration and the process-wide tables derived from it, swap types and swap values. The locale \<open>member_table\<close> is the
    contract of the black lists and white lists.
  \<^item> \<open>VerifyERC20\<close>, \<open>VerifyNFT\<close> (\<open>tokens/eth/verify*.go\<close>, \<open>register.go\<close>, the verifying half of \<open>nftswap.go\<close> and
    \<open>anycallswap.go\<close>), \<open>EthCalls\<close> (\<open>callapi.go\<close>, \<open>callcontract.go\<close>): verification of deposits, and the queries to the nodes it
    rests on. The locale \<open>swap_kind\<close> is the contract that the three kinds of swap share.
  \<^item> \<open>SwapStore\<close>, \<open>SwapStoreLaws\<close>, \<open>SwapStoreOps\<close> (\<open>mongodb\<close>): the collections of swaps, results and used r values, and
    every operation that changes them. \<open>documented_store\<close> and \<open>store_evolution\<close> are the contracts of the driver.
  \<^item> \<open>NonceSetter\<close> (\<open>tokens/base\<close>): the next nonce of every account.
  \<^item> \<open>Worker\<close>, \<open>WorkerJobs\<close> (\<open>worker\<close>): the handlers of the server's jobs. \<open>WorkerLaws\<close>, \<open>WorkerRuns\<close>, \<open>StatusMachine\<close>,
    \<open>ResultMachine\<close> and \<open>Delivery\<close> hold what runs of them guarantee: \<open>job_step\<close> and \<open>current_step\<close> are the step relations
    of the server, \<open>status_step\<close> is the graph of \<open>mongodb/status.go\<close>.
  \<^item> \<open>EthBuild\<close> (\<open>buildtx.go\<close>, \<open>builderc20swaptx.go\<close>, the building half of \<open>nftswap.go\<close> and \<open>anycallswap.go\<close>) builds the paying
    transactions; \<open>Payments\<close> reads back what they pay, \<open>TradeReplace\<close> composes the replacement job with the builder.
  \<^item> \<open>Mpc\<close> (\<open>mpc\<close>): the client of the signing network: sign requests, sign groups and their failures, used r values,
    and the oracle's view of the requests.
  \<^item> \<open>EthSign\<close> (\<open>signtx.go\<close>, \<open>sendtx.go\<close>, \<open>VerifyMsgHash\<close>): signing and sending. \<open>Rebuild\<close> relates the
    transaction the server builds to the one an oracle builds from the same request.
  \<^item> \<open>Accept\<close> (\<open>worker/accept.go\<close>, \<open>acceptdb.go\<close>): the oracle's verdict on every sign request and its database of accepted
    swaps.

  \<^bold>\<open>How state and operations correspond.\<close> A Go function that can fail returns an \<open>outcome\<close>: \<open>Ret\<close>, \<open>Err\<close> with the error
  as a datatype (its text where the code compares or prints it), or \<open>Panic\<close> for a run-time panic and for \<open>log.Fatal\<close>. A function that
  changes variables of its package is a \<open>stateful\<close> computation over a record; the records extend one another in
  the order in which the packages use each other: \<open>store\<close> (the collections, with a counter \<open>tick\<close> of the questions asked
  to the world), \<open>build_store\<close> (nonces, the latest gas price), \<open>sign_store\<close> (the signing network's client) and \<open>accept_store\<close> (the accept
  job's variables). The state keeps what was written before an error, as in Go. What the program asks of the outside is a
  function of an environment record that gets the value of \<open>tick\<close>, so that equal questions may have different answers:
  the nodes (\<open>eth_rpc\<close>, \<open>eth_node\<close>), the MongoDB driver (\<open>mgo_env\<close>), the signing nodes (\<open>mpc_env\<close>), the operations of
  \<open>tokens.IBridge\<close> (\<open>IBridge\<close>, \<open>accept_env\<close>), JSON coding, Keccak, elliptic curves and goleveldb. Strings are lists of
  ASCII characters; \<open>uint64\<close> values are naturals below \<open>W64\<close> with the wrap-around written out, \<open>big.Int\<close> values are integers and a
  pointer that may be nil is an option.

  \<^bold>\<open>What the groups of lemmas show.\<close>

  \<^item> Verification: a verified swap rests on a receipt that a configured node gave, on a log of the configured router
    contract, and, for a token with an underlying token, on a deposit of the value; it names this chain, configured tokens and a valid receiver.
  \<^item> Values: what is paid is the deposit less a fee between the configured bounds (moved by the base fee percentage of the
    target chain), in the decimals of the target.
  \<^item> Sending (in serial mode, for keys that are not found in other keys): a swap is handed to the node at most once unless it is reset, a nonce that is
    recorded in a result stays, a nonce is handed out once and once more for each time it is given back, and the nonce of a sent
    transaction is passed; while the outside works exactly one transaction is sent.
  \<^item> Watching: in every run of the handlers and of the store operations, every change of a registered swap's status follows
    \<open>status_step\<close>, the graph drawn in status.go with the edges that the code adds (named at the theorem), provided that no swap's
    key is found in another key; the changes by the verification and of the results are justified by what a node said; a replacement has the nonce and the
    sender of the transaction it replaces.
  \<^item> Building and signing: the built call data reads back as the payment of the swap; what comes back from the network
    is signed by the MPC account and differs from what was built only in signature and raised price; no two signatures share an r value.
  \<^item> Oracles: agreement implies verification; a saved swap is refused while its transaction is on chain and not failed; an honest request
    passes the verification of every oracle that shares the configuration, demands no reserve and has no standing record of the
    swap, whatever its nodes quote.
  \<^item> Encodings: round trips of call data, RLP, transactions and hexadecimal texts, and the buffer of the RLP
    encoder against the plain definition of RLP.

  \<^bold>\<open>Bounds and fuel.\<close> \<open>DecodeBytes\<close> has fuel of one more than the length of its input, which the round trip shows to be enough for
  every encoded value; the outcome \<open>NonTerminating\<close> is reached where the code itself never returns (reading
  an array of one byte). The loop over sign groups takes as many rounds as there are usable groups; loops with a timer
  (the result of a sign request, the resending of a transaction) run for a number of rounds that the environment gives,
  so the theorems hold for every time. Loops that count retries have the code's counts. All other definitions are
  structural or have a termination proof.

  \<^bold>\<open>Hypotheses.\<close> \<open>documented\<close> and \<open>documented_store\<close> state what MongoDB documents of finding, inserting and updating
  documents and the unique \<open>_id\<close>; \<open>documented_lvl\<close> states what goleveldb documents of writing and of iterating over a prefix; \<open>same_config\<close>
  states that server and oracle share tables, chain and signer. Each is met by a concrete environment, on which the witnesses
  evaluate the code. Signature recovery is assumed of the curve only in the theorem that a
  receiver accepts a signed request.

  \<^bold>\<open>Not modelled.\<close> Every handler runs without interruption between its questions to the world; interleavings inside a handler are covered
  only where a theorem quantifies over operations in between. The endless loops of the jobs, sleeping, logging and the limit on
  goroutines are left out. JSON decoding of the nodes' answers is part of the environment: an answer comes as the decoded record, and
  types that decode themselves in RLP are not covered. The RLP coder works on a datatype of Go types instead of
  reflection. Start-up (\<open>cmd\<close>, the checks of \<open>mpc.Init\<close>, \<open>router/bridge\<close>, \<open>router/onchainconfig.go\<close>, \<open>params/serverconfig.go\<close>,
  \<open>tokens/bridgeconfig.go\<close>) fills the tables that are initial states here; the front ends (\<open>rpc\<close>, \<open>internal/swapapi\<close>), the explorer's
  queries (\<open>mongodb/bridgeapi.go\<close>), \<open>admin\<close>, \<open>tokens/btc\<close>, keystores, \<open>leveldb\<close> and \<open>log\<close> are input and output or
  wrap libraries whose code is not here.
\<close>

end
